(* ===== verification/Prelude.thy ===== *)
theory Prelude
  imports Main "HOL-Library.Word"
begin

text \<open>
  Shared vocabulary of the development: the machine integer types of the C++ sources, the
  exception values a simulated instruction may raise, the state-and-exception monad in which
  the stateful components are written, bit fields of a 32-bit register, and the lemma
  collections that carry the component proofs.
\<close>

unbundle bit_operations_syntax

section \<open>Machine integers\<close>

type_synonym u8 = "8 word"
type_synonym u16 = "16 word"
type_synonym u32 = "32 word"
type_synonym u64 = "64 word"

named_theorems field_simps_vp \<open>reading and writing bit fields\<close>
named_theorems monad_simps \<open>unfolding the state-and-exception monad on a state\<close>
named_theorems safe_rules \<open>compositional rules for invariants of monadic code\<close>

section \<open>Exceptions\<close>

text \<open>
  A C++ exception or a failed assertion ends the current operation but keeps every state
  change made before it. \<open>SimulationTrap\<close> is the RISC-V trap of \<^verbatim>\<open>core/common/trap.h\<close>,
  \<open>RuntimeError\<close> a \<^verbatim>\<open>std::runtime_error\<close> (or another library exception) that nothing in the
  simulated core handles, \<open>AssertFail\<close> an \<^verbatim>\<open>assert\<close> that aborts the process.
\<close>

datatype error =
    SimulationTrap u32 u64
  | RuntimeError string
  | AssertFail string

type_synonym ('s, 'a) smonad = "'s \<Rightarrow> (error + 'a) \<times> 's"

definition return_m :: "'a \<Rightarrow> ('s, 'a) smonad" where
  "return_m x = (\<lambda>s. (Inr x, s))"

definition bind_m :: "('s, 'a) smonad \<Rightarrow> ('a \<Rightarrow> ('s, 'b) smonad) \<Rightarrow> ('s, 'b) smonad" where
  "bind_m m f = (\<lambda>s. case m s of (Inl e, s') \<Rightarrow> (Inl e, s') | (Inr x, s') \<Rightarrow> f x s')"

definition then_m :: "('s, 'a) smonad \<Rightarrow> ('s, 'b) smonad \<Rightarrow> ('s, 'b) smonad" where
  "then_m m k = bind_m m (\<lambda>_. k)"

definition throw_m :: "error \<Rightarrow> ('s, 'a) smonad" where
  "throw_m e = (\<lambda>s. (Inl e, s))"

definition gets_m :: "('s \<Rightarrow> 'a) \<Rightarrow> ('s, 'a) smonad" where
  "gets_m f = (\<lambda>s. (Inr (f s), s))"

definition modify_m :: "('s \<Rightarrow> 's) \<Rightarrow> ('s, unit) smonad" where
  "modify_m f = (\<lambda>s. (Inr (), f s))"

definition catch_m :: "('s, 'a) smonad \<Rightarrow> (error \<Rightarrow> ('s, 'a) smonad) \<Rightarrow> ('s, 'a) smonad" where
  "catch_m m h = (\<lambda>s. case m s of (Inl e, s') \<Rightarrow> h e s' | (Inr x, s') \<Rightarrow> (Inr x, s'))"

definition when_m :: "bool \<Rightarrow> ('s, unit) smonad \<Rightarrow> ('s, unit) smonad" where
  "when_m b m = (if b then m else return_m ())"

definition assert_m :: "string \<Rightarrow> bool \<Rightarrow> ('s, unit) smonad" where
  "assert_m msg b = (if b then return_m () else throw_m (AssertFail msg))"

lemma return_m_apply [simp, monad_simps]: "return_m x s = (Inr x, s)"
  by (simp add: return_m_def)

lemma throw_m_apply [simp, monad_simps]: "throw_m e s = (Inl e, s)"
  by (simp add: throw_m_def)

lemma gets_m_apply [simp, monad_simps]: "gets_m f s = (Inr (f s), s)"
  by (simp add: gets_m_def)

lemma modify_m_apply [simp, monad_simps]: "modify_m f s = (Inr (), f s)"
  by (simp add: modify_m_def)

lemma bind_m_apply [monad_simps]:
  "bind_m m f s = (case m s of (Inl e, s') \<Rightarrow> (Inl e, s') | (Inr x, s') \<Rightarrow> f x s')"
  by (simp add: bind_m_def)

lemma then_m_apply [monad_simps]:
  "then_m m k s = (case m s of (Inl e, s') \<Rightarrow> (Inl e, s') | (Inr x, s') \<Rightarrow> k s')"
  by (simp add: then_m_def bind_m_def)

lemma catch_m_apply [monad_simps]:
  "catch_m m h s = (case m s of (Inl e, s') \<Rightarrow> h e s' | (Inr x, s') \<Rightarrow> (Inr x, s'))"
  by (simp add: catch_m_def)

lemma when_m_apply [monad_simps]: "when_m b m s = (if b then m s else (Inr (), s))"
  by (simp add: when_m_def)

lemma assert_m_apply [monad_simps]:
  "assert_m msg b s = (if b then (Inr (), s) else (Inl (AssertFail msg), s))"
  by (simp add: assert_m_def)

lemma bind_m_Inr: "m s = (Inr x, s') \<Longrightarrow> bind_m m f s = f x s'"
  by (simp add: bind_m_def)

lemma bind_m_Inl: "m s = (Inl e, s') \<Longrightarrow> bind_m m f s = (Inl e, s')"
  by (simp add: bind_m_def)

lemma bind_m_gets [simp]: "bind_m (gets_m g) f s = f (g s) s"
  by (simp add: bind_m_def)

lemma bind_m_return [simp]: "bind_m (return_m x) f = f x"
  by (simp add: bind_m_def fun_eq_iff)

lemma then_m_modify [simp]: "then_m (modify_m g) k s = k (g s)"
  by (simp add: then_m_def bind_m_def)

lemma then_m_return [simp]: "then_m (return_m x) k = k"
  by (simp add: then_m_def bind_m_def fun_eq_iff)

section \<open>Invariants of monadic code\<close>

text \<open>
  \<open>safe E I m Q\<close>: started in a state of the invariant \<open>I\<close>, the code \<open>m\<close> ends in such a state
  whatever its outcome, an exception it throws satisfies \<open>E\<close> and a value it returns satisfies \<open>Q\<close>.
  The rules follow the code.
\<close>

definition safe :: "(error \<Rightarrow> bool) \<Rightarrow> ('s \<Rightarrow> bool) \<Rightarrow> ('s, 'a) smonad \<Rightarrow> ('a \<Rightarrow> bool) \<Rightarrow> bool" where
  "safe E I m Q \<longleftrightarrow> (\<forall>s. I s \<longrightarrow> (case m s of
      (Inl e, s') \<Rightarrow> E e \<and> I s'
    | (Inr x, s') \<Rightarrow> Q x \<and> I s'))"

lemma safeI:
  assumes "\<And>s e s'. I s \<Longrightarrow> m s = (Inl e, s') \<Longrightarrow> E e \<and> I s'"
    and "\<And>s x s'. I s \<Longrightarrow> m s = (Inr x, s') \<Longrightarrow> Q x \<and> I s'"
  shows "safe E I m Q"
  unfolding safe_def
proof (intro allI impI)
  fix s assume I: "I s"
  obtain r s' where m: "m s = (r, s')" by (cases "m s")
  show "case m s of (Inl e, s') \<Rightarrow> E e \<and> I s' | (Inr x, s') \<Rightarrow> Q x \<and> I s'"
    using assms(1) [OF I] assms(2) [OF I] m by (cases r) simp_all
qed

lemma safe_Inl: "safe E I m Q \<Longrightarrow> I s \<Longrightarrow> m s = (Inl e, s') \<Longrightarrow> E e \<and> I s'"
  unfolding safe_def by (drule spec [of _ s]) simp

lemma safe_Inr: "safe E I m Q \<Longrightarrow> I s \<Longrightarrow> m s = (Inr x, s') \<Longrightarrow> Q x \<and> I s'"
  unfolding safe_def by (drule spec [of _ s]) simp

lemma safe_weaken:
  assumes "safe E I m P" and "\<And>x. P x \<Longrightarrow> Q x" and "\<And>e. E e \<Longrightarrow> E' e"
  shows "safe E' I m Q"
proof (rule safeI)
  fix s e s' assume "I s" and "m s = (Inl e, s')"
  from safe_Inl [OF assms(1) this] show "E' e \<and> I s'" using assms(3) by simp
next
  fix s x s' assume "I s" and "m s = (Inr x, s')"
  from safe_Inr [OF assms(1) this] show "Q x \<and> I s'" using assms(2) by simp
qed

lemma safe_return [safe_rules]: "Q x \<Longrightarrow> safe E I (return_m x) Q"
  by (simp add: safe_def)

lemma safe_throw [safe_rules]: "E e \<Longrightarrow> safe E I (throw_m e) Q"
  by (simp add: safe_def)

lemma safe_gets [safe_rules]: "(\<And>s. I s \<Longrightarrow> Q (f s)) \<Longrightarrow> safe E I (gets_m f) Q"
  by (simp add: safe_def)

lemma safe_modify [safe_rules]: "(\<And>s. I s \<Longrightarrow> I (f s)) \<Longrightarrow> Q () \<Longrightarrow> safe E I (modify_m f) Q"
  by (simp add: safe_def)

lemma safe_bind:
  assumes "safe E I m P" and "\<And>x. P x \<Longrightarrow> safe E I (f x) Q"
  shows "safe E I (bind_m m f) Q"
proof (rule safeI)
  fix s e s' assume "I s" and "bind_m m f s = (Inl e, s')"
  then show "E e \<and> I s'"
    by (cases "m s" rule: prod.exhaust; cases "fst (m s)")
      (auto simp: bind_m_def dest: safe_Inl [OF assms(1)] safe_Inr [OF assms(1)] safe_Inl [OF assms(2)])
next
  fix s x s' assume "I s" and "bind_m m f s = (Inr x, s')"
  then show "Q x \<and> I s'"
    by (cases "m s" rule: prod.exhaust; cases "fst (m s)")
      (auto simp: bind_m_def dest: safe_Inl [OF assms(1)] safe_Inr [OF assms(1)] safe_Inr [OF assms(2)])
qed

lemma safe_bind_gets [safe_rules]:
  "(\<And>s. I s \<Longrightarrow> safe E (\<lambda>t. I t) (f (g s)) Q) \<Longrightarrow> safe E I (bind_m (gets_m g) f) Q"
  by (auto simp: safe_def)

lemma safe_bind_any:
  assumes "safe E I m (\<lambda>_. True)" and "\<And>x. safe E I (f x) Q"
  shows "safe E I (bind_m m f) Q"
  using assms by (rule safe_bind)

lemma safe_then [safe_rules]:
  "safe E I m (\<lambda>_. True) \<Longrightarrow> safe E I k Q \<Longrightarrow> safe E I (then_m m k) Q"
  unfolding then_m_def by (rule safe_bind_any)

lemma safe_when [safe_rules]: "(b \<Longrightarrow> safe E I m Q) \<Longrightarrow> Q () \<Longrightarrow> safe E I (when_m b m) Q"
  by (simp add: when_m_def safe_return)

lemma safe_assert [safe_rules]: "b \<Longrightarrow> Q () \<Longrightarrow> safe E I (assert_m msg b) Q"
  by (simp add: assert_m_def safe_return)

lemma safe_assert_allowed: "E (AssertFail msg) \<Longrightarrow> Q () \<Longrightarrow> safe E I (assert_m msg b) Q"
  by (simp add: assert_m_def safe_return safe_throw)

lemma safe_if [safe_rules]:
  "(b \<Longrightarrow> safe E I m Q) \<Longrightarrow> (\<not> b \<Longrightarrow> safe E I k Q) \<Longrightarrow> safe E I (if b then m else k) Q"
  by simp

lemma safe_catch:
  assumes "safe E' I m Q" and "\<And>e. E' e \<Longrightarrow> safe E I (h e) Q"
  shows "safe E I (catch_m m h) Q"
proof (rule safeI)
  fix s e s' assume "I s" and "catch_m m h s = (Inl e, s')"
  then show "E e \<and> I s'"
    by (cases "m s" rule: prod.exhaust; cases "fst (m s)")
      (auto simp: catch_m_def dest: safe_Inl [OF assms(1)] safe_Inr [OF assms(1)] safe_Inl [OF assms(2)])
next
  fix s x s' assume "I s" and "catch_m m h s = (Inr x, s')"
  then show "Q x \<and> I s'"
    by (cases "m s" rule: prod.exhaust; cases "fst (m s)")
      (auto simp: catch_m_def dest: safe_Inl [OF assms(1)] safe_Inr [OF assms(1)] safe_Inr [OF assms(2)])
qed

section \<open>Bit fields of a 32-bit register\<close>

text \<open>
  A C++ bit field \<^verbatim>\<open>unsigned name : len\<close> at bit position \<open>pos\<close> of a union with a \<^verbatim>\<open>uint32_t reg\<close>
  is the pair \<open>(pos, len)\<close>; reading it yields the field's value, assigning it truncates the
  assigned value to \<open>len\<close> bits and leaves every other bit of the register alone.
\<close>

type_synonym bitfield = "nat \<times> nat"

definition bf_get :: "bitfield \<Rightarrow> u32 \<Rightarrow> u32" where
  "bf_get f w = take_bit (snd f) (drop_bit (fst f) w)"

definition bf_set :: "bitfield \<Rightarrow> u32 \<Rightarrow> u32 \<Rightarrow> u32" where
  "bf_set f v w = (w AND NOT (push_bit (fst f) (mask (snd f)))) OR push_bit (fst f) (take_bit (snd f) v)"

definition bf_disjoint :: "bitfield \<Rightarrow> bitfield \<Rightarrow> bool" where
  "bf_disjoint f g \<longleftrightarrow> fst f + snd f \<le> fst g \<or> fst g + snd g \<le> fst f"

definition bf_wf :: "bitfield \<Rightarrow> bool" where
  "bf_wf f \<longleftrightarrow> fst f + snd f \<le> 32"

lemma bit_bf_get: "bit (bf_get f w) n \<longleftrightarrow> n < snd f \<and> bit w (n + fst f)"
  by (auto simp: bf_get_def bit_simps ac_simps dest: bit_imp_le_length)

lemma bit_bf_set:
  "n < 32 \<Longrightarrow> bit (bf_set f v w) n \<longleftrightarrow>
     (if fst f \<le> n \<and> n < fst f + snd f then bit v (n - fst f) else bit w n)"
  by (auto simp: bf_set_def bit_simps)

lemma bf_get_set_same [field_simps_vp]:
  assumes "bf_wf f"
  shows "bf_get f (bf_set f v w) = take_bit (snd f) v"
proof (rule bit_word_eqI)
  fix n :: nat assume "n < LENGTH(32)"
  with assms show "bit (bf_get f (bf_set f v w)) n \<longleftrightarrow> bit (take_bit (snd f) v) n"
    by (cases "n < snd f") (auto simp: bit_bf_get bit_bf_set bit_take_bit_iff bf_wf_def)
qed

lemma bf_get_set_other [field_simps_vp]:
  assumes "bf_disjoint g f"
  shows "bf_get g (bf_set f v w) = bf_get g w"
proof (rule bit_word_eqI)
  fix n :: nat assume "n < LENGTH(32)"
  with assms show "bit (bf_get g (bf_set f v w)) n \<longleftrightarrow> bit (bf_get g w) n"
    by (cases "n + fst g < 32") (auto simp: bit_bf_get bit_bf_set bf_disjoint_def dest: bit_imp_le_length)
qed

lemma bf_get_single: "bf_get (n, 1) w \<noteq> 0 \<longleftrightarrow> bit w n" "bf_get (n, 1) w = 0 \<longleftrightarrow> \<not> bit w n"
  by (simp_all add: bf_get_def take_bit_Suc bit_iff_odd_drop_bit even_iff_mod_2_eq_zero)

lemma bf_get_less: "unat (bf_get f w) < 2 ^ snd f"
proof -
  have "unat (bf_get f w) = take_bit (snd f) (unat (drop_bit (fst f) w))"
    by (simp add: bf_get_def unsigned_take_bit_eq)
  then show ?thesis by simp
qed

section \<open>std::to\_string\<close>

fun nat_to_string :: "nat \<Rightarrow> string" where
  "nat_to_string n =
     (if n < 10 then [char_of (48 + n)] else nat_to_string (n div 10) @ [char_of (48 + n mod 10)])"

declare nat_to_string.simps [simp del]

definition to_string :: "'w :: len word \<Rightarrow> string" where
  "to_string w = nat_to_string (unat w)"

text \<open>Characters by their code, and numbers in hexadecimal as \<^verbatim>\<open>printf\<close> writes them.\<close>

definition char_of_code :: "nat \<Rightarrow> char" where
  "char_of_code n = char_of n"

definition hex_digit :: "nat \<Rightarrow> char" where
  "hex_digit d = char_of_code (if d < 10 then 48 + d else 87 + d)"

fun hex_digits :: "nat \<Rightarrow> string" where
  "hex_digits n = (if n < 16 then [hex_digit n] else hex_digits (n div 16) @ [hex_digit (n mod 16)])"

declare hex_digits.simps [simp del]

definition pad_zero :: "nat \<Rightarrow> string \<Rightarrow> string" where
  "pad_zero n s = replicate (n - length s) (CHR ''0'') @ s"

section \<open>Bit-by-bit equality of 32-bit words\<close>

text \<open>
  An equation between words built from shifts and masks with numeral positions is decided by
  comparing the 32 bits one at a time; the explicit list makes every position a numeral.
\<close>

lemma word32_eq_bits:
  fixes a b :: u32
  shows "a = b \<longleftrightarrow> list_all (\<lambda>n. bit a n = bit b n)
    [0, 1, 2, 3, 4, 5, 6, 7, 8, 9, 10, 11, 12, 13, 14, 15, 16, 17, 18, 19, 20, 21, 22, 23, 24,
     25, 26, 27, 28, 29, 30, 31]" (is "_ \<longleftrightarrow> list_all ?P ?xs")
proof
  assume h: "list_all ?P ?xs"
  have xs: "?xs = [0..<32]" by code_simp
  show "a = b"
  proof (rule bit_word_eqI)
    fix n :: nat assume "n < LENGTH(32)"
    then have "n \<in> set ?xs" unfolding xs by simp
    with h show "bit a n = bit b n" by (simp only: list_all_iff)
  qed
qed simp

end
