(* ===== verification/Instr.thy ===== *)
theory Instr
  imports Prelude
begin

text \<open>
  The instruction word and the vocabulary of the decoder (\<^verbatim>\<open>core/common/instr.h\<close> and the tables of
  \<^verbatim>\<open>core/common/instr.cpp\<close>). \<open>Mapping\<close> is the enumeration \<^verbatim>\<open>Opcode::Mapping\<close>; its enumerators are
  grouped by the instruction-set extension under which the source lists them, so that case
  analyses stay small. An \<open>Instruction\<close> is its 32-bit word \<^verbatim>\<open>instr\<close>, an \<^verbatim>\<open>int32_t\<close>: \<open>>>\<close> on it is
  the arithmetic shift \<^const>\<open>signed_drop_bit\<close>, and on a value cast to \<^verbatim>\<open>uint32_t\<close> the logical
  \<^const>\<open>drop_bit\<close>. The enumerators \<open>XOR\<close>, \<open>OR\<close> and \<open>AND\<close> carry a suffix because those words are
  reserved for the bitwise operations on words.
\<close>

section \<open>Architecture\<close>

datatype Architecture = RV32 | RV64 | RV128

section \<open>Opcode::Mapping\<close>

text \<open>RV32I base instruction set\<close>

datatype rv32i =
    LUI | AUIPC | JAL | JALR | BEQ | BNE | BLT | BGE | BLTU | BGEU | LB | LH | LW | LBU
    | LHU | SB | SH | SW | ADDI | SLTI | SLTIU | XORI | ORI | ANDI | SLLI | SRLI | SRAI
    | ADD | SUB | SLL | SLT | SLTU | XOR_R | SRL | SRA | OR_R | AND_R | FENCE | ECALL
    | EBREAK

text \<open>Zifencei standard extension\<close>

datatype zifencei =
    FENCE_I

text \<open>Zicsr standard extension\<close>

datatype zicsr =
    CSRRW | CSRRS | CSRRC | CSRRWI | CSRRSI | CSRRCI

text \<open>RV32M standard extension\<close>

datatype rv32m =
    MUL | MULH | MULHSU | MULHU | DIV | DIVU | REM | REMU

text \<open>RV32A standard extension\<close>

datatype rv32a =
    LR_W | SC_W | AMOSWAP_W | AMOADD_W | AMOXOR_W | AMOAND_W | AMOOR_W | AMOMIN_W | AMOMAX_W
    | AMOMINU_W | AMOMAXU_W

text \<open>RV64I base integer set (addition to RV32I)\<close>

datatype rv64i =
    LWU | LD | SD | ADDIW | SLLIW | SRLIW | SRAIW | ADDW | SUBW | SLLW | SRLW | SRAW

text \<open>RV64M standard extension (addition to RV32M)\<close>

datatype rv64m =
    MULW | DIVW | DIVUW | REMW | REMUW

text \<open>RV64A standard extension (addition to RV32A)\<close>

datatype rv64a =
    LR_D | SC_D | AMOSWAP_D | AMOADD_D | AMOXOR_D | AMOAND_D | AMOOR_D | AMOMIN_D | AMOMAX_D
    | AMOMINU_D | AMOMAXU_D

text \<open>RV32F standard extension\<close>

datatype rv32f =
    FLW | FSW | FMADD_S | FMSUB_S | FNMADD_S | FNMSUB_S | FADD_S | FSUB_S | FMUL_S | FDIV_S
    | FSQRT_S | FSGNJ_S | FSGNJN_S | FSGNJX_S | FMIN_S | FMAX_S | FCVT_W_S | FCVT_WU_S
    | FMV_X_W | FEQ_S | FLT_S | FLE_S | FCLASS_S | FCVT_S_W | FCVT_S_WU | FMV_W_X

text \<open>RV64F standard extension (addition to RV32F)\<close>

datatype rv64f =
    FCVT_L_S | FCVT_LU_S | FCVT_S_L | FCVT_S_LU

text \<open>RV32D standard extension\<close>

datatype rv32d =
    FLD | FSD | FMADD_D | FMSUB_D | FNMSUB_D | FNMADD_D | FADD_D | FSUB_D | FMUL_D | FDIV_D
    | FSQRT_D | FSGNJ_D | FSGNJN_D | FSGNJX_D | FMIN_D | FMAX_D | FCVT_S_D | FCVT_D_S
    | FEQ_D | FLT_D | FLE_D | FCLASS_D | FCVT_W_D | FCVT_WU_D | FCVT_D_W | FCVT_D_WU

text \<open>RV64D standard extension (addition to RV32D)\<close>

datatype rv64d =
    FCVT_L_D | FCVT_LU_D | FMV_X_D | FCVT_D_L | FCVT_D_LU | FMV_D_X

text \<open>privileged instructions\<close>

datatype privileged =
    URET | SRET | MRET | WFI | SFENCE_VMA

datatype Mapping =
    UNDEF
  | OpI rv32i
  | OpZifencei zifencei
  | OpZicsr zicsr
  | OpM rv32m
  | OpA rv32a
  | OpI64 rv64i
  | OpM64 rv64m
  | OpA64 rv64a
  | OpF rv32f
  | OpF64 rv64f
  | OpD rv32d
  | OpD64 rv64d
  | OpPriv privileged

section \<open>Opcode::Parts: the field values the decoder switches on\<close>

abbreviation (input) OP_LUI :: u32 where "OP_LUI \<equiv> 0b0110111"
abbreviation (input) OP_AUIPC :: u32 where "OP_AUIPC \<equiv> 0b0010111"
abbreviation (input) OP_JAL :: u32 where "OP_JAL \<equiv> 0b1101111"
abbreviation (input) OP_JALR :: u32 where "OP_JALR \<equiv> 0b1100111"
abbreviation (input) F3_JALR :: u32 where "F3_JALR \<equiv> 0b000"
abbreviation (input) OP_LB :: u32 where "OP_LB \<equiv> 0b0000011"
abbreviation (input) F3_LB :: u32 where "F3_LB \<equiv> 0b000"
abbreviation (input) F3_LH :: u32 where "F3_LH \<equiv> 0b001"
abbreviation (input) F3_LW :: u32 where "F3_LW \<equiv> 0b010"
abbreviation (input) F3_LBU :: u32 where "F3_LBU \<equiv> 0b100"
abbreviation (input) F3_LHU :: u32 where "F3_LHU \<equiv> 0b101"
abbreviation (input) F3_LWU :: u32 where "F3_LWU \<equiv> 0b110"
abbreviation (input) F3_LD :: u32 where "F3_LD \<equiv> 0b011"
abbreviation (input) OP_SB :: u32 where "OP_SB \<equiv> 0b0100011"
abbreviation (input) F3_SB :: u32 where "F3_SB \<equiv> 0b000"
abbreviation (input) F3_SH :: u32 where "F3_SH \<equiv> 0b001"
abbreviation (input) F3_SW :: u32 where "F3_SW \<equiv> 0b010"
abbreviation (input) F3_SD :: u32 where "F3_SD \<equiv> 0b011"
abbreviation (input) OP_BEQ :: u32 where "OP_BEQ \<equiv> 0b1100011"
abbreviation (input) F3_BEQ :: u32 where "F3_BEQ \<equiv> 0b000"
abbreviation (input) F3_BNE :: u32 where "F3_BNE \<equiv> 0b001"
abbreviation (input) F3_BLT :: u32 where "F3_BLT \<equiv> 0b100"
abbreviation (input) F3_BGE :: u32 where "F3_BGE \<equiv> 0b101"
abbreviation (input) F3_BLTU :: u32 where "F3_BLTU \<equiv> 0b110"
abbreviation (input) F3_BGEU :: u32 where "F3_BGEU \<equiv> 0b111"
abbreviation (input) OP_ADDI :: u32 where "OP_ADDI \<equiv> 0b0010011"
abbreviation (input) F3_ADDI :: u32 where "F3_ADDI \<equiv> 0b000"
abbreviation (input) F3_SLTI :: u32 where "F3_SLTI \<equiv> 0b010"
abbreviation (input) F3_SLTIU :: u32 where "F3_SLTIU \<equiv> 0b011"
abbreviation (input) F3_XORI :: u32 where "F3_XORI \<equiv> 0b100"
abbreviation (input) F3_ORI :: u32 where "F3_ORI \<equiv> 0b110"
abbreviation (input) F3_ANDI :: u32 where "F3_ANDI \<equiv> 0b111"
abbreviation (input) F3_SLLI :: u32 where "F3_SLLI \<equiv> 0b001"
abbreviation (input) F3_SRLI :: u32 where "F3_SRLI \<equiv> 0b101"
abbreviation (input) F7_SRLI :: u32 where "F7_SRLI \<equiv> 0b0000000"
abbreviation (input) F7_SRAI :: u32 where "F7_SRAI \<equiv> 0b0100000"
abbreviation (input) F6_SRLI :: u32 where "F6_SRLI \<equiv> 0b000000"
abbreviation (input) F6_SRAI :: u32 where "F6_SRAI \<equiv> 0b010000"
abbreviation (input) OP_ADD :: u32 where "OP_ADD \<equiv> 0b0110011"
abbreviation (input) F3_ADD :: u32 where "F3_ADD \<equiv> 0b000"
abbreviation (input) F7_ADD :: u32 where "F7_ADD \<equiv> 0b0000000"
abbreviation (input) F3_SUB :: u32 where "F3_SUB \<equiv> 0b000"
abbreviation (input) F7_SUB :: u32 where "F7_SUB \<equiv> 0b0100000"
abbreviation (input) F3_SLL :: u32 where "F3_SLL \<equiv> 0b001"
abbreviation (input) F3_SLT :: u32 where "F3_SLT \<equiv> 0b010"
abbreviation (input) F3_SLTU :: u32 where "F3_SLTU \<equiv> 0b011"
abbreviation (input) F3_XOR :: u32 where "F3_XOR \<equiv> 0b100"
abbreviation (input) F3_SRL :: u32 where "F3_SRL \<equiv> 0b101"
abbreviation (input) F3_SRA :: u32 where "F3_SRA \<equiv> 0b101"
abbreviation (input) F3_OR :: u32 where "F3_OR \<equiv> 0b110"
abbreviation (input) F3_AND :: u32 where "F3_AND \<equiv> 0b111"
abbreviation (input) F3_MUL :: u32 where "F3_MUL \<equiv> 0b000"
abbreviation (input) F7_MUL :: u32 where "F7_MUL \<equiv> 0b0000001"
abbreviation (input) F3_MULH :: u32 where "F3_MULH \<equiv> 0b001"
abbreviation (input) F3_MULHSU :: u32 where "F3_MULHSU \<equiv> 0b010"
abbreviation (input) F3_MULHU :: u32 where "F3_MULHU \<equiv> 0b011"
abbreviation (input) F3_DIV :: u32 where "F3_DIV \<equiv> 0b100"
abbreviation (input) F3_DIVU :: u32 where "F3_DIVU \<equiv> 0b101"
abbreviation (input) F3_REM :: u32 where "F3_REM \<equiv> 0b110"
abbreviation (input) F3_REMU :: u32 where "F3_REMU \<equiv> 0b111"
abbreviation (input) OP_FENCE :: u32 where "OP_FENCE \<equiv> 0b0001111"
abbreviation (input) F3_FENCE :: u32 where "F3_FENCE \<equiv> 0b000"
abbreviation (input) F3_FENCE_I :: u32 where "F3_FENCE_I \<equiv> 0b001"
abbreviation (input) OP_ECALL :: u32 where "OP_ECALL \<equiv> 0b1110011"
abbreviation (input) F3_SYS :: u32 where "F3_SYS \<equiv> 0b000"
abbreviation (input) F12_ECALL :: u32 where "F12_ECALL \<equiv> 0b000000000000"
abbreviation (input) F12_EBREAK :: u32 where "F12_EBREAK \<equiv> 0b000000000001"
abbreviation (input) F12_URET :: u32 where "F12_URET \<equiv> 0b000000000010"
abbreviation (input) F12_SRET :: u32 where "F12_SRET \<equiv> 0b000100000010"
abbreviation (input) F12_MRET :: u32 where "F12_MRET \<equiv> 0b001100000010"
abbreviation (input) F12_WFI :: u32 where "F12_WFI \<equiv> 0b000100000101"
abbreviation (input) F7_SFENCE_VMA :: u32 where "F7_SFENCE_VMA \<equiv> 0b0001001"
abbreviation (input) F3_CSRRW :: u32 where "F3_CSRRW \<equiv> 0b001"
abbreviation (input) F3_CSRRS :: u32 where "F3_CSRRS \<equiv> 0b010"
abbreviation (input) F3_CSRRC :: u32 where "F3_CSRRC \<equiv> 0b011"
abbreviation (input) F3_CSRRWI :: u32 where "F3_CSRRWI \<equiv> 0b101"
abbreviation (input) F3_CSRRSI :: u32 where "F3_CSRRSI \<equiv> 0b110"
abbreviation (input) F3_CSRRCI :: u32 where "F3_CSRRCI \<equiv> 0b111"
abbreviation (input) OP_AMO :: u32 where "OP_AMO \<equiv> 0b0101111"
abbreviation (input) F5_LR_W :: u32 where "F5_LR_W \<equiv> 0b00010"
abbreviation (input) F5_SC_W :: u32 where "F5_SC_W \<equiv> 0b00011"
abbreviation (input) F5_AMOSWAP_W :: u32 where "F5_AMOSWAP_W \<equiv> 0b00001"
abbreviation (input) F5_AMOADD_W :: u32 where "F5_AMOADD_W \<equiv> 0b00000"
abbreviation (input) F5_AMOXOR_W :: u32 where "F5_AMOXOR_W \<equiv> 0b00100"
abbreviation (input) F5_AMOAND_W :: u32 where "F5_AMOAND_W \<equiv> 0b01100"
abbreviation (input) F5_AMOOR_W :: u32 where "F5_AMOOR_W \<equiv> 0b01000"
abbreviation (input) F5_AMOMIN_W :: u32 where "F5_AMOMIN_W \<equiv> 0b10000"
abbreviation (input) F5_AMOMAX_W :: u32 where "F5_AMOMAX_W \<equiv> 0b10100"
abbreviation (input) F5_AMOMINU_W :: u32 where "F5_AMOMINU_W \<equiv> 0b11000"
abbreviation (input) F5_AMOMAXU_W :: u32 where "F5_AMOMAXU_W \<equiv> 0b11100"
abbreviation (input) F3_AMO_W :: u32 where "F3_AMO_W \<equiv> 0b010"
abbreviation (input) F3_AMO_D :: u32 where "F3_AMO_D \<equiv> 0b011"
abbreviation (input) OP_ADDIW :: u32 where "OP_ADDIW \<equiv> 0b0011011"
abbreviation (input) F3_ADDIW :: u32 where "F3_ADDIW \<equiv> 0b000"
abbreviation (input) F3_SLLIW :: u32 where "F3_SLLIW \<equiv> 0b001"
abbreviation (input) F3_SRLIW :: u32 where "F3_SRLIW \<equiv> 0b101"
abbreviation (input) F7_SRLIW :: u32 where "F7_SRLIW \<equiv> 0b0000000"
abbreviation (input) F7_SRAIW :: u32 where "F7_SRAIW \<equiv> 0b0100000"
abbreviation (input) OP_ADDW :: u32 where "OP_ADDW \<equiv> 0b0111011"
abbreviation (input) F3_ADDW :: u32 where "F3_ADDW \<equiv> 0b000"
abbreviation (input) F7_ADDW :: u32 where "F7_ADDW \<equiv> 0b0000000"
abbreviation (input) F3_SUBW :: u32 where "F3_SUBW \<equiv> 0b000"
abbreviation (input) F7_SUBW :: u32 where "F7_SUBW \<equiv> 0b0100000"
abbreviation (input) F3_SLLW :: u32 where "F3_SLLW \<equiv> 0b001"
abbreviation (input) F3_SRLW :: u32 where "F3_SRLW \<equiv> 0b101"
abbreviation (input) F7_SRLW :: u32 where "F7_SRLW \<equiv> 0b0000000"
abbreviation (input) F3_SRAW :: u32 where "F3_SRAW \<equiv> 0b101"
abbreviation (input) F7_SRAW :: u32 where "F7_SRAW \<equiv> 0b0100000"
abbreviation (input) F7_MULW :: u32 where "F7_MULW \<equiv> 0b0000001"
abbreviation (input) F3_MULW :: u32 where "F3_MULW \<equiv> 0b000"
abbreviation (input) F3_DIVW :: u32 where "F3_DIVW \<equiv> 0b100"
abbreviation (input) F3_DIVUW :: u32 where "F3_DIVUW \<equiv> 0b101"
abbreviation (input) F3_REMW :: u32 where "F3_REMW \<equiv> 0b110"
abbreviation (input) F3_REMUW :: u32 where "F3_REMUW \<equiv> 0b111"
abbreviation (input) OP_FMADD_S :: u32 where "OP_FMADD_S \<equiv> 0b1000011"
abbreviation (input) F2_FMADD_S :: u32 where "F2_FMADD_S \<equiv> 0b00"
abbreviation (input) F2_FMADD_D :: u32 where "F2_FMADD_D \<equiv> 0b01"
abbreviation (input) OP_FADD_S :: u32 where "OP_FADD_S \<equiv> 0b1010011"
abbreviation (input) F7_FADD_S :: u32 where "F7_FADD_S \<equiv> 0b0000000"
abbreviation (input) F7_FADD_D :: u32 where "F7_FADD_D \<equiv> 0b0000001"
abbreviation (input) F7_FSUB_S :: u32 where "F7_FSUB_S \<equiv> 0b0000100"
abbreviation (input) F7_FSUB_D :: u32 where "F7_FSUB_D \<equiv> 0b0000101"
abbreviation (input) F7_FCVT_D_S :: u32 where "F7_FCVT_D_S \<equiv> 0b0100001"
abbreviation (input) F7_FMUL_S :: u32 where "F7_FMUL_S \<equiv> 0b0001000"
abbreviation (input) F7_FMUL_D :: u32 where "F7_FMUL_D \<equiv> 0b0001001"
abbreviation (input) F7_FDIV_S :: u32 where "F7_FDIV_S \<equiv> 0b0001100"
abbreviation (input) F7_FDIV_D :: u32 where "F7_FDIV_D \<equiv> 0b0001101"
abbreviation (input) F7_FLE_S :: u32 where "F7_FLE_S \<equiv> 0b1010000"
abbreviation (input) F3_FLE_S :: u32 where "F3_FLE_S \<equiv> 0b000"
abbreviation (input) F3_FLT_S :: u32 where "F3_FLT_S \<equiv> 0b001"
abbreviation (input) F3_FEQ_S :: u32 where "F3_FEQ_S \<equiv> 0b010"
abbreviation (input) F7_FSGNJ_D :: u32 where "F7_FSGNJ_D \<equiv> 0b0010001"
abbreviation (input) F3_FSGNJ_D :: u32 where "F3_FSGNJ_D \<equiv> 0b000"
abbreviation (input) F3_FSGNJN_D :: u32 where "F3_FSGNJN_D \<equiv> 0b001"
abbreviation (input) F3_FSGNJX_D :: u32 where "F3_FSGNJX_D \<equiv> 0b010"
abbreviation (input) F7_FMIN_S :: u32 where "F7_FMIN_S \<equiv> 0b0010100"
abbreviation (input) F3_FMIN_S :: u32 where "F3_FMIN_S \<equiv> 0b000"
abbreviation (input) F3_FMAX_S :: u32 where "F3_FMAX_S \<equiv> 0b001"
abbreviation (input) F7_FMIN_D :: u32 where "F7_FMIN_D \<equiv> 0b0010101"
abbreviation (input) F3_FMIN_D :: u32 where "F3_FMIN_D \<equiv> 0b000"
abbreviation (input) F3_FMAX_D :: u32 where "F3_FMAX_D \<equiv> 0b001"
abbreviation (input) F7_FCVT_S_D :: u32 where "F7_FCVT_S_D \<equiv> 0b0100000"
abbreviation (input) F7_FSGNJ_S :: u32 where "F7_FSGNJ_S \<equiv> 0b0010000"
abbreviation (input) F3_FSGNJ_S :: u32 where "F3_FSGNJ_S \<equiv> 0b000"
abbreviation (input) F3_FSGNJN_S :: u32 where "F3_FSGNJN_S \<equiv> 0b001"
abbreviation (input) F3_FSGNJX_S :: u32 where "F3_FSGNJX_S \<equiv> 0b010"
abbreviation (input) F7_FLE_D :: u32 where "F7_FLE_D \<equiv> 0b1010001"
abbreviation (input) F3_FLE_D :: u32 where "F3_FLE_D \<equiv> 0b000"
abbreviation (input) F3_FLT_D :: u32 where "F3_FLT_D \<equiv> 0b001"
abbreviation (input) F3_FEQ_D :: u32 where "F3_FEQ_D \<equiv> 0b010"
abbreviation (input) F7_FCVT_S_W :: u32 where "F7_FCVT_S_W \<equiv> 0b1101000"
abbreviation (input) RS2_FCVT_S_W :: u32 where "RS2_FCVT_S_W \<equiv> 0b00000"
abbreviation (input) RS2_FCVT_S_WU :: u32 where "RS2_FCVT_S_WU \<equiv> 0b00001"
abbreviation (input) RS2_FCVT_S_L :: u32 where "RS2_FCVT_S_L \<equiv> 0b00010"
abbreviation (input) RS2_FCVT_S_LU :: u32 where "RS2_FCVT_S_LU \<equiv> 0b00011"
abbreviation (input) F7_FCVT_D_W :: u32 where "F7_FCVT_D_W \<equiv> 0b1101001"
abbreviation (input) RS2_FCVT_D_W :: u32 where "RS2_FCVT_D_W \<equiv> 0b00000"
abbreviation (input) RS2_FCVT_D_WU :: u32 where "RS2_FCVT_D_WU \<equiv> 0b00001"
abbreviation (input) RS2_FCVT_D_L :: u32 where "RS2_FCVT_D_L \<equiv> 0b00010"
abbreviation (input) RS2_FCVT_D_LU :: u32 where "RS2_FCVT_D_LU \<equiv> 0b00011"
abbreviation (input) F7_FCVT_W_D :: u32 where "F7_FCVT_W_D \<equiv> 0b1100001"
abbreviation (input) RS2_FCVT_W_D :: u32 where "RS2_FCVT_W_D \<equiv> 0b00000"
abbreviation (input) RS2_FCVT_WU_D :: u32 where "RS2_FCVT_WU_D \<equiv> 0b00001"
abbreviation (input) RS2_FCVT_L_D :: u32 where "RS2_FCVT_L_D \<equiv> 0b00010"
abbreviation (input) RS2_FCVT_LU_D :: u32 where "RS2_FCVT_LU_D \<equiv> 0b00011"
abbreviation (input) F7_FSQRT_S :: u32 where "F7_FSQRT_S \<equiv> 0b0101100"
abbreviation (input) F7_FSQRT_D :: u32 where "F7_FSQRT_D \<equiv> 0b0101101"
abbreviation (input) F7_FCVT_W_S :: u32 where "F7_FCVT_W_S \<equiv> 0b1100000"
abbreviation (input) RS2_FCVT_W_S :: u32 where "RS2_FCVT_W_S \<equiv> 0b00000"
abbreviation (input) RS2_FCVT_WU_S :: u32 where "RS2_FCVT_WU_S \<equiv> 0b00001"
abbreviation (input) RS2_FCVT_L_S :: u32 where "RS2_FCVT_L_S \<equiv> 0b00010"
abbreviation (input) RS2_FCVT_LU_S :: u32 where "RS2_FCVT_LU_S \<equiv> 0b00011"
abbreviation (input) F7_FMV_X_W :: u32 where "F7_FMV_X_W \<equiv> 0b1110000"
abbreviation (input) F3_FMV_X_W :: u32 where "F3_FMV_X_W \<equiv> 0b000"
abbreviation (input) F3_FCLASS_S :: u32 where "F3_FCLASS_S \<equiv> 0b001"
abbreviation (input) F7_FMV_X_D :: u32 where "F7_FMV_X_D \<equiv> 0b1110001"
abbreviation (input) F3_FMV_X_D :: u32 where "F3_FMV_X_D \<equiv> 0b000"
abbreviation (input) F3_FCLASS_D :: u32 where "F3_FCLASS_D \<equiv> 0b001"
abbreviation (input) F7_FMV_W_X :: u32 where "F7_FMV_W_X \<equiv> 0b1111000"
abbreviation (input) F7_FMV_D_X :: u32 where "F7_FMV_D_X \<equiv> 0b1111001"
abbreviation (input) OP_FLW :: u32 where "OP_FLW \<equiv> 0b0000111"
abbreviation (input) F3_FLW :: u32 where "F3_FLW \<equiv> 0b010"
abbreviation (input) F3_FLD :: u32 where "F3_FLD \<equiv> 0b011"
abbreviation (input) OP_FSW :: u32 where "OP_FSW \<equiv> 0b0100111"
abbreviation (input) F3_FSW :: u32 where "F3_FSW \<equiv> 0b010"
abbreviation (input) F3_FSD :: u32 where "F3_FSD \<equiv> 0b011"
abbreviation (input) OP_FMSUB_S :: u32 where "OP_FMSUB_S \<equiv> 0b1000111"
abbreviation (input) F2_FMSUB_S :: u32 where "F2_FMSUB_S \<equiv> 0b00"
abbreviation (input) F2_FMSUB_D :: u32 where "F2_FMSUB_D \<equiv> 0b01"
abbreviation (input) OP_FNMSUB_S :: u32 where "OP_FNMSUB_S \<equiv> 0b1001011"
abbreviation (input) F2_FNMSUB_S :: u32 where "F2_FNMSUB_S \<equiv> 0b00"
abbreviation (input) F2_FNMSUB_D :: u32 where "F2_FNMSUB_D \<equiv> 0b01"
abbreviation (input) OP_FNMADD_S :: u32 where "OP_FNMADD_S \<equiv> 0b1001111"
abbreviation (input) F2_FNMADD_S :: u32 where "F2_FNMADD_S \<equiv> 0b00"
abbreviation (input) F2_FNMADD_D :: u32 where "F2_FNMADD_D \<equiv> 0b01"
abbreviation (input) OP_CUST1 :: u32 where "OP_CUST1 \<equiv> 0b0101011"
abbreviation (input) OP_CUST0 :: u32 where "OP_CUST0 \<equiv> 0b0001011"

section \<open>Masks and encodings\<close>

text \<open>
  The pair \<^verbatim>\<open>(X_MASK, X_ENCODING)\<close> of every opcode \<^verbatim>\<open>X\<close>.
\<close>

primrec pattern_rv32i :: "rv32i \<Rightarrow> u32 \<times> u32" where
    "pattern_rv32i LUI =
      (0b00000000000000000000000001111111, 0b00000000000000000000000000110111)"
  | "pattern_rv32i AUIPC =
      (0b00000000000000000000000001111111, 0b00000000000000000000000000010111)"
  | "pattern_rv32i JAL =
      (0b00000000000000000000000001111111, 0b00000000000000000000000001101111)"
  | "pattern_rv32i JALR =
      (0b00000000000000000111000001111111, 0b00000000000000000000000001100111)"
  | "pattern_rv32i BEQ =
      (0b00000000000000000111000001111111, 0b00000000000000000000000001100011)"
  | "pattern_rv32i BNE =
      (0b00000000000000000111000001111111, 0b00000000000000000001000001100011)"
  | "pattern_rv32i BLT =
      (0b00000000000000000111000001111111, 0b00000000000000000100000001100011)"
  | "pattern_rv32i BGE =
      (0b00000000000000000111000001111111, 0b00000000000000000101000001100011)"
  | "pattern_rv32i BLTU =
      (0b00000000000000000111000001111111, 0b00000000000000000110000001100011)"
  | "pattern_rv32i BGEU =
      (0b00000000000000000111000001111111, 0b00000000000000000111000001100011)"
  | "pattern_rv32i LB =
      (0b00000000000000000111000001111111, 0b00000000000000000000000000000011)"
  | "pattern_rv32i LH =
      (0b00000000000000000111000001111111, 0b00000000000000000001000000000011)"
  | "pattern_rv32i LW =
      (0b00000000000000000111000001111111, 0b00000000000000000010000000000011)"
  | "pattern_rv32i LBU =
      (0b00000000000000000111000001111111, 0b00000000000000000100000000000011)"
  | "pattern_rv32i LHU =
      (0b00000000000000000111000001111111, 0b00000000000000000101000000000011)"
  | "pattern_rv32i SB =
      (0b00000000000000000111000001111111, 0b00000000000000000000000000100011)"
  | "pattern_rv32i SH =
      (0b00000000000000000111000001111111, 0b00000000000000000001000000100011)"
  | "pattern_rv32i SW =
      (0b00000000000000000111000001111111, 0b00000000000000000010000000100011)"
  | "pattern_rv32i ADDI =
      (0b00000000000000000111000001111111, 0b00000000000000000000000000010011)"
  | "pattern_rv32i SLTI =
      (0b00000000000000000111000001111111, 0b00000000000000000010000000010011)"
  | "pattern_rv32i SLTIU =
      (0b00000000000000000111000001111111, 0b00000000000000000011000000010011)"
  | "pattern_rv32i XORI =
      (0b00000000000000000111000001111111, 0b00000000000000000100000000010011)"
  | "pattern_rv32i ORI =
      (0b00000000000000000111000001111111, 0b00000000000000000110000000010011)"
  | "pattern_rv32i ANDI =
      (0b00000000000000000111000001111111, 0b00000000000000000111000000010011)"
  | "pattern_rv32i SLLI =
      (0b11111100000000000111000001111111, 0b00000000000000000001000000010011)"
  | "pattern_rv32i SRLI =
      (0b11111100000000000111000001111111, 0b00000000000000000101000000010011)"
  | "pattern_rv32i SRAI =
      (0b11111100000000000111000001111111, 0b01000000000000000101000000010011)"
  | "pattern_rv32i ADD =
      (0b11111110000000000111000001111111, 0b00000000000000000000000000110011)"
  | "pattern_rv32i SUB =
      (0b11111110000000000111000001111111, 0b01000000000000000000000000110011)"
  | "pattern_rv32i SLL =
      (0b11111110000000000111000001111111, 0b00000000000000000001000000110011)"
  | "pattern_rv32i SLT =
      (0b11111110000000000111000001111111, 0b00000000000000000010000000110011)"
  | "pattern_rv32i SLTU =
      (0b11111110000000000111000001111111, 0b00000000000000000011000000110011)"
  | "pattern_rv32i XOR_R =
      (0b11111110000000000111000001111111, 0b00000000000000000100000000110011)"
  | "pattern_rv32i SRL =
      (0b11111110000000000111000001111111, 0b00000000000000000101000000110011)"
  | "pattern_rv32i SRA =
      (0b11111110000000000111000001111111, 0b01000000000000000101000000110011)"
  | "pattern_rv32i OR_R =
      (0b11111110000000000111000001111111, 0b00000000000000000110000000110011)"
  | "pattern_rv32i AND_R =
      (0b11111110000000000111000001111111, 0b00000000000000000111000000110011)"
  | "pattern_rv32i FENCE =
      (0b00000000000000000111000001111111, 0b00000000000000000000000000001111)"
  | "pattern_rv32i ECALL =
      (0b11111111111111111111111111111111, 0b00000000000000000000000001110011)"
  | "pattern_rv32i EBREAK =
      (0b11111111111111111111111111111111, 0b00000000000100000000000001110011)"

primrec pattern_zifencei :: "zifencei \<Rightarrow> u32 \<times> u32" where
    "pattern_zifencei FENCE_I =
      (0b00000000000000000111000001111111, 0b00000000000000000001000000001111)"

primrec pattern_zicsr :: "zicsr \<Rightarrow> u32 \<times> u32" where
    "pattern_zicsr CSRRW =
      (0b00000000000000000111000001111111, 0b00000000000000000001000001110011)"
  | "pattern_zicsr CSRRS =
      (0b00000000000000000111000001111111, 0b00000000000000000010000001110011)"
  | "pattern_zicsr CSRRC =
      (0b00000000000000000111000001111111, 0b00000000000000000011000001110011)"
  | "pattern_zicsr CSRRWI =
      (0b00000000000000000111000001111111, 0b00000000000000000101000001110011)"
  | "pattern_zicsr CSRRSI =
      (0b00000000000000000111000001111111, 0b00000000000000000110000001110011)"
  | "pattern_zicsr CSRRCI =
      (0b00000000000000000111000001111111, 0b00000000000000000111000001110011)"

primrec pattern_rv32m :: "rv32m \<Rightarrow> u32 \<times> u32" where
    "pattern_rv32m MUL =
      (0b11111110000000000111000001111111, 0b00000010000000000000000000110011)"
  | "pattern_rv32m MULH =
      (0b11111110000000000111000001111111, 0b00000010000000000001000000110011)"
  | "pattern_rv32m MULHSU =
      (0b11111110000000000111000001111111, 0b00000010000000000010000000110011)"
  | "pattern_rv32m MULHU =
      (0b11111110000000000111000001111111, 0b00000010000000000011000000110011)"
  | "pattern_rv32m DIV =
      (0b11111110000000000111000001111111, 0b00000010000000000100000000110011)"
  | "pattern_rv32m DIVU =
      (0b11111110000000000111000001111111, 0b00000010000000000101000000110011)"
  | "pattern_rv32m REM =
      (0b11111110000000000111000001111111, 0b00000010000000000110000000110011)"
  | "pattern_rv32m REMU =
      (0b11111110000000000111000001111111, 0b00000010000000000111000000110011)"

primrec pattern_rv32a :: "rv32a \<Rightarrow> u32 \<times> u32" where
    "pattern_rv32a LR_W =
      (0b11111001111100000111000001111111, 0b00010000000000000010000000101111)"
  | "pattern_rv32a SC_W =
      (0b11111000000000000111000001111111, 0b00011000000000000010000000101111)"
  | "pattern_rv32a AMOSWAP_W =
      (0b11111000000000000111000001111111, 0b00001000000000000010000000101111)"
  | "pattern_rv32a AMOADD_W =
      (0b11111000000000000111000001111111, 0b00000000000000000010000000101111)"
  | "pattern_rv32a AMOXOR_W =
      (0b11111000000000000111000001111111, 0b00100000000000000010000000101111)"
  | "pattern_rv32a AMOAND_W =
      (0b11111000000000000111000001111111, 0b01100000000000000010000000101111)"
  | "pattern_rv32a AMOOR_W =
      (0b11111000000000000111000001111111, 0b01000000000000000010000000101111)"
  | "pattern_rv32a AMOMIN_W =
      (0b11111000000000000111000001111111, 0b10000000000000000010000000101111)"
  | "pattern_rv32a AMOMAX_W =
      (0b11111000000000000111000001111111, 0b10100000000000000010000000101111)"
  | "pattern_rv32a AMOMINU_W =
      (0b11111000000000000111000001111111, 0b11000000000000000010000000101111)"
  | "pattern_rv32a AMOMAXU_W =
      (0b11111000000000000111000001111111, 0b11100000000000000010000000101111)"

primrec pattern_rv64i :: "rv64i \<Rightarrow> u32 \<times> u32" where
    "pattern_rv64i LWU =
      (0b00000000000000000111000001111111, 0b00000000000000000110000000000011)"
  | "pattern_rv64i LD =
      (0b00000000000000000111000001111111, 0b00000000000000000011000000000011)"
  | "pattern_rv64i SD =
      (0b00000000000000000111000001111111, 0b00000000000000000011000000100011)"
  | "pattern_rv64i ADDIW =
      (0b00000000000000000111000001111111, 0b00000000000000000000000000011011)"
  | "pattern_rv64i SLLIW =
      (0b11111110000000000111000001111111, 0b00000000000000000001000000011011)"
  | "pattern_rv64i SRLIW =
      (0b11111110000000000111000001111111, 0b00000000000000000101000000011011)"
  | "pattern_rv64i SRAIW =
      (0b11111110000000000111000001111111, 0b01000000000000000101000000011011)"
  | "pattern_rv64i ADDW =
      (0b11111110000000000111000001111111, 0b00000000000000000000000000111011)"
  | "pattern_rv64i SUBW =
      (0b11111110000000000111000001111111, 0b01000000000000000000000000111011)"
  | "pattern_rv64i SLLW =
      (0b11111110000000000111000001111111, 0b00000000000000000001000000111011)"
  | "pattern_rv64i SRLW =
      (0b11111110000000000111000001111111, 0b00000000000000000101000000111011)"
  | "pattern_rv64i SRAW =
      (0b11111110000000000111000001111111, 0b01000000000000000101000000111011)"

primrec pattern_rv64m :: "rv64m \<Rightarrow> u32 \<times> u32" where
    "pattern_rv64m MULW =
      (0b11111110000000000111000001111111, 0b00000010000000000000000000111011)"
  | "pattern_rv64m DIVW =
      (0b11111110000000000111000001111111, 0b00000010000000000100000000111011)"
  | "pattern_rv64m DIVUW =
      (0b11111110000000000111000001111111, 0b00000010000000000101000000111011)"
  | "pattern_rv64m REMW =
      (0b11111110000000000111000001111111, 0b00000010000000000110000000111011)"
  | "pattern_rv64m REMUW =
      (0b11111110000000000111000001111111, 0b00000010000000000111000000111011)"

primrec pattern_rv64a :: "rv64a \<Rightarrow> u32 \<times> u32" where
    "pattern_rv64a LR_D =
      (0b11111001111100000111000001111111, 0b00010000000000000011000000101111)"
  | "pattern_rv64a SC_D =
      (0b11111000000000000111000001111111, 0b00011000000000000011000000101111)"
  | "pattern_rv64a AMOSWAP_D =
      (0b11111000000000000111000001111111, 0b00001000000000000011000000101111)"
  | "pattern_rv64a AMOADD_D =
      (0b11111000000000000111000001111111, 0b00000000000000000011000000101111)"
  | "pattern_rv64a AMOXOR_D =
      (0b11111000000000000111000001111111, 0b00100000000000000011000000101111)"
  | "pattern_rv64a AMOAND_D =
      (0b11111000000000000111000001111111, 0b01100000000000000011000000101111)"
  | "pattern_rv64a AMOOR_D =
      (0b11111000000000000111000001111111, 0b01000000000000000011000000101111)"
  | "pattern_rv64a AMOMIN_D =
      (0b11111000000000000111000001111111, 0b10000000000000000011000000101111)"
  | "pattern_rv64a AMOMAX_D =
      (0b11111000000000000111000001111111, 0b10100000000000000011000000101111)"
  | "pattern_rv64a AMOMINU_D =
      (0b11111000000000000111000001111111, 0b11000000000000000011000000101111)"
  | "pattern_rv64a AMOMAXU_D =
      (0b11111000000000000111000001111111, 0b11100000000000000011000000101111)"

primrec pattern_rv32f :: "rv32f \<Rightarrow> u32 \<times> u32" where
    "pattern_rv32f FLW =
      (0b00000000000000000111000001111111, 0b00000000000000000010000000000111)"
  | "pattern_rv32f FSW =
      (0b00000000000000000111000001111111, 0b00000000000000000010000000100111)"
  | "pattern_rv32f FMADD_S =
      (0b00000110000000000000000001111111, 0b00000000000000000000000001000011)"
  | "pattern_rv32f FMSUB_S =
      (0b00000110000000000000000001111111, 0b00000000000000000000000001000111)"
  | "pattern_rv32f FNMADD_S =
      (0b00000110000000000000000001111111, 0b00000000000000000000000001001111)"
  | "pattern_rv32f FNMSUB_S =
      (0b00000110000000000000000001111111, 0b00000000000000000000000001001011)"
  | "pattern_rv32f FADD_S =
      (0b11111110000000000000000001111111, 0b00000000000000000000000001010011)"
  | "pattern_rv32f FSUB_S =
      (0b11111110000000000000000001111111, 0b00001000000000000000000001010011)"
  | "pattern_rv32f FMUL_S =
      (0b11111110000000000000000001111111, 0b00010000000000000000000001010011)"
  | "pattern_rv32f FDIV_S =
      (0b11111110000000000000000001111111, 0b00011000000000000000000001010011)"
  | "pattern_rv32f FSQRT_S =
      (0b11111111111100000000000001111111, 0b01011000000000000000000001010011)"
  | "pattern_rv32f FSGNJ_S =
      (0b11111110000000000111000001111111, 0b00100000000000000000000001010011)"
  | "pattern_rv32f FSGNJN_S =
      (0b11111110000000000111000001111111, 0b00100000000000000001000001010011)"
  | "pattern_rv32f FSGNJX_S =
      (0b11111110000000000111000001111111, 0b00100000000000000010000001010011)"
  | "pattern_rv32f FMIN_S =
      (0b11111110000000000111000001111111, 0b00101000000000000000000001010011)"
  | "pattern_rv32f FMAX_S =
      (0b11111110000000000111000001111111, 0b00101000000000000001000001010011)"
  | "pattern_rv32f FCVT_W_S =
      (0b11111111111100000000000001111111, 0b11000000000000000000000001010011)"
  | "pattern_rv32f FCVT_WU_S =
      (0b11111111111100000000000001111111, 0b11000000000100000000000001010011)"
  | "pattern_rv32f FMV_X_W =
      (0b11111111111100000111000001111111, 0b11100000000000000000000001010011)"
  | "pattern_rv32f FEQ_S =
      (0b11111110000000000111000001111111, 0b10100000000000000010000001010011)"
  | "pattern_rv32f FLT_S =
      (0b11111110000000000111000001111111, 0b10100000000000000001000001010011)"
  | "pattern_rv32f FLE_S =
      (0b11111110000000000111000001111111, 0b10100000000000000000000001010011)"
  | "pattern_rv32f FCLASS_S =
      (0b11111111111100000111000001111111, 0b11100000000000000001000001010011)"
  | "pattern_rv32f FCVT_S_W =
      (0b11111111111100000000000001111111, 0b11010000000000000000000001010011)"
  | "pattern_rv32f FCVT_S_WU =
      (0b11111111111100000000000001111111, 0b11010000000100000000000001010011)"
  | "pattern_rv32f FMV_W_X =
      (0b11111111111100000111000001111111, 0b11110000000000000000000001010011)"

primrec pattern_rv64f :: "rv64f \<Rightarrow> u32 \<times> u32" where
    "pattern_rv64f FCVT_L_S =
      (0b11111111111100000000000001111111, 0b11000000001000000000000001010011)"
  | "pattern_rv64f FCVT_LU_S =
      (0b11111111111100000000000001111111, 0b11000000001100000000000001010011)"
  | "pattern_rv64f FCVT_S_L =
      (0b11111111111100000000000001111111, 0b11010000001000000000000001010011)"
  | "pattern_rv64f FCVT_S_LU =
      (0b11111111111100000000000001111111, 0b11010000001100000000000001010011)"

primrec pattern_rv32d :: "rv32d \<Rightarrow> u32 \<times> u32" where
    "pattern_rv32d FLD =
      (0b00000000000000000111000001111111, 0b00000000000000000011000000000111)"
  | "pattern_rv32d FSD =
      (0b00000000000000000111000001111111, 0b00000000000000000011000000100111)"
  | "pattern_rv32d FMADD_D =
      (0b00000110000000000000000001111111, 0b00000010000000000000000001000011)"
  | "pattern_rv32d FMSUB_D =
      (0b00000110000000000000000001111111, 0b00000010000000000000000001000111)"
  | "pattern_rv32d FNMSUB_D =
      (0b00000110000000000000000001111111, 0b00000010000000000000000001001011)"
  | "pattern_rv32d FNMADD_D =
      (0b00000110000000000000000001111111, 0b00000010000000000000000001001111)"
  | "pattern_rv32d FADD_D =
      (0b11111110000000000000000001111111, 0b00000010000000000000000001010011)"
  | "pattern_rv32d FSUB_D =
      (0b11111110000000000000000001111111, 0b00001010000000000000000001010011)"
  | "pattern_rv32d FMUL_D =
      (0b11111110000000000000000001111111, 0b00010010000000000000000001010011)"
  | "pattern_rv32d FDIV_D =
      (0b11111110000000000000000001111111, 0b00011010000000000000000001010011)"
  | "pattern_rv32d FSQRT_D =
      (0b11111111111100000000000001111111, 0b01011010000000000000000001010011)"
  | "pattern_rv32d FSGNJ_D =
      (0b11111110000000000111000001111111, 0b00100010000000000000000001010011)"
  | "pattern_rv32d FSGNJN_D =
      (0b11111110000000000111000001111111, 0b00100010000000000001000001010011)"
  | "pattern_rv32d FSGNJX_D =
      (0b11111110000000000111000001111111, 0b00100010000000000010000001010011)"
  | "pattern_rv32d FMIN_D =
      (0b11111110000000000111000001111111, 0b00101010000000000000000001010011)"
  | "pattern_rv32d FMAX_D =
      (0b11111110000000000111000001111111, 0b00101010000000000001000001010011)"
  | "pattern_rv32d FCVT_S_D =
      (0b11111111111100000000000001111111, 0b01000000000100000000000001010011)"
  | "pattern_rv32d FCVT_D_S =
      (0b11111111111100000000000001111111, 0b01000010000000000000000001010011)"
  | "pattern_rv32d FEQ_D =
      (0b11111110000000000111000001111111, 0b10100010000000000010000001010011)"
  | "pattern_rv32d FLT_D =
      (0b11111110000000000111000001111111, 0b10100010000000000001000001010011)"
  | "pattern_rv32d FLE_D =
      (0b11111110000000000111000001111111, 0b10100010000000000000000001010011)"
  | "pattern_rv32d FCLASS_D =
      (0b11111111111100000111000001111111, 0b11100010000000000001000001010011)"
  | "pattern_rv32d FCVT_W_D =
      (0b11111111111100000000000001111111, 0b11000010000000000000000001010011)"
  | "pattern_rv32d FCVT_WU_D =
      (0b11111111111100000000000001111111, 0b11000010000100000000000001010011)"
  | "pattern_rv32d FCVT_D_W =
      (0b11111111111100000000000001111111, 0b11010010000000000000000001010011)"
  | "pattern_rv32d FCVT_D_WU =
      (0b11111111111100000000000001111111, 0b11010010000100000000000001010011)"

primrec pattern_rv64d :: "rv64d \<Rightarrow> u32 \<times> u32" where
    "pattern_rv64d FCVT_L_D =
      (0b11111111111100000000000001111111, 0b11000010001000000000000001010011)"
  | "pattern_rv64d FCVT_LU_D =
      (0b11111111111100000000000001111111, 0b11000010001100000000000001010011)"
  | "pattern_rv64d FMV_X_D =
      (0b11111111111100000111000001111111, 0b11100010000000000000000001010011)"
  | "pattern_rv64d FCVT_D_L =
      (0b11111111111100000000000001111111, 0b11010010001000000000000001010011)"
  | "pattern_rv64d FCVT_D_LU =
      (0b11111111111100000000000001111111, 0b11010010001100000000000001010011)"
  | "pattern_rv64d FMV_D_X =
      (0b11111111111100000111000001111111, 0b11110010000000000000000001010011)"

primrec pattern_privileged :: "privileged \<Rightarrow> u32 \<times> u32" where
    "pattern_privileged URET =
      (0b11111111111111111111111111111111, 0b00000000001000000000000001110011)"
  | "pattern_privileged SRET =
      (0b11111111111111111111111111111111, 0b00010000001000000000000001110011)"
  | "pattern_privileged MRET =
      (0b11111111111111111111111111111111, 0b00110000001000000000000001110011)"
  | "pattern_privileged WFI =
      (0b11111111111111111111111111111111, 0b00010000010100000000000001110011)"
  | "pattern_privileged SFENCE_VMA =
      (0b11111110000000000111111111111111, 0b00010010000000000000000001110011)"

text \<open>The RV32 forms of the shift-by-immediate patterns (one more mask bit than the RV64 forms).\<close>

definition pattern_SLLI_32 :: "u32 \<times> u32" where
  "pattern_SLLI_32 =
     (0b11111110000000000111000001111111, 0b00000000000000000001000000010011)"

definition pattern_SRLI_32 :: "u32 \<times> u32" where
  "pattern_SRLI_32 =
     (0b11111110000000000111000001111111, 0b00000000000000000101000000010011)"

definition pattern_SRAI_32 :: "u32 \<times> u32" where
  "pattern_SRAI_32 =
     (0b11111110000000000111000001111111, 0b01000000000000000101000000010011)"

primrec pattern :: "Mapping \<Rightarrow> u32 \<times> u32" where
    "pattern UNDEF = (0, 1)"
  | "pattern (OpI x) = pattern_rv32i x"
  | "pattern (OpZifencei x) = pattern_zifencei x"
  | "pattern (OpZicsr x) = pattern_zicsr x"
  | "pattern (OpM x) = pattern_rv32m x"
  | "pattern (OpA x) = pattern_rv32a x"
  | "pattern (OpI64 x) = pattern_rv64i x"
  | "pattern (OpM64 x) = pattern_rv64m x"
  | "pattern (OpA64 x) = pattern_rv64a x"
  | "pattern (OpF x) = pattern_rv32f x"
  | "pattern (OpF64 x) = pattern_rv64f x"
  | "pattern (OpD x) = pattern_rv32d x"
  | "pattern (OpD64 x) = pattern_rv64d x"
  | "pattern (OpPriv x) = pattern_privileged x"

section \<open>Opcode::getType\<close>

datatype Type = Type_UNKNOWN | Type_R | Type_I | Type_S | Type_B | Type_U | Type_J | Type_R4

text \<open>
  The instruction format the trace printer uses; the source lists the opcodes format by format,
  and every opcode it does not list is \<open>Type_UNKNOWN\<close>.
\<close>

definition getType_rv32i :: "rv32i \<Rightarrow> Type" where
  "getType_rv32i x = (case x of
       LUI \<Rightarrow> Type_U
     | AUIPC \<Rightarrow> Type_U
     | JAL \<Rightarrow> Type_J
     | JALR \<Rightarrow> Type_I
     | BEQ \<Rightarrow> Type_B
     | BNE \<Rightarrow> Type_B
     | BLT \<Rightarrow> Type_B
     | BGE \<Rightarrow> Type_B
     | BLTU \<Rightarrow> Type_B
     | BGEU \<Rightarrow> Type_B
     | LB \<Rightarrow> Type_I
     | LH \<Rightarrow> Type_I
     | LW \<Rightarrow> Type_I
     | LBU \<Rightarrow> Type_I
     | LHU \<Rightarrow> Type_I
     | SB \<Rightarrow> Type_S
     | SH \<Rightarrow> Type_S
     | SW \<Rightarrow> Type_S
     | ADDI \<Rightarrow> Type_I
     | SLTI \<Rightarrow> Type_I
     | SLTIU \<Rightarrow> Type_I
     | XORI \<Rightarrow> Type_I
     | ORI \<Rightarrow> Type_I
     | ANDI \<Rightarrow> Type_I
     | FENCE \<Rightarrow> Type_UNKNOWN
     | ECALL \<Rightarrow> Type_UNKNOWN
     | EBREAK \<Rightarrow> Type_UNKNOWN
     | _ \<Rightarrow> Type_R)"

definition getType_zifencei :: "zifencei \<Rightarrow> Type" where
  "getType_zifencei x = Type_UNKNOWN"

definition getType_zicsr :: "zicsr \<Rightarrow> Type" where
  "getType_zicsr x = Type_UNKNOWN"

definition getType_rv32m :: "rv32m \<Rightarrow> Type" where
  "getType_rv32m x = Type_R"

definition getType_rv32a :: "rv32a \<Rightarrow> Type" where
  "getType_rv32a x = Type_R"

definition getType_rv64i :: "rv64i \<Rightarrow> Type" where
  "getType_rv64i x = (case x of
       SD \<Rightarrow> Type_S
     | ADDW \<Rightarrow> Type_R
     | SUBW \<Rightarrow> Type_R
     | SLLW \<Rightarrow> Type_R
     | SRLW \<Rightarrow> Type_R
     | SRAW \<Rightarrow> Type_R
     | _ \<Rightarrow> Type_I)"

definition getType_rv64m :: "rv64m \<Rightarrow> Type" where
  "getType_rv64m x = Type_R"

definition getType_rv64a :: "rv64a \<Rightarrow> Type" where
  "getType_rv64a x = Type_R"

definition getType_rv32f :: "rv32f \<Rightarrow> Type" where
  "getType_rv32f x = (case x of
       FLW \<Rightarrow> Type_I
     | FSW \<Rightarrow> Type_S
     | FMADD_S \<Rightarrow> Type_R4
     | FMSUB_S \<Rightarrow> Type_R4
     | FNMADD_S \<Rightarrow> Type_R4
     | FNMSUB_S \<Rightarrow> Type_R4
     | _ \<Rightarrow> Type_R)"

definition getType_rv64f :: "rv64f \<Rightarrow> Type" where
  "getType_rv64f x = Type_R"

definition getType_rv32d :: "rv32d \<Rightarrow> Type" where
  "getType_rv32d x = (case x of
       FLD \<Rightarrow> Type_I
     | FSD \<Rightarrow> Type_S
     | FMADD_D \<Rightarrow> Type_R4
     | FMSUB_D \<Rightarrow> Type_R4
     | FNMSUB_D \<Rightarrow> Type_R4
     | FNMADD_D \<Rightarrow> Type_R4
     | _ \<Rightarrow> Type_R)"

definition getType_rv64d :: "rv64d \<Rightarrow> Type" where
  "getType_rv64d x = Type_R"

definition getType_privileged :: "privileged \<Rightarrow> Type" where
  "getType_privileged x = Type_UNKNOWN"

primrec getType :: "Mapping \<Rightarrow> Type" where
    "getType UNDEF = Type_UNKNOWN"
  | "getType (OpI x) = getType_rv32i x"
  | "getType (OpZifencei x) = getType_zifencei x"
  | "getType (OpZicsr x) = getType_zicsr x"
  | "getType (OpM x) = getType_rv32m x"
  | "getType (OpA x) = getType_rv32a x"
  | "getType (OpI64 x) = getType_rv64i x"
  | "getType (OpM64 x) = getType_rv64m x"
  | "getType (OpA64 x) = getType_rv64a x"
  | "getType (OpF x) = getType_rv32f x"
  | "getType (OpF64 x) = getType_rv64f x"
  | "getType (OpD x) = getType_rv32d x"
  | "getType (OpD64 x) = getType_rv64d x"
  | "getType (OpPriv x) = getType_privileged x"

section \<open>Bit macros\<close>

text \<open>
  The macros are used on \<^verbatim>\<open>int32_t\<close> operands (\<^verbatim>\<open>Instruction::instr\<close> and the immediates of jumps and
  branches), where the right shift is arithmetic, and on \<^verbatim>\<open>uint32_t\<close> operands, where it is logical;
  the variants with suffix \<open>_u\<close> are the latter. Shifting into the sign bit wraps, as it does on
  every compiler the project supports.
\<close>

definition BIT_RANGE :: "u32 \<Rightarrow> nat \<Rightarrow> nat \<Rightarrow> u32" where
  "BIT_RANGE instr upper lower = instr AND push_bit lower (push_bit (upper - lower + 1) 1 - 1)"

definition BIT_SLICE :: "u32 \<Rightarrow> nat \<Rightarrow> nat \<Rightarrow> u32" where
  "BIT_SLICE instr upper lower = signed_drop_bit lower (BIT_RANGE instr upper lower)"

definition BIT_SLICE_u :: "u32 \<Rightarrow> nat \<Rightarrow> nat \<Rightarrow> u32" where
  "BIT_SLICE_u instr upper lower = drop_bit lower (BIT_RANGE instr upper lower)"

definition BIT_SINGLE :: "u32 \<Rightarrow> nat \<Rightarrow> u32" where
  "BIT_SINGLE instr pos = instr AND push_bit pos 1"

definition BIT_SINGLE_P1 :: "u32 \<Rightarrow> nat \<Rightarrow> u32" where
  "BIT_SINGLE_P1 instr pos = signed_drop_bit pos (BIT_SINGLE instr pos)"

definition BIT_SINGLE_P1_u :: "u32 \<Rightarrow> nat \<Rightarrow> u32" where
  "BIT_SINGLE_P1_u instr pos = drop_bit pos (BIT_SINGLE instr pos)"

definition BIT_SINGLE_PN :: "u32 \<Rightarrow> nat \<Rightarrow> nat \<Rightarrow> u32" where
  "BIT_SINGLE_PN instr pos new_pos = push_bit new_pos (signed_drop_bit pos (BIT_SINGLE instr pos))"

definition BIT_SINGLE_PN_u :: "u32 \<Rightarrow> nat \<Rightarrow> nat \<Rightarrow> u32" where
  "BIT_SINGLE_PN_u instr pos new_pos = push_bit new_pos (drop_bit pos (BIT_SINGLE instr pos))"

definition EXTRACT_SIGN_BIT :: "u32 \<Rightarrow> nat \<Rightarrow> nat \<Rightarrow> u32" where
  "EXTRACT_SIGN_BIT instr pos new_pos =
     signed_drop_bit (31 - new_pos) (push_bit 31 (BIT_SINGLE_P1 instr pos))"

section \<open>Instruction accessors\<close>

definition quadrant :: "u32 \<Rightarrow> u32" where
  "quadrant instr = instr AND 0x3"

definition is_compressed :: "u32 \<Rightarrow> bool" where
  "is_compressed instr = (quadrant instr < 3)"

definition c_format :: "u32 \<Rightarrow> u32" where
  "c_format instr = instr AND 0xffff"

definition c_opcode :: "u32 \<Rightarrow> u32" where
  "c_opcode instr = BIT_SLICE instr 15 13"

definition c_b12 :: "u32 \<Rightarrow> u32" where
  "c_b12 instr = BIT_SINGLE_P1 instr 12"

definition rd :: "u32 \<Rightarrow> u32" where
  "rd instr = signed_drop_bit 7 (BIT_RANGE instr 11 7)"

definition c_rd :: "u32 \<Rightarrow> u32" where
  "c_rd instr = rd instr"

definition c_rd_small :: "u32 \<Rightarrow> u32" where
  "c_rd_small instr = BIT_SLICE instr 9 7 OR 8"

definition c_rs2_small :: "u32 \<Rightarrow> u32" where
  "c_rs2_small instr = BIT_SLICE instr 4 2 OR 8"

definition c_rs2 :: "u32 \<Rightarrow> u32" where
  "c_rs2 instr = BIT_SLICE instr 6 2"

definition c_imm :: "u32 \<Rightarrow> u32" where
  "c_imm instr = BIT_SLICE instr 6 2 OR EXTRACT_SIGN_BIT instr 12 5"

definition c_uimm :: "u32 \<Rightarrow> u32" where
  "c_uimm instr = BIT_SLICE instr 6 2 OR push_bit 5 (BIT_SINGLE_P1 instr 12)"

definition c_f2_high :: "u32 \<Rightarrow> u32" where
  "c_f2_high instr = BIT_SLICE instr 11 10"

definition c_f2_low :: "u32 \<Rightarrow> u32" where
  "c_f2_low instr = BIT_SLICE instr 6 5"

text \<open>\<^verbatim>\<open>Instruction::csr\<close>; the field of the \<open>Mapping\<close> groups is called \<open>csr_addr\<close> here.\<close>

definition csr_addr :: "u32 \<Rightarrow> u32" where
  "csr_addr instr = drop_bit 20 (BIT_RANGE instr 31 20)"

definition zimm :: "u32 \<Rightarrow> u32" where
  "zimm instr = signed_drop_bit 15 (BIT_RANGE instr 19 15)"

definition shamt :: "u32 \<Rightarrow> u32" where
  "shamt instr = signed_drop_bit 20 (BIT_RANGE instr 25 20)"

definition shamt_w :: "u32 \<Rightarrow> u32" where
  "shamt_w instr = signed_drop_bit 20 (BIT_RANGE instr 24 20)"

definition funct2 :: "u32 \<Rightarrow> u32" where
  "funct2 instr = signed_drop_bit 25 (BIT_RANGE instr 26 25)"

definition funct3 :: "u32 \<Rightarrow> u32" where
  "funct3 instr = signed_drop_bit 12 (BIT_RANGE instr 14 12)"

definition funct12 :: "u32 \<Rightarrow> u32" where
  "funct12 instr = drop_bit 20 (BIT_RANGE instr 31 20)"

definition funct7 :: "u32 \<Rightarrow> u32" where
  "funct7 instr = drop_bit 25 (BIT_RANGE instr 31 25)"

definition funct6 :: "u32 \<Rightarrow> u32" where
  "funct6 instr = drop_bit 26 (BIT_RANGE instr 31 26)"

definition funct5 :: "u32 \<Rightarrow> u32" where
  "funct5 instr = drop_bit 27 (BIT_RANGE instr 31 27)"

definition frm :: "u32 \<Rightarrow> u32" where
  "frm instr = BIT_SLICE instr 14 12"

definition fence_succ :: "u32 \<Rightarrow> u32" where
  "fence_succ instr = BIT_SLICE instr 23 20"

definition fence_pred :: "u32 \<Rightarrow> u32" where
  "fence_pred instr = BIT_SLICE instr 27 24"

definition fence_fm :: "u32 \<Rightarrow> u32" where
  "fence_fm instr = BIT_SLICE instr 31 28"

definition aq :: "u32 \<Rightarrow> bool" where
  "aq instr = (BIT_SINGLE instr 26 \<noteq> 0)"

definition rl :: "u32 \<Rightarrow> bool" where
  "rl instr = (BIT_SINGLE instr 25 \<noteq> 0)"

definition opcode :: "u32 \<Rightarrow> u32" where
  "opcode instr = BIT_RANGE instr 6 0"

definition J_imm :: "u32 \<Rightarrow> u32" where
  "J_imm instr =
     signed_drop_bit 11 (BIT_SINGLE instr 31) OR BIT_RANGE instr 19 12 OR
     signed_drop_bit 9 (BIT_SINGLE instr 20) OR signed_drop_bit 20 (BIT_RANGE instr 30 21)"

definition I_imm :: "u32 \<Rightarrow> u32" where
  "I_imm instr = signed_drop_bit 20 (BIT_RANGE instr 31 20)"

definition S_imm :: "u32 \<Rightarrow> u32" where
  "S_imm instr = signed_drop_bit 20 (BIT_RANGE instr 31 25) OR signed_drop_bit 7 (BIT_RANGE instr 11 7)"

definition B_imm :: "u32 \<Rightarrow> u32" where
  "B_imm instr =
     signed_drop_bit 19 (BIT_SINGLE instr 31) OR push_bit 4 (BIT_SINGLE instr 7) OR
     signed_drop_bit 20 (BIT_RANGE instr 30 25) OR signed_drop_bit 7 (BIT_RANGE instr 11 8)"

definition U_imm :: "u32 \<Rightarrow> u32" where
  "U_imm instr = BIT_RANGE instr 31 12"

definition rs1 :: "u32 \<Rightarrow> u32" where
  "rs1 instr = signed_drop_bit 15 (BIT_RANGE instr 19 15)"

definition rs2 :: "u32 \<Rightarrow> u32" where
  "rs2 instr = signed_drop_bit 20 (BIT_RANGE instr 24 20)"

definition rs3 :: "u32 \<Rightarrow> u32" where
  "rs3 instr = drop_bit 27 (BIT_RANGE instr 31 27)"

section \<open>Bits of the macros and accessors\<close>

named_theorems instr_bits \<open>the bits of the decoder's macros and accessors\<close>

lemma bit_BIT_RANGE [instr_bits]:
  assumes "l \<le> u" and "u < 32"
  shows "bit (BIT_RANGE w u l) n \<longleftrightarrow> l \<le> n \<and> n \<le> u \<and> bit w n"
proof -
  have "push_bit (u - l + 1) 1 - 1 = (mask (u - l + 1) :: u32)"
    by (simp add: mask_eq_exp_minus_1)
  then show ?thesis
    using assms by (auto simp: BIT_RANGE_def bit_simps)
qed

lemma bit_BIT_SINGLE [instr_bits]: "p < 32 \<Longrightarrow> bit (BIT_SINGLE w p) n \<longleftrightarrow> n = p \<and> bit w p"
  by (auto simp: BIT_SINGLE_def bit_simps)

lemma bit_sdrop32 [instr_bits]:
  "bit (signed_drop_bit m (w :: u32)) n \<longleftrightarrow> n < 32 \<and> bit w (if 32 - m \<le> n then 31 else m + n)"
  by (cases "n < 32") (auto simp: bit_signed_drop_bit_iff dest: bit_imp_le_length)

lemma bit_drop32 [instr_bits]: "bit (drop_bit m (w :: u32)) n \<longleftrightarrow> bit w (m + n)"
  by (simp add: bit_drop_bit_eq)

lemma bit_push32 [instr_bits]:
  "bit (push_bit m (w :: u32)) n \<longleftrightarrow> m \<le> n \<and> n < 32 \<and> bit w (n - m)"
  by (auto simp: bit_push_bit_iff)

lemma bit_twice32 [instr_bits]: "bit (w * 2 :: u32) n \<longleftrightarrow> 0 < n \<and> n < 32 \<and> bit w (n - 1)"
  using bit_push32 [of 1 w n] by (simp add: push_bit_eq_mult Suc_le_eq)

lemma bit_ge32 [instr_bits]: "32 \<le> n \<Longrightarrow> bit (w :: u32) n = False"
  by (auto dest: bit_imp_le_length)

lemmas macro_defs = BIT_SLICE_def BIT_SLICE_u_def BIT_SINGLE_P1_def BIT_SINGLE_P1_u_def
  BIT_SINGLE_PN_def BIT_SINGLE_PN_u_def EXTRACT_SIGN_BIT_def

lemmas accessor_defs = quadrant_def c_format_def c_opcode_def c_b12_def rd_def c_rd_def
  c_rd_small_def c_rs2_small_def c_rs2_def c_imm_def c_uimm_def c_f2_high_def c_f2_low_def
  csr_addr_def zimm_def shamt_def shamt_w_def funct2_def funct3_def funct12_def funct7_def
  funct6_def funct5_def frm_def fence_succ_def fence_pred_def fence_fm_def opcode_def J_imm_def
  I_imm_def S_imm_def B_imm_def U_imm_def rs1_def rs2_def rs3_def

text \<open>
  A field that does not reach the sign bit is the plain bit slice, whichever shift the source
  uses; this is the normal form the decoder proofs work with.
\<close>

lemma slice_signed:
  assumes "l \<le> u" and "u < 31"
  shows "signed_drop_bit l (BIT_RANGE w u l) = take_bit (u - l + 1) (drop_bit l w)"
  using assms by (intro bit_word_eqI) (auto simp: instr_bits bit_take_bit_iff)

lemma slice_unsigned:
  assumes "l \<le> u" and "u < 32"
  shows "drop_bit l (BIT_RANGE w u l) = take_bit (u - l + 1) (drop_bit l w)"
  using assms by (intro bit_word_eqI) (auto simp: instr_bits bit_take_bit_iff)

lemma slice_low: "u < 32 \<Longrightarrow> BIT_RANGE w u 0 = take_bit (u + 1) w"
  by (intro bit_word_eqI) (auto simp: instr_bits bit_take_bit_iff)

lemma register_fields:
  "rd w = take_bit 5 (drop_bit 7 w)" "rs1 w = take_bit 5 (drop_bit 15 w)"
  "rs2 w = take_bit 5 (drop_bit 20 w)" "rs3 w = take_bit 5 (drop_bit 27 w)"
  "zimm w = take_bit 5 (drop_bit 15 w)" "c_rs2 w = take_bit 5 (drop_bit 2 w)"
  by (simp_all add: accessor_defs macro_defs slice_signed slice_unsigned)

lemma funct2_field: "funct2 w = take_bit 2 (drop_bit 25 w)"
  by (simp add: funct2_def slice_signed numeral_2_eq_2)

lemma decoder_fields:
  "opcode w = take_bit 7 w"
  "funct3 w = take_bit 3 (drop_bit 12 w)" "funct5 w = take_bit 5 (drop_bit 27 w)"
  "funct6 w = take_bit 6 (drop_bit 26 w)" "funct7 w = take_bit 7 (drop_bit 25 w)"
  "funct12 w = take_bit 12 (drop_bit 20 w)" "shamt w = take_bit 6 (drop_bit 20 w)"
  "csr_addr w = take_bit 12 (drop_bit 20 w)"
  by (simp_all add: accessor_defs macro_defs slice_signed slice_unsigned slice_low)

lemma take_bit_unat_less: "unat (take_bit k (w :: u32)) < 2 ^ k"
  by (simp add: unsigned_take_bit_eq)

lemma register_index_bounds:
  "unat (rd w) < 32" "unat (rs1 w) < 32" "unat (rs2 w) < 32" "unat (rs3 w) < 32"
  using take_bit_unat_less [of 5] by (simp_all add: register_fields)

end
