(* ===== verification/Instr_Decode.thy ===== *)
theory Instr_Decode
  imports Instr
begin

text \<open>
  The decoder of uncompressed instructions, \<^verbatim>\<open>Instruction::decode_normal\<close>
  (\<^verbatim>\<open>core/common/instr.cpp\<close>): a switch over the major opcode whose cases switch over the minor
  opcode fields and then compare the whole word with the opcode's mask and encoding. One
  definition models each case of the outer switch that is itself a switch. The main result
  characterises the decoder exactly: it returns an opcode if and only if the word matches the
  mask and encoding of that opcode, so the nested switches lose no instruction, confuse no two
  and never accept a word the tables reject.
\<close>

section \<open>Matching a word against an opcode\<close>

definition match_and_return2 :: "u32 \<Rightarrow> u32 \<times> u32 \<Rightarrow> Mapping \<Rightarrow> Mapping" where
  "match_and_return2 data pat result = (if data AND fst pat \<noteq> snd pat then UNDEF else result)"

definition match_and_return :: "u32 \<Rightarrow> Mapping \<Rightarrow> Mapping" where
  "match_and_return data op = match_and_return2 data (pattern op) op"

section \<open>Instruction::decode\_normal\<close>

definition decode_OP_BEQ :: "u32 \<Rightarrow> Mapping" where
  "decode_OP_BEQ instr =
  (if funct3 instr = F3_BEQ then match_and_return instr (OpI BEQ)
   else if funct3 instr = F3_BNE then match_and_return instr (OpI BNE)
   else if funct3 instr = F3_BLT then match_and_return instr (OpI BLT)
   else if funct3 instr = F3_BGE then match_and_return instr (OpI BGE)
   else if funct3 instr = F3_BLTU then match_and_return instr (OpI BLTU)
   else if funct3 instr = F3_BGEU then match_and_return instr (OpI BGEU)
   else UNDEF)"

definition decode_OP_LB :: "u32 \<Rightarrow> Mapping" where
  "decode_OP_LB instr =
  (if funct3 instr = F3_LB then match_and_return instr (OpI LB)
   else if funct3 instr = F3_LH then match_and_return instr (OpI LH)
   else if funct3 instr = F3_LW then match_and_return instr (OpI LW)
   else if funct3 instr = F3_LBU then match_and_return instr (OpI LBU)
   else if funct3 instr = F3_LHU then match_and_return instr (OpI LHU)
   else if funct3 instr = F3_LWU then match_and_return instr (OpI64 LWU)
   else if funct3 instr = F3_LD then match_and_return instr (OpI64 LD)
   else UNDEF)"

definition decode_OP_SB :: "u32 \<Rightarrow> Mapping" where
  "decode_OP_SB instr =
  (if funct3 instr = F3_SB then match_and_return instr (OpI SB)
   else if funct3 instr = F3_SH then match_and_return instr (OpI SH)
   else if funct3 instr = F3_SW then match_and_return instr (OpI SW)
   else if funct3 instr = F3_SD then match_and_return instr (OpI64 SD)
   else UNDEF)"

definition decode_OP_ADDI :: "u32 \<Rightarrow> Architecture \<Rightarrow> Mapping" where
  "decode_OP_ADDI instr arch =
  (if funct3 instr = F3_ADDI then match_and_return instr (OpI ADDI)
   else if funct3 instr = F3_SLTI then match_and_return instr (OpI SLTI)
   else if funct3 instr = F3_SLTIU then match_and_return instr (OpI SLTIU)
   else if funct3 instr = F3_XORI then match_and_return instr (OpI XORI)
   else if funct3 instr = F3_ORI then match_and_return instr (OpI ORI)
   else if funct3 instr = F3_ANDI then match_and_return instr (OpI ANDI)
   else if funct3 instr = F3_SLLI then (if arch = RV32 then match_and_return2 instr pattern_SLLI_32 (OpI SLLI)
     else match_and_return instr (OpI SLLI))
   else if funct3 instr = F3_SRLI then (if funct6 instr = F6_SRLI then (if arch = RV32 then match_and_return2 instr pattern_SRLI_32 (OpI SRLI)
       else match_and_return instr (OpI SRLI))
     else if funct6 instr = F6_SRAI then (if arch = RV32 then match_and_return2 instr pattern_SRAI_32 (OpI SRAI)
       else match_and_return instr (OpI SRAI))
     else UNDEF)
   else UNDEF)"

definition decode_OP_ADDIW :: "u32 \<Rightarrow> Mapping" where
  "decode_OP_ADDIW instr =
  (if funct3 instr = F3_ADDIW then match_and_return instr (OpI64 ADDIW)
   else if funct3 instr = F3_SLLIW then match_and_return instr (OpI64 SLLIW)
   else if funct3 instr = F3_SRLIW then (if funct7 instr = F7_SRLIW then match_and_return instr (OpI64 SRLIW)
     else if funct7 instr = F7_SRAIW then match_and_return instr (OpI64 SRAIW)
     else UNDEF)
   else UNDEF)"

definition decode_OP_ADD :: "u32 \<Rightarrow> Mapping" where
  "decode_OP_ADD instr =
  (if funct7 instr = F7_ADD then (if funct3 instr = F3_ADD then match_and_return instr (OpI ADD)
     else if funct3 instr = F3_SLL then match_and_return instr (OpI SLL)
     else if funct3 instr = F3_SLT then match_and_return instr (OpI SLT)
     else if funct3 instr = F3_SLTU then match_and_return instr (OpI SLTU)
     else if funct3 instr = F3_XOR then match_and_return instr (OpI XOR_R)
     else if funct3 instr = F3_SRL then match_and_return instr (OpI SRL)
     else if funct3 instr = F3_OR then match_and_return instr (OpI OR_R)
     else if funct3 instr = F3_AND then match_and_return instr (OpI AND_R)
     else UNDEF)
   else if funct7 instr = F7_SUB then (if funct3 instr = F3_SUB then match_and_return instr (OpI SUB)
     else if funct3 instr = F3_SRA then match_and_return instr (OpI SRA)
     else UNDEF)
   else if funct7 instr = F7_MUL then (if funct3 instr = F3_MUL then match_and_return instr (OpM MUL)
     else if funct3 instr = F3_MULH then match_and_return instr (OpM MULH)
     else if funct3 instr = F3_MULHSU then match_and_return instr (OpM MULHSU)
     else if funct3 instr = F3_MULHU then match_and_return instr (OpM MULHU)
     else if funct3 instr = F3_DIV then match_and_return instr (OpM DIV)
     else if funct3 instr = F3_DIVU then match_and_return instr (OpM DIVU)
     else if funct3 instr = F3_REM then match_and_return instr (OpM REM)
     else if funct3 instr = F3_REMU then match_and_return instr (OpM REMU)
     else UNDEF)
   else UNDEF)"

definition decode_OP_ADDW :: "u32 \<Rightarrow> Mapping" where
  "decode_OP_ADDW instr =
  (if funct7 instr = F7_ADDW then (if funct3 instr = F3_ADDW then match_and_return instr (OpI64 ADDW)
     else if funct3 instr = F3_SLLW then match_and_return instr (OpI64 SLLW)
     else if funct3 instr = F3_SRLW then match_and_return instr (OpI64 SRLW)
     else UNDEF)
   else if funct7 instr = F7_SUBW then (if funct3 instr = F3_SUBW then match_and_return instr (OpI64 SUBW)
     else if funct3 instr = F3_SRAW then match_and_return instr (OpI64 SRAW)
     else UNDEF)
   else if funct7 instr = F7_MULW then (if funct3 instr = F3_MULW then match_and_return instr (OpM64 MULW)
     else if funct3 instr = F3_DIVW then match_and_return instr (OpM64 DIVW)
     else if funct3 instr = F3_DIVUW then match_and_return instr (OpM64 DIVUW)
     else if funct3 instr = F3_REMW then match_and_return instr (OpM64 REMW)
     else if funct3 instr = F3_REMUW then match_and_return instr (OpM64 REMUW)
     else UNDEF)
   else UNDEF)"

definition decode_OP_FENCE :: "u32 \<Rightarrow> Mapping" where
  "decode_OP_FENCE instr =
  (if funct3 instr = F3_FENCE then match_and_return instr (OpI FENCE)
   else if funct3 instr = F3_FENCE_I then match_and_return instr (OpZifencei FENCE_I)
   else UNDEF)"

definition decode_OP_ECALL :: "u32 \<Rightarrow> Mapping" where
  "decode_OP_ECALL instr =
  (if funct3 instr = F3_SYS then (if funct12 instr = F12_ECALL then match_and_return instr (OpI ECALL)
     else if funct12 instr = F12_EBREAK then match_and_return instr (OpI EBREAK)
     else if funct12 instr = F12_URET then match_and_return instr (OpPriv URET)
     else if funct12 instr = F12_SRET then match_and_return instr (OpPriv SRET)
     else if funct12 instr = F12_MRET then match_and_return instr (OpPriv MRET)
     else if funct12 instr = F12_WFI then match_and_return instr (OpPriv WFI)
     else match_and_return instr (OpPriv SFENCE_VMA))
   else if funct3 instr = F3_CSRRW then match_and_return instr (OpZicsr CSRRW)
   else if funct3 instr = F3_CSRRS then match_and_return instr (OpZicsr CSRRS)
   else if funct3 instr = F3_CSRRC then match_and_return instr (OpZicsr CSRRC)
   else if funct3 instr = F3_CSRRWI then match_and_return instr (OpZicsr CSRRWI)
   else if funct3 instr = F3_CSRRSI then match_and_return instr (OpZicsr CSRRSI)
   else if funct3 instr = F3_CSRRCI then match_and_return instr (OpZicsr CSRRCI)
   else UNDEF)"

definition decode_OP_AMO :: "u32 \<Rightarrow> Mapping" where
  "decode_OP_AMO instr =
  (if funct5 instr = F5_LR_W then (if funct3 instr = F3_AMO_D then match_and_return instr (OpA64 LR_D)
     else match_and_return instr (OpA LR_W))
   else if funct5 instr = F5_SC_W then (if funct3 instr = F3_AMO_D then match_and_return instr (OpA64 SC_D)
     else match_and_return instr (OpA SC_W))
   else if funct5 instr = F5_AMOSWAP_W then (if funct3 instr = F3_AMO_D then match_and_return instr (OpA64 AMOSWAP_D)
     else match_and_return instr (OpA AMOSWAP_W))
   else if funct5 instr = F5_AMOADD_W then (if funct3 instr = F3_AMO_D then match_and_return instr (OpA64 AMOADD_D)
     else match_and_return instr (OpA AMOADD_W))
   else if funct5 instr = F5_AMOXOR_W then (if funct3 instr = F3_AMO_D then match_and_return instr (OpA64 AMOXOR_D)
     else match_and_return instr (OpA AMOXOR_W))
   else if funct5 instr = F5_AMOAND_W then (if funct3 instr = F3_AMO_D then match_and_return instr (OpA64 AMOAND_D)
     else match_and_return instr (OpA AMOAND_W))
   else if funct5 instr = F5_AMOOR_W then (if funct3 instr = F3_AMO_D then match_and_return instr (OpA64 AMOOR_D)
     else match_and_return instr (OpA AMOOR_W))
   else if funct5 instr = F5_AMOMIN_W then (if funct3 instr = F3_AMO_D then match_and_return instr (OpA64 AMOMIN_D)
     else match_and_return instr (OpA AMOMIN_W))
   else if funct5 instr = F5_AMOMAX_W then (if funct3 instr = F3_AMO_D then match_and_return instr (OpA64 AMOMAX_D)
     else match_and_return instr (OpA AMOMAX_W))
   else if funct5 instr = F5_AMOMINU_W then (if funct3 instr = F3_AMO_D then match_and_return instr (OpA64 AMOMINU_D)
     else match_and_return instr (OpA AMOMINU_W))
   else if funct5 instr = F5_AMOMAXU_W then (if funct3 instr = F3_AMO_D then match_and_return instr (OpA64 AMOMAXU_D)
     else match_and_return instr (OpA AMOMAXU_W))
   else UNDEF)"

definition decode_OP_FMADD_S :: "u32 \<Rightarrow> Mapping" where
  "decode_OP_FMADD_S instr =
  (if funct2 instr = F2_FMADD_S then match_and_return instr (OpF FMADD_S)
   else if funct2 instr = F2_FMADD_D then match_and_return instr (OpD FMADD_D)
   else UNDEF)"

definition decode_OP_FADD_S :: "u32 \<Rightarrow> Mapping" where
  "decode_OP_FADD_S instr =
  (if funct7 instr = F7_FADD_S then match_and_return instr (OpF FADD_S)
   else if funct7 instr = F7_FADD_D then match_and_return instr (OpD FADD_D)
   else if funct7 instr = F7_FSUB_S then match_and_return instr (OpF FSUB_S)
   else if funct7 instr = F7_FSUB_D then match_and_return instr (OpD FSUB_D)
   else if funct7 instr = F7_FCVT_D_S then match_and_return instr (OpD FCVT_D_S)
   else if funct7 instr = F7_FMUL_S then match_and_return instr (OpF FMUL_S)
   else if funct7 instr = F7_FMUL_D then match_and_return instr (OpD FMUL_D)
   else if funct7 instr = F7_FDIV_S then match_and_return instr (OpF FDIV_S)
   else if funct7 instr = F7_FDIV_D then match_and_return instr (OpD FDIV_D)
   else if funct7 instr = F7_FLE_S then (if funct3 instr = F3_FLE_S then match_and_return instr (OpF FLE_S)
     else if funct3 instr = F3_FLT_S then match_and_return instr (OpF FLT_S)
     else if funct3 instr = F3_FEQ_S then match_and_return instr (OpF FEQ_S)
     else UNDEF)
   else if funct7 instr = F7_FSGNJ_D then (if funct3 instr = F3_FSGNJ_D then match_and_return instr (OpD FSGNJ_D)
     else if funct3 instr = F3_FSGNJN_D then match_and_return instr (OpD FSGNJN_D)
     else if funct3 instr = F3_FSGNJX_D then match_and_return instr (OpD FSGNJX_D)
     else UNDEF)
   else if funct7 instr = F7_FMIN_S then (if funct3 instr = F3_FMIN_S then match_and_return instr (OpF FMIN_S)
     else if funct3 instr = F3_FMAX_S then match_and_return instr (OpF FMAX_S)
     else UNDEF)
   else if funct7 instr = F7_FMIN_D then (if funct3 instr = F3_FMIN_D then match_and_return instr (OpD FMIN_D)
     else if funct3 instr = F3_FMAX_D then match_and_return instr (OpD FMAX_D)
     else UNDEF)
   else if funct7 instr = F7_FCVT_S_D then match_and_return instr (OpD FCVT_S_D)
   else if funct7 instr = F7_FSGNJ_S then (if funct3 instr = F3_FSGNJ_S then match_and_return instr (OpF FSGNJ_S)
     else if funct3 instr = F3_FSGNJN_S then match_and_return instr (OpF FSGNJN_S)
     else if funct3 instr = F3_FSGNJX_S then match_and_return instr (OpF FSGNJX_S)
     else UNDEF)
   else if funct7 instr = F7_FLE_D then (if funct3 instr = F3_FLE_D then match_and_return instr (OpD FLE_D)
     else if funct3 instr = F3_FLT_D then match_and_return instr (OpD FLT_D)
     else if funct3 instr = F3_FEQ_D then match_and_return instr (OpD FEQ_D)
     else UNDEF)
   else if funct7 instr = F7_FCVT_S_W then (if rs2 instr = RS2_FCVT_S_W then match_and_return instr (OpF FCVT_S_W)
     else if rs2 instr = RS2_FCVT_S_WU then match_and_return instr (OpF FCVT_S_WU)
     else if rs2 instr = RS2_FCVT_S_L then match_and_return instr (OpF64 FCVT_S_L)
     else if rs2 instr = RS2_FCVT_S_LU then match_and_return instr (OpF64 FCVT_S_LU)
     else UNDEF)
   else if funct7 instr = F7_FCVT_D_W then (if rs2 instr = RS2_FCVT_D_W then match_and_return instr (OpD FCVT_D_W)
     else if rs2 instr = RS2_FCVT_D_WU then match_and_return instr (OpD FCVT_D_WU)
     else if rs2 instr = RS2_FCVT_D_L then match_and_return instr (OpD64 FCVT_D_L)
     else if rs2 instr = RS2_FCVT_D_LU then match_and_return instr (OpD64 FCVT_D_LU)
     else UNDEF)
   else if funct7 instr = F7_FCVT_W_D then (if rs2 instr = RS2_FCVT_W_D then match_and_return instr (OpD FCVT_W_D)
     else if rs2 instr = RS2_FCVT_WU_D then match_and_return instr (OpD FCVT_WU_D)
     else if rs2 instr = RS2_FCVT_L_D then match_and_return instr (OpD64 FCVT_L_D)
     else if rs2 instr = RS2_FCVT_LU_D then match_and_return instr (OpD64 FCVT_LU_D)
     else UNDEF)
   else if funct7 instr = F7_FSQRT_S then match_and_return instr (OpF FSQRT_S)
   else if funct7 instr = F7_FSQRT_D then match_and_return instr (OpD FSQRT_D)
   else if funct7 instr = F7_FCVT_W_S then (if rs2 instr = RS2_FCVT_W_S then match_and_return instr (OpF FCVT_W_S)
     else if rs2 instr = RS2_FCVT_WU_S then match_and_return instr (OpF FCVT_WU_S)
     else if rs2 instr = RS2_FCVT_L_S then match_and_return instr (OpF64 FCVT_L_S)
     else if rs2 instr = RS2_FCVT_LU_S then match_and_return instr (OpF64 FCVT_LU_S)
     else UNDEF)
   else if funct7 instr = F7_FMV_X_W then (if funct3 instr = F3_FMV_X_W then match_and_return instr (OpF FMV_X_W)
     else if funct3 instr = F3_FCLASS_S then match_and_return instr (OpF FCLASS_S)
     else UNDEF)
   else if funct7 instr = F7_FMV_X_D then (if funct3 instr = F3_FMV_X_D then match_and_return instr (OpD64 FMV_X_D)
     else if funct3 instr = F3_FCLASS_D then match_and_return instr (OpD FCLASS_D)
     else UNDEF)
   else if funct7 instr = F7_FMV_W_X then match_and_return instr (OpF FMV_W_X)
   else if funct7 instr = F7_FMV_D_X then match_and_return instr (OpD64 FMV_D_X)
   else UNDEF)"

definition decode_OP_FLW :: "u32 \<Rightarrow> Mapping" where
  "decode_OP_FLW instr =
  (if funct3 instr = F3_FLW then match_and_return instr (OpF FLW)
   else if funct3 instr = F3_FLD then match_and_return instr (OpD FLD)
   else UNDEF)"

definition decode_OP_FSW :: "u32 \<Rightarrow> Mapping" where
  "decode_OP_FSW instr =
  (if funct3 instr = F3_FSW then match_and_return instr (OpF FSW)
   else if funct3 instr = F3_FSD then match_and_return instr (OpD FSD)
   else UNDEF)"

definition decode_OP_FMSUB_S :: "u32 \<Rightarrow> Mapping" where
  "decode_OP_FMSUB_S instr =
  (if funct2 instr = F2_FMSUB_S then match_and_return instr (OpF FMSUB_S)
   else if funct2 instr = F2_FMSUB_D then match_and_return instr (OpD FMSUB_D)
   else UNDEF)"

definition decode_OP_FNMSUB_S :: "u32 \<Rightarrow> Mapping" where
  "decode_OP_FNMSUB_S instr =
  (if funct2 instr = F2_FNMSUB_S then match_and_return instr (OpF FNMSUB_S)
   else if funct2 instr = F2_FNMSUB_D then match_and_return instr (OpD FNMSUB_D)
   else UNDEF)"

definition decode_OP_FNMADD_S :: "u32 \<Rightarrow> Mapping" where
  "decode_OP_FNMADD_S instr =
  (if funct2 instr = F2_FNMADD_S then match_and_return instr (OpF FNMADD_S)
   else if funct2 instr = F2_FNMADD_D then match_and_return instr (OpD FNMADD_D)
   else UNDEF)"

definition decode_normal :: "u32 \<Rightarrow> Architecture \<Rightarrow> Mapping" where
  "decode_normal instr arch =
  (if opcode instr = OP_LUI then match_and_return instr (OpI LUI)
   else if opcode instr = OP_AUIPC then match_and_return instr (OpI AUIPC)
   else if opcode instr = OP_JAL then match_and_return instr (OpI JAL)
   else if opcode instr = OP_JALR then match_and_return instr (OpI JALR)
   else if opcode instr = OP_BEQ then decode_OP_BEQ instr
   else if opcode instr = OP_LB then decode_OP_LB instr
   else if opcode instr = OP_SB then decode_OP_SB instr
   else if opcode instr = OP_ADDI then decode_OP_ADDI instr arch
   else if opcode instr = OP_ADDIW then decode_OP_ADDIW instr
   else if opcode instr = OP_ADD then decode_OP_ADD instr
   else if opcode instr = OP_ADDW then decode_OP_ADDW instr
   else if opcode instr = OP_FENCE then decode_OP_FENCE instr
   else if opcode instr = OP_ECALL then decode_OP_ECALL instr
   else if opcode instr = OP_AMO then decode_OP_AMO instr
   else if opcode instr = OP_FMADD_S then decode_OP_FMADD_S instr
   else if opcode instr = OP_FADD_S then decode_OP_FADD_S instr
   else if opcode instr = OP_FLW then decode_OP_FLW instr
   else if opcode instr = OP_FSW then decode_OP_FSW instr
   else if opcode instr = OP_FMSUB_S then decode_OP_FMSUB_S instr
   else if opcode instr = OP_FNMSUB_S then decode_OP_FNMSUB_S instr
   else if opcode instr = OP_FNMADD_S then decode_OP_FNMADD_S instr
   else UNDEF)"

section \<open>Exactness of the decoder\<close>

text \<open>The mask and encoding that apply on an architecture: RV32 narrows the immediate shifts.\<close>

definition pattern_on :: "Architecture \<Rightarrow> Mapping \<Rightarrow> u32 \<times> u32" where
  "pattern_on arch op =
     (if arch = RV32 \<and> op = OpI SLLI then pattern_SLLI_32
      else if arch = RV32 \<and> op = OpI SRLI then pattern_SRLI_32
      else if arch = RV32 \<and> op = OpI SRAI then pattern_SRAI_32
      else pattern op)"

definition matches :: "Architecture \<Rightarrow> u32 \<Rightarrow> Mapping \<Rightarrow> bool" where
  "matches arch w op \<longleftrightarrow> w AND fst (pattern_on arch op) = snd (pattern_on arch op)"

definition undef_or_matches :: "Architecture \<Rightarrow> u32 \<Rightarrow> Mapping \<Rightarrow> bool" where
  "undef_or_matches arch w op \<longleftrightarrow> op = UNDEF \<or> matches arch w op"

lemmas decode_cases_defs = decode_OP_BEQ_def decode_OP_LB_def decode_OP_SB_def decode_OP_ADDI_def decode_OP_ADDIW_def
  decode_OP_ADD_def decode_OP_ADDW_def decode_OP_FENCE_def decode_OP_ECALL_def
  decode_OP_AMO_def decode_OP_FMADD_S_def decode_OP_FADD_S_def decode_OP_FLW_def
  decode_OP_FSW_def decode_OP_FMSUB_S_def decode_OP_FNMSUB_S_def decode_OP_FNMADD_S_def

named_theorems matches_intros \<open>every branch of the decoder returns UNDEF or a matching opcode\<close>

lemma undef_matches [matches_intros]: "undef_or_matches arch w UNDEF"
  by (simp add: undef_or_matches_def)

lemma if_matches [matches_intros]:
  "(c \<Longrightarrow> undef_or_matches arch w a) \<Longrightarrow> (\<not> c \<Longrightarrow> undef_or_matches arch w b) \<Longrightarrow>
   undef_or_matches arch w (if c then a else b)"
  by simp

lemma match2_matches [matches_intros]:
  "pattern_on arch op = pat \<Longrightarrow> undef_or_matches arch w (match_and_return2 w pat op)"
  by (auto simp: undef_or_matches_def matches_def match_and_return2_def)

lemma match_matches [matches_intros]:
  "pattern_on arch op = pattern op \<Longrightarrow> undef_or_matches arch w (match_and_return w op)"
  unfolding match_and_return_def by (rule match2_matches)

lemma decode_normal_sound: "undef_or_matches arch w (decode_normal w arch)"
  unfolding decode_normal_def decode_cases_defs
  by (intro matches_intros; simp add: pattern_on_def)

text \<open>
  Conversely, a mask that covers a field of the word fixes that field's value to the one in the
  encoding; with the fields known, the switches compute.
\<close>

lemma masked_field:
  assumes "w AND m = (e :: u32)" and "take_bit k (drop_bit p m) = mask k"
  shows "take_bit k (drop_bit p w) = take_bit k (drop_bit p e)"
proof (rule bit_word_eqI)
  fix n :: nat assume "n < LENGTH(32)"
  then show "bit (take_bit k (drop_bit p w)) n \<longleftrightarrow> bit (take_bit k (drop_bit p e)) n"
    using arg_cong [where f = "\<lambda>x. bit x n", OF assms(2)] unfolding assms(1) [symmetric]
    by (auto simp: bit_simps)
qed

lemma masked_fields:
  assumes "w AND m = (e :: u32)"
  shows "(take_bit 7 m = 127 \<longrightarrow> opcode w = take_bit 7 e) \<and>
    (take_bit 3 (drop_bit 12 m) = 7 \<longrightarrow> funct3 w = take_bit 3 (drop_bit 12 e)) \<and>
    (take_bit 7 (drop_bit 25 m) = 127 \<longrightarrow> funct7 w = take_bit 7 (drop_bit 25 e)) \<and>
    (take_bit 6 (drop_bit 26 m) = 63 \<longrightarrow> funct6 w = take_bit 6 (drop_bit 26 e)) \<and>
    (take_bit 5 (drop_bit 27 m) = 31 \<longrightarrow> funct5 w = take_bit 5 (drop_bit 27 e)) \<and>
    (take_bit 12 (drop_bit 20 m) = 4095 \<longrightarrow> funct12 w = take_bit 12 (drop_bit 20 e)) \<and>
    (take_bit 2 (drop_bit 25 m) = 3 \<longrightarrow> funct2 w = take_bit 2 (drop_bit 25 e)) \<and>
    (take_bit 5 (drop_bit 20 m) = 31 \<longrightarrow> rs2 w = take_bit 5 (drop_bit 20 e))"
  using masked_field [OF assms, of 7 0] masked_field [OF assms, of 3 12]
    masked_field [OF assms, of 7 25] masked_field [OF assms, of 6 26]
    masked_field [OF assms, of 5 27] masked_field [OF assms, of 12 20]
    masked_field [OF assms, of 2 25] masked_field [OF assms, of 5 20]
  by (simp add: decoder_fields funct2_field register_fields mask_eq_exp_minus_1)

lemmas decode_compute = decode_normal_def decode_cases_defs match_and_return_def
  match_and_return2_def pattern_SLLI_32_def pattern_SRLI_32_def pattern_SRAI_32_def

lemma funct7_funct12: "funct7 w = drop_bit 5 (funct12 w)"
  by (intro bit_word_eqI) (auto simp: decoder_fields bit_simps ac_simps)

lemma sfence_not_sys:
  "funct7 w = 9 \<Longrightarrow> funct12 w \<noteq> 0 \<and> funct12 w \<noteq> 1 \<and> funct12 w \<noteq> 2 \<and> funct12 w \<noteq> 258 \<and>
     funct12 w \<noteq> 770 \<and> funct12 w \<noteq> 261"
  by (auto simp: funct7_funct12)

lemmas pattern_compute = pattern_on_def pattern_SLLI_32_def pattern_SRLI_32_def
  pattern_SRAI_32_def

lemma complete_rv32i: "matches arch w (OpI x) \<Longrightarrow> decode_normal w arch = OpI x"
  unfolding matches_def
  by (cases x; simp add: pattern_compute split: if_splits; frule masked_fields; simp add: decode_compute)

lemma complete_zifencei: "matches arch w (OpZifencei x) \<Longrightarrow> decode_normal w arch = OpZifencei x"
  unfolding matches_def
  by (cases x; simp add: pattern_compute; frule masked_fields; simp add: decode_compute)

lemma complete_zicsr: "matches arch w (OpZicsr x) \<Longrightarrow> decode_normal w arch = OpZicsr x"
  unfolding matches_def
  by (cases x; simp add: pattern_compute; frule masked_fields; simp add: decode_compute)

lemma complete_rv32m: "matches arch w (OpM x) \<Longrightarrow> decode_normal w arch = OpM x"
  unfolding matches_def
  by (cases x; simp add: pattern_compute; frule masked_fields; simp add: decode_compute)

lemma complete_rv32a: "matches arch w (OpA x) \<Longrightarrow> decode_normal w arch = OpA x"
  unfolding matches_def
  by (cases x; simp add: pattern_compute; frule masked_fields; simp add: decode_compute)

lemma complete_rv64i: "matches arch w (OpI64 x) \<Longrightarrow> decode_normal w arch = OpI64 x"
  unfolding matches_def
  by (cases x; simp add: pattern_compute; frule masked_fields; simp add: decode_compute)

lemma complete_rv64m: "matches arch w (OpM64 x) \<Longrightarrow> decode_normal w arch = OpM64 x"
  unfolding matches_def
  by (cases x; simp add: pattern_compute; frule masked_fields; simp add: decode_compute)

lemma complete_rv64a: "matches arch w (OpA64 x) \<Longrightarrow> decode_normal w arch = OpA64 x"
  unfolding matches_def
  by (cases x; simp add: pattern_compute; frule masked_fields; simp add: decode_compute)

lemma complete_rv32f: "matches arch w (OpF x) \<Longrightarrow> decode_normal w arch = OpF x"
  unfolding matches_def
  by (cases x; simp add: pattern_compute; frule masked_fields; simp add: decode_compute)

lemma complete_rv64f: "matches arch w (OpF64 x) \<Longrightarrow> decode_normal w arch = OpF64 x"
  unfolding matches_def
  by (cases x; simp add: pattern_compute; frule masked_fields; simp add: decode_compute)

lemma complete_rv32d: "matches arch w (OpD x) \<Longrightarrow> decode_normal w arch = OpD x"
  unfolding matches_def
  by (cases x; simp add: pattern_compute; frule masked_fields; simp add: decode_compute)

lemma complete_rv64d: "matches arch w (OpD64 x) \<Longrightarrow> decode_normal w arch = OpD64 x"
  unfolding matches_def
  by (cases x; simp add: pattern_compute; frule masked_fields; simp add: decode_compute)

lemma complete_privileged: "matches arch w (OpPriv x) \<Longrightarrow> decode_normal w arch = OpPriv x"
  unfolding matches_def
  by (cases x; simp add: pattern_compute; frule masked_fields;
      simp add: decode_compute sfence_not_sys)

lemma decode_normal_complete:
  assumes "matches arch w op" and "op \<noteq> UNDEF"
  shows "decode_normal w arch = op"
  using assms by (cases op)
    (simp_all add: complete_rv32i complete_zifencei complete_zicsr complete_rv32m complete_rv32a complete_rv64i complete_rv64m complete_rv64a complete_rv32f complete_rv64f complete_rv32d complete_rv64d complete_privileged)

end
