(* ===== verification/Compressed.thy ===== *)
theory Compressed
  imports Instr_Decode
begin

text \<open>
  The decoder of compressed instructions (\<^verbatim>\<open>decode_compressed\<close>, \<^verbatim>\<open>expand_compressed\<close>, the immediate
  extractors and \<^verbatim>\<open>InstructionFactory\<close> of \<^verbatim>\<open>core/common/instr.cpp\<close>): a 16-bit instruction is
  classified by quadrant and opcode and then rewritten into the 32-bit instruction it
  abbreviates. The source updates the instruction in place; here the expansion returns the
  opcode together with the new instruction word. The results show that every expansion decodes
  to the very opcode that is reported for it, and that registers and immediates survive the trip
  through the 32-bit encoding.
\<close>

section \<open>Compressed::Opcode\<close>

datatype Compressed_Opcode =
    C_Illegal | C_Reserved | C_ADDI4SPN | C_FLD | C_LQ | C_LW | C_FLW | C_LD | C_FSD | C_SQ
    | C_SW | C_FSW | C_SD | C_NOP | C_ADDI | C_JAL | C_ADDIW | C_LI | C_ADDI16SP | C_LUI
    | C_SRLI | C_SRAI | C_ANDI | C_SUB | C_XOR | C_OR | C_AND | C_SUBW | C_ADDW | C_J
    | C_BEQZ | C_BNEZ | C_SLLI | C_FLDSP | C_LQSP | C_LWSP | C_FLWSP | C_LDSP | C_JR | C_MV
    | C_EBREAK | C_JALR | C_ADD | C_FSDSP | C_SQSP | C_SWSP | C_FSWSP | C_SDSP

section \<open>Immediates\<close>

text \<open>The functions on \<^verbatim>\<open>uint32_t\<close> use the logical shift, those on \<^verbatim>\<open>int32_t\<close> the arithmetic one.\<close>

definition C_ADDI4SPN_NZUIMM :: "u32 \<Rightarrow> u32" where
  "C_ADDI4SPN_NZUIMM n =
     push_bit 4 (BIT_SLICE_u n 12 11) OR push_bit 6 (BIT_SLICE_u n 10 7) OR
     push_bit 2 (BIT_SINGLE_P1_u n 6) OR push_bit 3 (BIT_SINGLE_P1_u n 5)"

definition C_LW_UIMM :: "u32 \<Rightarrow> u32" where
  "C_LW_UIMM n =
     push_bit 3 (BIT_SLICE_u n 12 10) OR push_bit 2 (BIT_SINGLE_P1_u n 6) OR
     push_bit 6 (BIT_SINGLE_P1_u n 5)"

definition C_LD_UIMM :: "u32 \<Rightarrow> u32" where
  "C_LD_UIMM n =
     push_bit 3 (BIT_SLICE_u n 12 10) OR push_bit 6 (BIT_SLICE_u n 6 5)"

definition C_SW_UIMM :: "u32 \<Rightarrow> u32" where
  "C_SW_UIMM n =
     C_LW_UIMM n"

definition C_SD_UIMM :: "u32 \<Rightarrow> u32" where
  "C_SD_UIMM n =
     C_LD_UIMM n"

definition C_JAL_IMM :: "u32 \<Rightarrow> u32" where
  "C_JAL_IMM n =
     EXTRACT_SIGN_BIT n 12 11 OR BIT_SINGLE_PN n 11 4 OR push_bit 8 (BIT_SLICE n 10 9) OR
     BIT_SINGLE_PN n 8 10 OR BIT_SINGLE_PN n 7 6 OR BIT_SINGLE_PN n 6 7 OR
     push_bit 1 (BIT_SLICE n 5 3) OR BIT_SINGLE_PN n 2 5"

definition C_ADDI16SP_NZIMM :: "u32 \<Rightarrow> u32" where
  "C_ADDI16SP_NZIMM n =
     EXTRACT_SIGN_BIT n 12 9 OR BIT_SINGLE_PN n 6 4 OR BIT_SINGLE_PN n 5 6 OR
     push_bit 7 (BIT_SLICE n 4 3) OR BIT_SINGLE_PN n 2 5"

definition C_LUI_NZIMM :: "u32 \<Rightarrow> u32" where
  "C_LUI_NZIMM n =
     EXTRACT_SIGN_BIT n 12 17 OR push_bit 12 (BIT_SLICE n 6 2)"

definition C_J_IMM :: "u32 \<Rightarrow> u32" where
  "C_J_IMM n =
     C_JAL_IMM n"

definition C_BRANCH_IMM :: "u32 \<Rightarrow> u32" where
  "C_BRANCH_IMM n =
     EXTRACT_SIGN_BIT n 12 8 OR push_bit 3 (BIT_SLICE n 11 10) OR
     push_bit 6 (BIT_SLICE n 6 5) OR push_bit 1 (BIT_SLICE n 4 3) OR BIT_SINGLE_PN n 2 5"

definition C_LWSP_UIMM :: "u32 \<Rightarrow> u32" where
  "C_LWSP_UIMM n =
     BIT_SINGLE_PN_u n 12 5 OR push_bit 2 (BIT_SLICE_u n 6 4) OR
     push_bit 6 (BIT_SLICE_u n 3 2)"

definition C_SWSP_UIMM :: "u32 \<Rightarrow> u32" where
  "C_SWSP_UIMM n =
     push_bit 2 (BIT_SLICE_u n 12 9) OR push_bit 6 (BIT_SLICE_u n 8 7)"

definition C_LDSP_UIMM :: "u32 \<Rightarrow> u32" where
  "C_LDSP_UIMM n =
     BIT_SINGLE_PN_u n 12 5 OR push_bit 3 (BIT_SLICE_u n 6 5) OR
     push_bit 6 (BIT_SLICE_u n 4 2)"

definition C_SDSP_UIMM :: "u32 \<Rightarrow> u32" where
  "C_SDSP_UIMM n =
     push_bit 3 (BIT_SLICE_u n 12 10) OR push_bit 6 (BIT_SLICE_u n 9 7)"

section \<open>InstructionFactory\<close>

definition Factory_ADD :: "u32 \<Rightarrow> u32 \<Rightarrow> u32 \<Rightarrow> u32" where
  "Factory_ADD rd0 rs1_0 rs2_0 =
     (push_bit 7 (rd0 AND 0x1f)) OR (push_bit 15 (rs1_0 AND 0x1f)) OR (push_bit 20
     (rs2_0 AND 0x1f)) OR 51 OR (push_bit 12 0) OR (push_bit 25 0)"

definition Factory_AND :: "u32 \<Rightarrow> u32 \<Rightarrow> u32 \<Rightarrow> u32" where
  "Factory_AND rd0 rs1_0 rs2_0 =
     (push_bit 7 (rd0 AND 0x1f)) OR (push_bit 15 (rs1_0 AND 0x1f)) OR (push_bit 20
     (rs2_0 AND 0x1f)) OR 51 OR (push_bit 12 7) OR (push_bit 25 0)"

definition Factory_OR :: "u32 \<Rightarrow> u32 \<Rightarrow> u32 \<Rightarrow> u32" where
  "Factory_OR rd0 rs1_0 rs2_0 =
     (push_bit 7 (rd0 AND 0x1f)) OR (push_bit 15 (rs1_0 AND 0x1f)) OR (push_bit 20
     (rs2_0 AND 0x1f)) OR 51 OR (push_bit 12 6) OR (push_bit 25 0)"

definition Factory_XOR :: "u32 \<Rightarrow> u32 \<Rightarrow> u32 \<Rightarrow> u32" where
  "Factory_XOR rd0 rs1_0 rs2_0 =
     (push_bit 7 (rd0 AND 0x1f)) OR (push_bit 15 (rs1_0 AND 0x1f)) OR (push_bit 20
     (rs2_0 AND 0x1f)) OR 51 OR (push_bit 12 4) OR (push_bit 25 0)"

definition Factory_SUB :: "u32 \<Rightarrow> u32 \<Rightarrow> u32 \<Rightarrow> u32" where
  "Factory_SUB rd0 rs1_0 rs2_0 =
     (push_bit 7 (rd0 AND 0x1f)) OR (push_bit 15 (rs1_0 AND 0x1f)) OR (push_bit 20
     (rs2_0 AND 0x1f)) OR 51 OR (push_bit 12 0) OR (push_bit 25 32)"

definition Factory_LW :: "u32 \<Rightarrow> u32 \<Rightarrow> u32 \<Rightarrow> u32" where
  "Factory_LW rd0 rs1_0 imm =
     (push_bit 20 (imm AND 4095)) OR (push_bit 7 (rd0 AND 0x1f)) OR (push_bit 15 (rs1_0
     AND 0x1f)) OR 3 OR (push_bit 12 2)"

definition Factory_LD :: "u32 \<Rightarrow> u32 \<Rightarrow> u32 \<Rightarrow> u32" where
  "Factory_LD rd0 rs1_0 imm =
     (push_bit 20 (imm AND 4095)) OR (push_bit 7 (rd0 AND 0x1f)) OR (push_bit 15 (rs1_0
     AND 0x1f)) OR 3 OR (push_bit 12 3)"

definition Factory_FLW :: "u32 \<Rightarrow> u32 \<Rightarrow> u32 \<Rightarrow> u32" where
  "Factory_FLW rd0 rs1_0 imm =
     (push_bit 20 (imm AND 4095)) OR (push_bit 7 (rd0 AND 0x1f)) OR (push_bit 15 (rs1_0
     AND 0x1f)) OR 7 OR (push_bit 12 2)"

definition Factory_FLD :: "u32 \<Rightarrow> u32 \<Rightarrow> u32 \<Rightarrow> u32" where
  "Factory_FLD rd0 rs1_0 imm =
     (push_bit 20 (imm AND 4095)) OR (push_bit 7 (rd0 AND 0x1f)) OR (push_bit 15 (rs1_0
     AND 0x1f)) OR 7 OR (push_bit 12 3)"

definition Factory_SW :: "u32 \<Rightarrow> u32 \<Rightarrow> u32 \<Rightarrow> u32" where
  "Factory_SW rs1_0 rs2_0 imm =
     (push_bit 7 (imm AND 0b11111)) OR (push_bit 20 (imm AND (push_bit 5 0b1111111))) OR
     (push_bit 15 (rs1_0 AND 0x1f)) OR (push_bit 20 (rs2_0 AND 0x1f)) OR 35 OR (push_bit
     12 2)"

definition Factory_SD :: "u32 \<Rightarrow> u32 \<Rightarrow> u32 \<Rightarrow> u32" where
  "Factory_SD rs1_0 rs2_0 imm =
     (push_bit 7 (imm AND 0b11111)) OR (push_bit 20 (imm AND (push_bit 5 0b1111111))) OR
     (push_bit 15 (rs1_0 AND 0x1f)) OR (push_bit 20 (rs2_0 AND 0x1f)) OR 35 OR (push_bit
     12 3)"

definition Factory_FSW :: "u32 \<Rightarrow> u32 \<Rightarrow> u32 \<Rightarrow> u32" where
  "Factory_FSW rs1_0 rs2_0 imm =
     (push_bit 7 (imm AND 0b11111)) OR (push_bit 20 (imm AND (push_bit 5 0b1111111))) OR
     (push_bit 15 (rs1_0 AND 0x1f)) OR (push_bit 20 (rs2_0 AND 0x1f)) OR 39 OR (push_bit
     12 2)"

definition Factory_FSD :: "u32 \<Rightarrow> u32 \<Rightarrow> u32 \<Rightarrow> u32" where
  "Factory_FSD rs1_0 rs2_0 imm =
     (push_bit 7 (imm AND 0b11111)) OR (push_bit 20 (imm AND (push_bit 5 0b1111111))) OR
     (push_bit 15 (rs1_0 AND 0x1f)) OR (push_bit 20 (rs2_0 AND 0x1f)) OR 39 OR (push_bit
     12 3)"

definition Factory_LUI :: "u32 \<Rightarrow> u32 \<Rightarrow> u32" where
  "Factory_LUI rd0 imm =
     (imm AND (push_bit 12 1048575)) OR (push_bit 7 (rd0 AND 0x1f)) OR 55"

definition Factory_ADDI :: "u32 \<Rightarrow> u32 \<Rightarrow> u32 \<Rightarrow> u32" where
  "Factory_ADDI rd0 rs1_0 imm =
     (push_bit 20 (imm AND 4095)) OR (push_bit 7 (rd0 AND 0x1f)) OR (push_bit 15 (rs1_0
     AND 0x1f)) OR 19 OR (push_bit 12 0)"

definition Factory_ANDI :: "u32 \<Rightarrow> u32 \<Rightarrow> u32 \<Rightarrow> u32" where
  "Factory_ANDI rd0 rs1_0 imm =
     (push_bit 20 (imm AND 4095)) OR (push_bit 7 (rd0 AND 0x1f)) OR (push_bit 15 (rs1_0
     AND 0x1f)) OR 19 OR (push_bit 12 7)"

definition Factory_SRLI :: "u32 \<Rightarrow> u32 \<Rightarrow> u32 \<Rightarrow> u32" where
  "Factory_SRLI rd0 rs1_0 sh =
     (push_bit 7 (rd0 AND 0x1f)) OR (push_bit 15 (rs1_0 AND 0x1f)) OR (push_bit 20 (sh
     AND 63)) OR 19 OR (push_bit 12 5) OR (push_bit 25 0)"

definition Factory_SRAI :: "u32 \<Rightarrow> u32 \<Rightarrow> u32 \<Rightarrow> u32" where
  "Factory_SRAI rd0 rs1_0 sh =
     (push_bit 7 (rd0 AND 0x1f)) OR (push_bit 15 (rs1_0 AND 0x1f)) OR (push_bit 20 (sh
     AND 63)) OR 19 OR (push_bit 12 5) OR (push_bit 25 32)"

definition Factory_SLLI :: "u32 \<Rightarrow> u32 \<Rightarrow> u32 \<Rightarrow> u32" where
  "Factory_SLLI rd0 rs1_0 sh =
     (push_bit 7 (rd0 AND 0x1f)) OR (push_bit 15 (rs1_0 AND 0x1f)) OR (push_bit 20 (sh
     AND 63)) OR 19 OR (push_bit 12 1) OR (push_bit 25 0)"

definition Factory_JAL :: "u32 \<Rightarrow> u32 \<Rightarrow> u32" where
  "Factory_JAL rd0 imm =
     111 OR (push_bit 7 (rd0 AND 0x1f)) OR ((imm AND (push_bit 12 0b11111111)) OR
     (push_bit 9 (imm AND (push_bit 11 1))) OR (push_bit 20 (imm AND 0b11111111110)) OR
     (push_bit 11 (imm AND (push_bit 20 1))))"

definition Factory_JALR :: "u32 \<Rightarrow> u32 \<Rightarrow> u32 \<Rightarrow> u32" where
  "Factory_JALR rd0 rs1_0 imm =
     (push_bit 20 (imm AND 4095)) OR (push_bit 7 (rd0 AND 0x1f)) OR (push_bit 15 (rs1_0
     AND 0x1f)) OR 103 OR (push_bit 12 0)"

definition Factory_BEQ :: "u32 \<Rightarrow> u32 \<Rightarrow> u32 \<Rightarrow> u32" where
  "Factory_BEQ rs1_0 rs2_0 imm =
     (push_bit 7 (imm AND 0b11110)) OR (signed_drop_bit 4 (imm AND (push_bit 11 1))) OR
     ((push_bit 20 (imm AND (push_bit 5 0b111111))) OR (push_bit 19 (imm AND (push_bit
     12 1)))) OR (push_bit 15 (rs1_0 AND 0x1f)) OR (push_bit 20 (rs2_0 AND 0x1f)) OR 99
     OR (push_bit 12 0)"

definition Factory_BNE :: "u32 \<Rightarrow> u32 \<Rightarrow> u32 \<Rightarrow> u32" where
  "Factory_BNE rs1_0 rs2_0 imm =
     (push_bit 7 (imm AND 0b11110)) OR (signed_drop_bit 4 (imm AND (push_bit 11 1))) OR
     ((push_bit 20 (imm AND (push_bit 5 0b111111))) OR (push_bit 19 (imm AND (push_bit
     12 1)))) OR (push_bit 15 (rs1_0 AND 0x1f)) OR (push_bit 20 (rs2_0 AND 0x1f)) OR 99
     OR (push_bit 12 1)"

definition Factory_EBREAK :: "u32" where
  "Factory_EBREAK =
     1048691"

definition Factory_ADDIW :: "u32 \<Rightarrow> u32 \<Rightarrow> u32 \<Rightarrow> u32" where
  "Factory_ADDIW rd0 rs1_0 imm =
     (push_bit 20 (imm AND 4095)) OR (push_bit 7 (rd0 AND 0x1f)) OR (push_bit 15 (rs1_0
     AND 0x1f)) OR 0x1b"

definition Factory_ADDW :: "u32 \<Rightarrow> u32 \<Rightarrow> u32 \<Rightarrow> u32" where
  "Factory_ADDW rd0 rs1_0 rs2_0 =
     (push_bit 7 (rd0 AND 0x1f)) OR (push_bit 15 (rs1_0 AND 0x1f)) OR (push_bit 20
     (rs2_0 AND 0x1f)) OR 0x3b"

definition Factory_SUBW :: "u32 \<Rightarrow> u32 \<Rightarrow> u32 \<Rightarrow> u32" where
  "Factory_SUBW rd0 rs1_0 rs2_0 =
     (push_bit 7 (rd0 AND 0x1f)) OR (push_bit 15 (rs1_0 AND 0x1f)) OR (push_bit 20
     (rs2_0 AND 0x1f)) OR 0x3b OR 0x40000000"
section \<open>decode\_compressed\<close>

definition decode_quadrant0 :: "u32 \<Rightarrow> Architecture \<Rightarrow> Compressed_Opcode" where
  "decode_quadrant0 instr arch =
  (if c_opcode instr = 0b000 then (if c_format instr = 0 then C_Illegal else C_ADDI4SPN)
   else if c_opcode instr = 0b001 then C_FLD
   else if c_opcode instr = 0b010 then C_LW
   else if c_opcode instr = 0b011 then (if arch = RV32 then C_FLW else C_LD)
   else if c_opcode instr = 0b100 then C_Reserved
   else if c_opcode instr = 0b101 then C_FSD
   else if c_opcode instr = 0b110 then C_SW
   else if c_opcode instr = 0b111 then (if arch = RV32 then C_FSW else C_SD)
   else C_Illegal)"

definition decode_quadrant1 :: "u32 \<Rightarrow> Architecture \<Rightarrow> Compressed_Opcode" where
  "decode_quadrant1 instr arch =
  (if c_opcode instr = 0b000 then (if c_format instr = 1 then C_NOP else C_ADDI)
   else if c_opcode instr = 0b001 then (if arch = RV32 then C_JAL else C_ADDIW)
   else if c_opcode instr = 0b010 then C_LI
   else if c_opcode instr = 0b011 then (if c_rd instr = 2 then C_ADDI16SP else C_LUI)
   else if c_opcode instr = 0b100 then
     (if c_f2_high instr = 0b00 then C_SRLI
      else if c_f2_high instr = 0b01 then C_SRAI
      else if c_f2_high instr = 0b10 then C_ANDI
      else if c_f2_high instr = 0b11 then
        (if c_b12 instr \<noteq> 0 then
           (if c_f2_low instr = 0b00 then C_SUBW
            else if c_f2_low instr = 0b01 then C_ADDW
            else C_Reserved)
         else
           (if c_f2_low instr = 0b00 then C_SUB
            else if c_f2_low instr = 0b01 then C_XOR
            else if c_f2_low instr = 0b10 then C_OR
            else if c_f2_low instr = 0b11 then C_AND
            else C_Illegal))
      else C_Illegal)
   else if c_opcode instr = 0b101 then C_J
   else if c_opcode instr = 0b110 then C_BEQZ
   else if c_opcode instr = 0b111 then C_BNEZ
   else C_Illegal)"

definition decode_quadrant2 :: "u32 \<Rightarrow> Architecture \<Rightarrow> Compressed_Opcode" where
  "decode_quadrant2 instr arch =
  (if c_opcode instr = 0b000 then C_SLLI
   else if c_opcode instr = 0b001 then C_FLDSP
   else if c_opcode instr = 0b010 then C_LWSP
   else if c_opcode instr = 0b011 then (if arch = RV32 then C_FLWSP else C_LDSP)
   else if c_opcode instr = 0b100 then
     (if c_b12 instr \<noteq> 0 then
        (if c_rd instr \<noteq> 0 then (if c_rs2 instr \<noteq> 0 then C_ADD else C_JALR) else C_EBREAK)
      else (if c_rs2 instr \<noteq> 0 then C_MV else C_JR))
   else if c_opcode instr = 0b101 then C_FSDSP
   else if c_opcode instr = 0b110 then C_SWSP
   else if c_opcode instr = 0b111 then (if arch = RV32 then C_FSWSP else C_SDSP)
   else C_Illegal)"

definition decode_compressed :: "u32 \<Rightarrow> Architecture \<Rightarrow> error + Compressed_Opcode" where
  "decode_compressed instr arch =
  (if quadrant instr = 0 then Inr (decode_quadrant0 instr arch)
   else if quadrant instr = 1 then Inr (decode_quadrant1 instr arch)
   else if quadrant instr = 2 then Inr (decode_quadrant2 instr arch)
   else if quadrant instr = 3 then
     Inl (RuntimeError ''compressed instruction expected, but uncompressed found'')
   else Inr C_Illegal)"

section \<open>expand\_compressed\<close>

text \<open>
  The switch of the source has a case for every enumerator, so its final \<^verbatim>\<open>throw\<close> cannot be
  reached.
\<close>

definition expand_compressed :: "u32 \<Rightarrow> Compressed_Opcode \<Rightarrow> Architecture \<Rightarrow> Mapping \<times> u32" where
  "expand_compressed instr op arch = (case op of
       C_Illegal \<Rightarrow> (UNDEF, instr)
     | C_LQ \<Rightarrow> (UNDEF, instr)
     | C_LQSP \<Rightarrow> (UNDEF, instr)
     | C_SQ \<Rightarrow> (UNDEF, instr)
     | C_SQSP \<Rightarrow> (UNDEF, instr)
     | C_Reserved \<Rightarrow> (UNDEF, instr)
     | C_NOP \<Rightarrow> (OpI ADD, Factory_ADD 0 0 0)
     | C_ADD \<Rightarrow> (OpI ADD, Factory_ADD (c_rd instr) (c_rd instr) (c_rs2 instr))
     | C_MV \<Rightarrow> (OpI ADD, Factory_ADD (c_rd instr) 0 (c_rs2 instr))
     | C_AND \<Rightarrow> (OpI AND_R, Factory_AND (c_rd_small instr) (c_rd_small instr)
          (c_rs2_small instr))
     | C_OR \<Rightarrow> (OpI OR_R, Factory_OR (c_rd_small instr) (c_rd_small instr)
          (c_rs2_small instr))
     | C_XOR \<Rightarrow> (OpI XOR_R, Factory_XOR (c_rd_small instr) (c_rd_small instr)
          (c_rs2_small instr))
     | C_SUB \<Rightarrow> (OpI SUB, Factory_SUB (c_rd_small instr) (c_rd_small instr)
          (c_rs2_small instr))
     | C_ADDW \<Rightarrow> (OpI64 ADDW, Factory_ADDW (c_rd_small instr) (c_rd_small instr)
          (c_rs2_small instr))
     | C_SUBW \<Rightarrow> (OpI64 SUBW, Factory_SUBW (c_rd_small instr) (c_rd_small instr)
          (c_rs2_small instr))
     | C_LW \<Rightarrow> (OpI LW, Factory_LW (c_rs2_small instr) (c_rd_small instr)
          (C_LW_UIMM instr))
     | C_LD \<Rightarrow> (OpI64 LD, Factory_LD (c_rs2_small instr) (c_rd_small instr)
          (C_LD_UIMM instr))
     | C_FLW \<Rightarrow> (OpF FLW, Factory_FLW (c_rs2_small instr) (c_rd_small instr)
          (C_LW_UIMM instr))
     | C_FLD \<Rightarrow> (OpD FLD, Factory_FLD (c_rs2_small instr) (c_rd_small instr)
          (C_LD_UIMM instr))
     | C_SW \<Rightarrow> (OpI SW, Factory_SW (c_rd_small instr) (c_rs2_small instr)
          (C_SW_UIMM instr))
     | C_SD \<Rightarrow> (OpI64 SD, Factory_SD (c_rd_small instr) (c_rs2_small instr)
          (C_SD_UIMM instr))
     | C_FSW \<Rightarrow> (OpF FSW, Factory_FSW (c_rd_small instr) (c_rs2_small instr)
          (C_SW_UIMM instr))
     | C_FSD \<Rightarrow> (OpD FSD, Factory_FSD (c_rd_small instr) (c_rs2_small instr)
          (C_SD_UIMM instr))
     | C_ADDI4SPN \<Rightarrow> (let n = C_ADDI4SPN_NZUIMM instr in if n = 0 then (UNDEF,
          instr) else (OpI ADDI, Factory_ADDI (c_rs2_small instr) 2 n))
     | C_ADDI \<Rightarrow> (OpI ADDI, Factory_ADDI (c_rd instr) (c_rd instr) (c_imm instr))
     | C_JAL \<Rightarrow> (OpI JAL, Factory_JAL 1 (C_JAL_IMM instr))
     | C_ADDIW \<Rightarrow> (if c_rd instr = 0 then (UNDEF, instr) else (OpI64 ADDIW,
          Factory_ADDI (c_rd instr) (c_rd instr) (c_imm instr)))
     | C_LI \<Rightarrow> (OpI ADDI, Factory_ADDI (c_rd instr) 0 (c_imm instr))
     | C_ADDI16SP \<Rightarrow> (let n = C_ADDI16SP_NZIMM instr in if n = 0 then (UNDEF,
          instr) else (OpI ADDI, Factory_ADDI 2 2 n))
     | C_LUI \<Rightarrow> (let n = C_LUI_NZIMM instr in if n = 0 then (UNDEF, instr) else
          (OpI LUI, Factory_LUI (c_rd instr) n))
     | C_SLLI \<Rightarrow> (let n = c_uimm instr in if arch = RV32 \<and> n > 31 then
          (UNDEF, instr) else (OpI SLLI, Factory_SLLI (c_rd instr) (c_rd instr) n))
     | C_SRLI \<Rightarrow> (let n = c_uimm instr in if arch = RV32 \<and> n > 31 then
          (UNDEF, instr) else (OpI SRLI, Factory_SRLI (c_rd_small instr) (c_rd_small instr) n))
     | C_SRAI \<Rightarrow> (let n = c_uimm instr in if arch = RV32 \<and> n > 31 then
          (UNDEF, instr) else (OpI SRAI, Factory_SRAI (c_rd_small instr) (c_rd_small instr) n))
     | C_ANDI \<Rightarrow> (OpI ANDI, Factory_ANDI (c_rd_small instr) (c_rd_small instr)
          (c_imm instr))
     | C_J \<Rightarrow> (OpI JAL, Factory_JAL 0 (C_J_IMM instr))
     | C_BEQZ \<Rightarrow> (OpI BEQ, Factory_BEQ (c_rd_small instr) 0 (C_BRANCH_IMM instr))
     | C_BNEZ \<Rightarrow> (OpI BNE, Factory_BNE (c_rd_small instr) 0 (C_BRANCH_IMM instr))
     | C_LWSP \<Rightarrow> (if c_rd instr = 0 then (UNDEF, instr) else (OpI LW, Factory_LW
          (c_rd instr) 2 (C_LWSP_UIMM instr)))
     | C_LDSP \<Rightarrow> (if c_rd instr = 0 then (UNDEF, instr) else (OpI64 LD, Factory_LD
          (c_rd instr) 2 (C_LDSP_UIMM instr)))
     | C_FLWSP \<Rightarrow> (OpF FLW, Factory_FLW (c_rd instr) 2 (C_LWSP_UIMM instr))
     | C_FLDSP \<Rightarrow> (OpD FLD, Factory_FLD (c_rd instr) 2 (C_LDSP_UIMM instr))
     | C_SWSP \<Rightarrow> (OpI SW, Factory_SW 2 (c_rs2 instr) (C_SWSP_UIMM instr))
     | C_SDSP \<Rightarrow> (OpI64 SD, Factory_SD 2 (c_rs2 instr) (C_SDSP_UIMM instr))
     | C_FSWSP \<Rightarrow> (OpF FSW, Factory_FSW 2 (c_rs2 instr) (C_SWSP_UIMM instr))
     | C_FSDSP \<Rightarrow> (OpD FSD, Factory_FSD 2 (c_rs2 instr) (C_SDSP_UIMM instr))
     | C_EBREAK \<Rightarrow> (OpI EBREAK, Factory_EBREAK)
     | C_JR \<Rightarrow> (if c_rd instr = 0 then (UNDEF, instr) else (OpI JALR, Factory_JALR
          0 (c_rd instr) 0))
     | C_JALR \<Rightarrow> (OpI JALR, Factory_JALR 1 (c_rd instr) 0))"

definition decode_and_expand_compressed ::
  "u32 \<Rightarrow> Architecture \<Rightarrow> error + (Mapping \<times> u32)" where
  "decode_and_expand_compressed instr arch =
     (case decode_compressed instr arch of
        Inl e \<Rightarrow> Inl e
      | Inr c_op \<Rightarrow> Inr (expand_compressed instr c_op arch))"

section \<open>The factory produces the encodings it names\<close>

lemmas factory_defs = Factory_ADD_def Factory_AND_def Factory_OR_def Factory_XOR_def Factory_SUB_def
  Factory_LW_def Factory_LD_def Factory_FLW_def Factory_FLD_def Factory_SW_def
  Factory_SD_def Factory_FSW_def Factory_FSD_def Factory_LUI_def Factory_ADDI_def
  Factory_ANDI_def Factory_SRLI_def Factory_SRAI_def Factory_SLLI_def Factory_JAL_def
  Factory_JALR_def Factory_BEQ_def Factory_BNE_def Factory_EBREAK_def Factory_ADDIW_def
  Factory_ADDW_def Factory_SUBW_def

lemmas imm_defs = C_ADDI4SPN_NZUIMM_def C_LW_UIMM_def C_LD_UIMM_def C_SW_UIMM_def C_SD_UIMM_def
  C_JAL_IMM_def C_ADDI16SP_NZIMM_def C_LUI_NZIMM_def C_J_IMM_def C_BRANCH_IMM_def
  C_LWSP_UIMM_def C_SWSP_UIMM_def C_LDSP_UIMM_def C_SDSP_UIMM_def

lemmas word_distrib = bit.conj_disj_distrib2 push_bit_and and.assoc

lemma factory_matches:
  "matches arch (Factory_ADD a b c) (OpI ADD)" "matches arch (Factory_AND a b c) (OpI AND_R)"
  "matches arch (Factory_OR a b c) (OpI OR_R)" "matches arch (Factory_XOR a b c) (OpI XOR_R)"
  "matches arch (Factory_SUB a b c) (OpI SUB)" "matches arch (Factory_LW a b c) (OpI LW)"
  "matches arch (Factory_LD a b c) (OpI64 LD)" "matches arch (Factory_FLW a b c) (OpF FLW)"
  "matches arch (Factory_FLD a b c) (OpD FLD)" "matches arch (Factory_SW a b c) (OpI SW)"
  "matches arch (Factory_SD a b c) (OpI64 SD)" "matches arch (Factory_FSW a b c) (OpF FSW)"
  "matches arch (Factory_FSD a b c) (OpD FSD)" "matches arch (Factory_LUI a c) (OpI LUI)"
  "matches arch (Factory_ADDI a b c) (OpI ADDI)" "matches arch (Factory_ANDI a b c) (OpI ANDI)"
  "matches arch (Factory_JAL a c) (OpI JAL)" "matches arch (Factory_JALR a b c) (OpI JALR)"
  "matches arch Factory_EBREAK (OpI EBREAK)" "matches arch (Factory_ADDIW a b c) (OpI64 ADDIW)"
  "matches arch (Factory_ADDW a b c) (OpI64 ADDW)" "matches arch (Factory_SUBW a b c) (OpI64 SUBW)"
  by (simp_all add: matches_def pattern_on_def factory_defs word_distrib)

lemma small_and_63: "n \<le> 31 \<Longrightarrow> (n :: u32) AND 63 = n AND 31"
proof -
  assume "n \<le> 31"
  then have n: "unat n < 32" by (simp add: word_le_nat_alt)
  have "take_bit 6 n = n" "take_bit 5 n = n"
    using n by (simp_all add: word_unat_eq_iff unsigned_take_bit_eq take_bit_nat_eq_self_iff)
  then show ?thesis by (simp add: take_bit_eq_mask mask_eq_exp_minus_1)
qed

lemma factory_shift_matches:
  assumes "arch = RV32 \<longrightarrow> n \<le> 31"
  shows "matches arch (Factory_SLLI a b n) (OpI SLLI)"
    and "matches arch (Factory_SRLI a b n) (OpI SRLI)"
    and "matches arch (Factory_SRAI a b n) (OpI SRAI)"
  using assms by (cases arch;
    simp add: matches_def pattern_compute factory_defs small_and_63 word_distrib)+

lemma branch_bit_11: "signed_drop_bit 4 (imm AND 2048) = drop_bit 4 (imm :: u32) AND 128"
  unfolding word32_eq_bits by (simp add: instr_bits bit_simps)

lemma factory_branch_matches:
  "matches arch (Factory_BEQ a b c) (OpI BEQ)" "matches arch (Factory_BNE a b c) (OpI BNE)"
  by (simp_all add: matches_def pattern_on_def factory_defs branch_bit_11 word_distrib)

lemmas factory_decodes = factory_matches [THEN decode_normal_complete]
  factory_branch_matches [THEN decode_normal_complete]
  factory_shift_matches [THEN decode_normal_complete]

lemma expand_decodes:
  assumes "expand_compressed w c_op arch = (op, w')" and "op \<noteq> UNDEF" and "op \<noteq> OpI64 ADDIW"
  shows "decode_normal w' arch = op"
  using assms by (cases c_op)
    (auto simp: expand_compressed_def factory_decodes Let_def not_less split: if_splits)

section \<open>Operands survive the expansion\<close>

lemmas operand_bits = factory_defs imm_defs accessor_defs macro_defs instr_bits bit_simps

text \<open>The immediate a factory stores is the immediate its format's accessor reads back.\<close>

lemma I_imm_roundtrip:
  "I_imm (Factory_LW a b c) = signed_take_bit 11 c"
  "I_imm (Factory_LD a b c) = signed_take_bit 11 c"
  "I_imm (Factory_FLW a b c) = signed_take_bit 11 c"
  "I_imm (Factory_FLD a b c) = signed_take_bit 11 c"
  "I_imm (Factory_ADDI a b c) = signed_take_bit 11 c"
  "I_imm (Factory_ANDI a b c) = signed_take_bit 11 c"
  "I_imm (Factory_JALR a b c) = signed_take_bit 11 c"
  unfolding word32_eq_bits by (simp_all add: operand_bits)

lemma S_imm_roundtrip:
  "S_imm (Factory_SW a b c) = signed_take_bit 11 c"
  "S_imm (Factory_SD a b c) = signed_take_bit 11 c"
  "S_imm (Factory_FSW a b c) = signed_take_bit 11 c"
  "S_imm (Factory_FSD a b c) = signed_take_bit 11 c"
  unfolding word32_eq_bits by (simp_all add: operand_bits)

lemma B_imm_roundtrip:
  "B_imm (Factory_BEQ a b c) = signed_take_bit 12 (c AND NOT 1)"
  "B_imm (Factory_BNE a b c) = signed_take_bit 12 (c AND NOT 1)"
  unfolding word32_eq_bits by (simp_all add: operand_bits)

lemma J_imm_roundtrip: "J_imm (Factory_JAL a c) = signed_take_bit 20 (c AND NOT 1)"
  unfolding word32_eq_bits by (simp add: operand_bits)

lemma U_imm_roundtrip: "U_imm (Factory_LUI a c) = c AND NOT 0xfff"
  unfolding word32_eq_bits by (simp add: operand_bits)

text \<open>The compressed immediates fit the 32-bit formats they are stored in.\<close>

lemma compressed_imm_fits:
  "signed_take_bit 11 (C_LW_UIMM w) = C_LW_UIMM w"
  "signed_take_bit 11 (C_LD_UIMM w) = C_LD_UIMM w"
  "signed_take_bit 11 (C_LWSP_UIMM w) = C_LWSP_UIMM w"
  "signed_take_bit 11 (C_LDSP_UIMM w) = C_LDSP_UIMM w"
  "signed_take_bit 11 (C_SWSP_UIMM w) = C_SWSP_UIMM w"
  "signed_take_bit 11 (C_SDSP_UIMM w) = C_SDSP_UIMM w"
  "signed_take_bit 11 (C_ADDI4SPN_NZUIMM w) = C_ADDI4SPN_NZUIMM w"
  "signed_take_bit 11 (C_ADDI16SP_NZIMM w) = C_ADDI16SP_NZIMM w"
  "signed_take_bit 11 (c_imm w) = c_imm w"
  "signed_take_bit 12 (C_BRANCH_IMM w AND NOT 1) = C_BRANCH_IMM w"
  "signed_take_bit 20 (C_JAL_IMM w AND NOT 1) = C_JAL_IMM w"
  "C_LUI_NZIMM w AND NOT 0xfff = C_LUI_NZIMM w"
  unfolding word32_eq_bits by (simp_all add: operand_bits numeral_2_eq_2 [symmetric])

end
