(* ===== verification/Csr.thy ===== *)
theory Csr
  imports Prelude
begin

text \<open>
  The control and status registers (\<^verbatim>\<open>core/rv32/csr.h\<close>) and the privilege levels
  (\<^verbatim>\<open>core/common/irq_if.h\<close>): the bit fields of the structured registers, the access masks, the
  address constants, the register table and the address mapping used for registers without a
  special rule. A structured register is its 32-bit word \<^verbatim>\<open>reg\<close>; a field is the pair of its bit
  position and length, read and written by \<^const>\<open>bf_get\<close> and \<^const>\<open>bf_set\<close>.
\<close>

section \<open>Privilege levels\<close>

type_synonym PrivilegeLevel = u32

abbreviation (input) MachineMode :: PrivilegeLevel where "MachineMode \<equiv> 0b11"
abbreviation (input) HypervisorMode :: PrivilegeLevel where "HypervisorMode \<equiv> 0b10"
abbreviation (input) SupervisorMode :: PrivilegeLevel where "SupervisorMode \<equiv> 0b01"
abbreviation (input) UserMode :: PrivilegeLevel where "UserMode \<equiv> 0b00"
abbreviation (input) NoneMode :: PrivilegeLevel where "NoneMode \<equiv> - 1"

definition is_valid_privilege_level :: "PrivilegeLevel \<Rightarrow> bool" where
  "is_valid_privilege_level mode \<longleftrightarrow> mode = MachineMode \<or> mode = SupervisorMode \<or> mode = UserMode"

section \<open>Fields\<close>

abbreviation (input) misa_extensions :: bitfield where "misa_extensions \<equiv> (0, 26)"
abbreviation (input) misa_mxl :: bitfield where "misa_mxl \<equiv> (30, 2)"
abbreviation (input) mvendorid_offset :: bitfield where "mvendorid_offset \<equiv> (0, 7)"
abbreviation (input) mvendorid_bank :: bitfield where "mvendorid_bank \<equiv> (7, 25)"
abbreviation (input) mstatus_uie :: bitfield where "mstatus_uie \<equiv> (0, 1)"
abbreviation (input) mstatus_sie :: bitfield where "mstatus_sie \<equiv> (1, 1)"
abbreviation (input) mstatus_mie :: bitfield where "mstatus_mie \<equiv> (3, 1)"
abbreviation (input) mstatus_upie :: bitfield where "mstatus_upie \<equiv> (4, 1)"
abbreviation (input) mstatus_spie :: bitfield where "mstatus_spie \<equiv> (5, 1)"
abbreviation (input) mstatus_mpie :: bitfield where "mstatus_mpie \<equiv> (7, 1)"
abbreviation (input) mstatus_spp :: bitfield where "mstatus_spp \<equiv> (8, 1)"
abbreviation (input) mstatus_mpp :: bitfield where "mstatus_mpp \<equiv> (11, 2)"
abbreviation (input) mstatus_fs :: bitfield where "mstatus_fs \<equiv> (13, 2)"
abbreviation (input) mstatus_xs :: bitfield where "mstatus_xs \<equiv> (15, 2)"
abbreviation (input) mstatus_mprv :: bitfield where "mstatus_mprv \<equiv> (17, 1)"
abbreviation (input) mstatus_sum :: bitfield where "mstatus_sum \<equiv> (18, 1)"
abbreviation (input) mstatus_mxr :: bitfield where "mstatus_mxr \<equiv> (19, 1)"
abbreviation (input) mstatus_tvm :: bitfield where "mstatus_tvm \<equiv> (20, 1)"
abbreviation (input) mstatus_tw :: bitfield where "mstatus_tw \<equiv> (21, 1)"
abbreviation (input) mstatus_tsr :: bitfield where "mstatus_tsr \<equiv> (22, 1)"
abbreviation (input) mstatus_sd :: bitfield where "mstatus_sd \<equiv> (31, 1)"
abbreviation (input) mtvec_mode :: bitfield where "mtvec_mode \<equiv> (0, 2)"
abbreviation (input) mtvec_base :: bitfield where "mtvec_base \<equiv> (2, 30)"
abbreviation (input) mie_usie :: bitfield where "mie_usie \<equiv> (0, 1)"
abbreviation (input) mie_ssie :: bitfield where "mie_ssie \<equiv> (1, 1)"
abbreviation (input) mie_msie :: bitfield where "mie_msie \<equiv> (3, 1)"
abbreviation (input) mie_utie :: bitfield where "mie_utie \<equiv> (4, 1)"
abbreviation (input) mie_stie :: bitfield where "mie_stie \<equiv> (5, 1)"
abbreviation (input) mie_mtie :: bitfield where "mie_mtie \<equiv> (7, 1)"
abbreviation (input) mie_ueie :: bitfield where "mie_ueie \<equiv> (8, 1)"
abbreviation (input) mie_seie :: bitfield where "mie_seie \<equiv> (9, 1)"
abbreviation (input) mie_meie :: bitfield where "mie_meie \<equiv> (11, 1)"
abbreviation (input) mip_usip :: bitfield where "mip_usip \<equiv> (0, 1)"
abbreviation (input) mip_ssip :: bitfield where "mip_ssip \<equiv> (1, 1)"
abbreviation (input) mip_msip :: bitfield where "mip_msip \<equiv> (3, 1)"
abbreviation (input) mip_utip :: bitfield where "mip_utip \<equiv> (4, 1)"
abbreviation (input) mip_stip :: bitfield where "mip_stip \<equiv> (5, 1)"
abbreviation (input) mip_mtip :: bitfield where "mip_mtip \<equiv> (7, 1)"
abbreviation (input) mip_ueip :: bitfield where "mip_ueip \<equiv> (8, 1)"
abbreviation (input) mip_seip :: bitfield where "mip_seip \<equiv> (9, 1)"
abbreviation (input) mip_meip :: bitfield where "mip_meip \<equiv> (11, 1)"
abbreviation (input) mcause_exception_code :: bitfield where "mcause_exception_code \<equiv> (0, 31)"
abbreviation (input) mcause_interrupt :: bitfield where "mcause_interrupt \<equiv> (31, 1)"
abbreviation (input) mcounteren_CY :: bitfield where "mcounteren_CY \<equiv> (0, 1)"
abbreviation (input) mcounteren_TM :: bitfield where "mcounteren_TM \<equiv> (1, 1)"
abbreviation (input) mcounteren_IR :: bitfield where "mcounteren_IR \<equiv> (2, 1)"
abbreviation (input) mcountinhibit_CY :: bitfield where "mcountinhibit_CY \<equiv> (0, 1)"
abbreviation (input) mcountinhibit_IR :: bitfield where "mcountinhibit_IR \<equiv> (2, 1)"
abbreviation (input) pmpcfg_L0 :: bitfield where "pmpcfg_L0 \<equiv> (24, 1)"
abbreviation (input) pmpcfg_A0 :: bitfield where "pmpcfg_A0 \<equiv> (27, 2)"
abbreviation (input) pmpcfg_X0 :: bitfield where "pmpcfg_X0 \<equiv> (29, 1)"
abbreviation (input) pmpcfg_W0 :: bitfield where "pmpcfg_W0 \<equiv> (30, 1)"
abbreviation (input) pmpcfg_R0 :: bitfield where "pmpcfg_R0 \<equiv> (31, 1)"
abbreviation (input) satp_ppn :: bitfield where "satp_ppn \<equiv> (0, 22)"
abbreviation (input) satp_asid :: bitfield where "satp_asid \<equiv> (22, 9)"
abbreviation (input) satp_mode :: bitfield where "satp_mode \<equiv> (31, 1)"
abbreviation (input) fcsr_fflags :: bitfield where "fcsr_fflags \<equiv> (0, 5)"
abbreviation (input) fcsr_frm :: bitfield where "fcsr_frm \<equiv> (5, 3)"
abbreviation (input) fcsr_NX :: bitfield where "fcsr_NX \<equiv> (0, 1)"
abbreviation (input) fcsr_UF :: bitfield where "fcsr_UF \<equiv> (1, 1)"
abbreviation (input) fcsr_OF :: bitfield where "fcsr_OF \<equiv> (2, 1)"
abbreviation (input) fcsr_DZ :: bitfield where "fcsr_DZ \<equiv> (3, 1)"
abbreviation (input) fcsr_NV :: bitfield where "fcsr_NV \<equiv> (4, 1)"

section \<open>Access masks\<close>

abbreviation (input) MIE_MASK :: u32 where "MIE_MASK \<equiv> 0b101110111011"
abbreviation (input) SIE_MASK :: u32 where "SIE_MASK \<equiv> 0b001100110011"
abbreviation (input) UIE_MASK :: u32 where "UIE_MASK \<equiv> 0b000100010001"
abbreviation (input) MIP_WRITE_MASK :: u32 where "MIP_WRITE_MASK \<equiv> 0b001100110011"
abbreviation (input) MIP_READ_MASK :: u32 where "MIP_READ_MASK \<equiv> MIE_MASK"
abbreviation (input) SIP_MASK :: u32 where "SIP_MASK \<equiv> 0b11"
abbreviation (input) UIP_MASK :: u32 where "UIP_MASK \<equiv> 0b1"
abbreviation (input) MEDELEG_MASK :: u32 where "MEDELEG_MASK \<equiv> 0b1011101111111111"
abbreviation (input) MIDELEG_MASK :: u32 where "MIDELEG_MASK \<equiv> MIE_MASK"
abbreviation (input) MTVEC_MASK :: u32 where "MTVEC_MASK \<equiv> NOT 2"
abbreviation (input) MCOUNTEREN_MASK :: u32 where "MCOUNTEREN_MASK \<equiv> 0b111"
abbreviation (input) MCOUNTINHIBIT_MASK :: u32 where "MCOUNTINHIBIT_MASK \<equiv> 0b101"
abbreviation (input) SEDELEG_MASK :: u32 where "SEDELEG_MASK \<equiv> 0b1011000111111111"
abbreviation (input) SIDELEG_MASK :: u32 where "SIDELEG_MASK \<equiv> MIDELEG_MASK"
abbreviation (input) MSTATUS_MASK :: u32 where "MSTATUS_MASK \<equiv> 0b10000000011111111111100110111011"
abbreviation (input) SSTATUS_MASK :: u32 where "SSTATUS_MASK \<equiv> 0b10000000000011011110000100110011"
abbreviation (input) USTATUS_MASK :: u32 where "USTATUS_MASK \<equiv> 0b00000000000000000000000000010001"
abbreviation (input) SATP_MASK :: u32 where "SATP_MASK \<equiv> 0b10000000001111111111111111111111"
abbreviation (input) SATP_MODE :: u32 where "SATP_MODE \<equiv> 0b10000000000000000000000000000000"
abbreviation (input) FCSR_MASK :: u32 where "FCSR_MASK \<equiv> 0b11111111"

section \<open>Addresses\<close>

abbreviation (input) CYCLE_ADDR :: u32 where "CYCLE_ADDR \<equiv> 0xc00"
abbreviation (input) CYCLEH_ADDR :: u32 where "CYCLEH_ADDR \<equiv> 0xc80"
abbreviation (input) TIME_ADDR :: u32 where "TIME_ADDR \<equiv> 0xc01"
abbreviation (input) TIMEH_ADDR :: u32 where "TIMEH_ADDR \<equiv> 0xc81"
abbreviation (input) INSTRET_ADDR :: u32 where "INSTRET_ADDR \<equiv> 0xc02"
abbreviation (input) INSTRETH_ADDR :: u32 where "INSTRETH_ADDR \<equiv> 0xc82"
abbreviation (input) MCYCLE_ADDR :: u32 where "MCYCLE_ADDR \<equiv> 0xb00"
abbreviation (input) MCYCLEH_ADDR :: u32 where "MCYCLEH_ADDR \<equiv> 0xb80"
abbreviation (input) MTIME_ADDR :: u32 where "MTIME_ADDR \<equiv> 0xb01"
abbreviation (input) MTIMEH_ADDR :: u32 where "MTIMEH_ADDR \<equiv> 0xb81"
abbreviation (input) MINSTRET_ADDR :: u32 where "MINSTRET_ADDR \<equiv> 0xb02"
abbreviation (input) MINSTRETH_ADDR :: u32 where "MINSTRETH_ADDR \<equiv> 0xb82"
abbreviation (input) TSELECT_ADDR :: u32 where "TSELECT_ADDR \<equiv> 0x7a0"
abbreviation (input) TDATA1_ADDR :: u32 where "TDATA1_ADDR \<equiv> 0x7a1"
abbreviation (input) TDATA2_ADDR :: u32 where "TDATA2_ADDR \<equiv> 0x7a2"
abbreviation (input) TDATA3_ADDR :: u32 where "TDATA3_ADDR \<equiv> 0x7a3"
abbreviation (input) DCSR_ADDR :: u32 where "DCSR_ADDR \<equiv> 0x7b0"
abbreviation (input) DPC_ADDR :: u32 where "DPC_ADDR \<equiv> 0x7b1"
abbreviation (input) DSCRATCH0_ADDR :: u32 where "DSCRATCH0_ADDR \<equiv> 0x7b2"
abbreviation (input) DSCRATCH1_ADDR :: u32 where "DSCRATCH1_ADDR \<equiv> 0x7b3"
abbreviation (input) MVENDORID_ADDR :: u32 where "MVENDORID_ADDR \<equiv> 0xf11"
abbreviation (input) MARCHID_ADDR :: u32 where "MARCHID_ADDR \<equiv> 0xf12"
abbreviation (input) MIMPID_ADDR :: u32 where "MIMPID_ADDR \<equiv> 0xf13"
abbreviation (input) MHARTID_ADDR :: u32 where "MHARTID_ADDR \<equiv> 0xf14"
abbreviation (input) MSTATUS_ADDR :: u32 where "MSTATUS_ADDR \<equiv> 0x300"
abbreviation (input) MISA_ADDR :: u32 where "MISA_ADDR \<equiv> 0x301"
abbreviation (input) MEDELEG_ADDR :: u32 where "MEDELEG_ADDR \<equiv> 0x302"
abbreviation (input) MIDELEG_ADDR :: u32 where "MIDELEG_ADDR \<equiv> 0x303"
abbreviation (input) MIE_ADDR :: u32 where "MIE_ADDR \<equiv> 0x304"
abbreviation (input) MTVEC_ADDR :: u32 where "MTVEC_ADDR \<equiv> 0x305"
abbreviation (input) MCOUNTEREN_ADDR :: u32 where "MCOUNTEREN_ADDR \<equiv> 0x306"
abbreviation (input) MCOUNTINHIBIT_ADDR :: u32 where "MCOUNTINHIBIT_ADDR \<equiv> 0x320"
abbreviation (input) MSCRATCH_ADDR :: u32 where "MSCRATCH_ADDR \<equiv> 0x340"
abbreviation (input) MEPC_ADDR :: u32 where "MEPC_ADDR \<equiv> 0x341"
abbreviation (input) MCAUSE_ADDR :: u32 where "MCAUSE_ADDR \<equiv> 0x342"
abbreviation (input) MTVAL_ADDR :: u32 where "MTVAL_ADDR \<equiv> 0x343"
abbreviation (input) MIP_ADDR :: u32 where "MIP_ADDR \<equiv> 0x344"
abbreviation (input) PMPCFG0_ADDR :: u32 where "PMPCFG0_ADDR \<equiv> 0x3a0"
abbreviation (input) PMPADDR0_ADDR :: u32 where "PMPADDR0_ADDR \<equiv> 0x3b0"
abbreviation (input) SSTATUS_ADDR :: u32 where "SSTATUS_ADDR \<equiv> 0x100"
abbreviation (input) SEDELEG_ADDR :: u32 where "SEDELEG_ADDR \<equiv> 0x102"
abbreviation (input) SIDELEG_ADDR :: u32 where "SIDELEG_ADDR \<equiv> 0x103"
abbreviation (input) SIE_ADDR :: u32 where "SIE_ADDR \<equiv> 0x104"
abbreviation (input) STVEC_ADDR :: u32 where "STVEC_ADDR \<equiv> 0x105"
abbreviation (input) SCOUNTEREN_ADDR :: u32 where "SCOUNTEREN_ADDR \<equiv> 0x106"
abbreviation (input) SSCRATCH_ADDR :: u32 where "SSCRATCH_ADDR \<equiv> 0x140"
abbreviation (input) SEPC_ADDR :: u32 where "SEPC_ADDR \<equiv> 0x141"
abbreviation (input) SCAUSE_ADDR :: u32 where "SCAUSE_ADDR \<equiv> 0x142"
abbreviation (input) STVAL_ADDR :: u32 where "STVAL_ADDR \<equiv> 0x143"
abbreviation (input) SIP_ADDR :: u32 where "SIP_ADDR \<equiv> 0x144"
abbreviation (input) SATP_ADDR :: u32 where "SATP_ADDR \<equiv> 0x180"
abbreviation (input) USTATUS_ADDR :: u32 where "USTATUS_ADDR \<equiv> 0x000"
abbreviation (input) UIE_ADDR :: u32 where "UIE_ADDR \<equiv> 0x004"
abbreviation (input) UTVEC_ADDR :: u32 where "UTVEC_ADDR \<equiv> 0x005"
abbreviation (input) USCRATCH_ADDR :: u32 where "USCRATCH_ADDR \<equiv> 0x040"
abbreviation (input) UEPC_ADDR :: u32 where "UEPC_ADDR \<equiv> 0x041"
abbreviation (input) UCAUSE_ADDR :: u32 where "UCAUSE_ADDR \<equiv> 0x042"
abbreviation (input) UTVAL_ADDR :: u32 where "UTVAL_ADDR \<equiv> 0x043"
abbreviation (input) UIP_ADDR :: u32 where "UIP_ADDR \<equiv> 0x044"
abbreviation (input) FFLAGS_ADDR :: u32 where "FFLAGS_ADDR \<equiv> 0x001"
abbreviation (input) FRM_ADDR :: u32 where "FRM_ADDR \<equiv> 0x002"
abbreviation (input) FCSR_ADDR :: u32 where "FCSR_ADDR \<equiv> 0x003"

text \<open>
  \<^verbatim>\<open>SWITCH_CASE_MATCH_ANY_HPMCOUNTER_RV32\<close> lists the addresses of the performance counters one by
  one, which are consecutive in five groups.
\<close>

definition addr_range :: "u32 \<Rightarrow> nat \<Rightarrow> u32 list" where
  "addr_range first n = map (\<lambda>i. first + word_of_nat i) [0..<n]"

definition PMPCFG_ADDRS :: "u32 list" where "PMPCFG_ADDRS = addr_range 0x3a0 4"
definition PMPADDR_ADDRS :: "u32 list" where "PMPADDR_ADDRS = addr_range 0x3b0 16"
definition HPMCOUNTER_ADDRS :: "u32 list" where "HPMCOUNTER_ADDRS = addr_range 0xc03 29"
definition HPMCOUNTERH_ADDRS :: "u32 list" where "HPMCOUNTERH_ADDRS = addr_range 0xc83 29"
definition MHPMCOUNTER_ADDRS :: "u32 list" where "MHPMCOUNTER_ADDRS = addr_range 0xb03 29"
definition MHPMCOUNTERH_ADDRS :: "u32 list" where "MHPMCOUNTERH_ADDRS = addr_range 0xb83 29"
definition MHPMEVENT_ADDRS :: "u32 list" where "MHPMEVENT_ADDRS = addr_range 0x323 29"

definition is_hpmcounter :: "u32 \<Rightarrow> bool" where
  "is_hpmcounter addr \<longleftrightarrow>
     0x323 \<le> addr \<and> addr \<le> 0x33f \<or>
     0xb03 \<le> addr \<and> addr \<le> 0xb1f \<or>
     0xb83 \<le> addr \<and> addr \<le> 0xb9f \<or>
     0xc03 \<le> addr \<and> addr \<le> 0xc1f \<or>
     0xc83 \<le> addr \<and> addr \<le> 0xc9f"

lemma is_hpmcounter_listed:
  "is_hpmcounter addr \<longleftrightarrow> addr \<in> set (HPMCOUNTER_ADDRS @ HPMCOUNTERH_ADDRS @ MHPMCOUNTER_ADDRS @ MHPMCOUNTERH_ADDRS @ MHPMEVENT_ADDRS)"
proof -
  have "addr \<in> set (addr_range first 29) \<longleftrightarrow> first \<le> addr \<and> addr \<le> first + 28" if "unat first < 2 ^ 31" for first :: u32
  proof
    assume "addr \<in> set (addr_range first 29)"
    then obtain i where i: "i < 29" "addr = first + word_of_nat i" by (auto simp: addr_range_def)
    have "unat addr = unat first + i" using that i by (simp add: unat_word_ariths unat_of_nat)
    moreover have "unat (first + 28) = unat first + 28" using that by (simp add: unat_word_ariths)
    ultimately show "first \<le> addr \<and> addr \<le> first + 28" using i(1) by (simp add: word_le_nat_alt)
  next
    assume a: "first \<le> addr \<and> addr \<le> first + 28"
    have "unat (first + 28) = unat first + 28" using that by (simp add: unat_word_ariths)
    with a have "unat (addr - first) \<le> 28" by (auto simp: unat_sub word_le_nat_alt)
    moreover have "addr = first + word_of_nat (unat (addr - first))" by simp
    ultimately show "addr \<in> set (addr_range first 29)" unfolding addr_range_def by (auto intro!: image_eqI [of _ _ "unat (addr - first)"])
  qed
  then show ?thesis
    unfolding is_hpmcounter_def HPMCOUNTER_ADDRS_def HPMCOUNTERH_ADDRS_def MHPMCOUNTER_ADDRS_def MHPMCOUNTERH_ADDRS_def
      MHPMEVENT_ADDRS_def by auto
qed

section \<open>The register table\<close>

record csr_table =
  cycle_reg :: u64
  time_reg :: u64
  instret_reg :: u64
  mvendorid_reg :: u32
  marchid_reg :: u32
  mimpid_reg :: u32
  mhartid_reg :: u32
  mstatus_reg :: u32
  misa_reg :: u32
  medeleg_reg :: u32
  mideleg_reg :: u32
  mie_reg :: u32
  mtvec_reg :: u32
  mcounteren_reg :: u32
  mcountinhibit_reg :: u32
  mscratch_reg :: u32
  mepc_reg :: u32
  mcause_reg :: u32
  mtval_reg :: u32
  mip_reg :: u32
  pmpaddr_reg :: "u32 list"
  pmpcfg_reg :: "u32 list"
  sedeleg_reg :: u32
  sideleg_reg :: u32
  stvec_reg :: u32
  scounteren_reg :: u32
  sscratch_reg :: u32
  sepc_reg :: u32
  scause_reg :: u32
  stval_reg :: u32
  satp_reg :: u32
  utvec_reg :: u32
  uscratch_reg :: u32
  uepc_reg :: u32
  ucause_reg :: u32
  utval_reg :: u32
  fcsr_reg :: u32

text \<open>
  \<^verbatim>\<open>csr_misa::init\<close>: extensions I, M, A, F, C, N, U and S, and \<^verbatim>\<open>mxl = 1\<close> for RV32. The constructor
  of the table runs it; every other register starts at zero.
\<close>

abbreviation (input) A_ISA_EXT :: u32 where "A_ISA_EXT \<equiv> 1"
abbreviation (input) C_ISA_EXT :: u32 where "C_ISA_EXT \<equiv> push_bit 2 1"
abbreviation (input) D_ISA_EXT :: u32 where "D_ISA_EXT \<equiv> push_bit 3 1"
abbreviation (input) E_ISA_EXT :: u32 where "E_ISA_EXT \<equiv> push_bit 4 1"
abbreviation (input) F_ISA_EXT :: u32 where "F_ISA_EXT \<equiv> push_bit 5 1"
abbreviation (input) I_ISA_EXT :: u32 where "I_ISA_EXT \<equiv> push_bit 8 1"
abbreviation (input) M_ISA_EXT :: u32 where "M_ISA_EXT \<equiv> push_bit 12 1"
abbreviation (input) N_ISA_EXT :: u32 where "N_ISA_EXT \<equiv> push_bit 13 1"
abbreviation (input) S_ISA_EXT :: u32 where "S_ISA_EXT \<equiv> push_bit 18 1"
abbreviation (input) U_ISA_EXT :: u32 where "U_ISA_EXT \<equiv> push_bit 20 1"

definition misa_init :: "u32 \<Rightarrow> u32" where
  "misa_init reg =
     bf_set misa_mxl 1 (bf_set (26, 4) 0
       (bf_set misa_extensions
          (I_ISA_EXT OR M_ISA_EXT OR A_ISA_EXT OR F_ISA_EXT OR C_ISA_EXT OR N_ISA_EXT OR U_ISA_EXT
             OR S_ISA_EXT) reg))"

definition has_C_extension :: "csr_table \<Rightarrow> bool" where
  "has_C_extension c \<longleftrightarrow> bf_get misa_extensions (misa_reg c) AND C_ISA_EXT \<noteq> 0"

definition has_E_base_isa :: "csr_table \<Rightarrow> bool" where
  "has_E_base_isa c \<longleftrightarrow> bf_get misa_extensions (misa_reg c) AND E_ISA_EXT \<noteq> 0"

definition select_E_base_isa :: "csr_table \<Rightarrow> csr_table" where
  "select_E_base_isa c =
     (let m = bf_set misa_extensions (bf_get misa_extensions (misa_reg c) AND NOT I_ISA_EXT) (misa_reg c)
      in c\<lparr>misa_reg := bf_set misa_extensions (bf_get misa_extensions m OR E_ISA_EXT) m\<rparr>)"

definition has_user_mode_extension :: "csr_table \<Rightarrow> bool" where
  "has_user_mode_extension c \<longleftrightarrow> bf_get misa_extensions (misa_reg c) AND U_ISA_EXT \<noteq> 0"

definition has_supervisor_mode_extension :: "csr_table \<Rightarrow> bool" where
  "has_supervisor_mode_extension c \<longleftrightarrow> bf_get misa_extensions (misa_reg c) AND S_ISA_EXT \<noteq> 0"

definition get_base_address :: "u32 \<Rightarrow> u32" where
  "get_base_address tvec = push_bit 2 (bf_get mtvec_base tvec)"

definition checked_write :: "u32 \<Rightarrow> u32" where
  "checked_write val = (if bf_get mtvec_mode val \<ge> 1 then bf_set mtvec_mode 0 val else val)"

definition csr_table_init :: csr_table where
  "csr_table_init = \<lparr>
     cycle_reg = 0, time_reg = 0, instret_reg = 0, mvendorid_reg = 0, marchid_reg = 0,
     mimpid_reg = 0, mhartid_reg = 0, mstatus_reg = 0, misa_reg = misa_init 0,
     medeleg_reg = 0, mideleg_reg = 0, mie_reg = 0, mtvec_reg = 0, mcounteren_reg = 0,
     mcountinhibit_reg = 0, mscratch_reg = 0, mepc_reg = 0, mcause_reg = 0, mtval_reg
     = 0, mip_reg = 0, pmpaddr_reg = replicate 16 0, pmpcfg_reg = replicate 4 0,
     sedeleg_reg = 0, sideleg_reg = 0, stvec_reg = 0, scounteren_reg = 0, sscratch_reg
     = 0, sepc_reg = 0, scause_reg = 0, stval_reg = 0, satp_reg = 0, utvec_reg = 0,
     uscratch_reg = 0, uepc_reg = 0, ucause_reg = 0, utval_reg = 0, fcsr_reg = 0\<rparr>"

text \<open>
  A \<^verbatim>\<open>uint32_t *\<close> into the table is the pair of the read and the write of the cell it points to; the
  halves of a 64-bit counter are its low and high words (the simulator runs on little-endian
  hosts).
\<close>

type_synonym csr_ptr = "(csr_table \<Rightarrow> u32) \<times> (u32 \<Rightarrow> csr_table \<Rightarrow> csr_table)"

definition low_half :: "u64 \<Rightarrow> u32" where
  "low_half w = ucast w"

definition high_half :: "u64 \<Rightarrow> u32" where
  "high_half w = ucast (drop_bit 32 w)"

definition set_low_half :: "u32 \<Rightarrow> u64 \<Rightarrow> u64" where
  "set_low_half v w = push_bit 32 (drop_bit 32 w) OR ucast v"

definition set_high_half :: "u32 \<Rightarrow> u64 \<Rightarrow> u64" where
  "set_high_half v w = push_bit 32 (ucast v) OR take_bit 32 w"

definition register_mapping :: "u32 \<Rightarrow> csr_ptr option" where
  "register_mapping addr =
  (if addr = CYCLE_ADDR then Some (low_half \<circ> cycle_reg, \<lambda>v. cycle_reg_update (set_low_half v))
   else if addr = CYCLEH_ADDR then Some (high_half \<circ> cycle_reg, \<lambda>v. cycle_reg_update (set_high_half v))
   else if addr = TIME_ADDR then Some (low_half \<circ> time_reg, \<lambda>v. time_reg_update (set_low_half v))
   else if addr = TIMEH_ADDR then Some (high_half \<circ> time_reg, \<lambda>v. time_reg_update (set_high_half v))
   else if addr = INSTRET_ADDR then Some (low_half \<circ> instret_reg, \<lambda>v. instret_reg_update (set_low_half v))
   else if addr = INSTRETH_ADDR then Some (high_half \<circ> instret_reg, \<lambda>v. instret_reg_update (set_high_half v))
   else if addr = MCYCLE_ADDR then Some (low_half \<circ> cycle_reg, \<lambda>v. cycle_reg_update (set_low_half v))
   else if addr = MCYCLEH_ADDR then Some (high_half \<circ> cycle_reg, \<lambda>v. cycle_reg_update (set_high_half v))
   else if addr = MTIME_ADDR then Some (low_half \<circ> time_reg, \<lambda>v. time_reg_update (set_low_half v))
   else if addr = MTIMEH_ADDR then Some (high_half \<circ> time_reg, \<lambda>v. time_reg_update (set_high_half v))
   else if addr = MINSTRET_ADDR then Some (low_half \<circ> instret_reg, \<lambda>v. instret_reg_update (set_low_half v))
   else if addr = MINSTRETH_ADDR then Some (high_half \<circ> instret_reg, \<lambda>v. instret_reg_update (set_high_half v))
   else if addr = MVENDORID_ADDR then Some (mvendorid_reg, \<lambda>v. mvendorid_reg_update (\<lambda>_. v))
   else if addr = MARCHID_ADDR then Some (marchid_reg, \<lambda>v. marchid_reg_update (\<lambda>_. v))
   else if addr = MIMPID_ADDR then Some (mimpid_reg, \<lambda>v. mimpid_reg_update (\<lambda>_. v))
   else if addr = MHARTID_ADDR then Some (mhartid_reg, \<lambda>v. mhartid_reg_update (\<lambda>_. v))
   else if addr = MSTATUS_ADDR then Some (mstatus_reg, \<lambda>v. mstatus_reg_update (\<lambda>_. v))
   else if addr = MISA_ADDR then Some (misa_reg, \<lambda>v. misa_reg_update (\<lambda>_. v))
   else if addr = MEDELEG_ADDR then Some (medeleg_reg, \<lambda>v. medeleg_reg_update (\<lambda>_. v))
   else if addr = MIDELEG_ADDR then Some (mideleg_reg, \<lambda>v. mideleg_reg_update (\<lambda>_. v))
   else if addr = MIE_ADDR then Some (mie_reg, \<lambda>v. mie_reg_update (\<lambda>_. v))
   else if addr = MTVEC_ADDR then Some (mtvec_reg, \<lambda>v. mtvec_reg_update (\<lambda>_. v))
   else if addr = MCOUNTEREN_ADDR then Some (mcounteren_reg, \<lambda>v. mcounteren_reg_update (\<lambda>_. v))
   else if addr = MCOUNTINHIBIT_ADDR then Some (mcountinhibit_reg, \<lambda>v. mcountinhibit_reg_update (\<lambda>_. v))
   else if addr = MSCRATCH_ADDR then Some (mscratch_reg, \<lambda>v. mscratch_reg_update (\<lambda>_. v))
   else if addr = MEPC_ADDR then Some (mepc_reg, \<lambda>v. mepc_reg_update (\<lambda>_. v))
   else if addr = MCAUSE_ADDR then Some (mcause_reg, \<lambda>v. mcause_reg_update (\<lambda>_. v))
   else if addr = MTVAL_ADDR then Some (mtval_reg, \<lambda>v. mtval_reg_update (\<lambda>_. v))
   else if addr = MIP_ADDR then Some (mip_reg, \<lambda>v. mip_reg_update (\<lambda>_. v))
   else if PMPADDR0_ADDR \<le> addr \<and> addr < PMPADDR0_ADDR + 16 then Some (\<lambda>c. pmpaddr_reg c ! unat (addr - PMPADDR0_ADDR),
       \<lambda>v c. c\<lparr>pmpaddr_reg := (pmpaddr_reg c)[unat (addr - PMPADDR0_ADDR) := v]\<rparr>)
   else if PMPCFG0_ADDR \<le> addr \<and> addr < PMPCFG0_ADDR + 4 then Some (\<lambda>c. pmpcfg_reg c ! unat (addr - PMPCFG0_ADDR),
       \<lambda>v c. c\<lparr>pmpcfg_reg := (pmpcfg_reg c)[unat (addr - PMPCFG0_ADDR) := v]\<rparr>)
   else if addr = SEDELEG_ADDR then Some (sedeleg_reg, \<lambda>v. sedeleg_reg_update (\<lambda>_. v))
   else if addr = SIDELEG_ADDR then Some (sideleg_reg, \<lambda>v. sideleg_reg_update (\<lambda>_. v))
   else if addr = STVEC_ADDR then Some (stvec_reg, \<lambda>v. stvec_reg_update (\<lambda>_. v))
   else if addr = SCOUNTEREN_ADDR then Some (scounteren_reg, \<lambda>v. scounteren_reg_update (\<lambda>_. v))
   else if addr = SSCRATCH_ADDR then Some (sscratch_reg, \<lambda>v. sscratch_reg_update (\<lambda>_. v))
   else if addr = SEPC_ADDR then Some (sepc_reg, \<lambda>v. sepc_reg_update (\<lambda>_. v))
   else if addr = SCAUSE_ADDR then Some (scause_reg, \<lambda>v. scause_reg_update (\<lambda>_. v))
   else if addr = STVAL_ADDR then Some (stval_reg, \<lambda>v. stval_reg_update (\<lambda>_. v))
   else if addr = SATP_ADDR then Some (satp_reg, \<lambda>v. satp_reg_update (\<lambda>_. v))
   else if addr = UTVEC_ADDR then Some (utvec_reg, \<lambda>v. utvec_reg_update (\<lambda>_. v))
   else if addr = USCRATCH_ADDR then Some (uscratch_reg, \<lambda>v. uscratch_reg_update (\<lambda>_. v))
   else if addr = UEPC_ADDR then Some (uepc_reg, \<lambda>v. uepc_reg_update (\<lambda>_. v))
   else if addr = UCAUSE_ADDR then Some (ucause_reg, \<lambda>v. ucause_reg_update (\<lambda>_. v))
   else if addr = UTVAL_ADDR then Some (utval_reg, \<lambda>v. utval_reg_update (\<lambda>_. v))
   else if addr = FCSR_ADDR then Some (fcsr_reg, \<lambda>v. fcsr_reg_update (\<lambda>_. v))
   else None)"

definition is_valid_csr32_addr :: "u32 \<Rightarrow> bool" where
  "is_valid_csr32_addr addr \<longleftrightarrow> register_mapping addr \<noteq> None"

definition default_write32 :: "u32 \<Rightarrow> u32 \<Rightarrow> csr_table \<Rightarrow> error + csr_table" where
  "default_write32 addr value csrs = (case register_mapping addr of
       None \<Rightarrow> Inl (RuntimeError ''runtime assertion failed'')
     | Some (rd, wr) \<Rightarrow> Inr (wr value csrs))"

definition default_read32 :: "u32 \<Rightarrow> csr_table \<Rightarrow> error + u32" where
  "default_read32 addr csrs = (case register_mapping addr of
       None \<Rightarrow> Inl (RuntimeError ''runtime assertion failed'')
     | Some (rd, wr) \<Rightarrow> Inr (rd csrs))"

definition is_bitset :: "u32 \<Rightarrow> nat \<Rightarrow> bool" where
  "is_bitset reg bitpos \<longleftrightarrow> reg AND push_bit bitpos 1 \<noteq> 0"

end
