(* ===== verification/Clover.thy ===== *)
theory Clover
  imports Prelude "HOL-Library.Signed_Division"
begin

text \<open>
  The concolic values the simulator computes with come from the clover library, which is not part
  of the repository: \<open>clover\<close> is the record of the operations the sources call (on
  \<^verbatim>\<open>std::shared_ptr<clover::ConcolicValue>\<close>, its \<^verbatim>\<open>concrete\<close> and \<^verbatim>\<open>symbolic\<close> parts, and the \<^verbatim>\<open>Solver\<close>)
  and every definition that uses a concolic value takes it as an argument. What the simulator
  relies on is the locale \<open>clover_laws\<close>: a value denotes a bit vector for every assignment \<open>a\<close> of
  the symbolic inputs (\<open>ev a v\<close>), each operation has its SMT-LIB bit-vector meaning under every
  assignment, and the concrete part is the value under the current assignment \<open>cur\<close>. The
  interpretation at the end is a complete implementation of the interface.
\<close>

section \<open>The operations\<close>

record ('v, 'e) clover =
  BVC :: "u32 \<Rightarrow> 'v"
  BVC_bytes :: "u8 list \<Rightarrow> 'v"
  BVCToBytes :: "'v \<Rightarrow> nat \<Rightarrow> u8 list"
  getValue :: "'v \<Rightarrow> u32"
  isTrue :: "'v \<Rightarrow> bool"
  symbolic :: "'v \<Rightarrow> 'e option"
  getWidth :: "'v \<Rightarrow> nat"
  c_add :: "'v \<Rightarrow> 'v \<Rightarrow> 'v"
  c_sub :: "'v \<Rightarrow> 'v \<Rightarrow> 'v"
  c_mul :: "'v \<Rightarrow> 'v \<Rightarrow> 'v"
  c_sdiv :: "'v \<Rightarrow> 'v \<Rightarrow> 'v"
  c_udiv :: "'v \<Rightarrow> 'v \<Rightarrow> 'v"
  c_srem :: "'v \<Rightarrow> 'v \<Rightarrow> 'v"
  c_urem :: "'v \<Rightarrow> 'v \<Rightarrow> 'v"
  c_band :: "'v \<Rightarrow> 'v \<Rightarrow> 'v"
  c_bor :: "'v \<Rightarrow> 'v \<Rightarrow> 'v"
  c_bxor :: "'v \<Rightarrow> 'v \<Rightarrow> 'v"
  c_lshl :: "'v \<Rightarrow> 'v \<Rightarrow> 'v"
  c_lshr :: "'v \<Rightarrow> 'v \<Rightarrow> 'v"
  c_ashr :: "'v \<Rightarrow> 'v \<Rightarrow> 'v"
  c_eq :: "'v \<Rightarrow> 'v \<Rightarrow> 'v"
  c_ne :: "'v \<Rightarrow> 'v \<Rightarrow> 'v"
  c_slt :: "'v \<Rightarrow> 'v \<Rightarrow> 'v"
  c_sge :: "'v \<Rightarrow> 'v \<Rightarrow> 'v"
  c_ult :: "'v \<Rightarrow> 'v \<Rightarrow> 'v"
  c_uge :: "'v \<Rightarrow> 'v \<Rightarrow> 'v"
  c_zext :: "'v \<Rightarrow> nat \<Rightarrow> 'v"
  c_sext :: "'v \<Rightarrow> nat \<Rightarrow> 'v"
  c_extract :: "'v \<Rightarrow> nat \<Rightarrow> nat \<Rightarrow> 'v"
  c_select :: "'v \<Rightarrow> 'v \<Rightarrow> 'v \<Rightarrow> 'v"

section \<open>Bit-vector functions\<close>

text \<open>Bit vectors of width \<open>w\<close> are natural numbers below \<open>2 ^ w\<close>.\<close>

definition bv_signed :: "nat \<Rightarrow> nat \<Rightarrow> int" where
  "bv_signed w x = (if x < 2 ^ (w - 1) then int x else int x - 2 ^ w)"

definition bv_of_int :: "nat \<Rightarrow> int \<Rightarrow> nat" where
  "bv_of_int w i = nat (i mod 2 ^ w)"

definition bv_sub :: "nat \<Rightarrow> nat \<Rightarrow> nat \<Rightarrow> nat" where
  "bv_sub w x y = bv_of_int w (int x - int y)"

definition bv_sdiv :: "nat \<Rightarrow> nat \<Rightarrow> nat \<Rightarrow> nat" where
  "bv_sdiv w x y = bv_of_int w (bv_signed w x sdiv bv_signed w y)"

definition bv_srem :: "nat \<Rightarrow> nat \<Rightarrow> nat \<Rightarrow> nat" where
  "bv_srem w x y = bv_of_int w (bv_signed w x smod bv_signed w y)"

definition bv_lshl :: "nat \<Rightarrow> nat \<Rightarrow> nat \<Rightarrow> nat" where
  "bv_lshl w x y = (if y < w then take_bit w (push_bit y x) else 0)"

definition bv_lshr :: "nat \<Rightarrow> nat \<Rightarrow> nat \<Rightarrow> nat" where
  "bv_lshr w x y = (if y < w then drop_bit y x else 0)"

definition bv_ashr :: "nat \<Rightarrow> nat \<Rightarrow> nat \<Rightarrow> nat" where
  "bv_ashr w x y = bv_of_int w (drop_bit (min y w) (bv_signed w x))"

definition bytes_to_nat :: "u8 list \<Rightarrow> nat" where
  "bytes_to_nat bs = foldr (\<lambda>b n. unat b + 256 * n) bs 0"

definition nat_to_bytes :: "nat \<Rightarrow> nat \<Rightarrow> u8 list" where
  "nat_to_bytes k n = map (\<lambda>i. word_of_nat (drop_bit (8 * i) n)) [0..<k]"

section \<open>What the simulator relies on\<close>

locale clover_laws =
  fixes cv :: "('v, 'e) clover"
    and ev :: "'a \<Rightarrow> 'v \<Rightarrow> nat"
    and sem :: "'a \<Rightarrow> 'e \<Rightarrow> nat"
    and cur :: 'a
  assumes ev_bound: "ev a x < 2 ^ getWidth cv x"
    and BVC_law: "getWidth cv (BVC cv k) = 32 \<and> ev a (BVC cv k) = unat k"
    and BVC_bytes_law:
      "getWidth cv (BVC_bytes cv bs) = 8 * length bs \<and> ev a (BVC_bytes cv bs) = bytes_to_nat bs"
    and BVCToBytes_law: "BVCToBytes cv x n = nat_to_bytes n (ev cur x)"
    and getValue_law: "getValue cv x = word_of_nat (ev cur x)"
    and isTrue_law: "isTrue cv x \<longleftrightarrow> ev cur x = 1"
    and symbolic_Some: "symbolic cv x = Some e \<Longrightarrow> sem a e = ev a x"
    and symbolic_None: "symbolic cv x = None \<Longrightarrow> ev a x = ev b x"
    and binop_width: "getWidth cv x = w \<Longrightarrow> getWidth cv y = w \<Longrightarrow>
      \<forall>f \<in> {c_add cv, c_sub cv, c_mul cv, c_sdiv cv, c_udiv cv, c_srem cv, c_urem cv, c_band cv,
             c_bor cv, c_bxor cv, c_lshl cv, c_lshr cv, c_ashr cv}. getWidth cv (f x y) = w"
    and relop_width: "getWidth cv x = w \<Longrightarrow> getWidth cv y = w \<Longrightarrow>
      \<forall>f \<in> {c_eq cv, c_ne cv, c_slt cv, c_sge cv, c_ult cv, c_uge cv}. getWidth cv (f x y) = 1"
    and arith_law: "getWidth cv x = w \<Longrightarrow> getWidth cv y = w \<Longrightarrow>
      ev a (c_add cv x y) = (ev a x + ev a y) mod 2 ^ w \<and>
      ev a (c_sub cv x y) = bv_sub w (ev a x) (ev a y) \<and>
      ev a (c_mul cv x y) = (ev a x * ev a y) mod 2 ^ w"
    and div_law: "getWidth cv x = w \<Longrightarrow> getWidth cv y = w \<Longrightarrow> ev a y \<noteq> 0 \<Longrightarrow>
      ev a (c_udiv cv x y) = ev a x div ev a y \<and>
      ev a (c_urem cv x y) = ev a x mod ev a y \<and>
      ev a (c_sdiv cv x y) = bv_sdiv w (ev a x) (ev a y) \<and>
      ev a (c_srem cv x y) = bv_srem w (ev a x) (ev a y)"
    and bitwise_law: "getWidth cv x = w \<Longrightarrow> getWidth cv y = w \<Longrightarrow>
      ev a (c_band cv x y) = (ev a x AND ev a y) \<and>
      ev a (c_bor cv x y) = (ev a x OR ev a y) \<and>
      ev a (c_bxor cv x y) = (ev a x XOR ev a y)"
    and shift_law: "getWidth cv x = w \<Longrightarrow> getWidth cv y = w \<Longrightarrow>
      ev a (c_lshl cv x y) = bv_lshl w (ev a x) (ev a y) \<and>
      ev a (c_lshr cv x y) = bv_lshr w (ev a x) (ev a y) \<and>
      ev a (c_ashr cv x y) = bv_ashr w (ev a x) (ev a y)"
    and eq_law: "getWidth cv x = w \<Longrightarrow> getWidth cv y = w \<Longrightarrow>
      ev a (c_eq cv x y) = of_bool (ev a x = ev a y) \<and>
      ev a (c_ne cv x y) = of_bool (ev a x \<noteq> ev a y)"
    and order_law: "getWidth cv x = w \<Longrightarrow> getWidth cv y = w \<Longrightarrow>
      ev a (c_ult cv x y) = of_bool (ev a x < ev a y) \<and>
      ev a (c_uge cv x y) = of_bool (ev a x \<ge> ev a y) \<and>
      ev a (c_slt cv x y) = of_bool (bv_signed w (ev a x) < bv_signed w (ev a y)) \<and>
      ev a (c_sge cv x y) = of_bool (bv_signed w (ev a x) \<ge> bv_signed w (ev a y))"
    and ext_law: "getWidth cv x \<le> w \<Longrightarrow>
      getWidth cv (c_zext cv x w) = w \<and> ev a (c_zext cv x w) = ev a x \<and>
      getWidth cv (c_sext cv x w) = w \<and>
      ev a (c_sext cv x w) = bv_of_int w (bv_signed (getWidth cv x) (ev a x))"
    and extract_law: "i + w \<le> getWidth cv x \<Longrightarrow>
      getWidth cv (c_extract cv x i w) = w \<and> ev a (c_extract cv x i w) = take_bit w (drop_bit i (ev a x))"
    and select_law: "getWidth cv c = 1 \<Longrightarrow> getWidth cv x = w \<Longrightarrow> getWidth cv y = w \<Longrightarrow>
      getWidth cv (c_select cv c x y) = w \<and>
      ev a (c_select cv c x y) = (if ev a c = 1 then ev a x else ev a y)"

section \<open>A complete implementation\<close>

text \<open>
  A value is a known bit vector or a function of the symbolic inputs; the operations work
  pointwise and stay concrete when their operands are.
\<close>

datatype 'a bv = Concrete nat nat | Symbolic nat "'a \<Rightarrow> nat"

primrec bv_width :: "'a bv \<Rightarrow> nat" where
    "bv_width (Concrete w n) = w"
  | "bv_width (Symbolic w f) = w"

primrec bv_eval :: "'a \<Rightarrow> 'a bv \<Rightarrow> nat" where
    "bv_eval a (Concrete w n) = n mod 2 ^ w"
  | "bv_eval a (Symbolic w f) = f a mod 2 ^ w"

primrec bv_symbolic :: "'a bv \<Rightarrow> ('a \<Rightarrow> nat) option" where
    "bv_symbolic (Concrete w n) = None"
  | "bv_symbolic (Symbolic w f) = Some (\<lambda>a. f a mod 2 ^ w)"

definition bv_lift1 :: "nat \<Rightarrow> (nat \<Rightarrow> nat) \<Rightarrow> 'a bv \<Rightarrow> 'a bv" where
  "bv_lift1 w f x = (case x of
       Concrete v n \<Rightarrow> Concrete w (f (n mod 2 ^ v))
     | Symbolic v g \<Rightarrow> Symbolic w (\<lambda>a. f (g a mod 2 ^ v)))"

definition bv_lift2 :: "nat \<Rightarrow> (nat \<Rightarrow> nat \<Rightarrow> nat) \<Rightarrow> 'a bv \<Rightarrow> 'a bv \<Rightarrow> 'a bv" where
  "bv_lift2 w f x y = (case (x, y) of
       (Concrete v n, Concrete u m) \<Rightarrow> Concrete w (f (n mod 2 ^ v) (m mod 2 ^ u))
     | _ \<Rightarrow> Symbolic w (\<lambda>a. f (bv_eval a x) (bv_eval a y)))"

definition bv_select :: "'a bv \<Rightarrow> 'a bv \<Rightarrow> 'a bv \<Rightarrow> 'a bv" where
  "bv_select c x y = (case c of
       Concrete v n \<Rightarrow> (if n mod 2 ^ v = 1 then x else y)
     | Symbolic v g \<Rightarrow>
         Symbolic (bv_width x) (\<lambda>a. if g a mod 2 ^ v = 1 then bv_eval a x else bv_eval a y))"

definition bv_clover :: "'a \<Rightarrow> ('a bv, 'a \<Rightarrow> nat) clover" where
  "bv_clover cur = \<lparr>
     BVC = \<lambda>k. Concrete 32 (unat k),
     BVC_bytes = \<lambda>bs. Concrete (8 * length bs) (bytes_to_nat bs),
     BVCToBytes = \<lambda>x n. nat_to_bytes n (bv_eval cur x),
     getValue = \<lambda>x. word_of_nat (bv_eval cur x),
     isTrue = \<lambda>x. bv_eval cur x = 1,
     symbolic = bv_symbolic,
     getWidth = bv_width,
     c_add = \<lambda>x y. bv_lift2 (bv_width x) (\<lambda>m n. m + n) x y,
     c_sub = \<lambda>x y. bv_lift2 (bv_width x) (bv_sub (bv_width x)) x y,
     c_mul = \<lambda>x y. bv_lift2 (bv_width x) (\<lambda>m n. m * n) x y,
     c_sdiv = \<lambda>x y. bv_lift2 (bv_width x) (bv_sdiv (bv_width x)) x y,
     c_udiv = \<lambda>x y. bv_lift2 (bv_width x) (\<lambda>m n. m div n) x y,
     c_srem = \<lambda>x y. bv_lift2 (bv_width x) (bv_srem (bv_width x)) x y,
     c_urem = \<lambda>x y. bv_lift2 (bv_width x) (\<lambda>m n. m mod n) x y,
     c_band = \<lambda>x y. bv_lift2 (bv_width x) (\<lambda>m n. m AND n) x y,
     c_bor = \<lambda>x y. bv_lift2 (bv_width x) (\<lambda>m n. m OR n) x y,
     c_bxor = \<lambda>x y. bv_lift2 (bv_width x) (\<lambda>m n. m XOR n) x y,
     c_lshl = \<lambda>x y. bv_lift2 (bv_width x) (bv_lshl (bv_width x)) x y,
     c_lshr = \<lambda>x y. bv_lift2 (bv_width x) (bv_lshr (bv_width x)) x y,
     c_ashr = \<lambda>x y. bv_lift2 (bv_width x) (bv_ashr (bv_width x)) x y,
     c_eq = \<lambda>x y. bv_lift2 1 (\<lambda>m n. of_bool (m = n)) x y,
     c_ne = \<lambda>x y. bv_lift2 1 (\<lambda>m n. of_bool (m \<noteq> n)) x y,
     c_slt = \<lambda>x y. bv_lift2 1
       (\<lambda>m n. of_bool (bv_signed (bv_width x) m < bv_signed (bv_width x) n)) x y,
     c_sge = \<lambda>x y. bv_lift2 1
       (\<lambda>m n. of_bool (bv_signed (bv_width x) m \<ge> bv_signed (bv_width x) n)) x y,
     c_ult = \<lambda>x y. bv_lift2 1 (\<lambda>m n. of_bool (m < n)) x y,
     c_uge = \<lambda>x y. bv_lift2 1 (\<lambda>m n. of_bool (m \<ge> n)) x y,
     c_zext = \<lambda>x w. bv_lift1 w (\<lambda>n. n) x,
     c_sext = \<lambda>x w. bv_lift1 w (\<lambda>n. bv_of_int w (bv_signed (bv_width x) n)) x,
     c_extract = \<lambda>x i k. bv_lift1 k (\<lambda>n. drop_bit i n) x,
     c_select = bv_select\<rparr>"

lemma bv_lift1_simps [simp]:
  "bv_width (bv_lift1 w f x) = w" "bv_eval a (bv_lift1 w f x) = f (bv_eval a x) mod 2 ^ w"
  by (cases x; simp add: bv_lift1_def)+

lemma bv_lift2_simps [simp]:
  "bv_width (bv_lift2 w f x y) = w"
  "bv_eval a (bv_lift2 w f x y) = f (bv_eval a x) (bv_eval a y) mod 2 ^ w"
  by (cases x; cases y; simp add: bv_lift2_def)+

lemma bv_eval_less [simp]: "bv_eval a x < 2 ^ bv_width x"
  by (cases x) simp_all

lemma bv_eval_mod [simp]: "bv_eval a x mod 2 ^ bv_width x = bv_eval a x"
  by simp

lemma bv_eval_mod_width: "bv_width x = w \<Longrightarrow> bv_eval a x mod 2 ^ w = bv_eval a x"
  by auto

lemma bv_of_int_less [simp]: "bv_of_int w i < 2 ^ w"
proof -
  have "i mod 2 ^ w < 2 ^ w" by simp
  then show ?thesis by (simp add: bv_of_int_def nat_less_iff)
qed

lemma bv_of_int_mod [simp]: "bv_of_int w i mod 2 ^ w = bv_of_int w i"
  by simp

lemma bytes_to_nat_less: "bytes_to_nat bs < 2 ^ (8 * length bs)"
proof (induction bs)
  case (Cons b bs)
  have "unat b < 256" using unsigned_less [of b] by simp
  with Cons have "unat b + 256 * bytes_to_nat bs < 256 * 2 ^ (8 * length bs)" by simp
  then show ?case by (simp add: bytes_to_nat_def power_add)
qed (simp add: bytes_to_nat_def)

lemma bv_bitop_less:
  assumes "m < 2 ^ w" and "n < 2 ^ w"
  shows "(m AND n) < (2 ^ w :: nat)" "(m OR n) < (2 ^ w :: nat)" "(m XOR n) < (2 ^ w :: nat)"
proof -
  have mn: "take_bit w m = m" "take_bit w n = n"
    using assms by (simp_all add: take_bit_nat_eq_self_iff)
  have "take_bit w (m AND n) = (m AND n)" "take_bit w (m OR n) = (m OR n)"
    "take_bit w (m XOR n) = (m XOR n)"
    by (simp_all add: mn)
  then show "(m AND n) < (2 ^ w :: nat)" "(m OR n) < (2 ^ w :: nat)" "(m XOR n) < (2 ^ w :: nat)"
    by (metis take_bit_nat_less_exp)+
qed

lemma bv_shift_less:
  assumes "m < 2 ^ w"
  shows "bv_lshl w m n < 2 ^ w" "bv_lshr w m n < 2 ^ w" "bv_ashr w m n < 2 ^ w"
  using assms by (simp_all add: bv_lshl_def bv_lshr_def bv_ashr_def drop_bit_eq_div less_le_trans
      le_less_trans [OF div_le_dividend])

lemma bv_arith_less:
  "bv_sub w m n < 2 ^ w" "bv_sdiv w m n < 2 ^ w" "bv_srem w m n < 2 ^ w"
  "m < 2 ^ w \<Longrightarrow> m div n < (2 ^ w :: nat)" "m < 2 ^ w \<Longrightarrow> m mod n < (2 ^ w :: nat)"
  by (simp_all add: bv_sub_def bv_sdiv_def bv_srem_def le_less_trans [OF div_le_dividend]
      le_less_trans [OF mod_less_eq_dividend])

lemma bv_eval_less_width: "bv_width y = w \<Longrightarrow> bv_eval a y < 2 ^ w"
  by auto

lemma bv_eval_less_mono: "bv_width x \<le> w \<Longrightarrow> bv_eval a x < 2 ^ w"
  using bv_eval_less [of a x] power_increasing [of "bv_width x" w "2 :: nat"] by linarith

lemma unat32_mod [simp]: "unat (k :: u32) mod 4294967296 = unat k"
proof -
  have "unat k < 2 ^ LENGTH(32)" by (rule unsigned_less)
  then show ?thesis by simp
qed

lemmas bv_fits = bv_arith_less bv_bitop_less bv_shift_less bv_eval_less_width
  bv_eval_less_mono

interpretation bv: clover_laws "bv_clover cur" bv_eval "\<lambda>a f. f a" cur
proof (unfold_locales, goal_cases)
  case (3 bs a)
  then show ?case using bytes_to_nat_less [of bs] by (simp add: bv_clover_def)
next
  case (7 x e a)
  then show ?case by (cases x) (auto simp: bv_clover_def)
next
  case (8 x a b)
  then show ?case by (cases x) (auto simp: bv_clover_def)
next
  case (19 c x w y a)
  then show ?case by (cases c) (auto simp: bv_clover_def bv_select_def bv_eval_mod_width)
qed (auto simp: bv_clover_def bv_fits take_bit_eq_mod)

end
