(* ===== verification/Iss.thy ===== *)
theory Iss
  imports Compressed Csr Clover
begin

text \<open>
  The state of a hart and the parts of the instruction set simulator outside the instruction
  switch (\<^verbatim>\<open>core/rv32/iss.h\<close>, \<^verbatim>\<open>core/rv32/iss.cpp\<close>): the register file, CSR access with its privilege
  checks and write masks, trap entry and return, interrupt selection, the breakpoint and status
  interface of the debugger, and the per-instruction bookkeeping.

  The record \<open>hart\<close> holds the members of \<^verbatim>\<open>struct ISS\<close>; \<open>h_world\<close> is everything outside the core that
  its interfaces reach (memory, bus lock, peripherals, simulation kernel). The record \<open>platform\<close>
  holds those interfaces: \<^verbatim>\<open>instr_memory_if\<close>, \<^verbatim>\<open>data_memory_if\<close>, \<^verbatim>\<open>clint_if\<close>, clover's
  \<^verbatim>\<open>ExecutionContext\<close>, and the SystemC calls (\<^verbatim>\<open>sc_core::wait\<close>, the quantum keeper), during which other
  processes may run and change the hart's pending interrupts and the world. Log output is not
  modelled.
\<close>

section \<open>State\<close>

datatype CoreExecStatus = Runnable | HitBreakpoint | Terminated

record ('v, 'e, 'm) hart =
  h_regs :: "'v list"
  h_pc :: u32
  h_last_pc :: u32
  h_shall_exit :: bool
  h_ignore_wfi :: bool
  h_csrs :: csr_table
  h_prv :: PrivilegeLevel
  h_lr_sc_counter :: int
  h_total_num_instr :: u64
  h_instr :: u32
  h_op :: Mapping
  h_status :: CoreExecStatus
  h_breakpoints :: "u32 set"
  h_debug_mode :: bool
  h_cycle_counter :: u64
  h_tracer :: "(bool \<times> 'e \<times> u32) list"
  h_world :: 'm

type_synonym ('v, 'e, 'm, 'a) iss = "(('v, 'e, 'm) hart, 'a) smonad"

record ('v, 'e, 'm) platform =
  load_instr :: "u64 \<Rightarrow> ('v, 'e, 'm, u32) iss"
  symbolic_store_data :: "'v \<Rightarrow> 'v \<Rightarrow> nat \<Rightarrow> ('v, 'e, 'm, unit) iss"
  load_word :: "'v \<Rightarrow> ('v, 'e, 'm, 'v) iss"
  load_half :: "'v \<Rightarrow> ('v, 'e, 'm, 'v) iss"
  load_byte :: "'v \<Rightarrow> ('v, 'e, 'm, 'v) iss"
  load_uhalf :: "'v \<Rightarrow> ('v, 'e, 'm, 'v) iss"
  load_ubyte :: "'v \<Rightarrow> ('v, 'e, 'm, 'v) iss"
  store_word :: "'v \<Rightarrow> 'v \<Rightarrow> ('v, 'e, 'm, unit) iss"
  store_half :: "'v \<Rightarrow> 'v \<Rightarrow> ('v, 'e, 'm, unit) iss"
  store_byte :: "'v \<Rightarrow> 'v \<Rightarrow> ('v, 'e, 'm, unit) iss"
  atomic_load_word :: "'v \<Rightarrow> ('v, 'e, 'm, 'v) iss"
  atomic_store_word :: "'v \<Rightarrow> 'v \<Rightarrow> ('v, 'e, 'm, unit) iss"
  atomic_load_reserved_word :: "'v \<Rightarrow> ('v, 'e, 'm, 'v) iss"
  atomic_store_conditional_word :: "'v \<Rightarrow> 'v \<Rightarrow> ('v, 'e, 'm, bool) iss"
  atomic_unlock :: "('v, 'e, 'm, unit) iss"
  update_and_get_mtime :: "('v, 'e, 'm, u64) iss"
  getSymbolicBytes :: "string \<Rightarrow> nat \<Rightarrow> ('v, 'e, 'm, 'v) iss"
  wait_wfi_event :: "('v, 'e, 'm, unit) iss"
  quantum_inc :: "u64 \<Rightarrow> ('v, 'e, 'm, unit) iss"
  quantum_need_sync :: "('v, 'e, 'm, bool) iss"
  quantum_sync :: "('v, 'e, 'm, unit) iss"

section \<open>Exception codes\<close>

abbreviation (input) EXC_U_SOFTWARE_INTERRUPT :: u32 where "EXC_U_SOFTWARE_INTERRUPT \<equiv> 0"
abbreviation (input) EXC_S_SOFTWARE_INTERRUPT :: u32 where "EXC_S_SOFTWARE_INTERRUPT \<equiv> 1"
abbreviation (input) EXC_M_SOFTWARE_INTERRUPT :: u32 where "EXC_M_SOFTWARE_INTERRUPT \<equiv> 3"
abbreviation (input) EXC_U_TIMER_INTERRUPT :: u32 where "EXC_U_TIMER_INTERRUPT \<equiv> 4"
abbreviation (input) EXC_S_TIMER_INTERRUPT :: u32 where "EXC_S_TIMER_INTERRUPT \<equiv> 5"
abbreviation (input) EXC_M_TIMER_INTERRUPT :: u32 where "EXC_M_TIMER_INTERRUPT \<equiv> 7"
abbreviation (input) EXC_U_EXTERNAL_INTERRUPT :: u32 where "EXC_U_EXTERNAL_INTERRUPT \<equiv> 8"
abbreviation (input) EXC_S_EXTERNAL_INTERRUPT :: u32 where "EXC_S_EXTERNAL_INTERRUPT \<equiv> 9"
abbreviation (input) EXC_M_EXTERNAL_INTERRUPT :: u32 where "EXC_M_EXTERNAL_INTERRUPT \<equiv> 11"

abbreviation (input) EXC_INSTR_ADDR_MISALIGNED :: u32 where "EXC_INSTR_ADDR_MISALIGNED \<equiv> 0"
abbreviation (input) EXC_INSTR_ACCESS_FAULT :: u32 where "EXC_INSTR_ACCESS_FAULT \<equiv> 1"
abbreviation (input) EXC_ILLEGAL_INSTR :: u32 where "EXC_ILLEGAL_INSTR \<equiv> 2"
abbreviation (input) EXC_BREAKPOINT :: u32 where "EXC_BREAKPOINT \<equiv> 3"
abbreviation (input) EXC_LOAD_ADDR_MISALIGNED :: u32 where "EXC_LOAD_ADDR_MISALIGNED \<equiv> 4"
abbreviation (input) EXC_LOAD_ACCESS_FAULT :: u32 where "EXC_LOAD_ACCESS_FAULT \<equiv> 5"
abbreviation (input) EXC_STORE_AMO_ADDR_MISALIGNED :: u32 where "EXC_STORE_AMO_ADDR_MISALIGNED \<equiv> 6"
abbreviation (input) EXC_STORE_AMO_ACCESS_FAULT :: u32 where "EXC_STORE_AMO_ACCESS_FAULT \<equiv> 7"
abbreviation (input) EXC_ECALL_U_MODE :: u32 where "EXC_ECALL_U_MODE \<equiv> 8"
abbreviation (input) EXC_ECALL_S_MODE :: u32 where "EXC_ECALL_S_MODE \<equiv> 9"
abbreviation (input) EXC_ECALL_M_MODE :: u32 where "EXC_ECALL_M_MODE \<equiv> 11"
abbreviation (input) EXC_INSTR_PAGE_FAULT :: u32 where "EXC_INSTR_PAGE_FAULT \<equiv> 12"
abbreviation (input) EXC_LOAD_PAGE_FAULT :: u32 where "EXC_LOAD_PAGE_FAULT \<equiv> 13"
abbreviation (input) EXC_STORE_AMO_PAGE_FAULT :: u32 where "EXC_STORE_AMO_PAGE_FAULT \<equiv> 15"

definition raise_trap :: "u32 \<Rightarrow> u64 \<Rightarrow> ('s, 'a) smonad" where
  "raise_trap exc mtval = throw_m (SimulationTrap exc mtval)"

definition raise_illegal_instruction :: "('v, 'e, 'm, 'a) iss" where
  "raise_illegal_instruction = bind_m (gets_m h_instr) (\<lambda>w. raise_trap EXC_ILLEGAL_INSTR (ucast w))"

definition require_isa :: "u32 \<Rightarrow> ('v, 'e, 'm, unit) iss" where
  "require_isa x = bind_m (gets_m h_csrs) (\<lambda>c.
     when_m (misa_reg c AND x = 0) raise_illegal_instruction)"

section \<open>Register file\<close>

text \<open>The numbers of the registers and their names in the calling convention.\<close>

abbreviation (input) RegFile_x0 :: u32 where "RegFile_x0 \<equiv> 0"
abbreviation (input) RegFile_x1 :: u32 where "RegFile_x1 \<equiv> 1"
abbreviation (input) RegFile_x2 :: u32 where "RegFile_x2 \<equiv> 2"
abbreviation (input) RegFile_x3 :: u32 where "RegFile_x3 \<equiv> 3"
abbreviation (input) RegFile_x4 :: u32 where "RegFile_x4 \<equiv> 4"
abbreviation (input) RegFile_x5 :: u32 where "RegFile_x5 \<equiv> 5"
abbreviation (input) RegFile_x6 :: u32 where "RegFile_x6 \<equiv> 6"
abbreviation (input) RegFile_x7 :: u32 where "RegFile_x7 \<equiv> 7"
abbreviation (input) RegFile_x8 :: u32 where "RegFile_x8 \<equiv> 8"
abbreviation (input) RegFile_x9 :: u32 where "RegFile_x9 \<equiv> 9"
abbreviation (input) RegFile_x10 :: u32 where "RegFile_x10 \<equiv> 10"
abbreviation (input) RegFile_x11 :: u32 where "RegFile_x11 \<equiv> 11"
abbreviation (input) RegFile_x12 :: u32 where "RegFile_x12 \<equiv> 12"
abbreviation (input) RegFile_x13 :: u32 where "RegFile_x13 \<equiv> 13"
abbreviation (input) RegFile_x14 :: u32 where "RegFile_x14 \<equiv> 14"
abbreviation (input) RegFile_x15 :: u32 where "RegFile_x15 \<equiv> 15"
abbreviation (input) RegFile_x16 :: u32 where "RegFile_x16 \<equiv> 16"
abbreviation (input) RegFile_x17 :: u32 where "RegFile_x17 \<equiv> 17"
abbreviation (input) RegFile_x18 :: u32 where "RegFile_x18 \<equiv> 18"
abbreviation (input) RegFile_x19 :: u32 where "RegFile_x19 \<equiv> 19"
abbreviation (input) RegFile_x20 :: u32 where "RegFile_x20 \<equiv> 20"
abbreviation (input) RegFile_x21 :: u32 where "RegFile_x21 \<equiv> 21"
abbreviation (input) RegFile_x22 :: u32 where "RegFile_x22 \<equiv> 22"
abbreviation (input) RegFile_x23 :: u32 where "RegFile_x23 \<equiv> 23"
abbreviation (input) RegFile_x24 :: u32 where "RegFile_x24 \<equiv> 24"
abbreviation (input) RegFile_x25 :: u32 where "RegFile_x25 \<equiv> 25"
abbreviation (input) RegFile_x26 :: u32 where "RegFile_x26 \<equiv> 26"
abbreviation (input) RegFile_x27 :: u32 where "RegFile_x27 \<equiv> 27"
abbreviation (input) RegFile_x28 :: u32 where "RegFile_x28 \<equiv> 28"
abbreviation (input) RegFile_x29 :: u32 where "RegFile_x29 \<equiv> 29"
abbreviation (input) RegFile_x30 :: u32 where "RegFile_x30 \<equiv> 30"
abbreviation (input) RegFile_x31 :: u32 where "RegFile_x31 \<equiv> 31"
abbreviation (input) RegFile_zero :: u32 where "RegFile_zero \<equiv> 0"
abbreviation (input) RegFile_ra :: u32 where "RegFile_ra \<equiv> 1"
abbreviation (input) RegFile_sp :: u32 where "RegFile_sp \<equiv> 2"
abbreviation (input) RegFile_gp :: u32 where "RegFile_gp \<equiv> 3"
abbreviation (input) RegFile_tp :: u32 where "RegFile_tp \<equiv> 4"
abbreviation (input) RegFile_t0 :: u32 where "RegFile_t0 \<equiv> 5"
abbreviation (input) RegFile_t1 :: u32 where "RegFile_t1 \<equiv> 6"
abbreviation (input) RegFile_t2 :: u32 where "RegFile_t2 \<equiv> 7"
abbreviation (input) RegFile_s0 :: u32 where "RegFile_s0 \<equiv> 8"
abbreviation (input) RegFile_fp :: u32 where "RegFile_fp \<equiv> 8"
abbreviation (input) RegFile_s1 :: u32 where "RegFile_s1 \<equiv> 9"
abbreviation (input) RegFile_a0 :: u32 where "RegFile_a0 \<equiv> 10"
abbreviation (input) RegFile_a1 :: u32 where "RegFile_a1 \<equiv> 11"
abbreviation (input) RegFile_a2 :: u32 where "RegFile_a2 \<equiv> 12"
abbreviation (input) RegFile_a3 :: u32 where "RegFile_a3 \<equiv> 13"
abbreviation (input) RegFile_a4 :: u32 where "RegFile_a4 \<equiv> 14"
abbreviation (input) RegFile_a5 :: u32 where "RegFile_a5 \<equiv> 15"
abbreviation (input) RegFile_a6 :: u32 where "RegFile_a6 \<equiv> 16"
abbreviation (input) RegFile_a7 :: u32 where "RegFile_a7 \<equiv> 17"
abbreviation (input) RegFile_s2 :: u32 where "RegFile_s2 \<equiv> 18"
abbreviation (input) RegFile_s3 :: u32 where "RegFile_s3 \<equiv> 19"
abbreviation (input) RegFile_s4 :: u32 where "RegFile_s4 \<equiv> 20"
abbreviation (input) RegFile_s5 :: u32 where "RegFile_s5 \<equiv> 21"
abbreviation (input) RegFile_s6 :: u32 where "RegFile_s6 \<equiv> 22"
abbreviation (input) RegFile_s7 :: u32 where "RegFile_s7 \<equiv> 23"
abbreviation (input) RegFile_s8 :: u32 where "RegFile_s8 \<equiv> 24"
abbreviation (input) RegFile_s9 :: u32 where "RegFile_s9 \<equiv> 25"
abbreviation (input) RegFile_s10 :: u32 where "RegFile_s10 \<equiv> 26"
abbreviation (input) RegFile_s11 :: u32 where "RegFile_s11 \<equiv> 27"
abbreviation (input) RegFile_t3 :: u32 where "RegFile_t3 \<equiv> 28"
abbreviation (input) RegFile_t4 :: u32 where "RegFile_t4 \<equiv> 29"
abbreviation (input) RegFile_t5 :: u32 where "RegFile_t5 \<equiv> 30"
abbreviation (input) RegFile_t6 :: u32 where "RegFile_t6 \<equiv> 31"

definition RegFile_init :: "('v, 'e) clover \<Rightarrow> 'v list" where
  "RegFile_init cv = replicate 32 (BVC cv 0)"

definition RegFile_write :: "('v, 'e) clover \<Rightarrow> u32 \<Rightarrow> 'v \<Rightarrow> ('v, 'e, 'm, unit) iss" where
  "RegFile_write cv index value = then_m (assert_m ''index <= x31'' (index \<le> 31))
     (if getWidth cv value < 32 then
        modify_m (\<lambda>h. h\<lparr>h_regs := (h_regs h)[unat index := c_zext cv value 32]\<rparr>)
      else if getWidth cv value = 32 then
        modify_m (\<lambda>h. h\<lparr>h_regs := (h_regs h)[unat index := value]\<rparr>)
      else return_m ())"

definition RegFile_read :: "u32 \<Rightarrow> ('v, 'e, 'm, 'v) iss" where
  "RegFile_read index =
     (if index > 31 then throw_m (RuntimeError ''out-of-range register access'')
      else gets_m (\<lambda>h. h_regs h ! unat index))"

definition RegFile_at :: "u32 \<Rightarrow> ('v, 'e, 'm, 'v) iss" where
  "RegFile_at index = gets_m (\<lambda>h. h_regs h ! unat index)"

definition RegFile_shamt :: "('v, 'e) clover \<Rightarrow> u32 \<Rightarrow> ('v, 'e, 'm, 'v) iss" where
  "RegFile_shamt cv index = then_m (assert_m ''index <= x31'' (index \<le> 31))
     (gets_m (\<lambda>h. c_zext cv (c_extract cv (h_regs h ! unat index) 0 5) 32))"

section \<open>Construction and the debugger's interface\<close>

abbreviation (input) cycle_time :: u64 where "cycle_time \<equiv> 10000"

definition instr_cycles :: "Mapping \<Rightarrow> u64" where
  "instr_cycles op = (case op of
       OpI LB \<Rightarrow> 4 * cycle_time | OpI LBU \<Rightarrow> 4 * cycle_time | OpI LH \<Rightarrow> 4 * cycle_time
     | OpI LHU \<Rightarrow> 4 * cycle_time | OpI LW \<Rightarrow> 4 * cycle_time | OpI SB \<Rightarrow> 4 * cycle_time
     | OpI SH \<Rightarrow> 4 * cycle_time | OpI SW \<Rightarrow> 4 * cycle_time
     | OpM MUL \<Rightarrow> 8 * cycle_time | OpM MULH \<Rightarrow> 8 * cycle_time | OpM MULHU \<Rightarrow> 8 * cycle_time
     | OpM MULHSU \<Rightarrow> 8 * cycle_time | OpM DIV \<Rightarrow> 8 * cycle_time | OpM DIVU \<Rightarrow> 8 * cycle_time
     | OpM REM \<Rightarrow> 8 * cycle_time | OpM REMU \<Rightarrow> 8 * cycle_time
     | _ \<Rightarrow> cycle_time)"

definition ISS_construct :: "('v, 'e) clover \<Rightarrow> u32 \<Rightarrow> bool \<Rightarrow> 'm \<Rightarrow> ('v, 'e, 'm) hart" where
  "ISS_construct cv hart_id use_E_base_isa w =
     (let c = csr_table_init\<lparr>mhartid_reg := hart_id\<rparr> in
      \<lparr>h_regs = RegFile_init cv, h_pc = 0, h_last_pc = 0, h_shall_exit = False,
       h_ignore_wfi = False, h_csrs = (if use_E_base_isa then select_E_base_isa c else c),
       h_prv = MachineMode, h_lr_sc_counter = 0, h_total_num_instr = 0, h_instr = 0, h_op = UNDEF,
       h_status = Runnable, h_breakpoints = {}, h_debug_mode = False, h_cycle_counter = 0,
       h_tracer = [], h_world = w\<rparr>)"

definition ISS_init :: "('v, 'e) clover \<Rightarrow> u32 \<Rightarrow> u32 \<Rightarrow> ('v, 'e, 'm, unit) iss" where
  "ISS_init cv entrypoint sp =
     then_m (RegFile_write cv RegFile_sp (BVC cv sp)) (modify_m (\<lambda>h. h\<lparr>h_pc := entrypoint\<rparr>))"

definition sys_exit :: "('v, 'e, 'm, unit) iss" where
  "sys_exit = modify_m (\<lambda>h. h\<lparr>h_shall_exit := True\<rparr>)"

definition read_register :: "('v, 'e) clover \<Rightarrow> u32 \<Rightarrow> ('v, 'e, 'm, u64) iss" where
  "read_register cv idx = bind_m (RegFile_read idx) (\<lambda>r. return_m (ucast (getValue cv r)))"

definition write_register :: "('v, 'e) clover \<Rightarrow> u32 \<Rightarrow> u64 \<Rightarrow> ('v, 'e, 'm, unit) iss" where
  "write_register cv idx value = then_m (assert_m ''value <= UINT32_MAX'' (value \<le> 0xffffffff))
     (RegFile_write cv idx (BVC cv (ucast value)))"

definition get_registers :: "('v, 'e) clover \<Rightarrow> ('v, 'e, 'm, u64 list) iss" where
  "get_registers cv = gets_m (\<lambda>h. map (\<lambda>v. ucast (getValue cv v)) (h_regs h))"

definition get_program_counter :: "('v, 'e, 'm, u64) iss" where
  "get_program_counter = gets_m (\<lambda>h. ucast (h_pc h))"

definition block_on_wfi :: "bool \<Rightarrow> ('v, 'e, 'm, unit) iss" where
  "block_on_wfi block = modify_m (\<lambda>h. h\<lparr>h_ignore_wfi := \<not> block\<rparr>)"

definition set_status :: "CoreExecStatus \<Rightarrow> ('v, 'e, 'm, unit) iss" where
  "set_status s = modify_m (\<lambda>h. h\<lparr>h_status := s\<rparr>)"

definition enable_debug :: "('v, 'e, 'm, unit) iss" where
  "enable_debug = modify_m (\<lambda>h. h\<lparr>h_debug_mode := True\<rparr>)"

definition insert_breakpoint :: "u64 \<Rightarrow> ('v, 'e, 'm, unit) iss" where
  "insert_breakpoint addr = modify_m (\<lambda>h. h\<lparr>h_breakpoints := insert (ucast addr) (h_breakpoints h)\<rparr>)"

definition remove_breakpoint :: "u64 \<Rightarrow> ('v, 'e, 'm, unit) iss" where
  "remove_breakpoint addr = modify_m (\<lambda>h. h\<lparr>h_breakpoints := h_breakpoints h - {ucast addr}\<rparr>)"

definition get_hart_id :: "('v, 'e, 'm, u64) iss" where
  "get_hart_id = gets_m (\<lambda>h. ucast (mhartid_reg (h_csrs h)))"

definition make_symbolic ::
  "('v, 'e) clover \<Rightarrow> ('v, 'e, 'm) platform \<Rightarrow> u32 \<Rightarrow> nat \<Rightarrow> ('v, 'e, 'm, unit) iss" where
  "make_symbolic cv pl addr n =
     bind_m (getSymbolicBytes pl (''memory<'' @ to_string addr @ ''>'') n) (\<lambda>value.
       symbolic_store_data pl (BVC cv addr) value n)"

definition release_lr_sc_reservation :: "('v, 'e, 'm) platform \<Rightarrow> ('v, 'e, 'm, unit) iss" where
  "release_lr_sc_reservation pl =
     then_m (modify_m (\<lambda>h. h\<lparr>h_lr_sc_counter := 0\<rparr>)) (atomic_unlock pl)"

definition track_and_trace_branch :: "('v, 'e) clover \<Rightarrow> bool \<Rightarrow> 'v \<Rightarrow> ('v, 'e, 'm, unit) iss" where
  "track_and_trace_branch cv cond expr = (case symbolic cv expr of
       None \<Rightarrow> return_m ()
     | Some e \<Rightarrow> modify_m (\<lambda>h. h\<lparr>h_tracer := h_tracer h @ [(cond, e, h_last_pc h)]\<rparr>))"

section \<open>CSR access\<close>

definition pc_alignment_mask :: "csr_table \<Rightarrow> u32" where
  "pc_alignment_mask c = (if has_C_extension c then NOT 0x1 else NOT 0x3)"

definition compute_and_get_current_cycles :: "('v, 'e, 'm, u64) iss" where
  "compute_and_get_current_cycles = bind_m (gets_m h_cycle_counter) (\<lambda>t.
     then_m (assert_m ''cycle_counter % cycle_time == 0'' (t mod cycle_time = 0))
       (return_m (t div cycle_time)))"

definition is_invalid_csr_access :: "u32 \<Rightarrow> bool \<Rightarrow> ('v, 'e, 'm, bool) iss" where
  "is_invalid_csr_access addr is_write =
     then_m (when_m (addr = FFLAGS_ADDR \<or> addr = FRM_ADDR \<or> addr = FCSR_ADDR) (require_isa F_ISA_EXT))
       (gets_m (\<lambda>h.
          let csr_prv = drop_bit 8 (0x300 AND addr);
              csr_readonly = (drop_bit 10 (0xC00 AND addr) = 3);
              s_invalid = (csr_prv = SupervisorMode \<and> \<not> has_supervisor_mode_extension (h_csrs h));
              u_invalid = (csr_prv = UserMode \<and> \<not> has_user_mode_extension (h_csrs h))
          in is_write \<and> csr_readonly \<or> h_prv h < csr_prv \<or> s_invalid \<or> u_invalid))"

definition validate_csr_counter_read_access_rights :: "u32 \<Rightarrow> ('v, 'e, 'm, unit) iss" where
  "validate_csr_counter_read_access_rights addr =
     when_m (0xC00 \<le> addr \<and> addr \<le> 0xC1F \<or> 0xC80 \<le> addr \<and> addr \<le> 0xC9F)
       (let cnt = unat (addr AND 0x1F) in
        bind_m (gets_m (\<lambda>h. h)) (\<lambda>h.
          then_m (when_m (h_prv h = SupervisorMode \<and> \<not> is_bitset (mcounteren_reg (h_csrs h)) cnt)
                    raise_illegal_instruction)
            (when_m (h_prv h = UserMode \<and> (\<not> is_bitset (mcounteren_reg (h_csrs h)) cnt \<or>
                       \<not> is_bitset (scounteren_reg (h_csrs h)) cnt))
               raise_illegal_instruction)))"

definition lift_sum :: "error + 'a \<Rightarrow> ('s, 'a) smonad" where
  "lift_sum r = (case r of Inl e \<Rightarrow> throw_m e | Inr x \<Rightarrow> return_m x)"

definition read_csr :: "(csr_table \<Rightarrow> u32) \<Rightarrow> u32 \<Rightarrow> ('v, 'e, 'm, u32) iss" where
  "read_csr r m = gets_m (\<lambda>h. r (h_csrs h) AND m)"

definition upd_csrs :: "(csr_table \<Rightarrow> csr_table) \<Rightarrow> ('v, 'e, 'm, unit) iss" where
  "upd_csrs f = modify_m (\<lambda>h. h\<lparr>h_csrs := f (h_csrs h)\<rparr>)"

definition refresh_time :: "('v, 'e, 'm) platform \<Rightarrow> ('v, 'e, 'm, unit) iss" where
  "refresh_time pl = bind_m (update_and_get_mtime pl) (\<lambda>mtime.
     upd_csrs (\<lambda>c. c\<lparr>time_reg := mtime\<rparr>))"

definition refresh_cycle :: "('v, 'e, 'm, unit) iss" where
  "refresh_cycle = bind_m compute_and_get_current_cycles (\<lambda>n.
     upd_csrs (\<lambda>c. c\<lparr>cycle_reg := n\<rparr>))"

definition default_csr_read :: "u32 \<Rightarrow> ('v, 'e, 'm, u32) iss" where
  "default_csr_read addr =
     then_m (when_m (\<not> is_valid_csr32_addr addr) raise_illegal_instruction)
       (bind_m (gets_m h_csrs) (\<lambda>c. lift_sum (default_read32 addr c)))"

definition get_csr_value :: "('v, 'e, 'm) platform \<Rightarrow> u32 \<Rightarrow> ('v, 'e, 'm, u32) iss" where
  "get_csr_value pl addr = then_m (validate_csr_counter_read_access_rights addr)
    (if addr = TIME_ADDR \<or> addr = MTIME_ADDR then
       then_m (refresh_time pl) (gets_m (\<lambda>h. low_half (time_reg (h_csrs h))))
     else if addr = TIMEH_ADDR \<or> addr = MTIMEH_ADDR then
       then_m (refresh_time pl) (gets_m (\<lambda>h. high_half (time_reg (h_csrs h))))
     else if addr = MCYCLE_ADDR then
       then_m refresh_cycle (gets_m (\<lambda>h. low_half (cycle_reg (h_csrs h))))
     else if addr = MCYCLEH_ADDR then
       then_m refresh_cycle (gets_m (\<lambda>h. high_half (cycle_reg (h_csrs h))))
     else if addr = MINSTRET_ADDR then gets_m (\<lambda>h. low_half (instret_reg (h_csrs h)))
     else if addr = MINSTRETH_ADDR then gets_m (\<lambda>h. high_half (instret_reg (h_csrs h)))
     else if is_hpmcounter addr then return_m 0
     else if addr = MSTATUS_ADDR then read_csr mstatus_reg MSTATUS_MASK
     else if addr = SSTATUS_ADDR then read_csr mstatus_reg SSTATUS_MASK
     else if addr = USTATUS_ADDR then read_csr mstatus_reg USTATUS_MASK
     else if addr = MIP_ADDR then read_csr mip_reg MIP_READ_MASK
     else if addr = SIP_ADDR then read_csr mip_reg SIP_MASK
     else if addr = UIP_ADDR then read_csr mip_reg UIP_MASK
     else if addr = MIE_ADDR then read_csr mie_reg MIE_MASK
     else if addr = SIE_ADDR then read_csr mie_reg SIE_MASK
     else if addr = UIE_ADDR then read_csr mie_reg UIE_MASK
     else if addr = SATP_ADDR then
       bind_m (gets_m h_csrs) (\<lambda>c.
         then_m (when_m (bf_get mstatus_tvm (mstatus_reg c) \<noteq> 0) raise_illegal_instruction)
           (default_csr_read addr))
     else if addr = FCSR_ADDR then read_csr fcsr_reg FCSR_MASK
     else if addr = FFLAGS_ADDR then gets_m (\<lambda>h. bf_get fcsr_fflags (fcsr_reg (h_csrs h)))
     else if addr = FRM_ADDR then gets_m (\<lambda>h. bf_get fcsr_frm (fcsr_reg (h_csrs h)))
     else if addr = TSELECT_ADDR then return_m 1
     else if addr = TDATA1_ADDR \<or> addr = TDATA2_ADDR \<or> addr = TDATA3_ADDR \<or> addr = DCSR_ADDR \<or>
             addr = DPC_ADDR \<or> addr = DSCRATCH0_ADDR \<or> addr = DSCRATCH1_ADDR then return_m 0
     else default_csr_read addr)"

definition masked_write :: "u32 \<Rightarrow> u32 \<Rightarrow> u32 \<Rightarrow> u32" where
  "masked_write m value reg = (reg AND NOT m) OR (value AND m)"

definition default_csr_write :: "u32 \<Rightarrow> u32 \<Rightarrow> ('v, 'e, 'm, unit) iss" where
  "default_csr_write addr value =
     then_m (when_m (\<not> is_valid_csr32_addr addr) raise_illegal_instruction)
       (bind_m (gets_m h_csrs) (\<lambda>c.
          bind_m (lift_sum (default_write32 addr value c)) (\<lambda>c'. upd_csrs (\<lambda>_. c'))))"

definition set_csr_value :: "u32 \<Rightarrow> u32 \<Rightarrow> ('v, 'e, 'm, unit) iss" where
  "set_csr_value addr value =
    (if addr = MISA_ADDR \<or> is_hpmcounter addr then return_m ()
     else if addr = SATP_ADDR then
       bind_m (gets_m h_csrs) (\<lambda>c.
         then_m (when_m (bf_get mstatus_tvm (mstatus_reg c) \<noteq> 0) raise_illegal_instruction)
           (upd_csrs (satp_reg_update (masked_write SATP_MASK value))))
     else if addr = MTVEC_ADDR then upd_csrs (mtvec_reg_update (masked_write MTVEC_MASK value))
     else if addr = STVEC_ADDR then upd_csrs (stvec_reg_update (masked_write MTVEC_MASK value))
     else if addr = UTVEC_ADDR then upd_csrs (utvec_reg_update (masked_write MTVEC_MASK value))
     else if addr = MEPC_ADDR then
       upd_csrs (\<lambda>c. mepc_reg_update (masked_write (pc_alignment_mask c) value) c)
     else if addr = SEPC_ADDR then
       upd_csrs (\<lambda>c. sepc_reg_update (masked_write (pc_alignment_mask c) value) c)
     else if addr = UEPC_ADDR then
       upd_csrs (\<lambda>c. uepc_reg_update (masked_write (pc_alignment_mask c) value) c)
     else if addr = MSTATUS_ADDR then upd_csrs (mstatus_reg_update (masked_write MSTATUS_MASK value))
     else if addr = SSTATUS_ADDR then upd_csrs (mstatus_reg_update (masked_write SSTATUS_MASK value))
     else if addr = USTATUS_ADDR then upd_csrs (mstatus_reg_update (masked_write USTATUS_MASK value))
     else if addr = MIP_ADDR then upd_csrs (mip_reg_update (masked_write MIP_WRITE_MASK value))
     else if addr = SIP_ADDR then upd_csrs (mip_reg_update (masked_write SIP_MASK value))
     else if addr = UIP_ADDR then upd_csrs (mip_reg_update (masked_write UIP_MASK value))
     else if addr = MIE_ADDR then upd_csrs (mie_reg_update (masked_write MIE_MASK value))
     else if addr = SIE_ADDR then upd_csrs (mie_reg_update (masked_write SIE_MASK value))
     else if addr = UIE_ADDR then upd_csrs (mie_reg_update (masked_write UIE_MASK value))
     else if addr = MIDELEG_ADDR then upd_csrs (mideleg_reg_update (masked_write MIDELEG_MASK value))
     else if addr = MEDELEG_ADDR then upd_csrs (medeleg_reg_update (masked_write MEDELEG_MASK value))
     else if addr = SIDELEG_ADDR then upd_csrs (sideleg_reg_update (masked_write SIDELEG_MASK value))
     else if addr = SEDELEG_ADDR then upd_csrs (sedeleg_reg_update (masked_write SEDELEG_MASK value))
     else if addr = MCOUNTEREN_ADDR then
       upd_csrs (mcounteren_reg_update (masked_write MCOUNTEREN_MASK value))
     else if addr = SCOUNTEREN_ADDR then
       upd_csrs (scounteren_reg_update (masked_write MCOUNTEREN_MASK value))
     else if addr = MCOUNTINHIBIT_ADDR then
       upd_csrs (mcountinhibit_reg_update (masked_write MCOUNTINHIBIT_MASK value))
     else if addr = FCSR_ADDR then upd_csrs (fcsr_reg_update (masked_write FCSR_MASK value))
     else if addr = FFLAGS_ADDR then upd_csrs (fcsr_reg_update (bf_set fcsr_fflags value))
     else if addr = FRM_ADDR then upd_csrs (fcsr_reg_update (bf_set fcsr_frm value))
     else if addr = TSELECT_ADDR \<or> addr = TDATA1_ADDR \<or> addr = TDATA2_ADDR \<or> addr = TDATA3_ADDR \<or>
             addr = DCSR_ADDR \<or> addr = DPC_ADDR \<or> addr = DSCRATCH0_ADDR \<or> addr = DSCRATCH1_ADDR
          then return_m ()
     else default_csr_write addr value)"

section \<open>Interrupt lines\<close>

definition set_external_interrupt :: "u32 \<Rightarrow> PrivilegeLevel \<Rightarrow> csr_table \<Rightarrow> csr_table" where
  "set_external_interrupt b level =
     (if level = UserMode then mip_reg_update (bf_set mip_ueip b)
      else if level = SupervisorMode then mip_reg_update (bf_set mip_seip b)
      else if level = MachineMode then mip_reg_update (bf_set mip_meip b)
      else id)"

definition trigger_external_interrupt :: "PrivilegeLevel \<Rightarrow> ('v, 'e, 'm, unit) iss" where
  "trigger_external_interrupt level = upd_csrs (set_external_interrupt 1 level)"

definition clear_external_interrupt :: "PrivilegeLevel \<Rightarrow> ('v, 'e, 'm, unit) iss" where
  "clear_external_interrupt level = upd_csrs (set_external_interrupt 0 level)"

definition trigger_timer_interrupt :: "bool \<Rightarrow> ('v, 'e, 'm, unit) iss" where
  "trigger_timer_interrupt status = upd_csrs (mip_reg_update (bf_set mip_mtip (of_bool status)))"

definition trigger_software_interrupt :: "bool \<Rightarrow> ('v, 'e, 'm, unit) iss" where
  "trigger_software_interrupt status = upd_csrs (mip_reg_update (bf_set mip_msip (of_bool status)))"

section \<open>Traps\<close>

definition to_uint32 :: "u64 \<Rightarrow> ('s, u32) smonad" where
  "to_uint32 v = (if v > 0xffffffff then throw_m (RuntimeError ''bad lexical cast'')
     else return_m (ucast v))"

definition prepare_trap :: "u32 \<Rightarrow> u64 \<Rightarrow> ('v, 'e, 'm, PrivilegeLevel) iss" where
  "prepare_trap reason mtval =
     then_m (modify_m (\<lambda>h. h\<lparr>h_pc := h_last_pc h\<rparr>))
      (bind_m (gets_m (\<lambda>h. h)) (\<lambda>h.
        let exc_bit = push_bit (unat reason) 1 :: u32;
            cause = (\<lambda>r. bf_set mcause_exception_code reason (bf_set mcause_interrupt 0 r)) in
        if h_prv h = MachineMode \<or> exc_bit AND medeleg_reg (h_csrs h) = 0 then
          then_m (upd_csrs (mcause_reg_update cause))
            (bind_m (to_uint32 mtval) (\<lambda>v.
               then_m (upd_csrs (mtval_reg_update (\<lambda>_. v))) (return_m MachineMode)))
        else if h_prv h = SupervisorMode \<or> exc_bit AND sedeleg_reg (h_csrs h) = 0 then
          then_m (upd_csrs (scause_reg_update cause))
            (bind_m (to_uint32 mtval) (\<lambda>v.
               then_m (upd_csrs (stval_reg_update (\<lambda>_. v))) (return_m SupervisorMode)))
        else
          then_m (assert_m ''prv == UserMode'' (h_prv h = UserMode \<and>
                    exc_bit AND medeleg_reg (h_csrs h) \<noteq> 0 \<and> exc_bit AND sedeleg_reg (h_csrs h) \<noteq> 0))
            (then_m (upd_csrs (ucause_reg_update cause))
              (bind_m (to_uint32 mtval) (\<lambda>v.
                 then_m (upd_csrs (utval_reg_update (\<lambda>_. v))) (return_m UserMode))))))"

record PendingInterrupts =
  target_mode :: PrivilegeLevel
  pending :: u32

definition compute_pending_interrupts :: "('v, 'e, 'm) hart \<Rightarrow> PendingInterrupts" where
  "compute_pending_interrupts h =
    (let c = h_csrs h;
         none = \<lparr>target_mode = NoneMode, pending = 0\<rparr>;
         p = mie_reg c AND mip_reg c in
     if p = 0 then none
     else let m_pending = p AND NOT (mideleg_reg c) in
       if m_pending \<noteq> 0 \<and> (h_prv h < MachineMode \<or>
            h_prv h = MachineMode \<and> bf_get mstatus_mie (mstatus_reg c) \<noteq> 0)
       then \<lparr>target_mode = MachineMode, pending = m_pending\<rparr>
       else let p' = p AND mideleg_reg c; s_pending = p' AND NOT (sideleg_reg c) in
         if s_pending \<noteq> 0 \<and> (h_prv h < SupervisorMode \<or>
              h_prv h = SupervisorMode \<and> bf_get mstatus_sie (mstatus_reg c) \<noteq> 0)
         then \<lparr>target_mode = SupervisorMode, pending = s_pending\<rparr>
         else let u_pending = p' AND sideleg_reg c in
           if u_pending \<noteq> 0 \<and> (h_prv h = UserMode \<and> bf_get mstatus_uie (mstatus_reg c) \<noteq> 0)
           then \<lparr>target_mode = UserMode, pending = u_pending\<rparr>
           else none)"

definition has_pending_enabled_interrupts :: "('v, 'e, 'm) hart \<Rightarrow> bool" where
  "has_pending_enabled_interrupts h \<longleftrightarrow> target_mode (compute_pending_interrupts h) \<noteq> NoneMode"

definition has_local_pending_enabled_interrupts :: "('v, 'e, 'm) hart \<Rightarrow> bool" where
  "has_local_pending_enabled_interrupts h \<longleftrightarrow> mie_reg (h_csrs h) AND mip_reg (h_csrs h) \<noteq> 0"

definition interrupt_code :: "u32 \<Rightarrow> error + u32" where
  "interrupt_code x =
    (if bf_get mip_meip x \<noteq> 0 then Inr EXC_M_EXTERNAL_INTERRUPT
     else if bf_get mip_msip x \<noteq> 0 then Inr EXC_M_SOFTWARE_INTERRUPT
     else if bf_get mip_mtip x \<noteq> 0 then Inr EXC_M_TIMER_INTERRUPT
     else if bf_get mip_seip x \<noteq> 0 then Inr EXC_S_EXTERNAL_INTERRUPT
     else if bf_get mip_ssip x \<noteq> 0 then Inr EXC_S_SOFTWARE_INTERRUPT
     else if bf_get mip_stip x \<noteq> 0 then Inr EXC_S_TIMER_INTERRUPT
     else if bf_get mip_ueip x \<noteq> 0 then Inr EXC_U_EXTERNAL_INTERRUPT
     else if bf_get mip_usip x \<noteq> 0 then Inr EXC_U_SOFTWARE_INTERRUPT
     else if bf_get mip_utip x \<noteq> 0 then Inr EXC_U_TIMER_INTERRUPT
     else Inl (RuntimeError ''some pending interrupt must be available here''))"

definition unknown_privilege_level :: "PrivilegeLevel \<Rightarrow> ('s, 'a) smonad" where
  "unknown_privilege_level p = throw_m (RuntimeError (''unknown privilege level '' @ to_string p))"

definition prepare_interrupt :: "PendingInterrupts \<Rightarrow> ('v, 'e, 'm, unit) iss" where
  "prepare_interrupt e = bind_m (lift_sum (interrupt_code (pending e))) (\<lambda>exc.
     let cause = (\<lambda>r. bf_set mcause_interrupt 1 (bf_set mcause_exception_code exc r)) in
     if target_mode e = MachineMode then upd_csrs (mcause_reg_update cause)
     else if target_mode e = SupervisorMode then upd_csrs (scause_reg_update cause)
     else if target_mode e = UserMode then upd_csrs (ucause_reg_update cause)
     else unknown_privilege_level (target_mode e))"

definition trap_vector :: "u32 \<Rightarrow> u32 \<Rightarrow> u32" where
  "trap_vector tvec cause =
     (if bf_get mcause_interrupt cause \<noteq> 0 \<and> bf_get mtvec_mode tvec = 1
      then get_base_address tvec + 4 * bf_get mcause_exception_code cause
      else get_base_address tvec)"

definition switch_to_trap_handler ::
  "('v, 'e, 'm) platform \<Rightarrow> PrivilegeLevel \<Rightarrow> ('v, 'e, 'm, unit) iss" where
  "switch_to_trap_handler pl mode = then_m (release_lr_sc_reservation pl)
    (bind_m (gets_m h_prv) (\<lambda>pp.
     then_m (modify_m (\<lambda>h. h\<lparr>h_prv := mode\<rparr>))
      (if mode = MachineMode then
         modify_m (\<lambda>h. let c = h_csrs h; st = mstatus_reg c in
           h\<lparr>h_csrs := c\<lparr>mepc_reg := h_pc h,
               mstatus_reg := bf_set mstatus_mpp pp (bf_set mstatus_mie 0
                 (bf_set mstatus_mpie (bf_get mstatus_mie st) st))\<rparr>,
             h_pc := trap_vector (mtvec_reg c) (mcause_reg c)\<rparr>)
       else if mode = SupervisorMode then
         then_m (bind_m (gets_m h_prv) (\<lambda>p.
                   assert_m ''prv == SupervisorMode || prv == UserMode'' (p = SupervisorMode \<or> p = UserMode)))
          (modify_m (\<lambda>h. let c = h_csrs h; st = mstatus_reg c in
            h\<lparr>h_csrs := c\<lparr>sepc_reg := h_pc h,
                mstatus_reg := bf_set mstatus_spp pp (bf_set mstatus_sie 0
                  (bf_set mstatus_spie (bf_get mstatus_sie st) st))\<rparr>,
              h_pc := trap_vector (stvec_reg c) (scause_reg c)\<rparr>))
       else if mode = UserMode then
         then_m (bind_m (gets_m h_prv) (\<lambda>p. assert_m ''prv == UserMode'' (p = UserMode)))
          (modify_m (\<lambda>h. let c = h_csrs h; st = mstatus_reg c in
            h\<lparr>h_csrs := c\<lparr>uepc_reg := h_pc h,
                mstatus_reg := bf_set mstatus_uie 0 (bf_set mstatus_upie (bf_get mstatus_uie st) st)\<rparr>,
              h_pc := trap_vector (utvec_reg c) (ucause_reg c)\<rparr>))
       else unknown_privilege_level mode)))"

definition return_from_trap_handler :: "PrivilegeLevel \<Rightarrow> ('v, 'e, 'm, unit) iss" where
  "return_from_trap_handler return_mode =
    (if return_mode = MachineMode then
       modify_m (\<lambda>h. let c = h_csrs h; st = mstatus_reg c in
         h\<lparr>h_prv := bf_get mstatus_mpp st,
           h_csrs := c\<lparr>mstatus_reg := bf_set mstatus_mpp
               (if has_user_mode_extension c then UserMode else MachineMode)
               (bf_set mstatus_mpie 1 (bf_set mstatus_mie (bf_get mstatus_mpie st) st))\<rparr>,
           h_pc := mepc_reg c\<rparr>)
     else if return_mode = SupervisorMode then
       modify_m (\<lambda>h. let c = h_csrs h; st = mstatus_reg c in
         h\<lparr>h_prv := bf_get mstatus_spp st,
           h_csrs := c\<lparr>mstatus_reg := bf_set mstatus_spp
               (if has_user_mode_extension c then UserMode else SupervisorMode)
               (bf_set mstatus_spie 1 (bf_set mstatus_sie (bf_get mstatus_spie st) st))\<rparr>,
           h_pc := sepc_reg c\<rparr>)
     else if return_mode = UserMode then
       modify_m (\<lambda>h. let c = h_csrs h; st = mstatus_reg c in
         h\<lparr>h_prv := UserMode,
           h_csrs := c\<lparr>mstatus_reg :=
               bf_set mstatus_upie 1 (bf_set mstatus_uie (bf_get mstatus_upie st) st)\<rparr>,
           h_pc := uepc_reg c\<rparr>)
     else unknown_privilege_level return_mode)"

section \<open>Bookkeeping after an instruction\<close>

definition performance_and_sync_update ::
  "('v, 'e, 'm) platform \<Rightarrow> Mapping \<Rightarrow> ('v, 'e, 'm, unit) iss" where
  "performance_and_sync_update pl executed_op =
     then_m (modify_m (\<lambda>h. h\<lparr>h_total_num_instr := h_total_num_instr h + 1\<rparr>))
     (then_m (upd_csrs (\<lambda>c. if bf_get mcountinhibit_IR (mcountinhibit_reg c) = 0
                then c\<lparr>instret_reg := instret_reg c + 1\<rparr> else c))
     (then_m (bind_m (gets_m h_lr_sc_counter) (\<lambda>n.
         when_m (n \<noteq> 0)
           (then_m (modify_m (\<lambda>h. h\<lparr>h_lr_sc_counter := n - 1\<rparr>))
           (then_m (assert_m ''lr_sc_counter >= 0'' (n - 1 \<ge> 0))
             (when_m (n - 1 = 0) (release_lr_sc_reservation pl))))))
     (let new_cycles = instr_cycles executed_op in
      then_m (modify_m (\<lambda>h. if bf_get mcountinhibit_CY (mcountinhibit_reg (h_csrs h)) = 0
                then h\<lparr>h_cycle_counter := h_cycle_counter h + new_cycles\<rparr> else h))
     (then_m (quantum_inc pl new_cycles)
     (bind_m (quantum_need_sync pl) (\<lambda>b.
        when_m b (bind_m (gets_m h_lr_sc_counter) (\<lambda>n. when_m (n = 0) (quantum_sync pl)))))))))"

end
