(* ===== verification/Bus_Lock.thy ===== *)
theory Bus_Lock
  imports Prelude
begin

text \<open>
  The bus lock (\<^verbatim>\<open>class BusLock\<close> in \<^verbatim>\<open>platform/common/bus.h\<close>, interface \<^verbatim>\<open>core/common/bus_lock_if.h\<close>) that
  makes LR/SC sequences and atomic memory operations exclusive. The operations are functions on
  the lock's two members; the loop \<^verbatim>\<open>while (locked) sc_core::wait(lock_event)\<close> of
  \<^verbatim>\<open>wait_until_unlocked\<close> suspends the calling process until the lock is free, so a call that would
  wait is a step that is not enabled yet in the transition relation of the interleaved harts.
\<close>

section \<open>The lock\<close>

record BusLock =
  locked :: bool
  owner :: u32

definition BusLock_init :: BusLock where
  "BusLock_init = \<lparr>locked = False, owner = 0\<rparr>"

definition is_locked :: "BusLock \<Rightarrow> bool" where
  "is_locked b = locked b"

definition is_locked_by :: "u32 \<Rightarrow> BusLock \<Rightarrow> bool" where
  "is_locked_by hart_id b \<longleftrightarrow> locked b \<and> owner b = hart_id"

definition unlock :: "u32 \<Rightarrow> BusLock \<Rightarrow> BusLock" where
  "unlock hart_id b = (if locked b \<and> owner b = hart_id then b\<lparr>locked := False\<rparr> else b)"

text \<open>\<^verbatim>\<open>lock\<close> after its wait: the assertion and the two assignments.\<close>

definition lock_acquire :: "u32 \<Rightarrow> BusLock \<Rightarrow> error + BusLock" where
  "lock_acquire hart_id b =
     (if \<not> locked b \<or> hart_id = owner b then Inr (b\<lparr>locked := True, owner := hart_id\<rparr>)
      else Inl (AssertFail ''!locked || (hart_id == owner)''))"

definition lock_must_wait :: "u32 \<Rightarrow> BusLock \<Rightarrow> bool" where
  "lock_must_wait hart_id b \<longleftrightarrow> locked b \<and> hart_id \<noteq> owner b"

definition access_must_wait :: "u32 \<Rightarrow> BusLock \<Rightarrow> bool" where
  "access_must_wait hart_id b \<longleftrightarrow> is_locked b \<and> \<not> is_locked_by hart_id b"

section \<open>Interleaved harts\<close>

text \<open>
  The events of the harts that share the lock: \<open>Lock h\<close> is a completed \<^verbatim>\<open>lock(h)\<close>, \<open>Unlock h\<close> a call of
  \<^verbatim>\<open>unlock(h)\<close>, and \<open>Access h\<close> a memory access of \<open>h\<close> that \<^verbatim>\<open>wait_for_access_rights(h)\<close> let pass.
\<close>

datatype lock_event = Lock u32 | Unlock u32 | Access u32

primrec event_hart :: "lock_event \<Rightarrow> u32" where
    "event_hart (Lock h) = h"
  | "event_hart (Unlock h) = h"
  | "event_hart (Access h) = h"

inductive lock_step :: "BusLock \<Rightarrow> lock_event \<Rightarrow> BusLock \<Rightarrow> bool" where
    lock: "\<not> lock_must_wait h b \<Longrightarrow> lock_acquire h b = Inr b' \<Longrightarrow> lock_step b (Lock h) b'"
  | unlock: "lock_step b (Unlock h) (unlock h b)"
  | access: "\<not> access_must_wait h b \<Longrightarrow> lock_step b (Access h) b"

inductive lock_run :: "BusLock \<Rightarrow> lock_event list \<Rightarrow> BusLock \<Rightarrow> bool" where
    nil: "lock_run b [] b"
  | cons: "lock_step b e b' \<Longrightarrow> lock_run b' es b'' \<Longrightarrow> lock_run b (e # es) b''"

inductive_cases lock_stepE: "lock_step b e b'"
inductive_cases lock_run_consE: "lock_run b (e # es) b'"
inductive_cases lock_run_nilE: "lock_run b [] b'"

lemmas lock_defs = is_locked_def is_locked_by_def unlock_def lock_acquire_def lock_must_wait_def
  access_must_wait_def

text \<open>A call that does not have to wait never fails its assertion.\<close>

lemma lock_acquire_ok: "\<not> lock_must_wait h b \<Longrightarrow> \<exists>b'. lock_acquire h b = Inr b' \<and> is_locked_by h b'"
  by (auto simp: lock_defs)

lemma held_step:
  assumes "lock_step b e b'" and "is_locked_by h b" and "e \<noteq> Unlock h"
  shows "is_locked_by h b'" and "(\<exists>g. e = Unlock g) \<or> event_hart e = h"
  using assms by (auto elim!: lock_stepE simp: lock_defs split: if_splits)

lemma held_run:
  assumes "lock_run b es b'" and "is_locked_by h b" and "Unlock h \<notin> set es"
  shows "is_locked_by h b' \<and> (\<forall>e \<in> set es. (\<exists>g. e = Unlock g) \<or> event_hart e = h)"
  using assms
proof (induction rule: lock_run.induct)
  case (cons b e b1 es b2)
  then have e: "e \<noteq> Unlock h" and es: "Unlock h \<notin> set es" by auto
  from cons held_step [OF cons.hyps(1) cons.prems(1) e] es show ?case by auto
qed simp

text \<open>
  C19: Exclusion of the bus: once a hart holds the lock, then until it releases it every
  memory access and every lock acquisition in any interleaving is its own; calls of \<open>unlock\<close> by
  other harts have no effect.
\<close>

theorem bus_lock_exclusive:
  assumes "lock_run b (Lock h # es) b'" and "Unlock h \<notin> set es"
  shows "is_locked_by h b' \<and> (\<forall>e \<in> set es. (\<exists>g. e = Unlock g) \<or> event_hart e = h)"
  using assms
  by (elim lock_run_consE lock_stepE) (auto dest: lock_acquire_ok held_run simp: lock_defs)

theorem bus_lock_exclusive_witness:
  "lock_run BusLock_init [Lock 1, Unlock 2, Access 1] \<lparr>locked = True, owner = 1\<rparr> \<and>
   is_locked_by 1 \<lparr>locked = True, owner = 1\<rparr>"
proof -
  have run: "lock_run BusLock_init (Lock 1 # [Unlock 2, Access 1]) \<lparr>locked = True, owner = 1\<rparr>"
  proof (rule lock_run.cons, rule lock_step.lock)
    show "lock_acquire 1 BusLock_init = Inr \<lparr>locked = True, owner = 1\<rparr>"
      by (simp add: lock_defs BusLock_init_def)
    show "lock_run \<lparr>locked = True, owner = 1\<rparr> [Unlock 2, Access 1] \<lparr>locked = True, owner = 1\<rparr>"
      using lock_step.unlock [of "\<lparr>locked = True, owner = 1\<rparr>" 2]
      by (auto simp: lock_defs intro!: lock_run.intros lock_step.access)
  qed (simp add: lock_defs BusLock_init_def)
  with bus_lock_exclusive [OF run] show ?thesis by simp
qed

end
