(* ===== verification/Mem_Port.thy ===== *)
theory Mem_Port
  imports Iss Bus_Lock
begin

text \<open>
  The lower half of the hart's memory interface (\<^verbatim>\<open>CombinedMemoryInterface\<close> of \<^verbatim>\<open>core/rv32/mem.h\<close>):
  bus transactions, direct memory access (\<^verbatim>\<open>core/common/dmi.h\<close>) and the loads and stores of concrete
  data that instruction fetch and page table walks use. The record \<open>mem_world\<close> is the state behind
  the interface: the shared bus lock, the reservation address, the address-translation cache and
  the devices. What the interface calls outside the repository's C++ code is in \<open>mem_env\<close>: the
  TLM socket \<^verbatim>\<open>b_transport\<close>, the suspension of the calling process until the bus is unlocked, and
  the identity of shared pointers. The accounting of simulated time is not modelled.
\<close>

section \<open>State and environment\<close>

datatype tlm_command = TLM_READ_COMMAND | TLM_WRITE_COMMAND | TLM_IGNORE_COMMAND

record 'v payload =
  p_command :: tlm_command
  p_address :: u64
  p_data :: "u8 list"
  p_error :: bool
  p_extension :: "'v option"

record tlb_entry_t =
  tlb_ppn :: u64
  tlb_vpn :: u64

record ('v, 'd) mem_world =
  w_bus_lock :: BusLock
  w_lr_addr :: "'v option"
  w_tlb :: "nat \<Rightarrow> nat \<Rightarrow> nat \<Rightarrow> tlb_entry_t"
  w_devices :: 'd

type_synonym ('v, 'e, 'd) mhart = "('v, 'e, ('v, 'd) mem_world) hart"
type_synonym ('v, 'e, 'd, 'a) mem = "(('v, 'e, 'd) mhart, 'a) smonad"

record 'd MemoryDMI =
  dmi_start :: u64
  dmi_end :: u64
  dmi_get :: "'d \<Rightarrow> u64 \<Rightarrow> u8"
  dmi_put :: "u64 \<Rightarrow> u8 \<Rightarrow> 'd \<Rightarrow> 'd"

record ('v, 'e, 'd) mem_env =
  b_transport :: "'v payload \<Rightarrow> ('v, 'e, 'd, 'v payload) mem"
  wait_lock_event :: "('v, 'e, 'd, unit) mem"
  same_object :: "'v \<Rightarrow> 'v option \<Rightarrow> bool"
  dmi_ranges :: "'d MemoryDMI list"
  has_mmu :: bool
  page_fault_on_AD :: bool

definition upd_world ::
  "(('v, 'd) mem_world \<Rightarrow> ('v, 'd) mem_world) \<Rightarrow> ('v, 'e, 'd, unit) mem" where
  "upd_world f = modify_m (\<lambda>h. h\<lparr>h_world := f (h_world h)\<rparr>)"

definition hart_id :: "('v, 'e, 'd) mhart \<Rightarrow> u32" where
  "hart_id h = mhartid_reg (h_csrs h)"

section \<open>The bus lock as seen by a hart\<close>

definition wait_for_access_rights :: "('v, 'e, 'd) mem_env \<Rightarrow> ('v, 'e, 'd, unit) mem" where
  "wait_for_access_rights env = bind_m (gets_m (\<lambda>h. h)) (\<lambda>h.
     when_m (access_must_wait (hart_id h) (w_bus_lock (h_world h))) (wait_lock_event env))"

definition bus_lock_lock :: "('v, 'e, 'd) mem_env \<Rightarrow> ('v, 'e, 'd, unit) mem" where
  "bus_lock_lock env =
     then_m (bind_m (gets_m (\<lambda>h. h)) (\<lambda>h.
        when_m (lock_must_wait (hart_id h) (w_bus_lock (h_world h))) (wait_lock_event env)))
     (bind_m (gets_m (\<lambda>h. h)) (\<lambda>h.
        bind_m (lift_sum (lock_acquire (hart_id h) (w_bus_lock (h_world h)))) (\<lambda>b.
          upd_world (\<lambda>w. w\<lparr>w_bus_lock := b\<rparr>))))"

definition bus_is_locked :: "('v, 'e, 'd, bool) mem" where
  "bus_is_locked = gets_m (\<lambda>h. is_locked_by (hart_id h) (w_bus_lock (h_world h)))"

definition mem_atomic_unlock :: "('v, 'e, 'd, unit) mem" where
  "mem_atomic_unlock = bind_m (gets_m hart_id) (\<lambda>i.
     upd_world (\<lambda>w. w\<lparr>w_bus_lock := unlock i (w_bus_lock w)\<rparr>))"

section \<open>Transactions\<close>

definition do_transaction :: "('v, 'e, 'd) mem_env \<Rightarrow> 'v payload \<Rightarrow> ('v, 'e, 'd, 'v payload) mem" where
  "do_transaction env tr = bind_m (b_transport env tr) (\<lambda>t.
     if p_error t then
       (case p_command t of
          TLM_READ_COMMAND \<Rightarrow> raise_trap EXC_LOAD_PAGE_FAULT (p_address t)
        | TLM_WRITE_COMMAND \<Rightarrow> raise_trap EXC_STORE_AMO_PAGE_FAULT (p_address t)
        | TLM_IGNORE_COMMAND \<Rightarrow> throw_m (RuntimeError ''TLM command must be read or write''))
     else return_m t)"

definition concolic_read :: "('v, 'e) clover \<Rightarrow> ('v, 'e, 'd) mem_env \<Rightarrow> u64 \<Rightarrow> nat \<Rightarrow> ('v, 'e, 'd, 'v) mem" where
  "concolic_read cv env addr num_bytes =
     bind_m (do_transaction env \<lparr>p_command = TLM_READ_COMMAND, p_address = addr,
        p_data = replicate num_bytes 0, p_error = False, p_extension = None\<rparr>) (\<lambda>t.
       return_m (case p_extension t of Some v \<Rightarrow> v | None \<Rightarrow> BVC_bytes cv (p_data t)))"

definition concolic_write ::
  "('v, 'e) clover \<Rightarrow> ('v, 'e, 'd) mem_env \<Rightarrow> u64 \<Rightarrow> 'v \<Rightarrow> nat \<Rightarrow> ('v, 'e, 'd, unit) mem" where
  "concolic_write cv env addr data num_bytes =
     then_m (do_transaction env \<lparr>p_command = TLM_WRITE_COMMAND, p_address = addr,
        p_data = BVCToBytes cv data num_bytes, p_error = False, p_extension = Some data\<rparr>)
       (return_m ())"

definition concrete_read :: "('v, 'e, 'd) mem_env \<Rightarrow> u64 \<Rightarrow> nat \<Rightarrow> ('v, 'e, 'd, u8 list) mem" where
  "concrete_read env addr num_bytes =
     bind_m (do_transaction env \<lparr>p_command = TLM_READ_COMMAND, p_address = addr,
        p_data = replicate num_bytes 0, p_error = False, p_extension = None\<rparr>) (\<lambda>t.
       return_m (p_data t))"

definition concrete_write :: "('v, 'e, 'd) mem_env \<Rightarrow> u64 \<Rightarrow> u8 list \<Rightarrow> ('v, 'e, 'd, unit) mem" where
  "concrete_write env addr bytes =
     then_m (do_transaction env \<lparr>p_command = TLM_WRITE_COMMAND, p_address = addr,
        p_data = bytes, p_error = False, p_extension = None\<rparr>) (return_m ())"

section \<open>Direct memory access\<close>

definition dmi_contains :: "'d MemoryDMI \<Rightarrow> u64 \<Rightarrow> bool" where
  "dmi_contains r addr \<longleftrightarrow> dmi_start r \<le> addr \<and> addr < dmi_end r"

definition dmi_check :: "'d MemoryDMI \<Rightarrow> u64 \<Rightarrow> nat \<Rightarrow> ('v, 'e, 'd, unit) mem" where
  "dmi_check r addr n = then_m (assert_m ''contains(addr)'' (dmi_contains r addr))
     (assert_m ''(addr + sizeof(T)) <= end'' (addr + word_of_nat n \<le> dmi_end r))"

definition dmi_load :: "'d MemoryDMI \<Rightarrow> u64 \<Rightarrow> nat \<Rightarrow> ('v, 'e, 'd, u8 list) mem" where
  "dmi_load r addr n = then_m (dmi_check r addr n)
     (gets_m (\<lambda>h. map (\<lambda>i. dmi_get r (w_devices (h_world h)) (addr - dmi_start r + word_of_nat i)) [0..<n]))"

definition dmi_write_bytes :: "'d MemoryDMI \<Rightarrow> u64 \<Rightarrow> u8 list \<Rightarrow> 'd \<Rightarrow> 'd" where
  "dmi_write_bytes r off bytes d =
     fold (\<lambda>(i, b). dmi_put r (off + word_of_nat i) b) (zip [0..<length bytes] bytes) d"

definition dmi_store :: "'d MemoryDMI \<Rightarrow> u64 \<Rightarrow> u8 list \<Rightarrow> ('v, 'e, 'd, unit) mem" where
  "dmi_store r addr bytes = then_m (dmi_check r addr (length bytes))
     (upd_world (\<lambda>w. w\<lparr>w_devices := dmi_write_bytes r (addr - dmi_start r) bytes (w_devices w)\<rparr>))"

fun dmi_store_all :: "'d MemoryDMI list \<Rightarrow> u64 \<Rightarrow> u8 list \<Rightarrow> ('v, 'e, 'd, bool) mem" where
    "dmi_store_all [] addr bytes = return_m False"
  | "dmi_store_all (r # rs) addr bytes =
       (if dmi_contains r addr
        then then_m (dmi_store r addr bytes) (then_m (dmi_store_all rs addr bytes) (return_m True))
        else dmi_store_all rs addr bytes)"

section \<open>Concrete data\<close>

definition concrete_load_data :: "('v, 'e, 'd) mem_env \<Rightarrow> u64 \<Rightarrow> nat \<Rightarrow> ('v, 'e, 'd, u8 list) mem" where
  "concrete_load_data env addr n = then_m (wait_for_access_rights env)
     (case find (\<lambda>r. dmi_contains r addr) (dmi_ranges env) of
        Some r \<Rightarrow> dmi_load r addr n
      | None \<Rightarrow> concrete_read env addr n)"

definition concrete_store_data :: "('v, 'e, 'd) mem_env \<Rightarrow> u64 \<Rightarrow> u8 list \<Rightarrow> ('v, 'e, 'd, unit) mem" where
  "concrete_store_data env addr bytes = then_m (wait_for_access_rights env)
     (bind_m (dmi_store_all (dmi_ranges env) addr bytes) (\<lambda>stored.
       then_m (when_m (\<not> stored) (concrete_write env addr bytes)) mem_atomic_unlock))"

definition bytes_to_u32 :: "u8 list \<Rightarrow> u32" where
  "bytes_to_u32 bs = word_of_nat (bytes_to_nat bs)"

definition u32_to_bytes :: "u32 \<Rightarrow> u8 list" where
  "u32_to_bytes v = nat_to_bytes 4 (unat v)"

definition mmu_load_pte64 :: "('v, 'e, 'd) mem_env \<Rightarrow> u64 \<Rightarrow> ('v, 'e, 'd, u64) mem" where
  "mmu_load_pte64 env addr =
     bind_m (concrete_load_data env addr 8) (\<lambda>bs. return_m (word_of_nat (bytes_to_nat bs)))"

definition mmu_load_pte32 :: "('v, 'e, 'd) mem_env \<Rightarrow> u64 \<Rightarrow> ('v, 'e, 'd, u64) mem" where
  "mmu_load_pte32 env addr =
     bind_m (concrete_load_data env addr 4) (\<lambda>bs. return_m (ucast (bytes_to_u32 bs)))"

definition mmu_store_pte32 :: "('v, 'e, 'd) mem_env \<Rightarrow> u64 \<Rightarrow> u32 \<Rightarrow> ('v, 'e, 'd, unit) mem" where
  "mmu_store_pte32 env addr value = concrete_store_data env addr (u32_to_bytes value)"

end
