(* ===== verification/Bus.thy ===== *)
theory Bus
  imports Mem_Port
begin

text \<open>
  The system bus (\<^verbatim>\<open>SimpleBus\<close>, \<^verbatim>\<open>PortMapping\<close> and \<^verbatim>\<open>PeripheralWriteConnector\<close> of
  \<^verbatim>\<open>platform/common/bus.h\<close>) and the two memories attached to it: \<^verbatim>\<open>SimpleMemory\<close>
  (\<^verbatim>\<open>platform/common/memory.h\<close>) with concrete bytes and \<^verbatim>\<open>SymbolicMemory\<close> (\<^verbatim>\<open>symex/symbolic_memory.cpp\<close>)
  with concolic data in a clover \<^verbatim>\<open>ConcolicMemory\<close>. A TLM target is a function on the payload and the
  simulation state. The delays added to a transaction are not modelled.
\<close>

section \<open>PortMapping\<close>

record PortMapping =
  port_start :: u64
  port_end :: u64

definition PortMapping_make :: "u64 \<Rightarrow> u64 \<Rightarrow> error + PortMapping" where
  "PortMapping_make s e =
     (if e \<ge> s then Inr \<lparr>port_start = s, port_end = e\<rparr> else Inl (AssertFail ''end >= start''))"

definition port_contains :: "PortMapping \<Rightarrow> u64 \<Rightarrow> bool" where
  "port_contains p addr \<longleftrightarrow> port_start p \<le> addr \<and> addr \<le> port_end p"

definition global_to_local :: "PortMapping \<Rightarrow> u64 \<Rightarrow> u64" where
  "global_to_local p addr = addr - port_start p"

section \<open>SimpleBus\<close>

type_synonym ('v, 's) target = "'v payload \<Rightarrow> ('s, 'v payload) smonad"

fun bus_decode_from :: "nat \<Rightarrow> PortMapping list \<Rightarrow> u64 \<Rightarrow> int" where
    "bus_decode_from i [] addr = - 1"
  | "bus_decode_from i (p # ps) addr =
       (if port_contains p addr then int i else bus_decode_from (Suc i) ps addr)"

definition bus_decode :: "PortMapping list \<Rightarrow> u64 \<Rightarrow> int" where
  "bus_decode ports addr = bus_decode_from 0 ports addr"

definition bus_transport :: "PortMapping list \<Rightarrow> ('v, 's) target list \<Rightarrow> ('v, 's) target" where
  "bus_transport ports isocks t =
     (let i = bus_decode ports (p_address t) in
      if i < 0 then return_m (t\<lparr>p_error := True\<rparr>)
      else (isocks ! nat i) (t\<lparr>p_address := global_to_local (ports ! nat i) (p_address t)\<rparr>))"

text \<open>
  Debug accesses return the number of bytes transferred as well. A socket without a callback for
  them transfers none.
\<close>

type_synonym ('v, 's) dbg_target = "'v payload \<Rightarrow> ('s, nat \<times> 'v payload) smonad"

definition bus_transport_dbg :: "PortMapping list \<Rightarrow> ('v, 's) dbg_target list \<Rightarrow> ('v, 's) dbg_target" where
  "bus_transport_dbg ports isocks t =
     (let i = bus_decode ports (p_address t) in
      if i < 0 then return_m (0, t\<lparr>p_error := True\<rparr>)
      else (isocks ! nat i) (t\<lparr>p_address := global_to_local (ports ! nat i) (p_address t)\<rparr>))"

definition no_debug_access :: "('v, 's) dbg_target" where
  "no_debug_access t = return_m (0, t)"

definition write_connector_transport ::
  "('s, unit) smonad \<Rightarrow> ('v, 's) target \<Rightarrow> ('v, 's) target" where
  "write_connector_transport wait_until_unlocked isock t = then_m wait_until_unlocked
     (bind_m (isock t) (\<lambda>r.
       if p_error r then throw_m (RuntimeError
         (''unable to find target port for address '' @ to_string (p_address r)))
       else return_m r))"

section \<open>SimpleMemory\<close>

record SimpleMemory =
  sm_data :: "u8 list"
  sm_size :: u32

definition SimpleMemory_make :: "u32 \<Rightarrow> SimpleMemory" where
  "SimpleMemory_make sz = \<lparr>sm_data = replicate (unat sz) 0, sm_size = sz\<rparr>"

definition list_write :: "nat \<Rightarrow> 'b list \<Rightarrow> 'b list \<Rightarrow> 'b list" where
  "list_write addr bs xs = take addr xs @ bs @ drop (addr + length bs) xs"

text \<open>
  \<^verbatim>\<open>memcpy\<close> from the byte array; past its end, which the assertions of the callers exclude, the copy is
  padded with zeros.
\<close>

definition mem_read :: "nat \<Rightarrow> nat \<Rightarrow> u8 list \<Rightarrow> u8 list" where
  "mem_read a n mem = take n (drop a mem @ replicate n 0)"

lemma length_mem_read [simp]: "length (mem_read a n mem) = n"
  by (simp add: mem_read_def)

definition sm_write_data :: "u32 \<Rightarrow> u8 list \<Rightarrow> (SimpleMemory, unit) smonad" where
  "sm_write_data addr src = bind_m (gets_m sm_size) (\<lambda>n.
     then_m (assert_m ''addr + num_bytes <= size'' (addr + word_of_nat (length src) \<le> n))
       (modify_m (\<lambda>m. m\<lparr>sm_data := list_write (unat addr) src (sm_data m)\<rparr>)))"

definition sm_read_data :: "u32 \<Rightarrow> nat \<Rightarrow> (SimpleMemory, u8 list) smonad" where
  "sm_read_data addr num_bytes = bind_m (gets_m (\<lambda>m. m)) (\<lambda>m.
     then_m (assert_m ''addr + num_bytes <= size'' (addr + word_of_nat num_bytes \<le> sm_size m))
       (return_m (mem_read (unat addr) num_bytes (sm_data m))))"

definition sm_load_data :: "u8 list \<Rightarrow> u64 \<Rightarrow> (SimpleMemory, unit) smonad" where
  "sm_load_data src dst_addr = bind_m (gets_m sm_size) (\<lambda>n.
     then_m (assert_m ''dst_addr + n <= size'' (dst_addr + word_of_nat (length src) \<le> ucast n))
       (modify_m (\<lambda>m. m\<lparr>sm_data := list_write (unat dst_addr) src (sm_data m)\<rparr>)))"

definition sm_load_zero :: "u64 \<Rightarrow> nat \<Rightarrow> (SimpleMemory, unit) smonad" where
  "sm_load_zero dst_addr n = sm_load_data (replicate n 0) dst_addr"

text \<open>The contents of the file are an argument; a file that cannot be mapped is an exception of the library.\<close>

definition sm_load_binary_file :: "u8 list option \<Rightarrow> u32 \<Rightarrow> (SimpleMemory, unit) smonad" where
  "sm_load_binary_file file addr = (case file of
     None \<Rightarrow> throw_m (RuntimeError ''mapped_file_source'')
   | Some bs \<Rightarrow> sm_write_data addr bs)"

definition sm_transport_dbg :: "('v, SimpleMemory) target" where
  "sm_transport_dbg t = bind_m (gets_m sm_size) (\<lambda>sz.
     let addr = ucast (p_address t) :: u32 in
     then_m (assert_m ''addr < size'' (addr < sz))
      (case p_command t of
         TLM_WRITE_COMMAND \<Rightarrow> then_m (sm_write_data addr (p_data t)) (return_m t)
       | TLM_READ_COMMAND \<Rightarrow> bind_m (sm_read_data addr (length (p_data t))) (\<lambda>bs.
           return_m (t\<lparr>p_data := bs\<rparr>))
       | TLM_IGNORE_COMMAND \<Rightarrow> throw_m (AssertFail ''unsupported tlm command'')))"

definition sm_debug :: "('v, SimpleMemory) dbg_target" where
  "sm_debug t = bind_m (sm_transport_dbg t) (\<lambda>t'. return_m (length (p_data t'), t'))"

record tlm_dmi =
  dmi_start_address :: u64
  dmi_end_address :: u64
  dmi_ptr :: "u8 list"
  dmi_allow_write :: bool

definition get_direct_mem_ptr :: "bool \<Rightarrow> SimpleMemory \<Rightarrow> bool \<times> tlm_dmi" where
  "get_direct_mem_ptr readonly m =
     (True, \<lparr>dmi_start_address = 0, dmi_end_address = ucast (sm_size m), dmi_ptr = sm_data m, dmi_allow_write = (\<not> readonly)\<rparr>)"

section \<open>SymbolicMemory\<close>

text \<open>The operations of \<^verbatim>\<open>clover::ConcolicMemory\<close> the memory calls.\<close>

record ('v, 'c) concolic_memory =
  cm_load :: "'c \<Rightarrow> u64 \<Rightarrow> nat \<Rightarrow> 'v"
  cm_store :: "u64 \<Rightarrow> 'v \<Rightarrow> nat \<Rightarrow> 'c \<Rightarrow> 'c"

record 'c SymbolicMemory =
  sym_size :: u64
  sym_memory :: 'c

definition sym_load_data ::
  "(u8 \<Rightarrow> 'v) \<Rightarrow> ('v, 'c) concolic_memory \<Rightarrow> u8 list \<Rightarrow> u64 \<Rightarrow> 'c SymbolicMemory \<Rightarrow> 'c SymbolicMemory" where
  "sym_load_data BVC8 cm src dst_addr m = m\<lparr>sym_memory :=
     fold (\<lambda>(i, b). cm_store cm (dst_addr + word_of_nat i) (BVC8 b) 1)
       (zip [0..<length src] src) (sym_memory m)\<rparr>"

definition sym_load_zero ::
  "(u8 \<Rightarrow> 'v) \<Rightarrow> ('v, 'c) concolic_memory \<Rightarrow> u64 \<Rightarrow> nat \<Rightarrow> 'c SymbolicMemory \<Rightarrow> 'c SymbolicMemory" where
  "sym_load_zero BVC8 cm dst_addr n m = m\<lparr>sym_memory :=
     fold (\<lambda>i. cm_store cm (dst_addr + word_of_nat i) (BVC8 0) 1) [0..<n] (sym_memory m)\<rparr>"

definition sym_read_data ::
  "('v, 'e) clover \<Rightarrow> ('v, 'c) concolic_memory \<Rightarrow> ('v, 'c SymbolicMemory) target" where
  "sym_read_data cv cm t = gets_m (\<lambda>m.
     let v = cm_load cm (sym_memory m) (p_address t) (length (p_data t)) in
     t\<lparr>p_data := BVCToBytes cv v (length (p_data t)), p_extension := Some v\<rparr>)"

definition sym_write_data ::
  "('v, 'e) clover \<Rightarrow> ('v, 'c) concolic_memory \<Rightarrow> ('v, 'c SymbolicMemory) target" where
  "sym_write_data cv cm t =
     (let v = (case p_extension t of Some v \<Rightarrow> v | None \<Rightarrow> BVC_bytes cv (p_data t)) in
      then_m (modify_m (\<lambda>m. m\<lparr>sym_memory := cm_store cm (p_address t) v (length (p_data t)) (sym_memory m)\<rparr>))
        (return_m t))"

definition sym_transport_dbg ::
  "('v, 'e) clover \<Rightarrow> ('v, 'c) concolic_memory \<Rightarrow> ('v, 'c SymbolicMemory) target" where
  "sym_transport_dbg cv cm t = bind_m (gets_m sym_size) (\<lambda>n.
     if p_address t + word_of_nat (length (p_data t)) > n then return_m (t\<lparr>p_error := True\<rparr>)
     else (case p_command t of
         TLM_READ_COMMAND \<Rightarrow> sym_read_data cv cm t
       | TLM_WRITE_COMMAND \<Rightarrow> sym_write_data cv cm t
       | TLM_IGNORE_COMMAND \<Rightarrow> return_m (t\<lparr>p_error := True\<rparr>)))"

definition sym_debug :: "('v, 'e) clover \<Rightarrow> ('v, 'c) concolic_memory \<Rightarrow> ('v, 'c SymbolicMemory) dbg_target" where
  "sym_debug cv cm t = bind_m (sym_transport_dbg cv cm t) (\<lambda>t'. return_m (if p_error t' then 0 else length (p_data t'), t'))"

section \<open>Routing\<close>

lemma bus_decode_from_spec:
  "bus_decode_from i ps addr = - 1 \<and> (\<forall>p \<in> set ps. \<not> port_contains p addr) \<or>
   (\<exists>j < length ps. bus_decode_from i ps addr = int (i + j) \<and> port_contains (ps ! j) addr \<and>
      (\<forall>l < j. \<not> port_contains (ps ! l) addr))"
proof (induction ps arbitrary: i)
  case (Cons p ps)
  show ?case
  proof (cases "port_contains p addr")
    case False
    with Cons [of "Suc i"] show ?thesis
    proof (elim disjE exE conjE)
      fix j assume j: "j < length ps" "bus_decode_from (Suc i) ps addr = int (Suc i + j)"
        "port_contains (ps ! j) addr" "\<forall>l < j. \<not> port_contains (ps ! l) addr"
      have "\<forall>l < Suc j. \<not> port_contains ((p # ps) ! l) addr"
        using False j(4) by (auto simp: nth_Cons split: nat.split)
      with False j show ?thesis by (intro disjI2 exI [of _ "Suc j"]) simp
    qed simp
  qed (intro disjI2 exI [of _ 0], simp)
qed simp

lemma bus_decode_spec:
  "bus_decode ports addr < 0 \<and> (\<forall>p \<in> set ports. \<not> port_contains p addr) \<or>
   (\<exists>j < length ports. bus_decode ports addr = int j \<and> port_contains (ports ! j) addr \<and>
      (\<forall>l < j. \<not> port_contains (ports ! l) addr))"
  using bus_decode_from_spec [of 0 ports addr] by (auto simp: bus_decode_def)

text \<open>The contract of clover's concolic memory: what was stored is what is loaded.\<close>

locale concolic_memory_laws =
  fixes cv :: "('v, 'e) clover"
    and ev :: "'a \<Rightarrow> 'v \<Rightarrow> nat"
    and cm :: "('v, 'c) concolic_memory"
  assumes load_width: "getWidth cv (cm_load cm c addr n) = 8 * n"
    and load_store: "n \<le> 4 \<Longrightarrow> 8 * n \<le> getWidth cv v \<Longrightarrow>
      ev a (cm_load cm (cm_store cm addr v n c) addr n) = take_bit (8 * n) (ev a v)"
begin

lemma write_then_read:
  assumes "n \<le> 4" and "8 * n \<le> getWidth cv v" and "addr + word_of_nat n \<le> sym_size m"
    and "sym_transport_dbg cv cm
      \<lparr>p_command = TLM_WRITE_COMMAND, p_address = addr, p_data = bs, p_error = False,
       p_extension = Some v\<rparr> m = (Inr w, m')"
    and "length bs = n" and "length zs = n"
    and "sym_transport_dbg cv cm
      \<lparr>p_command = TLM_READ_COMMAND, p_address = addr, p_data = zs, p_error = False,
       p_extension = None\<rparr> m' = (Inr r, m'')"
  shows "\<exists>u. p_extension r = Some u \<and> getWidth cv u = 8 * n \<and> \<not> p_error r \<and>
    (\<forall>a. ev a u = take_bit (8 * n) (ev a v))"
  using assms load_width load_store
  by (auto simp: sym_transport_dbg_def sym_write_data_def sym_read_data_def Let_def not_less [symmetric])

end

end
