(* ===== verification/Register_Range.thy ===== *)
theory Register_Range
  imports Bus
begin

text \<open>
  Memory-mapped registers of a peripheral (\<^verbatim>\<open>util/memory_map.h\<close>): a \<^verbatim>\<open>RegisterRange\<close> with its byte
  array, the integer and array views on it, the callbacks around a bus access, and \<^verbatim>\<open>vp::mm::route\<close>.
  A peripheral's ranges live in the simulation state \<open>'s\<close>; a \<open>range_port\<close> says where, and holds the
  four callbacks. The callbacks of the modelled peripherals use only the local address and the
  length of the access.
\<close>

section \<open>RegisterRange\<close>

record RegisterRange =
  rr_start :: u64
  rr_end :: u64
  rr_mem :: "u8 list"
  rr_readonly :: bool
  rr_alignment :: u64

definition RegisterRange_make :: "u64 \<Rightarrow> u64 \<Rightarrow> error + RegisterRange" where
  "RegisterRange_make start sz =
     (if \<not> sz > 0 then Inl (AssertFail ''size > 0'')
      else let e = start + sz - 1 in
        if \<not> e \<ge> start then Inl (AssertFail ''end >= start'')
        else Inr \<lparr>rr_start = start, rr_end = e, rr_mem = replicate (unat sz) 0, rr_readonly = False,
                  rr_alignment = 1\<rparr>)"

definition RegisterRange_make_start_end :: "u64 \<Rightarrow> u64 \<Rightarrow> error + RegisterRange" where
  "RegisterRange_make_start_end start e =
     (if \<not> e \<ge> start then Inl (AssertFail ''end >= start'') else RegisterRange_make start (e - start + 1))"

definition RegisterRange_make_start_size :: "u64 \<Rightarrow> u64 \<Rightarrow> error + RegisterRange" where
  "RegisterRange_make_start_size start sz =
     (if \<not> sz > 0 then Inl (AssertFail ''size > 0'') else RegisterRange_make start sz)"

definition RegisterRange_make_array :: "u64 \<Rightarrow> u64 \<Rightarrow> u64 \<Rightarrow> error + RegisterRange" where
  "RegisterRange_make_array sizeof_T start num_elems =
     (if \<not> num_elems > 0 then Inl (AssertFail ''num_elems > 0'') else RegisterRange_make start (sizeof_T * num_elems))"

definition rr_contains :: "RegisterRange \<Rightarrow> u64 \<Rightarrow> bool" where
  "rr_contains r addr \<longleftrightarrow> addr \<ge> rr_start r \<and> addr \<le> rr_end r"

definition rr_to_local :: "RegisterRange \<Rightarrow> u64 \<Rightarrow> u64" where
  "rr_to_local r addr = addr - rr_start r"

record 's range_port =
  rp_get :: "'s \<Rightarrow> RegisterRange"
  rp_mem_update :: "(u8 list \<Rightarrow> u8 list) \<Rightarrow> 's \<Rightarrow> 's"
  pre_write_callback :: "(u64 \<Rightarrow> nat \<Rightarrow> ('s, bool) smonad) option"
  post_write_callback :: "(u64 \<Rightarrow> nat \<Rightarrow> ('s, unit) smonad) option"
  pre_read_callback :: "(u64 \<Rightarrow> nat \<Rightarrow> ('s, bool) smonad) option"
  post_read_callback :: "(u64 \<Rightarrow> nat \<Rightarrow> ('s, unit) smonad) option"

definition pre_callback :: "(u64 \<Rightarrow> nat \<Rightarrow> ('s, bool) smonad) option \<Rightarrow> u64 \<Rightarrow> nat \<Rightarrow> ('s, bool) smonad" where
  "pre_callback cb addr len = (case cb of None \<Rightarrow> return_m True | Some f \<Rightarrow> f addr len)"

definition post_callback :: "(u64 \<Rightarrow> nat \<Rightarrow> ('s, unit) smonad) option \<Rightarrow> u64 \<Rightarrow> nat \<Rightarrow> ('s, unit) smonad" where
  "post_callback cb addr len = (case cb of None \<Rightarrow> return_m () | Some f \<Rightarrow> f addr len)"

definition rr_check :: "RegisterRange \<Rightarrow> u64 \<Rightarrow> nat \<Rightarrow> ('s, unit) smonad" where
  "rr_check r addr len =
     then_m (assert_m ''contains(addr)'' (rr_contains r addr))
       (assert_m ''local_addr + len <= mem.size()''
          (rr_to_local r addr + word_of_nat len \<le> word_of_nat (length (rr_mem r))))"

definition rr_write :: "'s range_port \<Rightarrow> u64 \<Rightarrow> u8 list \<Rightarrow> ('s, unit) smonad" where
  "rr_write p addr src = bind_m (gets_m (rp_get p)) (\<lambda>r.
     let local_addr = rr_to_local r addr; len = length src in
     then_m (rr_check r addr len)
      (bind_m (pre_callback (pre_write_callback p) local_addr len) (\<lambda>go.
        when_m go
         (then_m (modify_m (rp_mem_update p (list_write (unat local_addr) src)))
           (post_callback (post_write_callback p) local_addr len)))))"

definition rr_read :: "'s range_port \<Rightarrow> u64 \<Rightarrow> u8 list \<Rightarrow> ('s, u8 list) smonad" where
  "rr_read p addr dst = bind_m (gets_m (rp_get p)) (\<lambda>r.
     let local_addr = rr_to_local r addr; len = length dst in
     then_m (rr_check r addr len)
      (bind_m (pre_callback (pre_read_callback p) local_addr len) (\<lambda>go.
        if \<not> go then return_m dst
        else bind_m (gets_m (\<lambda>s. mem_read (unat local_addr) len (rr_mem (rp_get p s)))) (\<lambda>bs.
          then_m (post_callback (post_read_callback p) local_addr len) (return_m bs)))))"

definition ensure :: "bool \<Rightarrow> ('s, unit) smonad" where
  "ensure cond = (if cond then return_m () else throw_m (RuntimeError ''runtime assertion failed''))"

definition rr_process :: "'s range_port \<Rightarrow> ('v, 's) target" where
  "rr_process p t = bind_m (gets_m (rp_get p)) (\<lambda>r.
     then_m (ensure (p_address t mod rr_alignment r = 0 \<and>
               word_of_nat (length (p_data t)) mod rr_alignment r = 0))
      (case p_command t of
         TLM_READ_COMMAND \<Rightarrow> bind_m (rr_read p (p_address t) (p_data t)) (\<lambda>bs. return_m (t\<lparr>p_data := bs\<rparr>))
       | TLM_WRITE_COMMAND \<Rightarrow> then_m (ensure (\<not> rr_readonly r))
           (then_m (rr_write p (p_address t) (p_data t)) (return_m t))
       | TLM_IGNORE_COMMAND \<Rightarrow> throw_m (RuntimeError ''unsupported TLM command'')))"

fun rr_route :: "string \<Rightarrow> 's range_port list \<Rightarrow> ('v, 's) target" where
    "rr_route name [] t = throw_m (RuntimeError (name @ '' unable to route address '' @ to_string (p_address t)))"
  | "rr_route name (p # ps) t = bind_m (gets_m (rp_get p)) (\<lambda>r.
       if rr_contains r (p_address t) then rr_process p t else rr_route name ps t)"

section \<open>Views\<close>

definition view_read :: "nat \<Rightarrow> nat \<Rightarrow> u8 list \<Rightarrow> nat" where
  "view_read sz idx mem = bytes_to_nat (take sz (drop (idx * sz) mem))"

definition view_write :: "nat \<Rightarrow> nat \<Rightarrow> nat \<Rightarrow> u8 list \<Rightarrow> u8 list" where
  "view_write sz idx v mem = list_write (idx * sz) (nat_to_bytes sz v) mem"

definition IntegerView_read :: "RegisterRange \<Rightarrow> u64" where
  "IntegerView_read r = word_of_nat (view_read 8 0 (rr_mem r))"

definition IntegerView_write :: "u64 \<Rightarrow> u8 list \<Rightarrow> u8 list" where
  "IntegerView_write value = view_write 8 0 (unat value)"

definition ArrayView_size :: "nat \<Rightarrow> RegisterRange \<Rightarrow> nat" where
  "ArrayView_size sz r = length (rr_mem r) div sz"

definition ArrayView_index :: "nat \<Rightarrow> RegisterRange \<Rightarrow> nat \<Rightarrow> ('s, nat) smonad" where
  "ArrayView_index sz r idx = then_m (assert_m ''idx < size'' (idx < ArrayView_size sz r))
     (return_m (view_read sz idx (rr_mem r)))"

text \<open>The checks of the constructors; the byte array of a range is aligned for every integer type.\<close>

definition IntegerView_check :: "nat \<Rightarrow> RegisterRange \<Rightarrow> error + unit" where
  "IntegerView_check sz r = (if \<not> length (rr_mem r) \<ge> sz then Inl (AssertFail ''r.mem.size() >= sizeof(T)'') else Inr ())"

definition ArrayView_check :: "nat \<Rightarrow> RegisterRange \<Rightarrow> error + unit" where
  "ArrayView_check sz r =
     (if length (rr_mem r) mod sz \<noteq> 0 then Inl (AssertFail ''r.mem.size() % sizeof(T) == 0'')
      else if \<not> ArrayView_size sz r > 0 then Inl (AssertFail ''size > 0'') else Inr ())"

text \<open>The element at a row, without a check of the index, and the elements a range-based loop visits.\<close>

definition ArrayView_row :: "nat \<Rightarrow> nat \<Rightarrow> RegisterRange \<Rightarrow> nat \<Rightarrow> nat \<Rightarrow> nat" where
  "ArrayView_row sz RowSize r idx row_idx = view_read sz (idx * RowSize + row_idx) (rr_mem r)"

definition ArrayView_range :: "nat \<Rightarrow> RegisterRange \<Rightarrow> nat list" where
  "ArrayView_range sz r = map (\<lambda>i. view_read sz i (rr_mem r)) [0..<ArrayView_size sz r - 1]"

section \<open>Bytes and numbers\<close>

lemma length_nat_to_bytes [simp]: "length (nat_to_bytes k n) = k"
  by (simp add: nat_to_bytes_def)

lemma nat_to_bytes_Suc: "nat_to_bytes (Suc k) n = word_of_nat n # nat_to_bytes k (n div 256)"
proof -
  have "drop_bit (8 * Suc i) n = drop_bit (8 * i) (n div 256)" for i
    by (simp add: drop_bit_eq_div power_add div_mult2_eq mult.commute)
  then show ?thesis
    by (simp add: nat_to_bytes_def upt_conv_Cons map_Suc_upt [symmetric] comp_def del: upt_Suc)
qed

lemma bytes_to_nat_Cons: "bytes_to_nat (b # bs) = unat b + 256 * bytes_to_nat bs"
  by (simp add: bytes_to_nat_def)

lemma bytes_roundtrip: "bytes_to_nat (nat_to_bytes k n) = n mod 2 ^ (8 * k)"
proof (induction k arbitrary: n)
  case 0
  then show ?case by (simp add: nat_to_bytes_def bytes_to_nat_def)
next
  case (Suc k)
  have "n mod (256 * 2 ^ (8 * k)) = n mod 256 + 256 * (n div 256 mod 2 ^ (8 * k))"
    by (simp add: mod_mult2_eq)
  then show ?case
    by (simp add: nat_to_bytes_Suc bytes_to_nat_Cons Suc power_add unat_of_nat)
qed

lemma nat_bytes_roundtrip: "nat_to_bytes (length bs) (bytes_to_nat bs) = bs"
proof (induction bs)
  case (Cons b bs)
  have "unat b < 256" using unsigned_less [of b] by simp
  then have "(unat b + 256 * bytes_to_nat bs) div 256 = bytes_to_nat bs"
    by simp
  moreover have "word_of_nat (unat b + 256 * bytes_to_nat bs) = b"
  proof -
    have "(256 :: u8) = 0" by simp
    then have "256 * (word_of_nat (bytes_to_nat bs) :: u8) = 0" by (simp only: mult_zero_left)
    then show ?thesis by simp
  qed
  ultimately show ?case by (simp add: nat_to_bytes_Suc bytes_to_nat_Cons Cons)
qed (simp add: nat_to_bytes_def bytes_to_nat_def)

lemma length_list_write [simp]: "addr + length bs \<le> length xs \<Longrightarrow> length (list_write addr bs xs) = length xs"
  by (simp add: list_write_def)

lemma list_write_read:
  "addr + length bs \<le> length xs \<Longrightarrow> take (length bs) (drop addr (list_write addr bs xs)) = bs"
  by (simp add: list_write_def)

lemma list_write_read_other:
  assumes "addr + length bs \<le> length xs" and "i + n \<le> addr \<or> addr + length bs \<le> i"
  shows "take n (drop i (list_write addr bs xs)) = take n (drop i xs)"
proof (cases "i + n \<le> addr")
  case True
  with assms(1) show ?thesis
    by (simp add: list_write_def drop_take min_absorb1)
next
  case False
  with assms show ?thesis by (simp add: list_write_def)
qed

lemma mem_read_inside: "a + n \<le> length mem \<Longrightarrow> mem_read a n mem = take n (drop a mem)"
  by (simp add: mem_read_def)

lemma view_write_read:
  "Suc idx * sz \<le> length mem \<Longrightarrow> view_read sz idx (view_write sz idx v mem) = v mod 2 ^ (8 * sz)"
  using list_write_read [of "idx * sz" "nat_to_bytes sz v" mem]
  by (simp add: view_read_def view_write_def bytes_roundtrip)

end
