(* ===== verification/Clint.thy ===== *)
theory Clint
  imports Register_Range
begin

text \<open>
  The core-local interruptor (\<^verbatim>\<open>core/common/clint.h\<close>): the timer and software interrupt registers, the
  transport function with its callbacks, and one iteration of the \<^verbatim>\<open>run\<close> thread. Where the CLINT lives
  in the simulation state, the simulation time, the delay of the transaction and the interrupt
  lines of the harts are the record \<open>clint_env\<close>. The event \<^verbatim>\<open>irq_event\<close> is the time of its pending
  notification, if any.
\<close>

section \<open>State\<close>

record CLINT =
  regs_mtime :: RegisterRange
  regs_mtimecmp :: RegisterRange
  regs_msip :: RegisterRange
  irq_event :: "u64 option"

definition aligned_range :: "u64 \<Rightarrow> nat \<Rightarrow> RegisterRange" where
  "aligned_range start n = \<lparr>rr_start = start, rr_end = start + word_of_nat n - 1,
     rr_mem = replicate n 0, rr_readonly = False, rr_alignment = 4\<rparr>"

definition CLINT_make :: "nat \<Rightarrow> CLINT" where
  "CLINT_make NumberOfCores = \<lparr>regs_mtime = aligned_range 0xBFF8 8,
     regs_mtimecmp = aligned_range 0x4000 (8 * NumberOfCores),
     regs_msip = aligned_range 0 (4 * NumberOfCores), irq_event = None\<rparr>"

record 's clint_env =
  ce_get :: "'s \<Rightarrow> CLINT"
  ce_update :: "(CLINT \<Rightarrow> CLINT) \<Rightarrow> 's \<Rightarrow> 's"
  sc_time_stamp :: "'s \<Rightarrow> u64"
  trans_delay :: "'s \<Rightarrow> u64"
  ce_trigger_timer_interrupt :: "nat \<Rightarrow> bool \<Rightarrow> ('s, unit) smonad"
  ce_trigger_software_interrupt :: "nat \<Rightarrow> bool \<Rightarrow> ('s, unit) smonad"

abbreviation (input) scaler :: u64 where "scaler \<equiv> 1000000"

definition mtime :: "CLINT \<Rightarrow> u64" where
  "mtime c = IntegerView_read (regs_mtime c)"

definition write_mtime :: "u64 \<Rightarrow> CLINT \<Rightarrow> CLINT" where
  "write_mtime v = regs_mtime_update (rr_mem_update (IntegerView_write v))"

text \<open>
  \<^verbatim>\<open>sc_event::notify\<close> keeps the earlier of the pending and the new notification.
\<close>

definition event_notify :: "u64 \<Rightarrow> u64 option \<Rightarrow> u64 option" where
  "event_notify t ev = (case ev of None \<Rightarrow> Some t | Some t' \<Rightarrow> Some (min t t'))"

section \<open>Operations\<close>

definition clint_update_and_get_mtime :: "'s clint_env \<Rightarrow> ('s, u64) smonad" where
  "clint_update_and_get_mtime e = bind_m (gets_m (\<lambda>s. sc_time_stamp e s div scaler)) (\<lambda>now.
     then_m (modify_m (ce_update e (\<lambda>c. if now > mtime c then write_mtime now c else c)))
       (gets_m (\<lambda>s. mtime (ce_get e s))))"

definition clint_run_hart :: "'s clint_env \<Rightarrow> nat \<Rightarrow> ('s, unit) smonad" where
  "clint_run_hart e i = bind_m (gets_m (ce_get e)) (\<lambda>c.
     bind_m (ArrayView_index 8 (regs_mtimecmp c) i) (\<lambda>n.
       let cmp = word_of_nat n in
       if cmp > 0 \<and> mtime c \<ge> cmp then ce_trigger_timer_interrupt e i True
       else then_m (ce_trigger_timer_interrupt e i False)
         (when_m (cmp > 0 \<and> cmp < - 1)
           (bind_m (gets_m (sc_time_stamp e)) (\<lambda>t.
             let delay = cmp * scaler - mtime c * scaler in
             modify_m (ce_update e (irq_event_update (event_notify (t + delay)))))))))"

fun clint_run_harts :: "'s clint_env \<Rightarrow> nat list \<Rightarrow> ('s, unit) smonad" where
    "clint_run_harts e [] = return_m ()"
  | "clint_run_harts e (i # is) = then_m (clint_run_hart e i) (clint_run_harts e is)"

definition clint_run_iteration :: "'s clint_env \<Rightarrow> nat \<Rightarrow> ('s, unit) smonad" where
  "clint_run_iteration e NumberOfCores =
     then_m (modify_m (ce_update e (irq_event_update (\<lambda>_. None))))
     (then_m (clint_update_and_get_mtime e) (clint_run_harts e [0..<NumberOfCores]))"

definition pre_read_mtime :: "'s clint_env \<Rightarrow> u64 \<Rightarrow> nat \<Rightarrow> ('s, bool) smonad" where
  "pre_read_mtime e addr len = bind_m (gets_m (\<lambda>s. sc_time_stamp e s + trans_delay e s)) (\<lambda>now.
     then_m (modify_m (ce_update e (write_mtime (now div scaler)))) (return_m True))"

definition post_write_mtimecmp :: "'s clint_env \<Rightarrow> u64 \<Rightarrow> nat \<Rightarrow> ('s, unit) smonad" where
  "post_write_mtimecmp e addr len = bind_m (gets_m (\<lambda>s. sc_time_stamp e s + trans_delay e s)) (\<lambda>t.
     modify_m (ce_update e (irq_event_update (event_notify t))))"

definition post_write_msip :: "'s clint_env \<Rightarrow> u64 \<Rightarrow> nat \<Rightarrow> ('s, unit) smonad" where
  "post_write_msip e addr len = then_m (assert_m ''t.addr % 4 == 0'' (addr mod 4 = 0))
     (let idx = unat (addr div 4) in
      bind_m (gets_m (ce_get e)) (\<lambda>c.
      bind_m (ArrayView_index 4 (regs_msip c) idx) (\<lambda>v.
        then_m (modify_m (ce_update e (regs_msip_update (rr_mem_update (view_write 4 idx (v AND 1))))))
          (ce_trigger_software_interrupt e idx (v AND 1 \<noteq> 0)))))"

definition clint_ranges :: "'s clint_env \<Rightarrow> 's range_port list" where
  "clint_ranges e =
    [\<lparr>rp_get = \<lambda>s. regs_mtime (ce_get e s),
      rp_mem_update = \<lambda>f. ce_update e (regs_mtime_update (rr_mem_update f)),
      pre_write_callback = None, post_write_callback = None,
      pre_read_callback = Some (pre_read_mtime e), post_read_callback = None\<rparr>,
     \<lparr>rp_get = \<lambda>s. regs_mtimecmp (ce_get e s),
      rp_mem_update = \<lambda>f. ce_update e (regs_mtimecmp_update (rr_mem_update f)),
      pre_write_callback = None, post_write_callback = Some (post_write_mtimecmp e),
      pre_read_callback = None, post_read_callback = None\<rparr>,
     \<lparr>rp_get = \<lambda>s. regs_msip (ce_get e s),
      rp_mem_update = \<lambda>f. ce_update e (regs_msip_update (rr_mem_update f)),
      pre_write_callback = None, post_write_callback = Some (post_write_msip e),
      pre_read_callback = None, post_read_callback = None\<rparr>]"

definition clint_transport :: "'s clint_env \<Rightarrow> ('v, 's) target" where
  "clint_transport e t = rr_route ''CLINT'' (clint_ranges e) t"

section \<open>The register layout\<close>

definition clint_wf :: "nat \<Rightarrow> CLINT \<Rightarrow> bool" where
  "clint_wf n c \<longleftrightarrow> length (rr_mem (regs_mtime c)) = 8 \<and> length (rr_mem (regs_mtimecmp c)) = 8 * n \<and>
     length (rr_mem (regs_msip c)) = 4 * n"

lemma clint_wf_make: "clint_wf n (CLINT_make n)"
  by (simp add: clint_wf_def CLINT_make_def aligned_range_def)

lemma mtime_write [simp]:
  assumes "clint_wf n c"
  shows "mtime (write_mtime v c) = v"
proof -
  have "unat v mod 2 ^ (8 * 8) = unat v" using unsigned_less [of v, where 'a = nat] by simp
  moreover have "view_read 8 0 (view_write 8 0 (unat v) (rr_mem (regs_mtime c))) = unat v mod 2 ^ (8 * 8)"
    using assms by (intro view_write_read) (simp add: clint_wf_def)
  ultimately show ?thesis
    by (simp add: mtime_def write_mtime_def IntegerView_read_def IntegerView_write_def)
qed

end
