(* ===== verification/Symbolic_Peripherals.thy ===== *)
theory Symbolic_Peripherals
  imports Register_Range
begin

text \<open>
  The peripherals through which the simulated software controls symbolic execution: \<^verbatim>\<open>SymbolicCTRL\<close>
  (\<^verbatim>\<open>symex/symbolic_ctrl.cpp\<close>), which marks memory as symbolic and ends a path, and \<^verbatim>\<open>SymbolicSensor\<close>
  (\<^verbatim>\<open>platform/symex/symex_sensor.cpp\<close>), which delivers symbolic values within software-defined bounds.
\<close>

section \<open>SymbolicCTRL\<close>

record SymbolicCTRL =
  reg_addr :: RegisterRange
  reg_size :: RegisterRange
  reg_ctrl :: RegisterRange

definition word_range :: "u64 \<Rightarrow> RegisterRange" where
  "word_range start = \<lparr>rr_start = start, rr_end = start + 3, rr_mem = replicate 4 0,
     rr_readonly = False, rr_alignment = 1\<rparr>"

definition SymbolicCTRL_make :: SymbolicCTRL where
  "SymbolicCTRL_make = \<lparr>reg_addr = word_range 0, reg_size = word_range 4, reg_ctrl = word_range 8\<rparr>"

text \<open>\<^verbatim>\<open>symbolic_iss_if\<close> and the SystemC report of an error, with the place of the peripheral's state.\<close>

record 's ctrl_env =
  ct_get :: "'s \<Rightarrow> SymbolicCTRL"
  ct_update :: "(SymbolicCTRL \<Rightarrow> SymbolicCTRL) \<Rightarrow> 's \<Rightarrow> 's"
  symif_make_symbolic :: "u32 \<Rightarrow> nat \<Rightarrow> ('s, unit) smonad"
  symif_sys_exit :: "('s, unit) smonad"
  report_host_error :: "('s, unit) smonad"

abbreviation (input) CTRL_ERROR :: u32 where "CTRL_ERROR \<equiv> 0x80000000"
abbreviation (input) CTRL_EXIT :: u32 where "CTRL_EXIT \<equiv> 0x40000000"

definition reg32 :: "RegisterRange \<Rightarrow> u32" where
  "reg32 r = word_of_nat (view_read 4 0 (rr_mem r))"

definition write_size :: "'s ctrl_env \<Rightarrow> u64 \<Rightarrow> nat \<Rightarrow> ('s, unit) smonad" where
  "write_size e a len = bind_m (gets_m (ct_get e)) (\<lambda>c.
     symif_make_symbolic e (reg32 (reg_addr c)) (unat (reg32 (reg_size c))))"

definition write_ctrl :: "'s ctrl_env \<Rightarrow> u64 \<Rightarrow> nat \<Rightarrow> ('s, unit) smonad" where
  "write_ctrl e a len = bind_m (gets_m (\<lambda>s. reg32 (reg_ctrl (ct_get e s)))) (\<lambda>val.
     then_m (when_m (val AND CTRL_ERROR \<noteq> 0) (then_m (report_host_error e) (symif_sys_exit e)))
     (then_m (when_m (val AND CTRL_EXIT \<noteq> 0) (symif_sys_exit e))
       (modify_m (ct_update e (reg_ctrl_update (rr_mem_update (view_write 4 0 0)))))))"

definition ctrl_ranges :: "'s ctrl_env \<Rightarrow> 's range_port list" where
  "ctrl_ranges e =
    [\<lparr>rp_get = \<lambda>s. reg_addr (ct_get e s),
      rp_mem_update = \<lambda>f. ct_update e (reg_addr_update (rr_mem_update f)),
      pre_write_callback = None, post_write_callback = None,
      pre_read_callback = None, post_read_callback = None\<rparr>,
     \<lparr>rp_get = \<lambda>s. reg_size (ct_get e s),
      rp_mem_update = \<lambda>f. ct_update e (reg_size_update (rr_mem_update f)),
      pre_write_callback = None, post_write_callback = Some (write_size e),
      pre_read_callback = None, post_read_callback = None\<rparr>,
     \<lparr>rp_get = \<lambda>s. reg_ctrl (ct_get e s),
      rp_mem_update = \<lambda>f. ct_update e (reg_ctrl_update (rr_mem_update f)),
      pre_write_callback = None, post_write_callback = Some (write_ctrl e),
      pre_read_callback = None, post_read_callback = None\<rparr>]"

definition ctrl_transport :: "'s ctrl_env \<Rightarrow> ('v, 's) target" where
  "ctrl_transport e t = rr_route ''SymbolicCTRL'' (ctrl_ranges e) t"

section \<open>SymbolicSensor\<close>

record SymbolicSensor =
  nread :: u64
  lower_bound :: u32
  upper_bound :: u32

definition SymbolicSensor_make :: SymbolicSensor where
  "SymbolicSensor_make = \<lparr>nread = 0, lower_bound = 0, upper_bound = 0\<rparr>"

record ('v, 's) sensor_env =
  se_get :: "'s \<Rightarrow> SymbolicSensor"
  se_update :: "(SymbolicSensor \<Rightarrow> SymbolicSensor) \<Rightarrow> 's \<Rightarrow> 's"
  getSymbolicWord :: "string \<Rightarrow> ('s, 'v) smonad"

datatype sensor_reg = LowerReg | UpperReg

definition addr2register :: "u64 \<Rightarrow> sensor_reg option" where
  "addr2register addr = (if addr = 0x0 then Some LowerReg else if addr = 0x4 then Some UpperReg else None)"

primrec sensor_write :: "sensor_reg \<Rightarrow> u32 \<Rightarrow> SymbolicSensor \<Rightarrow> SymbolicSensor" where
    "sensor_write LowerReg v = lower_bound_update (\<lambda>_. v)"
  | "sensor_write UpperReg v = upper_bound_update (\<lambda>_. v)"

definition sensor_read :: "('v, 'e) clover \<Rightarrow> ('v, 's) sensor_env \<Rightarrow> ('v, 's) target" where
  "sensor_read cv e t = bind_m (gets_m (se_get e)) (\<lambda>d.
     if p_address t \<noteq> 0x8 \<or> upper_bound d \<le> lower_bound d then return_m (t\<lparr>p_error := True\<rparr>)
     else
       then_m (modify_m (se_update e (nread_update (\<lambda>n. n + 1))))
       (bind_m (getSymbolicWord e (''SymbolicSensorValue'' @ to_string (nread d))) (\<lambda>v.
         let sval = c_add cv (c_urem cv v (BVC cv (upper_bound d - lower_bound d))) (BVC cv (lower_bound d)) in
         return_m (t\<lparr>p_data := u32_to_bytes (getValue cv sval), p_error := False, p_extension := Some sval\<rparr>))))"

definition sensor_transport :: "('v, 'e) clover \<Rightarrow> ('v, 's) sensor_env \<Rightarrow> ('v, 's) target" where
  "sensor_transport cv e t =
     (if length (p_data t) \<noteq> 4 then return_m (t\<lparr>p_error := True\<rparr>)
      else (case p_command t of
         TLM_READ_COMMAND \<Rightarrow> sensor_read cv e t
       | TLM_WRITE_COMMAND \<Rightarrow> (case addr2register (p_address t) of
             None \<Rightarrow> return_m (t\<lparr>p_error := True\<rparr>)
           | Some r \<Rightarrow> then_m (modify_m (se_update e (sensor_write r (bytes_to_u32 (p_data t)))))
               (return_m (t\<lparr>p_error := False\<rparr>)))
       | TLM_IGNORE_COMMAND \<Rightarrow> return_m (t\<lparr>p_error := False\<rparr>)))"

end
