(* ===== verification/Mmu.thy ===== *)
theory Mmu
  imports Mem_Port
begin

text \<open>
  Address translation (\<^verbatim>\<open>GenericMMU\<close> of \<^verbatim>\<open>core/common/mmu.h\<close>, instantiated for the 32-bit core in
  \<^verbatim>\<open>core/rv32/mmu.h\<close>): the translation cache, the page table walk with its permission checks and the
  update of the accessed and dirty bits, and the choice of the effective privilege mode.
\<close>

section \<open>Page table entries\<close>

datatype MemoryAccessType = FETCH | LOAD | STORE

abbreviation (input) PTE_PPN_SHIFT :: nat where "PTE_PPN_SHIFT \<equiv> 10"
abbreviation (input) PGSHIFT :: nat where "PGSHIFT \<equiv> 12"
abbreviation (input) PGMASK :: u64 where "PGMASK \<equiv> 0xfff"

text \<open>
  The complement \<^verbatim>\<open>~PGMASK\<close> of the 32-bit constant, as it is applied to 64-bit addresses: its upper
  32 bits are clear.
\<close>

abbreviation (input) NOT_PGMASK :: u64 where "NOT_PGMASK \<equiv> 0xfffff000"

abbreviation (input) PTE_V :: u64 where "PTE_V \<equiv> 1"
abbreviation (input) PTE_R :: u64 where "PTE_R \<equiv> 2"
abbreviation (input) PTE_W :: u64 where "PTE_W \<equiv> 4"
abbreviation (input) PTE_X :: u64 where "PTE_X \<equiv> 8"
abbreviation (input) PTE_U :: u64 where "PTE_U \<equiv> 16"
abbreviation (input) PTE_A :: u64 where "PTE_A \<equiv> 64"
abbreviation (input) PTE_D :: u64 where "PTE_D \<equiv> 128"

definition pte_flag :: "u64 \<Rightarrow> u64 \<Rightarrow> bool" where
  "pte_flag f pte \<longleftrightarrow> pte AND f \<noteq> 0"

record vm_info =
  vm_levels :: nat
  vm_idxbits :: nat
  vm_ptesize :: u64
  vm_ptbase :: u64

section \<open>Translation cache\<close>

abbreviation (input) TLB_ENTRIES :: nat where "TLB_ENTRIES \<equiv> 256"

primrec access_index :: "MemoryAccessType \<Rightarrow> nat" where
    "access_index FETCH = 0"
  | "access_index LOAD = 1"
  | "access_index STORE = 2"

definition empty_entry :: tlb_entry_t where
  "empty_entry = \<lparr>tlb_ppn = - 1, tlb_vpn = - 1\<rparr>"

definition flush_tlb :: "('v, 'e, 'd, unit) mem" where
  "flush_tlb = upd_world (\<lambda>w. w\<lparr>w_tlb := \<lambda>_ _ _. empty_entry\<rparr>)"

definition tlb_update ::
  "nat \<Rightarrow> nat \<Rightarrow> nat \<Rightarrow> tlb_entry_t \<Rightarrow> (nat \<Rightarrow> nat \<Rightarrow> nat \<Rightarrow> tlb_entry_t) \<Rightarrow> nat \<Rightarrow> nat \<Rightarrow> nat \<Rightarrow> tlb_entry_t" where
  "tlb_update m t i x tlb = (\<lambda>m' t' i'. if m' = m \<and> t' = t \<and> i' = i then x else tlb m' t' i')"

section \<open>Page table walk\<close>

definition decode_vm_info :: "csr_table \<Rightarrow> PrivilegeLevel \<Rightarrow> error + vm_info" where
  "decode_vm_info c prv =
    (let ptbase = push_bit PGSHIFT (ucast (bf_get satp_ppn (satp_reg c))) :: u64;
         mode = bf_get satp_mode (satp_reg c) in
     if \<not> prv \<le> SupervisorMode then Inl (AssertFail ''prv <= SupervisorMode'')
     else if mode = 1 then
       Inr \<lparr>vm_levels = 2, vm_idxbits = 10, vm_ptesize = 4, vm_ptbase = ptbase\<rparr>
     else if mode = 8 then
       Inr \<lparr>vm_levels = 3, vm_idxbits = 9, vm_ptesize = 8, vm_ptbase = ptbase\<rparr>
     else if mode = 9 then
       Inr \<lparr>vm_levels = 4, vm_idxbits = 9, vm_ptesize = 8, vm_ptbase = ptbase\<rparr>
     else if mode = 10 then
       Inr \<lparr>vm_levels = 5, vm_idxbits = 9, vm_ptesize = 8, vm_ptbase = ptbase\<rparr>
     else if mode = 11 then
       Inr \<lparr>vm_levels = 6, vm_idxbits = 9, vm_ptesize = 8, vm_ptbase = ptbase\<rparr>
     else Inl (RuntimeError (''unknown Sv (satp) mode '' @ to_string mode)))"

definition check_vaddr_extension :: "u64 \<Rightarrow> vm_info \<Rightarrow> bool" where
  "check_vaddr_extension vaddr vm =
    (let highbit = vm_idxbits vm * vm_levels vm + PGSHIFT - 1;
         ext_mask = push_bit (32 - highbit) 1 - 1 :: u64;
         bits = drop_bit highbit vaddr AND ext_mask in
     bits = 0 \<or> bits = ext_mask)"

text \<open>The tests on a leaf entry, in the order of the source; \<open>True\<close> lets the access pass.\<close>

definition leaf_permits :: "MemoryAccessType \<Rightarrow> bool \<Rightarrow> bool \<Rightarrow> bool \<Rightarrow> u64 \<Rightarrow> bool" where
  "leaf_permits type s_mode sum_bit mxr pte \<longleftrightarrow>
     \<not> (type = FETCH \<and> \<not> pte_flag PTE_X pte) \<and>
     \<not> (type = LOAD \<and> \<not> pte_flag PTE_R pte \<and> \<not> (mxr \<and> pte_flag PTE_X pte)) \<and>
     \<not> (type = STORE \<and> \<not> (pte_flag PTE_R pte \<and> pte_flag PTE_W pte)) \<and>
     (if pte_flag PTE_U pte then \<not> (s_mode \<and> (type = FETCH \<or> \<not> sum_bit)) else s_mode)"

definition page_fault :: "MemoryAccessType \<Rightarrow> u64 \<Rightarrow> ('v, 'e, 'd, 'a) mem" where
  "page_fault type vaddr = (case type of
       FETCH \<Rightarrow> raise_trap EXC_INSTR_PAGE_FAULT vaddr
     | LOAD \<Rightarrow> raise_trap EXC_LOAD_PAGE_FAULT vaddr
     | STORE \<Rightarrow> raise_trap EXC_STORE_AMO_PAGE_FAULT vaddr)"

definition pte_paddr :: "vm_info \<Rightarrow> u64 \<Rightarrow> nat \<Rightarrow> u64 \<Rightarrow> u64" where
  "pte_paddr vm vaddr i base =
     (let ptshift = i * vm_idxbits vm;
          vpn_field = ucast (drop_bit (PGSHIFT + ptshift) vaddr) AND (push_bit (vm_idxbits vm) 1 - 1) :: u32
      in base + ucast (vpn_field * ucast (vm_ptesize vm)))"

definition leaf_paddr :: "u64 \<Rightarrow> nat \<Rightarrow> u64 \<Rightarrow> u64" where
  "leaf_paddr vaddr ptshift ppn =
     (let m = push_bit ptshift 1 - 1;
          vpn = drop_bit PGSHIFT vaddr;
          pgoff = vaddr AND PGMASK
      in push_bit PGSHIFT ((ppn AND NOT m) OR (vpn AND m)) OR pgoff)"

fun walk_levels ::
  "('v, 'e, 'd) mem_env \<Rightarrow> u64 \<Rightarrow> MemoryAccessType \<Rightarrow> bool \<Rightarrow> bool \<Rightarrow> bool \<Rightarrow> vm_info \<Rightarrow> nat \<Rightarrow> u64 \<Rightarrow>
   ('v, 'e, 'd, u64) mem" where
    "walk_levels env vaddr type s_mode sum_bit mxr vm 0 base = page_fault type vaddr"
  | "walk_levels env vaddr type s_mode sum_bit mxr vm (Suc i) base =
      (let ptshift = i * vm_idxbits vm; pa = pte_paddr vm vaddr i base in
       bind_m (if vm_ptesize vm = 4 then mmu_load_pte32 env pa else mmu_load_pte64 env pa) (\<lambda>pte.
       let ppn = drop_bit PTE_PPN_SHIFT pte in
       if \<not> pte_flag PTE_V pte \<or> (\<not> pte_flag PTE_R pte \<and> pte_flag PTE_W pte) then
         page_fault type vaddr
       else if \<not> pte_flag PTE_R pte \<and> \<not> pte_flag PTE_X pte then
         walk_levels env vaddr type s_mode sum_bit mxr vm i (push_bit PGSHIFT ppn)
       else if \<not> leaf_permits type s_mode sum_bit mxr pte then page_fault type vaddr
       else if ppn AND (push_bit ptshift 1 - 1) \<noteq> 0 then page_fault type vaddr
       else
         let ad = PTE_A OR (if type = STORE then PTE_D else 0) in
         if pte AND ad \<noteq> ad then
           (if page_fault_on_AD env then page_fault type vaddr
            else then_m (mmu_store_pte32 env pa (ucast (pte OR ad)))
              (return_m (leaf_paddr vaddr ptshift ppn)))
         else return_m (leaf_paddr vaddr ptshift ppn)))"

definition walk ::
  "('v, 'e, 'd) mem_env \<Rightarrow> u64 \<Rightarrow> MemoryAccessType \<Rightarrow> PrivilegeLevel \<Rightarrow> ('v, 'e, 'd, u64) mem" where
  "walk env vaddr type mode = bind_m (gets_m h_csrs) (\<lambda>c.
     bind_m (lift_sum (decode_vm_info c mode)) (\<lambda>vm.
       walk_levels env vaddr type (mode = SupervisorMode) (bf_get mstatus_sum (mstatus_reg c) \<noteq> 0)
         (bf_get mstatus_mxr (mstatus_reg c) \<noteq> 0) vm
         (if check_vaddr_extension vaddr vm then vm_levels vm else 0) (vm_ptbase vm)))"

section \<open>Translation\<close>

definition effective_mode :: "MemoryAccessType \<Rightarrow> ('v, 'e, 'm) hart \<Rightarrow> PrivilegeLevel" where
  "effective_mode type h =
     (if type \<noteq> FETCH \<and> bf_get mstatus_mprv (mstatus_reg (h_csrs h)) \<noteq> 0
      then bf_get mstatus_mpp (mstatus_reg (h_csrs h)) else h_prv h)"

definition translate_virtual_to_physical_addr ::
  "('v, 'e, 'd) mem_env \<Rightarrow> u64 \<Rightarrow> MemoryAccessType \<Rightarrow> ('v, 'e, 'd, u64) mem" where
  "translate_virtual_to_physical_addr env vaddr type = bind_m (gets_m (\<lambda>h. h)) (\<lambda>h.
     if bf_get satp_mode (satp_reg (h_csrs h)) = 0 then return_m vaddr
     else let mode = effective_mode type h in
       if mode = MachineMode then return_m vaddr
       else then_m (assert_m ''mode == 0 || mode == 1'' (mode = 0 \<or> mode = 1))
        (let vpn = drop_bit PGSHIFT vaddr; idx = unat vpn mod TLB_ENTRIES;
             x = w_tlb (h_world h) (unat mode) (access_index type) idx in
         if tlb_vpn x = vpn then return_m (tlb_ppn x OR (vaddr AND PGMASK))
         else bind_m (walk env vaddr type mode) (\<lambda>paddr.
           then_m (upd_world (\<lambda>w. w\<lparr>w_tlb := tlb_update (unat mode) (access_index type) idx
                      \<lparr>tlb_ppn = paddr AND NOT_PGMASK, tlb_vpn = vpn\<rparr> (w_tlb w)\<rparr>))
             (return_m paddr))))"

end
