(* ===== verification/Mem.thy ===== *)
theory Mem
  imports Mmu
begin

text \<open>
  The hart's memory interface (\<^verbatim>\<open>CombinedMemoryInterface\<close> of \<^verbatim>\<open>core/rv32/mem.h\<close>): concolic loads and
  stores, instruction fetch and the atomic operations, and the platform record the core uses,
  assembled from them. The calls of the platform that the interface does not provide (the CLINT,
  the source of symbolic bytes, the simulation kernel) come from the record \<open>kernel\<close>.
\<close>

definition v2p :: "('v, 'e, 'd) mem_env \<Rightarrow> u64 \<Rightarrow> MemoryAccessType \<Rightarrow> ('v, 'e, 'd, u64) mem" where
  "v2p env vaddr type =
     (if \<not> has_mmu env then return_m vaddr else translate_virtual_to_physical_addr env vaddr type)"

definition mem_symbolic_store_data ::
  "('v, 'e) clover \<Rightarrow> ('v, 'e, 'd) mem_env \<Rightarrow> 'v \<Rightarrow> 'v \<Rightarrow> nat \<Rightarrow> ('v, 'e, 'd, unit) mem" where
  "mem_symbolic_store_data cv env addr data num_bytes = then_m (wait_for_access_rights env)
     (bind_m (v2p env (ucast (getValue cv addr)) STORE) (\<lambda>vaddr.
       then_m (concolic_write cv env vaddr data num_bytes) mem_atomic_unlock))"

definition mem_symbolic_load_data ::
  "('v, 'e) clover \<Rightarrow> ('v, 'e, 'd) mem_env \<Rightarrow> 'v \<Rightarrow> nat \<Rightarrow> ('v, 'e, 'd, 'v) mem" where
  "mem_symbolic_load_data cv env addr num_bytes = then_m (wait_for_access_rights env)
     (bind_m (v2p env (ucast (getValue cv addr)) STORE) (\<lambda>vaddr.
       concolic_read cv env vaddr num_bytes))"

definition mem_load_instr :: "('v, 'e, 'd) mem_env \<Rightarrow> u64 \<Rightarrow> ('v, 'e, 'd, u32) mem" where
  "mem_load_instr env addr = bind_m (v2p env addr FETCH) (\<lambda>p.
     bind_m (concrete_load_data env p 4) (\<lambda>bs. return_m (bytes_to_u32 bs)))"

definition mem_load_sext ::
  "('v, 'e) clover \<Rightarrow> ('v, 'e, 'd) mem_env \<Rightarrow> nat \<Rightarrow> 'v \<Rightarrow> ('v, 'e, 'd, 'v) mem" where
  "mem_load_sext cv env num_bytes addr =
     bind_m (mem_symbolic_load_data cv env addr num_bytes) (\<lambda>v. return_m (c_sext cv v 32))"

definition mem_load_zext ::
  "('v, 'e) clover \<Rightarrow> ('v, 'e, 'd) mem_env \<Rightarrow> nat \<Rightarrow> 'v \<Rightarrow> ('v, 'e, 'd, 'v) mem" where
  "mem_load_zext cv env num_bytes addr =
     bind_m (mem_symbolic_load_data cv env addr num_bytes) (\<lambda>r.
       return_m (if getWidth cv r < 32 then c_zext cv r 32 else r))"

definition mem_load_word :: "('v, 'e) clover \<Rightarrow> ('v, 'e, 'd) mem_env \<Rightarrow> 'v \<Rightarrow> ('v, 'e, 'd, 'v) mem" where
  "mem_load_word cv env = mem_load_sext cv env 4"

definition mem_load_half :: "('v, 'e) clover \<Rightarrow> ('v, 'e, 'd) mem_env \<Rightarrow> 'v \<Rightarrow> ('v, 'e, 'd, 'v) mem" where
  "mem_load_half cv env = mem_load_sext cv env 2"

definition mem_load_byte :: "('v, 'e) clover \<Rightarrow> ('v, 'e, 'd) mem_env \<Rightarrow> 'v \<Rightarrow> ('v, 'e, 'd, 'v) mem" where
  "mem_load_byte cv env = mem_load_sext cv env 1"

definition mem_load_uhalf :: "('v, 'e) clover \<Rightarrow> ('v, 'e, 'd) mem_env \<Rightarrow> 'v \<Rightarrow> ('v, 'e, 'd, 'v) mem" where
  "mem_load_uhalf cv env = mem_load_zext cv env 2"

definition mem_load_ubyte :: "('v, 'e) clover \<Rightarrow> ('v, 'e, 'd) mem_env \<Rightarrow> 'v \<Rightarrow> ('v, 'e, 'd, 'v) mem" where
  "mem_load_ubyte cv env = mem_load_zext cv env 1"

definition mem_store ::
  "('v, 'e) clover \<Rightarrow> ('v, 'e, 'd) mem_env \<Rightarrow> nat \<Rightarrow> 'v \<Rightarrow> 'v \<Rightarrow> ('v, 'e, 'd, unit) mem" where
  "mem_store cv env num_bytes addr value = mem_symbolic_store_data cv env addr value num_bytes"

definition mem_atomic_load_word ::
  "('v, 'e) clover \<Rightarrow> ('v, 'e, 'd) mem_env \<Rightarrow> 'v \<Rightarrow> ('v, 'e, 'd, 'v) mem" where
  "mem_atomic_load_word cv env addr = then_m (bus_lock_lock env) (mem_load_word cv env addr)"

definition mem_atomic_store_word ::
  "('v, 'e) clover \<Rightarrow> ('v, 'e, 'd) mem_env \<Rightarrow> 'v \<Rightarrow> 'v \<Rightarrow> ('v, 'e, 'd, unit) mem" where
  "mem_atomic_store_word cv env addr value = bind_m bus_is_locked (\<lambda>l.
     then_m (assert_m ''bus_lock->is_locked(hart_id)'' l) (mem_store cv env 4 addr value))"

definition mem_atomic_load_reserved_word ::
  "('v, 'e) clover \<Rightarrow> ('v, 'e, 'd) mem_env \<Rightarrow> 'v \<Rightarrow> ('v, 'e, 'd, 'v) mem" where
  "mem_atomic_load_reserved_word cv env addr = then_m (bus_lock_lock env)
     (then_m (upd_world (\<lambda>w. w\<lparr>w_lr_addr := Some addr\<rparr>)) (mem_load_word cv env addr))"

definition mem_atomic_store_conditional_word ::
  "('v, 'e) clover \<Rightarrow> ('v, 'e, 'd) mem_env \<Rightarrow> 'v \<Rightarrow> 'v \<Rightarrow> ('v, 'e, 'd, bool) mem" where
  "mem_atomic_store_conditional_word cv env addr value = bind_m bus_is_locked (\<lambda>l.
     if l then
       bind_m (gets_m (\<lambda>h. w_lr_addr (h_world h))) (\<lambda>lr.
         if same_object env addr lr
         then then_m (mem_store cv env 4 addr value) (return_m True)
         else then_m mem_atomic_unlock (return_m False))
     else return_m False)"

record ('v, 'e, 'm) kernel =
  k_update_and_get_mtime :: "('v, 'e, 'm, u64) iss"
  k_getSymbolicBytes :: "string \<Rightarrow> nat \<Rightarrow> ('v, 'e, 'm, 'v) iss"
  k_wait_wfi_event :: "('v, 'e, 'm, unit) iss"
  k_quantum_inc :: "u64 \<Rightarrow> ('v, 'e, 'm, unit) iss"
  k_quantum_need_sync :: "('v, 'e, 'm, bool) iss"
  k_quantum_sync :: "('v, 'e, 'm, unit) iss"

definition mem_platform ::
  "('v, 'e) clover \<Rightarrow> ('v, 'e, 'd) mem_env \<Rightarrow> ('v, 'e, ('v, 'd) mem_world) kernel \<Rightarrow>
   ('v, 'e, ('v, 'd) mem_world) platform" where
  "mem_platform cv env k = \<lparr>
     load_instr = mem_load_instr env,
     symbolic_store_data = mem_symbolic_store_data cv env,
     load_word = mem_load_word cv env,
     load_half = mem_load_half cv env,
     load_byte = mem_load_byte cv env,
     load_uhalf = mem_load_uhalf cv env,
     load_ubyte = mem_load_ubyte cv env,
     store_word = mem_store cv env 4,
     store_half = mem_store cv env 2,
     store_byte = mem_store cv env 1,
     atomic_load_word = mem_atomic_load_word cv env,
     atomic_store_word = mem_atomic_store_word cv env,
     atomic_load_reserved_word = mem_atomic_load_reserved_word cv env,
     atomic_store_conditional_word = mem_atomic_store_conditional_word cv env,
     atomic_unlock = mem_atomic_unlock,
     update_and_get_mtime = k_update_and_get_mtime k,
     getSymbolicBytes = k_getSymbolicBytes k,
     wait_wfi_event = k_wait_wfi_event k,
     quantum_inc = k_quantum_inc k,
     quantum_need_sync = k_quantum_need_sync k,
     quantum_sync = k_quantum_sync k\<rparr>"

end
