(* ===== verification/Iss_Exec.thy ===== *)
theory Iss_Exec
  imports Iss
begin

text \<open>
  Instruction execution (\<^verbatim>\<open>ISS::exec_step\<close>, \<^verbatim>\<open>ISS::execute_amo\<close>, \<^verbatim>\<open>ISS::run_step\<close> and \<^verbatim>\<open>ISS::run\<close> of
  \<^verbatim>\<open>core/rv32/iss.cpp\<close> and \<^verbatim>\<open>iss.h\<close>). One definition models the cases of the instruction switch for
  each group of opcodes; the cases that the source removes with \<^verbatim>\<open>#if 0\<close> (floating point, RV64,
  \<^verbatim>\<open>SRET\<close>, \<^verbatim>\<open>URET\<close>, \<^verbatim>\<open>SFENCE_VMA\<close>) reach the default case, as they do there.
\<close>

section \<open>Operands\<close>

definition I_IMM :: "('v, 'e) clover \<Rightarrow> u32 \<Rightarrow> 'v" where
  "I_IMM cv w = c_sext cv (BVC cv (I_imm w)) 32"

definition S_IMM :: "('v, 'e) clover \<Rightarrow> u32 \<Rightarrow> 'v" where
  "S_IMM cv w = c_sext cv (BVC cv (S_imm w)) 32"

definition U_IMM :: "('v, 'e) clover \<Rightarrow> u32 \<Rightarrow> 'v" where
  "U_IMM cv w = BVC cv (U_imm w)"

definition SHAMT :: "('v, 'e) clover \<Rightarrow> u32 \<Rightarrow> 'v" where
  "SHAMT cv w = BVC cv (shamt w)"

abbreviation (input) REG_UINT32_MAX :: "('v, 'e) clover \<Rightarrow> 'v" where "REG_UINT32_MAX cv \<equiv> BVC cv (- 1)"
abbreviation (input) REG_INT32_MIN :: "('v, 'e) clover \<Rightarrow> 'v" where
  "REG_INT32_MIN cv \<equiv> BVC cv 0x80000000"
abbreviation (input) REG_ZERO :: "('v, 'e) clover \<Rightarrow> 'v" where "REG_ZERO cv \<equiv> BVC cv 0"
abbreviation (input) REG_ONE :: "('v, 'e) clover \<Rightarrow> 'v" where "REG_ONE cv \<equiv> BVC cv 1"

section \<open>Checks\<close>

definition trap_check_pc_alignment :: "('v, 'e, 'm, unit) iss" where
  "trap_check_pc_alignment = bind_m (gets_m (\<lambda>h. h)) (\<lambda>h.
     then_m (assert_m ''not possible due to immediate formats and jump execution'' (h_pc h AND 0x1 = 0))
       (when_m (h_pc h AND 0x3 \<noteq> 0 \<and> \<not> has_C_extension (h_csrs h))
          (raise_trap EXC_INSTR_ADDR_MISALIGNED (ucast (h_pc h)))))"

definition trap_check_addr_alignment ::
  "('v, 'e) clover \<Rightarrow> u32 \<Rightarrow> bool \<Rightarrow> 'v \<Rightarrow> ('v, 'e, 'm, unit) iss" where
  "trap_check_addr_alignment cv alignment isLoad addr =
     (let caddr = getValue cv addr in
      when_m (caddr mod alignment \<noteq> 0)
        (raise_trap (if isLoad then EXC_LOAD_ADDR_MISALIGNED else EXC_STORE_AMO_ADDR_MISALIGNED)
           (ucast caddr)))"

section \<open>Integer computation\<close>

definition exec_imm ::
  "('v, 'e) clover \<Rightarrow> u32 \<Rightarrow> ('v \<Rightarrow> 'v \<Rightarrow> 'v) \<Rightarrow> 'v \<Rightarrow> ('v, 'e, 'm, unit) iss" where
  "exec_imm cv w f imm = bind_m (RegFile_at (rs1 w)) (\<lambda>a. RegFile_write cv (rd w) (f a imm))"

definition exec_reg ::
  "('v, 'e) clover \<Rightarrow> u32 \<Rightarrow> ('v \<Rightarrow> 'v \<Rightarrow> 'v) \<Rightarrow> ('v, 'e, 'm, unit) iss" where
  "exec_reg cv w f = bind_m (RegFile_at (rs1 w)) (\<lambda>a. bind_m (RegFile_at (rs2 w)) (\<lambda>b.
     RegFile_write cv (rd w) (f a b)))"

definition exec_shift ::
  "('v, 'e) clover \<Rightarrow> u32 \<Rightarrow> ('v \<Rightarrow> 'v \<Rightarrow> 'v) \<Rightarrow> ('v, 'e, 'm, unit) iss" where
  "exec_shift cv w f = bind_m (RegFile_at (rs1 w)) (\<lambda>a. bind_m (RegFile_shamt cv (rs2 w)) (\<lambda>b.
     RegFile_write cv (rd w) (f a b)))"

section \<open>Control transfer\<close>

definition exec_jal :: "('v, 'e) clover \<Rightarrow> u32 \<Rightarrow> ('v, 'e, 'm, unit) iss" where
  "exec_jal cv w = bind_m (gets_m (\<lambda>h. BVC cv (h_pc h))) (\<lambda>link.
     then_m (modify_m (\<lambda>h. h\<lparr>h_pc := h_last_pc h + J_imm w\<rparr>))
     (then_m trap_check_pc_alignment
       (RegFile_write cv (rd w) link)))"

definition exec_jalr :: "('v, 'e) clover \<Rightarrow> u32 \<Rightarrow> ('v, 'e, 'm, unit) iss" where
  "exec_jalr cv w = bind_m (gets_m (\<lambda>h. BVC cv (h_pc h))) (\<lambda>link.
     bind_m (RegFile_at (rs1 w)) (\<lambda>r.
     then_m (modify_m (\<lambda>h. h\<lparr>h_pc := (getValue cv r + I_imm w) AND NOT 1\<rparr>))
     (then_m trap_check_pc_alignment
       (RegFile_write cv (rd w) link))))"

definition exec_branch ::
  "('v, 'e) clover \<Rightarrow> u32 \<Rightarrow> ('v \<Rightarrow> 'v \<Rightarrow> 'v) \<Rightarrow> ('v, 'e, 'm, unit) iss" where
  "exec_branch cv w test = bind_m (RegFile_at (rs1 w)) (\<lambda>a. bind_m (RegFile_at (rs2 w)) (\<lambda>b.
     let res = test a b; cond = isTrue cv res in
     then_m (when_m cond
       (then_m (modify_m (\<lambda>h. h\<lparr>h_pc := h_last_pc h + B_imm w\<rparr>)) trap_check_pc_alignment))
     (track_and_trace_branch cv cond res)))"

section \<open>Memory access\<close>

definition exec_store ::
  "('v, 'e) clover \<Rightarrow> u32 \<Rightarrow> u32 \<Rightarrow> ('v \<Rightarrow> 'v \<Rightarrow> ('v, 'e, 'm, unit) iss) \<Rightarrow> ('v, 'e, 'm, unit) iss" where
  "exec_store cv w alignment store = bind_m (RegFile_at (rs1 w)) (\<lambda>a.
     let addr = c_add cv a (S_IMM cv w) in
     then_m (trap_check_addr_alignment cv alignment False addr)
       (bind_m (RegFile_at (rs2 w)) (\<lambda>b. store addr b)))"

definition exec_load ::
  "('v, 'e) clover \<Rightarrow> u32 \<Rightarrow> u32 \<Rightarrow> ('v \<Rightarrow> ('v, 'e, 'm, 'v) iss) \<Rightarrow> ('v, 'e, 'm, unit) iss" where
  "exec_load cv w alignment load = bind_m (RegFile_at (rs1 w)) (\<lambda>a.
     let addr = c_add cv a (I_IMM cv w) in
     then_m (trap_check_addr_alignment cv alignment True addr)
       (bind_m (load addr) (\<lambda>v. RegFile_write cv (rd w) v)))"

section \<open>RV32I\<close>

definition exec_ecall :: "('v, 'e, 'm, unit) iss" where
  "exec_ecall = bind_m (gets_m (\<lambda>h. h)) (\<lambda>h.
     if h_prv h = MachineMode then raise_trap EXC_ECALL_M_MODE (ucast (h_last_pc h))
     else if h_prv h = SupervisorMode then raise_trap EXC_ECALL_S_MODE (ucast (h_last_pc h))
     else if h_prv h = UserMode then raise_trap EXC_ECALL_U_MODE (ucast (h_last_pc h))
     else unknown_privilege_level (h_prv h))"

definition exec_rv32i ::
  "('v, 'e) clover \<Rightarrow> ('v, 'e, 'm) platform \<Rightarrow> u32 \<Rightarrow> rv32i \<Rightarrow> ('v, 'e, 'm, unit) iss" where
  "exec_rv32i cv pl w i = (case i of
       ADDI \<Rightarrow> exec_imm cv w (c_add cv) (I_IMM cv w)
     | SLTI \<Rightarrow> exec_imm cv w (c_slt cv) (I_IMM cv w)
     | SLTIU \<Rightarrow> exec_imm cv w (c_ult cv) (I_IMM cv w)
     | XORI \<Rightarrow> exec_imm cv w (c_bxor cv) (I_IMM cv w)
     | ORI \<Rightarrow> exec_imm cv w (c_bor cv) (I_IMM cv w)
     | ANDI \<Rightarrow> exec_imm cv w (c_band cv) (I_IMM cv w)
     | ADD \<Rightarrow> exec_reg cv w (c_add cv)
     | SUB \<Rightarrow> exec_reg cv w (c_sub cv)
     | SLL \<Rightarrow> exec_shift cv w (c_lshl cv)
     | SLT \<Rightarrow> exec_reg cv w (c_slt cv)
     | SLTU \<Rightarrow> exec_reg cv w (c_ult cv)
     | SRL \<Rightarrow> exec_shift cv w (c_lshr cv)
     | SRA \<Rightarrow> exec_shift cv w (c_ashr cv)
     | XOR_R \<Rightarrow> exec_reg cv w (c_bxor cv)
     | OR_R \<Rightarrow> exec_reg cv w (c_bor cv)
     | AND_R \<Rightarrow> exec_reg cv w (c_band cv)
     | SLLI \<Rightarrow> exec_imm cv w (c_lshl cv) (SHAMT cv w)
     | SRLI \<Rightarrow> exec_imm cv w (c_lshr cv) (SHAMT cv w)
     | SRAI \<Rightarrow> exec_imm cv w (c_ashr cv) (SHAMT cv w)
     | LUI \<Rightarrow> RegFile_write cv (rd w) (U_IMM cv w)
     | AUIPC \<Rightarrow> bind_m (gets_m h_last_pc) (\<lambda>p.
         RegFile_write cv (rd w) (c_add cv (BVC cv p) (U_IMM cv w)))
     | JAL \<Rightarrow> exec_jal cv w
     | JALR \<Rightarrow> exec_jalr cv w
     | SB \<Rightarrow> exec_store cv w 1 (store_byte pl)
     | SH \<Rightarrow> exec_store cv w 2 (store_half pl)
     | SW \<Rightarrow> exec_store cv w 4 (store_word pl)
     | LB \<Rightarrow> exec_load cv w 1 (load_byte pl)
     | LH \<Rightarrow> exec_load cv w 2 (load_half pl)
     | LW \<Rightarrow> exec_load cv w 4 (load_word pl)
     | LBU \<Rightarrow> exec_load cv w 1 (load_ubyte pl)
     | LHU \<Rightarrow> exec_load cv w 2 (load_uhalf pl)
     | BEQ \<Rightarrow> exec_branch cv w (c_eq cv)
     | BNE \<Rightarrow> exec_branch cv w (c_ne cv)
     | BLT \<Rightarrow> exec_branch cv w (c_slt cv)
     | BGE \<Rightarrow> exec_branch cv w (c_sge cv)
     | BLTU \<Rightarrow> exec_branch cv w (c_ult cv)
     | BGEU \<Rightarrow> exec_branch cv w (c_uge cv)
     | FENCE \<Rightarrow> return_m ()
     | ECALL \<Rightarrow> exec_ecall
     | EBREAK \<Rightarrow> modify_m (\<lambda>h. h\<lparr>h_status := HitBreakpoint\<rparr>))"

section \<open>Zicsr\<close>

definition exec_zicsr ::
  "('v, 'e) clover \<Rightarrow> ('v, 'e, 'm) platform \<Rightarrow> u32 \<Rightarrow> zicsr \<Rightarrow> ('v, 'e, 'm, unit) iss" where
  "exec_zicsr cv pl w i =
    (let addr = csr_addr w;
         access = (\<lambda>is_write body. bind_m (is_invalid_csr_access addr is_write) (\<lambda>bad.
           if bad then raise_illegal_instruction else body));
         write_rd = (\<lambda>v. when_m (rd w \<noteq> 0) (RegFile_write cv (rd w) (BVC cv v))) in
     case i of
       CSRRW \<Rightarrow> access True (bind_m (RegFile_at (rs1 w)) (\<lambda>rs1_val.
         then_m (when_m (rd w \<noteq> 0) (bind_m (get_csr_value pl addr) (\<lambda>v.
                   RegFile_write cv (rd w) (BVC cv v))))
           (set_csr_value addr (getValue cv rs1_val))))
     | CSRRS \<Rightarrow> access (rs1 w \<noteq> 0) (bind_m (RegFile_at (rs1 w)) (\<lambda>rs1_val.
         bind_m (get_csr_value pl addr) (\<lambda>csr_val.
         then_m (write_rd csr_val)
           (when_m (rs1 w \<noteq> 0) (set_csr_value addr (csr_val OR getValue cv rs1_val))))))
     | CSRRC \<Rightarrow> access (rs1 w \<noteq> 0) (bind_m (RegFile_at (rs1 w)) (\<lambda>rs1_val.
         bind_m (get_csr_value pl addr) (\<lambda>csr_val.
         then_m (write_rd csr_val)
           (when_m (rs1 w \<noteq> 0) (set_csr_value addr (csr_val AND NOT (getValue cv rs1_val)))))))
     | CSRRWI \<Rightarrow> access True
         (then_m (when_m (rd w \<noteq> 0) (bind_m (get_csr_value pl addr) (\<lambda>v.
                   RegFile_write cv (rd w) (BVC cv v))))
           (set_csr_value addr (zimm w)))
     | CSRRSI \<Rightarrow> access (zimm w \<noteq> 0) (bind_m (get_csr_value pl addr) (\<lambda>csr_val.
         then_m (write_rd csr_val)
           (when_m (zimm w \<noteq> 0) (set_csr_value addr (csr_val OR zimm w)))))
     | CSRRCI \<Rightarrow> access (zimm w \<noteq> 0) (bind_m (get_csr_value pl addr) (\<lambda>csr_val.
         then_m (write_rd csr_val)
           (when_m (zimm w \<noteq> 0) (set_csr_value addr (csr_val AND NOT (zimm w)))))))"

section \<open>RV32M\<close>

definition exec_mul ::
  "('v, 'e) clover \<Rightarrow> u32 \<Rightarrow> ('v \<Rightarrow> nat \<Rightarrow> 'v) \<Rightarrow> ('v \<Rightarrow> nat \<Rightarrow> 'v) \<Rightarrow> nat \<Rightarrow> ('v, 'e, 'm, unit) iss" where
  "exec_mul cv w ext1 ext2 lo =
     bind_m (RegFile_at (rs1 w)) (\<lambda>a. bind_m (RegFile_at (rs2 w)) (\<lambda>b.
       RegFile_write cv (rd w) (c_extract cv (c_mul cv (ext1 a 64) (ext2 b 64)) lo 32)))"

definition exec_div ::
  "('v, 'e) clover \<Rightarrow> u32 \<Rightarrow> ('v \<Rightarrow> 'v) \<Rightarrow> ('v \<Rightarrow> 'v \<Rightarrow> 'v) \<Rightarrow> ('v, 'e, 'm, unit) iss" where
  "exec_div cv w on_zero f =
     bind_m (RegFile_at (rs1 w)) (\<lambda>a. bind_m (RegFile_at (rs2 w)) (\<lambda>b.
       let expr_zero = c_eq cv b (REG_ZERO cv); cond_is_rs2_zero = isTrue cv expr_zero in
       then_m (if cond_is_rs2_zero then RegFile_write cv (rd w) (on_zero a)
               else RegFile_write cv (rd w) (f a b))
         (track_and_trace_branch cv cond_is_rs2_zero expr_zero)))"

definition min_by_minus_one :: "('v, 'e) clover \<Rightarrow> 'v \<Rightarrow> 'v \<Rightarrow> 'v" where
  "min_by_minus_one cv a b =
     c_band cv (c_eq cv a (REG_INT32_MIN cv)) (c_eq cv b (REG_UINT32_MAX cv))"

definition exec_rv32m :: "('v, 'e) clover \<Rightarrow> u32 \<Rightarrow> rv32m \<Rightarrow> ('v, 'e, 'm, unit) iss" where
  "exec_rv32m cv w i = then_m (require_isa M_ISA_EXT) (case i of
       MUL \<Rightarrow> exec_mul cv w (c_sext cv) (c_sext cv) 0
     | MULH \<Rightarrow> exec_mul cv w (c_sext cv) (c_sext cv) 32
     | MULHU \<Rightarrow> exec_mul cv w (c_zext cv) (c_zext cv) 32
     | MULHSU \<Rightarrow> exec_mul cv w (c_sext cv) (c_zext cv) 32
     | DIV \<Rightarrow> exec_div cv w (\<lambda>_. REG_UINT32_MAX cv)
         (\<lambda>a b. c_select cv (min_by_minus_one cv a b) a (c_sdiv cv a b))
     | DIVU \<Rightarrow> exec_div cv w (\<lambda>_. REG_UINT32_MAX cv) (c_udiv cv)
     | REM \<Rightarrow> exec_div cv w (\<lambda>a. a)
         (\<lambda>a b. c_select cv (min_by_minus_one cv a b) (REG_ZERO cv) (c_srem cv a b))
     | REMU \<Rightarrow> exec_div cv w (\<lambda>a. a) (c_urem cv))"

section \<open>RV32A\<close>

definition execute_amo ::
  "('v, 'e) clover \<Rightarrow> ('v, 'e, 'm) platform \<Rightarrow> u32 \<Rightarrow> ('v \<Rightarrow> 'v \<Rightarrow> 'v) \<Rightarrow> ('v, 'e, 'm, unit) iss" where
  "execute_amo cv pl w operation =
     bind_m (RegFile_at (rs1 w)) (\<lambda>addr.
     then_m (trap_check_addr_alignment cv 4 False addr)
     (bind_m (catch_m (atomic_load_word pl addr) (\<lambda>e. case e of
          SimulationTrap reason mtval \<Rightarrow>
            throw_m (SimulationTrap (if reason = EXC_LOAD_ACCESS_FAULT then EXC_STORE_AMO_ACCESS_FAULT
               else reason) mtval)
        | _ \<Rightarrow> throw_m e)) (\<lambda>data.
      bind_m (RegFile_at (rs2 w)) (\<lambda>b.
        then_m (atomic_store_word pl addr (operation data b))
          (RegFile_write cv (rd w) data)))))"

definition exec_lr :: "('v, 'e) clover \<Rightarrow> ('v, 'e, 'm) platform \<Rightarrow> u32 \<Rightarrow> ('v, 'e, 'm, unit) iss" where
  "exec_lr cv pl w = bind_m (RegFile_at (rs1 w)) (\<lambda>addr.
     then_m (trap_check_addr_alignment cv 4 True addr)
     (then_m (bind_m (atomic_load_reserved_word pl addr) (\<lambda>v. RegFile_write cv (rd w) v))
       (modify_m (\<lambda>h. if h_lr_sc_counter h = 0 then h\<lparr>h_lr_sc_counter := 17\<rparr> else h))))"

definition exec_sc :: "('v, 'e) clover \<Rightarrow> ('v, 'e, 'm) platform \<Rightarrow> u32 \<Rightarrow> ('v, 'e, 'm, unit) iss" where
  "exec_sc cv pl w = bind_m (RegFile_at (rs1 w)) (\<lambda>addr.
     then_m (trap_check_addr_alignment cv 4 False addr)
     (bind_m (RegFile_at (rs2 w)) (\<lambda>val.
      then_m (RegFile_write cv (rd w) (REG_ONE cv))
      (then_m (bind_m (atomic_store_conditional_word pl addr val) (\<lambda>ok.
           RegFile_write cv (rd w) (if ok then REG_ZERO cv else REG_ONE cv)))
        (modify_m (\<lambda>h. h\<lparr>h_lr_sc_counter := 0\<rparr>))))))"

definition exec_rv32a ::
  "('v, 'e) clover \<Rightarrow> ('v, 'e, 'm) platform \<Rightarrow> u32 \<Rightarrow> rv32a \<Rightarrow> ('v, 'e, 'm, unit) iss" where
  "exec_rv32a cv pl w i = then_m (require_isa A_ISA_EXT) (case i of
       LR_W \<Rightarrow> exec_lr cv pl w
     | SC_W \<Rightarrow> exec_sc cv pl w
     | AMOSWAP_W \<Rightarrow> execute_amo cv pl w (\<lambda>a b. b)
     | AMOADD_W \<Rightarrow> execute_amo cv pl w (c_add cv)
     | AMOXOR_W \<Rightarrow> execute_amo cv pl w (c_bxor cv)
     | AMOAND_W \<Rightarrow> execute_amo cv pl w (c_band cv)
     | AMOOR_W \<Rightarrow> execute_amo cv pl w (c_bor cv)
     | AMOMIN_W \<Rightarrow> execute_amo cv pl w (\<lambda>a b. c_select cv (c_sge cv a b) b a)
     | AMOMINU_W \<Rightarrow> execute_amo cv pl w (\<lambda>a b. c_select cv (c_uge cv a b) b a)
     | AMOMAX_W \<Rightarrow> execute_amo cv pl w (\<lambda>a b. c_select cv (c_sge cv a b) a b)
     | AMOMAXU_W \<Rightarrow> execute_amo cv pl w (\<lambda>a b. c_select cv (c_uge cv a b) a b))"

section \<open>Privileged instructions\<close>

definition exec_wfi :: "('v, 'e, 'm) platform \<Rightarrow> ('v, 'e, 'm, unit) iss" where
  "exec_wfi pl = then_m (release_lr_sc_reservation pl)
     (bind_m (gets_m (\<lambda>h. h)) (\<lambda>h.
      then_m (when_m (h_prv h = SupervisorMode \<and> bf_get mstatus_tw (mstatus_reg (h_csrs h)) \<noteq> 0)
                raise_illegal_instruction)
      (then_m (when_m (h_prv h = UserMode \<and> has_supervisor_mode_extension (h_csrs h))
                raise_illegal_instruction)
        (when_m (\<not> h_ignore_wfi h \<and> \<not> has_local_pending_enabled_interrupts h) (wait_wfi_event pl)))))"

definition unknown_opcode :: "('s, 'a) smonad" where
  "unknown_opcode = throw_m (RuntimeError ''unknown opcode'')"

definition exec_privileged :: "('v, 'e, 'm) platform \<Rightarrow> privileged \<Rightarrow> ('v, 'e, 'm, unit) iss" where
  "exec_privileged pl i = (case i of
       WFI \<Rightarrow> exec_wfi pl
     | MRET \<Rightarrow> return_from_trap_handler MachineMode
     | _ \<Rightarrow> unknown_opcode)"

section \<open>ISS::exec\_step\<close>

definition exec_op ::
  "('v, 'e) clover \<Rightarrow> ('v, 'e, 'm) platform \<Rightarrow> u32 \<Rightarrow> Mapping \<Rightarrow> ('v, 'e, 'm, unit) iss" where
  "exec_op cv pl w op = (case op of
       UNDEF \<Rightarrow> raise_trap EXC_ILLEGAL_INSTR (ucast w)
     | OpI i \<Rightarrow> exec_rv32i cv pl w i
     | OpZifencei i \<Rightarrow> return_m ()
     | OpZicsr i \<Rightarrow> exec_zicsr cv pl w i
     | OpM i \<Rightarrow> exec_rv32m cv w i
     | OpA i \<Rightarrow> exec_rv32a cv pl w i
     | OpPriv i \<Rightarrow> exec_privileged pl i
     | _ \<Rightarrow> unknown_opcode)"

definition fetch_instr :: "('v, 'e, 'm) platform \<Rightarrow> ('v, 'e, 'm, unit) iss" where
  "fetch_instr pl = bind_m (gets_m h_pc) (\<lambda>p.
     bind_m (catch_m (load_instr pl (ucast p)) (\<lambda>e. case e of
         SimulationTrap _ _ \<Rightarrow> then_m (modify_m (\<lambda>h. h\<lparr>h_op := UNDEF, h_instr := 0\<rparr>)) (throw_m e)
       | _ \<Rightarrow> throw_m e)) (\<lambda>mem_word.
       modify_m (\<lambda>h. h\<lparr>h_instr := mem_word\<rparr>)))"

definition decode_instr :: "('v, 'e, 'm, unit) iss" where
  "decode_instr = bind_m (gets_m h_instr) (\<lambda>w.
     if is_compressed w then
       bind_m (lift_sum (decode_and_expand_compressed w RV32)) (\<lambda>(op, w').
       then_m (modify_m (\<lambda>h. h\<lparr>h_instr := w', h_op := op, h_pc := h_pc h + 2\<rparr>))
         (when_m (op \<noteq> UNDEF) (require_isa C_ISA_EXT)))
     else modify_m (\<lambda>h. h\<lparr>h_op := decode_normal w RV32, h_pc := h_pc h + 4\<rparr>))"

definition exec_step :: "('v, 'e) clover \<Rightarrow> ('v, 'e, 'm) platform \<Rightarrow> ('v, 'e, 'm, unit) iss" where
  "exec_step cv pl =
     then_m (bind_m (gets_m (\<lambda>h. h)) (\<lambda>h.
        assert_m ''misaligned instruction'' (h_pc h AND NOT (pc_alignment_mask (h_csrs h)) = 0)))
     (then_m (fetch_instr pl)
     (then_m decode_instr
       (bind_m (gets_m (\<lambda>h. h)) (\<lambda>h. exec_op cv pl (h_instr h) (h_op h)))))"

section \<open>ISS::run\_step and ISS::run\<close>

definition take_interrupts :: "('v, 'e, 'm) platform \<Rightarrow> ('v, 'e, 'm, unit) iss" where
  "take_interrupts pl = bind_m (gets_m compute_pending_interrupts) (\<lambda>x.
     when_m (target_mode x \<noteq> NoneMode)
       (then_m (prepare_interrupt x) (switch_to_trap_handler pl (target_mode x))))"

definition handle_trap :: "('v, 'e, 'm) platform \<Rightarrow> error \<Rightarrow> ('v, 'e, 'm, unit) iss" where
  "handle_trap pl e = (case e of
       SimulationTrap reason mtval \<Rightarrow>
         bind_m (prepare_trap reason mtval) (\<lambda>mode. switch_to_trap_handler pl mode)
     | _ \<Rightarrow> throw_m e)"

definition run_step :: "('v, 'e) clover \<Rightarrow> ('v, 'e, 'm) platform \<Rightarrow> ('v, 'e, 'm, unit) iss" where
  "run_step cv pl =
     then_m (bind_m (RegFile_read 0) (\<lambda>r. assert_m ''x0 == 0'' (getValue cv r = 0)))
     (bind_m (gets_m (\<lambda>h. h)) (\<lambda>h.
       if h_debug_mode h \<and> h_pc h \<in> h_breakpoints h then set_status HitBreakpoint
       else
         then_m (modify_m (\<lambda>h. h\<lparr>h_last_pc := h_pc h\<rparr>))
         (then_m (catch_m (then_m (exec_step cv pl) (take_interrupts pl)) (handle_trap pl))
         (then_m (RegFile_write cv 0 (BVC cv 0))
         (then_m (modify_m (\<lambda>h. if h_shall_exit h then h\<lparr>h_status := Terminated\<rparr> else h))
           (bind_m (gets_m h_op) (\<lambda>op. performance_and_sync_update pl op)))))))"

text \<open>
  \<^verbatim>\<open>ISS::run\<close> loops until the status is no longer \<open>Runnable\<close>; the result is \<open>None\<close> when \<open>fuel\<close>
  iterations did not end the loop.
\<close>

fun run :: "('v, 'e) clover \<Rightarrow> ('v, 'e, 'm) platform \<Rightarrow> nat \<Rightarrow> ('v, 'e, 'm) hart \<Rightarrow>
    ((error + unit) \<times> ('v, 'e, 'm) hart) option" where
    "run cv pl 0 h = None"
  | "run cv pl (Suc fuel) h = (case run_step cv pl h of
        (Inl e, h') \<Rightarrow> Some (Inl e, h')
      | (Inr _, h') \<Rightarrow>
          if h_status h' = Runnable then run cv pl fuel h' else Some (quantum_sync pl h'))"

text \<open>\<^verbatim>\<open>DirectCoreRunner::run\<close>, the runner without a debugger; it stops the simulation at the end.\<close>

definition DirectCoreRunner_run ::
  "('v, 'e) clover \<Rightarrow> ('v, 'e, 'm) platform \<Rightarrow> nat \<Rightarrow> ('v, 'e, 'm) hart \<Rightarrow> ((error + unit) \<times> ('v, 'e, 'm) hart) option" where
  "DirectCoreRunner_run cv pl fuel h = (case run cv pl fuel h of
     None \<Rightarrow> None
   | Some (Inl e, h') \<Rightarrow> Some (Inl e, h')
   | Some (Inr _, h') \<Rightarrow>
       if h_status h' = HitBreakpoint then Some (Inl (RuntimeError
         ''Breakpoints are not supported in the direct runner, use the debug runner instead.''), h')
       else if h_status h' \<noteq> Terminated then Some (Inl (AssertFail ''core.status == CoreExecStatus::Terminated''), h')
       else Some (Inr (), h'))"

end
