(* ===== verification/Clover_Words.thy ===== *)
theory Clover_Words
  imports Clover
begin

text \<open>
  Concolic values of width 32 as machine words: \<open>val32 ev a v\<close> is the word a value denotes under
  the assignment \<open>a\<close>. The lemmas of the context \<open>clover_laws\<close> turn every clover operation of the
  instruction set simulator into the corresponding operation on words.
\<close>

definition val32 :: "('a \<Rightarrow> 'v \<Rightarrow> nat) \<Rightarrow> 'a \<Rightarrow> 'v \<Rightarrow> u32" where
  "val32 ev a v = word_of_nat (ev a v)"

section \<open>Bit vectors and words\<close>

lemma word_of_nat_take_bit32: "(word_of_nat (take_bit 32 n) :: u32) = word_of_nat n"
  by (simp add: word_of_nat_eq_iff)

lemma word_of_nat_mod32: "(word_of_nat (n mod 4294967296) :: u32) = word_of_nat n"
  using word_of_nat_take_bit32 [of n] by (simp add: take_bit_eq_mod)

lemma word_of_nat_bv_of_int: "(word_of_nat (bv_of_int w i) :: u32) = word_of_int (take_bit w i)"
proof -
  have "int (bv_of_int w i) = take_bit w i"
    by (simp add: bv_of_int_def take_bit_eq_mod)
  then show ?thesis by (metis of_int_of_nat_eq)
qed

lemma word_of_int_take_bit32: "(word_of_int (take_bit 32 i) :: u32) = word_of_int i"
  by (simp add: word_of_int_eq_iff)

lemma word_of_nat_bv_of_int32: "(word_of_nat (bv_of_int 32 i) :: u32) = word_of_int i"
  by (simp add: word_of_nat_bv_of_int word_of_int_eq_iff)

lemma unat_word_of_nat32: "n < 4294967296 \<Longrightarrow> unat (word_of_nat n :: u32) = n"
  by (simp add: unsigned_of_nat take_bit_nat_eq_self_iff)

lemma sint_word_of_int32: "- 2147483648 \<le> i \<Longrightarrow> i < 2147483648 \<Longrightarrow> sint (word_of_int i :: u32) = i"
  by (simp add: signed_of_int signed_take_bit_int_eq_self)

lemma bv_signed32:
  assumes "n < 4294967296"
  shows "bv_signed 32 n = sint (word_of_nat n :: u32)"
proof -
  have "(word_of_int (bv_signed 32 n) :: u32) = word_of_nat n"
    by (simp add: bv_signed_def)
  moreover have "- 2147483648 \<le> bv_signed 32 n" "bv_signed 32 n < 2147483648"
    using assms by (auto simp: bv_signed_def)
  ultimately show ?thesis by (metis sint_word_of_int32)
qed

lemma word_of_nat_eq32:
  "m < 4294967296 \<Longrightarrow> n < 4294967296 \<Longrightarrow> (word_of_nat m = (word_of_nat n :: u32)) \<longleftrightarrow> m = n"
  by (simp add: word_of_nat_eq_iff take_bit_nat_eq_self)

lemma word_of_nat_less32:
  "m < 4294967296 \<Longrightarrow> n < 4294967296 \<Longrightarrow> (word_of_nat m < (word_of_nat n :: u32)) \<longleftrightarrow> m < n"
  by (simp add: word_less_nat_alt unat_word_of_nat32)

lemma word_of_nat_bitwise:
  "(word_of_nat (m AND n) :: u32) = word_of_nat m AND word_of_nat n"
  "(word_of_nat (m OR n) :: u32) = word_of_nat m OR word_of_nat n"
  "(word_of_nat (m XOR n) :: u32) = word_of_nat m XOR word_of_nat n"
  by (rule bit_word_eqI; simp add: bit_simps)+

lemma word_of_nat_shifts:
  "n < 32 \<Longrightarrow> (word_of_nat (bv_lshl 32 m n) :: u32) = push_bit n (word_of_nat m)"
  "n < 32 \<Longrightarrow> m < 4294967296 \<Longrightarrow> (word_of_nat (bv_lshr 32 m n) :: u32) = drop_bit n (word_of_nat m)"
  "n < 32 \<Longrightarrow> m < 4294967296 \<Longrightarrow> (word_of_nat (bv_ashr 32 m n) :: u32) = signed_drop_bit n (word_of_nat m)"
  subgoal by (simp add: bv_lshl_def word_of_nat_take_bit32 push_bit_eq_mult)
  subgoal by (simp only: bv_lshr_def if_True word_unat_eq_iff unsigned_drop_bit_eq)
      (simp add: unsigned_of_nat take_bit_nat_eq_self drop_bit_eq_div le_less_trans [OF div_le_dividend])
  subgoal by (simp add: bv_ashr_def word_of_nat_bv_of_int32 bv_signed32 flip: sint_signed_drop_bit_eq)
  done

lemma word_mulh:
  "(word_of_nat (take_bit 32 (drop_bit 32 ((bv_of_int 64 i * bv_of_int 64 j) mod 2 ^ 64))) :: u32) =
     word_of_int (drop_bit 32 (i * j))"
proof -
  have "int ((bv_of_int 64 i * bv_of_int 64 j) mod 2 ^ 64) = take_bit 64 (i * j)"
    by (simp add: bv_of_int_def take_bit_eq_mod zmod_int mod_mult_eq)
  then have "int (take_bit 32 (drop_bit 32 ((bv_of_int 64 i * bv_of_int 64 j) mod 2 ^ 64))) =
      take_bit 32 (drop_bit 32 (i * j))"
    by (simp only: of_nat_take_bit of_nat_drop_bit) (simp add: drop_bit_take_bit)
  then have "(word_of_nat (take_bit 32 (drop_bit 32 ((bv_of_int 64 i * bv_of_int 64 j) mod 2 ^ 64))) :: u32) =
      word_of_int (take_bit 32 (drop_bit 32 (i * j)))"
    by (metis of_int_of_nat_eq)
  then show ?thesis by (simp only: word_of_int_take_bit32)
qed

section \<open>The clover operations on 32-bit values\<close>

context clover_laws
begin

lemma ev32_less: "getWidth cv x = 32 \<Longrightarrow> ev a x < 4294967296"
  using ev_bound [of a x] by simp

lemma val32_BVC: "val32 ev a (BVC cv k) = k"
  using BVC_law [of k a] by (simp add: val32_def)

lemma val32_getValue: "getValue cv x = val32 ev cur x"
  by (simp add: getValue_law val32_def)

lemma unat_val32: "getWidth cv x = 32 \<Longrightarrow> unat (val32 ev a x) = ev a x"
  by (simp add: val32_def unat_word_of_nat32 ev32_less)

lemma signed_val32: "getWidth cv x = 32 \<Longrightarrow> bv_signed 32 (ev a x) = sint (val32 ev a x)"
  by (simp add: val32_def bv_signed32 ev32_less)

lemma width_binop:
  assumes "getWidth cv x = w" and "getWidth cv y = w"
  shows "getWidth cv (c_add cv x y) = w" "getWidth cv (c_sub cv x y) = w"
    "getWidth cv (c_mul cv x y) = w" "getWidth cv (c_sdiv cv x y) = w"
    "getWidth cv (c_udiv cv x y) = w" "getWidth cv (c_srem cv x y) = w"
    "getWidth cv (c_urem cv x y) = w" "getWidth cv (c_band cv x y) = w"
    "getWidth cv (c_bor cv x y) = w" "getWidth cv (c_bxor cv x y) = w"
    "getWidth cv (c_lshl cv x y) = w" "getWidth cv (c_lshr cv x y) = w"
    "getWidth cv (c_ashr cv x y) = w"
  using binop_width [OF assms] by simp_all

lemma width_relop:
  assumes "getWidth cv x = w" and "getWidth cv y = w"
  shows "getWidth cv (c_eq cv x y) = 1" "getWidth cv (c_ne cv x y) = 1"
    "getWidth cv (c_slt cv x y) = 1" "getWidth cv (c_sge cv x y) = 1"
    "getWidth cv (c_ult cv x y) = 1" "getWidth cv (c_uge cv x y) = 1"
  using relop_width [OF assms] by simp_all

lemma val32_arith:
  assumes "getWidth cv x = 32" and "getWidth cv y = 32"
  shows "val32 ev a (c_add cv x y) = val32 ev a x + val32 ev a y"
    and "val32 ev a (c_sub cv x y) = val32 ev a x - val32 ev a y"
    and "val32 ev a (c_band cv x y) = (val32 ev a x AND val32 ev a y)"
    and "val32 ev a (c_bor cv x y) = (val32 ev a x OR val32 ev a y)"
    and "val32 ev a (c_bxor cv x y) = (val32 ev a x XOR val32 ev a y)"
  using arith_law [OF assms, of a] bitwise_law [OF assms, of a]
  by (simp_all add: val32_def word_of_nat_mod32 bv_sub_def word_of_nat_bv_of_int32 word_of_nat_bitwise)

lemma val32_shift:
  assumes "getWidth cv x = 32" and "getWidth cv y = 32" and "ev a y < 32"
  shows "val32 ev a (c_lshl cv x y) = push_bit (ev a y) (val32 ev a x)"
    and "val32 ev a (c_lshr cv x y) = drop_bit (ev a y) (val32 ev a x)"
    and "val32 ev a (c_ashr cv x y) = signed_drop_bit (ev a y) (val32 ev a x)"
  using shift_law [OF assms(1,2), of a] assms
  by (simp_all add: val32_def word_of_nat_shifts ev32_less)

lemma ev_relop32:
  assumes "getWidth cv x = 32" and "getWidth cv y = 32"
  shows "ev a (c_eq cv x y) = of_bool (val32 ev a x = val32 ev a y)"
    and "ev a (c_ne cv x y) = of_bool (val32 ev a x \<noteq> val32 ev a y)"
    and "ev a (c_ult cv x y) = of_bool (val32 ev a x < val32 ev a y)"
    and "ev a (c_uge cv x y) = of_bool (val32 ev a x \<ge> val32 ev a y)"
    and "ev a (c_slt cv x y) = of_bool (sint (val32 ev a x) < sint (val32 ev a y))"
    and "ev a (c_sge cv x y) = of_bool (sint (val32 ev a x) \<ge> sint (val32 ev a y))"
  using eq_law [OF assms, of a] order_law [OF assms, of a] ev32_less [OF assms(1)] ev32_less [OF assms(2)]
  by (simp_all add: val32_def word_of_nat_eq32 word_of_nat_less32 bv_signed32 flip: not_less)

lemma val32_div:
  assumes "getWidth cv x = 32" and "getWidth cv y = 32" and "val32 ev a y \<noteq> 0"
  shows "val32 ev a (c_udiv cv x y) = val32 ev a x div val32 ev a y"
    and "val32 ev a (c_urem cv x y) = val32 ev a x mod val32 ev a y"
    and "val32 ev a (c_sdiv cv x y) = word_of_int (sint (val32 ev a x) sdiv sint (val32 ev a y))"
    and "val32 ev a (c_srem cv x y) = word_of_int (sint (val32 ev a x) smod sint (val32 ev a y))"
proof -
  have "ev a y \<noteq> 0"
  proof
    assume "ev a y = 0"
    then have "val32 ev a y = 0" by (simp add: val32_def)
    with assms(3) show False by simp
  qed
  note law = div_law [OF assms(1,2) this]
  show "val32 ev a (c_udiv cv x y) = val32 ev a x div val32 ev a y"
    "val32 ev a (c_urem cv x y) = val32 ev a x mod val32 ev a y"
    using law unat_val32 [OF assms(1), of a] unat_val32 [OF assms(2), of a]
    by (simp_all add: val32_def word_arith_nat_div word_arith_nat_mod)
  show "val32 ev a (c_sdiv cv x y) = word_of_int (sint (val32 ev a x) sdiv sint (val32 ev a y))"
    "val32 ev a (c_srem cv x y) = word_of_int (sint (val32 ev a x) smod sint (val32 ev a y))"
    using law signed_val32 [OF assms(1), of a] signed_val32 [OF assms(2), of a]
    by (simp_all add: val32_def bv_sdiv_def bv_srem_def word_of_nat_bv_of_int32)
qed

lemma val32_sext32:
  assumes "getWidth cv x = 32"
  shows "getWidth cv (c_sext cv x 32) = 32" "val32 ev a (c_sext cv x 32) = val32 ev a x"
  using ext_law [of x 32 a] assms
  by (simp_all add: val32_def word_of_nat_bv_of_int32 bv_signed32 ev32_less)

lemma val32_zext:
  assumes "getWidth cv x \<le> 32"
  shows "getWidth cv (c_zext cv x 32) = 32" "val32 ev a (c_zext cv x 32) = val32 ev a x"
  using ext_law [of x 32 a] assms by (simp_all add: val32_def)

lemma val32_mulh:
  assumes x: "getWidth cv x = 32" and y: "getWidth cv y = 32"
  defines "hi \<equiv> \<lambda>u v. c_extract cv (c_mul cv u v) 32 32"
  shows "getWidth cv (hi (c_sext cv x 64) (c_sext cv y 64)) = 32"
    and "val32 ev a (hi (c_sext cv x 64) (c_sext cv y 64)) =
      word_of_int (drop_bit 32 (sint (val32 ev a x) * sint (val32 ev a y)))"
    and "getWidth cv (hi (c_zext cv x 64) (c_zext cv y 64)) = 32"
    and "val32 ev a (hi (c_zext cv x 64) (c_zext cv y 64)) =
      word_of_int (drop_bit 32 (uint (val32 ev a x) * uint (val32 ev a y)))"
    and "getWidth cv (hi (c_sext cv x 64) (c_zext cv y 64)) = 32"
    and "val32 ev a (hi (c_sext cv x 64) (c_zext cv y 64)) =
      word_of_int (drop_bit 32 (sint (val32 ev a x) * uint (val32 ev a y)))"
proof -
  have z: "ev a (c_zext cv v 64) = bv_of_int 64 (uint (val32 ev a v))" if "getWidth cv v = 32" for v
    using ext_law [of v 64 a] that ev32_less [OF that, of a]
    by (simp add: bv_of_int_def uint_nat unat_val32)
  have s: "ev a (c_sext cv v 64) = bv_of_int 64 (sint (val32 ev a v))" if "getWidth cv v = 32" for v
    using ext_law [of v 64 a] that by (simp add: signed_val32)
  have w: "getWidth cv (c_zext cv v 64) = 64 \<and> getWidth cv (c_sext cv v 64) = 64"
    if "getWidth cv v = 32" for v
    using ext_law [of v 64 a] that by simp
  have hi: "getWidth cv (hi u v) = 32 \<and>
      val32 ev a (hi u v) = word_of_nat (take_bit 32 (drop_bit 32 ((ev a u * ev a v) mod 2 ^ 64)))"
    if "getWidth cv u = 64" "getWidth cv v = 64" for u v
    using extract_law [of 32 32 "c_mul cv u v" a] arith_law [OF that, of a] width_binop(3) [OF that]
    by (simp add: hi_def val32_def)
  show "getWidth cv (hi (c_sext cv x 64) (c_sext cv y 64)) = 32"
    "getWidth cv (hi (c_zext cv x 64) (c_zext cv y 64)) = 32"
    "getWidth cv (hi (c_sext cv x 64) (c_zext cv y 64)) = 32"
    using hi w [OF x] w [OF y] by simp_all
  show "val32 ev a (hi (c_sext cv x 64) (c_sext cv y 64)) =
      word_of_int (drop_bit 32 (sint (val32 ev a x) * sint (val32 ev a y)))"
    "val32 ev a (hi (c_zext cv x 64) (c_zext cv y 64)) =
      word_of_int (drop_bit 32 (uint (val32 ev a x) * uint (val32 ev a y)))"
    "val32 ev a (hi (c_sext cv x 64) (c_zext cv y 64)) =
      word_of_int (drop_bit 32 (sint (val32 ev a x) * uint (val32 ev a y)))"
    using hi w [OF x] w [OF y] by (simp_all only: s [OF x] s [OF y] z [OF x] z [OF y] word_mulh)
qed

end

end
