(* ===== verification/Iss_Inv.thy ===== *)
theory Iss_Inv
  imports Iss_Exec Clover_Words
begin

text \<open>
  The invariant of a hart and the contract of its platform. \<open>platform_laws\<close> is what the core relies
  on from the interfaces it calls: they change only the outside of the core, the pending-interrupt
  bits and the exit request, loads deliver 32-bit values, traps carry an exception code, and the
  calls into the simulation kernel raise none. Together with the clover laws it makes up the
  locale \<open>iss_core\<close>, in which every step of the simulator is shown to keep the invariant
  \<open>hart_inv\<close>: register file shape, aligned program counters, legal interrupt enables, bounded
  reservation counter and a recorded path condition that holds for the current inputs.
\<close>

section \<open>The platform's contract\<close>

definition outside :: "('v, 'e, 'm) hart \<Rightarrow> ('v, 'e, 'm) hart \<Rightarrow> bool" where
  "outside h h' \<longleftrightarrow>
     h'\<lparr>h_world := h_world h, h_csrs := (h_csrs h')\<lparr>mip_reg := mip_reg (h_csrs h)\<rparr>,
        h_shall_exit := h_shall_exit h\<rparr> = h"

definition platform_error :: "(error \<Rightarrow> bool) \<Rightarrow> error \<Rightarrow> bool" where
  "platform_error PE e = (case e of SimulationTrap r v \<Rightarrow> r < 16 | _ \<Rightarrow> PE e)"

definition contained ::
  "(error \<Rightarrow> bool) \<Rightarrow> ('v, 'e, 'm, 'a) iss \<Rightarrow> ('a \<Rightarrow> bool) \<Rightarrow> bool" where
  "contained E m Q \<longleftrightarrow> (\<forall>h. case m h of
      (Inl e, h') \<Rightarrow> E e \<and> outside h h'
    | (Inr x, h') \<Rightarrow> Q x \<and> outside h h')"

locale platform_laws =
  fixes cv :: "('v, 'e) clover"
    and pl :: "('v, 'e, 'm) platform"
    and PE :: "error \<Rightarrow> bool"
  assumes no_trap: "PE e \<Longrightarrow> \<not> (\<exists>r v. e = SimulationTrap r v)"
    and fetch_law: "contained (platform_error PE) (load_instr pl p) (\<lambda>_. True)"
    and load_laws: "contained (platform_error PE) (load_word pl x) (\<lambda>v. getWidth cv v = 32)"
      "contained (platform_error PE) (load_half pl x) (\<lambda>v. getWidth cv v = 32)"
      "contained (platform_error PE) (load_byte pl x) (\<lambda>v. getWidth cv v = 32)"
      "contained (platform_error PE) (load_uhalf pl x) (\<lambda>v. getWidth cv v = 32)"
      "contained (platform_error PE) (load_ubyte pl x) (\<lambda>v. getWidth cv v = 32)"
      "contained (platform_error PE) (atomic_load_word pl x) (\<lambda>v. getWidth cv v = 32)"
      "contained (platform_error PE) (atomic_load_reserved_word pl x) (\<lambda>v. getWidth cv v = 32)"
    and store_laws: "contained (platform_error PE) (store_word pl x y) (\<lambda>_. True)"
      "contained (platform_error PE) (store_half pl x y) (\<lambda>_. True)"
      "contained (platform_error PE) (store_byte pl x y) (\<lambda>_. True)"
      "contained (platform_error PE) (atomic_store_word pl x y) (\<lambda>_. True)"
      "contained (platform_error PE) (atomic_store_conditional_word pl x y) (\<lambda>_. True)"
    and kernel_laws: "contained PE (atomic_unlock pl) (\<lambda>_. True)"
      "contained PE (update_and_get_mtime pl) (\<lambda>_. True)"
      "contained PE (wait_wfi_event pl) (\<lambda>_. True)"
      "contained PE (quantum_inc pl t) (\<lambda>_. True)"
      "contained PE (quantum_need_sync pl) (\<lambda>_. True)"
      "contained PE (quantum_sync pl) (\<lambda>_. True)"

section \<open>The invariant of a hart\<close>

definition even_pcs :: "('v, 'e, 'm) hart \<Rightarrow> bool" where
  "even_pcs h \<longleftrightarrow> h_pc h AND 1 = 0 \<and> h_last_pc h AND 1 = 0 \<and> mepc_reg (h_csrs h) AND 1 = 0 \<and>
     sepc_reg (h_csrs h) AND 1 = 0 \<and> uepc_reg (h_csrs h) AND 1 = 0"

definition csrs_wf :: "csr_table \<Rightarrow> bool" where
  "csrs_wf c \<longleftrightarrow> has_C_extension c \<and> mie_reg c AND NOT MIE_MASK = 0 \<and>
     length (pmpaddr_reg c) = 16 \<and> length (pmpcfg_reg c) = 4"

definition trace_sound :: "('a \<Rightarrow> 'e \<Rightarrow> nat) \<Rightarrow> 'a \<Rightarrow> ('v, 'e, 'm) hart \<Rightarrow> bool" where
  "trace_sound sem a h \<longleftrightarrow> (\<forall>(cond, e, p) \<in> set (h_tracer h). (sem a e = 1) = cond)"

definition regs_wf :: "('v, 'e) clover \<Rightarrow> 'v list \<Rightarrow> bool" where
  "regs_wf cv rs \<longleftrightarrow> length rs = 32 \<and> (\<forall>v \<in> set rs. getWidth cv v = 32)"

definition hart_inv ::
  "('v, 'e) clover \<Rightarrow> ('a \<Rightarrow> 'e \<Rightarrow> nat) \<Rightarrow> 'a \<Rightarrow> ('v, 'e, 'm) hart \<Rightarrow> bool" where
  "hart_inv cv sem cur h \<longleftrightarrow> regs_wf cv (h_regs h) \<and> even_pcs h \<and> csrs_wf (h_csrs h) \<and>
     0 \<le> h_lr_sc_counter h \<and> h_lr_sc_counter h \<le> 17 \<and> trace_sound sem cur h"

definition x0_zero :: "('v, 'e) clover \<Rightarrow> ('v, 'e, 'm) hart \<Rightarrow> bool" where
  "x0_zero cv h \<longleftrightarrow> getValue cv (h_regs h ! 0) = 0"

text \<open>
  The errors a step may end with: the simulator's own messages, or whatever the platform's
  interfaces throw.
\<close>

definition core_error :: "(error \<Rightarrow> bool) \<Rightarrow> error \<Rightarrow> bool" where
  "core_error PE e \<longleftrightarrow> PE e \<or> e = RuntimeError ''unknown opcode'' \<or>
     e = RuntimeError ''bad lexical cast'' \<or> e = AssertFail ''prv == UserMode'' \<or>
     e = AssertFail ''cycle_counter % cycle_time == 0'' \<or>
     (\<exists>p :: u32. e = RuntimeError (''unknown privilege level '' @ to_string p))"

definition step_error :: "(error \<Rightarrow> bool) \<Rightarrow> error \<Rightarrow> bool" where
  "step_error PE e = (case e of SimulationTrap r v \<Rightarrow> r < 16 | _ \<Rightarrow> core_error PE e)"

lemma step_error_simps [simp]:
  "step_error PE (SimulationTrap r v) \<longleftrightarrow> r < 16"
  "step_error PE (RuntimeError ''unknown opcode'')"
  "step_error PE (RuntimeError ''bad lexical cast'')"
  "step_error PE (AssertFail ''cycle_counter % cycle_time == 0'')"
  "step_error PE (RuntimeError (''unknown privilege level '' @ to_string (p :: u32)))"
  by (auto simp: step_error_def core_error_def)

lemma core_error_simps [simp]:
  "core_error PE (RuntimeError ''bad lexical cast'')"
  "core_error PE (RuntimeError (''unknown privilege level '' @ to_string (p :: u32)))"
  by (auto simp: core_error_def)

lemma core_step_error: "core_error PE e \<Longrightarrow> (\<And>r v. e \<noteq> SimulationTrap r v) \<Longrightarrow> step_error PE e"
  by (cases e) (auto simp: step_error_def)

lemma outside_fields:
  assumes "outside h h'"
  shows "h_regs h' = h_regs h" "h_pc h' = h_pc h" "h_last_pc h' = h_last_pc h"
    "h_prv h' = h_prv h" "h_lr_sc_counter h' = h_lr_sc_counter h" "h_instr h' = h_instr h"
    "h_op h' = h_op h" "h_tracer h' = h_tracer h" "h_status h' = h_status h"
    "(h_csrs h')\<lparr>mip_reg := mip_reg (h_csrs h)\<rparr> = h_csrs h"
  using arg_cong [OF assms [unfolded outside_def], of h_regs]
    arg_cong [OF assms [unfolded outside_def], of h_pc]
    arg_cong [OF assms [unfolded outside_def], of h_last_pc]
    arg_cong [OF assms [unfolded outside_def], of h_prv]
    arg_cong [OF assms [unfolded outside_def], of h_lr_sc_counter]
    arg_cong [OF assms [unfolded outside_def], of h_instr]
    arg_cong [OF assms [unfolded outside_def], of h_op]
    arg_cong [OF assms [unfolded outside_def], of h_tracer]
    arg_cong [OF assms [unfolded outside_def], of h_status]
    arg_cong [OF assms [unfolded outside_def], of h_csrs]
  by simp_all

lemma outside_csrs:
  assumes "outside h h'"
  shows "mepc_reg (h_csrs h') = mepc_reg (h_csrs h)" "sepc_reg (h_csrs h') = sepc_reg (h_csrs h)"
    "uepc_reg (h_csrs h') = uepc_reg (h_csrs h)" "misa_reg (h_csrs h') = misa_reg (h_csrs h)"
    "mie_reg (h_csrs h') = mie_reg (h_csrs h)" "pmpaddr_reg (h_csrs h') = pmpaddr_reg (h_csrs h)"
    "pmpcfg_reg (h_csrs h') = pmpcfg_reg (h_csrs h)"
  using arg_cong [OF outside_fields(10) [OF assms], of mepc_reg]
    arg_cong [OF outside_fields(10) [OF assms], of sepc_reg]
    arg_cong [OF outside_fields(10) [OF assms], of uepc_reg]
    arg_cong [OF outside_fields(10) [OF assms], of misa_reg]
    arg_cong [OF outside_fields(10) [OF assms], of mie_reg]
    arg_cong [OF outside_fields(10) [OF assms], of pmpaddr_reg]
    arg_cong [OF outside_fields(10) [OF assms], of pmpcfg_reg]
  by simp_all

lemmas inv_defs = hart_inv_def regs_wf_def even_pcs_def csrs_wf_def trace_sound_def

lemma outside_inv: "outside h h' \<Longrightarrow> hart_inv cv sem cur h \<Longrightarrow> hart_inv cv sem cur h'"
  by (simp add: inv_defs outside_fields outside_csrs has_C_extension_def)

lemma contained_safe:
  assumes "contained E m Q" and "\<And>e. E e \<Longrightarrow> E' e" and "\<And>h h'. outside h h' \<Longrightarrow> I h \<Longrightarrow> I h'"
  shows "safe E' I m Q"
proof (rule safeI)
  fix s e s' assume "I s" and "m s = (Inl e, s')"
  with assms(1) [unfolded contained_def, rule_format, of s] show "E' e \<and> I s'"
    using assms(2,3) by auto
next
  fix s x s' assume "I s" and "m s = (Inr x, s')"
  with assms(1) [unfolded contained_def, rule_format, of s] show "Q x \<and> I s'"
    using assms(3) by auto
qed

section \<open>Alignment\<close>

lemma even_word: "(x :: u32) AND 1 = 0 \<longleftrightarrow> even x"
  by (simp add: and_one_eq even_iff_mod_2_eq_zero)

lemma even_imms: "even (J_imm w)" "even (B_imm w)"
  using bit_0 [of "J_imm w"] bit_0 [of "B_imm w"]
  by (simp_all add: J_imm_def B_imm_def instr_bits bit_or_iff)

lemma even_trap_vector: "even (trap_vector tvec cause)"
  by (simp add: trap_vector_def get_base_address_def push_bit_eq_mult)

lemma even_masked_write: "even reg \<Longrightarrow> even (masked_write (- 2) value reg)"
  by (simp add: masked_write_def even_or_iff even_and_iff)

lemma pc_mask_C: "has_C_extension c \<Longrightarrow> pc_alignment_mask c = - 2"
  by (simp add: pc_alignment_mask_def)

section \<open>CSR writes\<close>

lemma masked_write_within:
  assumes "reg AND NOT k = 0" and "m AND NOT k = 0"
  shows "masked_write m value reg AND NOT k = 0"
proof -
  have "masked_write m value reg AND NOT k =
      ((reg AND NOT k) AND NOT m) OR (value AND (m AND NOT k))"
    by (rule bit_word_eqI) (auto simp: masked_write_def bit_simps)
  then show ?thesis using assms by simp
qed

lemma mie_masked_write:
  assumes "reg AND - 3004 = (0 :: u32)"
  shows "masked_write MIE_MASK value reg AND - 3004 = 0"
    and "masked_write SIE_MASK value reg AND - 3004 = 0"
    and "masked_write UIE_MASK value reg AND - 3004 = 0"
  using masked_write_within [of reg MIE_MASK MIE_MASK] masked_write_within [of reg MIE_MASK SIE_MASK]
    masked_write_within [of reg MIE_MASK UIE_MASK] assms by simp_all

definition protected_csr :: "u32 \<Rightarrow> bool" where
  "protected_csr addr \<longleftrightarrow> addr \<in> {MISA_ADDR, MIE_ADDR, MEPC_ADDR, SEPC_ADDR, UEPC_ADDR}"

definition csr_frame :: "csr_table \<Rightarrow> csr_table \<Rightarrow> bool" where
  "csr_frame c' c \<longleftrightarrow> misa_reg c' = misa_reg c \<and> mie_reg c' = mie_reg c \<and> mepc_reg c' = mepc_reg c \<and>
    sepc_reg c' = sepc_reg c \<and> uepc_reg c' = uepc_reg c \<and>
    length (pmpaddr_reg c') = length (pmpaddr_reg c) \<and> length (pmpcfg_reg c') = length (pmpcfg_reg c)"

lemma register_mapping_frame:
  assumes "\<not> protected_csr addr"
  shows "pred_option (\<lambda>(rd, wr). \<forall>v c. csr_frame (wr v c) c) (register_mapping addr)"
  using assms unfolding register_mapping_def protected_csr_def
  by (simp add: if_distrib [of "pred_option _"] csr_frame_def split del: if_split cong: if_cong)

lemma default_write32_frame:
  assumes "default_write32 addr value c = Inr c'" and "\<not> protected_csr addr"
  shows "misa_reg c' = misa_reg c" "mie_reg c' = mie_reg c" "mepc_reg c' = mepc_reg c"
    "sepc_reg c' = sepc_reg c" "uepc_reg c' = uepc_reg c"
    "length (pmpaddr_reg c') = length (pmpaddr_reg c)" "length (pmpcfg_reg c') = length (pmpcfg_reg c)"
proof -
  have "csr_frame c' c"
    using assms(1) register_mapping_frame [OF assms(2)] by (auto simp: default_write32_def split: option.splits)
  then show "misa_reg c' = misa_reg c" "mie_reg c' = mie_reg c" "mepc_reg c' = mepc_reg c"
    "sepc_reg c' = sepc_reg c" "uepc_reg c' = uepc_reg c"
    "length (pmpaddr_reg c') = length (pmpaddr_reg c)" "length (pmpcfg_reg c') = length (pmpcfg_reg c)"
    by (simp_all add: csr_frame_def)
qed
lemma MIE_MASK_bits: "bit (MIE_MASK :: u32) n \<Longrightarrow> n \<in> {0, 1, 3, 4, 5, 7, 8, 9, 11}"
proof -
  assume b: "bit (MIE_MASK :: u32) n"
  have "take_bit 12 MIE_MASK = (MIE_MASK :: u32)" by simp
  with b have "n < 12" by (metis bit_take_bit_iff)
  then have "n \<in> set [0, 1, 2, 3, 4, 5, 6, 7, 8, 9, 10, 11]" 
    by (simp only: list.set insert_iff empty_iff) presburger
  with b show ?thesis by auto
qed

lemma interrupt_code_cases:
  assumes "bit p n" and "n \<in> {0, 1, 3, 4, 5, 7, 8, 9, 11}"
  shows "\<exists>exc. interrupt_code p = Inr exc \<and> exc < 16"
  using assms unfolding interrupt_code_def bf_get_single by auto

lemma pending_bits:
  assumes "p AND NOT MIE_MASK = 0" and "p \<noteq> 0"
  shows "\<exists>exc. interrupt_code p = Inr exc \<and> exc < 16"
proof -
  obtain n where n: "bit p n" using assms(2) by (auto simp: bit_eq_iff)
  have m: "bit (MIE_MASK :: u32) n"
  proof (rule ccontr)
    assume "\<not> bit (MIE_MASK :: u32) n"
    with n have "bit (p AND NOT MIE_MASK) n"
      using bit_imp_le_length [OF n] by (simp only: bit_and_iff bit_not_iff) simp
    with assms(1) show False by simp
  qed
  show ?thesis by (rule interrupt_code_cases [OF n MIE_MASK_bits [OF m]])
qed

locale iss_core = clover_laws cv ev sem cur + platform_laws cv pl PE
  for cv :: "('v, 'e) clover" and ev :: "'a \<Rightarrow> 'v \<Rightarrow> nat" and sem :: "'a \<Rightarrow> 'e \<Rightarrow> nat"
    and cur :: 'a and pl :: "('v, 'e, 'm) platform" and PE :: "error \<Rightarrow> bool"

context iss_core
begin

abbreviation inv :: "('v, 'e, 'm) hart \<Rightarrow> bool" where
  "inv \<equiv> hart_inv cv sem cur"

lemma platform_step_error: "platform_error PE e \<Longrightarrow> step_error PE e"
  by (cases e) (auto simp: platform_error_def step_error_def core_error_def)

lemma kernel_step_error: "PE e \<Longrightarrow> step_error PE e"
  using no_trap [of e] by (cases e) (auto simp: step_error_def core_error_def)

lemma kernel_core_error: "PE e \<Longrightarrow> core_error PE e"
  by (simp add: core_error_def)

lemma platform_safeI: "contained (platform_error PE) m Q \<Longrightarrow> safe (step_error PE) inv m Q"
  by (erule contained_safe) (blast intro: platform_step_error outside_inv)+

lemma kernel_safeI:
  "contained PE m Q \<Longrightarrow> safe (step_error PE) inv m Q"
  "contained PE m Q \<Longrightarrow> safe (core_error PE) inv m Q"
  by (erule contained_safe, blast intro: kernel_step_error kernel_core_error, blast intro: outside_inv)+

lemmas platform_safe = fetch_law [THEN platform_safeI] load_laws [THEN platform_safeI]
  store_laws [THEN platform_safeI]

lemmas kernel_safe = kernel_laws [THEN kernel_safeI(1)]

lemmas kernel_safe_core = kernel_laws [THEN kernel_safeI(2)]

lemma safe_illegal [safe_rules]: "safe (step_error PE) inv raise_illegal_instruction Q"
  unfolding raise_illegal_instruction_def raise_trap_def
  by (intro safe_rules) simp

lemma safe_require_isa [safe_rules]: "safe (step_error PE) inv (require_isa x) (\<lambda>_. True)"
  unfolding require_isa_def by (intro safe_rules) simp

lemma safe_reg_at [safe_rules]:
  assumes "unat i < 32" and "\<And>v. getWidth cv v = 32 \<Longrightarrow> safe (step_error PE) inv (f v) Q"
  shows "safe (step_error PE) inv (bind_m (RegFile_at i) f) Q"
  unfolding RegFile_at_def
  by (intro safe_bind_gets assms(2)) (use assms(1) in \<open>auto simp: inv_defs\<close>)

lemma safe_reg_write [safe_rules]:
  assumes "i \<le> 31"
  shows "safe E inv (RegFile_write cv i v) (\<lambda>_. True)"
  unfolding RegFile_write_def
  by (intro safe_rules)
    (use assms ext_law [of v 32] in \<open>auto simp: inv_defs dest!: set_update_subset_insert [THEN subsetD]\<close>)

lemma safe_upd_csrs:
  assumes "\<And>h. inv h \<Longrightarrow> inv (h\<lparr>h_csrs := f (h_csrs h)\<rparr>)"
  shows "safe E inv (upd_csrs f) (\<lambda>_. True)"
  unfolding upd_csrs_def by (intro safe_rules assms) simp_all

lemma inv_csrs:
  assumes "inv h" and "csrs_wf c" and "even (mepc_reg c)" "even (sepc_reg c)" "even (uepc_reg c)"
  shows "inv (h\<lparr>h_csrs := c\<rparr>)"
  using assms by (simp add: inv_defs even_word)

lemma invD:
  assumes "inv h"
  shows "csrs_wf (h_csrs h)" "even (h_pc h)" "even (h_last_pc h)" "even (mepc_reg (h_csrs h))"
    "even (sepc_reg (h_csrs h))" "even (uepc_reg (h_csrs h))" "has_C_extension (h_csrs h)"
  using assms by (simp_all add: inv_defs even_word)

lemma safe_pc_check [safe_rules]: "safe (step_error PE) inv trap_check_pc_alignment (\<lambda>_. True)"
  unfolding trap_check_pc_alignment_def raise_trap_def
  by (intro safe_rules) (simp_all add: inv_defs)

lemma safe_addr_check [safe_rules]:
  "safe (step_error PE) inv (trap_check_addr_alignment cv n isLoad addr) (\<lambda>_. True)"
  unfolding trap_check_addr_alignment_def raise_trap_def Let_def
  by (intro safe_rules) simp_all

lemma safe_track [safe_rules]:
  "cond = isTrue cv expr \<Longrightarrow> safe E inv (track_and_trace_branch cv cond expr) (\<lambda>_. True)"
  unfolding track_and_trace_branch_def
  by (cases "symbolic cv expr")
    (auto intro!: safe_rules simp: inv_defs isTrue_law symbolic_Some)

lemma reg_index: "rd w \<le> 31" "unat (rd w) < 32" "unat (rs1 w) < 32" "unat (rs2 w) < 32"
  using register_index_bounds [of w] by (simp_all add: word_le_nat_alt)

lemma safe_set_pc [safe_rules]:
  "(\<And>h. inv h \<Longrightarrow> even (g h)) \<Longrightarrow> safe E inv (modify_m (\<lambda>h. h\<lparr>h_pc := g h\<rparr>)) (\<lambda>_. True)"
  by (intro safe_modify) (simp_all add: inv_defs even_word)

lemma safe_exec_imm: "safe (step_error PE) inv (exec_imm cv w f imm) (\<lambda>_. True)"
  unfolding exec_imm_def by (intro safe_rules reg_index)

lemma safe_exec_reg: "safe (step_error PE) inv (exec_reg cv w f) (\<lambda>_. True)"
  unfolding exec_reg_def by (intro safe_rules reg_index)

lemma safe_exec_shift: "safe (step_error PE) inv (exec_shift cv w f) (\<lambda>_. True)"
  unfolding exec_shift_def RegFile_shamt_def
  by (intro safe_rules reg_index safe_bind_any)
    (simp_all add: word_le_nat_alt, use reg_index(4) [of w] in linarith)

lemma safe_exec_jal: "safe (step_error PE) inv (exec_jal cv w) (\<lambda>_. True)"
  unfolding exec_jal_def
  by (intro safe_rules reg_index) (simp add: invD even_imms)

lemma safe_exec_jalr: "safe (step_error PE) inv (exec_jalr cv w) (\<lambda>_. True)"
  unfolding exec_jalr_def
  by (intro safe_rules reg_index) (simp add: even_and_iff)

lemma safe_exec_branch: "safe (step_error PE) inv (exec_branch cv w test) (\<lambda>_. True)"
  unfolding exec_branch_def Let_def
  by (intro safe_rules reg_index) (simp_all add: invD even_imms)

lemma safe_exec_store:
  assumes "\<And>x y. safe (step_error PE) inv (store x y) (\<lambda>_. True)"
  shows "safe (step_error PE) inv (exec_store cv w n store) (\<lambda>_. True)"
  unfolding exec_store_def Let_def by (intro safe_rules reg_index assms)

lemma safe_exec_load:
  assumes "\<And>x. safe (step_error PE) inv (load x) (\<lambda>v. getWidth cv v = 32)"
  shows "safe (step_error PE) inv (exec_load cv w n load) (\<lambda>_. True)"
  unfolding exec_load_def Let_def
  by (intro safe_rules reg_index safe_bind [OF assms])

lemma safe_unknown_privilege [safe_rules]:
  "safe (step_error PE) I (unknown_privilege_level p) Q"
  "safe (core_error PE) I (unknown_privilege_level p) Q"
  unfolding unknown_privilege_level_def
  by (rule safe_throw, rule step_error_simps core_error_simps)+

lemma safe_exec_ecall: "safe (step_error PE) inv exec_ecall (\<lambda>_. True)"
  unfolding exec_ecall_def raise_trap_def
  by (intro safe_rules) simp_all

lemma safe_rv32i: "safe (step_error PE) inv (exec_rv32i cv pl w i) (\<lambda>_. True)"
  by (cases i; simp add: exec_rv32i_def;
      intro safe_rules reg_index safe_exec_imm safe_exec_reg safe_exec_shift safe_exec_jal
        safe_exec_jalr safe_exec_branch safe_exec_store safe_exec_load safe_exec_ecall platform_safe;
      simp add: inv_defs)

lemma safe_exec_mul: "safe (step_error PE) inv (exec_mul cv w f g n) (\<lambda>_. True)"
  unfolding exec_mul_def by (intro safe_rules reg_index)

lemma safe_exec_div: "safe (step_error PE) inv (exec_div cv w f g) (\<lambda>_. True)"
  unfolding exec_div_def Let_def by (intro safe_rules reg_index) simp_all

lemma safe_rv32m: "safe (step_error PE) inv (exec_rv32m cv w i) (\<lambda>_. True)"
  unfolding exec_rv32m_def
  by (intro safe_rules) (cases i; simp; intro safe_exec_mul safe_exec_div)

lemma safe_counter [safe_rules]:
  "(\<And>h. inv h \<Longrightarrow> 0 \<le> g h \<and> g h \<le> 17) \<Longrightarrow>
   safe E inv (modify_m (\<lambda>h. h\<lparr>h_lr_sc_counter := g h\<rparr>)) (\<lambda>_. True)"
  by (intro safe_modify) (simp_all add: inv_defs)

lemma safe_execute_amo: "safe (step_error PE) inv (execute_amo cv pl w f) (\<lambda>_. True)"
proof -
  have "safe (step_error PE) inv (catch_m (atomic_load_word pl addr) (\<lambda>e. case e of
          SimulationTrap reason mtval \<Rightarrow>
            throw_m (SimulationTrap (if reason = EXC_LOAD_ACCESS_FAULT then EXC_STORE_AMO_ACCESS_FAULT
               else reason) mtval)
        | _ \<Rightarrow> throw_m e)) (\<lambda>v. getWidth cv v = 32)" for addr
    by (rule safe_catch, rule platform_safe) (auto split: error.split intro!: safe_rules)
  then show ?thesis
    unfolding execute_amo_def by (intro safe_rules reg_index safe_bind platform_safe)
qed

lemma safe_exec_lr: "safe (step_error PE) inv (exec_lr cv pl w) (\<lambda>_. True)"
  unfolding exec_lr_def
  by (intro safe_rules reg_index safe_bind [OF platform_safe(8)]) (simp_all add: inv_defs)

lemma safe_exec_sc: "safe (step_error PE) inv (exec_sc cv pl w) (\<lambda>_. True)"
  unfolding exec_sc_def
  by (intro safe_rules reg_index safe_bind_any platform_safe) simp_all

lemma safe_rv32a: "safe (step_error PE) inv (exec_rv32a cv pl w i) (\<lambda>_. True)"
  unfolding exec_rv32a_def
  by (intro safe_rules) (cases i; simp; intro safe_exec_lr safe_exec_sc safe_execute_amo)

lemma safe_release:
  "safe (step_error PE) inv (release_lr_sc_reservation pl) (\<lambda>_. True)"
  "safe (core_error PE) inv (release_lr_sc_reservation pl) (\<lambda>_. True)"
  unfolding release_lr_sc_reservation_def
  by (intro safe_rules kernel_safe kernel_safe_core; simp)+

lemma safe_exec_wfi: "safe (step_error PE) inv (exec_wfi pl) (\<lambda>_. True)"
  unfolding exec_wfi_def by (intro safe_rules safe_release kernel_safe) simp_all

lemma safe_return_trap: "safe (step_error PE) inv (return_from_trap_handler mode) (\<lambda>_. True)"
  unfolding return_from_trap_handler_def
  by (intro safe_rules) (simp_all add: inv_defs Let_def has_C_extension_def)

lemma safe_privileged: "safe (step_error PE) inv (exec_privileged pl i) (\<lambda>_. True)"
  by (cases i; simp add: exec_privileged_def unknown_opcode_def;
      intro safe_exec_wfi safe_return_trap safe_throw; simp)

lemma safe_csr_update:
  assumes "\<And>c. csrs_wf c \<Longrightarrow> csrs_wf (f c)"
    and "\<And>c. csrs_wf c \<Longrightarrow> even (mepc_reg c) \<Longrightarrow> even (mepc_reg (f c))"
    and "\<And>c. csrs_wf c \<Longrightarrow> even (sepc_reg c) \<Longrightarrow> even (sepc_reg (f c))"
    and "\<And>c. csrs_wf c \<Longrightarrow> even (uepc_reg c) \<Longrightarrow> even (uepc_reg (f c))"
  shows "safe E inv (upd_csrs f) (\<lambda>_. True)"
  by (rule safe_upd_csrs, rule inv_csrs) (auto intro: assms dest: invD)

lemmas csr_wf_simps = csrs_wf_def has_C_extension_def mie_masked_write even_masked_write

lemma safe_lift_sum:
  "(\<And>e. r = Inl e \<Longrightarrow> E e) \<Longrightarrow> (\<And>x. r = Inr x \<Longrightarrow> Q x) \<Longrightarrow> safe E I (lift_sum r) Q"
  by (cases r) (simp_all add: lift_sum_def safe_return safe_throw)

lemma illegal_then: "then_m raise_illegal_instruction k = raise_illegal_instruction"
  by (simp add: fun_eq_iff then_m_def bind_m_def raise_illegal_instruction_def raise_trap_def)

lemma safe_default_write:
  assumes "\<not> protected_csr addr"
  shows "safe (step_error PE) inv (default_csr_write addr value) (\<lambda>_. True)"
proof (cases "is_valid_csr32_addr addr")
  case False
  then show ?thesis
    by (simp add: default_csr_write_def when_m_def illegal_then safe_illegal)
next
  case True
  have "inv (h\<lparr>h_csrs := c'\<rparr>)" if "inv h" "default_write32 addr value (h_csrs h) = Inr c'"
    for h :: "('v, 'e, 'm) hart" and c'
    using that by (simp add: inv_defs has_C_extension_def default_write32_frame [OF _ assms])
  moreover obtain wr where "\<And>c. default_write32 addr value c = Inr (wr value c)"
    using True by (auto simp: is_valid_csr32_addr_def default_write32_def)
  ultimately show ?thesis
    using True by (auto simp: default_csr_write_def when_m_def lift_sum_def upd_csrs_def safe_def)
qed

lemma safe_set_csr: "safe (step_error PE) inv (set_csr_value addr value) (\<lambda>_. True)"
  unfolding set_csr_value_def
  by (intro safe_rules safe_csr_update safe_default_write)
    (auto simp: csr_wf_simps pc_alignment_mask_def protected_csr_def)

lemma safe_default_read: "safe (step_error PE) inv (default_csr_read addr) (\<lambda>_. True)"
proof (cases "is_valid_csr32_addr addr")
  case False
  then show ?thesis
    by (simp add: default_csr_read_def when_m_def illegal_then safe_illegal)
next
  case True
  then obtain rd where "\<And>c. default_read32 addr c = Inr (rd c)"
    by (auto simp: is_valid_csr32_addr_def default_read32_def)
  with True show ?thesis
    by (simp add: default_csr_read_def when_m_def lift_sum_def safe_def)
qed

lemma safe_cycles: "safe (step_error PE) inv compute_and_get_current_cycles (\<lambda>_. True)"
  unfolding compute_and_get_current_cycles_def
  by (intro safe_rules safe_assert_allowed) simp_all

lemma safe_refresh:
  "safe (step_error PE) inv (refresh_time pl) (\<lambda>_. True)"
  "safe (step_error PE) inv refresh_cycle (\<lambda>_. True)"
  unfolding refresh_time_def refresh_cycle_def
  by (intro safe_bind_any kernel_safe safe_cycles safe_csr_update; simp add: csr_wf_simps)+

lemma safe_get_csr: "safe (step_error PE) inv (get_csr_value pl addr) (\<lambda>_. True)"
  unfolding get_csr_value_def validate_csr_counter_read_access_rights_def read_csr_def Let_def
  by (intro safe_rules safe_refresh safe_default_read) simp_all

lemma safe_csr_access: "safe (step_error PE) inv (is_invalid_csr_access addr b) (\<lambda>_. True)"
  unfolding is_invalid_csr_access_def by (intro safe_rules) simp_all

lemma safe_zicsr: "safe (step_error PE) inv (exec_zicsr cv pl w i) (\<lambda>_. True)"
  unfolding exec_zicsr_def Let_def
  by (cases i; simp; intro safe_bind_any [OF safe_csr_access] safe_if safe_illegal safe_then safe_when
      safe_reg_at safe_bind_any [OF safe_get_csr] safe_set_csr safe_reg_write reg_index; simp)

lemma safe_exec_op: "safe (step_error PE) inv (exec_op cv pl w op) (\<lambda>_. True)"
  by (cases op; simp add: exec_op_def raise_trap_def unknown_opcode_def;
      intro safe_rv32i safe_zicsr safe_rv32m safe_rv32a safe_privileged safe_rules; simp)

section \<open>Fetch, decode, traps\<close>

lemma safe_fetch: "safe (step_error PE) inv (fetch_instr pl) (\<lambda>_. True)"
proof -
  have "safe (step_error PE) inv (catch_m (load_instr pl p) (\<lambda>e. case e of
         SimulationTrap _ _ \<Rightarrow> then_m (modify_m (\<lambda>h. h\<lparr>h_op := UNDEF, h_instr := 0\<rparr>)) (throw_m e)
       | _ \<Rightarrow> throw_m e)) (\<lambda>_. True)" for p
    by (rule safe_catch, rule platform_safe)
      (auto split: error.split intro!: safe_rules simp: inv_defs)
  then show ?thesis
    unfolding fetch_instr_def by (intro safe_rules safe_bind_any) (simp_all add: inv_defs)
qed

lemma decode_compressed_Inr: "is_compressed w \<Longrightarrow> \<exists>r. decode_and_expand_compressed w arch = Inr r"
  by (auto simp: is_compressed_def decode_and_expand_compressed_def decode_compressed_def)

lemma safe_decode: "safe (step_error PE) inv decode_instr (\<lambda>_. True)"
proof -
  have "safe (step_error PE) inv (lift_sum (decode_and_expand_compressed w RV32)) (\<lambda>_. True)"
    if "is_compressed w" for w
    using decode_compressed_Inr [OF that, of RV32] by (auto simp: lift_sum_def intro: safe_return)
  then show ?thesis
    unfolding decode_instr_def
    by (intro safe_rules safe_bind_any)
      (auto split: prod.split intro!: safe_rules simp: inv_defs even_word)
qed

lemma safe_exec_step: "safe (step_error PE) inv (exec_step cv pl) (\<lambda>_. True)"
  unfolding exec_step_def
  by (intro safe_rules safe_fetch safe_decode safe_exec_op)
    (simp_all add: inv_defs pc_alignment_mask_def)

lemma safe_prepare_trap:
  assumes "reason < 16"
  shows "safe (core_error PE) inv (prepare_trap reason mtval) (\<lambda>_. True)"
  unfolding prepare_trap_def to_uint32_def Let_def
  by (intro safe_rules safe_bind_any safe_csr_update safe_assert_allowed)
    (auto simp: csr_wf_simps invD core_error_def)

text \<open>The assertions of \<^verbatim>\<open>switch_to_trap_handler\<close> test the privilege level just assigned.\<close>

lemma prv_assert:
  "P mode \<Longrightarrow> then_m (modify_m (\<lambda>h. h\<lparr>h_prv := mode\<rparr>))
      (then_m (bind_m (gets_m h_prv) (\<lambda>p. assert_m msg (P p))) k) =
    then_m (modify_m (\<lambda>h. h\<lparr>h_prv := mode\<rparr>)) k"
  by (simp add: fun_eq_iff then_m_def bind_m_def assert_m_def)

lemma safe_switch: "safe (core_error PE) inv (switch_to_trap_handler pl mode) (\<lambda>_. True)"
proof -
  consider "mode = 3" | "mode = 1" | "mode = 0" | "mode \<noteq> 3 \<and> mode \<noteq> 1 \<and> mode \<noteq> 0" by blast
  then show ?thesis
    unfolding switch_to_trap_handler_def
    by cases (simp_all add: prv_assert, (intro safe_rules safe_release;
      simp add: inv_defs Let_def has_C_extension_def even_word even_trap_vector)+)
qed

lemma and_not_zero: "(x :: u32) AND k = 0 \<Longrightarrow> (x AND y) AND k = 0"
proof -
  assume "x AND k = 0"
  moreover have "(x AND y) AND k = (x AND k) AND y" by (simp only: ac_simps)
  ultimately show "(x AND y) AND k = 0" by simp
qed

lemma pending_of_compute:
  assumes "csrs_wf (h_csrs h)" and "target_mode (compute_pending_interrupts h) \<noteq> NoneMode"
  shows "pending (compute_pending_interrupts h) AND NOT MIE_MASK = 0"
    and "pending (compute_pending_interrupts h) \<noteq> 0"
    and "target_mode (compute_pending_interrupts h) \<in> {MachineMode, SupervisorMode, UserMode}"
  using assms
  by (auto simp: compute_pending_interrupts_def Let_def csrs_wf_def and_not_zero split: if_splits)

lemma safe_take_interrupts: "safe (core_error PE) inv (take_interrupts pl) (\<lambda>_. True)"
proof -
  have prep: "safe (core_error PE) inv (prepare_interrupt x) (\<lambda>_. True)"
    if p: "pending x AND NOT MIE_MASK = 0" "pending x \<noteq> 0" for x
  proof -
    obtain exc where "interrupt_code (pending x) = Inr exc" using pending_bits [OF p] by blast
    then show ?thesis
      unfolding prepare_interrupt_def Let_def lift_sum_def
      by (simp split del: if_split, intro safe_rules safe_csr_update) (simp_all add: csr_wf_simps)
  qed
  show ?thesis
    unfolding take_interrupts_def
    by (intro safe_rules safe_switch TrueI) (rule prep [OF pending_of_compute(1,2) [OF invD(1)]])
qed

section \<open>One step\<close>

lemma safe_handle_trap: "step_error PE e \<Longrightarrow> safe (core_error PE) inv (handle_trap pl e) (\<lambda>_. True)"
  by (cases e)
    (auto simp: handle_trap_def step_error_def
      intro: safe_throw safe_bind_any safe_prepare_trap safe_switch)

text \<open>The steps after the reset of \<open>x0\<close> keep it.\<close>

abbreviation inv0 :: "('v, 'e, 'm) hart \<Rightarrow> bool" where
  "inv0 \<equiv> \<lambda>h. hart_inv cv sem cur h \<and> x0_zero cv h"

lemma kernel_safe0: "contained PE m Q \<Longrightarrow> safe (core_error PE) inv0 m Q"
  by (erule contained_safe, erule kernel_core_error)
    (auto intro: outside_inv simp: x0_zero_def outside_fields)

lemmas kernel_safe_inv0 = kernel_laws [THEN kernel_safe0]

lemma safe_release0: "safe (core_error PE) inv0 (release_lr_sc_reservation pl) (\<lambda>_. True)"
  unfolding release_lr_sc_reservation_def
  by (intro safe_then safe_modify kernel_safe_inv0) (simp_all add: inv_defs x0_zero_def)

lemma safe_performance: "safe (core_error PE) inv0 (performance_and_sync_update pl op) (\<lambda>_. True)"
  unfolding performance_and_sync_update_def Let_def upd_csrs_def
  by (intro safe_then safe_bind_gets safe_when safe_modify safe_assert safe_release0 kernel_safe_inv0
      safe_bind_any)
    (auto simp: inv_defs has_C_extension_def x0_zero_def)

lemma core_step_error': "core_error PE e \<Longrightarrow> step_error PE e"
  using no_trap [of e] by (cases e) (auto simp: core_error_def step_error_def)

lemma safe_core_part:
  "safe (core_error PE) inv (catch_m (then_m (exec_step cv pl) (take_interrupts pl)) (handle_trap pl))
     (\<lambda>_. True)"
  by (rule safe_catch [of "step_error PE"])
    (auto intro!: safe_then safe_exec_step safe_handle_trap
      intro: safe_weaken [OF safe_take_interrupts] core_step_error')

lemma reset_x0:
  assumes "inv h"
  shows "\<exists>h'. RegFile_write cv 0 (BVC cv 0) h = (Inr (), h') \<and> inv0 h'"
proof -
  have w: "getWidth cv (BVC cv 0) = 32" "getValue cv (BVC cv 0) = 0"
    using BVC_law [of 0 cur] by (simp_all add: getValue_law)
  then have "RegFile_write cv 0 (BVC cv 0) h = (Inr (), h\<lparr>h_regs := (h_regs h)[0 := BVC cv 0]\<rparr>)"
    by (simp add: RegFile_write_def assert_m_def)
  moreover have "inv0 (h\<lparr>h_regs := (h_regs h)[0 := BVC cv 0]\<rparr>)"
    using assms w
    by (auto simp: inv_defs x0_zero_def dest!: set_update_subset_insert [THEN subsetD])
  ultimately show ?thesis by blast
qed

lemma safe_tail:
  "safe (core_error PE) inv0
     (then_m (modify_m (\<lambda>h. if h_shall_exit h then h\<lparr>h_status := Terminated\<rparr> else h))
        (bind_m (gets_m h_op) (\<lambda>op. performance_and_sync_update pl op))) (\<lambda>_. True)"
  by (intro safe_then safe_bind_gets safe_modify safe_performance) (auto simp: inv_defs x0_zero_def)

lemma run_step_keeps:
  assumes h: "inv h" "x0_zero cv h" and run: "run_step cv pl h = (r, h')"
  shows "inv h' \<and> (case r of Inl e \<Rightarrow> core_error PE e | Inr _ \<Rightarrow> x0_zero cv h')"
proof (cases "h_debug_mode h \<and> h_pc h \<in> h_breakpoints h")
  case True
  with h run show ?thesis
    by (auto simp: run_step_def RegFile_read_def x0_zero_def assert_m_def set_status_def inv_defs
        then_m_def [of "bind_m _ _"] bind_m_apply)
next
  case False
  define h1 where "h1 = h\<lparr>h_last_pc := h_pc h\<rparr>"
  have h1: "inv h1" using h by (simp add: h1_def inv_defs)
  define body where
    "body = catch_m (then_m (exec_step cv pl) (take_interrupts pl)) (handle_trap pl)"
  define rest where "rest = then_m (modify_m (\<lambda>h. if h_shall_exit h then h\<lparr>h_status := Terminated\<rparr> else h))
        (bind_m (gets_m h_op) (\<lambda>op. performance_and_sync_update pl op))"
  have eq: "then_m body (then_m (RegFile_write cv 0 (BVC cv 0)) rest) h1 = (r, h')"
    using run False h
    by (auto simp: run_step_def RegFile_read_def x0_zero_def assert_m_def body_def rest_def h1_def
        then_m_def [of "bind_m _ _"] bind_m_apply split: if_splits)
  show ?thesis
  proof (cases "body h1")
    case (Pair r1 h2)
    note b = safe_core_part [folded body_def]
    show ?thesis
    proof (cases r1)
      case (Inl e)
      with Pair eq safe_Inl [OF b h1] show ?thesis by (auto simp: then_m_apply)
    next
      case (Inr u)
      with Pair safe_Inr [OF b h1] obtain h3 where
        w: "RegFile_write cv 0 (BVC cv 0) h2 = (Inr (), h3)" and h3: "inv0 h3"
        using reset_x0 by blast
      with Inr Pair eq have "rest h3 = (r, h')" by (simp add: then_m_apply)
      with safe_Inl [OF safe_tail [folded rest_def] h3] safe_Inr [OF safe_tail [folded rest_def] h3]
      show ?thesis by (cases r) auto
    qed
  qed
qed

end

end
