(* ===== verification/Mem_Laws.thy ===== *)
theory Mem_Laws
  imports Mem Iss_Inv
begin

text \<open>
  The memory interface keeps the contract of the platform. \<open>mem_env_laws\<close> states what the interface
  relies on from the bus, the kernel and the other harts; the sublocale relation derives
  \<open>platform_laws\<close> for the platform built from \<^verbatim>\<open>CombinedMemoryInterface\<close>.
\<close>

section \<open>Composition of contained operations\<close>

definition erase_outside :: "'m \<Rightarrow> ('v, 'e, 'm) hart \<Rightarrow> ('v, 'e, 'm) hart" where
  "erase_outside w h =
     h\<lparr>h_world := w, h_csrs := (h_csrs h)\<lparr>mip_reg := 0\<rparr>, h_shall_exit := False\<rparr>"

lemma outside_iff:
  fixes h h' :: "('v, 'e, 'm) hart"
  shows "outside h h' \<longleftrightarrow> erase_outside w h' = erase_outside w h"
proof
  assume "outside h h'"
  then have "erase_outside w h = erase_outside w (h'\<lparr>h_world := h_world h,
      h_csrs := (h_csrs h')\<lparr>mip_reg := mip_reg (h_csrs h)\<rparr>, h_shall_exit := h_shall_exit h\<rparr>)"
    by (simp only: outside_def)
  also have "\<dots> = erase_outside w h'" by (simp add: erase_outside_def)
  finally show "erase_outside w h' = erase_outside w h" ..
next
  assume e: "erase_outside w h' = erase_outside w h"
  define f where "f = (\<lambda>x :: ('v, 'e, 'm) hart. x\<lparr>h_world := h_world h, h_csrs := (h_csrs x)\<lparr>mip_reg := mip_reg (h_csrs h)\<rparr>,
        h_shall_exit := h_shall_exit h\<rparr>)"
  from e have "f (erase_outside w h') = f (erase_outside w h)" by simp
  then show "outside h h'" by (simp add: f_def outside_def erase_outside_def)
qed

lemma outside_refl [simp]: "outside h h"
  by (simp add: outside_def)

lemma outside_trans: "outside h h' \<Longrightarrow> outside h' h'' \<Longrightarrow> outside h h''"
  by (simp add: outside_iff [where w = undefined])

lemma outside_world [simp]: "outside h (h\<lparr>h_world := w\<rparr>)"
  by (simp add: outside_def)

lemma containedI:
  assumes "\<And>h e h'. m h = (Inl e, h') \<Longrightarrow> E e \<and> outside h h'"
    and "\<And>h x h'. m h = (Inr x, h') \<Longrightarrow> Q x \<and> outside h h'"
  shows "contained E m Q"
  unfolding contained_def
proof
  fix h
  obtain r h' where m: "m h = (r, h')" by (cases "m h")
  show "case m h of (Inl e, h') \<Rightarrow> E e \<and> outside h h' | (Inr x, h') \<Rightarrow> Q x \<and> outside h h'"
    using assms m by (cases r) simp_all
qed

lemma contained_Inl: "contained E m Q \<Longrightarrow> m h = (Inl e, h') \<Longrightarrow> E e \<and> outside h h'"
  unfolding contained_def by (drule spec [of _ h]) simp

lemma contained_Inr: "contained E m Q \<Longrightarrow> m h = (Inr x, h') \<Longrightarrow> Q x \<and> outside h h'"
  unfolding contained_def by (drule spec [of _ h]) simp

named_theorems contained_rules \<open>compositional rules for contained operations\<close>

lemma contained_weaken:
  assumes "contained E m P" and "\<And>x. P x \<Longrightarrow> Q x" and "\<And>e. E e \<Longrightarrow> E' e"
  shows "contained E' m Q"
  using contained_Inl [OF assms(1)] contained_Inr [OF assms(1)] assms(2,3)
  by (intro containedI) auto

lemma contained_return [contained_rules]: "Q x \<Longrightarrow> contained E (return_m x) Q"
  by (simp add: contained_def)

lemma contained_throw [contained_rules]: "E e \<Longrightarrow> contained E (throw_m e) Q"
  by (simp add: contained_def)

lemma contained_gets [contained_rules]: "(\<And>h. Q (f h)) \<Longrightarrow> contained E (gets_m f) Q"
  by (simp add: contained_def)

lemma contained_world [contained_rules]: "Q () \<Longrightarrow> contained E (upd_world f) Q"
  by (simp add: contained_def upd_world_def)

lemma contained_bind:
  assumes "contained E m P" and "\<And>x. P x \<Longrightarrow> contained E (f x) Q"
  shows "contained E (bind_m m f) Q"
proof (rule containedI)
  fix h e h' assume b: "bind_m m f h = (Inl e, h')"
  obtain r h1 where m: "m h = (r, h1)" by (cases "m h")
  with b show "E e \<and> outside h h'"
    by (cases r) (auto simp: bind_m_def dest!: contained_Inl [OF assms(1)] contained_Inr [OF assms(1)]
        contained_Inl [OF assms(2)] intro: outside_trans)
next
  fix h x h' assume b: "bind_m m f h = (Inr x, h')"
  obtain r h1 where m: "m h = (r, h1)" by (cases "m h")
  with b show "Q x \<and> outside h h'"
    by (cases r) (auto simp: bind_m_def dest!: contained_Inr [OF assms(1)]
        contained_Inr [OF assms(2)] intro: outside_trans)
qed

lemma contained_bind_any: "contained E m (\<lambda>_. True) \<Longrightarrow> (\<And>x. contained E (f x) Q) \<Longrightarrow> contained E (bind_m m f) Q"
  by (rule contained_bind)

lemma contained_bind_gets [contained_rules]:
  "(\<And>h. contained E (f (g h)) Q) \<Longrightarrow> contained E (bind_m (gets_m g) f) Q"
  by (auto simp: contained_def)

lemma contained_then [contained_rules]:
  "contained E m (\<lambda>_. True) \<Longrightarrow> contained E k Q \<Longrightarrow> contained E (then_m m k) Q"
  unfolding then_m_def by (rule contained_bind_any)

lemma contained_when [contained_rules]: "(b \<Longrightarrow> contained E m Q) \<Longrightarrow> Q () \<Longrightarrow> contained E (when_m b m) Q"
  by (simp add: when_m_def contained_return)

lemma contained_assert: "(\<not> b \<Longrightarrow> E (AssertFail msg)) \<Longrightarrow> Q () \<Longrightarrow> contained E (assert_m msg b) Q"
  by (simp add: assert_m_def contained_return contained_throw)

lemma contained_if [contained_rules]:
  "(b \<Longrightarrow> contained E m Q) \<Longrightarrow> (\<not> b \<Longrightarrow> contained E k Q) \<Longrightarrow> contained E (if b then m else k) Q"
  by simp

text \<open>The same from one given state.\<close>

definition contained_at ::
  "(error \<Rightarrow> bool) \<Rightarrow> ('v, 'e, 'm, 'a) iss \<Rightarrow> ('a \<Rightarrow> bool) \<Rightarrow> ('v, 'e, 'm) hart \<Rightarrow> bool" where
  "contained_at E m Q h \<longleftrightarrow> (case m h of
      (Inl e, h') \<Rightarrow> E e \<and> outside h h'
    | (Inr x, h') \<Rightarrow> Q x \<and> outside h h')"

lemma contained_all: "contained E m Q \<longleftrightarrow> (\<forall>h. contained_at E m Q h)"
  by (simp add: contained_def contained_at_def)

lemma contained_at_bind:
  assumes "contained_at E m P h" and "\<And>x. P x \<Longrightarrow> contained E (f x) Q"
  shows "contained_at E (bind_m m f) Q h"
proof -
  obtain r h1 where m: "m h = (r, h1)" by (cases "m h")
  show ?thesis
  proof (cases r)
    case (Inl e)
    with assms(1) m show ?thesis by (simp add: contained_at_def bind_m_def)
  next
    case (Inr x)
    with assms(1) m have p: "P x" and o: "outside h h1" by (simp_all add: contained_at_def)
    obtain r' h2 where "f x h1 = (r', h2)" by (cases "f x h1")
    with Inr m o contained_Inl [OF assms(2) [OF p], of h1] contained_Inr [OF assms(2) [OF p], of h1]
    show ?thesis
      by (cases r') (auto simp: contained_at_def bind_m_def intro: outside_trans)
  qed
qed

section \<open>What the memory interface relies on\<close>

definition mem_error :: "error \<Rightarrow> bool" where
  "mem_error e \<longleftrightarrow> e = AssertFail ''(addr + sizeof(T)) <= end'' \<or>
     e = AssertFail ''mode == 0 || mode == 1'' \<or> e = AssertFail ''bus_lock->is_locked(hart_id)''"

definition response_ok :: "('v, 'e) clover \<Rightarrow> 'v payload \<Rightarrow> 'v payload \<Rightarrow> bool" where
  "response_ok cv p t \<longleftrightarrow> p_command t = p_command p \<and> length (p_data t) = length (p_data p) \<and>
     (p_command p = TLM_READ_COMMAND \<and> p_extension p = None \<and> length (p_data p) \<le> 4 \<longrightarrow>
       (\<forall>v. p_extension t = Some v \<longrightarrow> getWidth cv v \<le> 32))"

locale mem_env_laws = clover_laws cv ev sem cur
  for cv :: "('v, 'e) clover" and ev :: "'a \<Rightarrow> 'v \<Rightarrow> nat" and sem :: "'a \<Rightarrow> 'e \<Rightarrow> nat" and cur :: 'a +
  fixes env :: "('v, 'e, 'd) mem_env"
    and k :: "('v, 'e, ('v, 'd) mem_world) kernel"
    and PE :: "error \<Rightarrow> bool"
  assumes PE_no_trap: "PE e \<Longrightarrow> \<not> (\<exists>r v. e = SimulationTrap r v)"
    and PE_mem: "mem_error e \<Longrightarrow> PE e"
    and transport_law: "contained (platform_error PE) (b_transport env p) (response_ok cv p)"
    and wait_law: "contained PE (wait_lock_event env) (\<lambda>_. True)"
    and wait_unlocked: "wait_lock_event env h = (Inr u, h') \<Longrightarrow> \<not> locked (w_bus_lock (h_world h'))"
    and k_laws: "contained PE (k_update_and_get_mtime k) (\<lambda>_. True)"
      "contained PE (k_wait_wfi_event k) (\<lambda>_. True)"
      "contained PE (k_quantum_inc k t) (\<lambda>_. True)"
      "contained PE (k_quantum_need_sync k) (\<lambda>_. True)"
      "contained PE (k_quantum_sync k) (\<lambda>_. True)"

context mem_env_laws
begin

abbreviation E :: "error \<Rightarrow> bool" where
  "E \<equiv> platform_error PE"

lemma PE_E: "PE e \<Longrightarrow> E e"
  using PE_no_trap [of e] by (cases e) (auto simp: platform_error_def)

lemma mem_error_E: "E (AssertFail ''(addr + sizeof(T)) <= end'')"
  "E (AssertFail ''mode == 0 || mode == 1'')" "E (AssertFail ''bus_lock->is_locked(hart_id)'')"
  by (simp_all add: platform_error_def PE_mem mem_error_def)

lemma c_wait: "contained E (wait_lock_event env) (\<lambda>_. True)"
  by (rule contained_weaken [OF wait_law]) (auto intro: PE_E)

lemma c_access: "contained E (wait_for_access_rights env) (\<lambda>_. True)"
  unfolding wait_for_access_rights_def by (intro contained_rules c_wait) simp

lemma c_unlock: "contained E' mem_atomic_unlock (\<lambda>_. True)"
  unfolding mem_atomic_unlock_def by (intro contained_rules) simp

lemma c_transaction:
  assumes "p_command p \<noteq> TLM_IGNORE_COMMAND"
  shows "contained E (do_transaction env p) (response_ok cv p)"
  unfolding do_transaction_def
proof (rule contained_bind [OF transport_law])
  fix t assume t: "response_ok cv p t"
  with assms have "p_command t \<noteq> TLM_IGNORE_COMMAND" by (simp add: response_ok_def)
  with t show "contained E (if p_error t then
       (case p_command t of
          TLM_READ_COMMAND \<Rightarrow> raise_trap EXC_LOAD_PAGE_FAULT (p_address t)
        | TLM_WRITE_COMMAND \<Rightarrow> raise_trap EXC_STORE_AMO_PAGE_FAULT (p_address t)
        | TLM_IGNORE_COMMAND \<Rightarrow> throw_m (RuntimeError ''TLM command must be read or write''))
     else return_m t) (response_ok cv p)"
    by (cases "p_command t")
      (auto simp: raise_trap_def platform_error_def intro!: contained_return contained_throw)
qed

lemma c_concolic_read:
  assumes "n \<le> 4"
  shows "contained E (concolic_read cv env addr n) (\<lambda>v. getWidth cv v \<le> 32)"
  unfolding concolic_read_def
  by (rule contained_bind [OF c_transaction])
    (use assms in \<open>auto simp: response_ok_def BVC_bytes_law split: option.split intro!: contained_return\<close>)

lemma c_concolic_write: "contained E (concolic_write cv env addr v n) (\<lambda>_. True)"
  unfolding concolic_write_def
  by (intro contained_rules contained_weaken [OF c_transaction]) simp_all

lemma c_concrete: "contained E (concrete_read env addr n) (\<lambda>_. True)"
  "contained E (concrete_write env addr bs) (\<lambda>_. True)"
  unfolding concrete_read_def concrete_write_def
  by (intro contained_rules contained_bind_any contained_weaken [OF c_transaction]; simp)+

lemma c_dmi: assumes "dmi_contains r addr"
  shows "contained E (dmi_load r addr n) (\<lambda>_. True)" "contained E (dmi_store r addr bs) (\<lambda>_. True)"
  using assms unfolding dmi_load_def dmi_store_def dmi_check_def
  by (intro contained_rules contained_assert; simp add: mem_error_E)+

lemma c_dmi_all: "contained E (dmi_store_all rs addr bs) (\<lambda>_. True)"
proof (induction rs)
  case Nil
  show ?case unfolding dmi_store_all.simps by (rule contained_return) simp
next
  case (Cons r rs)
  then show ?case unfolding dmi_store_all.simps by (intro contained_rules c_dmi) simp_all
qed

lemma c_load_data: "contained E (concrete_load_data env addr n) (\<lambda>_. True)"
  unfolding concrete_load_data_def
  by (intro contained_rules c_access)
    (auto split: option.split intro!: c_dmi c_concrete simp: find_Some_iff)

lemma c_store_data: "contained E (concrete_store_data env addr bs) (\<lambda>_. True)"
  unfolding concrete_store_data_def
  by (intro contained_rules contained_bind_any c_access c_dmi_all c_concrete c_unlock) simp

lemma c_pte:
  "contained E (mmu_load_pte64 env a) (\<lambda>_. True)" "contained E (mmu_load_pte32 env a) (\<lambda>_. True)"
  "contained E (mmu_store_pte32 env a v) (\<lambda>_. True)"
  unfolding mmu_load_pte64_def mmu_load_pte32_def mmu_store_pte32_def
  by (intro contained_bind_any contained_return c_load_data c_store_data TrueI)+

lemma c_page_fault: "contained E (page_fault type vaddr) Q"
  by (cases type) (simp_all add: page_fault_def raise_trap_def platform_error_def contained_throw)

lemma c_walk_levels: "contained E (walk_levels env vaddr type s_mode u x vm i base) (\<lambda>_. True)"
proof (induction i arbitrary: base)
  case 0
  show ?case unfolding walk_levels.simps by (rule c_page_fault)
next
  case (Suc i)
  then show ?case
    unfolding walk_levels.simps Let_def
    by (intro contained_bind_any contained_rules c_pte c_page_fault) simp_all
qed

lemma satp_mode_bit: "bf_get satp_mode w \<noteq> 0 \<Longrightarrow> bf_get satp_mode w = 1"
proof -
  assume "bf_get satp_mode w \<noteq> 0"
  moreover have "unat (bf_get satp_mode w) < 2" using bf_get_less [of satp_mode w] by simp
  ultimately show "bf_get satp_mode w = 1"
    by (metis One_nat_def less_2_cases unat_eq_zero unsigned_1 word_unat_eq_iff)
qed

lemma c_walk:
  assumes "bf_get satp_mode (satp_reg (h_csrs h)) \<noteq> 0" and "mode = 0 \<or> mode = 1"
  shows "contained_at E (walk env vaddr type mode) (\<lambda>_. True) h"
proof -
  obtain vm where "decode_vm_info (h_csrs h) mode = Inr vm"
    using satp_mode_bit [OF assms(1)] assms(2) by (auto simp: decode_vm_info_def Let_def)
  then show ?thesis
    using c_walk_levels
    by (simp add: walk_def contained_at_def lift_sum_def contained_def)
qed

lemma c_translate: "contained E (translate_virtual_to_physical_addr env vaddr type) (\<lambda>_. True)"
  unfolding contained_all
proof
  fix h :: "('v, 'e, 'd) mhart"
  define mode where "mode = effective_mode type h"
  have rest: "contained_at E (bind_m (walk env vaddr type mode) f) (\<lambda>_. True) h"
    if "bf_get satp_mode (satp_reg (h_csrs h)) \<noteq> 0" "mode = 0 \<or> mode = 1"
      "\<And>p. contained E (f p) (\<lambda>_. True)" for f :: "u64 \<Rightarrow> ('v, 'e, 'd, u64) mem"
    by (rule contained_at_bind [OF c_walk [OF that(1,2)]]) (rule that(3))
  have upd: "contained E (then_m (upd_world g) (return_m p)) (\<lambda>_. True)" for g and p :: u64
    by (intro contained_rules) simp_all
  show "contained_at E (translate_virtual_to_physical_addr env vaddr type) (\<lambda>_. True) h"
    unfolding translate_virtual_to_physical_addr_def Let_def mode_def [symmetric]
    using rest [OF _ _ upd] mem_error_E(2)
    by (auto simp: contained_at_def assert_m_def then_m_def [of "throw_m _"] bind_m_def [of "throw_m _"]
        mode_def [symmetric])
qed

lemma c_v2p: "contained E (v2p env vaddr type) (\<lambda>_. True)"
  unfolding v2p_def by (intro contained_rules c_translate) simp

lemma c_store: "contained E (mem_symbolic_store_data cv env addr v n) (\<lambda>_. True)"
  unfolding mem_symbolic_store_data_def
  by (intro contained_rules contained_bind_any c_access c_v2p c_concolic_write c_unlock)

lemma c_load:
  assumes "n \<le> 4"
  shows "contained E (mem_symbolic_load_data cv env addr n) (\<lambda>v. getWidth cv v \<le> 32)"
  unfolding mem_symbolic_load_data_def
  by (intro contained_rules contained_bind_any c_access c_v2p c_concolic_read [OF assms])

lemma c_load_ext:
  assumes "n \<le> 4"
  shows "contained E (mem_load_sext cv env n addr) (\<lambda>v. getWidth cv v = 32)"
    and "contained E (mem_load_zext cv env n addr) (\<lambda>v. getWidth cv v = 32)"
  unfolding mem_load_sext_def mem_load_zext_def
  using assms ext_law
  by (auto intro!: contained_bind [OF c_load [OF assms]] contained_return)

lemma c_lock: "contained E (bus_lock_lock env) (\<lambda>_. True)"
proof (rule containedI)
  fix h e h' assume l: "bus_lock_lock env h = (Inl e, h')"
  obtain r h1 where w: "wait_lock_event env h = (r, h1)" by (cases "wait_lock_event env h")
  with l wait_unlocked [of h] contained_Inl [OF c_wait, of h] contained_Inr [OF c_wait, of h]
  show "E e \<and> outside h h'"
    by (cases r) (auto simp: bus_lock_lock_def monad_simps lift_sum_def lock_acquire_def lock_must_wait_def
        upd_world_def split: if_splits)
next
  fix h x h' assume l: "bus_lock_lock env h = (Inr x, h')"
  obtain r h1 where w: "wait_lock_event env h = (r, h1)" by (cases "wait_lock_event env h")
  with l contained_Inr [OF c_wait, of h]
  show "True \<and> outside h h'"
    by (cases r) (auto simp: bus_lock_lock_def monad_simps lift_sum_def lock_acquire_def lock_must_wait_def
        upd_world_def intro: outside_trans split: if_splits)
qed

lemma c_fetch: "contained E (mem_load_instr env addr) (\<lambda>_. True)"
  unfolding mem_load_instr_def
  by (intro contained_bind_any contained_return c_v2p c_load_data TrueI)

lemma c_atomics:
  "contained E (mem_atomic_load_word cv env addr) (\<lambda>v. getWidth cv v = 32)"
  "contained E (mem_atomic_load_reserved_word cv env addr) (\<lambda>v. getWidth cv v = 32)"
  "contained E (mem_atomic_store_word cv env addr v) (\<lambda>_. True)"
  "contained E (mem_atomic_store_conditional_word cv env addr v) (\<lambda>_. True)"
  unfolding mem_atomic_load_word_def mem_atomic_load_reserved_word_def mem_atomic_store_word_def
    mem_atomic_store_conditional_word_def mem_load_word_def mem_store_def bus_is_locked_def
  by (intro contained_rules contained_assert contained_bind_any c_lock c_load_ext c_store c_unlock;
      simp add: mem_error_E)+

end

sublocale mem_env_laws \<subseteq> mp: platform_laws cv "mem_platform cv env k" PE
  by unfold_locales
    (simp_all add: mem_platform_def PE_no_trap c_fetch mem_load_word_def mem_load_half_def
      mem_load_byte_def mem_load_uhalf_def mem_load_ubyte_def mem_store_def c_load_ext c_store c_atomics
      c_unlock k_laws)

end
