(* ===== verification/Symex_System.thy ===== *)
theory Symex_System
  imports Clint Symbolic_Peripherals Mem_Laws
begin

text \<open>
  The SymEx platform (\<^verbatim>\<open>platform/symex/symex_main.cpp\<close>): one hart whose memory interface reaches, through
  the system bus, the symbolic memory, the CLINT, the symbolic execution controller and the
  symbolic sensor. The record \<open>sim_kernel\<close> holds what the platform uses of SystemC and of clover's
  \<^verbatim>\<open>ExecutionContext\<close>. Writing the size register of the controller stores symbolic bytes through the
  hart's memory interface, that is through the bus again; the first argument of \<open>symex_transport\<close>
  bounds this nesting of calls, and running out of it is an error value of its own.
\<close>

section \<open>Assembly\<close>

record 'c symex_devices =
  d_memory :: "'c SymbolicMemory"
  d_clint :: CLINT
  d_ctrl :: SymbolicCTRL
  d_sensor :: SymbolicSensor

type_synonym ('v, 'e, 'c) sys = "('v, 'e, 'c symex_devices) mhart"

record ('v, 'e, 'd) sim_kernel =
  sk_time :: "('v, 'e, 'd) mhart \<Rightarrow> u64"
  sk_delay :: "('v, 'e, 'd) mhart \<Rightarrow> u64"
  sk_getSymbolicBytes :: "string \<Rightarrow> nat \<Rightarrow> ('v, 'e, 'd, 'v) mem"
  sk_getSymbolicWord :: "string \<Rightarrow> ('v, 'e, 'd, 'v) mem"
  sk_report_error :: "('v, 'e, 'd, unit) mem"
  sk_wait_lock_event :: "('v, 'e, 'd, unit) mem"
  sk_wait_wfi_event :: "('v, 'e, 'd, unit) mem"
  sk_quantum_inc :: "u64 \<Rightarrow> ('v, 'e, 'd, unit) mem"
  sk_quantum_need_sync :: "('v, 'e, 'd, bool) mem"
  sk_quantum_sync :: "('v, 'e, 'd, unit) mem"
  sk_same_object :: "'v \<Rightarrow> 'v option \<Rightarrow> bool"

definition devices :: "('v, 'e, 'd) mhart \<Rightarrow> 'd" where
  "devices h = w_devices (h_world h)"

definition upd_devices :: "('d \<Rightarrow> 'd) \<Rightarrow> ('v, 'e, 'd) mhart \<Rightarrow> ('v, 'e, 'd) mhart" where
  "upd_devices f h = h\<lparr>h_world := (h_world h)\<lparr>w_devices := f (devices h)\<rparr>\<rparr>"

definition PortMapping_of :: "u64 \<Rightarrow> u64 \<Rightarrow> PortMapping" where
  "PortMapping_of s e = \<lparr>port_start = s, port_end = e\<rparr>"

definition symex_ports :: "PortMapping list" where
  "symex_ports = [PortMapping_of 0x00000000 0x01ffffff, PortMapping_of 0x02000000 0x0200ffff,
     PortMapping_of 0x02020000 0x02020032, PortMapping_of 0x02020100 0x02020132]"

definition memory_socket ::
  "('v, 'e) clover \<Rightarrow> ('v, 'c) concolic_memory \<Rightarrow> ('v, ('v, 'e, 'c) sys) target" where
  "memory_socket cv cm t h = (case sym_transport_dbg cv cm t (d_memory (devices h)) of
     (r, m) \<Rightarrow> (r, upd_devices (d_memory_update (\<lambda>_. m)) h))"

definition symex_clint :: "('v, 'e, 'c symex_devices) sim_kernel \<Rightarrow> ('v, 'e, 'c) sys clint_env" where
  "symex_clint K = \<lparr>ce_get = \<lambda>h. d_clint (devices h), ce_update = \<lambda>f. upd_devices (d_clint_update f),
     sc_time_stamp = sk_time K, trans_delay = sk_delay K,
     ce_trigger_timer_interrupt = \<lambda>i. trigger_timer_interrupt,
     ce_trigger_software_interrupt = \<lambda>i. trigger_software_interrupt\<rparr>"

definition symex_ctrl ::
  "('v, 'e, 'c symex_devices) sim_kernel \<Rightarrow> (u32 \<Rightarrow> nat \<Rightarrow> (('v, 'e, 'c) sys, unit) smonad) \<Rightarrow>
   ('v, 'e, 'c) sys ctrl_env" where
  "symex_ctrl K mk = \<lparr>ct_get = \<lambda>h. d_ctrl (devices h), ct_update = \<lambda>f. upd_devices (d_ctrl_update f),
     symif_make_symbolic = mk, symif_sys_exit = sys_exit, report_host_error = sk_report_error K\<rparr>"

definition symex_sensor :: "('v, 'e, 'c symex_devices) sim_kernel \<Rightarrow> ('v, ('v, 'e, 'c) sys) sensor_env" where
  "symex_sensor K = \<lparr>se_get = \<lambda>h. d_sensor (devices h), se_update = \<lambda>f. upd_devices (d_sensor_update f),
     getSymbolicWord = sk_getSymbolicWord K\<rparr>"

definition symex_kernel ::
  "('v, 'e, 'c symex_devices) sim_kernel \<Rightarrow> ('v, 'e, ('v, 'c symex_devices) mem_world) kernel" where
  "symex_kernel K = \<lparr>k_update_and_get_mtime = clint_update_and_get_mtime (symex_clint K),
     k_getSymbolicBytes = sk_getSymbolicBytes K, k_wait_wfi_event = sk_wait_wfi_event K,
     k_quantum_inc = sk_quantum_inc K, k_quantum_need_sync = sk_quantum_need_sync K,
     k_quantum_sync = sk_quantum_sync K\<rparr>"

definition symex_env_of ::
  "('v, 'e, 'c symex_devices) sim_kernel \<Rightarrow> ('v, ('v, 'e, 'c) sys) target \<Rightarrow>
   ('v, 'e, 'c symex_devices) mem_env" where
  "symex_env_of K transport = \<lparr>b_transport = transport, wait_lock_event = sk_wait_lock_event K,
     same_object = sk_same_object K, dmi_ranges = [], has_mmu = True, page_fault_on_AD = False\<rparr>"

fun symex_transport ::
  "('v, 'e) clover \<Rightarrow> ('v, 'c) concolic_memory \<Rightarrow> ('v, 'e, 'c symex_devices) sim_kernel \<Rightarrow> nat \<Rightarrow>
   ('v, ('v, 'e, 'c) sys) target" where
    "symex_transport cv cm K 0 t = throw_m (RuntimeError ''nested bus transactions'')"
  | "symex_transport cv cm K (Suc n) t =
      (let pl = mem_platform cv (symex_env_of K (symex_transport cv cm K n)) (symex_kernel K) in
       bus_transport symex_ports
         [memory_socket cv cm, clint_transport (symex_clint K),
          ctrl_transport (symex_ctrl K (make_symbolic cv pl)), sensor_transport cv (symex_sensor K)] t)"

definition symex_env ::
  "('v, 'e) clover \<Rightarrow> ('v, 'c) concolic_memory \<Rightarrow> ('v, 'e, 'c symex_devices) sim_kernel \<Rightarrow> nat \<Rightarrow>
   ('v, 'e, 'c symex_devices) mem_env" where
  "symex_env cv cm K n = symex_env_of K (symex_transport cv cm K n)"

definition symex_platform ::
  "('v, 'e) clover \<Rightarrow> ('v, 'c) concolic_memory \<Rightarrow> ('v, 'e, 'c symex_devices) sim_kernel \<Rightarrow> nat \<Rightarrow>
   ('v, 'e, ('v, 'c symex_devices) mem_world) platform" where
  "symex_platform cv cm K n = mem_platform cv (symex_env cv cm K n) (symex_kernel K)"

definition symex_init ::
  "('v, 'e) clover \<Rightarrow> 'c \<Rightarrow> u32 \<Rightarrow> (error + unit) \<times> ('v, 'e, 'c) sys" where
  "symex_init cv img entrypoint = ISS_init cv entrypoint (0x01ffffff - 0x01ffffff mod 4)
     (ISS_construct cv 0 False
       \<lparr>w_bus_lock = BusLock_init, w_lr_addr = None, w_tlb = \<lambda>_ _ _. empty_entry,
        w_devices = \<lparr>d_memory = \<lparr>sym_size = 0x02000000, sym_memory = img\<rparr>, d_clint = CLINT_make 1,
          d_ctrl = SymbolicCTRL_make, d_sensor = SymbolicSensor_make\<rparr>\<rparr>)"

section \<open>Access to the devices\<close>

lemma devices_upd: "devices (upd_devices f h) = f (devices h)" "h_csrs (upd_devices f h) = h_csrs h"
  by (simp_all add: upd_devices_def devices_def)

lemma upd_devices_cong: "f (devices h) = g (devices h) \<Longrightarrow> upd_devices f h = upd_devices g h"
  by (simp add: upd_devices_def)

end
