(* ===== verification/Symex_Laws.thy ===== *)
theory Symex_Laws
  imports Symex_System
begin

text \<open>
  The SymEx platform keeps the contract of the memory interface: every device on its bus answers a
  transaction within the limits of \<open>response_ok\<close> and touches only the outside of the core. The
  locale \<open>symex_laws\<close> states what the platform relies on from SystemC and clover.
\<close>

section \<open>Device contracts\<close>

definition device_error :: "error \<Rightarrow> bool" where
  "device_error e \<longleftrightarrow> mem_error e \<or> e = AssertFail ''contains(addr)'' \<or>
     e = AssertFail ''local_addr + len <= mem.size()'' \<or>
     e = AssertFail ''t.addr % 4 == 0'' \<or> e = AssertFail ''idx < size'' \<or>
     e = RuntimeError ''runtime assertion failed'' \<or> e = RuntimeError ''unsupported TLM command'' \<or>
     e = RuntimeError ''nested bus transactions'' \<or>
     (\<exists>n a :: u64. e = RuntimeError (n @ '' unable to route address '' @ to_string a))"

lemma device_error_simps [simp]:
  "device_error (AssertFail ''contains(addr)'')"
  "device_error (AssertFail ''local_addr + len <= mem.size()'')"
  "device_error (AssertFail ''t.addr % 4 == 0'')" "device_error (AssertFail ''idx < size'')"
  "device_error (RuntimeError ''runtime assertion failed'')"
  "device_error (RuntimeError ''unsupported TLM command'')"
  "device_error (RuntimeError ''nested bus transactions'')"
  "device_error (RuntimeError (n @ '' unable to route address '' @ to_string (a :: u64)))"
  by (auto simp: device_error_def)

definition target_ok ::
  "('v, 'e) clover \<Rightarrow> (error \<Rightarrow> bool) \<Rightarrow> ('v, ('v, 'e, 'm) hart) target \<Rightarrow> bool" where
  "target_ok cv PE T \<longleftrightarrow> (\<forall>p. contained (platform_error PE) (T p) (response_ok cv p))"

lemma contained_modify [contained_rules]: "(\<And>h. outside h (f h)) \<Longrightarrow> Q () \<Longrightarrow> contained E (modify_m f) Q"
  by (simp add: contained_def)

lemma outside_upd_devices [simp]: "outside h (upd_devices f h)"
  by (simp add: upd_devices_def)

lemma outside_mip [simp]: "outside h (h\<lparr>h_csrs := mip_reg_update f (h_csrs h)\<rparr>)"
  by (simp add: outside_def)

lemma outside_exit [simp]: "outside h (h\<lparr>h_shall_exit := b\<rparr>)"
  by (simp add: outside_def)

lemma contained_lines:
  "contained E (trigger_timer_interrupt b) (\<lambda>_. True)"
  "contained E (trigger_software_interrupt b) (\<lambda>_. True)" "contained E sys_exit (\<lambda>_. True)"
  unfolding trigger_timer_interrupt_def trigger_software_interrupt_def sys_exit_def upd_csrs_def
  by (intro contained_modify; simp)+

lemma response_ok_self [simp]: "p_command p = TLM_WRITE_COMMAND \<Longrightarrow> response_ok cv p p"
  by (simp add: response_ok_def)

lemma response_ok_address [simp]: "response_ok cv (p\<lparr>p_address := a\<rparr>) = response_ok cv p"
  by (simp add: response_ok_def fun_eq_iff)

section \<open>Register ranges\<close>

definition range_ok :: "(error \<Rightarrow> bool) \<Rightarrow> ('v, 'e, 'm) hart range_port \<Rightarrow> bool" where
  "range_ok E p \<longleftrightarrow> (\<forall>f h. outside h (rp_mem_update p f h)) \<and>
     (\<forall>a n. contained E (pre_callback (pre_write_callback p) a n) (\<lambda>_. True) \<and>
       contained E (post_callback (post_write_callback p) a n) (\<lambda>_. True) \<and>
       contained E (pre_callback (pre_read_callback p) a n) (\<lambda>_. True) \<and>
       contained E (post_callback (post_read_callback p) a n) (\<lambda>_. True))"

lemma contained_ensure: "E (RuntimeError ''runtime assertion failed'') \<Longrightarrow> Q () \<Longrightarrow> contained E (ensure b) Q"
  by (simp add: ensure_def contained_return contained_throw)

lemma contained_range:
  assumes ok: "range_ok E p" and err: "\<And>e. device_error e \<Longrightarrow> E e"
  shows "contained E (rr_write p a bs) (\<lambda>_. True)"
    and "contained E (rr_read p a bs) (\<lambda>r. length r = length bs)"
  unfolding rr_write_def rr_read_def rr_check_def Let_def
  by (intro contained_rules contained_bind_any contained_assert err;
      use ok in \<open>simp add: range_ok_def\<close>)+

lemma contained_process:
  assumes ok: "range_ok (platform_error PE) p" and err: "\<And>e. device_error e \<Longrightarrow> platform_error PE e"
  shows "contained (platform_error PE) (rr_process p t)
    (\<lambda>r. p_command r = p_command t \<and> length (p_data r) = length (p_data t) \<and> p_extension r = p_extension t)"
  unfolding rr_process_def
  by (cases "p_command t")
    (auto intro!: contained_rules contained_bind [OF contained_range(2) [OF ok err]]
      contained_weaken [OF contained_range(1) [OF ok err]] contained_ensure err)

lemma contained_route:
  assumes "list_all (range_ok (platform_error PE)) ps" and err: "\<And>e. device_error e \<Longrightarrow> platform_error PE e"
  shows "contained (platform_error PE) (rr_route name ps t)
    (\<lambda>r. p_command r = p_command t \<and> length (p_data r) = length (p_data t) \<and> p_extension r = p_extension t)"
  using assms(1)
proof (induction ps)
  case Nil
  show ?case unfolding rr_route.simps by (intro contained_throw err device_error_simps)
next
  case (Cons p ps)
  then show ?case
    unfolding rr_route.simps by (intro contained_rules contained_process err) simp_all
qed

lemma response_okI:
  "p_command t = p_command p \<and> length (p_data t) = length (p_data p) \<and> p_extension t = p_extension p \<Longrightarrow>
   response_ok cv p t"
  by (simp add: response_ok_def)

lemma route_target_ok:
  assumes "list_all (range_ok (platform_error PE)) ps" and "\<And>e. device_error e \<Longrightarrow> platform_error PE e"
  shows "target_ok cv PE (rr_route name ps)"
  unfolding target_ok_def
  by (auto intro: contained_weaken [OF contained_route [OF assms]] response_okI)

section \<open>The bus\<close>

lemma bus_target_ok:
  assumes "length isocks = length ports" and "list_all (target_ok cv PE) isocks"
  shows "target_ok cv PE (bus_transport ports isocks)"
  unfolding target_ok_def
proof
  fix p :: "'a payload"
  show "contained (platform_error PE) (bus_transport ports isocks p) (response_ok cv p)"
  proof (cases "bus_decode ports (p_address p) < 0")
    case True
    then show ?thesis by (simp add: bus_transport_def Let_def response_ok_def contained_return)
  next
    case False
    with bus_decode_spec [of ports "p_address p"] obtain j where
      j: "j < length ports" "bus_decode ports (p_address p) = int j" by auto
    with assms have "target_ok cv PE (isocks ! j)" by (simp add: list_all_length)
    then have "contained (platform_error PE) ((isocks ! j) (p\<lparr>p_address := a\<rparr>)) (response_ok cv p)" for a
      unfolding target_ok_def by (drule_tac x = "p\<lparr>p_address := a\<rparr>" in spec) simp
    with j show ?thesis by (simp add: bus_transport_def)
  qed
qed

text \<open>The callback of the symbolic control peripheral runs inside a bus transaction.\<close>

lemma make_symbolic_contained:
  assumes "mem_env_laws cv ev sem cur env k PE"
    and "\<And>name n. contained PE (k_getSymbolicBytes k name n) (\<lambda>v. getWidth cv v = 8 * n)"
  shows "contained (platform_error PE) (make_symbolic cv (mem_platform cv env k) a m) (\<lambda>_. True)"
proof -
  have "getSymbolicBytes (mem_platform cv env k) = k_getSymbolicBytes k"
    "symbolic_store_data (mem_platform cv env k) = mem_symbolic_store_data cv env"
    by (simp_all add: mem_platform_def)
  moreover have "contained (platform_error PE) (k_getSymbolicBytes k name n) (\<lambda>v. getWidth cv v = 8 * n)" for name n
    by (rule contained_weaken [OF assms(2)]) (auto intro: mem_env_laws.PE_E [OF assms(1)])
  ultimately show ?thesis
    unfolding make_symbolic_def
    by (simp only:) (rule contained_bind [OF _ mem_env_laws.c_store [OF assms(1)]])
qed

section \<open>The platform\<close>

text \<open>What a platform relies on from the simulation kernel and from clover's symbolic inputs.\<close>

locale sim_kernel_laws =
  fixes cv :: "('v, 'e) clover" and K :: "('v, 'e, 'd) sim_kernel"
    and PE :: "error \<Rightarrow> bool"
  assumes PE_no_trap: "PE e \<Longrightarrow> \<not> (\<exists>r v. e = SimulationTrap r v)"
    and PE_device: "device_error e \<Longrightarrow> PE e"
    and symbolic_bytes: "contained PE (sk_getSymbolicBytes K name n) (\<lambda>v. getWidth cv v = 8 * n)"
    and symbolic_word: "contained PE (sk_getSymbolicWord K name) (\<lambda>v. getWidth cv v = 32)"
    and report_law: "contained PE (sk_report_error K) (\<lambda>_. True)"
    and wait_lock_law: "contained PE (sk_wait_lock_event K) (\<lambda>_. True)"
    and wait_lock_unlocked:
      "sk_wait_lock_event K h = (Inr u, h') \<Longrightarrow> \<not> locked (w_bus_lock (h_world h'))"
    and wait_wfi_law: "contained PE (sk_wait_wfi_event K) (\<lambda>_. True)"
    and quantum_laws: "contained PE (sk_quantum_inc K t) (\<lambda>_. True)"
      "contained PE (sk_quantum_need_sync K) (\<lambda>_. True)" "contained PE (sk_quantum_sync K) (\<lambda>_. True)"
begin

lemma PE_platform: "PE e \<Longrightarrow> platform_error PE e"
  using PE_no_trap [of e] by (cases e) (auto simp: platform_error_def)

lemma device_platform: "device_error e \<Longrightarrow> platform_error PE e"
  by (intro PE_platform PE_device)

lemma lift_PE: "contained PE m Q \<Longrightarrow> contained (platform_error PE) m Q"
  by (erule contained_weaken) (auto intro: PE_platform)

end

locale symex_laws = clover_laws cv ev sem cur + concolic_memory_laws cv ev cm + sim_kernel_laws cv K PE
  for cv :: "('v, 'e) clover" and ev :: "'a \<Rightarrow> 'v \<Rightarrow> nat" and sem :: "'a \<Rightarrow> 'e \<Rightarrow> nat" and cur :: 'a
    and cm :: "('v, 'c) concolic_memory" and K :: "('v, 'e, 'c symex_devices) sim_kernel"
    and PE :: "error \<Rightarrow> bool"
begin

lemma memory_ok: "target_ok cv PE (memory_socket cv cm)"
proof -
  have len: "length (BVCToBytes cv x n) = n" for x n by (simp add: BVCToBytes_law)
  show ?thesis
    unfolding target_ok_def
    by (auto simp: contained_def memory_socket_def sym_transport_dbg_def sym_read_data_def
        sym_write_data_def Let_def response_ok_def load_width len split: tlm_command.split)
qed

lemma clint_mtime: "contained E (clint_update_and_get_mtime (symex_clint K)) (\<lambda>_. True)"
  unfolding clint_update_and_get_mtime_def symex_clint_def by (intro contained_rules) simp_all

lemma clint_ok: "target_ok cv PE (clint_transport (symex_clint K))"
proof -
  have "list_all (range_ok (platform_error PE)) (clint_ranges (symex_clint K))"
    by (auto simp: clint_ranges_def range_ok_def symex_clint_def pre_callback_def post_callback_def
        pre_read_mtime_def post_write_mtimecmp_def post_write_msip_def ArrayView_index_def Let_def
        intro!: contained_rules contained_bind_any contained_assert contained_lines device_platform)
  from route_target_ok [OF this device_platform] show ?thesis
    by (simp add: target_ok_def clint_transport_def)
qed

lemma sensor_ok: "target_ok cv PE (sensor_transport cv (symex_sensor K))"
proof -
  have r: "contained (platform_error PE) (sensor_read cv (symex_sensor K) p) (response_ok cv p)"
    if "length (p_data p) = 4" "p_command p = TLM_READ_COMMAND" for p
    unfolding sensor_read_def
    using that
    by (auto simp: symex_sensor_def response_ok_def u32_to_bytes_def width_binop BVC_law Let_def
        intro!: contained_bind_gets contained_if contained_then contained_modify contained_return
          contained_bind [OF lift_PE [OF symbolic_word]])
  show ?thesis
    unfolding target_ok_def sensor_transport_def
    by (auto simp: response_ok_def symex_sensor_def split: tlm_command.split option.split
        intro!: contained_rules r [unfolded symex_sensor_def])
qed

lemma env_laws:
  assumes "target_ok cv PE T"
  shows "mem_env_laws cv ev sem cur (symex_env_of K T) (symex_kernel K) PE"
  by unfold_locales
    (use assms PE_no_trap PE_device wait_lock_law wait_lock_unlocked clint_mtime wait_wfi_law quantum_laws in
      \<open>auto simp: target_ok_def symex_env_of_def symex_kernel_def device_error_def\<close>)

lemma transport_ok: "target_ok cv PE (symex_transport cv cm K n)"
proof (induction n)
  case 0
  show ?case
    unfolding target_ok_def symex_transport.simps
    by (intro allI contained_throw device_platform device_error_simps)
next
  case (Suc n)
  let ?pl = "mem_platform cv (symex_env_of K (symex_transport cv cm K n)) (symex_kernel K)"
  have mk: "contained (platform_error PE) (make_symbolic cv ?pl a m) (\<lambda>_. True)" for a m
    by (rule make_symbolic_contained [OF env_laws [OF Suc]]) (simp_all add: symex_kernel_def symbolic_bytes)
  have "list_all (range_ok (platform_error PE)) (ctrl_ranges (symex_ctrl K (make_symbolic cv ?pl)))"
    by (auto simp: ctrl_ranges_def range_ok_def symex_ctrl_def pre_callback_def post_callback_def
        write_size_def write_ctrl_def
        intro!: contained_rules contained_lines mk lift_PE [OF report_law])
  from route_target_ok [OF this device_platform]
  have ctrl: "target_ok cv PE (ctrl_transport (symex_ctrl K (make_symbolic cv ?pl)))"
    by (simp add: target_ok_def ctrl_transport_def)
  have "target_ok cv PE (bus_transport symex_ports
         [memory_socket cv cm, clint_transport (symex_clint K),
          ctrl_transport (symex_ctrl K (make_symbolic cv ?pl)), sensor_transport cv (symex_sensor K)])"
    by (rule bus_target_ok) (simp_all add: symex_ports_def memory_ok clint_ok ctrl sensor_ok)
  then show ?case by (simp add: target_ok_def Let_def)
qed

end

sublocale symex_laws \<subseteq> sys: mem_env_laws cv ev sem cur "symex_env cv cm K n" "symex_kernel K" PE for n
  unfolding symex_env_def by (rule env_laws [OF transport_ok])

end
