(* ===== verification/Symex_Instance.thy ===== *)
theory Symex_Instance
  imports Symex_Laws
begin

text \<open>
  A complete instance of everything the platform takes from outside the repository: the bit-vector
  implementation of clover's values with a byte-addressed concolic memory on it, and a simulation
  kernel for one hart. A symbolic input is a name, an assignment maps names to numbers. The
  interpretations show that the contracts of the development hold for the SymEx platform built on
  this instance.
\<close>

section \<open>Concolic memory\<close>

definition bv_byte :: "nat \<Rightarrow> 'a bv \<Rightarrow> 'a bv" where
  "bv_byte i v = bv_lift1 8 (drop_bit (8 * i)) v"

definition bv_concat :: "'a bv \<Rightarrow> 'a bv \<Rightarrow> 'a bv" where
  "bv_concat lo hi = bv_lift2 (8 + bv_width hi) (\<lambda>l h. l + 256 * h) lo hi"

definition bv_memory :: "('a bv, u64 \<Rightarrow> 'a bv) concolic_memory" where
  "bv_memory = \<lparr>
     cm_load = \<lambda>c addr n. foldr (\<lambda>i. bv_concat (bv_byte 0 (c (addr + word_of_nat i)))) [0..<n] (Concrete 0 0),
     cm_store = \<lambda>addr v n c x. if unat (x - addr) < n then bv_byte (unat (x - addr)) v else c x\<rparr>"

lemma bv_byte_simps [simp]:
  "bv_width (bv_byte i v) = 8" "bv_eval a (bv_byte i v) = take_bit 8 (drop_bit (8 * i) (bv_eval a v))"
  by (simp_all add: bv_byte_def take_bit_eq_mod)

lemma bv_concat_width [simp]: "bv_width (bv_concat lo hi) = 8 + bv_width hi"
  by (simp add: bv_concat_def)

lemma bv_concat_eval [simp]:
  assumes "bv_width lo = 8"
  shows "bv_eval a (bv_concat lo hi) = bv_eval a lo + 256 * bv_eval a hi"
proof -
  have lo: "bv_eval a lo < 256" using bv_eval_less [of a lo] assms by simp
  have hi: "Suc (bv_eval a hi) \<le> 2 ^ bv_width hi" by (simp add: Suc_le_eq)
  have "bv_eval a lo + 256 * bv_eval a hi < 256 * Suc (bv_eval a hi)" using lo by simp
  also have "\<dots> \<le> 256 * 2 ^ bv_width hi" using hi by (rule mult_le_mono2)
  finally show ?thesis by (simp add: bv_concat_def power_add)
qed

lemma bv_load_width:
  "bv_width (foldr (\<lambda>i. bv_concat (bv_byte 0 (c i))) is (Concrete 0 0)) = 8 * length is"
  by (induction "is") simp_all

lemma take_bit_step:
  "take_bit 8 x + 256 * take_bit n (drop_bit 8 x) = take_bit (8 + n) (x :: nat)"
proof -
  have "x mod (2 ^ 8 * 2 ^ n) = 2 ^ 8 * (x div 2 ^ 8 mod 2 ^ n) + x mod 2 ^ 8" by (rule mod_mult2_eq)
  then show ?thesis by (simp add: take_bit_eq_mod drop_bit_eq_div power_add)
qed

lemma bv_load_store:
  assumes "n \<le> 4" and "k \<le> n"
  shows "bv_eval a (foldr (\<lambda>i. bv_concat (bv_byte 0
        (if unat (addr + word_of_nat i - addr :: u64) < n then bv_byte (unat (addr + word_of_nat i - addr)) v
         else c (addr + word_of_nat i)))) [k..<n] (Concrete 0 0)) =
      take_bit (8 * (n - k)) (drop_bit (8 * k) (bv_eval a v))"
  using assms(2)
proof (induction k rule: inc_induct)
  case (step k)
  have u: "unat (word_of_nat k :: u64) = k"
    using step.hyps assms(1) by (simp add: unat_of_nat)
  have "[k..<n] = k # [Suc k..<n]" using step.hyps by (simp add: upt_conv_Cons)
  moreover have "8 + 8 * (n - Suc k) = 8 * (n - k)" using step.hyps by simp
  ultimately show ?case
    using step.IH step.hyps u take_bit_step [of "drop_bit (8 * k) (bv_eval a v)" "8 * (n - Suc k)"]
    by (simp add: drop_bit_drop_bit)
qed simp

interpretation bvm: concolic_memory_laws "bv_clover cur" bv_eval bv_memory
proof unfold_locales
  show "getWidth (bv_clover cur) (cm_load bv_memory c addr n) = 8 * n" for c addr n
    by (simp add: bv_clover_def bv_memory_def bv_load_width [of "\<lambda>i. c (addr + word_of_nat i)"])
  show "bv_eval a (cm_load bv_memory (cm_store bv_memory addr v n c) addr n) = take_bit (8 * n) (bv_eval a v)"
    if "n \<le> 4" for a addr v n c
    using bv_load_store [OF that, of 0 a addr v c] by (simp add: bv_memory_def)
qed

section \<open>Simulation kernel\<close>

type_synonym inputs = "string \<Rightarrow> nat"
type_synonym bv_value = "inputs bv"
type_synonym bv_expr = "inputs \<Rightarrow> nat"
type_synonym bv_image = "u64 \<Rightarrow> bv_value"

definition bv_kernel :: "(bv_value, bv_expr, 'd) sim_kernel" where
  "bv_kernel = \<lparr>
     sk_time = \<lambda>h. 0, sk_delay = \<lambda>h. 0,
     sk_getSymbolicBytes = \<lambda>name n. return_m (Symbolic (8 * n) (\<lambda>a. a name)),
     sk_getSymbolicWord = \<lambda>name. return_m (Symbolic 32 (\<lambda>a. a name)),
     sk_report_error = return_m (),
     sk_wait_lock_event = upd_world (\<lambda>w. w\<lparr>w_bus_lock := (w_bus_lock w)\<lparr>locked := False\<rparr>\<rparr>),
     sk_wait_wfi_event = return_m (),
     sk_quantum_inc = \<lambda>t. return_m (),
     sk_quantum_need_sync = return_m False,
     sk_quantum_sync = return_m (),
     sk_same_object = \<lambda>v lr. (case (v, lr) of
        (Concrete w n, Some (Concrete w' n')) \<Rightarrow> w = w' \<and> n = n' | _ \<Rightarrow> False)\<rparr>"

lemma device_error_no_trap: "device_error e \<Longrightarrow> \<not> (\<exists>r v. e = SimulationTrap r v)"
  by (auto simp: device_error_def mem_error_def)

lemma bv_kernel_laws:
  assumes "\<And>e. PE e \<Longrightarrow> \<not> (\<exists>r v. e = SimulationTrap r v)" and "\<And>e. device_error e \<Longrightarrow> PE e"
  shows "sim_kernel_laws (bv_clover cur) bv_kernel PE"
  by unfold_locales
    (use assms in \<open>auto simp: bv_kernel_def upd_world_def bv_clover_def intro!: contained_rules\<close>)

interpretation symex: symex_laws "bv_clover cur" bv_eval "\<lambda>a f. f a" cur bv_memory bv_kernel device_error
  by (intro symex_laws.intro bv_kernel_laws bv.clover_laws_axioms bvm.concolic_memory_laws_axioms device_error_no_trap)

abbreviation bv_symex ::
  "inputs \<Rightarrow> nat \<Rightarrow> (bv_value, bv_expr, (bv_value, bv_image symex_devices) mem_world) platform" where
  "bv_symex cur n \<equiv> symex_platform (bv_clover cur) bv_memory bv_kernel n"

interpretation core: iss_core "bv_clover cur" bv_eval "\<lambda>a f. f a" cur "bv_symex cur n" device_error
  unfolding symex_platform_def by unfold_locales

end
