(* ===== verification/Decode_Props.thy ===== *)
theory Decode_Props
  imports Compressed
begin

text \<open>
  What the decoder guarantees: the switches of \<open>decode_normal\<close> compute exactly the relation given by
  the pattern table, encodings do not overlap, and a compressed instruction expands to the 32-bit
  instruction the C extension defines for it, operands included.
\<close>

section \<open>Reference for the compressed formats\<close>

text \<open>
  \<open>move_bits w hi lo to\<close> is the field \<open>w[hi:lo]\<close> moved to bit position \<open>to\<close>; the offsets below are the
  tables of the C extension written with it.
\<close>

definition move_bits :: "u32 \<Rightarrow> nat \<Rightarrow> nat \<Rightarrow> nat \<Rightarrow> u32" where
  "move_bits w hi lo to = push_bit to (take_bit (hi - lo + 1) (drop_bit lo w))"

definition cl_offset :: "u32 \<Rightarrow> u32" where
  "cl_offset w = move_bits w 12 10 3 OR move_bits w 6 6 2 OR move_bits w 5 5 6"

definition css_offset :: "u32 \<Rightarrow> u32" where
  "css_offset w = move_bits w 12 9 2 OR move_bits w 8 7 6"

definition ci_sp_offset :: "u32 \<Rightarrow> u32" where
  "ci_sp_offset w = move_bits w 12 12 5 OR move_bits w 6 4 2 OR move_bits w 3 2 6"

definition cj_offset :: "u32 \<Rightarrow> u32" where
  "cj_offset w = signed_take_bit 11 (move_bits w 12 12 11 OR move_bits w 11 11 4 OR
     move_bits w 10 9 8 OR move_bits w 8 8 10 OR move_bits w 7 7 6 OR move_bits w 6 6 7 OR
     move_bits w 5 3 1 OR move_bits w 2 2 5)"

definition cb_offset :: "u32 \<Rightarrow> u32" where
  "cb_offset w = signed_take_bit 8 (move_bits w 12 12 8 OR move_bits w 11 10 3 OR
     move_bits w 6 5 6 OR move_bits w 4 3 1 OR move_bits w 2 2 5)"

definition ci_imm :: "u32 \<Rightarrow> u32" where
  "ci_imm w = signed_take_bit 5 (move_bits w 12 12 5 OR move_bits w 6 2 0)"

definition creg :: "u32 \<Rightarrow> nat \<Rightarrow> u32" where
  "creg w lo = 8 OR move_bits w (lo + 2) lo 0"

lemma bit_move_bits [instr_bits]:
  "bit (move_bits w hi lo to) n \<longleftrightarrow> to \<le> n \<and> n \<le> to + (hi - lo) \<and> n < 32 \<and> bit w (lo + n - to)"
  by (auto simp: move_bits_def bit_simps)

lemma compressed_imm_reference:
  "C_LW_UIMM w = cl_offset w" "C_SWSP_UIMM w = css_offset w" "C_LWSP_UIMM w = ci_sp_offset w"
  "C_JAL_IMM w = cj_offset w" "C_BRANCH_IMM w = cb_offset w" "c_imm w = ci_imm w"
  unfolding word32_eq_bits
  by (simp_all add: bit_move_bits operand_bits cl_offset_def css_offset_def ci_sp_offset_def cj_offset_def
      cb_offset_def ci_imm_def numeral_2_eq_2 [symmetric])

lemma compressed_reg_reference:
  "c_rd_small w = creg w 7" "c_rs2_small w = creg w 2" "c_rd w = move_bits w 11 7 0"
  "c_rs2 w = move_bits w 6 2 0"
  unfolding word32_eq_bits
  by (simp_all add: bit_move_bits operand_bits creg_def numeral_2_eq_2 [symmetric])

lemma creg_and [simp]: "take_bit 5 (creg w 7) = creg w 7" "take_bit 5 (creg w 2) = creg w 2"
  "take_bit 5 (move_bits w 11 7 0) = move_bits w 11 7 0" "take_bit 5 (move_bits w 6 2 0) = move_bits w 6 2 0"
  unfolding word32_eq_bits
  by (simp_all add: instr_bits bit_simps creg_def)

lemma factory_registers:
  "rd (Factory_LW a b c) = take_bit 5 a" "rs1 (Factory_LW a b c) = take_bit 5 b"
  "rs1 (Factory_SW a b c) = take_bit 5 a" "rs2 (Factory_SW a b c) = take_bit 5 b"
  "rd (Factory_JAL a c) = take_bit 5 a"
  "rs1 (Factory_BEQ a b c) = take_bit 5 a" "rs2 (Factory_BEQ a b c) = take_bit 5 b"
  "rs1 (Factory_BNE a b c) = take_bit 5 a" "rs2 (Factory_BNE a b c) = take_bit 5 b"
  "rd (Factory_ADDI a b c) = take_bit 5 a" "rs1 (Factory_ADDI a b c) = take_bit 5 b"
  unfolding word32_eq_bits by (simp_all add: operand_bits)

lemmas compressed_operand_simps = factory_registers I_imm_roundtrip S_imm_roundtrip B_imm_roundtrip
  J_imm_roundtrip compressed_imm_fits [simplified] C_SW_UIMM_def C_J_IMM_def compressed_reg_reference

lemma shamt_less_32:
  assumes "decode_normal w RV32 \<in> {OpI SLLI, OpI SRLI, OpI SRAI}"
  shows "unat (shamt w) < 32"
proof -
  have b: "\<not> bit w 25"
    using assms decode_normal_sound [of RV32 w]
    by (auto simp: undef_or_matches_def matches_def pattern_compute
        dest: arg_cong [where f = "\<lambda>x. bit x 25"] simp: bit_simps)
  have "shamt w = take_bit 5 (drop_bit 20 w)"
  proof (rule bit_word_eqI)
    fix n :: nat assume "n < LENGTH(32)"
    with b show "bit (shamt w) n \<longleftrightarrow> bit (take_bit 5 (drop_bit 20 w)) n"
      by (cases "n = 5") (auto simp: decoder_fields bit_simps)
  qed
  then show ?thesis using take_bit_unat_less [of 5 "drop_bit 20 w"] by simp
qed

section \<open>Properties\<close>

text \<open>
  C10: The decoder is exact. For every instruction word and architecture, \<open>decode_normal\<close> returns an
  opcode other than \<open>UNDEF\<close> if and only if the word matches that opcode's mask and encoding
  (with the RV32 patterns for the shifts by an immediate on RV32).
\<close>

theorem decode_exact:
  assumes "op \<noteq> UNDEF"
  shows "decode_normal w arch = op \<longleftrightarrow> matches arch w op"
  using decode_normal_sound [of arch w] decode_normal_complete [OF _ assms] assms
  by (auto simp: undef_or_matches_def)

theorem decode_exact_witness:
  "OpI ADDI \<noteq> UNDEF \<and> (decode_normal 0x00100093 RV32 = OpI ADDI \<longleftrightarrow> matches RV32 0x00100093 (OpI ADDI))"
  using decode_exact [of "OpI ADDI" "0x00100093" RV32] by simp

text \<open>
  No instruction word belongs to two opcodes, and \<open>UNDEF\<close> (which becomes an illegal instruction
  trap) is returned exactly for the words that match no opcode.
\<close>

lemma decode_undef:
  "decode_normal w arch = UNDEF \<longleftrightarrow> \<not> (\<exists>op. op \<noteq> UNDEF \<and> matches arch w op)"
  using decode_normal_sound [of arch w] decode_normal_complete [of arch w]
  by (auto simp: undef_or_matches_def)

text \<open>
  On RV32 an immediate shift that decodes has a shift amount below 32: the encodings with bit 25
  set are illegal.
\<close>

lemma rv32_shamt_bound:
  assumes "decode_normal w RV32 \<in> {OpI SLLI, OpI SRLI, OpI SRAI}"
  shows "unat (shamt w) < 32"
  using assms by (rule shamt_less_32)

lemma rv32_shamt_bound_witness:
  "decode_normal 0x01f09093 RV32 = OpI SLLI \<and> unat (shamt 0x01f09093) < 32"
proof -
  have "decode_normal 0x01f09093 RV32 = OpI SLLI" by code_simp
  then show ?thesis using rv32_shamt_bound [of "0x01f09093"] by simp
qed

text \<open>
  C11: Expanding a compressed instruction on RV32 yields a 32-bit word that decodes to the very
  opcode the expansion reports, so the simulator executes the instruction it announces.
\<close>

theorem compressed_expansion_decodes:
  assumes "decode_and_expand_compressed w RV32 = Inr (op, w')" and "op \<noteq> UNDEF"
  shows "decode_normal w' RV32 = op"
proof -
  obtain c_op where c: "decode_compressed w RV32 = Inr c_op" "expand_compressed w c_op RV32 = (op, w')"
    using assms(1) by (auto simp: decode_and_expand_compressed_def split: sum.splits)
  have "c_op \<noteq> C_ADDIW"
    using c(1) by (auto simp: decode_compressed_def decode_quadrant0_def decode_quadrant1_def
        decode_quadrant2_def split: if_splits)
  with c(2) have "op \<noteq> OpI64 ADDIW"
    by (cases c_op) (auto simp: expand_compressed_def Let_def split: if_splits)
  with c(2) assms(2) show ?thesis by (rule expand_decodes)
qed

theorem compressed_expansion_decodes_witness:
  "decode_and_expand_compressed 0x4505 RV32 = Inr (OpI ADDI, 0x00100513) \<and>
   decode_normal 0x00100513 RV32 = OpI ADDI"
proof -
  have "decode_and_expand_compressed 0x4505 RV32 = Inr (OpI ADDI, 0x00100513)" by code_simp
  then show ?thesis using compressed_expansion_decodes [of "0x4505" "OpI ADDI" "0x00100513"] by simp
qed

text \<open>
  The memory instructions of the C extension expand to loads and stores with the base register,
  the data register and the scaled offset of the specification.
\<close>

lemma compressed_memory_operands:
  "let l = snd (expand_compressed w C_LW arch); s = snd (expand_compressed w C_SW arch);
       p = snd (expand_compressed w C_SWSP arch) in
   rd l = creg w 2 \<and> rs1 l = creg w 7 \<and> I_imm l = cl_offset w \<and>
   rs2 s = creg w 2 \<and> rs1 s = creg w 7 \<and> S_imm s = cl_offset w \<and>
   rs2 p = move_bits w 6 2 0 \<and> rs1 p = 2 \<and> S_imm p = css_offset w"
  by (simp add: expand_compressed_def compressed_operand_simps compressed_imm_reference [symmetric])

text \<open>
  The jumps, branches and immediate instructions of the C extension expand with the sign-extended
  offset or immediate of the specification and the registers it names.
\<close>

lemma compressed_control_operands:
  "let j = snd (expand_compressed w C_J arch); b = snd (expand_compressed w C_BEQZ arch);
       n = snd (expand_compressed w C_BNEZ arch); i = snd (expand_compressed w C_ADDI arch);
       l = snd (expand_compressed w C_LI arch) in
   rd j = 0 \<and> J_imm j = cj_offset w \<and>
   rs1 b = creg w 7 \<and> rs2 b = 0 \<and> B_imm b = cb_offset w \<and>
   rs1 n = creg w 7 \<and> rs2 n = 0 \<and> B_imm n = cb_offset w \<and>
   rd i = move_bits w 11 7 0 \<and> rs1 i = move_bits w 11 7 0 \<and> I_imm i = ci_imm w \<and>
   rd l = move_bits w 11 7 0 \<and> rs1 l = 0 \<and> I_imm l = ci_imm w"
  by (simp add: expand_compressed_def compressed_operand_simps compressed_imm_reference [symmetric])

text \<open>
  On RV64 the expansion of \<^verbatim>\<open>C.ADDIW\<close> reports \<open>ADDIW\<close> but builds the encoding of \<open>ADDI\<close>, so the
  expanded word does not decode to the reported opcode.
\<close>

lemma rv64_caddiw_mismatch:
  "\<exists>w w'. decode_and_expand_compressed w RV64 = Inr (OpI64 ADDIW, w') \<and> decode_normal w' RV64 = OpI ADDI"
proof -
  have "decode_and_expand_compressed 0x2085 RV64 = Inr (OpI64 ADDIW, 0x00108093)" by code_simp
  moreover have "decode_normal 0x00108093 RV64 = OpI ADDI" by code_simp
  ultimately show ?thesis by blast
qed

end
