(* ===== verification/Exec_Props.thy ===== *)
theory Exec_Props
  imports Symex_Instance Decode_Props
begin

text \<open>
  Execution of the integer instructions refines the word semantics of the instruction set: what an
  instruction computes on concolic values is, under every assignment of the symbolic inputs, what
  the architecture defines on 32-bit words. The reference functions \<open>isa_alu\<close>, \<open>isa_mul\<close>,
  \<open>isa_div\<close> and \<open>isa_branch\<close> are that definition.
\<close>

section \<open>Reference semantics\<close>

definition isa_alu :: "rv32i \<Rightarrow> (u32 \<Rightarrow> u32 \<Rightarrow> u32) option" where
  "isa_alu i = (case i of
       ADDI \<Rightarrow> Some (+) | ADD \<Rightarrow> Some (+) | SUB \<Rightarrow> Some (-)
     | XORI \<Rightarrow> Some (XOR) | XOR_R \<Rightarrow> Some (XOR) | ORI \<Rightarrow> Some (OR) | OR_R \<Rightarrow> Some (OR)
     | ANDI \<Rightarrow> Some (AND) | AND_R \<Rightarrow> Some (AND)
     | SLTI \<Rightarrow> Some (\<lambda>x y. of_bool (sint x < sint y)) | SLT \<Rightarrow> Some (\<lambda>x y. of_bool (sint x < sint y))
     | SLTIU \<Rightarrow> Some (\<lambda>x y. of_bool (x < y)) | SLTU \<Rightarrow> Some (\<lambda>x y. of_bool (x < y))
     | SLLI \<Rightarrow> Some (\<lambda>x y. push_bit (unat (take_bit 5 y)) x)
     | SLL \<Rightarrow> Some (\<lambda>x y. push_bit (unat (take_bit 5 y)) x)
     | SRLI \<Rightarrow> Some (\<lambda>x y. drop_bit (unat (take_bit 5 y)) x)
     | SRL \<Rightarrow> Some (\<lambda>x y. drop_bit (unat (take_bit 5 y)) x)
     | SRAI \<Rightarrow> Some (\<lambda>x y. signed_drop_bit (unat (take_bit 5 y)) x)
     | SRA \<Rightarrow> Some (\<lambda>x y. signed_drop_bit (unat (take_bit 5 y)) x)
     | _ \<Rightarrow> None)"

definition reg_val :: "('a \<Rightarrow> 'v \<Rightarrow> nat) \<Rightarrow> 'a \<Rightarrow> ('v, 'e, 'm) hart \<Rightarrow> u32 \<Rightarrow> u32" where
  "reg_val ev a h i = val32 ev a (h_regs h ! unat i)"

definition operand2 :: "('a \<Rightarrow> 'v \<Rightarrow> nat) \<Rightarrow> 'a \<Rightarrow> ('v, 'e, 'm) hart \<Rightarrow> u32 \<Rightarrow> rv32i \<Rightarrow> u32" where
  "operand2 ev a h w i =
     (if i \<in> {ADDI, SLTI, SLTIU, XORI, ORI, ANDI} then I_imm w
      else if i \<in> {SLLI, SRLI, SRAI} then shamt w
      else reg_val ev a h (rs2 w))"

definition isa_mul :: "rv32m \<Rightarrow> (u32 \<Rightarrow> u32 \<Rightarrow> u32) option" where
  "isa_mul i = (case i of
       MUL \<Rightarrow> Some (*)
     | MULH \<Rightarrow> Some (\<lambda>x y. word_of_int (drop_bit 32 (sint x * sint y)))
     | MULHU \<Rightarrow> Some (\<lambda>x y. word_of_int (drop_bit 32 (uint x * uint y)))
     | MULHSU \<Rightarrow> Some (\<lambda>x y. word_of_int (drop_bit 32 (sint x * uint y)))
     | _ \<Rightarrow> None)"

definition isa_div :: "rv32m \<Rightarrow> (u32 \<Rightarrow> u32 \<Rightarrow> u32) option" where
  "isa_div i = (case i of
       DIV \<Rightarrow> Some (\<lambda>x y. if y = 0 then - 1 else if x = 0x80000000 \<and> y = - 1 then 0x80000000
                     else word_of_int (sint x sdiv sint y))
     | DIVU \<Rightarrow> Some (\<lambda>x y. if y = 0 then - 1 else x div y)
     | REM \<Rightarrow> Some (\<lambda>x y. if y = 0 then x else if x = 0x80000000 \<and> y = - 1 then 0
                     else word_of_int (sint x smod sint y))
     | REMU \<Rightarrow> Some (\<lambda>x y. if y = 0 then x else x mod y)
     | _ \<Rightarrow> None)"

definition isa_branch :: "rv32i \<Rightarrow> (u32 \<Rightarrow> u32 \<Rightarrow> bool) option" where
  "isa_branch i = (case i of
       BEQ \<Rightarrow> Some (=) | BNE \<Rightarrow> Some (\<noteq>)
     | BLT \<Rightarrow> Some (\<lambda>x y. sint x < sint y) | BGE \<Rightarrow> Some (\<lambda>x y. sint y \<le> sint x)
     | BLTU \<Rightarrow> Some (<) | BGEU \<Rightarrow> Some (\<lambda>x y. y \<le> x)
     | _ \<Rightarrow> None)"

text \<open>The outcome of an instruction that only writes its destination register.\<close>

definition writes_rd ::
  "('v, 'e) clover \<Rightarrow> ('a \<Rightarrow> 'v \<Rightarrow> nat) \<Rightarrow> ('v, 'e, 'm, unit) iss \<Rightarrow> ('v, 'e, 'm) hart \<Rightarrow> u32 \<Rightarrow> ('a \<Rightarrow> u32) \<Rightarrow> bool" where
  "writes_rd cv ev m h w f \<longleftrightarrow> (\<exists>v. m h = (Inr (), h\<lparr>h_regs := (h_regs h)[unat (rd w) := v]\<rparr>) \<and>
     getWidth cv v = 32 \<and> (\<forall>a. val32 ev a v = f a))"

text \<open>
  A condition \<open>P\<close> on the symbolic inputs that decided the control flow is recorded in the trace, with
  its outcome, unless it does not depend on the inputs at all.
\<close>

definition branch_recorded ::
  "('a \<Rightarrow> 'e \<Rightarrow> nat) \<Rightarrow> 'a \<Rightarrow> ('a \<Rightarrow> bool) \<Rightarrow> ('v, 'e, 'm) hart \<Rightarrow> ('v, 'e, 'm) hart \<Rightarrow> bool" where
  "branch_recorded sem cur P h h' \<longleftrightarrow>
     h_tracer h' = h_tracer h \<and> (\<forall>a. P a = P cur) \<or>
     (\<exists>e. h_tracer h' = h_tracer h @ [(P cur, e, h_last_pc h)] \<and> (\<forall>a. (sem a e = 1) = P a))"

section \<open>Refinement lemmas\<close>

lemma word_of_int_take_bit64: "(word_of_int (take_bit 64 i) :: u32) = word_of_int i"
  by (simp add: word_of_int_eq_iff)

lemma exec_alu_cases:
  assumes "isa_alu i = Some f"
  shows "i \<in> {ADDI, SLTI, SLTIU, XORI, ORI, ANDI} \<or> i \<in> {SLLI, SRLI, SRAI} \<or>
    i \<in> {SLL, SRL, SRA} \<or> i \<in> {ADD, SUB, SLT, SLTU, XOR_R, OR_R, AND_R}"
  using assms by (cases i) (simp_all add: isa_alu_def)

context clover_laws
begin

lemma reg_width: "regs_wf cv (h_regs h) \<Longrightarrow> unat i < 32 \<Longrightarrow> getWidth cv (h_regs h ! unat i) = 32"
  by (simp add: regs_wf_def)

lemma rd_le: "rd w \<le> 31"
  using register_index_bounds(1) [of w] by (simp add: word_le_nat_alt)

lemma write_rd:
  assumes "getWidth cv v \<le> 32"
  shows "writes_rd cv ev (RegFile_write cv (rd w) v) h w (\<lambda>a. val32 ev a v)"
  using assms val32_zext [OF assms] rd_le [of w]
  by (auto simp: writes_rd_def RegFile_write_def monad_simps)

lemma writes_rd_cong: "writes_rd cv ev m h w f \<Longrightarrow> (\<And>a. f a = g a) \<Longrightarrow> writes_rd cv ev m h w g"
  by (simp add: writes_rd_def)

lemma exec_imm_writes:
  assumes "getWidth cv (f (h_regs h ! unat (rs1 w)) imm) \<le> 32"
  shows "writes_rd cv ev (exec_imm cv w f imm) h w (\<lambda>a. val32 ev a (f (h_regs h ! unat (rs1 w)) imm))"
  using write_rd [OF assms, of w h] by (simp add: writes_rd_def exec_imm_def RegFile_at_def)

lemma exec_reg_writes:
  assumes "getWidth cv (f (h_regs h ! unat (rs1 w)) (h_regs h ! unat (rs2 w))) \<le> 32"
  shows "writes_rd cv ev (exec_reg cv w f) h w
    (\<lambda>a. val32 ev a (f (h_regs h ! unat (rs1 w)) (h_regs h ! unat (rs2 w))))"
  using write_rd [OF assms, of w h] by (simp add: writes_rd_def exec_reg_def RegFile_at_def)

lemma shamt_value:
  assumes "getWidth cv x = 32"
  defines "y \<equiv> c_zext cv (c_extract cv x 0 5) 32"
  shows "getWidth cv y = 32" "ev a y = unat (take_bit 5 (val32 ev a x))" "ev a y < 32"
proof -
  have e: "getWidth cv (c_extract cv x 0 5) = 5" "ev a (c_extract cv x 0 5) = take_bit 5 (ev a x)"
    using extract_law [of 0 5 x a] assms(1) by simp_all
  show "getWidth cv y = 32" using ext_law [of "c_extract cv x 0 5" 32 a] e by (simp add: y_def)
  show ev: "ev a y = unat (take_bit 5 (val32 ev a x))"
    using ext_law [of "c_extract cv x 0 5" 32 a] e unat_val32 [OF assms(1), of a]
    by (simp add: y_def unsigned_take_bit_eq)
  show "ev a y < 32" unfolding ev using take_bit_unat_less [of 5] by simp
qed

lemma exec_shift_writes:
  assumes "regs_wf cv (h_regs h)" and y: "y = c_zext cv (c_extract cv (h_regs h ! unat (rs2 w)) 0 5) 32"
    and "getWidth cv (f (h_regs h ! unat (rs1 w)) y) \<le> 32"
  shows "writes_rd cv ev (exec_shift cv w f) h w (\<lambda>a. val32 ev a (f (h_regs h ! unat (rs1 w)) y))"
proof -
  have "rs2 w \<le> 31" using register_index_bounds(3) [of w] by (simp add: word_le_nat_alt)
  with write_rd [OF assms(3), of w h] show ?thesis
    by (simp add: writes_rd_def exec_shift_def RegFile_at_def RegFile_shamt_def assert_m_def bind_m_apply y)
qed

lemma val32_relop:
  assumes "getWidth cv x = 32" and "getWidth cv y = 32"
  shows "val32 ev a (c_slt cv x y) = of_bool (sint (val32 ev a x) < sint (val32 ev a y))"
    and "val32 ev a (c_ult cv x y) = of_bool (val32 ev a x < val32 ev a y)"
  using ev_relop32 [OF assms, of a] by (simp_all add: val32_def)

lemma I_IMM_value: "getWidth cv (I_IMM cv w) = 32" "val32 ev a (I_IMM cv w) = I_imm w"
  using val32_sext32(1) [of "BVC cv (I_imm w)"] val32_sext32(2) [of "BVC cv (I_imm w)" a] BVC_law [of "I_imm w" a]
  by (simp_all add: I_IMM_def val32_BVC)

lemma SHAMT_value:
  assumes "unat (shamt w) < 32"
  shows "getWidth cv (SHAMT cv w) = 32" "ev a (SHAMT cv w) = unat (take_bit 5 (shamt w))"
    "ev a (SHAMT cv w) < 32"
  using assms BVC_law [of "shamt w" a]
  by (simp_all add: SHAMT_def unsigned_take_bit_eq take_bit_nat_eq_self)

lemma alu_imm:
  assumes r: "regs_wf cv (h_regs h)" and "isa_alu i = Some f" and "i \<in> {ADDI, SLTI, SLTIU, XORI, ORI, ANDI}"
  shows "writes_rd cv ev (exec_rv32i cv pl w i) h w (\<lambda>a. f (reg_val ev a h (rs1 w)) (I_imm w))"
proof -
  note x = reg_width [OF r register_index_bounds(2), of w]
  note y = I_IMM_value(1) [of w]
  show ?thesis
    using assms(2,3)
    by (auto simp: isa_alu_def exec_rv32i_def reg_val_def width_binop [OF x y] width_relop [OF x y]
        val32_arith [OF x y] val32_relop [OF x y] I_IMM_value
        intro!: writes_rd_cong [OF exec_imm_writes])
qed

lemma alu_shift_imm:
  assumes r: "regs_wf cv (h_regs h)" and "isa_alu i = Some f" and "i \<in> {SLLI, SRLI, SRAI}"
    and s: "unat (shamt w) < 32"
  shows "writes_rd cv ev (exec_rv32i cv pl w i) h w (\<lambda>a. f (reg_val ev a h (rs1 w)) (shamt w))"
proof -
  note x = reg_width [OF r register_index_bounds(2), of w]
  note y = SHAMT_value [OF s]
  show ?thesis
    using assms(2,3)
    by (auto simp: isa_alu_def exec_rv32i_def reg_val_def width_binop [OF x y(1)]
        val32_shift [OF x y(1) y(3)] y(2) intro!: writes_rd_cong [OF exec_imm_writes])
qed

lemma alu_shift_reg:
  assumes r: "regs_wf cv (h_regs h)" and "isa_alu i = Some f" and "i \<in> {SLL, SRL, SRA}"
  shows "writes_rd cv ev (exec_rv32i cv pl w i) h w
    (\<lambda>a. f (reg_val ev a h (rs1 w)) (reg_val ev a h (rs2 w)))"
proof -
  note x = reg_width [OF r register_index_bounds(2), of w]
  note y = shamt_value [OF reg_width [OF r register_index_bounds(3) [of w]]]
  show ?thesis
    using assms(2,3)
    by (auto simp: isa_alu_def exec_rv32i_def reg_val_def width_binop [OF x y(1)]
        val32_shift [OF x y(1) y(3)] y(2) intro!: writes_rd_cong [OF exec_shift_writes [OF r refl]])
qed

lemma alu_reg:
  assumes r: "regs_wf cv (h_regs h)" and "isa_alu i = Some f"
    and "i \<in> {ADD, SUB, SLT, SLTU, XOR_R, OR_R, AND_R}"
  shows "writes_rd cv ev (exec_rv32i cv pl w i) h w
    (\<lambda>a. f (reg_val ev a h (rs1 w)) (reg_val ev a h (rs2 w)))"
proof -
  note x = reg_width [OF r register_index_bounds(2), of w]
  note y = reg_width [OF r register_index_bounds(3), of w]
  show ?thesis
    using assms(2,3)
    by (auto simp: isa_alu_def exec_rv32i_def reg_val_def width_binop [OF x y] width_relop [OF x y]
        val32_arith [OF x y] val32_relop [OF x y] intro!: writes_rd_cong [OF exec_reg_writes])
qed

lemma alu_writes:
  assumes r: "regs_wf cv (h_regs h)" and i: "isa_alu i = Some f" and s: "i \<in> {SLLI, SRLI, SRAI} \<Longrightarrow> unat (shamt w) < 32"
  shows "writes_rd cv ev (exec_rv32i cv pl w i) h w
    (\<lambda>a. f (reg_val ev a h (rs1 w)) (operand2 ev a h w i))"
  using exec_alu_cases [OF i] alu_imm [OF r i, of pl w] alu_shift_imm [OF r i _ s, of pl]
    alu_shift_reg [OF r i, of pl w] alu_reg [OF r i, of pl w]
  by (auto simp: operand2_def)

lemma val32_mul_low:
  assumes x: "getWidth cv x = 32" and y: "getWidth cv y = 32"
  defines "p \<equiv> c_extract cv (c_mul cv (c_sext cv x 64) (c_sext cv y 64)) 0 32"
  shows "getWidth cv p = 32" "val32 ev a p = val32 ev a x * val32 ev a y"
proof -
  have e: "getWidth cv (c_sext cv v 64) = 64 \<and> ev a (c_sext cv v 64) = bv_of_int 64 (sint (val32 ev a v))"
    if "getWidth cv v = 32" for v
    using ext_law [of v 64 a] that by (simp add: signed_val32)
  note w = e [OF x, THEN conjunct1] e [OF y, THEN conjunct1]
  have "int ((bv_of_int 64 i * bv_of_int 64 j) mod 2 ^ 64) = take_bit 64 (i * j)" for i j
    by (simp add: bv_of_int_def take_bit_eq_mod zmod_int mod_mult_eq)
  then have lo: "(word_of_nat ((bv_of_int 64 i * bv_of_int 64 j) mod 2 ^ 64) :: u32) = word_of_int i * word_of_int j" for i j
    by (metis of_int_of_nat_eq of_int_mult word_of_int_take_bit64)
  show "getWidth cv p = 32" "val32 ev a p = val32 ev a x * val32 ev a y"
    using extract_law [of 0 32 "c_mul cv (c_sext cv x 64) (c_sext cv y 64)" a] width_binop(3) [OF w]
      arith_law [OF w, of a] e [OF x] e [OF y]
    by (simp_all add: p_def val32_def word_of_nat_take_bit32 lo [simplified])
qed

lemma mul_writes:
  assumes r: "regs_wf cv (h_regs h)" and i: "isa_mul i = Some f" and m: "misa_reg (h_csrs h) AND M_ISA_EXT \<noteq> 0"
  shows "writes_rd cv ev (exec_rv32m cv w i) h w
    (\<lambda>a. f (reg_val ev a h (rs1 w)) (reg_val ev a h (rs2 w)))"
proof -
  note x = reg_width [OF r register_index_bounds(2), of w]
  note y = reg_width [OF r register_index_bounds(3), of w]
  have ex: "writes_rd cv ev (exec_mul cv w e1 e2 lo) h w (\<lambda>a. val32 ev a
      (c_extract cv (c_mul cv (e1 (h_regs h ! unat (rs1 w)) 64) (e2 (h_regs h ! unat (rs2 w)) 64)) lo 32))"
    if "getWidth cv (c_extract cv (c_mul cv (e1 (h_regs h ! unat (rs1 w)) 64)
      (e2 (h_regs h ! unat (rs2 w)) 64)) lo 32) = 32" for e1 e2 lo
    using write_rd [of "c_extract cv (c_mul cv (e1 (h_regs h ! unat (rs1 w)) 64)
      (e2 (h_regs h ! unat (rs2 w)) 64)) lo 32" w h] that
    by (simp add: exec_mul_def RegFile_at_def writes_rd_def)
  have "exec_rv32m cv w i h = (case i of MUL \<Rightarrow> exec_mul cv w (c_sext cv) (c_sext cv) 0
     | MULH \<Rightarrow> exec_mul cv w (c_sext cv) (c_sext cv) 32
     | MULHU \<Rightarrow> exec_mul cv w (c_zext cv) (c_zext cv) 32
     | MULHSU \<Rightarrow> exec_mul cv w (c_sext cv) (c_zext cv) 32
     | _ \<Rightarrow> exec_rv32m cv w i) h"
    using m by (cases i) (simp_all add: exec_rv32m_def require_isa_def monad_simps)
  then show ?thesis
    using i val32_mul_low [OF x y] val32_mulh [OF x y]
    by (cases i)
      (auto simp: isa_mul_def reg_val_def writes_rd_def [where m = "exec_rv32m cv w i" for i]
        intro!: writes_rd_cong [OF ex, unfolded writes_rd_def])
qed

lemma track_recorded:
  assumes "\<And>a. P a \<longleftrightarrow> ev a x = 1"
  shows "\<exists>t. track_and_trace_branch cv (isTrue cv x) x h = (Inr (), h\<lparr>h_tracer := t\<rparr>) \<and>
    branch_recorded sem cur P h (h\<lparr>h_tracer := t\<rparr>)"
proof (cases "symbolic cv x")
  case None
  then have "track_and_trace_branch cv (isTrue cv x) x h = (Inr (), h\<lparr>h_tracer := h_tracer h\<rparr>)"
    by (simp add: track_and_trace_branch_def)
  moreover have "P a = P cur" for a using symbolic_None [OF None, of a cur] assms by simp
  ultimately show ?thesis by (metis branch_recorded_def hart.select_convs(16) hart.surjective hart.update_convs(16))
next
  case (Some e)
  then show ?thesis
    using assms symbolic_Some [OF Some] isTrue_law [of x]
    by (intro exI [of _ "h_tracer h @ [(isTrue cv x, e, h_last_pc h)]"])
      (auto simp: track_and_trace_branch_def branch_recorded_def)
qed

lemma branch_executes:
  assumes r: "regs_wf cv (h_regs h)" and i: "isa_branch i = Some f"
    and pc: "h_last_pc h AND 1 = 0" and c: "has_C_extension (h_csrs h)"
    and P_def: "P = (\<lambda>a. f (reg_val ev a h (rs1 w)) (reg_val ev a h (rs2 w)))"
  shows "\<exists>t. exec_rv32i cv pl w i h =
      (Inr (), h\<lparr>h_pc := if P cur then h_last_pc h + B_imm w else h_pc h, h_tracer := t\<rparr>) \<and>
    branch_recorded sem cur P h (h\<lparr>h_tracer := t\<rparr>)"
proof -
  note x = reg_width [OF r register_index_bounds(2), of w]
  note y = reg_width [OF r register_index_bounds(3), of w]
  define test where "test = (case i of BEQ \<Rightarrow> c_eq cv | BNE \<Rightarrow> c_ne cv | BLT \<Rightarrow> c_slt cv
     | BGE \<Rightarrow> c_sge cv | BLTU \<Rightarrow> c_ult cv | _ \<Rightarrow> c_uge cv)"
  define res where "res = test (h_regs h ! unat (rs1 w)) (h_regs h ! unat (rs2 w))"
  have P: "P a \<longleftrightarrow> ev a res = 1" for a
    using i by (cases i)
      (auto simp: isa_branch_def res_def test_def P_def reg_val_def ev_relop32 [OF x y])
  have ev: "(h_last_pc h + B_imm w) AND 1 = 0"
    using pc even_imms(2) [of w] by (simp add: even_word)
  have "exec_rv32i cv pl w i = exec_branch cv w test"
    using i by (cases i) (simp_all add: isa_branch_def exec_rv32i_def test_def)
  moreover have "exec_branch cv w test h =
      track_and_trace_branch cv (isTrue cv res) res
        (h\<lparr>h_pc := if P cur then h_last_pc h + B_imm w else h_pc h\<rparr>)"
    using ev c P [of cur] isTrue_law [of res]
    by (auto simp: exec_branch_def RegFile_at_def res_def [symmetric] Let_def when_m_def
        trap_check_pc_alignment_def monad_simps)
  moreover obtain t where
    "track_and_trace_branch cv (isTrue cv res) res
        (h\<lparr>h_pc := if P cur then h_last_pc h + B_imm w else h_pc h\<rparr>) =
      (Inr (), h\<lparr>h_pc := if P cur then h_last_pc h + B_imm w else h_pc h, h_tracer := t\<rparr>)"
    "branch_recorded sem cur P h (h\<lparr>h_tracer := t\<rparr>)"
    using track_recorded [of P res "h\<lparr>h_pc := if P cur then h_last_pc h + B_imm w else h_pc h\<rparr>"] P
    by (auto simp: branch_recorded_def)
  ultimately show ?thesis by metis
qed

lemma min_by_minus_one_value:
  assumes x: "getWidth cv x = 32" and y: "getWidth cv y = 32"
  shows "getWidth cv (min_by_minus_one cv x y) = 1"
    "ev a (min_by_minus_one cv x y) = of_bool (val32 ev a x = 0x80000000 \<and> val32 ev a y = - 1)"
proof -
  have k: "getWidth cv (BVC cv c) = 32" for c using BVC_law [of c a] by simp
  note e = width_relop(1) [OF x k] width_relop(1) [OF y k]
  show "getWidth cv (min_by_minus_one cv x y) = 1"
    unfolding min_by_minus_one_def by (rule width_binop(8) [OF e])
  show "ev a (min_by_minus_one cv x y) = of_bool (val32 ev a x = 0x80000000 \<and> val32 ev a y = - 1)"
    using bitwise_law [OF e, of a] ev_relop32(1) [OF x k, of a] ev_relop32(1) [OF y k, of a]
    by (simp add: min_by_minus_one_def val32_BVC of_bool_def)
qed

lemma select_value:
  assumes "getWidth cv c = 1" and "ev a c = of_bool b" and "getWidth cv x = 32" and "getWidth cv y = 32"
  shows "getWidth cv (c_select cv c x y) = 32" "val32 ev a (c_select cv c x y) = (if b then val32 ev a x else val32 ev a y)"
  using select_law [OF assms(1,3,4), of a] assms(2) by (simp_all add: val32_def)

lemma div_executes:
  assumes r: "regs_wf cv (h_regs h)" and i: "isa_div i = Some f" and m: "misa_reg (h_csrs h) AND M_ISA_EXT \<noteq> 0"
    and P_def: "P = (\<lambda>a. reg_val ev a h (rs2 w) = 0)"
  shows "\<exists>v t. exec_rv32m cv w i h = (Inr (), h\<lparr>h_regs := (h_regs h)[unat (rd w) := v], h_tracer := t\<rparr>) \<and>
    branch_recorded sem cur P h (h\<lparr>h_tracer := t\<rparr>) \<and> getWidth cv v = 32 \<and>
    (\<forall>a. P a = P cur \<longrightarrow> val32 ev a v = f (reg_val ev a h (rs1 w)) (reg_val ev a h (rs2 w)))"
proof -
  define x where "x = h_regs h ! unat (rs1 w)"
  define y where "y = h_regs h ! unat (rs2 w)"
  have x: "getWidth cv x = 32" and y: "getWidth cv y = 32"
    using reg_width [OF r register_index_bounds(2), of w] reg_width [OF r register_index_bounds(3), of w]
    by (simp_all add: x_def y_def)
  have k: "getWidth cv (BVC cv c) = 32" for c using BVC_law [of c cur] by simp
  define on_zero where "on_zero = (case i of DIV \<Rightarrow> BVC cv (- 1) | DIVU \<Rightarrow> BVC cv (- 1) | _ \<Rightarrow> x)"
  define quot where "quot = (case i of
      DIV \<Rightarrow> c_select cv (min_by_minus_one cv x y) x (c_sdiv cv x y)
    | DIVU \<Rightarrow> c_udiv cv x y
    | REM \<Rightarrow> c_select cv (min_by_minus_one cv x y) (BVC cv 0) (c_srem cv x y)
    | _ \<Rightarrow> c_urem cv x y)"
  define z where "z = c_eq cv y (BVC cv 0)"
  have P: "P a \<longleftrightarrow> ev a z = 1" for a
    by (simp add: P_def z_def reg_val_def y_def [symmetric] ev_relop32(1) [OF y k] val32_BVC)
  define v where "v = (if P cur then on_zero else quot)"
  note sel = select_value [OF min_by_minus_one_value [OF x y]]
  have v: "getWidth cv v = 32"
    using x k i sel(1) [OF x width_binop(4) [OF x y]] sel(1) [OF k width_binop(6) [OF x y]]
    by (cases i) (auto simp: v_def on_zero_def quot_def isa_div_def width_binop [OF x y])
  have val: "val32 ev a v = f (val32 ev a x) (val32 ev a y)" if "P a = P cur" for a
    using that i val32_div [OF x y, of a] sel(2) [OF x width_binop(4) [OF x y], of a]
      sel(2) [OF k width_binop(6) [OF x y], of a 0]
    by (cases i) (auto simp: v_def on_zero_def quot_def isa_div_def P_def reg_val_def y_def [symmetric] val32_BVC)
  have "exec_rv32m cv w i h =
      then_m (RegFile_write cv (rd w) v) (track_and_trace_branch cv (isTrue cv z) z) h"
    using m i P [of cur] isTrue_law [of z]
    by (cases i) (simp_all add: exec_rv32m_def require_isa_def exec_div_def RegFile_at_def isa_div_def
        x_def [symmetric] y_def [symmetric] z_def [symmetric] v_def on_zero_def quot_def Let_def
        then_m_apply [of "bind_m _ _"] when_m_def)
  moreover have "RegFile_write cv (rd w) v h = (Inr (), h\<lparr>h_regs := (h_regs h)[unat (rd w) := v]\<rparr>)"
    using v rd_le [of w] by (simp add: RegFile_write_def assert_m_def)
  moreover obtain t where
    "track_and_trace_branch cv (isTrue cv z) z (h\<lparr>h_regs := (h_regs h)[unat (rd w) := v]\<rparr>) =
      (Inr (), h\<lparr>h_regs := (h_regs h)[unat (rd w) := v], h_tracer := t\<rparr>)"
    "branch_recorded sem cur P h (h\<lparr>h_tracer := t\<rparr>)"
    using track_recorded [of P z "h\<lparr>h_regs := (h_regs h)[unat (rd w) := v]\<rparr>"] P
    by (auto simp: branch_recorded_def)
  ultimately show ?thesis
    using v val by (auto simp: then_m_apply reg_val_def x_def [symmetric] y_def [symmetric])
qed

end

section \<open>A sample hart\<close>

text \<open>The initial hart of the SymEx platform with a symbolic value in register \<open>x1\<close>.\<close>

abbreviation sample_inputs :: inputs where
  "sample_inputs \<equiv> \<lambda>_. 0"

definition sample_hart :: "(bv_value, bv_expr, bv_image) sys" where
  "sample_hart = (snd (symex_init (bv_clover sample_inputs) (\<lambda>_. Concrete 8 0) 0x10000))
     \<lparr>h_regs := (replicate 32 (Concrete 32 0))[1 := Symbolic 32 (\<lambda>a. a ''x'')]\<rparr>"

lemma init_fields:
  "h_csrs (snd (symex_init cv img pc)) = csr_table_init\<lparr>mhartid_reg := 0\<rparr>"
  "h_last_pc (snd (symex_init cv img pc)) = 0" "h_lr_sc_counter (snd (symex_init cv img pc)) = 0"
  "h_tracer (snd (symex_init cv img pc)) = []" "h_prv (snd (symex_init cv img pc)) = MachineMode"
  by (simp_all add: symex_init_def ISS_init_def ISS_construct_def RegFile_write_def assert_m_def
      then_m_apply Let_def)

lemma init_csrs:
  "has_C_extension csr_table_init" "misa_reg csr_table_init AND M_ISA_EXT \<noteq> 0"
  "misa_reg csr_table_init AND A_ISA_EXT \<noteq> 0" "csrs_wf csr_table_init"
  by code_simp+

lemma sample_regs: "regs_wf (bv_clover cur) (h_regs sample_hart)"
  by (auto simp: sample_hart_def regs_wf_def bv_clover_def dest!: set_update_subset_insert [THEN subsetD])

lemma sample_csrs:
  "has_C_extension (h_csrs sample_hart)" "misa_reg (h_csrs sample_hart) AND M_ISA_EXT \<noteq> 0"
  "h_last_pc sample_hart AND 1 = 0"
  using init_csrs(1,2) by (simp_all add: sample_hart_def init_fields has_C_extension_def)

section \<open>Properties\<close>

text \<open>
  C6: Integer computation. Executing a decoded register-register or register-immediate instruction
  of RV32I only changes its destination register, and the value written is, under every assignment
  of the symbolic inputs, the architecture's result on the operands' 32-bit words. Hypotheses: the
  documented meaning of the clover operations and a register file of 32-bit values.
\<close>

theorem alu_refines:
  assumes "clover_laws cv ev sem cur" and "regs_wf cv (h_regs h)"
    and "decode_normal w RV32 = OpI i" and "isa_alu i = Some f"
  shows "writes_rd cv ev (exec_op cv pl w (OpI i)) h w
    (\<lambda>a. f (reg_val ev a h (rs1 w)) (operand2 ev a h w i))"
proof -
  have "unat (shamt w) < 32" if "i \<in> {SLLI, SRLI, SRAI}"
    by (rule shamt_less_32) (use assms(3) that in auto)
  with clover_laws.alu_writes [OF assms(1,2,4)] show ?thesis
    by (simp add: exec_op_def)
qed

theorem alu_refines_witness:
  "writes_rd (bv_clover sample_inputs) bv_eval (exec_op (bv_clover sample_inputs) (bv_symex sample_inputs 1) 0x00508113 (OpI ADDI))
     sample_hart 0x00508113 (\<lambda>a. reg_val bv_eval a sample_hart (rs1 0x00508113) +
       operand2 bv_eval a sample_hart 0x00508113 ADDI)"
proof -
  have "decode_normal 0x00508113 RV32 = OpI ADDI" by code_simp
  then show ?thesis
    using alu_refines [OF bv.clover_laws_axioms sample_regs, of "0x00508113" ADDI "(+)"]
    by (simp add: isa_alu_def)
qed

text \<open>
  C9: Multiplication. \<open>MUL\<close>, \<open>MULH\<close>, \<open>MULHU\<close> and \<open>MULHSU\<close> write the low or high half of the 64-bit
  product of the signed or unsigned operands, under every assignment of the symbolic inputs.
\<close>

theorem mul_refines:
  assumes "clover_laws cv ev sem cur" and "regs_wf cv (h_regs h)" and "isa_mul i = Some f"
    and "misa_reg (h_csrs h) AND M_ISA_EXT \<noteq> 0"
  shows "writes_rd cv ev (exec_op cv pl w (OpM i)) h w
    (\<lambda>a. f (reg_val ev a h (rs1 w)) (reg_val ev a h (rs2 w)))"
  using clover_laws.mul_writes [OF assms] by (simp add: exec_op_def)

theorem mul_refines_witness:
  "writes_rd (bv_clover sample_inputs) bv_eval
     (exec_op (bv_clover sample_inputs) (bv_symex sample_inputs 1) 0x02109133 (OpM MULH)) sample_hart 0x02109133
     (\<lambda>a. word_of_int (drop_bit 32 (sint (reg_val bv_eval a sample_hart (rs1 0x02109133)) *
       sint (reg_val bv_eval a sample_hart (rs2 0x02109133)))))"
proof -
  have "isa_mul MULH = Some (\<lambda>x y. word_of_int (drop_bit 32 (sint x * sint y)))"
    by (simp add: isa_mul_def)
  from mul_refines [OF bv.clover_laws_axioms sample_regs this sample_csrs(2)] show ?thesis .
qed

text \<open>
  C8: Division. \<open>DIV\<close>, \<open>DIVU\<close>, \<open>REM\<close> and \<open>REMU\<close> never fail; they record whether the divisor is zero
  as a branch, and for every assignment that takes the same side of that branch the value written is
  the architecture's result, including division by zero (all ones, or the dividend for a remainder)
  and signed overflow (the dividend, or zero for a remainder).
\<close>

theorem div_refines:
  assumes "clover_laws cv ev sem cur" and "regs_wf cv (h_regs h)" and "isa_div i = Some f"
    and "misa_reg (h_csrs h) AND M_ISA_EXT \<noteq> 0"
  shows "\<exists>v t. exec_op cv pl w (OpM i) h =
      (Inr (), h\<lparr>h_regs := (h_regs h)[unat (rd w) := v], h_tracer := t\<rparr>) \<and>
    branch_recorded sem cur (\<lambda>a. reg_val ev a h (rs2 w) = 0) h (h\<lparr>h_tracer := t\<rparr>) \<and>
    getWidth cv v = 32 \<and>
    (\<forall>a. (reg_val ev a h (rs2 w) = 0) = (reg_val ev cur h (rs2 w) = 0) \<longrightarrow>
      val32 ev a v = f (reg_val ev a h (rs1 w)) (reg_val ev a h (rs2 w)))"
  using clover_laws.div_executes [OF assms refl] by (simp add: exec_op_def)

theorem div_refines_witness:
  "\<exists>v t. exec_op (bv_clover sample_inputs) (bv_symex sample_inputs 1) 0x0210c133 (OpM DIV) sample_hart =
      (Inr (), sample_hart\<lparr>h_regs := (h_regs sample_hart)[unat (rd 0x0210c133) := v], h_tracer := t\<rparr>) \<and>
    branch_recorded (\<lambda>a f. f a) sample_inputs (\<lambda>a. reg_val bv_eval a sample_hart (rs2 0x0210c133) = 0)
      sample_hart (sample_hart\<lparr>h_tracer := t\<rparr>)"
  using div_refines [OF bv.clover_laws_axioms sample_regs _ sample_csrs(2), of DIV]
  by (fastforce simp: isa_div_def)

text \<open>
  C7: Branches. A conditional branch sets the program counter to the target exactly when the
  architecture's comparison holds for the current inputs, changes nothing else, and records the
  comparison with its outcome: an assignment of the inputs satisfies the recorded condition if and
  only if it takes the same direction, and a branch that is not recorded goes the same way for
  every assignment.
\<close>

theorem branch_refines:
  assumes "clover_laws cv ev sem cur" and "regs_wf cv (h_regs h)" and "isa_branch i = Some f"
    and "h_last_pc h AND 1 = 0" and "has_C_extension (h_csrs h)"
  shows "\<exists>t. exec_op cv pl w (OpI i) h =
      (Inr (), h\<lparr>h_pc := if f (reg_val ev cur h (rs1 w)) (reg_val ev cur h (rs2 w))
                  then h_last_pc h + B_imm w else h_pc h, h_tracer := t\<rparr>) \<and>
    branch_recorded sem cur (\<lambda>a. f (reg_val ev a h (rs1 w)) (reg_val ev a h (rs2 w))) h (h\<lparr>h_tracer := t\<rparr>)"
  using clover_laws.branch_executes [OF assms refl] by (simp add: exec_op_def)

theorem branch_refines_witness:
  "\<exists>t. exec_op (bv_clover sample_inputs) (bv_symex sample_inputs 1) 0x00208463 (OpI BEQ) sample_hart =
      (Inr (), sample_hart\<lparr>h_pc := if reg_val bv_eval sample_inputs sample_hart (rs1 0x00208463) =
          reg_val bv_eval sample_inputs sample_hart (rs2 0x00208463)
        then h_last_pc sample_hart + B_imm 0x00208463 else h_pc sample_hart, h_tracer := t\<rparr>) \<and>
    branch_recorded (\<lambda>a f. f a) sample_inputs (\<lambda>a. reg_val bv_eval a sample_hart (rs1 0x00208463) =
      reg_val bv_eval a sample_hart (rs2 0x00208463)) sample_hart (sample_hart\<lparr>h_tracer := t\<rparr>)"
  using branch_refines [OF bv.clover_laws_axioms sample_regs _ sample_csrs(3) sample_csrs(1), of BEQ]
  by (simp add: isa_branch_def)

text \<open>
  Jumps. \<open>JAL\<close> and \<open>JALR\<close> store the address of the next instruction in the destination register
  and continue at the target, whose lowest bit is cleared for \<open>JALR\<close>; nothing else changes and the
  alignment checks do not fire on a hart with compressed instructions.
\<close>

lemma jump_links:
  assumes "clover_laws cv ev sem cur" and "h_last_pc h AND 1 = 0" and "has_C_extension (h_csrs h)"
  shows "exec_op cv pl w (OpI JAL) h = (Inr (), h\<lparr>h_pc := h_last_pc h + J_imm w,
      h_regs := (h_regs h)[unat (rd w) := BVC cv (h_pc h)]\<rparr>) \<and>
    exec_op cv pl w (OpI JALR) h = (Inr (), h\<lparr>h_pc := (reg_val ev cur h (rs1 w) + I_imm w) AND NOT 1,
      h_regs := (h_regs h)[unat (rd w) := BVC cv (h_pc h)]\<rparr>)"
proof -
  have rd: "rd w \<le> 31" using clover_laws.rd_le [OF assms(1)] .
  have w: "getWidth cv (BVC cv c) = 32" for c
    using clover_laws.BVC_law [OF assms(1), of c cur] by simp
  have j: "(h_last_pc h + J_imm w) AND 1 = 0" using assms(2) even_imms(1) [of w] by (simp add: even_word)
  have r: "(x AND NOT 1) AND 1 = (0 :: u32)" for x by (simp add: even_word even_and_iff)
  have "exec_op cv pl w (OpI JAL) h = (Inr (), h\<lparr>h_pc := h_last_pc h + J_imm w,
      h_regs := (h_regs h)[unat (rd w) := BVC cv (h_pc h)]\<rparr>)"
    using rd w j assms(3)
    by (simp add: exec_op_def exec_rv32i_def exec_jal_def trap_check_pc_alignment_def RegFile_write_def
        monad_simps)
  moreover have "exec_op cv pl w (OpI JALR) h = (Inr (), h\<lparr>h_pc := (reg_val ev cur h (rs1 w) + I_imm w) AND NOT 1,
      h_regs := (h_regs h)[unat (rd w) := BVC cv (h_pc h)]\<rparr>)"
    using rd w r assms(3) clover_laws.val32_getValue [OF assms(1)]
    by (simp add: exec_op_def exec_rv32i_def exec_jalr_def trap_check_pc_alignment_def RegFile_write_def
        RegFile_at_def reg_val_def monad_simps del: word_bw_assocs)
  ultimately show ?thesis by (rule conjI)
qed

lemma jump_links_witness:
  "exec_op (bv_clover sample_inputs) (bv_symex sample_inputs 1) 0x008000ef (OpI JAL) sample_hart =
    (Inr (), sample_hart\<lparr>h_pc := h_last_pc sample_hart + J_imm 0x008000ef,
      h_regs := (h_regs sample_hart)[unat (rd 0x008000ef) := BVC (bv_clover sample_inputs) (h_pc sample_hart)]\<rparr>)"
  by (rule jump_links [OF bv.clover_laws_axioms sample_csrs(3,1), THEN conjunct1])

end
