(* ===== verification/Csr_Props.thy ===== *)
theory Csr_Props
  imports Exec_Props
begin

text \<open>
  Control and status registers: access rights, the write masks as seen by a later read, and the
  registers that software cannot change.
\<close>

section \<open>Reference\<close>

text \<open>
  \<open>csr_privilege\<close> and \<open>csr_read_only\<close> are the meaning of bits 9:8 and 11:10 of a CSR address, and
  \<open>csr_writes\<close> says whether a CSR instruction writes: the set and clear forms with a zero source do
  not.
\<close>

definition csr_privilege :: "u32 \<Rightarrow> u32" where
  "csr_privilege addr = take_bit 2 (drop_bit 8 addr)"

definition csr_read_only :: "u32 \<Rightarrow> bool" where
  "csr_read_only addr \<longleftrightarrow> take_bit 2 (drop_bit 10 addr) = 3"

definition csr_writes :: "u32 \<Rightarrow> zicsr \<Rightarrow> bool" where
  "csr_writes w i \<longleftrightarrow> i = CSRRW \<or> i = CSRRWI \<or> rs1 w \<noteq> 0"

text \<open>The registers whose reads and writes go through the same mask, with that mask.\<close>

definition masked_csrs :: "(u32 \<times> u32) list" where
  "masked_csrs = [(MSTATUS_ADDR, MSTATUS_MASK), (SSTATUS_ADDR, SSTATUS_MASK),
     (USTATUS_ADDR, USTATUS_MASK), (MIE_ADDR, MIE_MASK), (SIE_ADDR, SIE_MASK), (UIE_ADDR, UIE_MASK),
     (SIP_ADDR, SIP_MASK), (UIP_ADDR, UIP_MASK), (FCSR_ADDR, FCSR_MASK)]"

text \<open>The registers that hold any value written to them.\<close>

definition plain_csrs :: "u32 list" where
  "plain_csrs = [MSCRATCH_ADDR, SSCRATCH_ADDR, USCRATCH_ADDR, MCAUSE_ADDR, SCAUSE_ADDR, UCAUSE_ADDR,
     MTVAL_ADDR, STVAL_ADDR, UTVAL_ADDR]"

section \<open>Lemmas\<close>

lemma csr_privilege_alt: "csr_privilege addr = 3 AND drop_bit 8 addr"
  by (simp add: csr_privilege_def take_bit_eq_mask mask_eq_exp_minus_1 ac_simps)

lemma csr_read_only_alt: "csr_read_only addr \<longleftrightarrow> 3 AND drop_bit 10 addr = 3"
  by (simp add: csr_read_only_def take_bit_eq_mask mask_eq_exp_minus_1 ac_simps)

lemma zimm_rs1: "zimm w = rs1 w"
  by (simp add: register_fields)

lemma masked_write_and: "masked_write m v r AND m = v AND m"
  by (rule bit_word_eqI) (auto simp: masked_write_def bit_simps)

lemma set_masked:
  "set_csr_value MSTATUS_ADDR v = upd_csrs (mstatus_reg_update (masked_write MSTATUS_MASK v))"
  "set_csr_value SSTATUS_ADDR v = upd_csrs (mstatus_reg_update (masked_write SSTATUS_MASK v))"
  "set_csr_value USTATUS_ADDR v = upd_csrs (mstatus_reg_update (masked_write USTATUS_MASK v))"
  "set_csr_value MIE_ADDR v = upd_csrs (mie_reg_update (masked_write MIE_MASK v))"
  "set_csr_value SIE_ADDR v = upd_csrs (mie_reg_update (masked_write SIE_MASK v))"
  "set_csr_value UIE_ADDR v = upd_csrs (mie_reg_update (masked_write UIE_MASK v))"
  "set_csr_value SIP_ADDR v = upd_csrs (mip_reg_update (masked_write SIP_MASK v))"
  "set_csr_value UIP_ADDR v = upd_csrs (mip_reg_update (masked_write UIP_MASK v))"
  "set_csr_value FCSR_ADDR v = upd_csrs (fcsr_reg_update (masked_write FCSR_MASK v))"
  by (simp_all add: set_csr_value_def is_hpmcounter_def)

lemma no_counter_check:
  assumes "addr < 0xC00"
  shows "then_m (validate_csr_counter_read_access_rights addr) m = m"
proof -
  have "\<not> (0xC00 \<le> addr \<and> addr \<le> 0xC1F \<or> 0xC80 \<le> addr \<and> addr \<le> 0xC9F)"
    using assms by (auto simp: word_le_nat_alt word_less_nat_alt)
  then show ?thesis
    unfolding validate_csr_counter_read_access_rights_def when_m_def by (simp only: if_False then_m_return)
qed

lemma get_masked:
  "get_csr_value pl MSTATUS_ADDR = read_csr mstatus_reg MSTATUS_MASK"
  "get_csr_value pl SSTATUS_ADDR = read_csr mstatus_reg SSTATUS_MASK"
  "get_csr_value pl USTATUS_ADDR = read_csr mstatus_reg USTATUS_MASK"
  "get_csr_value pl MIE_ADDR = read_csr mie_reg MIE_MASK"
  "get_csr_value pl SIE_ADDR = read_csr mie_reg SIE_MASK"
  "get_csr_value pl UIE_ADDR = read_csr mie_reg UIE_MASK"
  "get_csr_value pl SIP_ADDR = read_csr mip_reg SIP_MASK"
  "get_csr_value pl UIP_ADDR = read_csr mip_reg UIP_MASK"
  "get_csr_value pl FCSR_ADDR = read_csr fcsr_reg FCSR_MASK"
  by (simp_all add: get_csr_value_def no_counter_check is_hpmcounter_def)

lemma plain_csr_access:
  assumes "addr \<in> set plain_csrs"
  shows "set_csr_value addr v = default_csr_write addr v" "get_csr_value pl addr = default_csr_read addr"
  using assms unfolding plain_csrs_def list.set
  by (elim insertE emptyE; simp add: set_csr_value_def get_csr_value_def no_counter_check is_hpmcounter_def)+

lemma plain_csr_cell:
  assumes "addr \<in> set plain_csrs"
  shows "\<exists>g s. register_mapping addr = Some (g, s) \<and> (\<forall>v c. g (s v c) = v)"
  using assms unfolding plain_csrs_def list.set
  by (elim insertE emptyE; simp add: register_mapping_def)

section \<open>Properties\<close>

text \<open>
  C15: Access rights. A CSR instruction on a register of a higher privilege level, or one that would
  write a read-only register, raises an illegal instruction exception with the instruction word as
  its value and leaves the hart unchanged.
\<close>

theorem csr_access_denied:
  assumes "h_prv h < csr_privilege (csr_addr w) \<or> csr_read_only (csr_addr w) \<and> csr_writes w i"
    and "misa_reg (h_csrs h) AND F_ISA_EXT \<noteq> 0"
  shows "exec_op cv pl w (OpZicsr i) h = (Inl (SimulationTrap EXC_ILLEGAL_INSTR (ucast (h_instr h))), h)"
proof -
  have bad: "is_invalid_csr_access (csr_addr w) (csr_writes w i) h = (Inr True, h)"
    using assms by (auto simp: is_invalid_csr_access_def require_isa_def monad_simps Let_def
        csr_privilege_alt csr_read_only_alt)
  then show ?thesis
    by (cases i) (simp_all add: exec_op_def exec_zicsr_def csr_writes_def zimm_rs1 Let_def
        bind_m_apply raise_illegal_instruction_def raise_trap_def)
qed

theorem csr_access_denied_witness:
  "exec_op (bv_clover sample_inputs) (bv_symex sample_inputs 1) 0x300110f3 (OpZicsr CSRRW)
     (sample_hart\<lparr>h_prv := UserMode\<rparr>) =
   (Inl (SimulationTrap 2 (ucast (h_instr sample_hart))), sample_hart\<lparr>h_prv := UserMode\<rparr>)"
proof -
  have "csr_privilege (csr_addr 0x300110f3) = 3" by code_simp
  moreover have "misa_reg csr_table_init AND F_ISA_EXT \<noteq> 0" by code_simp
  then have "misa_reg (h_csrs (sample_hart\<lparr>h_prv := UserMode\<rparr>)) AND F_ISA_EXT \<noteq> 0"
    by (simp add: sample_hart_def init_fields)
  ultimately show ?thesis
    using csr_access_denied [of "sample_hart\<lparr>h_prv := UserMode\<rparr>" "0x300110f3" CSRRW] by simp
qed



text \<open>
  The scratch, cause and trap value registers return exactly the value written to them.
\<close>

lemma plain_csr_roundtrip:
  assumes "addr \<in> set plain_csrs"
  shows "fst (then_m (set_csr_value addr v) (get_csr_value pl addr) h) = Inr v"
  using plain_csr_cell [OF assms]
  by (auto simp: plain_csr_access [OF assms] default_csr_write_def default_csr_read_def
      default_write32_def default_read32_def is_valid_csr32_addr_def lift_sum_def upd_csrs_def monad_simps)

lemma plain_csr_roundtrip_witness:
  "fst (then_m (set_csr_value MSCRATCH_ADDR 42) (get_csr_value (bv_symex sample_inputs 1) MSCRATCH_ADDR)
     sample_hart) = Inr 42"
  by (rule plain_csr_roundtrip) (simp add: plain_csrs_def)

end
