(* ===== verification/Trap_Props.thy ===== *)
theory Trap_Props
  imports Exec_Props
begin

text \<open>
  Traps and interrupts: entry into a handler, the return from it, delegation to lower privilege
  levels, and the selection of the interrupt to take.
\<close>

section \<open>Lemmas\<close>

lemma take_bit_bf_get [simp]: "take_bit n (bf_get (p, n) w) = bf_get (p, n) w"
  by (simp add: bf_get_def)

lemma bf_get_mod_2 [simp]: "bf_get (p, Suc 0) w mod 2 = bf_get (p, Suc 0) w"
  using take_bit_bf_get [of "Suc 0" p w] by (simp only: take_bit_eq_mod power_one_right power_Suc0_right)

lemma take_bit_small: "unat v < 2 ^ n \<Longrightarrow> take_bit n (v :: u32) = v"
  by (simp add: word_unat_eq_iff unsigned_take_bit_eq take_bit_nat_eq_self_iff)

lemmas trap_fields = bf_get_set_same bf_get_set_other bf_wf_def bf_disjoint_def

lemma release_mem:
  "release_lr_sc_reservation (mem_platform cv env k) h =
     (Inr (), h\<lparr>h_lr_sc_counter := 0, h_world := (h_world h)\<lparr>w_bus_lock :=
        unlock (hart_id h) (w_bus_lock (h_world h))\<rparr>\<rparr>)"
  by (simp add: release_lr_sc_reservation_def mem_platform_def mem_atomic_unlock_def upd_world_def hart_id_def)

lemma mret_restores:
  "return_from_trap_handler MachineMode h = (Inr (), h') \<Longrightarrow>
    h_pc h' = mepc_reg (h_csrs h) \<and> h_prv h' = bf_get mstatus_mpp (mstatus_reg (h_csrs h)) \<and>
    bf_get mstatus_mie (mstatus_reg (h_csrs h')) = bf_get mstatus_mpie (mstatus_reg (h_csrs h)) \<and>
    h_regs h' = h_regs h"
  by (auto simp: return_from_trap_handler_def Let_def trap_fields)

lemma trap_entry:
  assumes "h_prv h = MachineMode \<or> push_bit (unat reason) 1 AND medeleg_reg (h_csrs h) = 0"
    and "mtval \<le> 0xffffffff" and "reason < 0x80000000" and "h_prv h \<le> MachineMode"
  shows "\<exists>h'. handle_trap (mem_platform cv env k) (SimulationTrap reason mtval) h = (Inr (), h') \<and>
    h_prv h' = MachineMode \<and> mepc_reg (h_csrs h') = h_last_pc h \<and> mtval_reg (h_csrs h') = ucast mtval \<and>
    bf_get mcause_interrupt (mcause_reg (h_csrs h')) = 0 \<and>
    bf_get mcause_exception_code (mcause_reg (h_csrs h')) = reason \<and>
    bf_get mstatus_mpp (mstatus_reg (h_csrs h')) = h_prv h \<and>
    bf_get mstatus_mpie (mstatus_reg (h_csrs h')) = bf_get mstatus_mie (mstatus_reg (h_csrs h)) \<and>
    bf_get mstatus_mie (mstatus_reg (h_csrs h')) = 0 \<and>
    h_pc h' = get_base_address (mtvec_reg (h_csrs h)) \<and> h_lr_sc_counter h' = 0 \<and>
    h_regs h' = h_regs h"
proof -
  have mode: "take_bit 2 (h_prv h) = h_prv h" and code: "take_bit 31 reason = reason"
    using assms(3,4) by (simp_all add: take_bit_small word_less_nat_alt word_le_nat_alt)
  have mv: "\<not> 0xffffffff < mtval" using assms(2) by simp
  show ?thesis
    using assms(1) mode code mv
    by (simp add: handle_trap_def prepare_trap_def Let_def upd_csrs_def to_uint32_def bind_m_apply
        switch_to_trap_handler_def then_m_apply release_mem trap_vector_def trap_fields)
qed


lemma sample_prv: "h_prv sample_hart = MachineMode" "h_last_pc sample_hart = 0" "h_pc sample_hart = 0x10000"
  by (simp_all add: sample_hart_def symex_init_def ISS_init_def ISS_construct_def RegFile_write_def
      assert_m_def then_m_apply Let_def)

lemma delegation_mode:
  "prepare_trap reason mtval h = (Inr mode, h') \<Longrightarrow>
    mode = (if h_prv h = MachineMode \<or> push_bit (unat reason) 1 AND medeleg_reg (h_csrs h) = 0 then MachineMode
      else if h_prv h = SupervisorMode \<or> push_bit (unat reason) 1 AND sedeleg_reg (h_csrs h) = 0 then SupervisorMode
      else UserMode)"
  by (auto simp: prepare_trap_def Let_def upd_csrs_def to_uint32_def monad_simps split: if_splits)

lemma bf_get_bit: "bf_get (n, Suc 0) x = 0 \<longleftrightarrow> \<not> bit x n"
  using bf_get_single(2) [of n x] by simp

lemma pending_cases:
  assumes "target_mode (compute_pending_interrupts h) \<noteq> NoneMode"
  defines "p \<equiv> mie_reg (h_csrs h) AND mip_reg (h_csrs h)"
    and "d \<equiv> mideleg_reg (h_csrs h)" and "s \<equiv> sideleg_reg (h_csrs h)"
    and "st \<equiv> mstatus_reg (h_csrs h)"
  shows "compute_pending_interrupts h = \<lparr>target_mode = MachineMode, pending = p AND NOT d\<rparr> \<and> p AND NOT d \<noteq> 0 \<and>
      (h_prv h < MachineMode \<or> h_prv h = MachineMode \<and> bf_get mstatus_mie st \<noteq> 0) \<or>
    compute_pending_interrupts h = \<lparr>target_mode = SupervisorMode, pending = (p AND d) AND NOT s\<rparr> \<and>
      (p AND d) AND NOT s \<noteq> 0 \<and>
      (h_prv h < SupervisorMode \<or> h_prv h = SupervisorMode \<and> bf_get mstatus_sie st \<noteq> 0) \<or>
    compute_pending_interrupts h = \<lparr>target_mode = UserMode, pending = (p AND d) AND s\<rparr> \<and> (p AND d) AND s \<noteq> 0 \<and>
      h_prv h = UserMode \<and> bf_get mstatus_uie st \<noteq> 0"
  using assms(1) unfolding compute_pending_interrupts_def Let_def assms(2-5) [symmetric]
  by (simp only: split: if_splits) auto

abbreviation sample_platform :: "(bv_value, bv_expr, (bv_value, bv_image symex_devices) mem_world) platform" where
  "sample_platform \<equiv> mem_platform (bv_clover sample_inputs)
     (symex_env (bv_clover sample_inputs) bv_memory bv_kernel 1) (symex_kernel bv_kernel)"

section \<open>Properties\<close>

text \<open>
  Trap entry. An exception that is not delegated (or is raised in machine mode) enters machine
  mode: \<open>mepc\<close> holds the address of the faulting instruction, \<open>mcause\<close> and \<open>mtval\<close> the reason and the
  value, \<open>mstatus\<close> saves the previous privilege level and interrupt enable and disables interrupts,
  execution continues at the base of the trap vector, a reservation is given up, and registers
  are untouched.
\<close>

lemma trap_enters_machine_mode:
  assumes "h_prv h = MachineMode \<or> push_bit (unat reason) 1 AND medeleg_reg (h_csrs h) = 0"
    and "mtval \<le> 0xffffffff" and "reason < 0x80000000" and "h_prv h \<le> MachineMode"
  shows "\<exists>h'. handle_trap (mem_platform cv env k) (SimulationTrap reason mtval) h = (Inr (), h') \<and>
    h_prv h' = MachineMode \<and> mepc_reg (h_csrs h') = h_last_pc h \<and> mtval_reg (h_csrs h') = ucast mtval \<and>
    bf_get mcause_interrupt (mcause_reg (h_csrs h')) = 0 \<and>
    bf_get mcause_exception_code (mcause_reg (h_csrs h')) = reason \<and>
    bf_get mstatus_mpp (mstatus_reg (h_csrs h')) = h_prv h \<and>
    bf_get mstatus_mpie (mstatus_reg (h_csrs h')) = bf_get mstatus_mie (mstatus_reg (h_csrs h)) \<and>
    bf_get mstatus_mie (mstatus_reg (h_csrs h')) = 0 \<and>
    h_pc h' = get_base_address (mtvec_reg (h_csrs h)) \<and> h_lr_sc_counter h' = 0 \<and>
    h_regs h' = h_regs h"
  using assms by (rule trap_entry)

lemma trap_enters_machine_mode_witness:
  "\<exists>h'. handle_trap sample_platform (SimulationTrap 2 7) sample_hart = (Inr (), h') \<and>
     h_prv h' = MachineMode \<and> mepc_reg (h_csrs h') = 0 \<and> mtval_reg (h_csrs h') = 7"
  using trap_enters_machine_mode [of sample_hart 2 7 "bv_clover sample_inputs"
      "symex_env (bv_clover sample_inputs) bv_memory bv_kernel 1" "symex_kernel bv_kernel"]
  by (auto simp: sample_prv)

text \<open>
  C12: Return from a trap. If a trap was taken to machine mode and \<open>MRET\<close> is executed with the trap
  registers as the entry left them, the hart continues at the interrupted instruction, in the
  privilege level it had before, with the interrupt enable it had before and the same registers.
\<close>

theorem trap_return_roundtrip:
  assumes "h_prv h = MachineMode \<or> push_bit (unat reason) 1 AND medeleg_reg (h_csrs h) = 0"
    and "mtval \<le> 0xffffffff" and "reason < 0x80000000" and "h_prv h \<le> MachineMode"
    and "handle_trap (mem_platform cv env k) (SimulationTrap reason mtval) h = (Inr (), h1)"
    and "exec_op cv pl w (OpPriv MRET) h1 = (Inr (), h2)"
  shows "h_pc h2 = h_last_pc h \<and> h_prv h2 = h_prv h \<and> h_regs h2 = h_regs h \<and>
    bf_get mstatus_mie (mstatus_reg (h_csrs h2)) = bf_get mstatus_mie (mstatus_reg (h_csrs h))"
  using trap_entry [OF assms(1-4), of cv env k] assms(5,6) mret_restores [of h1 h2]
  by (auto simp: exec_op_def exec_privileged_def)

theorem trap_return_roundtrip_witness:
  "\<exists>h1 h2. handle_trap sample_platform (SimulationTrap 2 7) sample_hart = (Inr (), h1) \<and>
     exec_op (bv_clover sample_inputs) sample_platform 0x30200073 (OpPriv MRET) h1 = (Inr (), h2) \<and>
     h_pc h2 = 0 \<and> h_prv h2 = MachineMode"
proof -
  obtain h1 where h1: "handle_trap sample_platform (SimulationTrap 2 7) sample_hart = (Inr (), h1)"
    using trap_entry [of sample_hart 2 7 "bv_clover sample_inputs"
      "symex_env (bv_clover sample_inputs) bv_memory bv_kernel 1" "symex_kernel bv_kernel"] sample_prv by auto
  obtain h2 where h2: "exec_op (bv_clover sample_inputs) sample_platform 0x30200073 (OpPriv MRET) h1 = (Inr (), h2)"
    by (simp add: exec_op_def exec_privileged_def return_from_trap_handler_def)
  from trap_return_roundtrip [OF _ _ _ _ h1 h2] h1 h2 show ?thesis by (auto simp: sample_prv)
qed



text \<open>
  C14: Interrupt selection. An interrupt is taken only if it is pending and enabled, never by a level
  below the current one and at the current level only if that level's global enable is set; machine
  level takes the undelegated interrupts, supervisor level those delegated by \<open>mideleg\<close> but not by
  \<open>sideleg\<close>, user level those delegated by both.
\<close>

theorem pending_interrupts_sound:
  assumes "target_mode (compute_pending_interrupts h) \<noteq> NoneMode"
  shows "let x = compute_pending_interrupts h; c = h_csrs h in
    pending x \<noteq> 0 \<and> pending x AND NOT (mie_reg c AND mip_reg c) = 0 \<and> h_prv h \<le> target_mode x \<and>
    (target_mode x = MachineMode \<and> pending x AND mideleg_reg c = 0 \<and>
       (h_prv h = MachineMode \<longrightarrow> bf_get mstatus_mie (mstatus_reg c) \<noteq> 0) \<or>
     target_mode x = SupervisorMode \<and> pending x AND NOT (mideleg_reg c) = 0 \<and> pending x AND sideleg_reg c = 0 \<and>
       (h_prv h = SupervisorMode \<longrightarrow> bf_get mstatus_sie (mstatus_reg c) \<noteq> 0) \<or>
     target_mode x = UserMode \<and> pending x AND NOT (mideleg_reg c AND sideleg_reg c) = 0 \<and>
       h_prv h = UserMode \<and> bf_get mstatus_uie (mstatus_reg c) \<noteq> 0)"
proof -
  define p where "p = mie_reg (h_csrs h) AND mip_reg (h_csrs h)"
  define d where "d = mideleg_reg (h_csrs h)"
  define s where "s = sideleg_reg (h_csrs h)"
  have z: "(p AND NOT d) AND NOT p = 0" "(p AND NOT d) AND d = 0"
    "((p AND d) AND NOT s) AND NOT p = 0" "((p AND d) AND NOT s) AND NOT d = 0"
    "((p AND d) AND NOT s) AND s = 0" "((p AND d) AND s) AND NOT p = 0" "((p AND d) AND s) AND NOT (d AND s) = 0"
    by (rule bit_word_eqI; auto simp: bit_simps)+
  note cases = pending_cases [OF assms, folded p_def d_def s_def]
  show ?thesis
    unfolding Let_def p_def [symmetric] d_def [symmetric] s_def [symmetric]
    using cases by (elim disjE conjE) (simp_all only: PendingInterrupts.select_convs z, auto)
qed

theorem pending_interrupts_sound_witness:
  "target_mode (compute_pending_interrupts (sample_hart\<lparr>h_prv := UserMode, h_csrs :=
       (h_csrs sample_hart)\<lparr>mie_reg := 0x80, mip_reg := 0x80\<rparr>\<rparr>)) = MachineMode \<and>
   pending (compute_pending_interrupts (sample_hart\<lparr>h_prv := UserMode, h_csrs :=
       (h_csrs sample_hart)\<lparr>mie_reg := 0x80, mip_reg := 0x80\<rparr>\<rparr>)) \<noteq> 0"
proof -
  let ?h = "sample_hart\<lparr>h_prv := UserMode, h_csrs := (h_csrs sample_hart)\<lparr>mie_reg := 0x80, mip_reg := 0x80\<rparr>\<rparr>"
  have "target_mode (compute_pending_interrupts ?h) = MachineMode"
    by (simp add: compute_pending_interrupts_def Let_def sample_hart_def init_fields csr_table_init_def)
  then show ?thesis using pending_interrupts_sound [of ?h] by (simp add: Let_def)
qed

text \<open>
  Interrupt priority. Among the pending interrupts the one taken is the first of the order
  machine external, software, timer, supervisor external, software, timer, user external, software,
  timer; the error branch of the source is reached only when none of them is pending.
\<close>

lemma interrupt_priority:
  "interrupt_code x = (case find (bit x) [11, 3, 7, 9, 1, 5, 8, 0, 4] of
      Some n \<Rightarrow> Inr (word_of_nat n)
    | None \<Rightarrow> Inl (RuntimeError ''some pending interrupt must be available here''))"
  by (simp add: interrupt_code_def bf_get_bit)

end
