(* ===== verification/Mmu_Props.thy ===== *)
theory Mmu_Props
  imports Exec_Props
begin

text \<open>
  Address translation: when it is the identity, what a successful page table walk has checked, that
  the page offset is preserved, and that the translation cache agrees with the walk.
\<close>

section \<open>Lemmas\<close>

lemma pgmask_bit [simp]: "bit (0xfff :: int) n \<longleftrightarrow> n < 12"
proof -
  have eq: "(0xfff :: int) = mask 12" by (simp add: mask_eq_exp_minus_1)
  show ?thesis by (subst eq, rule trans [OF bit_mask_iff]) auto
qed

lemma leaf_paddr_offset: "leaf_paddr vaddr s ppn AND PGMASK = vaddr AND PGMASK"
  by (rule bit_word_eqI) (auto simp: leaf_paddr_def Let_def bit_simps)

lemma frame_mask_bit [simp]: "bit (0xfffff000 :: int) n \<longleftrightarrow> 12 \<le> n \<and> n < 32"
proof -
  have eq: "(0xfffff000 :: int) = push_bit 12 (mask 20)" by (simp add: mask_eq_exp_minus_1 push_bit_eq_mult)
  show ?thesis by (subst eq) (auto simp: bit_simps)
qed

lemma low_mask_bit [simp]: "bit (0xffffffff :: int) n \<longleftrightarrow> n < 32"
proof -
  have eq: "(0xffffffff :: int) = mask 32" by (simp add: mask_eq_exp_minus_1)
  show ?thesis by (subst eq, rule trans [OF bit_mask_iff]) auto
qed

lemma join_page:
  "pa AND PGMASK = va AND PGMASK \<Longrightarrow> (pa AND NOT_PGMASK) OR (va AND PGMASK) = (pa AND 0xffffffff :: u64)"
proof -
  assume "pa AND PGMASK = va AND PGMASK"
  then have "(pa AND NOT_PGMASK) OR (va AND PGMASK) = (pa AND NOT_PGMASK) OR (pa AND PGMASK)" by simp
  also have "\<dots> = pa AND 0xffffffff" by (rule bit_word_eqI) (auto simp: bit_simps)
  finally show ?thesis .
qed

lemma frame_low:
  assumes "ppn AND NOT_PGMASK = (ppn :: u64)"
  shows "ppn AND PGMASK = 0" "(ppn OR (va AND PGMASK)) AND 0xffffffff = ppn OR (va AND PGMASK)"
proof -
  have eq: "ppn AND PGMASK = (ppn AND NOT_PGMASK) AND PGMASK"
    "(ppn OR (va AND PGMASK)) AND 0xffffffff = ((ppn AND NOT_PGMASK) OR (va AND PGMASK)) AND 0xffffffff"
    using assms by simp_all
  show "ppn AND PGMASK = 0" unfolding eq(1) by (rule bit_word_eqI) (auto simp: bit_simps)
  have "((ppn AND NOT_PGMASK) OR (va AND PGMASK)) AND 0xffffffff = (ppn AND NOT_PGMASK) OR (va AND PGMASK)"
    by (rule bit_word_eqI) (auto simp: bit_simps)
  with eq(2) assms show "(ppn OR (va AND PGMASK)) AND 0xffffffff = ppn OR (va AND PGMASK)" by simp
qed

lemma page_offset_join: "ppn AND PGMASK = 0 \<Longrightarrow> (ppn OR (va AND PGMASK)) AND PGMASK = (va AND PGMASK :: u64)"
  by (simp add: bit.conj_disj_distrib2 and.assoc)

lemma page_fault_fails: "page_fault type vaddr h = (Inr pa, h') \<Longrightarrow> False"
  by (cases type) (simp_all add: page_fault_def raise_trap_def)

text \<open>The page number of an address is never the marker of an empty entry.\<close>

lemma vpn_not_marker: "drop_bit PGSHIFT (vaddr :: u64) \<noteq> - 1"
proof
  assume "drop_bit PGSHIFT vaddr = - 1"
  then have "bit (drop_bit PGSHIFT vaddr) 63" by simp
  then show False by (auto simp: bit_simps dest: bit_imp_le_length)
qed

definition tlb_wf :: "(nat \<Rightarrow> nat \<Rightarrow> nat \<Rightarrow> tlb_entry_t) \<Rightarrow> bool" where
  "tlb_wf tlb \<longleftrightarrow> (\<forall>m t i. tlb_vpn (tlb m t i) = - 1 \<or> tlb_ppn (tlb m t i) AND NOT_PGMASK = tlb_ppn (tlb m t i))"

lemma tlb_wf_flush: "tlb_wf (\<lambda>_ _ _. empty_entry)"
  by (simp add: tlb_wf_def empty_entry_def)

text \<open>
  \<open>checked_leaf env vaddr type s u x vm pa\<close>: the physical address \<open>pa\<close> comes from a leaf entry that was
  read from the page table at a level of \<open>vm\<close> and passed every check.
\<close>

definition checked_leaf ::
  "('v, 'e, 'd) mem_env \<Rightarrow> u64 \<Rightarrow> MemoryAccessType \<Rightarrow> bool \<Rightarrow> bool \<Rightarrow> bool \<Rightarrow> vm_info \<Rightarrow> u64 \<Rightarrow> bool" where
  "checked_leaf env vaddr type s_mode sum_bit mxr vm pa \<longleftrightarrow> (\<exists>i base pte h1 h2.
     i < vm_levels vm \<and>
     (if vm_ptesize vm = 4 then mmu_load_pte32 env (pte_paddr vm vaddr i base)
      else mmu_load_pte64 env (pte_paddr vm vaddr i base)) h1 = (Inr pte, h2) \<and>
     pte_flag PTE_V pte \<and> (pte_flag PTE_W pte \<longrightarrow> pte_flag PTE_R pte) \<and>
     leaf_permits type s_mode sum_bit mxr pte \<and>
     drop_bit PTE_PPN_SHIFT pte AND (push_bit (i * vm_idxbits vm) 1 - 1) = 0 \<and>
     pa = leaf_paddr vaddr (i * vm_idxbits vm) (drop_bit PTE_PPN_SHIFT pte))"

lemma walk_levels_checked:
  assumes "walk_levels env vaddr type s u x vm n base h = (Inr pa, h')" and "n \<le> vm_levels vm"
  shows "checked_leaf env vaddr type s u x vm pa"
  using assms
proof (induction n arbitrary: base h)
  case 0
  then show ?case by (auto dest: page_fault_fails)
next
  case (Suc i)
  define load where "load = (if vm_ptesize vm = 4 then mmu_load_pte32 env (pte_paddr vm vaddr i base)
      else mmu_load_pte64 env (pte_paddr vm vaddr i base))"
  obtain r h1 where l: "load h = (r, h1)" by (cases "load h")
  note prem = Suc.prems(1) [unfolded walk_levels.simps Let_def, folded load_def]
  show ?case
  proof (cases r)
    case (Inl e)
    with l prem show ?thesis by (simp add: bind_m_def)
  next
    case (Inr pte)
    consider (fault) "\<exists>g. page_fault type vaddr g = (Inr pa, h')"
      | (next_level) "walk_levels env vaddr type s u x vm i
          (push_bit PGSHIFT (drop_bit PTE_PPN_SHIFT pte)) h1 = (Inr pa, h')"
      | (leaf) "pte_flag PTE_V pte" "pte_flag PTE_W pte \<longrightarrow> pte_flag PTE_R pte" "leaf_permits type s u x pte"
          "drop_bit PTE_PPN_SHIFT pte AND (push_bit (i * vm_idxbits vm) 1 - 1) = 0"
          "pa = leaf_paddr vaddr (i * vm_idxbits vm) (drop_bit PTE_PPN_SHIFT pte)"
      using prem l Inr
      by (auto simp: bind_m_def then_m_apply split: if_splits prod.splits sum.splits)
    then show ?thesis
    proof cases
      case fault
      then show ?thesis by (auto dest: page_fault_fails)
    next
      case next_level
      then show ?thesis using Suc by simp
    next
      case leaf
      then show ?thesis
        unfolding checked_leaf_def
        using Suc.prems(2) l [unfolded load_def] Inr by (intro exI [of _ i] exI [of _ base] exI [of _ pte] exI [of _ h] exI [of _ h1]) simp
    qed
  qed
qed

lemma checked_leaf_offset: "checked_leaf env vaddr type s u x vm pa \<Longrightarrow> pa AND PGMASK = vaddr AND PGMASK"
  by (auto simp: checked_leaf_def leaf_paddr_offset)

lemma walk_checked:
  assumes "walk env vaddr type mode h = (Inr pa, h')"
  shows "\<exists>vm. decode_vm_info (h_csrs h) mode = Inr vm \<and>
    checked_leaf env vaddr type (mode = SupervisorMode) (bf_get mstatus_sum (mstatus_reg (h_csrs h)) \<noteq> 0)
      (bf_get mstatus_mxr (mstatus_reg (h_csrs h)) \<noteq> 0) vm pa"
proof (cases "decode_vm_info (h_csrs h) mode")
  case (Inl e)
  with assms show ?thesis by (simp add: walk_def lift_sum_def bind_m_def)
next
  case (Inr vm)
  with assms show ?thesis
    using walk_levels_checked [of env vaddr type "mode = SupervisorMode"
        "bf_get mstatus_sum (mstatus_reg (h_csrs h)) \<noteq> 0" "bf_get mstatus_mxr (mstatus_reg (h_csrs h)) \<noteq> 0" vm
        "if check_vaddr_extension vaddr vm then vm_levels vm else 0" "vm_ptbase vm" h pa h']
    by (auto simp: walk_def lift_sum_def)
qed

definition paging :: "MemoryAccessType \<Rightarrow> ('v, 'e, 'm) hart \<Rightarrow> bool" where
  "paging type h \<longleftrightarrow> bf_get satp_mode (satp_reg (h_csrs h)) \<noteq> 0 \<and> effective_mode type h \<noteq> MachineMode"

definition tlb_lookup :: "u64 \<Rightarrow> MemoryAccessType \<Rightarrow> ('v, 'e, 'd) mhart \<Rightarrow> tlb_entry_t" where
  "tlb_lookup vaddr type h = w_tlb (h_world h) (unat (effective_mode type h)) (access_index type)
     (unat (drop_bit PGSHIFT vaddr) mod TLB_ENTRIES)"

definition tlb_hit :: "u64 \<Rightarrow> MemoryAccessType \<Rightarrow> ('v, 'e, 'd) mhart \<Rightarrow> bool" where
  "tlb_hit vaddr type h \<longleftrightarrow> tlb_vpn (tlb_lookup vaddr type h) = drop_bit PGSHIFT vaddr"

lemma tlb_hit_frame:
  assumes "tlb_hit vaddr type h" and "tlb_wf (w_tlb (h_world h))"
  shows "tlb_ppn (tlb_lookup vaddr type h) AND NOT_PGMASK = tlb_ppn (tlb_lookup vaddr type h)"
  using assms vpn_not_marker [of vaddr] unfolding tlb_wf_def tlb_hit_def by (metis tlb_lookup_def)

lemma translate_hit:
  assumes "paging type h" and "effective_mode type h = 0 \<or> effective_mode type h = 1" and "tlb_hit vaddr type h"
  shows "translate_virtual_to_physical_addr env vaddr type h =
    (Inr (tlb_ppn (tlb_lookup vaddr type h) OR (vaddr AND PGMASK)), h)"
  using assms
  by (simp add: translate_virtual_to_physical_addr_def paging_def tlb_hit_def tlb_lookup_def Let_def
      assert_m_def)

lemma translate_paging:
  assumes t: "translate_virtual_to_physical_addr env vaddr type h = (Inr pa, h')" and "paging type h"
  shows "effective_mode type h = 0 \<or> effective_mode type h = 1"
    and "tlb_hit vaddr type h \<and> pa = tlb_ppn (tlb_lookup vaddr type h) OR (vaddr AND PGMASK) \<and> h' = h \<or>
     (\<exists>h1. walk env vaddr type (effective_mode type h) h = (Inr pa, h1) \<and>
       h' = h1\<lparr>h_world := (h_world h1)\<lparr>w_tlb := tlb_update (unat (effective_mode type h)) (access_index type)
         (unat (drop_bit PGSHIFT vaddr) mod TLB_ENTRIES)
         \<lparr>tlb_ppn = pa AND NOT_PGMASK, tlb_vpn = drop_bit PGSHIFT vaddr\<rparr> (w_tlb (h_world h1))\<rparr>\<rparr>)"
proof -
  show m: "effective_mode type h = 0 \<or> effective_mode type h = 1"
    using assms by (auto simp: translate_virtual_to_physical_addr_def paging_def Let_def assert_m_def
        then_m_apply split: if_splits)
  obtain r h1 where w: "walk env vaddr type (effective_mode type h) h = (r, h1)"
    by (cases "walk env vaddr type (effective_mode type h) h")
  show "tlb_hit vaddr type h \<and> pa = tlb_ppn (tlb_lookup vaddr type h) OR (vaddr AND PGMASK) \<and> h' = h \<or>
     (\<exists>h1. walk env vaddr type (effective_mode type h) h = (Inr pa, h1) \<and>
       h' = h1\<lparr>h_world := (h_world h1)\<lparr>w_tlb := tlb_update (unat (effective_mode type h)) (access_index type)
         (unat (drop_bit PGSHIFT vaddr) mod TLB_ENTRIES)
         \<lparr>tlb_ppn = pa AND NOT_PGMASK, tlb_vpn = drop_bit PGSHIFT vaddr\<rparr> (w_tlb (h_world h1))\<rparr>\<rparr>)"
  proof (cases "tlb_hit vaddr type h")
    case True
    with t translate_hit [OF assms(2) m True, of env] show ?thesis by auto
  next
    case False
    with t w m assms(2) show ?thesis
      by (cases r) (auto simp: translate_virtual_to_physical_addr_def paging_def tlb_hit_def tlb_lookup_def
          Let_def assert_m_def bind_m_apply then_m_apply upd_world_def)
  qed
qed

lemma translate_offset:
  assumes "translate_virtual_to_physical_addr env vaddr type h = (Inr pa, h')" and "paging type h"
    and "tlb_wf (w_tlb (h_world h))"
  shows "pa AND PGMASK = vaddr AND PGMASK"
  using translate_paging(2) [OF assms(1,2)]
proof (elim disjE conjE exE)
  assume hit: "tlb_hit vaddr type h" and pa: "pa = tlb_ppn (tlb_lookup vaddr type h) OR (vaddr AND PGMASK)"
  from frame_low(1) [OF tlb_hit_frame [OF hit assms(3)]] show ?thesis unfolding pa by (rule page_offset_join)
next
  fix h1 assume "walk env vaddr type (effective_mode type h) h = (Inr pa, h1)"
  from walk_checked [OF this] show ?thesis by (auto dest: checked_leaf_offset)
qed

lemma translate_context:
  assumes "mem_env_laws cv ev sem cur env k PE"
    and "translate_virtual_to_physical_addr env vaddr type h = (Inr pa, h')"
  shows "satp_reg (h_csrs h') = satp_reg (h_csrs h)" "effective_mode type h' = effective_mode type h"
proof -
  have o: "outside h h'"
    using contained_Inr [OF mem_env_laws.c_translate [OF assms(1)] assms(2)] by simp
  note c = outside_fields(4,10) [OF o]
  show "satp_reg (h_csrs h') = satp_reg (h_csrs h)"
    using arg_cong [OF c(2), of satp_reg] by simp
  show "effective_mode type h' = effective_mode type h"
    using arg_cong [OF c(2), of mstatus_reg] c(1) by (simp add: effective_mode_def)
qed

section \<open>Properties\<close>

text \<open>
  Without paging (\<open>satp\<close> mode bare, or an access with machine-mode privileges) translation is the
  identity and has no effect.
\<close>

lemma translation_identity:
  assumes "\<not> paging type h"
  shows "translate_virtual_to_physical_addr env vaddr type h = (Inr vaddr, h)"
  using assms by (auto simp: translate_virtual_to_physical_addr_def paging_def Let_def)

lemma translation_identity_witness:
  "translate_virtual_to_physical_addr (symex_env (bv_clover sample_inputs) bv_memory bv_kernel 1) 0x1234 LOAD
     sample_hart = (Inr 0x1234, sample_hart)"
  by (rule translation_identity)
    (simp add: paging_def sample_hart_def init_fields csr_table_init_def bf_get_def)


text \<open>
  The page table of the witness: every entry read is a read-write-execute leaf with accessed and
  dirty bits set.
\<close>

definition page_transport :: "(bv_value, (bv_value, bv_expr, bv_image) sys) target" where
  "page_transport p = return_m (p\<lparr>p_data := mem_read 0 (length (p_data p)) [0xcf]\<rparr>)"

definition page_env :: "(bv_value, bv_expr, bv_image symex_devices) mem_env" where
  "page_env = symex_env_of bv_kernel page_transport"

definition paged_hart :: "(bv_value, bv_expr, bv_image) sys" where
  "paged_hart = sample_hart\<lparr>h_prv := SupervisorMode, h_csrs := csr_table_init\<lparr>satp_reg := 0x80000010\<rparr>\<rparr>"

lemma sample_world:
  "h_world sample_hart = \<lparr>w_bus_lock = BusLock_init, w_lr_addr = None, w_tlb = \<lambda>_ _ _. empty_entry,
     w_devices = \<lparr>d_memory = \<lparr>sym_size = 0x02000000, sym_memory = \<lambda>_. Concrete 8 0\<rparr>, d_clint = CLINT_make 1,
       d_ctrl = SymbolicCTRL_make, d_sensor = SymbolicSensor_make\<rparr>\<rparr>"
  by (simp add: sample_hart_def symex_init_def ISS_init_def ISS_construct_def RegFile_write_def
      assert_m_def then_m_apply Let_def)

lemma page_pte: "mmu_load_pte32 page_env a paged_hart = (Inr 0xcf, paged_hart)"
  by (simp add: mmu_load_pte32_def concrete_load_data_def wait_for_access_rights_def access_must_wait_def
      is_locked_def paged_hart_def sample_world BusLock_init_def when_m_def page_env_def page_transport_def mem_read_def
      symex_env_of_def concrete_read_def do_transaction_def bind_m_apply then_m_apply bytes_to_u32_def
      bytes_to_nat_def numeral_3_eq_3)

lemma page_vm:
  "decode_vm_info (h_csrs paged_hart) 1 =
     Inr \<lparr>vm_levels = 2, vm_idxbits = 10, vm_ptesize = 4, vm_ptbase = 0x10000\<rparr>"
  by (simp add: decode_vm_info_def paged_hart_def bf_get_def Let_def)

lemma walk_levels_2:
  "walk_levels env va t s u x vm 2 base = walk_levels env va t s u x vm (Suc (Suc 0)) base"
  by (simp only: numeral_2_eq_2)

lemma page_walk: "walk page_env 0x1234 LOAD 1 paged_hart = (Inr 0x1234, paged_hart)"
  by (simp add: walk_def lift_sum_def page_vm check_vaddr_extension_def bind_m_apply page_pte Let_def
      walk_levels_2 pte_flag_def leaf_permits_def leaf_paddr_def)

lemma paged_hart_paging: "paging LOAD paged_hart" "tlb_wf (w_tlb (h_world paged_hart))"
  by (simp_all add: paging_def paged_hart_def effective_mode_def csr_table_init_def bf_get_def sample_world
      tlb_wf_flush)

lemma paged_hart_translates:
  "\<exists>h'. translate_virtual_to_physical_addr page_env 0x1234 LOAD paged_hart = (Inr 0x1234, h')"
  using page_walk
  by (simp add: translate_virtual_to_physical_addr_def Let_def effective_mode_def assert_m_def bind_m_apply
      then_m_apply paged_hart_def bf_get_def csr_table_init_def upd_world_def sample_world empty_entry_def)

lemma page_env_laws:
  "mem_env_laws (bv_clover sample_inputs) bv_eval (\<lambda>a f. f a) sample_inputs page_env (symex_kernel bv_kernel) device_error"
proof -
  have "target_ok (bv_clover sample_inputs) device_error page_transport"
    by (auto simp: target_ok_def page_transport_def response_ok_def intro!: contained_return)
  from symex.env_laws [OF this] show ?thesis by (simp only: page_env_def)
qed


text \<open>
  C18: The translation cache agrees with the walk up to 32 bits: after a successful translation of a
  page, the same access is answered from the cache without touching the state, with the physical
  address of the walk reduced to its lower 32 bits, as long as the platform keeps its contract (the
  bus does not change the hart's own registers). The two answers differ for the 34-bit physical
  addresses that Sv32 can produce.
\<close>

theorem tlb_consistent:
  assumes "mem_env_laws cv ev sem cur env k PE"
    and "translate_virtual_to_physical_addr env vaddr type h = (Inr pa, h')" and "paging type h"
    and "tlb_wf (w_tlb (h_world h))"
  shows "tlb_hit vaddr type h' \<and>
    translate_virtual_to_physical_addr env vaddr type h' = (Inr (pa AND 0xffffffff), h')"
proof -
  note same = translate_context [OF assms(1,2)]
  have p: "paging type h'" and m: "effective_mode type h' = 0 \<or> effective_mode type h' = 1"
    using assms(3) translate_paging(1) [OF assms(2,3)] same by (simp_all add: paging_def)
  note pa = join_page [OF translate_offset [OF assms(2-4)]]
  from translate_paging(2) [OF assms(2,3)] show ?thesis
  proof (elim disjE conjE exE)
    assume hit: "tlb_hit vaddr type h" "h' = h"
      and "pa = tlb_ppn (tlb_lookup vaddr type h) OR (vaddr AND PGMASK)"
    then have "pa AND 0xffffffff = pa" using frame_low(2) [OF tlb_hit_frame [OF hit(1) assms(4)]] by simp
    with hit assms(2) show ?thesis by simp
  next
    fix h1
    assume "h' = h1\<lparr>h_world := (h_world h1)\<lparr>w_tlb := tlb_update (unat (effective_mode type h)) (access_index type)
         (unat (drop_bit PGSHIFT vaddr) mod TLB_ENTRIES)
         \<lparr>tlb_ppn = pa AND NOT_PGMASK, tlb_vpn = drop_bit PGSHIFT vaddr\<rparr> (w_tlb (h_world h1))\<rparr>\<rparr>"
    then have e: "tlb_lookup vaddr type h' = \<lparr>tlb_ppn = pa AND NOT_PGMASK, tlb_vpn = drop_bit PGSHIFT vaddr\<rparr>"
      using same(2) by (simp add: tlb_lookup_def tlb_update_def)
    then have hit: "tlb_hit vaddr type h'" by (simp add: tlb_hit_def)
    have "translate_virtual_to_physical_addr env vaddr type h' =
        (Inr ((pa AND NOT_PGMASK) OR (vaddr AND PGMASK)), h')"
      using translate_hit [OF p m hit, of env] e by (simp only: tlb_entry_t.select_convs)
    with hit show ?thesis unfolding pa ..
  qed
qed

theorem tlb_consistent_witness:
  "\<exists>h'. translate_virtual_to_physical_addr page_env 0x1234 LOAD paged_hart = (Inr 0x1234, h') \<and>
    translate_virtual_to_physical_addr page_env 0x1234 LOAD h' = (Inr 0x1234, h')"
  using paged_hart_translates tlb_consistent [OF page_env_laws _ paged_hart_paging] by fastforce

text \<open>
  After \<open>flush_tlb\<close> no address hits the translation cache: the marker of an empty entry is not the
  page number of any address.
\<close>

lemma flush_tlb_empties:
  "tlb_wf (w_tlb (h_world (snd (flush_tlb h)))) \<and> \<not> tlb_hit vaddr type (snd (flush_tlb h))"
  using vpn_not_marker [of vaddr] tlb_wf_flush
  by (auto simp: flush_tlb_def upd_world_def tlb_hit_def tlb_lookup_def empty_entry_def)

end
