(* ===== verification/Tlm_Map.thy ===== *)
theory Tlm_Map
  imports Register_Range
begin

text \<open>
  The second layer for memory-mapped registers (\<^verbatim>\<open>util/tlm_map.h\<close>): banks of 32-bit registers with an
  access mode and a write mask, address ranges with a handler, and the local router. A register of
  the source is a pointer into the peripheral; here a \<open>reg_mapping_t\<close> reads and writes the
  peripheral's state \<open>'s\<close>, and a register is identified by its address in the bank. The function \<^verbatim>\<open>fn\<close>
  that performs the access is passed to the handler, which decides when (and whether) to run it.
\<close>

section \<open>Access modes\<close>

record access_mode =
  allow_read :: bool
  allow_write :: bool

abbreviation (input) read_write :: access_mode where "read_write \<equiv> \<lparr>allow_read = True, allow_write = True\<rparr>"
abbreviation (input) read_only :: access_mode where "read_only \<equiv> \<lparr>allow_read = True, allow_write = False\<rparr>"
abbreviation (input) write_only :: access_mode where "write_only \<equiv> \<lparr>allow_read = False, allow_write = True\<rparr>"

definition is_readonly :: "access_mode \<Rightarrow> bool" where
  "is_readonly m \<longleftrightarrow> allow_read m \<and> \<not> allow_write m"

section \<open>Registers\<close>

record 's reg_mapping_t =
  rm_addr :: u64
  rm_vget :: "'s \<Rightarrow> u32"
  rm_vput :: "u32 \<Rightarrow> 's \<Rightarrow> 's"
  rm_mode :: access_mode
  rm_mask :: u32

text \<open>An entry of a register bank with the default access mode and mask.\<close>

definition reg :: "u64 \<Rightarrow> ('s \<Rightarrow> u32) \<Rightarrow> ((u32 \<Rightarrow> u32) \<Rightarrow> 's \<Rightarrow> 's) \<Rightarrow> 's reg_mapping_t" where
  "reg addr get upd = \<lparr>rm_addr = addr, rm_vget = get, rm_vput = \<lambda>v. upd (\<lambda>_. v), rm_mode = read_write,
     rm_mask = 0xffffffff\<rparr>"

definition bus_write :: "'s reg_mapping_t \<Rightarrow> u32 \<Rightarrow> ('s, unit) smonad" where
  "bus_write r new_value = then_m (assert_m ''mode.can_write()'' (allow_write (rm_mode r)))
     (modify_m (rm_vput r (new_value AND rm_mask r)))"

definition bus_read :: "'s reg_mapping_t \<Rightarrow> ('s, u32) smonad" where
  "bus_read r = then_m (assert_m ''mode.can_read()'' (allow_read (rm_mode r))) (gets_m (rm_vget r))"

record register_access_t =
  ra_read :: bool
  ra_write :: bool
  ra_vptr :: u64
  ra_nv :: u32
  ra_addr :: u64

type_synonym ('v, 's) reg_handler =
  "register_access_t \<Rightarrow> 'v payload \<Rightarrow> ('s, 'v payload) smonad \<Rightarrow> ('s, 'v payload) smonad"

section \<open>RegisterMapping\<close>

definition register_fn :: "'s reg_mapping_t \<Rightarrow> ('v, 's) target" where
  "register_fn r t =
     (let off = unat (p_address t mod 4) in
      case p_command t of
        TLM_READ_COMMAND \<Rightarrow> bind_m (bus_read r) (\<lambda>n.
          return_m (t\<lparr>p_data := mem_read off (length (p_data t)) (u32_to_bytes n)\<rparr>))
      | TLM_WRITE_COMMAND \<Rightarrow> bind_m (gets_m (rm_vget r)) (\<lambda>n.
          then_m (bus_write r (bytes_to_u32 (list_write off (p_data t) (u32_to_bytes n)))) (return_m t))
      | TLM_IGNORE_COMMAND \<Rightarrow> throw_m (RuntimeError ''unsupported TLM command detected''))"

text \<open>
  The new value shown to the handler is read from the transaction's buffer as a whole word; for an
  access of fewer than four bytes the source reads past the buffer, and the model takes the missing
  bytes as zero.
\<close>

definition register_nv :: "'v payload \<Rightarrow> u32" where
  "register_nv t = (if p_command t = TLM_WRITE_COMMAND then bytes_to_u32 (mem_read 0 4 (p_data t)) else 0)"

definition register_try_handle ::
  "'s reg_mapping_t list \<Rightarrow> ('v, 's) reg_handler \<Rightarrow> 'v payload \<Rightarrow> ('s, 'v payload option) smonad" where
  "register_try_handle bank handler t =
     (let addr = p_address t in
      case find (\<lambda>r. rm_addr r = addr - addr mod 4) bank of
        None \<Rightarrow> return_m None
      | Some r \<Rightarrow>
         then_m (assert_m ''len + (addr % 4) <= 4'' (word_of_nat (length (p_data t)) + addr mod 4 \<le> 4))
         (then_m (assert_m ''cmd == TLM_READ_COMMAND || cmd == TLM_WRITE_COMMAND''
            (p_command t \<noteq> TLM_IGNORE_COMMAND))
         (then_m (assert_m ''r.mode.can_read() || cmd != TLM_READ_COMMAND''
            (allow_read (rm_mode r) \<or> p_command t \<noteq> TLM_READ_COMMAND))
         (then_m (assert_m ''r.mode.can_write() || cmd != TLM_WRITE_COMMAND''
            (allow_write (rm_mode r) \<or> p_command t \<noteq> TLM_WRITE_COMMAND))
           (bind_m (handler \<lparr>ra_read = (p_command t = TLM_READ_COMMAND),
                 ra_write = (p_command t = TLM_WRITE_COMMAND), ra_vptr = rm_addr r, ra_nv = register_nv t,
                 ra_addr = addr\<rparr> t (register_fn r t)) (\<lambda>t'. return_m (Some t')))))))"

section \<open>AddressMapping\<close>

record ('v, 's) AddressMapping =
  am_start :: u64
  am_end :: u64
  am_mode :: access_mode
  am_handler :: "('v, 's) target"

definition address_try_handle ::
  "('v, 's) AddressMapping \<Rightarrow> 'v payload \<Rightarrow> ('s, 'v payload option) smonad" where
  "address_try_handle m t =
     (let addr = p_address t in
      if addr \<ge> am_start m \<and> addr < am_end m then
        then_m (assert_m ''memory out of bounds access'' (addr + word_of_nat (length (p_data t)) \<le> am_end m))
        (then_m (assert_m ''mode.can_read() || cmd != TLM_READ_COMMAND''
           (allow_read (am_mode m) \<or> p_command t \<noteq> TLM_READ_COMMAND))
        (then_m (assert_m ''mode.can_write() || cmd != TLM_WRITE_COMMAND''
           (allow_write (am_mode m) \<or> p_command t \<noteq> TLM_WRITE_COMMAND))
          (bind_m (am_handler m (t\<lparr>p_address := addr - am_start m\<rparr>)) (\<lambda>t'. return_m (Some t')))))
      else return_m None)"

section \<open>LocalRouter\<close>

datatype ('v, 's) mapping =
    RegisterMapping "'s reg_mapping_t list" "('v, 's) reg_handler"
  | AddressMapping "('v, 's) AddressMapping"

primrec try_handle :: "('v, 's) mapping \<Rightarrow> 'v payload \<Rightarrow> ('s, 'v payload option) smonad" where
    "try_handle (RegisterMapping bank handler) = register_try_handle bank handler"
  | "try_handle (AddressMapping m) = address_try_handle m"

fun nat_to_hex :: "nat \<Rightarrow> string" where
  "nat_to_hex n = (let d = n mod 16; c = char_of (if d < 10 then 48 + d else 55 + d) in
     if n < 16 then [c] else nat_to_hex (n div 16) @ [c])"

declare nat_to_hex.simps [simp del]

fun router_transport :: "string \<Rightarrow> ('v, 's) mapping list \<Rightarrow> ('v, 's) target" where
    "router_transport name [] t = throw_m (RuntimeError
       (''access of unmapped address (local TLM router): name='' @ name @ '', addr=0x'' @
        nat_to_hex (unat (p_address t))))"
  | "router_transport name (m # ms) t = bind_m (try_handle m t) (\<lambda>r.
       case r of Some t' \<Rightarrow> return_m t' | None \<Rightarrow> router_transport name ms t)"

section \<open>Setting up a router\<close>

text \<open>A mapping takes a handler once, and a bank has one register per address.\<close>

definition register_handler :: "'h option \<Rightarrow> 'h \<Rightarrow> error + 'h option" where
  "register_handler handler fn = (if handler \<noteq> None then Inl (AssertFail ''!handler'') else Inr (Some fn))"

definition add_register :: "'s reg_mapping_t \<Rightarrow> 's reg_mapping_t list \<Rightarrow> 's reg_mapping_t list" where
  "add_register m regs = (if find (\<lambda>r. rm_addr r = rm_addr m) regs = None then regs @ [m] else regs)"

fun add_register_bank :: "'s reg_mapping_t list \<Rightarrow> 's reg_mapping_t list \<Rightarrow> error + 's reg_mapping_t list" where
    "add_register_bank [] p = Inr p"
  | "add_register_bank (m # regs) p =
      (if find (\<lambda>r. rm_addr r = rm_addr m) p \<noteq> None then Inl (AssertFail ''register at this address already available'')
       else add_register_bank regs (p @ [m]))"

definition add_start_end_mapping :: "u64 \<Rightarrow> u64 \<Rightarrow> access_mode \<Rightarrow> ('v, 's) target \<Rightarrow> ('v, 's) AddressMapping" where
  "add_start_end_mapping s e m fn = \<lparr>am_start = s, am_end = e, am_mode = m, am_handler = fn\<rparr>"

definition add_start_size_mapping :: "u64 \<Rightarrow> u32 \<Rightarrow> access_mode \<Rightarrow> ('v, 's) target \<Rightarrow> ('v, 's) AddressMapping" where
  "add_start_size_mapping s sz m fn = add_start_end_mapping s (s + ucast sz) m fn"

definition execute_memory_access :: "'v payload \<Rightarrow> u8 list \<Rightarrow> error + 'v payload \<times> u8 list" where
  "execute_memory_access t local_memory = (case p_command t of
     TLM_WRITE_COMMAND \<Rightarrow> Inr (t, list_write (unat (p_address t)) (p_data t) local_memory)
   | TLM_READ_COMMAND \<Rightarrow> Inr (t\<lparr>p_data := mem_read (unat (p_address t)) (length (p_data t)) local_memory\<rparr>, local_memory)
   | TLM_IGNORE_COMMAND \<Rightarrow> Inl (RuntimeError ''unsupported TLM command detected''))"

lemma add_register_bank_distinct:
  assumes "distinct (map rm_addr (p @ regs))"
  shows "add_register_bank regs p = Inr (p @ regs)"
  using assms
proof (induction regs p rule: add_register_bank.induct)
  case (2 m regs p)
  from "2.prems" have "rm_addr m \<notin> rm_addr ` set p" by simp
  then have "find (\<lambda>r. rm_addr r = rm_addr m) p = None" unfolding find_None_iff by (metis imageI)
  with 2 show ?case by simp
qed simp

section \<open>A peripheral as a part of the system state\<close>

text \<open>
  A peripheral is written over the state \<open>'s\<close> of the system it is part of; \<open>part\<close> says where in \<open>'s\<close>
  its own members (\<^verbatim>\<open>this\<close>) are. \<open>reg_at\<close> is a register of the peripheral as a register of the
  system.
\<close>

record ('c, 's) part =
  part_get :: "'s \<Rightarrow> 'c"
  part_upd :: "('c \<Rightarrow> 'c) \<Rightarrow> 's \<Rightarrow> 's"

definition reg_at :: "('c, 's) part \<Rightarrow> 'c reg_mapping_t \<Rightarrow> 's reg_mapping_t" where
  "reg_at p r = \<lparr>rm_addr = rm_addr r, rm_vget = (\<lambda>s. rm_vget r (part_get p s)),
     rm_vput = (\<lambda>v. part_upd p (rm_vput r v)), rm_mode = rm_mode r, rm_mask = rm_mask r\<rparr>"

definition modify_at :: "('c, 's) part \<Rightarrow> ('c \<Rightarrow> 'c) \<Rightarrow> ('s, unit) smonad" where
  "modify_at p f = modify_m (part_upd p f)"

definition gets_at :: "('c, 's) part \<Rightarrow> ('c \<Rightarrow> 'a) \<Rightarrow> ('s, 'a) smonad" where
  "gets_at p f = gets_m (\<lambda>s. f (part_get p s))"

definition whole :: "('s, 's) part" where
  "whole = \<lparr>part_get = (\<lambda>s. s), part_upd = (\<lambda>f. f)\<rparr>"

lemma gets_at_apply [simp, monad_simps]: "gets_at p f s = (Inr (f (part_get p s)), s)"
  by (simp add: gets_at_def)

lemma modify_at_apply [simp, monad_simps]: "modify_at p f s = (Inr (), part_upd p f s)"
  by (simp add: modify_at_def)

lemma bind_gets_at [simp]: "bind_m (gets_at p f) k s = k (f (part_get p s)) s"
  by (simp add: gets_at_def)

lemma then_modify_at [simp]: "then_m (modify_at p f) k s = k (part_upd p f s)"
  by (simp add: modify_at_def)

lemma whole_simps [simp]: "part_get whole s = s" "part_upd whole f s = f s"
  by (simp_all add: whole_def)

lemma reg_simps [simp]:
  "rm_addr (reg a g u) = a" "rm_vget (reg a g u) = g" "rm_vput (reg a g u) v = u (\<lambda>_. v)"
  "rm_mode (reg a g u) = read_write" "rm_mask (reg a g u) = 0xffffffff"
  by (simp_all add: reg_def)

lemma u32_bytes_roundtrip [simp]: "bytes_to_u32 (u32_to_bytes v) = v"
  using unsigned_less [of v, where 'a = nat] by (simp add: bytes_to_u32_def u32_to_bytes_def bytes_roundtrip)

lemma length_u32_to_bytes [simp]: "length (u32_to_bytes v) = 4"
  by (simp add: u32_to_bytes_def)

lemma list_write_all [simp]: "length bs = length xs \<Longrightarrow> list_write 0 bs xs = bs"
  by (simp add: list_write_def)

lemma mem_read_all [simp]: "length xs = n \<Longrightarrow> mem_read 0 n xs = xs"
  by (simp add: mem_read_def)

lemma register_nv_word [simp]:
  "p_command t = TLM_WRITE_COMMAND \<Longrightarrow> p_data t = u32_to_bytes v \<Longrightarrow> register_nv t = v"
  "p_command t = TLM_READ_COMMAND \<Longrightarrow> register_nv t = 0"
  by (simp_all add: register_nv_def)

locale part =
  fixes p :: "('c, 's) part"
  assumes get_upd [simp]: "part_get p (part_upd p f s) = f (part_get p s)"
    and upd_upd [simp]: "part_upd p g (part_upd p f s) = part_upd p (\<lambda>c. g (f c)) s"
    and upd_cong: "f (part_get p s) = g (part_get p s) \<Longrightarrow> part_upd p f s = part_upd p g s"

interpretation whole: part whole
  by unfold_locales simp_all

section \<open>Banks of registers\<close>

text \<open>
  A bank whose registers are variables of the state at distinct aligned addresses. A word access to
  one of them finds it and reads or replaces its value; what a write stored, a read returns.
\<close>

definition plain_word :: "tlm_command \<Rightarrow> u64 \<Rightarrow> u32 \<Rightarrow> 'v payload \<Rightarrow> bool" where
  "plain_word cmd addr v t \<longleftrightarrow> p_command t = cmd \<and> p_address t = addr \<and> p_data t = u32_to_bytes v"

definition access_of :: "'s reg_mapping_t \<Rightarrow> 'v payload \<Rightarrow> register_access_t" where
  "access_of r t = \<lparr>ra_read = (p_command t = TLM_READ_COMMAND), ra_write = (p_command t = TLM_WRITE_COMMAND),
     ra_vptr = rm_addr r, ra_nv = register_nv t, ra_addr = p_address t\<rparr>"

lemma register_fn_state:
  assumes "register_fn r t s = (x, s')"
  shows "s' = s \<or> (\<exists>v. s' = rm_vput r v s)"
  using assms
  by (auto simp: register_fn_def bus_read_def bus_write_def assert_m_def bind_m_apply then_m_apply Let_def
      split: tlm_command.splits if_splits sum.splits)

lemma find_SomeD: "find P xs = Some x \<Longrightarrow> x \<in> set xs \<and> P x"
  by (induction xs) (auto split: if_splits)

text \<open>A successful access to a peripheral with one bank runs its handler on one of the registers.\<close>

lemma router_register_access:
  assumes "router_transport name [RegisterMapping (map (reg_at p) bank) handler] t s = (Inr t', s')"
  obtains r where "r \<in> set bank" "rm_addr r = p_address t - p_address t mod 4"
    "handler (access_of r t) t (register_fn (reg_at p r) t) s = (Inr t', s')"
proof -
  let ?a = "p_address t - p_address t mod 4"
  obtain q where q: "find (\<lambda>q. rm_addr q = ?a) (map (reg_at p) bank) = Some q"
    using assms by (cases "find (\<lambda>q. rm_addr q = ?a) (map (reg_at p) bank)") (simp_all add: register_try_handle_def Let_def)
  obtain r where r: "r \<in> set bank" "q = reg_at p r" "rm_addr r = ?a"
    using find_SomeD [OF q] by (auto simp: reg_at_def)
  have acc: "\<lparr>ra_read = (p_command t = TLM_READ_COMMAND), ra_write = (p_command t = TLM_WRITE_COMMAND),
      ra_vptr = rm_addr (reg_at p r), ra_nv = register_nv t, ra_addr = p_address t\<rparr> = access_of r t"
    by (simp add: access_of_def reg_at_def)
  have "handler (access_of r t) t (register_fn (reg_at p r) t) s = (Inr t', s')"
    using assms q r(2)
    by (auto simp: register_try_handle_def Let_def acc bind_m_apply then_m_apply assert_m_def
        split: prod.splits sum.splits if_splits option.splits)
  with r that show thesis by blast
qed

locale register_bank =
  fixes bank :: "'s reg_mapping_t list"
  assumes distinct_addrs: "distinct (map rm_addr bank)"
    and aligned: "r \<in> set bank \<Longrightarrow> rm_addr r mod 4 = 0"
    and vget_vput: "r \<in> set bank \<Longrightarrow> rm_vget r (rm_vput r v s) = v"
    and accessible: "r \<in> set bank \<Longrightarrow> allow_read (rm_mode r) \<and> allow_write (rm_mode r)"
begin

lemma find_register: "r \<in> set bank \<Longrightarrow> find (\<lambda>q. rm_addr q = rm_addr r) bank = Some r"
  using distinct_addrs by (induction bank) auto

lemma word_access:
  assumes "r \<in> set bank" and "plain_word cmd (rm_addr r) v t" and "cmd \<noteq> TLM_IGNORE_COMMAND"
  shows "register_try_handle bank handler t s =
    bind_m (handler (access_of r t) t (register_fn r t)) (\<lambda>t'. return_m (Some t')) s"
  using assms aligned [OF assms(1)] accessible [OF assms(1)] find_register [OF assms(1)]
  by (simp add: register_try_handle_def plain_word_def access_of_def assert_m_def Let_def)

lemma fn_write:
  assumes "r \<in> set bank" and "plain_word TLM_WRITE_COMMAND (rm_addr r) v t"
  shows "register_fn r t s = (Inr t, rm_vput r (v AND rm_mask r) s)"
  using assms aligned [OF assms(1)] accessible [OF assms(1)]
  by (simp add: register_fn_def plain_word_def bus_write_def assert_m_def then_m_apply)

lemma fn_read:
  assumes "r \<in> set bank" and "plain_word TLM_READ_COMMAND (rm_addr r) v t"
  shows "register_fn r t s = (Inr (t\<lparr>p_data := u32_to_bytes (rm_vget r s)\<rparr>), s)"
  using assms aligned [OF assms(1)] accessible [OF assms(1)]
  by (simp add: register_fn_def plain_word_def bus_read_def assert_m_def bind_m_apply)

lemma plain_roundtrip:
  assumes "r \<in> set bank" and "plain_word TLM_WRITE_COMMAND (rm_addr r) v t"
    and "register_try_handle bank (\<lambda>ra t fn. fn) t s = (Inr t', s')"
  shows "register_try_handle bank (\<lambda>ra t fn. fn) (t\<lparr>p_command := TLM_READ_COMMAND\<rparr>) s' =
    (Inr (Some (t\<lparr>p_command := TLM_READ_COMMAND, p_data := u32_to_bytes (v AND rm_mask r)\<rparr>)), s')"
proof -
  let ?t = "t\<lparr>p_command := TLM_READ_COMMAND\<rparr>"
  have s': "s' = rm_vput r (v AND rm_mask r) s"
    using word_access [OF assms(1,2)] assms by (simp add: fn_write bind_m_apply)
  have t: "plain_word TLM_READ_COMMAND (rm_addr r) v ?t" using assms(2) by (simp add: plain_word_def)
  show ?thesis
    using word_access [OF assms(1) t] s' by (simp add: fn_read [OF assms(1) t] bind_m_apply vget_vput assms(1))
qed

end

text \<open>The registers of a peripheral, seen from the system state, are again such a bank.\<close>

locale mapped_bank = part p + register_bank bank
  for p :: "('c, 's) part" and bank :: "'c reg_mapping_t list"

sublocale mapped_bank \<subseteq> system: register_bank "map (reg_at p) bank"
proof unfold_locales
  show "distinct (map rm_addr (map (reg_at p) bank))"
    using distinct_addrs by (simp add: reg_at_def comp_def)
qed (auto simp: reg_at_def aligned vget_vput accessible)

end
