(* ===== verification/Plic.thy ===== *)
theory Plic
  imports Clint Tlm_Map
begin

text \<open>
  The platform-level interrupt controller of the FE310 (\<^verbatim>\<open>platform/common/fe310_plic.h\<close>). The template
  arguments are the record \<open>plic_cfg\<close>; the external interrupt lines of the harts and the simulation
  time are the record \<open>plic_env\<close>. The event \<^verbatim>\<open>e_run\<close> is the time of its pending notification. The
  privilege level of the interrupts is fixed when the controller is constructed and is passed by the
  environment.
\<close>

section \<open>State\<close>

record plic_cfg =
  NumberCores :: nat
  NumberInterrupts :: nat
  NumberInterruptEntries :: nat
  MaxPriority :: u32

record FE310_PLIC =
  regs_interrupt_priorities :: RegisterRange
  regs_pending_interrupts :: RegisterRange
  regs_hart_enabled_interrupts :: RegisterRange
  regs_hart_config :: RegisterRange
  hart_eip :: "bool list"
  e_run :: "u64 option"

record 's plic_env =
  pe_part :: "(FE310_PLIC, 's) part"
  pe_time_stamp :: "'s \<Rightarrow> u64"
  pe_trigger_external_interrupt :: "nat \<Rightarrow> ('s, unit) smonad"
  pe_clear_external_interrupt :: "nat \<Rightarrow> ('s, unit) smonad"

definition byte_range :: "u64 \<Rightarrow> u8 list \<Rightarrow> bool \<Rightarrow> u64 \<Rightarrow> RegisterRange" where
  "byte_range start mem ro align = \<lparr>rr_start = start, rr_end = start + word_of_nat (length mem) - 1,
     rr_mem = mem, rr_readonly = ro, rr_alignment = align\<rparr>"

definition FE310_PLIC_make :: "plic_cfg \<Rightarrow> FE310_PLIC" where
  "FE310_PLIC_make c = \<lparr>
     regs_interrupt_priorities = byte_range 0
       (fold (\<lambda>i. view_write 4 i 1) [0..<NumberInterrupts c] (replicate (4 * (NumberInterrupts c + 1)) 0)) False 1,
     regs_pending_interrupts = byte_range 0x1000 (replicate (4 * NumberInterruptEntries c) 0) True 1,
     regs_hart_enabled_interrupts = byte_range 0x2000
       (replicate (4 * NumberInterruptEntries c * NumberCores c) 0) False 1,
     regs_hart_config = byte_range 0x200000 (replicate (8 * NumberCores c) 0) False 4,
     hart_eip = replicate (NumberCores c) False, e_run = None\<rparr>"

text \<open>10 ns in the resolution of the simulation time, 1 ps.\<close>

abbreviation (input) clock_cycle :: u64 where "clock_cycle \<equiv> 10000"

section \<open>Views on the registers\<close>

definition interrupt_priorities :: "FE310_PLIC \<Rightarrow> nat \<Rightarrow> u32" where
  "interrupt_priorities q i = word_of_nat (view_read 4 i (rr_mem (regs_interrupt_priorities q)))"

definition pending_interrupts :: "FE310_PLIC \<Rightarrow> nat \<Rightarrow> u32" where
  "pending_interrupts q i = word_of_nat (view_read 4 i (rr_mem (regs_pending_interrupts q)))"

text \<open>
  \<^verbatim>\<open>hart_enabled_interrupts(hart, idx)\<close>: the row size of the view is 1, its default.
\<close>

definition hart_enabled_interrupts :: "FE310_PLIC \<Rightarrow> nat \<Rightarrow> nat \<Rightarrow> u32" where
  "hart_enabled_interrupts q h idx =
     word_of_nat (view_read 4 (h * 1 + idx) (rr_mem (regs_hart_enabled_interrupts q)))"

text \<open>A \<^verbatim>\<open>HartConfig\<close> is two 32-bit words.\<close>

definition priority_threshold :: "FE310_PLIC \<Rightarrow> nat \<Rightarrow> u32" where
  "priority_threshold q h = word_of_nat (view_read 4 (2 * h) (rr_mem (regs_hart_config q)))"

definition set_pending :: "(u32 \<Rightarrow> u32) \<Rightarrow> nat \<Rightarrow> FE310_PLIC \<Rightarrow> FE310_PLIC" where
  "set_pending f idx q = regs_pending_interrupts_update
     (rr_mem_update (view_write 4 idx (unat (f (pending_interrupts q idx))))) q"

definition set_claim_response :: "nat \<Rightarrow> u32 \<Rightarrow> FE310_PLIC \<Rightarrow> FE310_PLIC" where
  "set_claim_response h v = regs_hart_config_update (rr_mem_update (view_write 4 (2 * h + 1) (unat v)))"

section \<open>The gateway\<close>

definition plic_index :: "'s plic_env \<Rightarrow> (FE310_PLIC \<Rightarrow> RegisterRange) \<Rightarrow> nat \<Rightarrow> nat \<Rightarrow> ('s, unit) smonad" where
  "plic_index e rng sz idx = bind_m (gets_at (pe_part e) rng) (\<lambda>r.
     assert_m ''idx < size'' (idx < ArrayView_size sz r))"

definition gateway_trigger_interrupt :: "plic_cfg \<Rightarrow> 's plic_env \<Rightarrow> u32 \<Rightarrow> ('s, unit) smonad" where
  "gateway_trigger_interrupt c e irq_id =
     then_m (assert_m ''irq_id > 0 && irq_id < NumberInterrupts''
       (irq_id > 0 \<and> unat irq_id < NumberInterrupts c))
     (let idx = unat irq_id div 32; off = unat irq_id mod 32 in
      then_m (plic_index e regs_pending_interrupts 4 idx)
      (then_m (modify_at (pe_part e) (set_pending (\<lambda>w. w OR push_bit off 1) idx))
        (bind_m (gets_m (pe_time_stamp e)) (\<lambda>now.
          modify_at (pe_part e) (e_run_update (event_notify (now + clock_cycle)))))))"

definition clear_pending_interrupt :: "plic_cfg \<Rightarrow> 's plic_env \<Rightarrow> nat \<Rightarrow> ('s, unit) smonad" where
  "clear_pending_interrupt c e irq_id =
     then_m (assert_m ''irq_id < NumberInterrupts'' (irq_id < NumberInterrupts c))
     (let idx = irq_id div 32; off = irq_id mod 32 in
      then_m (plic_index e regs_pending_interrupts 4 idx)
        (modify_at (pe_part e) (set_pending (\<lambda>w. w AND NOT (push_bit off 1)) idx)))"

section \<open>Arbitration\<close>

fun next_pending_loop ::
  "FE310_PLIC \<Rightarrow> nat \<Rightarrow> bool \<Rightarrow> nat list \<Rightarrow> nat \<Rightarrow> u32 \<Rightarrow> ('s, nat) smonad" where
    "next_pending_loop q hart consider_threshold [] min_id max_priority = return_m min_id"
  | "next_pending_loop q hart consider_threshold (i # is) min_id max_priority =
      (if hart_enabled_interrupts q hart (i div 32) AND push_bit (i mod 32) 1 \<noteq> 0 then
        then_m (assert_m ''idx < size'' (i div 32 < ArrayView_size 4 (regs_pending_interrupts q)))
        (if pending_interrupts q (i div 32) AND push_bit (i mod 32) 1 \<noteq> 0 then
          then_m (assert_m ''idx < size'' (i < ArrayView_size 4 (regs_interrupt_priorities q)))
          (let prio = interrupt_priorities q i in
           then_m (when_m (prio > 0 \<and> consider_threshold)
             (assert_m ''idx < size'' (hart < ArrayView_size 8 (regs_hart_config q))))
           (if prio > 0 \<and> (\<not> consider_threshold \<or> prio > priority_threshold q hart) \<and> prio > max_priority
            then next_pending_loop q hart consider_threshold is i prio
            else next_pending_loop q hart consider_threshold is min_id max_priority))
         else next_pending_loop q hart consider_threshold is min_id max_priority)
       else next_pending_loop q hart consider_threshold is min_id max_priority)"

definition hart_get_next_pending_interrupt ::
  "plic_cfg \<Rightarrow> 's plic_env \<Rightarrow> nat \<Rightarrow> bool \<Rightarrow> ('s, nat) smonad" where
  "hart_get_next_pending_interrupt c e hart consider_threshold = bind_m (gets_at (pe_part e) (\<lambda>q. q)) (\<lambda>q.
     next_pending_loop q hart consider_threshold [1..<NumberInterrupts c] 0 0)"

definition hart_has_pending_enabled_interrupts :: "plic_cfg \<Rightarrow> 's plic_env \<Rightarrow> nat \<Rightarrow> ('s, bool) smonad" where
  "hart_has_pending_enabled_interrupts c e hart =
     bind_m (hart_get_next_pending_interrupt c e hart True) (\<lambda>i. return_m (i > 0))"

section \<open>The bus interface\<close>

text \<open>
  The range-based loop over the priorities ends at \<^verbatim>\<open>ArrayView::end\<close>, which points to the last element,
  not behind it.
\<close>

definition clamp_priorities :: "u32 \<Rightarrow> RegisterRange \<Rightarrow> RegisterRange" where
  "clamp_priorities maxp r = rr_mem_update
     (fold (\<lambda>i m. view_write 4 i (unat (min (word_of_nat (view_read 4 i m)) maxp)) m) [0..<ArrayView_size 4 r - 1]) r"

definition post_write_interrupt_priorities :: "plic_cfg \<Rightarrow> 's plic_env \<Rightarrow> u64 \<Rightarrow> nat \<Rightarrow> ('s, unit) smonad" where
  "post_write_interrupt_priorities c e addr len =
     modify_at (pe_part e) (regs_interrupt_priorities_update (clamp_priorities (MaxPriority c)))"

definition pre_read_hart_config :: "plic_cfg \<Rightarrow> 's plic_env \<Rightarrow> u64 \<Rightarrow> nat \<Rightarrow> ('s, bool) smonad" where
  "pre_read_hart_config c e addr len =
     then_m (assert_m ''t.addr % 4 == 0'' (addr mod 4 = 0))
     (let idx = unat (addr div 4) in
      then_m (when_m (idx mod 2 = 1)
        (then_m (assert_m ''t.size == 4'' (len = 4))
          (let idx = idx - 1 in
           bind_m (hart_get_next_pending_interrupt c e 0 False) (\<lambda>min_id.
             then_m (plic_index e regs_hart_config 8 idx)
             (then_m (modify_at (pe_part e) (set_claim_response idx (word_of_nat min_id)))
               (clear_pending_interrupt c e min_id))))))
        (return_m True))"

text \<open>
  \<^verbatim>\<open>hart_eip\<close> and \<^verbatim>\<open>target_harts\<close> are arrays of \<^verbatim>\<open>NumberCores\<close> elements; an index past them, which the
  source does not check, is an error here.
\<close>

definition post_write_hart_config :: "plic_cfg \<Rightarrow> 's plic_env \<Rightarrow> u64 \<Rightarrow> nat \<Rightarrow> ('s, unit) smonad" where
  "post_write_hart_config c e addr len =
     then_m (assert_m ''t.addr % 4 == 0'' (addr mod 4 = 0))
     (let idx = unat (addr div 4) in
      when_m (idx mod 2 = 1)
        (then_m (assert_m ''t.size == 4'' (len = 4))
          (let idx = idx - 1 in
           bind_m (hart_has_pending_enabled_interrupts c e idx) (\<lambda>b.
             if \<not> idx < NumberCores c then throw_m (RuntimeError ''std::array index out of range'')
             else if b then
               bind_m (gets_at (pe_part e) (\<lambda>q. hart_eip q ! idx)) (\<lambda>eip.
                 then_m (assert_m ''hart_eip[idx]'' eip) (pe_trigger_external_interrupt e idx))
             else then_m (modify_at (pe_part e) (hart_eip_update (\<lambda>xs. xs[idx := False])))
               (pe_clear_external_interrupt e idx)))))"

definition plic_ranges :: "plic_cfg \<Rightarrow> 's plic_env \<Rightarrow> 's range_port list" where
  "plic_ranges c e =
    [\<lparr>rp_get = \<lambda>s. regs_interrupt_priorities (part_get (pe_part e) s),
      rp_mem_update = \<lambda>f. part_upd (pe_part e) (regs_interrupt_priorities_update (rr_mem_update f)),
      pre_write_callback = None, post_write_callback = Some (post_write_interrupt_priorities c e),
      pre_read_callback = None, post_read_callback = None\<rparr>,
     \<lparr>rp_get = \<lambda>s. regs_pending_interrupts (part_get (pe_part e) s),
      rp_mem_update = \<lambda>f. part_upd (pe_part e) (regs_pending_interrupts_update (rr_mem_update f)),
      pre_write_callback = None, post_write_callback = None,
      pre_read_callback = None, post_read_callback = None\<rparr>,
     \<lparr>rp_get = \<lambda>s. regs_hart_enabled_interrupts (part_get (pe_part e) s),
      rp_mem_update = \<lambda>f. part_upd (pe_part e) (regs_hart_enabled_interrupts_update (rr_mem_update f)),
      pre_write_callback = None, post_write_callback = None,
      pre_read_callback = None, post_read_callback = None\<rparr>,
     \<lparr>rp_get = \<lambda>s. regs_hart_config (part_get (pe_part e) s),
      rp_mem_update = \<lambda>f. part_upd (pe_part e) (regs_hart_config_update (rr_mem_update f)),
      pre_write_callback = None, post_write_callback = Some (post_write_hart_config c e),
      pre_read_callback = Some (pre_read_hart_config c e), post_read_callback = None\<rparr>]"

definition plic_transport :: "plic_cfg \<Rightarrow> 's plic_env \<Rightarrow> ('v, 's) target" where
  "plic_transport c e t = rr_route ''FE310_PLIC'' (plic_ranges c e) t"

section \<open>The run thread\<close>

definition plic_run_hart :: "plic_cfg \<Rightarrow> 's plic_env \<Rightarrow> nat \<Rightarrow> ('s, unit) smonad" where
  "plic_run_hart c e i = bind_m (gets_at (pe_part e) (\<lambda>q. hart_eip q ! i)) (\<lambda>eip.
     when_m (\<not> eip)
      (bind_m (hart_has_pending_enabled_interrupts c e i) (\<lambda>b.
        when_m b
         (then_m (modify_at (pe_part e) (hart_eip_update (\<lambda>xs. xs[i := True])))
           (pe_trigger_external_interrupt e i)))))"

fun plic_run_harts :: "plic_cfg \<Rightarrow> 's plic_env \<Rightarrow> nat list \<Rightarrow> ('s, unit) smonad" where
    "plic_run_harts c e [] = return_m ()"
  | "plic_run_harts c e (i # is) = then_m (plic_run_hart c e i) (plic_run_harts c e is)"

definition plic_run_iteration :: "plic_cfg \<Rightarrow> 's plic_env \<Rightarrow> ('s, unit) smonad" where
  "plic_run_iteration c e = then_m (modify_at (pe_part e) (e_run_update (\<lambda>_. None)))
     (plic_run_harts c e [0..<NumberCores c])"

section \<open>What arbitration computes\<close>

definition plic_wf :: "plic_cfg \<Rightarrow> FE310_PLIC \<Rightarrow> bool" where
  "plic_wf c q \<longleftrightarrow> length (rr_mem (regs_interrupt_priorities q)) = 4 * (NumberInterrupts c + 1) \<and>
     length (rr_mem (regs_pending_interrupts q)) = 4 * NumberInterruptEntries c \<and>
     length (rr_mem (regs_hart_enabled_interrupts q)) = 4 * NumberInterruptEntries c * NumberCores c \<and>
     length (rr_mem (regs_hart_config q)) = 8 * NumberCores c \<and> length (hart_eip q) = NumberCores c \<and>
     rr_start (regs_hart_config q) = 0x200000 \<and> rr_end (regs_hart_config q) = 0x200000 + word_of_nat (8 * NumberCores c) - 1 \<and>
     rr_alignment (regs_hart_config q) = 4"

definition cfg_wf :: "plic_cfg \<Rightarrow> bool" where
  "cfg_wf c \<longleftrightarrow> 0 < NumberInterrupts c \<and> NumberInterrupts c \<le> 32 * NumberInterruptEntries c \<and>
     NumberInterrupts c \<le> 4096 \<and> 0 < NumberCores c \<and> NumberCores c \<le> 15360"

definition irq_pending :: "FE310_PLIC \<Rightarrow> nat \<Rightarrow> bool" where
  "irq_pending q i \<longleftrightarrow> bit (pending_interrupts q (i div 32)) (i mod 32)"

definition irq_enabled :: "FE310_PLIC \<Rightarrow> nat \<Rightarrow> nat \<Rightarrow> bool" where
  "irq_enabled q h i \<longleftrightarrow> bit (hart_enabled_interrupts q h (i div 32)) (i mod 32)"

definition eligible :: "FE310_PLIC \<Rightarrow> nat \<Rightarrow> bool \<Rightarrow> nat \<Rightarrow> bool" where
  "eligible q h thr i \<longleftrightarrow> irq_enabled q h i \<and> irq_pending q i \<and> interrupt_priorities q i > 0 \<and>
     (thr \<longrightarrow> interrupt_priorities q i > priority_threshold q h)"

text \<open>The interrupt with the highest priority, the smallest number among equals; 0 when there is none.\<close>

definition is_next :: "FE310_PLIC \<Rightarrow> nat \<Rightarrow> bool \<Rightarrow> nat set \<Rightarrow> nat \<Rightarrow> bool" where
  "is_next q h thr S m \<longleftrightarrow>
     (if \<exists>i\<in>S. eligible q h thr i
      then m \<in> S \<and> eligible q h thr m \<and> (\<forall>j\<in>S. eligible q h thr j \<longrightarrow>
        interrupt_priorities q j < interrupt_priorities q m \<or>
        interrupt_priorities q j = interrupt_priorities q m \<and> m \<le> j)
      else m = 0)"

fun next_pending :: "FE310_PLIC \<Rightarrow> nat \<Rightarrow> bool \<Rightarrow> nat list \<Rightarrow> nat \<Rightarrow> u32 \<Rightarrow> nat" where
    "next_pending q h thr [] m p = m"
  | "next_pending q h thr (i # is) m p =
       (if eligible q h thr i \<and> interrupt_priorities q i > p
        then next_pending q h thr is i (interrupt_priorities q i) else next_pending q h thr is m p)"

lemma next_pending_loop_eq:
  assumes "plic_wf c q" "cfg_wf c" "h < NumberCores c" "\<forall>i\<in>set is. i < NumberInterrupts c"
  shows "next_pending_loop q h thr is m p s = (Inr (next_pending q h thr is m p), s)"
  using assms(4)
proof (induction "is" arbitrary: m p)
  case (Cons i "is")
  have "i < NumberInterrupts c" using Cons.prems by simp
  then have "i div 32 < NumberInterruptEntries c" and "i < NumberInterrupts c + 1"
    using assms(2) by (auto simp: cfg_wf_def)
  then show ?case using Cons assms(1,3)
    by (auto simp: and_exp_eq_0_iff_not_bit eligible_def irq_enabled_def irq_pending_def ArrayView_size_def plic_wf_def
        assert_m_def when_m_def Let_def)
qed simp

lemma next_pending_max:
  assumes "sorted_wrt (<) is" and "0 \<notin> S" and "0 \<notin> set is" and "\<forall>i\<in>S. \<forall>j\<in>set is. i < j"
    and "is_next q h thr S m" and "p = (if m = 0 then 0 else interrupt_priorities q m)"
  shows "is_next q h thr (S \<union> set is) (next_pending q h thr is m p)"
  using assms
proof (induction "is" arbitrary: S m p)
  case (Cons i "is")
  have m: "m \<noteq> 0 \<longleftrightarrow> (\<exists>i\<in>S. eligible q h thr i)" using Cons.prems(2,5) by (cases "m = 0") (auto simp: is_next_def split: if_splits)
  have split: "S \<union> set (i # is) = insert i S \<union> set is" by auto
  have rest: "is_next q h thr (insert i S \<union> set is) (next_pending q h thr is m' p')"
    if "is_next q h thr (insert i S) m'" "p' = (if m' = 0 then 0 else interrupt_priorities q m')" for m' p'
    using Cons.prems(1-4) that by (intro Cons.IH) auto
  show ?case
  proof (cases "eligible q h thr i \<and> interrupt_priorities q i > p")
    case True
    have "is_next q h thr (insert i S) i"
      using True Cons.prems m by (fastforce simp: is_next_def split: if_splits)
    with rest [of i] True Cons.prems(3) show ?thesis by (auto simp: split)
  next
    case False
    have "is_next q h thr (insert i S) m"
    proof (cases "m = 0")
      case True
      then have "\<not> eligible q h thr i" using False Cons.prems(6) by (auto simp: eligible_def)
      with True m show ?thesis by (auto simp: is_next_def)
    next
      case nz: False
      then have best: "m \<in> S" "eligible q h thr m" "\<forall>j\<in>S. eligible q h thr j \<longrightarrow>
          interrupt_priorities q j < interrupt_priorities q m \<or>
          interrupt_priorities q j = interrupt_priorities q m \<and> m \<le> j"
        using Cons.prems(5) m by (simp_all add: is_next_def)
      have "eligible q h thr i \<longrightarrow> interrupt_priorities q i \<le> interrupt_priorities q m" "m \<le> i"
        using False nz Cons.prems(4,6) best(1) by (auto simp: not_less less_imp_le)
      with best show ?thesis by (auto simp: is_next_def)
    qed
    with rest [of m p] Cons.prems(6) False show ?thesis by (auto simp: split)
  qed
qed simp

lemma hart_get_next:
  assumes "plic_wf c (part_get (pe_part e) s)" "cfg_wf c" "h < NumberCores c"
  shows "\<exists>m. hart_get_next_pending_interrupt c e h thr s = (Inr m, s) \<and> m < NumberInterrupts c \<and>
    is_next (part_get (pe_part e) s) h thr {1..<NumberInterrupts c} m"
proof -
  let ?q = "part_get (pe_part e) s"
  let ?m = "next_pending ?q h thr [1..<NumberInterrupts c] 0 0"
  have "hart_get_next_pending_interrupt c e h thr s = (Inr ?m, s)"
    using next_pending_loop_eq [OF assms, of "[1..<NumberInterrupts c]" thr 0 0 s] by (simp add: hart_get_next_pending_interrupt_def)
  moreover have "is_next ?q h thr ({} \<union> set [1..<NumberInterrupts c]) ?m"
    by (rule next_pending_max) (simp_all add: is_next_def sorted_wrt_upt)
  ultimately show ?thesis using assms(2) by (auto simp: is_next_def cfg_wf_def split: if_splits)
qed

section \<open>Pending bits\<close>

lemma view_write_read_other:
  assumes "Suc i * sz \<le> length mem" and "i \<noteq> j"
  shows "view_read sz j (view_write sz i v mem) = view_read sz j mem"
proof -
  have "j * sz + sz \<le> i * sz \<or> i * sz + sz \<le> j * sz"
    using assms(2) by (metis add.commute mult_Suc mult_le_mono1 not_less_eq_eq linorder_neqE_nat Suc_leI)
  then show ?thesis
    using assms(1) list_write_read_other [of "i * sz" "nat_to_bytes sz v" mem "j * sz" sz]
    by (auto simp: view_read_def view_write_def)
qed

lemma length_view_write [simp]: "Suc i * sz \<le> length mem \<Longrightarrow> length (view_write sz i v mem) = length mem"
  by (simp add: view_write_def)

lemma pending_set_pending:
  assumes "plic_wf c q" "i < NumberInterruptEntries c"
  shows "pending_interrupts (set_pending f i q) j = (if j = i then f (pending_interrupts q i) else pending_interrupts q j)"
proof -
  have l: "Suc i * 4 \<le> length (rr_mem (regs_pending_interrupts q))" using assms by (simp add: plic_wf_def)
  have "unat w mod 2 ^ (8 * 4) = unat w" for w :: u32 using unsigned_less [of w, where 'a = nat] by simp
  then show ?thesis
    using view_write_read [OF l] view_write_read_other [OF l]
    by (auto simp: set_pending_def pending_interrupts_def)
qed

lemma plic_wf_set [simp]:
  "plic_wf c q \<Longrightarrow> i < NumberInterruptEntries c \<Longrightarrow> plic_wf c (set_pending f i q)"
  "plic_wf c q \<Longrightarrow> h < NumberCores c \<Longrightarrow> plic_wf c (set_claim_response h v q)"
  "plic_wf c (e_run_update g q) = plic_wf c q"
  "plic_wf c (hart_eip_update (\<lambda>xs. xs[i := b]) q) = plic_wf c q"
  by (simp_all add: plic_wf_def set_pending_def set_claim_response_def)

lemma irq_pending_simps [simp]:
  "irq_pending (set_claim_response h v q) i = irq_pending q i"
  "irq_pending (e_run_update g q) i = irq_pending q i"
  "irq_pending (hart_eip_update b q) i = irq_pending q i"
  by (simp_all add: irq_pending_def pending_interrupts_def set_claim_response_def)

lemma hart_eip_simps [simp]:
  "hart_eip (set_pending f i q) = hart_eip q" "hart_eip (set_claim_response h v q) = hart_eip q"
  by (simp_all add: set_pending_def set_claim_response_def)

lemma div_mod_32_eq: "(i :: nat) div 32 = j div 32 \<and> i mod 32 = j mod 32 \<longleftrightarrow> i = j"
  by (metis div_mult_mod_eq)

lemma irq_pending_clear:
  assumes "plic_wf c q" "cfg_wf c" "i < NumberInterrupts c"
  shows "irq_pending (set_pending (\<lambda>w. w AND NOT (push_bit (i mod 32) 1)) (i div 32) q) j \<longleftrightarrow>
    irq_pending q j \<and> j \<noteq> i"
proof -
  have "i div 32 < NumberInterruptEntries c" using assms by (auto simp: cfg_wf_def)
  then show ?thesis using div_mod_32_eq [of j i]
    by (auto simp: irq_pending_def pending_set_pending [OF assms(1)] bit_simps)
qed

text \<open>The effect of the gateway on the pending bits.\<close>

definition raise_pending :: "nat \<Rightarrow> FE310_PLIC \<Rightarrow> FE310_PLIC" where
  "raise_pending i = set_pending (\<lambda>w. w OR push_bit (i mod 32) 1) (i div 32)"

lemma irq_pending_raise:
  assumes "plic_wf c q" "cfg_wf c" "i < NumberInterrupts c"
  shows "irq_pending (raise_pending i q) j \<longleftrightarrow> irq_pending q j \<or> j = i"
proof -
  have "i div 32 < NumberInterruptEntries c" using assms by (auto simp: cfg_wf_def)
  then show ?thesis using div_mod_32_eq [of j i]
    by (auto simp: irq_pending_def raise_pending_def pending_set_pending [OF assms(1)] bit_simps)
qed

lemma plic_wf_raise: "plic_wf c q \<Longrightarrow> cfg_wf c \<Longrightarrow> i < NumberInterrupts c \<Longrightarrow> plic_wf c (raise_pending i q)"
  by (auto simp: raise_pending_def cfg_wf_def)

lemma raise_pending_simps [simp]:
  "irq_enabled (raise_pending i q) h j = irq_enabled q h j"
  "interrupt_priorities (raise_pending i q) j = interrupt_priorities q j"
  "priority_threshold (raise_pending i q) h = priority_threshold q h"
  "hart_eip (raise_pending i q) = hart_eip q"
  by (simp_all add: raise_pending_def set_pending_def irq_enabled_def hart_enabled_interrupts_def interrupt_priorities_def
      priority_threshold_def)

lemma e_run_simps [simp]:
  "irq_enabled (e_run_update g q) h j = irq_enabled q h j"
  "interrupt_priorities (e_run_update g q) j = interrupt_priorities q j"
  "priority_threshold (e_run_update g q) h = priority_threshold q h"
  "eligible (e_run_update g q) h thr j = eligible q h thr j"
  by (simp_all add: irq_enabled_def hart_enabled_interrupts_def interrupt_priorities_def priority_threshold_def eligible_def)

section \<open>The initial state\<close>

definition plic_layout :: "FE310_PLIC \<Rightarrow> bool" where
  "plic_layout q \<longleftrightarrow> list_all (\<lambda>r. \<not> rr_contains r 0x200004)
     [regs_interrupt_priorities q, regs_pending_interrupts q, regs_hart_enabled_interrupts q]"

lemma fold_view_write:
  assumes "n * sz \<le> length mem"
  shows "length (fold (\<lambda>i. view_write sz i v) [0..<n] mem) = length mem \<and>
    (\<forall>i<n. view_read sz i (fold (\<lambda>i. view_write sz i v) [0..<n] mem) = v mod 2 ^ (8 * sz))"
  using assms
proof (induction n)
  case (Suc n)
  let ?m = "fold (\<lambda>i. view_write sz i v) [0..<n] mem"
  have IH: "length ?m = length mem" "\<forall>i<n. view_read sz i ?m = v mod 2 ^ (8 * sz)" using Suc by auto
  have len: "Suc n * sz \<le> length ?m" using Suc.prems IH(1) by simp
  have "view_read sz i (view_write sz n v ?m) = v mod 2 ^ (8 * sz)" if "i < Suc n" for i
    using that IH(2) view_write_read [OF len] view_write_read_other [OF len, of i] by (cases "i = n") auto
  then show ?case using IH(1) len by simp
qed simp

lemma FE310_PLIC_make_wf: "plic_wf c (FE310_PLIC_make c)"
  using fold_view_write [of "NumberInterrupts c" 4 "replicate (4 * (NumberInterrupts c + 1)) 0" 1]
  by (simp add: plic_wf_def FE310_PLIC_make_def byte_range_def)

lemma FE310_PLIC_make_priority: "i < NumberInterrupts c \<Longrightarrow> interrupt_priorities (FE310_PLIC_make c) i = 1"
  using fold_view_write [of "NumberInterrupts c" 4 "replicate (4 * (NumberInterrupts c + 1)) 0" 1]
  by (simp add: interrupt_priorities_def FE310_PLIC_make_def byte_range_def)

section \<open>The controller in a system\<close>

text \<open>
  What the controller relies on: its registers are a part of the system state, the configuration has
  registers for all its interrupts, and raising the interrupt line of a hart leaves the controller alone.
\<close>

locale plic_system = part "pe_part e" for e :: "'s plic_env" +
  fixes c :: plic_cfg
  assumes cfg: "cfg_wf c"
    and trigger_frame: "\<exists>s'. pe_trigger_external_interrupt e h s = (Inr (), s') \<and>
      part_get (pe_part e) s' = part_get (pe_part e) s"
begin

abbreviation "plic s \<equiv> part_get (pe_part e) s"

lemma index_ok: "plic_wf c (plic s) \<Longrightarrow> i < NumberInterrupts c \<Longrightarrow>
    plic_index e regs_pending_interrupts 4 (i div 32) s = (Inr (), s)"
  using cfg by (auto simp: plic_index_def plic_wf_def cfg_wf_def ArrayView_size_def assert_m_def)

lemma gateway_sets_pending:
  assumes "plic_wf c (plic s)" "0 < irq" "unat irq < NumberInterrupts c"
  shows "\<exists>t. gateway_trigger_interrupt c e irq s =
    (Inr (), part_upd (pe_part e) (\<lambda>q. e_run_update (event_notify t) (raise_pending (unat irq) q)) s)"
  using assms index_ok [OF assms(1,3)]
  by (auto simp: gateway_trigger_interrupt_def assert_m_def Let_def then_m_apply [of "plic_index _ _ _ _"] raise_pending_def)

lemma next_interrupt:
  assumes "plic_wf c (plic s)" "h < NumberCores c"
  obtains m where "hart_get_next_pending_interrupt c e h thr s = (Inr m, s)" "m < NumberInterrupts c"
    "is_next (plic s) h thr {1..<NumberInterrupts c} m"
  using hart_get_next [OF assms(1) cfg assms(2), of thr] by blast

lemma claim_takes_next:
  assumes "plic_wf c (plic s)" and "p_command t = TLM_READ_COMMAND" "p_address t = 0x200004" "length (p_data t) = 4"
    and map: "\<not> rr_contains (regs_interrupt_priorities (plic s)) 0x200004"
      "\<not> rr_contains (regs_pending_interrupts (plic s)) 0x200004"
      "\<not> rr_contains (regs_hart_enabled_interrupts (plic s)) 0x200004"
  shows "\<exists>m s'. plic_transport c e t s = (Inr (t\<lparr>p_data := u32_to_bytes (word_of_nat m)\<rparr>), s') \<and>
    is_next (plic s) 0 False {1..<NumberInterrupts c} m \<and> plic_wf c (plic s') \<and>
    (\<forall>j. irq_pending (plic s') j \<longleftrightarrow> irq_pending (plic s) j \<and> j \<noteq> m)"
proof -
  have cores: "0 < NumberCores c" "NumberCores c \<le> 15360" using cfg by (auto simp: cfg_wf_def)
  obtain m where m: "hart_get_next_pending_interrupt c e 0 False s = (Inr m, s)" "m < NumberInterrupts c"
    "is_next (plic s) 0 False {1..<NumberInterrupts c} m"
    using next_interrupt [OF assms(1) cores(1)] by blast
  let ?f = "set_claim_response 0 (word_of_nat m)"
  let ?g = "set_pending (\<lambda>w. w AND NOT (push_bit (m mod 32) 1)) (m div 32)"
  let ?s = "part_upd (pe_part e) (\<lambda>q. ?g (?f q)) s"
  have i: "m div 32 < NumberInterruptEntries c" using m(2) cfg by (auto simp: cfg_wf_def)
  have wf: "plic_wf c (?f (plic s))" using assms(1) cores by simp
  have idx: "plic_index e regs_hart_config 8 0 s = (Inr (), s)"
    using assms(1) cores by (simp add: plic_index_def plic_wf_def ArrayView_size_def assert_m_def)
  have clear: "clear_pending_interrupt c e m (part_upd (pe_part e) ?f s) = (Inr (), ?s)"
    using m(2) index_ok [of "part_upd (pe_part e) ?f s" m] wf
    by (simp add: clear_pending_interrupt_def assert_m_def Let_def then_m_apply [of "plic_index _ _ _ _"])
  have pre: "pre_read_hart_config c e 4 4 s = (Inr True, ?s)"
    by (simp add: pre_read_hart_config_def assert_m_def when_m_def Let_def m(1) idx clear bind_m_Inr then_m_apply)
  define n where "n = 8 * NumberCores c"
  have n: "8 \<le> n" "n \<le> 122880" using cores by (auto simp: n_def)
  then have le: "(8 :: u64) \<le> word_of_nat n" by (simp add: word_le_nat_alt unat_of_nat)
  have cfgr: "rr_start (regs_hart_config (plic s)) = 0x200000" "rr_alignment (regs_hart_config (plic s)) = 4"
    "rr_end (regs_hart_config (plic s)) = 0x200000 + word_of_nat n - 1"
    "length (rr_mem (regs_hart_config (plic s))) = n"
    using assms(1) by (simp_all add: plic_wf_def n_def)
  have "(0x200004 :: u64) \<le> 0x200000 + word_of_nat n - 1"
    using n by (simp add: word_le_nat_alt unat_word_ariths unat_of_nat)
  then have inside: "rr_contains (regs_hart_config (plic s)) 0x200004"
    using cfgr by (simp add: rr_contains_def)
  have read: "mem_read 4 4 (rr_mem (regs_hart_config (plic ?s))) = u32_to_bytes (word_of_nat m)"
    using n list_write_read [of 4 "nat_to_bytes 4 (unat (word_of_nat m :: u32))" "rr_mem (regs_hart_config (plic s))"]
      cfgr(4)
    by (simp add: set_claim_response_def set_pending_def view_write_def u32_to_bytes_def mem_read_inside)
  have "plic_transport c e t s = (Inr (t\<lparr>p_data := u32_to_bytes (word_of_nat m)\<rparr>), ?s)"
    using assms(2-4) map inside pre read le cfgr
    by (simp add: plic_transport_def plic_ranges_def rr_process_def rr_read_def rr_check_def rr_to_local_def ensure_def
        pre_callback_def post_callback_def assert_m_def bind_m_apply then_m_apply)
  moreover have "\<forall>j. irq_pending (plic ?s) j \<longleftrightarrow> irq_pending (plic s) j \<and> j \<noteq> m"
    using irq_pending_clear [OF wf cfg m(2)] by simp
  moreover have "plic_wf c (plic ?s)" using wf i by simp
  ultimately show ?thesis using m(3) by blast
qed

lemma run_hart_raises:
  assumes "plic_wf c (plic s)" "h < NumberCores c" "\<not> hart_eip (plic s) ! h"
    and "i < NumberInterrupts c" "0 < i" "eligible (plic s) h True i"
  shows "plic_run_hart c e h s = pe_trigger_external_interrupt e h
    (part_upd (pe_part e) (hart_eip_update (\<lambda>xs. xs[h := True])) s)"
proof -
  obtain m where m: "hart_get_next_pending_interrupt c e h True s = (Inr m, s)"
    "is_next (plic s) h True {1..<NumberInterrupts c} m"
    using next_interrupt [OF assms(1,2)] by blast
  have "0 < m" using m(2) assms(4-6) by (force simp: is_next_def split: if_splits)
  with m(1) assms(3) show ?thesis
    by (simp add: plic_run_hart_def hart_has_pending_enabled_interrupts_def when_m_def bind_m_apply [of "bind_m _ _"]
        bind_m_apply [of "hart_get_next_pending_interrupt _ _ _ _"])
qed

lemma run_hart_quiet:
  assumes "plic_wf c (plic s)" "h < NumberCores c" "\<forall>i\<in>{1..<NumberInterrupts c}. \<not> eligible (plic s) h True i"
  shows "plic_run_hart c e h s = (Inr (), s)"
proof -
  obtain m where m: "hart_get_next_pending_interrupt c e h True s = (Inr m, s)"
    "is_next (plic s) h True {1..<NumberInterrupts c} m"
    using next_interrupt [OF assms(1,2)] by blast
  have "m = 0" using m(2) assms(3) by (auto simp: is_next_def)
  with m(1) show ?thesis
    by (simp add: plic_run_hart_def hart_has_pending_enabled_interrupts_def when_m_def bind_m_apply [of "bind_m _ _"]
        bind_m_apply [of "hart_get_next_pending_interrupt _ _ _ _"])
qed

end

end
