(* ===== verification/Gpio.thy ===== *)
theory Gpio
  imports Tlm_Map
begin

text \<open>
  The GPIO controller (\<^verbatim>\<open>platform/hifive/gpio.cpp\<close>). The state of the pins seen by the outside,
  \<^verbatim>\<open>server.state\<close>, is part of the record; the server thread changes it through \<^verbatim>\<open>asyncOnchange\<close> while the
  simulation thread may be inside \<^verbatim>\<open>synchronousChange\<close>. Calls of the server thread that arrive between
  the snapshot of a round of \<^verbatim>\<open>synchronousChange\<close> and the comparison at its end are an argument, one
  list of calls per round. The interrupt gateway (the PLIC) is an argument.
\<close>

section \<open>State\<close>

record GPIO =
  gp_value :: u32
  gp_input_en :: u32
  gp_output_en :: u32
  gp_port :: u32
  gp_pullup_en :: u32
  gp_pin_drive_strength :: u32
  rise_intr_en :: u32
  rise_intr_pending :: u32
  fall_intr_en :: u32
  fall_intr_pending :: u32
  high_intr_en :: u32
  high_intr_pending :: u32
  low_intr_en :: u32
  low_intr_pending :: u32
  iof_en :: u32
  iof_sel :: u32
  out_xor :: u32
  server_state :: u64
  gp_asyncEvent :: bool

definition GPIO_make :: "u64 \<Rightarrow> GPIO" where
  "GPIO_make st = \<lparr>gp_value = 0, gp_input_en = 0, gp_output_en = 0, gp_port = 0, gp_pullup_en = 0,
     gp_pin_drive_strength = 0, rise_intr_en = 0, rise_intr_pending = - 1, fall_intr_en = 0, fall_intr_pending = - 1,
     high_intr_en = 0, high_intr_pending = - 1, low_intr_en = 0, low_intr_pending = - 1, iof_en = 0, iof_sel = 0,
     out_xor = 0, server_state = st, gp_asyncEvent = False\<rparr>"

abbreviation (input) PIN_VALUE_ADDR :: u64 where "PIN_VALUE_ADDR \<equiv> 0x000"
abbreviation (input) PORT_REG_ADDR :: u64 where "PORT_REG_ADDR \<equiv> 0x00C"
abbreviation (input) PULLUP_EN_ADDR :: u64 where "PULLUP_EN_ADDR \<equiv> 0x010"

definition gpio_bank :: "GPIO reg_mapping_t list" where
  "gpio_bank =
    [reg PIN_VALUE_ADDR gp_value gp_value_update,
     reg 0x004 gp_input_en gp_input_en_update,
     reg 0x008 gp_output_en gp_output_en_update,
     reg PORT_REG_ADDR gp_port gp_port_update,
     reg PULLUP_EN_ADDR gp_pullup_en gp_pullup_en_update,
     reg 0x014 gp_pin_drive_strength gp_pin_drive_strength_update,
     reg 0x018 rise_intr_en rise_intr_en_update,
     reg 0x01C rise_intr_pending rise_intr_pending_update,
     reg 0x020 fall_intr_en fall_intr_en_update,
     reg 0x024 fall_intr_pending fall_intr_pending_update,
     reg 0x028 high_intr_en high_intr_en_update,
     reg 0x02C high_intr_pending high_intr_pending_update,
     reg 0x030 low_intr_en low_intr_en_update,
     reg 0x034 low_intr_pending low_intr_pending_update,
     reg 0x038 iof_en iof_en_update,
     reg 0x03C iof_sel iof_sel_update,
     reg 0x040 out_xor out_xor_update]"

section \<open>Register access\<close>

definition gpio_port_written :: "GPIO \<Rightarrow> GPIO" where
  "gpio_port_written g = g\<lparr>
     gp_value := (gp_value g AND NOT (gp_output_en g)) OR (gp_port g AND gp_output_en g),
     server_state := (server_state g AND ucast (NOT (gp_output_en g))) OR ucast (gp_port g AND gp_output_en g)\<rparr>"

definition gpio_pullup_written :: "u32 \<Rightarrow> GPIO \<Rightarrow> GPIO" where
  "gpio_pullup_written reg_bak g = g\<lparr>
     gp_value := gp_value g OR (reg_bak XOR gp_pullup_en g),
     server_state := server_state g OR ucast (reg_bak XOR gp_pullup_en g)\<rparr>"

definition gpio_register_access_callback :: "(GPIO, 's) part \<Rightarrow> ('v, 's) reg_handler" where
  "gpio_register_access_callback p r t fn =
     (if ra_write r \<and> ra_vptr r = PIN_VALUE_ADDR then return_m t
      else bind_m (gets_at p (\<lambda>g. if ra_write r \<and> ra_vptr r = PULLUP_EN_ADDR then gp_pullup_en g else 0)) (\<lambda>reg_bak.
        bind_m fn (\<lambda>t'.
          then_m (if ra_write r \<and> ra_vptr r = PORT_REG_ADDR then modify_at p gpio_port_written
            else if ra_write r \<and> ra_vptr r = PULLUP_EN_ADDR then modify_at p (gpio_pullup_written reg_bak)
            else return_m ())
          (return_m t'))))"

definition gpio_transport :: "(GPIO, 's) part \<Rightarrow> ('v, 's) target" where
  "gpio_transport p = router_transport ''GPIO''
     [RegisterMapping (map (reg_at p) gpio_bank) (gpio_register_access_callback p)]"

section \<open>Changes of the pins\<close>

definition asyncOnchange :: "nat \<Rightarrow> u8 \<Rightarrow> GPIO \<Rightarrow> GPIO" where
  "asyncOnchange n val g =
     (let mask = push_bit n 1 :: u64 in
      if drop_bit n (server_state g AND mask) = ucast val then g
      else if val = 0 then g\<lparr>server_state := server_state g AND NOT mask, gp_asyncEvent := True\<rparr>
      else if val = 1 then g\<lparr>server_state := server_state g OR mask, gp_asyncEvent := True\<rparr>
      else g)"

definition async_calls :: "(nat \<times> u8) list \<Rightarrow> GPIO \<Rightarrow> GPIO" where
  "async_calls cs g = fold (\<lambda>(n, val). asyncOnchange n val) cs g"

definition sync_bit ::
  "(GPIO, 's) part \<Rightarrow> (u32 \<Rightarrow> ('s, unit) smonad) \<Rightarrow> u32 \<Rightarrow> u64 \<Rightarrow> u32 \<Rightarrow> nat \<Rightarrow> ('s, unit) smonad" where
  "sync_bit p gateway_trigger_interrupt int_gpio_base serverSnapshot diff i =
     (let mask = push_bit i 1 :: u32 in
      when_m (diff AND mask \<noteq> 0)
       (bind_m (gets_at p (\<lambda>g. g)) (\<lambda>g.
         if serverSnapshot AND push_bit i 1 \<noteq> 0 then
           when_m (rise_intr_en g AND mask \<noteq> 0 \<and> \<not> NOT (rise_intr_pending g) AND mask \<noteq> 0)
             (then_m (modify_at p (rise_intr_pending_update (\<lambda>x. x AND NOT mask)))
               (gateway_trigger_interrupt (int_gpio_base + word_of_nat i)))
         else
           when_m (fall_intr_en g AND mask \<noteq> 0 \<and> \<not> NOT (fall_intr_pending g) AND mask \<noteq> 0)
             (then_m (modify_at p (fall_intr_pending_update (\<lambda>x. x AND NOT mask)))
               (gateway_trigger_interrupt (int_gpio_base + word_of_nat i))))))"

fun sync_bits ::
  "(GPIO, 's) part \<Rightarrow> (u32 \<Rightarrow> ('s, unit) smonad) \<Rightarrow> u32 \<Rightarrow> u64 \<Rightarrow> u32 \<Rightarrow> nat list \<Rightarrow> ('s, unit) smonad" where
    "sync_bits p trig base snap diff [] = return_m ()"
  | "sync_bits p trig base snap diff (i # is) =
       then_m (sync_bit p trig base snap diff i) (sync_bits p trig base snap diff is)"

fun synchronousChange ::
  "(GPIO, 's) part \<Rightarrow> (u32 \<Rightarrow> ('s, unit) smonad) \<Rightarrow> u32 \<Rightarrow> (nat \<times> u8) list list \<Rightarrow> ('s, unit) smonad" where
  "synchronousChange p trig base rounds = bind_m (gets_at p (\<lambda>g. g)) (\<lambda>g.
     let serverSnapshot = server_state g;
         diff = ucast ((serverSnapshot XOR ucast (gp_value g)) AND ucast (gp_input_en g)) in
     if diff = 0 then return_m ()
     else then_m (sync_bits p trig base serverSnapshot diff [0..<32])
       (then_m (modify_at p (\<lambda>g. g\<lparr>gp_value := ucast ((serverSnapshot AND ucast (gp_input_en g)) OR
            ucast (gp_port g AND gp_output_en g))\<rparr>))
       (case rounds of
          [] \<Rightarrow> return_m ()
        | cs # rest \<Rightarrow> then_m (modify_at p (async_calls cs))
            (bind_m (gets_at p server_state) (\<lambda>now.
              if serverSnapshot \<noteq> now then synchronousChange p trig base rest else return_m ())))))"

lemmas synchronousChange_unfold = synchronousChange.simps
declare synchronousChange.simps [simp del]

section \<open>Edges\<close>

interpretation gpio_regs: register_bank gpio_bank
  by unfold_locales (auto simp: gpio_bank_def)

text \<open>
  A pin whose bit differs between the server and the value register fires when its new level has an
  interrupt that is enabled and not already pending (the pending bits are inverted).
\<close>

definition rising :: "GPIO \<Rightarrow> u64 \<Rightarrow> u32 \<Rightarrow> nat \<Rightarrow> bool" where
  "rising g snap diff i \<longleftrightarrow> bit diff i \<and> bit snap i \<and> bit (rise_intr_en g) i \<and> bit (rise_intr_pending g) i"

definition falling :: "GPIO \<Rightarrow> u64 \<Rightarrow> u32 \<Rightarrow> nat \<Rightarrow> bool" where
  "falling g snap diff i \<longleftrightarrow> bit diff i \<and> \<not> bit snap i \<and> bit (fall_intr_en g) i \<and> bit (fall_intr_pending g) i"

definition pin_diff :: "GPIO \<Rightarrow> u32" where
  "pin_diff g = (ucast (server_state g) XOR gp_value g) AND gp_input_en g"

lemma pin_diff_eq: "ucast ((server_state g XOR ucast (gp_value g)) AND ucast (gp_input_en g)) = pin_diff g"
  by (rule bit_eqI) (auto simp: pin_diff_def bit_simps)

text \<open>
  What the controller relies on: the gateway accepts the interrupts of the 32 pins, records them and
  leaves the controller alone.
\<close>

locale gpio_system = part p for p :: "(GPIO, 's) part" +
  fixes trig :: "u32 \<Rightarrow> ('s, unit) smonad" and base :: u32 and I :: "'s \<Rightarrow> bool" and raised :: "'s \<Rightarrow> u32 set"
  assumes trig_ok: "I s \<Longrightarrow> i < 32 \<Longrightarrow> \<exists>s'. trig (base + word_of_nat i) s = (Inr (), s') \<and> I s' \<and>
      raised s' = insert (base + word_of_nat i) (raised s) \<and> part_get p s' = part_get p s"
    and frame: "I (part_upd p f s) = I s" "raised (part_upd p f s) = raised s"
begin

lemma sync_bit_effect:
  assumes "I s" "i < 32" "part_get p s = g"
  shows "\<exists>s'. sync_bit p trig base snap diff i s = (Inr (), s') \<and> I s' \<and>
    raised s' = raised s \<union> (if rising g snap diff i \<or> falling g snap diff i then {base + word_of_nat i} else {}) \<and>
    part_get p s' = g\<lparr>
      rise_intr_pending := if rising g snap diff i then rise_intr_pending g AND NOT (push_bit i 1) else rise_intr_pending g,
      fall_intr_pending := if falling g snap diff i then fall_intr_pending g AND NOT (push_bit i 1) else fall_intr_pending g\<rparr>"
proof -
  let ?up = "part_upd p (if rising g snap diff i then rise_intr_pending_update (\<lambda>x. x AND NOT (push_bit i 1))
    else fall_intr_pending_update (\<lambda>x. x AND NOT (push_bit i 1))) s"
  have not_bit: "bit (NOT w) i \<longleftrightarrow> \<not> bit w i" for w :: u32
    using assms(2) by (simp add: bit_simps)
  have excl: "\<not> (rising g snap diff i \<and> falling g snap diff i)" by (auto simp: rising_def falling_def)
  obtain s' where s': "trig (base + word_of_nat i) ?up = (Inr (), s')" "I s'"
    "raised s' = insert (base + word_of_nat i) (raised s)" "part_get p s' = part_get p ?up"
    using trig_ok [of ?up i] assms frame by auto
  have "sync_bit p trig base snap diff i s =
    (if rising g snap diff i \<or> falling g snap diff i then (Inr (), s') else (Inr (), s))"
    using s'(1) assms(3)
    by (auto simp: sync_bit_def Let_def when_m_def rising_def falling_def and_exp_eq_0_iff_not_bit not_bit split: if_splits)
  then show ?thesis using s' assms excl by (auto split: if_splits)
qed

lemma sync_bits_effect:
  assumes "I s" "distinct is" "set is \<subseteq> {..<32}" "part_get p s = g"
  shows "\<exists>s' r f. sync_bits p trig base snap diff is s = (Inr (), s') \<and> I s' \<and>
    raised s' = raised s \<union> {base + word_of_nat i | i. i \<in> set is \<and> (rising g snap diff i \<or> falling g snap diff i)} \<and>
    part_get p s' = g\<lparr>rise_intr_pending := r, fall_intr_pending := f\<rparr> \<and>
    (\<forall>k. bit r k \<longleftrightarrow> bit (rise_intr_pending g) k \<and> \<not> (k \<in> set is \<and> rising g snap diff k)) \<and>
    (\<forall>k. bit f k \<longleftrightarrow> bit (fall_intr_pending g) k \<and> \<not> (k \<in> set is \<and> falling g snap diff k))"
  using assms
proof (induction "is" arbitrary: s g)
  case Nil
  then show ?case
    by (intro exI [of _ s] exI [of _ "rise_intr_pending g"] exI [of _ "fall_intr_pending g"]) simp
next
  case (Cons i "is")
  obtain s1 where s1: "sync_bit p trig base snap diff i s = (Inr (), s1)" "I s1"
    "raised s1 = raised s \<union> (if rising g snap diff i \<or> falling g snap diff i then {base + word_of_nat i} else {})"
    "part_get p s1 = g\<lparr>
      rise_intr_pending := if rising g snap diff i then rise_intr_pending g AND NOT (push_bit i 1) else rise_intr_pending g,
      fall_intr_pending := if falling g snap diff i then fall_intr_pending g AND NOT (push_bit i 1) else fall_intr_pending g\<rparr>"
    using sync_bit_effect [of s i g snap diff] Cons.prems by auto
  let ?g = "part_get p s1"
  have keep: "rising ?g snap diff k \<longleftrightarrow> rising g snap diff k" "falling ?g snap diff k \<longleftrightarrow> falling g snap diff k"
    if "k \<noteq> i" for k
    using that by (auto simp: s1(4) rising_def falling_def bit_simps dest: bit_imp_le_length)
  obtain s' r f where s': "sync_bits p trig base snap diff is s1 = (Inr (), s')" "I s'"
    "raised s' = raised s1 \<union> {base + word_of_nat i | i. i \<in> set is \<and> (rising ?g snap diff i \<or> falling ?g snap diff i)}"
    "part_get p s' = ?g\<lparr>rise_intr_pending := r, fall_intr_pending := f\<rparr>"
    "\<forall>k. bit r k \<longleftrightarrow> bit (rise_intr_pending ?g) k \<and> \<not> (k \<in> set is \<and> rising ?g snap diff k)"
    "\<forall>k. bit f k \<longleftrightarrow> bit (fall_intr_pending ?g) k \<and> \<not> (k \<in> set is \<and> falling ?g snap diff k)"
    using Cons.IH [of s1 ?g] Cons.prems s1(2) by auto
  have i: "i < 32" "i \<notin> set is" using Cons.prems by auto
  have "k \<in> set is \<Longrightarrow> k \<noteq> i" for k using i by auto
  then have irqs: "{base + word_of_nat i | i. i \<in> set is \<and> (rising ?g snap diff i \<or> falling ?g snap diff i)} =
    {base + word_of_nat i | i. i \<in> set is \<and> (rising g snap diff i \<or> falling g snap diff i)}"
    using keep by blast
  have bits: "bit r k \<longleftrightarrow> bit (rise_intr_pending g) k \<and> \<not> (k \<in> set (i # is) \<and> rising g snap diff k)"
    "bit f k \<longleftrightarrow> bit (fall_intr_pending g) k \<and> \<not> (k \<in> set (i # is) \<and> falling g snap diff k)" for k
    using s'(5,6) keep [of k] i bit_imp_le_length [of "rise_intr_pending g" k] bit_imp_le_length [of "fall_intr_pending g" k]
    by (cases "k = i"; simp add: s1(4) bit_simps; blast)+
  have "sync_bits p trig base snap diff (i # is) s = (Inr (), s')"
    using s1(1) s'(1) by (simp add: then_m_apply)
  moreover have "raised s' = raised s \<union>
    {base + word_of_nat k | k. k \<in> set (i # is) \<and> (rising g snap diff k \<or> falling g snap diff k)}"
    unfolding s'(3) irqs s1(3) by auto
  ultimately show ?case using s'(2,4) bits s1(4) by auto
qed

text \<open>One round of \<^verbatim>\<open>synchronousChange\<close> with no calls of the server thread in between.\<close>

lemma synchronousChange_effect:
  assumes "I s" "part_get p s = g"
  shows "\<exists>s' r f. synchronousChange p trig base [] s = (Inr (), s') \<and> I s' \<and>
    raised s' = raised s \<union> {base + word_of_nat i | i. i < 32 \<and>
      (rising g (server_state g) (pin_diff g) i \<or> falling g (server_state g) (pin_diff g) i)} \<and>
    part_get p s' = (if pin_diff g = 0 then g
      else g\<lparr>rise_intr_pending := r, fall_intr_pending := f,
             gp_value := (ucast (server_state g) AND gp_input_en g) OR (gp_port g AND gp_output_en g)\<rparr>) \<and>
    (\<forall>k. bit r k \<longleftrightarrow> bit (rise_intr_pending g) k \<and> \<not> rising g (server_state g) (pin_diff g) k) \<and>
    (\<forall>k. bit f k \<longleftrightarrow> bit (fall_intr_pending g) k \<and> \<not> falling g (server_state g) (pin_diff g) k)"
proof (cases "pin_diff g = 0")
  case True
  then have "\<not> rising g snap (pin_diff g) k" "\<not> falling g snap (pin_diff g) k" for k snap
    by (simp_all add: rising_def falling_def)
  then show ?thesis using True assms
    by (auto simp: synchronousChange_unfold [of p trig base "[]"] pin_diff_eq Let_def)
next
  case False
  have new_value: "ucast ((server_state g AND ucast (gp_input_en g)) OR ucast (gp_port g AND gp_output_en g)) =
    ((ucast (server_state g) AND gp_input_en g) OR (gp_port g AND gp_output_en g) :: u32)"
    by (rule bit_eqI) (auto simp: bit_simps)
  have low: "i < 32" if "rising g snap (pin_diff g) i \<or> falling g snap (pin_diff g) i" for i snap
    using that bit_imp_le_length [of "pin_diff g" i] by (auto simp: rising_def falling_def)
  have pins: "set [0..<32] \<subseteq> {..<32 :: nat}" by auto
  obtain s1 r f where s1: "sync_bits p trig base (server_state g) (pin_diff g) [0..<32] s = (Inr (), s1)" "I s1"
    "raised s1 = raised s \<union> {base + word_of_nat i | i. i \<in> set [0..<32] \<and>
      (rising g (server_state g) (pin_diff g) i \<or> falling g (server_state g) (pin_diff g) i)}"
    "part_get p s1 = g\<lparr>rise_intr_pending := r, fall_intr_pending := f\<rparr>"
    "\<forall>k. bit r k \<longleftrightarrow> bit (rise_intr_pending g) k \<and> \<not> (k \<in> set [0..<32] \<and> rising g (server_state g) (pin_diff g) k)"
    "\<forall>k. bit f k \<longleftrightarrow> bit (fall_intr_pending g) k \<and> \<not> (k \<in> set [0..<32] \<and> falling g (server_state g) (pin_diff g) k)"
    using sync_bits_effect [OF assms(1) distinct_upt pins assms(2), of "server_state g" "pin_diff g"] by blast
  let ?s = "part_upd p (\<lambda>g'. g'\<lparr>gp_value := ucast ((server_state g AND ucast (gp_input_en g')) OR
    ucast (gp_port g' AND gp_output_en g'))\<rparr>) s1"
  have "synchronousChange p trig base [] s = (Inr (), ?s)"
    using False assms(2) s1(1)
    by (simp add: synchronousChange_unfold [of p trig base "[]"] pin_diff_eq Let_def then_m_apply [of "sync_bits _ _ _ _ _ _"])
  moreover have "part_get p ?s = g\<lparr>rise_intr_pending := r, fall_intr_pending := f,
      gp_value := (ucast (server_state g) AND gp_input_en g) OR (gp_port g AND gp_output_en g)\<rparr>"
    using s1(4) new_value by simp
  moreover have "\<forall>k. bit r k \<longleftrightarrow> bit (rise_intr_pending g) k \<and> \<not> rising g (server_state g) (pin_diff g) k"
    "\<forall>k. bit f k \<longleftrightarrow> bit (fall_intr_pending g) k \<and> \<not> falling g (server_state g) (pin_diff g) k"
    using s1(5,6) low by auto
  moreover have "I ?s" "raised ?s = raised s \<union> {base + word_of_nat i | i. i < 32 \<and>
      (rising g (server_state g) (pin_diff g) i \<or> falling g (server_state g) (pin_diff g) i)}"
    using s1(2,3) frame by auto
  ultimately show ?thesis using False by (simp only: if_False) blast
qed

end

end
