(* ===== verification/Uart.thy ===== *)
theory Uart
  imports Tlm_Map Clover
begin

text \<open>
  The UARTs: the FIFO and register core shared by the serial devices (\<^verbatim>\<open>platform/common/abstract_uart.cpp\<close>),
  the console (\<^verbatim>\<open>uart.cpp\<close>), the SLIP network device (\<^verbatim>\<open>slip.cpp\<close>), the UART that feeds symbolic input
  (\<^verbatim>\<open>platform/hifive/symbolic_uart.cpp\<close>) and the 16550 (\<^verbatim>\<open>uart16550.h\<close>). The core is used by three threads:
  the simulation thread accesses registers, the transmit thread empties the transmit FIFO and the
  receive thread fills the receive FIFO; semaphores count the filled and the free entries.
  \<^verbatim>\<open>uart_step\<close> interleaves the three threads at the granularity of their critical sections and
  semaphore operations. A semaphore is its counter; waiting on 0 blocks, so it has no step.
\<close>

section \<open>Registers of the core\<close>

record AbstractUART =
  ua_irq :: u32
  ua_txdata :: u32
  ua_rxdata :: u32
  ua_txctrl :: u32
  ua_rxctrl :: u32
  ua_ie :: u32
  ua_ip :: u32
  ua_div :: u32
  ua_asyncEvent :: bool
  ua_stop :: bool
  tx_fifo :: "u8 list"
  txfull :: nat
  rx_fifo :: "u8 list"
  rxempty :: nat

abbreviation (input) UART_FIFO_DEPTH :: nat where "UART_FIFO_DEPTH \<equiv> 8"
abbreviation (input) UART_TXWM :: u32 where "UART_TXWM \<equiv> 1"
abbreviation (input) UART_RXWM :: u32 where "UART_RXWM \<equiv> 2"
abbreviation (input) UART_FULL :: u32 where "UART_FULL \<equiv> push_bit 31 1"
abbreviation (input) TXDATA_REG_ADDR :: u64 where "TXDATA_REG_ADDR \<equiv> 0x0"
abbreviation (input) RXDATA_REG_ADDR :: u64 where "RXDATA_REG_ADDR \<equiv> 0x4"
abbreviation (input) TXCTRL_REG_ADDR :: u64 where "TXCTRL_REG_ADDR \<equiv> 0x8"
abbreviation (input) RXCTRL_REG_ADDR :: u64 where "RXCTRL_REG_ADDR \<equiv> 0xC"
abbreviation (input) IE_REG_ADDR :: u64 where "IE_REG_ADDR \<equiv> 0x10"
abbreviation (input) IP_REG_ADDR :: u64 where "IP_REG_ADDR \<equiv> 0x14"
abbreviation (input) DIV_REG_ADDR :: u64 where "DIV_REG_ADDR \<equiv> 0x18"

definition UART_CTRL_CNT :: "u32 \<Rightarrow> nat" where
  "UART_CTRL_CNT r = unat (drop_bit 16 r)"

definition AbstractUART_make :: "u32 \<Rightarrow> AbstractUART" where
  "AbstractUART_make irqsrc = \<lparr>ua_irq = irqsrc, ua_txdata = 0, ua_rxdata = 0, ua_txctrl = 0, ua_rxctrl = 0,
     ua_ie = 0, ua_ip = 0, ua_div = 0, ua_asyncEvent = False, ua_stop = False, tx_fifo = [], txfull = 0,
     rx_fifo = [], rxempty = UART_FIFO_DEPTH\<rparr>"

definition uart_bank :: "AbstractUART reg_mapping_t list" where
  "uart_bank =
    [reg TXDATA_REG_ADDR ua_txdata ua_txdata_update,
     reg RXDATA_REG_ADDR ua_rxdata ua_rxdata_update,
     reg TXCTRL_REG_ADDR ua_txctrl ua_txctrl_update,
     reg RXCTRL_REG_ADDR ua_rxctrl ua_rxctrl_update,
     reg IE_REG_ADDR ua_ie ua_ie_update,
     reg IP_REG_ADDR ua_ip ua_ip_update,
     reg DIV_REG_ADDR ua_div ua_div_update]"

section \<open>Critical sections\<close>

definition uart_read_txdata :: "AbstractUART \<Rightarrow> AbstractUART" where
  "uart_read_txdata u = u\<lparr>ua_txdata := if length (tx_fifo u) \<ge> UART_FIFO_DEPTH then UART_FULL else 0\<rparr>"

definition uart_read_rxdata :: "AbstractUART \<Rightarrow> AbstractUART" where
  "uart_read_rxdata u = (case rx_fifo u of
     [] \<Rightarrow> u\<lparr>ua_rxdata := push_bit 31 1\<rparr>
   | b # q \<Rightarrow> u\<lparr>ua_rxdata := ucast b, rx_fifo := q, rxempty := rxempty u + 1\<rparr>)"

definition uart_read_ip :: "AbstractUART \<Rightarrow> AbstractUART" where
  "uart_read_ip u = u\<lparr>ua_ip :=
     (if length (tx_fifo u) < UART_CTRL_CNT (ua_txctrl u) then UART_TXWM else 0) OR
     (if length (rx_fifo u) > UART_CTRL_CNT (ua_rxctrl u) then UART_RXWM else 0)\<rparr>"

definition uart_push_tx :: "AbstractUART \<Rightarrow> AbstractUART option" where
  "uart_push_tx u = (if length (tx_fifo u) \<ge> UART_FIFO_DEPTH then None
     else Some (u\<lparr>tx_fifo := tx_fifo u @ [ucast (ua_txdata u)]\<rparr>))"

definition spost_txfull :: "AbstractUART \<Rightarrow> AbstractUART" where
  "spost_txfull u = u\<lparr>txfull := txfull u + 1\<rparr>"

definition swait_txfull :: "AbstractUART \<Rightarrow> AbstractUART option" where
  "swait_txfull u = (if txfull u = 0 then None else Some (u\<lparr>txfull := txfull u - 1\<rparr>))"

definition spost_rxempty :: "AbstractUART \<Rightarrow> AbstractUART" where
  "spost_rxempty u = u\<lparr>rxempty := rxempty u + 1\<rparr>"

definition swait_rxempty :: "AbstractUART \<Rightarrow> AbstractUART option" where
  "swait_rxempty u = (if rxempty u = 0 then None else Some (u\<lparr>rxempty := rxempty u - 1\<rparr>))"

definition rxpush_locked :: "u8 \<Rightarrow> AbstractUART \<Rightarrow> AbstractUART" where
  "rxpush_locked data u = u\<lparr>rx_fifo := rx_fifo u @ [data], ua_asyncEvent := True\<rparr>"

definition uart_rxpush :: "u8 \<Rightarrow> AbstractUART \<Rightarrow> AbstractUART option" where
  "uart_rxpush data u = map_option (rxpush_locked data) (swait_rxempty u)"

section \<open>Register access\<close>

definition uart_notify_ctrl :: "register_access_t \<Rightarrow> AbstractUART \<Rightarrow> bool" where
  "uart_notify_ctrl r u \<longleftrightarrow> ra_write r \<and>
     (ra_vptr r = TXCTRL_REG_ADDR \<and> UART_CTRL_CNT (ra_nv r) < UART_CTRL_CNT (ua_txctrl u) \<or>
      ra_vptr r = RXCTRL_REG_ADDR \<and> UART_CTRL_CNT (ra_nv r) < UART_CTRL_CNT (ua_rxctrl u))"

definition uart_before_read :: "u64 \<Rightarrow> AbstractUART \<Rightarrow> AbstractUART" where
  "uart_before_read vptr u =
     (if vptr = TXDATA_REG_ADDR then uart_read_txdata u
      else if vptr = RXDATA_REG_ADDR then uart_read_rxdata u
      else if vptr = IP_REG_ADDR then uart_read_ip u
      else u)"

definition uart_after_txdata :: "AbstractUART \<Rightarrow> AbstractUART" where
  "uart_after_txdata u = (case uart_push_tx u of None \<Rightarrow> u | Some u' \<Rightarrow> spost_txfull u')"

definition uart_register_access_callback :: "(AbstractUART, 's) part \<Rightarrow> ('v, 's) reg_handler" where
  "uart_register_access_callback p r t fn =
     then_m (when_m (ra_read r) (modify_at p (uart_before_read (ra_vptr r))))
     (bind_m (gets_at p (uart_notify_ctrl r)) (\<lambda>notify.
       bind_m fn (\<lambda>t'.
         then_m (when_m (notify \<or> ra_write r \<and> ra_vptr r = IE_REG_ADDR) (modify_at p (ua_asyncEvent_update (\<lambda>_. True))))
         (then_m (when_m (ra_write r \<and> ra_vptr r = TXDATA_REG_ADDR) (modify_at p uart_after_txdata))
           (return_m t')))))"

definition uart_transport :: "(AbstractUART, 's) part \<Rightarrow> ('v, 's) target" where
  "uart_transport p = router_transport ''UART''
     [RegisterMapping (map (reg_at p) uart_bank) (uart_register_access_callback p)]"

section \<open>Interrupts\<close>

definition uart_trigger :: "AbstractUART \<Rightarrow> bool" where
  "uart_trigger u \<longleftrightarrow>
     ua_ie u AND UART_RXWM \<noteq> 0 \<and> length (rx_fifo u) > UART_CTRL_CNT (ua_rxctrl u) \<or>
     ua_ie u AND UART_TXWM \<noteq> 0 \<and> length (tx_fifo u) < UART_CTRL_CNT (ua_txctrl u)"

text \<open>The \<^verbatim>\<open>SC_METHOD\<close> runs when the event has been notified, and consumes the notification.\<close>

definition uart_interrupt ::
  "(AbstractUART, 's) part \<Rightarrow> (u32 \<Rightarrow> ('s, unit) smonad) \<Rightarrow> ('s, unit) smonad" where
  "uart_interrupt p gateway_trigger_interrupt =
     then_m (modify_at p (ua_asyncEvent_update (\<lambda>_. False)))
     (bind_m (gets_at p (\<lambda>u. u)) (\<lambda>u.
       when_m (uart_trigger u) (gateway_trigger_interrupt (ua_irq u))))"

section \<open>The three threads\<close>

datatype sim_pc = SimIdle | SimPost | Stopping | StopPostedTx | StopPostedRx
datatype tx_pc = TxLoop | TxWaited | TxGot | TxWrite u8 | TxDone
datatype rx_pc = RxPoll | RxPushing "u8 list" | RxWaited u8 "u8 list" | RxDone

record uart_config =
  uc_uart :: AbstractUART
  uc_sim :: sim_pc
  uc_tx :: tx_pc
  uc_rx :: rx_pc

datatype uart_event = Accepted u8 | Transmitted u8 | Arrived "u8 list" | Delivered u8 | Internal

definition fifo_access :: "'v payload \<Rightarrow> bool" where
  "fifo_access t \<longleftrightarrow> p_command t = TLM_WRITE_COMMAND \<and> p_address t - p_address t mod 4 = TXDATA_REG_ADDR \<or>
     p_command t = TLM_READ_COMMAND \<and> p_address t - p_address t mod 4 = RXDATA_REG_ADDR"

inductive uart_step :: "uart_config \<Rightarrow> uart_event \<Rightarrow> uart_config \<Rightarrow> bool" where
    sim_access: "uc_sim c = SimIdle \<Longrightarrow> \<not> fifo_access (t :: unit payload) \<Longrightarrow> uart_transport whole t (uc_uart c) = (Inr t', u) \<Longrightarrow>
      uart_step c Internal (c\<lparr>uc_uart := u\<rparr>)"
  | sim_read_empty: "uc_sim c = SimIdle \<Longrightarrow> rx_fifo (uc_uart c) = [] \<Longrightarrow>
      uart_step c Internal (c\<lparr>uc_uart := uart_read_rxdata (uc_uart c)\<rparr>)"
  | sim_read: "uc_sim c = SimIdle \<Longrightarrow> rx_fifo (uc_uart c) = b # q \<Longrightarrow>
      uart_step c (Delivered b) (c\<lparr>uc_uart := uart_read_rxdata (uc_uart c)\<rparr>)"
  | sim_write_full: "uc_sim c = SimIdle \<Longrightarrow> uart_push_tx ((uc_uart c)\<lparr>ua_txdata := v\<rparr>) = None \<Longrightarrow>
      uart_step c Internal (c\<lparr>uc_uart := (uc_uart c)\<lparr>ua_txdata := v\<rparr>\<rparr>)"
  | sim_write: "uc_sim c = SimIdle \<Longrightarrow> uart_push_tx ((uc_uart c)\<lparr>ua_txdata := v\<rparr>) = Some u \<Longrightarrow>
      uart_step c (Accepted (ucast v)) (c\<lparr>uc_uart := u, uc_sim := SimPost\<rparr>)"
  | sim_post: "uc_sim c = SimPost \<Longrightarrow>
      uart_step c Internal (c\<lparr>uc_uart := spost_txfull (uc_uart c), uc_sim := SimIdle\<rparr>)"
  | sim_interrupt: "uc_sim c = SimIdle \<Longrightarrow> ua_asyncEvent (uc_uart c) \<Longrightarrow>
      uart_step c Internal (c\<lparr>uc_uart := (uc_uart c)\<lparr>ua_asyncEvent := False\<rparr>\<rparr>)"
  | stop: "uc_sim c = SimIdle \<Longrightarrow>
      uart_step c Internal (c\<lparr>uc_uart := (uc_uart c)\<lparr>ua_stop := True\<rparr>, uc_sim := Stopping\<rparr>)"
  | stop_post_tx: "uc_sim c = Stopping \<Longrightarrow>
      uart_step c Internal (c\<lparr>uc_uart := spost_txfull (uc_uart c), uc_sim := StopPostedTx\<rparr>)"
  | stop_post_rx: "uc_sim c = StopPostedTx \<Longrightarrow> uc_tx c = TxDone \<Longrightarrow>
      uart_step c Internal (c\<lparr>uc_uart := spost_rxempty (uc_uart c), uc_sim := StopPostedRx\<rparr>)"
  | tx_leave: "uc_tx c = TxLoop \<Longrightarrow> ua_stop (uc_uart c) \<Longrightarrow> uart_step c Internal (c\<lparr>uc_tx := TxDone\<rparr>)"
  | tx_wait: "uc_tx c = TxLoop \<Longrightarrow> \<not> ua_stop (uc_uart c) \<Longrightarrow> swait_txfull (uc_uart c) = Some u \<Longrightarrow>
      uart_step c Internal (c\<lparr>uc_uart := u, uc_tx := TxWaited\<rparr>)"
  | tx_break: "uc_tx c = TxWaited \<Longrightarrow> ua_stop (uc_uart c) \<Longrightarrow> uart_step c Internal (c\<lparr>uc_tx := TxDone\<rparr>)"
  | tx_go: "uc_tx c = TxWaited \<Longrightarrow> \<not> ua_stop (uc_uart c) \<Longrightarrow> uart_step c Internal (c\<lparr>uc_tx := TxGot\<rparr>)"
  | tx_pop: "uc_tx c = TxGot \<Longrightarrow> tx_fifo (uc_uart c) = b # q \<Longrightarrow>
      uart_step c Internal (c\<lparr>uc_uart := (uc_uart c)\<lparr>tx_fifo := q, ua_asyncEvent := True\<rparr>, uc_tx := TxWrite b\<rparr>)"
  | tx_write: "uc_tx c = TxWrite b \<Longrightarrow> uart_step c (Transmitted b) (c\<lparr>uc_tx := TxLoop\<rparr>)"
  | rx_leave: "uc_rx c = RxPoll \<Longrightarrow> ua_stop (uc_uart c) \<Longrightarrow> uart_step c Internal (c\<lparr>uc_rx := RxDone\<rparr>)"
  | rx_input: "uc_rx c = RxPoll \<Longrightarrow> \<not> ua_stop (uc_uart c) \<Longrightarrow>
      uart_step c (Arrived bs) (c\<lparr>uc_rx := RxPushing bs\<rparr>)"
  | rx_next: "uc_rx c = RxPushing [] \<Longrightarrow> uart_step c Internal (c\<lparr>uc_rx := RxPoll\<rparr>)"
  | rx_wait: "uc_rx c = RxPushing (b # bs) \<Longrightarrow> swait_rxempty (uc_uart c) = Some u \<Longrightarrow>
      uart_step c Internal (c\<lparr>uc_uart := u, uc_rx := RxWaited b bs\<rparr>)"
  | rx_push: "uc_rx c = RxWaited b bs \<Longrightarrow>
      uart_step c Internal (c\<lparr>uc_uart := rxpush_locked b (uc_uart c), uc_rx := RxPushing bs\<rparr>)"

definition uart_start :: "u32 \<Rightarrow> uart_config" where
  "uart_start irqsrc = \<lparr>uc_uart = AbstractUART_make irqsrc, uc_sim = SimIdle, uc_tx = TxLoop, uc_rx = RxPoll\<rparr>"

inductive uart_run :: "u32 \<Rightarrow> uart_event list \<Rightarrow> uart_config \<Rightarrow> bool" for irqsrc where
    start: "uart_run irqsrc [] (uart_start irqsrc)"
  | more: "uart_run irqsrc es c \<Longrightarrow> uart_step c e c' \<Longrightarrow> uart_run irqsrc (es @ [e]) c'"

section \<open>Register accesses and the FIFOs\<close>

interpretation uart_regs: register_bank uart_bank
  by unfold_locales (auto simp: uart_bank_def)

interpretation uart_whole: mapped_bank whole uart_bank
  by unfold_locales

definition fifo_part :: "AbstractUART \<Rightarrow> u8 list \<times> nat \<times> u8 list \<times> nat \<times> bool" where
  "fifo_part u = (tx_fifo u, txfull u, rx_fifo u, rxempty u, ua_stop u)"

lemma bank_vput_fifo: "r \<in> set uart_bank \<Longrightarrow> fifo_part (rm_vput r v u) = fifo_part u"
  by (auto simp: uart_bank_def fifo_part_def)

lemma sim_access_fifo:
  assumes "uart_transport whole t u = (Inr t', u')" "\<not> fifo_access t"
  shows "fifo_part u' = fifo_part u"
proof -
  obtain r where r: "r \<in> set uart_bank" "rm_addr r = p_address t - p_address t mod 4"
    "uart_register_access_callback whole (access_of r t) t (register_fn (reg_at whole r) t) u = (Inr t', u')"
    using router_register_access [OF assms(1) [unfolded uart_transport_def]] .
  let ?u = "if p_command t = TLM_READ_COMMAND then uart_before_read (rm_addr r) u else u"
  obtain x u1 where u1: "register_fn (reg_at whole r) t ?u = (x, u1)" by fastforce
  have before: "fifo_part ?u = fifo_part u"
    using assms(2) r(2) by (auto simp: fifo_access_def uart_before_read_def uart_read_txdata_def uart_read_ip_def fifo_part_def)
  have "fifo_part u1 = fifo_part ?u"
    using register_fn_state [OF u1] bank_vput_fifo [OF r(1)] by (auto simp: reg_at_def)
  moreover have "fifo_part u' = fifo_part u1"
    using r(3) u1 assms(2) r(2)
    by (auto simp: uart_register_access_callback_def access_of_def when_m_def fifo_access_def fifo_part_def
        bind_m_apply [of "register_fn _ _"] split: sum.splits if_splits)
  ultimately show ?thesis using before by simp
qed

section \<open>Semaphores and FIFOs agree\<close>

definition tx_token :: "uart_config \<Rightarrow> nat" where
  "tx_token c = (case uc_tx c of TxWaited \<Rightarrow> 1 | TxGot \<Rightarrow> 1 | _ \<Rightarrow> 0) + (if uc_sim c = SimPost then 1 else 0)"

definition rx_token :: "uart_config \<Rightarrow> nat" where
  "rx_token c = (case uc_rx c of RxWaited b bs \<Rightarrow> 1 | _ \<Rightarrow> 0)"

definition uart_inv :: "uart_config \<Rightarrow> bool" where
  "uart_inv c \<longleftrightarrow> (let u = uc_uart c in
     length (tx_fifo u) \<le> UART_FIFO_DEPTH \<and>
     (ua_stop u \<longleftrightarrow> uc_sim c \<in> {Stopping, StopPostedTx, StopPostedRx}) \<and>
     (\<not> ua_stop u \<longrightarrow> length (tx_fifo u) = txfull u + tx_token c) \<and>
     (uc_tx c = TxGot \<longrightarrow> tx_fifo u \<noteq> []) \<and>
     length (rx_fifo u) + rxempty u + rx_token c = UART_FIFO_DEPTH + (if uc_sim c = StopPostedRx then 1 else 0))"

lemmas uart_section_defs = uart_read_rxdata_def uart_push_tx_def spost_txfull_def swait_txfull_def spost_rxempty_def
  swait_rxempty_def rxpush_locked_def

lemma uart_inv_start: "uart_inv (uart_start irqsrc)"
  by (simp add: uart_inv_def uart_start_def AbstractUART_make_def tx_token_def rx_token_def)

lemma uart_inv_step: "uart_step c e c' \<Longrightarrow> uart_inv c \<Longrightarrow> uart_inv c'"
proof (induction rule: uart_step.induct)
  case (sim_access c t t' u)
  then have "fifo_part u = fifo_part (uc_uart c)" by (intro sim_access_fifo)
  with sim_access(4) show ?case by (simp add: uart_inv_def fifo_part_def Let_def tx_token_def rx_token_def)
qed (auto simp: uart_inv_def Let_def tx_token_def rx_token_def uart_section_defs
      split: if_splits list.splits tx_pc.splits rx_pc.splits)

lemma uart_run_inv: "uart_run irqsrc es c \<Longrightarrow> uart_inv c"
  by (induction rule: uart_run.induct) (auto simp: uart_inv_start intro: uart_inv_step)

section \<open>The FIFOs are channels\<close>

definition accepted :: "uart_event list \<Rightarrow> u8 list" where
  "accepted es = concat (map (\<lambda>e. case e of Accepted b \<Rightarrow> [b] | _ \<Rightarrow> []) es)"

definition transmitted :: "uart_event list \<Rightarrow> u8 list" where
  "transmitted es = concat (map (\<lambda>e. case e of Transmitted b \<Rightarrow> [b] | _ \<Rightarrow> []) es)"

definition arrived :: "uart_event list \<Rightarrow> u8 list" where
  "arrived es = concat (map (\<lambda>e. case e of Arrived bs \<Rightarrow> bs | _ \<Rightarrow> []) es)"

definition delivered :: "uart_event list \<Rightarrow> u8 list" where
  "delivered es = concat (map (\<lambda>e. case e of Delivered b \<Rightarrow> [b] | _ \<Rightarrow> []) es)"

lemmas uart_trace_defs = accepted_def transmitted_def arrived_def delivered_def

definition tx_in_flight :: "uart_config \<Rightarrow> u8 list" where
  "tx_in_flight c = (case uc_tx c of TxWrite b \<Rightarrow> [b] | _ \<Rightarrow> []) @ tx_fifo (uc_uart c)"

definition rx_in_flight :: "uart_config \<Rightarrow> u8 list" where
  "rx_in_flight c = rx_fifo (uc_uart c) @ (case uc_rx c of RxPushing bs \<Rightarrow> bs | RxWaited b bs \<Rightarrow> b # bs | _ \<Rightarrow> [])"

lemma uart_step_channels:
  assumes "uart_step c e c'"
  shows "tx_in_flight c @ accepted [e] = transmitted [e] @ tx_in_flight c'"
    and "rx_in_flight c @ arrived [e] = delivered [e] @ rx_in_flight c'"
  using assms
proof (induction rule: uart_step.induct)
  case (sim_access c t t' u)
  then have "fifo_part u = fifo_part (uc_uart c)" by (intro sim_access_fifo)
  then show "tx_in_flight c @ accepted [Internal] = transmitted [Internal] @ tx_in_flight (c\<lparr>uc_uart := u\<rparr>)"
    and "rx_in_flight c @ arrived [Internal] = delivered [Internal] @ rx_in_flight (c\<lparr>uc_uart := u\<rparr>)"
    by (simp_all add: fifo_part_def tx_in_flight_def rx_in_flight_def uart_trace_defs)
qed (auto simp: tx_in_flight_def rx_in_flight_def uart_trace_defs uart_section_defs
      split: if_splits list.splits)

lemma trace_snoc:
  "accepted (es @ [e]) = accepted es @ accepted [e]" "transmitted (es @ [e]) = transmitted es @ transmitted [e]"
  "arrived (es @ [e]) = arrived es @ arrived [e]" "delivered (es @ [e]) = delivered es @ delivered [e]"
  by (simp_all add: uart_trace_defs)

lemma uart_run_channels:
  assumes "uart_run irqsrc es c"
  shows "accepted es = transmitted es @ tx_in_flight c" and "arrived es = delivered es @ rx_in_flight c"
  using assms
proof (induction rule: uart_run.induct)
  case start
  show "accepted [] = transmitted [] @ tx_in_flight (uart_start irqsrc)"
    "arrived [] = delivered [] @ rx_in_flight (uart_start irqsrc)"
    by (simp_all add: uart_trace_defs tx_in_flight_def rx_in_flight_def uart_start_def AbstractUART_make_def)
next
  case (more es c e c')
  show "accepted (es @ [e]) = transmitted (es @ [e]) @ tx_in_flight c'"
    using more.IH(1) uart_step_channels(1) [OF more.hyps(2)] by (simp only: trace_snoc append_assoc)
  show "arrived (es @ [e]) = delivered (es @ [e]) @ rx_in_flight c'"
    using more.IH(2) uart_step_channels(2) [OF more.hyps(2)] by (simp only: trace_snoc append_assoc)
qed

text \<open>The transmit thread always has a byte to take once the semaphore let it through.\<close>

lemma tx_pop_enabled:
  assumes "uart_run irqsrc es c" "uc_tx c = TxGot"
  shows "\<exists>b c'. uart_step c Internal c' \<and> uc_tx c' = TxWrite b"
proof -
  have "tx_fifo (uc_uart c) \<noteq> []" using uart_run_inv [OF assms(1)] assms(2) by (simp add: uart_inv_def Let_def)
  then obtain b q where "tx_fifo (uc_uart c) = b # q" by (cases "tx_fifo (uc_uart c)") auto
  with uart_step.tx_pop [OF assms(2) this] show ?thesis by fastforce
qed

end
