(* ===== verification/Serial_Devices.thy ===== *)
theory Serial_Devices
  imports Uart
begin

text \<open>
  The devices behind the UART core: the console (\<^verbatim>\<open>platform/common/uart.cpp\<close>), the SLIP network device
  (\<^verbatim>\<open>platform/common/slip.cpp\<close>), the UART with symbolic input (\<^verbatim>\<open>platform/hifive/symbolic_uart.cpp\<close>) with its
  input format (\<^verbatim>\<open>symex/symbolic_format.cpp\<close>), and the 16550 (\<^verbatim>\<open>platform/common/uart16550.h\<close>). What a system
  call returns is an argument: \<open>None\<close> for the result -1. A failing \<^verbatim>\<open>realloc\<close> is not modelled.
\<close>

section \<open>Console\<close>

datatype uart_state = STATE_COMMAND | STATE_NORMAL

datatype console_action = Push "u8 list" | ExitSuccess

abbreviation (input) KEY_ESC :: u8 where "KEY_ESC \<equiv> 1"
abbreviation (input) KEY_EXIT :: u8 where "KEY_EXIT \<equiv> 24"

definition console_handle_cmd :: "u8 \<Rightarrow> console_action" where
  "console_handle_cmd cmd = (if cmd = KEY_ESC then Push [cmd] else if cmd = KEY_EXIT then ExitSuccess else Push [])"

definition system_error :: error where "system_error = RuntimeError ''std::system_error''"

definition console_handle_input :: "u8 list option \<Rightarrow> uart_state \<Rightarrow> error + console_action \<times> uart_state" where
  "console_handle_input got st = (case got of
     None \<Rightarrow> Inl system_error
   | Some [buf] \<Rightarrow>
       Inr (case st of STATE_NORMAL \<Rightarrow> Push [buf] | STATE_COMMAND \<Rightarrow> console_handle_cmd buf,
            if buf = KEY_ESC \<and> st \<noteq> STATE_COMMAND then STATE_COMMAND else STATE_NORMAL)
   | Some _ \<Rightarrow> Inl (RuntimeError ''short read''))"

definition console_write_data :: "nat option \<Rightarrow> u8 \<Rightarrow> error + u8" where
  "console_write_data nwritten data = (case nwritten of
     None \<Rightarrow> Inl system_error
   | Some n \<Rightarrow> if n \<noteq> 1 then Inl (RuntimeError ''short write'') else Inr data)"

section \<open>SLIP\<close>

abbreviation (input) SLIP_END :: u8 where "SLIP_END \<equiv> 0xC0"
abbreviation (input) SLIP_ESC :: u8 where "SLIP_ESC \<equiv> 0xDB"
abbreviation (input) SLIP_ESC_END :: u8 where "SLIP_ESC_END \<equiv> 0xDC"
abbreviation (input) SLIP_ESC_ESC :: u8 where "SLIP_ESC_ESC \<equiv> 0xDD"
abbreviation (input) SLIP_SNDBUF_STEP :: nat where "SLIP_SNDBUF_STEP \<equiv> 1500"

text \<open>The first \<^verbatim>\<open>sndsiz\<close> bytes of the send buffer, its allocated size, and the packets written to the tunnel.\<close>

record SLIP =
  sndbuf :: "u8 list"
  sndcap :: nat
  tun_packets :: "u8 list list"

definition SLIP_make :: SLIP where
  "SLIP_make = \<lparr>sndbuf = [], sndcap = SLIP_SNDBUF_STEP, tun_packets = []\<rparr>"

definition slip_escape :: "u8 \<Rightarrow> u8 list" where
  "slip_escape b = (if b = SLIP_END then [SLIP_ESC, SLIP_ESC_END]
     else if b = SLIP_ESC then [SLIP_ESC, SLIP_ESC_ESC] else [b])"

definition slip_handle_input :: "u8 list option \<Rightarrow> error + u8 list" where
  "slip_handle_input got = (case got of
     None \<Rightarrow> Inl system_error
   | Some rcvbuf \<Rightarrow> Inr (concat (map slip_escape rcvbuf) @ [SLIP_END]))"

definition slip_send_packet :: "(u8 list \<Rightarrow> nat option) \<Rightarrow> SLIP \<Rightarrow> error + SLIP" where
  "slip_send_packet tun_write d = (case tun_write (sndbuf d) of
     None \<Rightarrow> Inl system_error
   | Some ret \<Rightarrow>
       if ret \<noteq> length (sndbuf d) then Inl (RuntimeError ''short write'')
       else Inr (d\<lparr>sndbuf := [], sndcap := if length (sndbuf d) > SLIP_SNDBUF_STEP then SLIP_SNDBUF_STEP else sndcap d,
                   tun_packets := tun_packets d @ [sndbuf d]\<rparr>))"

definition slip_store :: "u8 \<Rightarrow> SLIP \<Rightarrow> error + SLIP" where
  "slip_store data d =
     (let n = length (sndbuf d);
          cap = if n \<noteq> 0 \<and> n mod SLIP_SNDBUF_STEP = 0 then n + SLIP_SNDBUF_STEP else sndcap d in
      if \<not> n < cap then Inl (RuntimeError ''write past the send buffer'')
      else Inr (d\<lparr>sndbuf := sndbuf d @ [data], sndcap := cap\<rparr>))"

definition slip_write_data :: "(u8 list \<Rightarrow> nat option) \<Rightarrow> u8 \<Rightarrow> SLIP \<Rightarrow> error + SLIP" where
  "slip_write_data tun_write data d =
     (if data = SLIP_END then (if sndbuf d \<noteq> [] then slip_send_packet tun_write d else Inr d)
      else if sndbuf d \<noteq> [] \<and> last (sndbuf d) = SLIP_ESC \<and> data = SLIP_ESC_END
        then Inr (d\<lparr>sndbuf := butlast (sndbuf d) @ [SLIP_END]\<rparr>)
      else if sndbuf d \<noteq> [] \<and> last (sndbuf d) = SLIP_ESC \<and> data = SLIP_ESC_ESC
        then Inr (d\<lparr>sndbuf := butlast (sndbuf d) @ [SLIP_ESC]\<rparr>)
      else slip_store data d)"

fun slip_write_all :: "(u8 list \<Rightarrow> nat option) \<Rightarrow> u8 list \<Rightarrow> SLIP \<Rightarrow> error + SLIP" where
    "slip_write_all tun_write [] d = Inr d"
  | "slip_write_all tun_write (b # bs) d = (case slip_write_data tun_write b d of
       Inl e \<Rightarrow> Inl e
     | Inr d' \<Rightarrow> slip_write_all tun_write bs d')"

section \<open>Symbolic input format\<close>

text \<open>
  The decoded bencode data, and what the format reader uses of clover beside the operations on concolic
  values: fresh symbolic bytes, constants from bytes, and concatenation.
\<close>

datatype bencode = BString string | BInteger int | BList "bencode list" | BDict "(string \<times> bencode) list"

record 'v fmt_ops =
  fo_getSymbolicBytes :: "string \<Rightarrow> nat \<Rightarrow> 'v"
  fo_BVC :: "u8 list \<Rightarrow> 'v"
  fo_extract :: "'v \<Rightarrow> nat \<Rightarrow> nat \<Rightarrow> 'v"
  fo_concat :: "'v \<Rightarrow> 'v \<Rightarrow> 'v"
  fo_getWidth :: "'v \<Rightarrow> nat"

definition HAS_PADDING :: "u64 \<Rightarrow> bool" where
  "HAS_PADDING bitsize \<longleftrightarrow> bitsize mod 8 \<noteq> 0"

definition to_byte_size :: "u64 \<Rightarrow> u64" where
  "to_byte_size bitsize = (let rem = bitsize mod 8 in
     if rem = 0 then bitsize div 8 else ((bitsize - rem) + 8) div 8)"

text \<open>The bytes of a concrete value; \<open>Inr None\<close> is the null pointer the source returns for a bad element.\<close>

fun concrete_value :: "bencode list \<Rightarrow> error + u8 list option" where
    "concrete_value [] = Inr (Some [])"
  | "concrete_value (BString _ # l) =
       Inl (RuntimeError ''constrained symbolic fields not supported at the moment'')"
  | "concrete_value (BInteger i # l) = (if i < 0 \<or> i > 255 then Inr None
       else case concrete_value l of
         Inl e \<Rightarrow> Inl e
       | Inr None \<Rightarrow> Inr None
       | Inr (Some bs) \<Rightarrow> Inr (Some (word_of_int i # bs)))"
  | "concrete_value (_ # l) = Inr None"

definition fmt_get_value :: "'v fmt_ops \<Rightarrow> bencode list \<Rightarrow> string \<Rightarrow> u64 \<Rightarrow> error + 'v option" where
  "fmt_get_value ops list name bitsize =
     (let bytesize = unat (to_byte_size bitsize);
          cut = \<lambda>v. if HAS_PADDING bitsize then fo_extract ops v 0 (unat bitsize) else v in
      case concrete_value list of
        Inl e \<Rightarrow> Inl e
      | Inr None \<Rightarrow> Inr None
      | Inr (Some bs) \<Rightarrow>
          if list = [] then Inr (Some (cut (fo_getSymbolicBytes ops name bytesize)))
          else if length bs \<noteq> bytesize then Inr None
          else Inr (Some (cut (fo_BVC ops bs))))"

fun fmt_get_values :: "'v fmt_ops \<Rightarrow> bencode list \<Rightarrow> error + 'v list" where
    "fmt_get_values ops [] = Inr []"
  | "fmt_get_values ops (BList [BString name, BInteger sz, BList l] # elems) =
      (case fmt_get_value ops l name (word_of_int sz) of
         Inl e \<Rightarrow> Inl e
       | Inr None \<Rightarrow> Inl (RuntimeError ''invalid bencode value format'')
       | Inr (Some v) \<Rightarrow> (case fmt_get_values ops elems of Inl e \<Rightarrow> Inl e | Inr vs \<Rightarrow> Inr (v # vs)))"
  | "fmt_get_values ops (BList l # elems) = (if length l \<noteq> 3 then Inl (RuntimeError ''invalid bencode field'')
       else Inl (RuntimeError ''std::bad_variant_access''))"
  | "fmt_get_values ops (_ # elems) = Inl (RuntimeError ''std::bad_variant_access'')"

fun fmt_split :: "'v fmt_ops \<Rightarrow> 'v \<Rightarrow> nat \<Rightarrow> 'v list" where
  "fmt_split ops v off = (if off < 8 then [] else fo_extract ops v (off - 8) 8 # fmt_split ops v (off - 8))"

declare fmt_split.simps [simp del]

definition fmt_get_bytes :: "'v fmt_ops \<Rightarrow> bencode list \<Rightarrow> error + 'v list" where
  "fmt_get_bytes ops data = (case fmt_get_values ops data of
     Inl e \<Rightarrow> Inl e
   | Inr [] \<Rightarrow> Inr []
   | Inr (v # vs) \<Rightarrow>
       let concated = foldl (fo_concat ops) v vs; off = fo_getWidth ops concated in
       if off mod 8 \<noteq> 0 then Inl (AssertFail ''concated->getWidth() % CHAR_BIT == 0'')
       else if off < 8 then Inl (AssertFail ''off >= CHAR_BIT'')
       else Inr (fmt_split ops concated off))"

section \<open>SymbolicUART\<close>

record 'v SymbolicUART =
  su_irq :: u32
  su_txdata :: u32
  su_rxdata :: u32
  su_txctrl :: u32
  su_rxctrl :: u32
  su_ie :: u32
  su_ip :: u32
  su_div :: u32
  su_asyncEvent :: "u64 option"
  su_rx_fifo :: "'v list"

definition SymbolicUART_make :: "u32 \<Rightarrow> 'v list \<Rightarrow> 'v SymbolicUART" where
  "SymbolicUART_make irqsrc bytes = \<lparr>su_irq = irqsrc, su_txdata = 0, su_rxdata = 0, su_txctrl = 0, su_rxctrl = 0,
     su_ie = 0, su_ip = 0, su_div = 0, su_asyncEvent = None, su_rx_fifo = bytes\<rparr>"

definition sym_uart_bank :: "'v SymbolicUART reg_mapping_t list" where
  "sym_uart_bank =
    [reg TXDATA_REG_ADDR su_txdata su_txdata_update,
     reg RXDATA_REG_ADDR su_rxdata su_rxdata_update,
     reg TXCTRL_REG_ADDR su_txctrl su_txctrl_update,
     reg RXCTRL_REG_ADDR su_rxctrl su_rxctrl_update,
     reg IE_REG_ADDR su_ie su_ie_update,
     reg IP_REG_ADDR su_ip su_ip_update,
     reg DIV_REG_ADDR su_div su_div_update]"

text \<open>The state after the code before a read, and the symbolic value attached to the transaction.\<close>

definition sym_uart_before_read ::
  "('v, 'e) clover \<Rightarrow> u64 \<Rightarrow> 'v SymbolicUART \<Rightarrow> 'v SymbolicUART \<times> 'v option" where
  "sym_uart_before_read cv vptr u =
     (if vptr = TXDATA_REG_ADDR then (u\<lparr>su_txdata := 0\<rparr>, None)
      else if vptr = RXDATA_REG_ADDR then
        (case su_rx_fifo u of
           [] \<Rightarrow> (u\<lparr>su_rxdata := push_bit 31 1\<rparr>, None)
         | b # q \<Rightarrow>
             if su_ie u AND UART_RXWM = 0 then (u\<lparr>su_rxdata := push_bit 31 1\<rparr>, None)
             else let v = c_zext cv b 32 in (u\<lparr>su_rxdata := getValue cv v, su_rx_fifo := q\<rparr>, Some v))
      else if vptr = IP_REG_ADDR then
        (u\<lparr>su_ip := UART_TXWM OR (if length (su_rx_fifo u) > UART_CTRL_CNT (su_rxctrl u) then UART_RXWM else 0)\<rparr>, None)
      else (u, None))"

definition sym_uart_notify :: "register_access_t \<Rightarrow> 'v SymbolicUART \<Rightarrow> bool" where
  "sym_uart_notify r u \<longleftrightarrow> ra_write r \<and>
     (ra_vptr r = TXCTRL_REG_ADDR \<and> UART_CTRL_CNT (ra_nv r) < UART_CTRL_CNT (su_txctrl u) \<or>
      ra_vptr r = RXCTRL_REG_ADDR \<and> UART_CTRL_CNT (ra_nv r) < UART_CTRL_CNT (su_rxctrl u)) \<or>
     su_ie u AND UART_TXWM \<noteq> 0"

text \<open>100 ms in the resolution of the simulation time, 1 ps.\<close>

definition sym_uart_register_access_callback ::
  "('v, 'e) clover \<Rightarrow> ('v SymbolicUART, 's) part \<Rightarrow> ('v, 's) reg_handler" where
  "sym_uart_register_access_callback cv p r t fn = bind_m (gets_at p (\<lambda>u. u)) (\<lambda>u.
     let (u', ext) = (if ra_read r then sym_uart_before_read cv (ra_vptr r) u else (u, None)) in
     then_m (modify_at p (\<lambda>_. u'))
     (bind_m fn (\<lambda>t'.
       then_m (if ra_write r \<and> ra_vptr r = IE_REG_ADDR
           then modify_at p (su_asyncEvent_update (\<lambda>_. Some 100000000000))
         else when_m (sym_uart_notify r u') (modify_at p (su_asyncEvent_update (\<lambda>_. Some 0))))
       (return_m (case ext of None \<Rightarrow> t' | Some v \<Rightarrow> t'\<lparr>p_extension := Some v\<rparr>)))))"

definition sym_uart_transport :: "('v, 'e) clover \<Rightarrow> ('v SymbolicUART, 's) part \<Rightarrow> ('v, 's) target" where
  "sym_uart_transport cv p = router_transport ''SymbolicUART''
     [RegisterMapping (map (reg_at p) sym_uart_bank) (sym_uart_register_access_callback cv p)]"

definition sym_uart_trigger :: "'v SymbolicUART \<Rightarrow> bool" where
  "sym_uart_trigger u \<longleftrightarrow> su_ie u AND UART_RXWM \<noteq> 0 \<and> length (su_rx_fifo u) > UART_CTRL_CNT (su_rxctrl u) \<or>
     su_ie u AND UART_TXWM \<noteq> 0"

definition sym_uart_interrupt ::
  "('v SymbolicUART, 's) part \<Rightarrow> (u32 \<Rightarrow> ('s, unit) smonad) \<Rightarrow> ('s, unit) smonad" where
  "sym_uart_interrupt p gateway_trigger_interrupt =
     then_m (modify_at p (su_asyncEvent_update (\<lambda>_. None)))
     (bind_m (gets_at p (\<lambda>u. u)) (\<lambda>u.
       when_m (sym_uart_trigger u) (gateway_trigger_interrupt (su_irq u))))"

section \<open>UART16550\<close>

datatype read_result = ReadError | ReadEOF | ReadByte u8

record UART16550 =
  mm_regs :: RegisterRange
  n_rx_fifo :: "u8 list"
  initialized :: bool
  n_stdout :: "u8 list"

definition UART16550_make :: UART16550 where
  "UART16550_make = \<lparr>mm_regs = \<lparr>rr_start = 0, rr_end = 7, rr_mem = replicate 8 0, rr_readonly = False, rr_alignment = 1\<rparr>,
     n_rx_fifo = [], initialized = False, n_stdout = []\<rparr>"

text \<open>
  \<^verbatim>\<open>read\<close> on the non-blocking standard input; when it returns 0 the character pushed is the uninitialised
  variable, the argument \<open>uninit\<close>.
\<close>

definition try_receive_char :: "u8 \<Rightarrow> read_result \<Rightarrow> UART16550 \<Rightarrow> UART16550" where
  "try_receive_char uninit got u =
     (if n_rx_fifo u = [] then
        (case got of
           ReadError \<Rightarrow> u
         | ReadEOF \<Rightarrow> u\<lparr>n_rx_fifo := [uninit]\<rparr>
         | ReadByte c \<Rightarrow> u\<lparr>n_rx_fifo := [c]\<rparr>)
      else u)"

definition take_next_char :: "u8 \<Rightarrow> read_result \<Rightarrow> UART16550 \<Rightarrow> u8 \<times> UART16550" where
  "take_next_char uninit got u = (let u' = try_receive_char uninit got u in
     case n_rx_fifo u' of [] \<Rightarrow> (- 1, u') | c # q \<Rightarrow> (c, u'\<lparr>n_rx_fifo := q\<rparr>))"

definition read_if_empty ::
  "(UART16550, 's) part \<Rightarrow> ('s, read_result) smonad \<Rightarrow> ('s, read_result) smonad" where
  "read_if_empty p stdin_read = bind_m (gets_at p (\<lambda>u. n_rx_fifo u = [])) (\<lambda>b.
     if b then stdin_read else return_m ReadError)"

definition pre_read_regs ::
  "(UART16550, 's) part \<Rightarrow> u8 \<Rightarrow> ('s, read_result) smonad \<Rightarrow> u64 \<Rightarrow> nat \<Rightarrow> ('s, bool) smonad" where
  "pre_read_regs p uninit stdin_read addr len =
     then_m (if addr = 5 then bind_m (read_if_empty p stdin_read) (\<lambda>got. modify_at p (\<lambda>u.
         let u' = try_receive_char uninit got u;
             stat = if n_rx_fifo u' \<noteq> [] then 0x20 OR 0x01 else 0x20 in
         u'\<lparr>mm_regs := rr_mem_update (\<lambda>m. m[5 := stat]) (mm_regs u')\<rparr>))
       else if addr = 0 then bind_m (read_if_empty p stdin_read) (\<lambda>got. modify_at p (\<lambda>u.
         let (c, u') = take_next_char uninit got u in u'\<lparr>mm_regs := rr_mem_update (\<lambda>m. m[0 := c]) (mm_regs u')\<rparr>))
       else return_m ())
     (return_m True)"

text \<open>The byte written is the one in the register, where the access has just stored it.\<close>

definition post_write_regs :: "(UART16550, 's) part \<Rightarrow> u64 \<Rightarrow> nat \<Rightarrow> ('s, unit) smonad" where
  "post_write_regs p addr len = when_m (addr = 0) (modify_at p (\<lambda>u.
     let data = rr_mem (mm_regs u) ! 0 in
     if \<not> initialized u \<and> data = 0 then u\<lparr>initialized := True\<rparr>
     else u\<lparr>initialized := True, n_stdout := n_stdout u @ [data]\<rparr>))"

definition uart16550_transport ::
  "(UART16550, 's) part \<Rightarrow> u8 \<Rightarrow> ('s, read_result) smonad \<Rightarrow> ('v, 's) target" where
  "uart16550_transport p uninit stdin_read t = rr_route ''UART16550''
     [\<lparr>rp_get = \<lambda>s. mm_regs (part_get p s), rp_mem_update = \<lambda>f. part_upd p (mm_regs_update (rr_mem_update f)),
       pre_write_callback = None, post_write_callback = Some (post_write_regs p),
       pre_read_callback = Some (pre_read_regs p uninit stdin_read), post_read_callback = None\<rparr>] t"

section \<open>SLIP: framing\<close>

interpretation sym_uart_regs: register_bank sym_uart_bank
  by unfold_locales (auto simp: sym_uart_bank_def)

definition slip_wf :: "SLIP \<Rightarrow> bool" where
  "slip_wf d \<longleftrightarrow> sndcap d = SLIP_SNDBUF_STEP * max 1 ((length (sndbuf d) + SLIP_SNDBUF_STEP - 1) div SLIP_SNDBUF_STEP)"

lemma slip_wf_make: "slip_wf SLIP_make"
  by (simp add: slip_wf_def SLIP_make_def)

lemma slip_store_ok:
  assumes "slip_wf d"
  shows "\<exists>cap. slip_store data d = Inr (d\<lparr>sndbuf := sndbuf d @ [data], sndcap := cap\<rparr>) \<and>
    slip_wf (d\<lparr>sndbuf := sndbuf d @ [data], sndcap := cap\<rparr>)"
proof -
  define n where "n = length (sndbuf d)"
  have cap: "sndcap d = 1500 * max 1 ((n + 1499) div 1500)" using assms by (simp add: slip_wf_def n_def)
  show ?thesis
  proof (cases "n \<noteq> 0 \<and> n mod 1500 = 0")
    case True
    then obtain k where k: "n = 1500 * k" "k \<noteq> 0" by (auto elim: dvdE simp: dvd_eq_mod_eq_0 [symmetric])
    have "(n + 1500) div 1500 = k + 1" by (simp add: k)
    then show ?thesis using True k by (simp add: slip_store_def slip_wf_def n_def [symmetric] Let_def)
  next
    case False
    have "n < sndcap d \<and> 1500 * max 1 ((n + 1500) div 1500) = sndcap d"
    proof (cases "n = 0")
      case nz: False
      define k r where "k = n div 1500" and "r = n mod 1500"
      have q: "n = 1500 * k + r" "r < 1500" "0 < r" using False nz by (simp_all add: k_def r_def)
      have "(n + 1499) div 1500 = k + 1" using q by (intro div_nat_eqI) simp_all
      moreover have "(n + 1500) div 1500 = k + 1" using q by (intro div_nat_eqI) simp_all
      ultimately show ?thesis using q cap by simp
    qed (simp add: cap)
    then show ?thesis using False
      by (intro exI [of _ "sndcap d"]) (auto simp: slip_store_def slip_wf_def n_def [symmetric] Let_def add.commute)
  qed
qed

lemma slip_wf_replace: "slip_wf d \<Longrightarrow> sndbuf d \<noteq> [] \<Longrightarrow> slip_wf (d\<lparr>sndbuf := butlast (sndbuf d) @ [b]\<rparr>)"
  by (simp add: slip_wf_def)

lemma slip_send_ok:
  assumes "slip_wf d" and "tun_write (sndbuf d) = Some (length (sndbuf d))"
  shows "\<exists>d'. slip_send_packet tun_write d = Inr d' \<and> slip_wf d' \<and> sndbuf d' = [] \<and>
    tun_packets d' = tun_packets d @ [sndbuf d]"
proof -
  have "sndcap d = 1500" if "length (sndbuf d) \<le> 1500"
  proof -
    have "(1499 + length (sndbuf d)) div 1500 \<le> 1" using that by linarith
    then show ?thesis using assms(1) by (simp add: slip_wf_def max_def)
  qed
  then show ?thesis using assms(2) by (auto simp: slip_send_packet_def slip_wf_def)
qed

text \<open>
  No byte is ever stored behind the allocated buffer, whatever the guest sends, as long as the tunnel
  takes whole packets.
\<close>

lemma slip_write_data_ok:
  assumes "slip_wf d" and "\<And>pkt. tun_write pkt = Some (length pkt)"
  shows "\<exists>d'. slip_write_data tun_write b d = Inr d' \<and> slip_wf d'"
  using assms slip_store_ok [OF assms(1), of b] slip_send_ok [of d tun_write] slip_wf_replace [OF assms(1)]
  by (auto simp: slip_write_data_def)

lemma slip_write_all_ok:
  assumes "slip_wf d" and "\<And>pkt. tun_write pkt = Some (length pkt)"
  shows "\<exists>d'. slip_write_all tun_write bs d = Inr d' \<and> slip_wf d'"
  using assms(1)
proof (induction bs arbitrary: d)
  case (Cons b bs)
  obtain d' where "slip_write_data tun_write b d = Inr d'" "slip_wf d'"
    using slip_write_data_ok [OF Cons.prems assms(2)] by blast
  with Cons.IH show ?case by simp
qed simp

lemma slip_write_append:
  "slip_write_all w (xs @ ys) d = (case slip_write_all w xs d of Inl e \<Rightarrow> Inl e | Inr d' \<Rightarrow> slip_write_all w ys d')"
  by (induction xs arbitrary: d) (auto split: sum.splits)

text \<open>
  The decoder takes an escape character that is part of the data for the start of an escape sequence when
  one of the two codes follows; a packet is transparent if that does not happen in it.
\<close>

fun slip_transparent :: "u8 list \<Rightarrow> bool" where
    "slip_transparent (a # b # bs) \<longleftrightarrow>
       \<not> (a = SLIP_ESC \<and> (b = SLIP_ESC_END \<or> b = SLIP_ESC_ESC)) \<and> slip_transparent (b # bs)"
  | "slip_transparent _ \<longleftrightarrow> True"

lemma slip_transparent_snoc:
  "slip_transparent (bs @ [b]) \<longleftrightarrow> slip_transparent bs \<and>
     \<not> (bs \<noteq> [] \<and> last bs = SLIP_ESC \<and> (b = SLIP_ESC_END \<or> b = SLIP_ESC_ESC))"
  by (induction bs rule: slip_transparent.induct) auto

lemma slip_store_append:
  assumes "slip_wf d" "b \<noteq> SLIP_END"
    "\<not> (sndbuf d \<noteq> [] \<and> last (sndbuf d) = SLIP_ESC \<and> (b = SLIP_ESC_END \<or> b = SLIP_ESC_ESC))"
  shows "\<exists>cap. slip_write_data w b d = Inr (d\<lparr>sndbuf := sndbuf d @ [b], sndcap := cap\<rparr>) \<and>
    slip_wf (d\<lparr>sndbuf := sndbuf d @ [b], sndcap := cap\<rparr>)"
  using slip_store_ok [OF assms(1), of b] assms(2,3) by (auto simp: slip_write_data_def)

lemma slip_decode_escape:
  assumes "slip_wf d" "\<not> (sndbuf d \<noteq> [] \<and> last (sndbuf d) = SLIP_ESC \<and> (b = SLIP_ESC_END \<or> b = SLIP_ESC_ESC))"
  shows "\<exists>cap. slip_write_all w (slip_escape b) d = Inr (d\<lparr>sndbuf := sndbuf d @ [b], sndcap := cap\<rparr>) \<and>
    slip_wf (d\<lparr>sndbuf := sndbuf d @ [b], sndcap := cap\<rparr>)"
proof (cases "b = SLIP_END \<or> b = SLIP_ESC")
  case True
  obtain cap where cap: "slip_write_data w SLIP_ESC d = Inr (d\<lparr>sndbuf := sndbuf d @ [SLIP_ESC], sndcap := cap\<rparr>)"
    "slip_wf (d\<lparr>sndbuf := sndbuf d @ [SLIP_ESC], sndcap := cap\<rparr>)"
    using slip_store_append [OF assms(1), of SLIP_ESC w] by auto
  from True show ?thesis
  proof
    assume b: "b = SLIP_END"
    have "slip_wf (d\<lparr>sndbuf := sndbuf d @ [b], sndcap := cap\<rparr>)" using slip_wf_replace [OF cap(2), of b] by (simp add: slip_wf_def)
    then show ?thesis using cap
      by (intro exI [of _ cap]) (simp add: b slip_escape_def slip_write_data_def [of w "SLIP_ESC_END"])
  next
    assume b: "b = SLIP_ESC"
    then show ?thesis using cap
      by (intro exI [of _ cap]) (simp add: slip_escape_def slip_write_data_def [of w "SLIP_ESC_ESC"])
  qed
next
  case False
  then show ?thesis using slip_store_append [OF assms(1) _ assms(2), of w] by (auto simp: slip_escape_def)
qed

lemma slip_decode_encode:
  assumes "slip_transparent pkt" "slip_wf d" "sndbuf d = []"
  shows "\<exists>cap. slip_write_all w (concat (map slip_escape pkt)) d = Inr (d\<lparr>sndbuf := pkt, sndcap := cap\<rparr>) \<and>
    slip_wf (d\<lparr>sndbuf := pkt, sndcap := cap\<rparr>)"
  using assms(1)
proof (induction pkt rule: rev_induct)
  case Nil
  have "d\<lparr>sndbuf := [], sndcap := sndcap d\<rparr> = d" using assms(3) by simp
  with assms(2,3) show ?case by (intro exI [of _ "sndcap d"]) (simp add: slip_wf_def)
next
  case (snoc b pkt)
  let ?d = "\<lambda>cap. d\<lparr>sndbuf := pkt, sndcap := cap\<rparr>"
  obtain cap where cap: "slip_write_all w (concat (map slip_escape pkt)) d = Inr (?d cap)" "slip_wf (?d cap)"
    using snoc by (auto simp: slip_transparent_snoc)
  have "\<not> (sndbuf (?d cap) \<noteq> [] \<and> last (sndbuf (?d cap)) = SLIP_ESC \<and> (b = SLIP_ESC_END \<or> b = SLIP_ESC_ESC))"
    using snoc.prems by (simp add: slip_transparent_snoc)
  from slip_decode_escape [OF cap(2) this, of w] show ?case
    by (auto simp: slip_write_append cap(1))
qed

end
