(* ===== verification/Real_Clint.thy ===== *)
theory Real_Clint
  imports Clint Tlm_Map
begin

text \<open>
  The CLINT of the HiFive platform (\<^verbatim>\<open>core/common/real_clint.cpp\<close>), driven by the host's clock, and the
  timer it arms (\<^verbatim>\<open>core/common/timer.cpp\<close>). The host's clock is the argument \<open>rc_now\<close>: the microseconds since
  the construction of the CLINT. A timer is its running flag and the duration it was started with; its
  thread is the list of its sleeps, and when the thread has slept through, the callback notifies the
  event. The signals and joins that stop a thread are not modelled.
\<close>

section \<open>Timer\<close>

record Timer =
  t_running :: bool
  t_duration :: u64

definition Timer_make :: Timer where
  "Timer_make = \<lparr>t_running = False, t_duration = 0\<rparr>"

definition Timer_pause :: "Timer \<Rightarrow> Timer" where
  "Timer_pause t = t\<lparr>t_running := False\<rparr>"

definition Timer_start :: "u64 \<Rightarrow> Timer \<Rightarrow> Timer" where
  "Timer_start duration t = t\<lparr>t_running := True, t_duration := duration\<rparr>"

abbreviation (input) NS_MAX :: u64 where "NS_MAX \<equiv> 999999999"
abbreviation (input) US_MAX :: u64 where "US_MAX \<equiv> 999999"

function timer_sleeps :: "u64 \<Rightarrow> error + u64 list" where
  "timer_sleeps count =
     (if count > US_MAX then
        (case timer_sleeps (count - US_MAX) of Inl e \<Rightarrow> Inl e | Inr ns \<Rightarrow> Inr (NS_MAX # ns))
      else let ns = count * 1000 in
        if \<not> ns > count then Inl (AssertFail ''ns > count'')
        else if \<not> ns \<le> 0x7fffffffffffffff then Inl (AssertFail ''ns <= LONG_MAX'')
        else Inr [ns])"
  by auto
termination
proof (relation "measure unat")
  fix count :: u64
  assume "count > US_MAX"
  then show "(count - US_MAX, count) \<in> measure unat"
    using unat_sub [OF order.strict_implies_order, of US_MAX count] by (simp add: word_less_nat_alt)
qed simp

declare timer_sleeps.simps [simp del]

section \<open>RealCLINT\<close>

record RealCLINT =
  rc_msip :: RegisterRange
  rc_mtimecmp :: RegisterRange
  rc_mtime :: RegisterRange
  rc_event :: bool
  rc_timers :: "Timer list"

definition RealCLINT_make :: "nat \<Rightarrow> RealCLINT" where
  "RealCLINT_make n = \<lparr>rc_msip = aligned_range 0 (4 * n), rc_mtimecmp = aligned_range 0x4000 (8 * n),
     rc_mtime = aligned_range 0xBFF8 8, rc_event = False, rc_timers = replicate n Timer_make\<rparr>"

record 's real_clint_env =
  rc_part :: "(RealCLINT, 's) part"
  rc_harts :: nat
  rc_now :: "'s \<Rightarrow> u64"
  rc_trigger_timer_interrupt :: "nat \<Rightarrow> bool \<Rightarrow> ('s, unit) smonad"
  rc_trigger_software_interrupt :: "nat \<Rightarrow> bool \<Rightarrow> ('s, unit) smonad"

text \<open>\<^verbatim>\<open>DIVIDEND\<close> is an integer division.\<close>

definition DIVIDEND :: u64 where "DIVIDEND = 15625 div 512"

definition usec_to_ticks :: "u64 \<Rightarrow> u64" where
  "usec_to_ticks usec = usec div DIVIDEND"

definition ticks_to_usec :: "u64 \<Rightarrow> u64" where
  "ticks_to_usec ticks = ticks * DIVIDEND"

definition out_of_range :: error where "out_of_range = RuntimeError ''std::out_of_range''"

text \<open>\<^verbatim>\<open>ArrayView::at\<close> and \<^verbatim>\<open>std::vector::at\<close>.\<close>

definition ArrayView_at :: "nat \<Rightarrow> RegisterRange \<Rightarrow> nat \<Rightarrow> ('s, nat) smonad" where
  "ArrayView_at sz r idx = (if idx \<ge> ArrayView_size sz r then throw_m out_of_range
     else return_m (view_read sz idx (rr_mem r)))"

definition check_at :: "nat \<Rightarrow> nat \<Rightarrow> ('s, unit) smonad" where
  "check_at n idx = (if idx \<ge> n then throw_m out_of_range else return_m ())"

definition rc_mtime_value :: "RealCLINT \<Rightarrow> u64" where
  "rc_mtime_value c = IntegerView_read (rc_mtime c)"

definition rc_write_mtime :: "u64 \<Rightarrow> RealCLINT \<Rightarrow> RealCLINT" where
  "rc_write_mtime v = rc_mtime_update (rr_mem_update (IntegerView_write v))"

definition rc_update_and_get_mtime :: "'s real_clint_env \<Rightarrow> ('s, u64) smonad" where
  "rc_update_and_get_mtime e = bind_m (gets_m (rc_now e)) (\<lambda>duration.
     then_m (modify_at (rc_part e) (rc_write_mtime (usec_to_ticks duration)))
       (gets_at (rc_part e) rc_mtime_value))"

definition rc_post_write_mtimecmp :: "'s real_clint_env \<Rightarrow> u64 \<Rightarrow> nat \<Rightarrow> ('s, unit) smonad" where
  "rc_post_write_mtimecmp e addr len = then_m (assert_m ''info.addr % 4 == 0'' (addr mod 4 = 0))
     (let hart = unat (addr div 8) in
      bind_m (gets_at (rc_part e) rc_mtimecmp) (\<lambda>r.
      bind_m (ArrayView_at 8 r hart) (\<lambda>v.
      let cmp = word_of_nat v in
      bind_m (rc_update_and_get_mtime e) (\<lambda>time.
      bind_m (gets_at (rc_part e) (\<lambda>c. length (rc_timers c))) (\<lambda>n.
      then_m (check_at n hart)
      (then_m (modify_at (rc_part e) (\<lambda>c. c\<lparr>rc_timers := (rc_timers c)[hart := Timer_pause (rc_timers c ! hart)]\<rparr>))
      (then_m (check_at (rc_harts e) hart)
      (if time \<ge> cmp then rc_trigger_timer_interrupt e hart True
       else then_m (rc_trigger_timer_interrupt e hart False)
         (modify_at (rc_part e) (\<lambda>c. c\<lparr>rc_timers :=
            (rc_timers c)[hart := Timer_start (ticks_to_usec (cmp - time)) (rc_timers c ! hart)]\<rparr>))))))))))"

definition rc_post_write_msip :: "'s real_clint_env \<Rightarrow> u64 \<Rightarrow> nat \<Rightarrow> ('s, unit) smonad" where
  "rc_post_write_msip e addr len = then_m (assert_m ''info.addr % 4 == 0'' (addr mod 4 = 0))
     (let hart = unat (addr div 4) in
      bind_m (gets_at (rc_part e) rc_msip) (\<lambda>r.
      bind_m (ArrayView_at 4 r hart) (\<lambda>v.
      then_m (modify_at (rc_part e) (rc_msip_update (rr_mem_update (view_write 4 hart (v AND 1)))))
      (then_m (check_at (rc_harts e) hart)
        (rc_trigger_software_interrupt e hart (v AND 1 \<noteq> 0))))))"

definition rc_post_write_mtime :: "u64 \<Rightarrow> nat \<Rightarrow> ('s, unit) smonad" where
  "rc_post_write_mtime addr len = return_m ()"

definition rc_pre_read_mtime :: "'s real_clint_env \<Rightarrow> u64 \<Rightarrow> nat \<Rightarrow> ('s, bool) smonad" where
  "rc_pre_read_mtime e addr len = then_m (rc_update_and_get_mtime e) (return_m True)"

fun rc_interrupt_harts :: "'s real_clint_env \<Rightarrow> nat list \<Rightarrow> ('s, unit) smonad" where
    "rc_interrupt_harts e [] = return_m ()"
  | "rc_interrupt_harts e (i # is) =
      then_m (bind_m (gets_at (rc_part e) (\<lambda>c. c)) (\<lambda>c.
        bind_m (ArrayView_at 8 (rc_mtimecmp c) i) (\<lambda>cmp.
          when_m (rc_mtime_value c \<ge> word_of_nat cmp) (rc_trigger_timer_interrupt e i True))))
      (rc_interrupt_harts e is)"

definition rc_interrupt :: "'s real_clint_env \<Rightarrow> ('s, unit) smonad" where
  "rc_interrupt e = then_m (modify_at (rc_part e) (rc_event_update (\<lambda>_. False)))
     (then_m (rc_update_and_get_mtime e) (rc_interrupt_harts e [0..<rc_harts e]))"

definition rc_ranges :: "'s real_clint_env \<Rightarrow> 's range_port list" where
  "rc_ranges e =
    [\<lparr>rp_get = \<lambda>s. rc_mtimecmp (part_get (rc_part e) s),
      rp_mem_update = \<lambda>f. part_upd (rc_part e) (rc_mtimecmp_update (rr_mem_update f)),
      pre_write_callback = None, post_write_callback = Some (rc_post_write_mtimecmp e),
      pre_read_callback = None, post_read_callback = None\<rparr>,
     \<lparr>rp_get = \<lambda>s. rc_msip (part_get (rc_part e) s),
      rp_mem_update = \<lambda>f. part_upd (rc_part e) (rc_msip_update (rr_mem_update f)),
      pre_write_callback = None, post_write_callback = Some (rc_post_write_msip e),
      pre_read_callback = None, post_read_callback = None\<rparr>,
     \<lparr>rp_get = \<lambda>s. rc_mtime (part_get (rc_part e) s),
      rp_mem_update = \<lambda>f. part_upd (rc_part e) (rc_mtime_update (rr_mem_update f)),
      pre_write_callback = None, post_write_callback = Some rc_post_write_mtime,
      pre_read_callback = Some (rc_pre_read_mtime e), post_read_callback = None\<rparr>]"

definition rc_transport :: "'s real_clint_env \<Rightarrow> ('v, 's) target" where
  "rc_transport e t = rr_route ''RealCLINT'' (rc_ranges e) t"

text \<open>The callback of a timer whose thread has slept through.\<close>

definition timercb :: "RealCLINT \<Rightarrow> RealCLINT" where
  "timercb c = c\<lparr>rc_event := True\<rparr>"

section \<open>Time conversion\<close>

lemma DIVIDEND_value: "DIVIDEND = 30"
  by (simp add: DIVIDEND_def)

lemma ticks_roundtrip_le: "ticks_to_usec (usec_to_ticks u) \<le> u"
  by (simp add: ticks_to_usec_def usec_to_ticks_def DIVIDEND_value word_le_nat_alt unat_word_ariths unat_div
      order.trans [OF mod_less_eq_dividend])

lemma timer_sleeps_step:
  "count > US_MAX \<Longrightarrow> timer_sleeps (count - US_MAX) = Inr ns \<Longrightarrow> timer_sleeps count = Inr (NS_MAX # ns)"
  by (simp add: timer_sleeps.simps [of count])

lemma timer_sleeps_last:
  assumes "0 < count" "count \<le> US_MAX"
  shows "timer_sleeps count = Inr [count * 1000]"
proof -
  have c: "0 < unat count" "unat count \<le> 999999" using assms by (simp_all add: word_less_nat_alt word_le_nat_alt)
  have "unat (count * 1000) = unat count * 1000"
    using c(2) by (simp add: unat_word_ariths)
  then have "count < count * 1000" "count * 1000 \<le> 0x7fffffffffffffff"
    using c by (simp_all add: word_less_nat_alt word_le_nat_alt)
  with assms show ?thesis by (simp add: timer_sleeps.simps [of count] Let_def not_less [symmetric])
qed

text \<open>The thread of a timer with a positive duration ends, and never before the duration has passed.\<close>

lemma timer_sleeps_enough:
  assumes "0 < count"
  shows "\<exists>ns. timer_sleeps count = Inr ns \<and> unat count * 1000 \<le> sum_list (map unat ns) \<and>
    sum_list (map unat ns) \<le> unat count * 1000 + 999 * (unat count div 999999)"
  using assms
proof (induction count rule: timer_sleeps.induct)
  case (1 count)
  show ?case
  proof (cases "count > US_MAX")
    case True
    let ?c = "count - US_MAX"
    have un: "unat ?c = unat count - 999999" "999999 < unat count"
      using True unat_sub [of US_MAX count] by (simp_all add: word_less_nat_alt word_le_nat_alt)
    have "0 < ?c" using un by (simp add: word_less_nat_alt)
    then obtain ns where ns: "timer_sleeps ?c = Inr ns" "unat ?c * 1000 \<le> sum_list (map unat ns)"
      "sum_list (map unat ns) \<le> unat ?c * 1000 + 999 * (unat ?c div 999999)"
      using "1.IH" [OF True] by blast
    have "unat count div 999999 = Suc (unat ?c div 999999)" using un by (simp add: div_if)
    moreover have "unat count = unat ?c + 999999" using un by simp
    ultimately show ?thesis using ns timer_sleeps_step [OF True ns(1)] by (intro exI [of _ "NS_MAX # ns"]) simp
  next
    case False
    then have c: "count \<le> US_MAX" by simp
    have "unat count \<le> 999999" using c by (simp add: word_le_nat_alt)
    then have "unat (count * 1000) = unat count * 1000" by (simp add: unat_word_ariths)
    then show ?thesis using timer_sleeps_last [OF "1.prems" c] by simp
  qed
qed


text \<open>
  Once the sleeps of a timer that was armed at \<open>now\<close> for the ticks missing to \<open>cmp\<close> are over, the tick count has
  reached \<open>cmp\<close>.
\<close>

lemma timer_reaches_compare:
  assumes "usec_to_ticks now < cmp" "unat cmp * 30 < 2 ^ 64"
  shows "\<exists>ns. timer_sleeps (ticks_to_usec (cmp - usec_to_ticks now)) = Inr ns \<and>
    (\<forall>now'. unat now * 1000 + sum_list (map unat ns) \<le> unat now' * 1000 \<longrightarrow> cmp \<le> usec_to_ticks now')"
proof -
  let ?d = "ticks_to_usec (cmp - usec_to_ticks now)"
  have t: "unat (usec_to_ticks now) = unat now div 30" by (simp add: usec_to_ticks_def DIVIDEND_value unat_div)
  have lt: "unat now div 30 < unat cmp" using assms(1) t by (simp add: word_less_nat_alt)
  have diff: "unat (cmp - usec_to_ticks now) = unat cmp - unat now div 30"
    using assms(1) t by (simp add: unat_sub order.strict_implies_order)
  have d: "unat ?d = (unat cmp - unat now div 30) * 30"
    unfolding ticks_to_usec_def DIVIDEND_value unat_word_ariths(2) diff using assms(2) by simp
  then have "0 < ?d" using lt by (simp add: word_less_nat_alt)
  then obtain ns where ns: "timer_sleeps ?d = Inr ns" "unat ?d * 1000 \<le> sum_list (map unat ns)"
    using timer_sleeps_enough by blast
  have "cmp \<le> usec_to_ticks now'" if "unat now * 1000 + sum_list (map unat ns) \<le> unat now' * 1000" for now'
  proof -
    have "unat now + unat ?d \<le> unat now'" using that ns(2) by linarith
    moreover have "30 * (unat now div 30) \<le> unat now" by simp
    ultimately have "unat cmp * 30 \<le> unat now'" using d lt by (simp add: diff_mult_distrib)
    then have "unat cmp \<le> unat now' div 30" by (simp add: less_eq_div_iff_mult_less_eq)
    then show ?thesis by (simp add: usec_to_ticks_def DIVIDEND_value unat_div word_le_nat_alt)
  qed
  with ns(1) show ?thesis by blast
qed

lemma rc_mtime_write: "length (rr_mem (rc_mtime c)) = 8 \<Longrightarrow> rc_mtime_value (rc_write_mtime v c) = v"
  using view_write_read [of 0 8 "rr_mem (rc_mtime c)" "unat v"] unsigned_less [of v, where 'a = nat]
  by (simp add: rc_mtime_value_def rc_write_mtime_def IntegerView_read_def IntegerView_write_def)

end
