(* ===== verification/Sifive_Peripherals.thy ===== *)
theory Sifive_Peripherals
  imports Tlm_Map
begin

text \<open>
  The register peripherals of the HiFive platform (\<^verbatim>\<open>platform/hifive\<close>) that keep no state but their
  registers: the always-on domain \<^verbatim>\<open>aon.h\<close>, the clock control \<^verbatim>\<open>prci.h\<close>, the SPI controller \<^verbatim>\<open>spi.h\<close>, the
  mask ROM \<^verbatim>\<open>maskROM.h\<close> and the unimplemented \<^verbatim>\<open>otp.h\<close>. Messages printed on the standard streams and the
  delays added to a transaction are left out. The devices connected to an SPI controller are
  values of a type \<open>'d\<close>; what \<^verbatim>\<open>SpiInterface::write\<close> does for one of them is an argument.
\<close>

section \<open>AON\<close>

text \<open>The variables \<^verbatim>\<open>backup0\<close> to \<^verbatim>\<open>backup31\<close> are the values of \<open>aon_backup\<close> at 0 to 31.\<close>

record AON =
  aon_wdogcfg :: u32
  aon_wdogcount :: u32
  aon_wdogfeed :: u32
  aon_wdogkey :: u32
  aon_wdogcmp0 :: u32
  aon_lfrosccfg :: u32
  aon_pmucause :: u32
  aon_rtccfg :: u32
  aon_rtccountlo :: u32
  aon_rtccounthi :: u32
  aon_rtcs :: u32
  aon_rtccmp0 :: u32
  aon_backup :: "nat \<Rightarrow> u32"

definition AON_make :: AON where
  "AON_make = \<lparr>aon_wdogcfg = 0, aon_wdogcount = 0, aon_wdogfeed = 0, aon_wdogkey = 0, aon_wdogcmp0 = 0,
     aon_lfrosccfg = 0, aon_pmucause = push_bit 8 1, aon_rtccfg = 0, aon_rtccountlo = 0, aon_rtccounthi = 0,
     aon_rtcs = 0, aon_rtccmp0 = 0, aon_backup = (\<lambda>_. 0)\<rparr>"

definition backup_reg :: "nat \<Rightarrow> AON reg_mapping_t" where
  "backup_reg i = reg (0x80 + 4 * word_of_nat i) (\<lambda>a. aon_backup a i)
     (\<lambda>f. aon_backup_update (\<lambda>b. b(i := f (b i))))"

definition aon_bank :: "AON reg_mapping_t list" where
  "aon_bank =
    [reg 0x000 aon_wdogcfg aon_wdogcfg_update,
     reg 0x010 aon_wdogcount aon_wdogcount_update,
     reg 0x018 aon_wdogfeed aon_wdogfeed_update,
     reg 0x01C aon_wdogkey aon_wdogkey_update,
     reg 0x020 aon_wdogcmp0 aon_wdogcmp0_update,
     reg 0x040 aon_rtccfg aon_rtccfg_update,
     reg 0x048 aon_rtccountlo aon_rtccountlo_update,
     reg 0x04C aon_rtccounthi aon_rtccounthi_update,
     reg 0x050 aon_rtcs aon_rtcs_update,
     reg 0x060 aon_rtccmp0 aon_rtccmp0_update,
     reg 0x070 aon_lfrosccfg aon_lfrosccfg_update,
     reg 0x144 aon_pmucause aon_pmucause_update] @ map backup_reg [0..<32]"

definition aon_register_access_callback :: "('v, 's) reg_handler" where
  "aon_register_access_callback r t fn = fn"

definition aon_transport :: "(AON, 's) part \<Rightarrow> ('v, 's) target" where
  "aon_transport p = router_transport ''AON''
     [RegisterMapping (map (reg_at p) aon_bank) aon_register_access_callback]"

section \<open>PRCI\<close>

record PRCI =
  hfrosccfg :: u32
  hfxosccfg :: u32
  pllcfg :: u32
  plloutdiv :: u32

definition PRCI_make :: PRCI where
  "PRCI_make = \<lparr>hfrosccfg = 0, hfxosccfg = 0, pllcfg = 0, plloutdiv = 0\<rparr>"

abbreviation (input) HFROSCCFG_REG_ADDR :: u64 where "HFROSCCFG_REG_ADDR \<equiv> 0x0"
abbreviation (input) HFXOSCCFG_REG_ADDR :: u64 where "HFXOSCCFG_REG_ADDR \<equiv> 0x4"
abbreviation (input) PLLCFG_REG_ADDR :: u64 where "PLLCFG_REG_ADDR \<equiv> 0x8"
abbreviation (input) PLLOUTDIV_REG_ADDR :: u64 where "PLLOUTDIV_REG_ADDR \<equiv> 0xC"

definition prci_bank :: "PRCI reg_mapping_t list" where
  "prci_bank =
    [reg HFROSCCFG_REG_ADDR hfrosccfg hfrosccfg_update,
     reg HFXOSCCFG_REG_ADDR hfxosccfg hfxosccfg_update,
     reg PLLCFG_REG_ADDR pllcfg pllcfg_update,
     reg PLLOUTDIV_REG_ADDR plloutdiv plloutdiv_update]"

definition prci_register_access_callback :: "(PRCI, 's) part \<Rightarrow> ('v, 's) reg_handler" where
  "prci_register_access_callback p r t fn =
     then_m (when_m (ra_read r \<and> ra_vptr r = HFXOSCCFG_REG_ADDR)
       (modify_at p (hfxosccfg_update (\<lambda>_. push_bit 31 1))))
     (bind_m fn (\<lambda>t'.
       then_m (when_m (ra_vptr r = HFROSCCFG_REG_ADDR \<and> ra_nv r \<noteq> 0)
         (modify_at p (hfrosccfg_update (\<lambda>x. x OR push_bit 31 1))))
       (then_m (when_m (ra_vptr r = PLLCFG_REG_ADDR \<and> ra_nv r \<noteq> 0)
         (modify_at p (pllcfg_update (\<lambda>x. x OR push_bit 31 1))))
       (return_m t'))))"

definition prci_transport :: "(PRCI, 's) part \<Rightarrow> ('v, 's) target" where
  "prci_transport p = router_transport ''PRCI''
     [RegisterMapping (map (reg_at p) prci_bank) (prci_register_access_callback p)]"

section \<open>SPI\<close>

type_synonym Pin = u32

record 'd SPI =
  rxqueue :: "u8 list"
  targets :: "(Pin \<times> 'd) list"
  spi_sckdiv :: u32
  spi_sckmode :: u32
  spi_csid :: u32
  spi_csdef :: u32
  spi_csmode :: u32
  spi_delay0 :: u32
  spi_delay1 :: u32
  spi_fmt :: u32
  spi_txdata :: u32
  spi_rxdata :: u32
  spi_txmark :: u32
  spi_rxmark :: u32
  spi_fctrl :: u32
  spi_ffmt :: u32
  spi_ie :: u32
  spi_ip :: u32

definition SPI_make :: "'d SPI" where
  "SPI_make = \<lparr>rxqueue = [], targets = [], spi_sckdiv = 0, spi_sckmode = 0, spi_csid = 0, spi_csdef = 1,
     spi_csmode = 0, spi_delay0 = 0, spi_delay1 = 0, spi_fmt = 0, spi_txdata = 0, spi_rxdata = 0, spi_txmark = 0,
     spi_rxmark = 0, spi_fctrl = 1, spi_ffmt = 0, spi_ie = 0, spi_ip = 0\<rparr>"

abbreviation (input) queue_size :: nat where "queue_size \<equiv> 16"
abbreviation (input) CSID_REG_ADDR :: u64 where "CSID_REG_ADDR \<equiv> 0x10"
abbreviation (input) SPI_TXDATA_REG_ADDR :: u64 where "SPI_TXDATA_REG_ADDR \<equiv> 0x48"
abbreviation (input) SPI_RXDATA_REG_ADDR :: u64 where "SPI_RXDATA_REG_ADDR \<equiv> 0x4C"
abbreviation (input) SPI_IP_TXWM :: u32 where "SPI_IP_TXWM \<equiv> 1"

definition spi_bank :: "'d SPI reg_mapping_t list" where
  "spi_bank =
    [reg 0x00 spi_sckdiv spi_sckdiv_update,
     reg 0x04 spi_sckmode spi_sckmode_update,
     reg CSID_REG_ADDR spi_csid spi_csid_update,
     reg 0x14 spi_csdef spi_csdef_update,
     reg 0x18 spi_csmode spi_csmode_update,
     reg 0x28 spi_delay0 spi_delay0_update,
     reg 0x2C spi_delay1 spi_delay1_update,
     reg 0x40 spi_fmt spi_fmt_update,
     reg SPI_TXDATA_REG_ADDR spi_txdata spi_txdata_update,
     reg SPI_RXDATA_REG_ADDR spi_rxdata spi_rxdata_update,
     reg 0x50 spi_txmark spi_txmark_update,
     reg 0x54 spi_rxmark spi_rxmark_update,
     reg 0x60 spi_fctrl spi_fctrl_update,
     reg 0x64 spi_ffmt spi_ffmt_update,
     reg 0x70 spi_ie spi_ie_update,
     reg 0x74 spi_ip spi_ip_update]"

definition spi_read_rxdata :: "('d SPI, 's) part \<Rightarrow> ('s, unit) smonad" where
  "spi_read_rxdata p = bind_m (gets_at p (\<lambda>c. c)) (\<lambda>c.
     case map_of (targets c) (spi_csid c) of
       None \<Rightarrow> return_m ()
     | Some d \<Rightarrow> (case rxqueue c of
         [] \<Rightarrow> modify_at p (spi_rxdata_update (\<lambda>_. push_bit 31 1))
       | b # q \<Rightarrow> modify_at p (\<lambda>c. c\<lparr>spi_rxdata := ucast b, rxqueue := q\<rparr>)))"

definition rx_push :: "u8 \<Rightarrow> u8 list \<Rightarrow> u8 list" where
  "rx_push b q = (let q' = q @ [b] in if length q' > queue_size then tl q' else q')"

definition spi_write_txdata ::
  "('d SPI, 's) part \<Rightarrow> ('d \<Rightarrow> u8 \<Rightarrow> ('s, u8) smonad) \<Rightarrow> ('s, unit) smonad" where
  "spi_write_txdata p dev_write = bind_m (gets_at p (\<lambda>c. c)) (\<lambda>c.
     then_m (case map_of (targets c) (spi_csid c) of
         None \<Rightarrow> return_m ()
       | Some d \<Rightarrow> bind_m (dev_write d (ucast (spi_txdata c))) (\<lambda>b.
           then_m (modify_at p (rxqueue_update (rx_push b)))
             (modify_at p (\<lambda>c. if spi_txmark c > 0 \<and> spi_ie c AND SPI_IP_TXWM \<noteq> 0
                then c\<lparr>spi_ip := spi_ip c OR SPI_IP_TXWM\<rparr> else c))))
       (modify_at p (spi_txdata_update (\<lambda>_. 0))))"

definition spi_register_access_callback ::
  "('d SPI, 's) part \<Rightarrow> ('d \<Rightarrow> u8 \<Rightarrow> ('s, u8) smonad) \<Rightarrow> ('v, 's) reg_handler" where
  "spi_register_access_callback p dev_write r t fn =
     then_m (when_m (ra_read r \<and> ra_vptr r = SPI_RXDATA_REG_ADDR) (spi_read_rxdata p))
     (bind_m fn (\<lambda>t'.
       then_m (when_m (ra_write r \<and> ra_vptr r = SPI_TXDATA_REG_ADDR) (spi_write_txdata p dev_write))
       (return_m t')))"

definition spi_transport ::
  "('d SPI, 's) part \<Rightarrow> ('d \<Rightarrow> u8 \<Rightarrow> ('s, u8) smonad) \<Rightarrow> ('v, 's) target" where
  "spi_transport p dev_write = router_transport ''SPI''
     [RegisterMapping (map (reg_at p) spi_bank) (spi_register_access_callback p dev_write)]"

text \<open>\<^verbatim>\<open>std::map::insert\<close> keeps an entry that is already there.\<close>

definition spi_connect :: "Pin \<Rightarrow> 'd \<Rightarrow> 'd SPI \<Rightarrow> 'd SPI" where
  "spi_connect cs iface c =
     (if cs = 1 \<or> cs > 3 then c
      else case map_of (targets c) cs of
        Some _ \<Rightarrow> c
      | None \<Rightarrow> c\<lparr>targets := (cs, iface) # targets c\<rparr>)"

section \<open>MaskROM\<close>

definition mrom_baseAddr :: u32 where "mrom_baseAddr = 0x1000"
definition configStringOffs :: u32 where "configStringOffs = 0x03b0"

definition configString :: string where
  "configString = ''/cs-v1/;/{model = '' @ [CHR 0x22] @ ''SiFive,FE310G-0000-Z0'' @ [CHR 0x22] @ '';compatible = '' @
     [CHR 0x22] @ ''sifive,fe300'' @ [CHR 0x22] @ '';/include/ 0x20004;};''"

definition char_byte :: "char \<Rightarrow> u8" where
  "char_byte c = word_of_nat (of_char c)"

definition configBytes :: "u8 list" where
  "configBytes = map char_byte configString"

text \<open>
  The copy of the jump target is four bytes long whatever the length of the access is; the bytes that
  do not fit overwrite what is behind the buffer, outside the model. The number of
  bytes taken from the configuration string is the 8-bit \<^verbatim>\<open>cut\<close>; bytes after the end of the string,
  which the source would read from the memory behind it, are zero here.
\<close>

definition mrom_cut :: "nat \<Rightarrow> nat \<Rightarrow> u8" where
  "mrom_cut offs len = (if offs + len \<le> length configString then word_of_nat len
     else word_of_nat (offs + len - length configString))"

definition mrom_transport :: "('v, 's) target" where
  "mrom_transport t =
     (let addr = ucast (p_address t) :: u32; ptr = p_data t; len = length ptr in
      if p_command t \<noteq> TLM_READ_COMMAND then throw_m (RuntimeError ''invalid write to MROM'')
      else if addr < 0x000C then return_m (t\<lparr>p_data := replicate len 0\<rparr>)
      else if addr + word_of_nat len \<le> 0x000C + 4 then
        return_m (t\<lparr>p_data := take len (list_write 0 (u32_to_bytes (mrom_baseAddr + configStringOffs)) ptr)\<rparr>)
      else if addr < configStringOffs then throw_m (AssertFail ''false'')
      else if addr < configStringOffs + word_of_nat (length configString) then
        let offs = unat (addr - configStringOffs); cut = unat (mrom_cut offs len) in
        return_m (t\<lparr>p_data := list_write 0 (mem_read offs cut configBytes)
          (if cut \<noteq> len then list_write cut (replicate (len - cut) 0) ptr else ptr)\<rparr>)
      else return_m (t\<lparr>p_data := replicate len 0\<rparr>))"

section \<open>OTP\<close>

definition otp_transport :: "('v, 's) target" where
  "otp_transport t = then_m (assert_m ''false && OTP not yet implemented'' False) (return_m t)"

section \<open>The register banks\<close>

lemma aon_addrs: "distinct (map rm_addr aon_bank)" "list_all (\<lambda>r. rm_addr r mod 4 = 0) aon_bank"
  by code_simp+

interpretation aon_regs: register_bank aon_bank
proof unfold_locales
  show "rm_addr r mod 4 = 0" if "r \<in> set aon_bank" for r
    using that aon_addrs(2) by (auto simp: list_all_iff)
  show "rm_vget r (rm_vput r v s) = v" if "r \<in> set aon_bank" for r v s
    using that by (auto simp: aon_bank_def backup_reg_def)
  show "allow_read (rm_mode r) \<and> allow_write (rm_mode r)" if "r \<in> set aon_bank" for r
    using that by (auto simp: aon_bank_def backup_reg_def)
qed (rule aon_addrs)

interpretation prci_regs: register_bank prci_bank
  by unfold_locales (auto simp: prci_bank_def)

interpretation spi_regs: register_bank spi_bank
  by unfold_locales (auto simp: spi_bank_def)

end
