(* ===== verification/Spi_Devices.thy ===== *)
theory Spi_Devices
  imports Sifive_Peripherals
begin

text \<open>
  The devices on the SPI bus of the HiFive platform: the CAN controller MCP2515 (\<^verbatim>\<open>platform/hifive/can.cpp\<close>)
  and the OLED display driver SH1106 (\<^verbatim>\<open>platform/hifive/oled.cpp\<close>). The function-local static variables of
  \<^verbatim>\<open>can.cpp\<close> are members of the record, as there is one controller. Writing to the CAN socket appends the
  frame to \<open>can_sent\<close>. An access outside an array, undefined in the source, is the error \<open>out_of_bounds\<close>.
\<close>

definition out_of_bounds :: "string \<Rightarrow> error" where
  "out_of_bounds what = RuntimeError (''out of bounds: '' @ what)"

section \<open>CAN\<close>

datatype can_state = can_init | can_readRegister | can_writeRegister | can_bitmod | loadTX0 | loadTX1 | loadTX2
  | sendTX0 | sendTX1 | sendTX2 | sendALL | readRX0 | readRX1 | getStatus

datatype modreg_state = mod_address | mod_mask | mod_data
datatype loadtx_state = load_id | load_length | load_payload

record can_frame =
  can_id :: u32
  can_dlc :: u8
  can_data :: "u8 list"

text \<open>
  An \<^verbatim>\<open>MCPFrame\<close> is its \<^verbatim>\<open>raw\<close> bytes: four of the identifier, the length, and 64 bytes of payload.
\<close>

record CAN =
  cs_state :: can_state
  registers :: "u8 list"
  txBuf :: "u8 list list"
  rxBuf :: "u8 list list"
  can_status :: u8
  rd_selectedRegister :: int
  wr_selectedRegister :: int
  mod_state :: modreg_state
  mod_addr :: u8
  mod_maskbyte :: u8
  load_state :: loadtx_state
  load_ptr :: u8
  rx_ptr :: u8
  can_sent :: "can_frame list"

abbreviation (input) MCP_RXB1SIDH :: int where "MCP_RXB1SIDH \<equiv> 0x71"
abbreviation (input) MCP_SIDH :: nat where "MCP_SIDH \<equiv> 0"
abbreviation (input) MCP_SIDL :: nat where "MCP_SIDL \<equiv> 1"
abbreviation (input) MCP_EID8 :: nat where "MCP_EID8 \<equiv> 2"
abbreviation (input) MCP_EID0 :: nat where "MCP_EID0 \<equiv> 3"
abbreviation (input) MCP_TXB_EXIDE_M :: u8 where "MCP_TXB_EXIDE_M \<equiv> 8"

text \<open>The registers and buffers are uninitialised in the source; they are arguments here.\<close>

definition CAN_make :: "u8 list \<Rightarrow> u8 list list \<Rightarrow> u8 list list \<Rightarrow> CAN" where
  "CAN_make regs txb rxb = \<lparr>cs_state = can_init, registers = regs, txBuf = txb, rxBuf = rxb, can_status = 0,
     rd_selectedRegister = -1, wr_selectedRegister = -1, mod_state = mod_address, mod_addr = 0, mod_maskbyte = 0,
     load_state = load_id, load_ptr = 0, rx_ptr = 0, can_sent = []\<rparr>"

definition can_command :: "u8 \<Rightarrow> CAN \<Rightarrow> CAN" where
  "can_command b c =
     (if b = 0x02 then c\<lparr>cs_state := can_writeRegister\<rparr>
      else if b = 0x03 then c\<lparr>cs_state := can_readRegister\<rparr>
      else if b = 0x05 then c\<lparr>cs_state := can_bitmod\<rparr>
      else if b = 0x40 then c\<lparr>cs_state := loadTX0\<rparr>
      else if b = 0x42 then c\<lparr>cs_state := loadTX1\<rparr>
      else if b = 0x44 then c\<lparr>cs_state := loadTX2\<rparr>
      else if b = 0x81 then c\<lparr>cs_state := sendTX0\<rparr>
      else if b = 0x82 then c\<lparr>cs_state := sendTX1\<rparr>
      else if b = 0x84 then c\<lparr>cs_state := sendTX2\<rparr>
      else if b = 0x87 then c\<lparr>cs_state := sendALL\<rparr>
      else if b = 0x90 then c\<lparr>cs_state := readRX0\<rparr>
      else if b = 0x94 then c\<lparr>cs_state := readRX1\<rparr>
      else if b = 0xA0 then c\<lparr>cs_state := getStatus\<rparr>
      else if b = 0xB0 then c
      else if b = 0xC0 then c\<lparr>cs_state := can_init\<rparr>
      else c)"

text \<open>Incrementing an \<^verbatim>\<open>int16_t\<close>.\<close>

definition int16_inc :: "int \<Rightarrow> int" where
  "int16_inc x = (if x = 32767 then - 32768 else x + 1)"

definition can_read_register :: "u8 \<Rightarrow> (CAN, u8) smonad" where
  "can_read_register b = bind_m (gets_m (\<lambda>c. c)) (\<lambda>c.
     if rd_selectedRegister c < 0 then then_m (modify_m (\<lambda>c. c\<lparr>rd_selectedRegister := uint b\<rparr>)) (return_m 0)
     else if b \<noteq> 0 then then_m (modify_m (\<lambda>c. can_command b (c\<lparr>rd_selectedRegister := - 1\<rparr>))) (return_m 0)
     else then_m (modify_m (\<lambda>c. c\<lparr>rd_selectedRegister := int16_inc (rd_selectedRegister c)\<rparr>))
       (return_m (if rd_selectedRegister c > MCP_RXB1SIDH then 0 else registers c ! nat (rd_selectedRegister c))))"

definition can_write_register :: "u8 \<Rightarrow> (CAN, u8) smonad" where
  "can_write_register b = then_m (modify_m (\<lambda>c.
     if wr_selectedRegister c < 0 then c\<lparr>wr_selectedRegister := uint b\<rparr>
     else if wr_selectedRegister c > MCP_RXB1SIDH then c
     else c\<lparr>registers := (registers c)[nat (wr_selectedRegister c) := b], wr_selectedRegister := - 1,
            cs_state := can_init\<rparr>)) (return_m 0)"

definition modifyRegister :: "u8 \<Rightarrow> (CAN, u8) smonad" where
  "modifyRegister b = bind_m (gets_m (\<lambda>c. c)) (\<lambda>c. case mod_state c of
     mod_address \<Rightarrow> then_m (modify_m (\<lambda>c. c\<lparr>mod_addr := b, mod_state := mod_mask\<rparr>)) (return_m 0)
   | mod_mask \<Rightarrow> then_m (modify_m (\<lambda>c. c\<lparr>mod_maskbyte := b, mod_state := mod_data\<rparr>)) (return_m 0)
   | mod_data \<Rightarrow>
       then_m (modify_m (\<lambda>c. c\<lparr>mod_state := mod_address, cs_state := can_init\<rparr>))
       (if unat (mod_addr c) \<ge> length (registers c) then throw_m (out_of_bounds ''registers'')
        else then_m (modify_m (\<lambda>c. c\<lparr>registers := (registers c)[unat (mod_addr c) :=
          (registers c ! unat (mod_addr c) AND NOT (mod_maskbyte c)) OR b]\<rparr>)) (return_m 0)))"

definition put_tx :: "nat \<Rightarrow> nat \<Rightarrow> u8 \<Rightarrow> CAN \<Rightarrow> CAN" where
  "put_tx no i b c = c\<lparr>txBuf := (txBuf c)[no := (txBuf c ! no)[i := b]]\<rparr>"

definition loadTxBuf :: "nat \<Rightarrow> u8 \<Rightarrow> (CAN, u8) smonad" where
  "loadTxBuf no b = bind_m (gets_m (\<lambda>c. c)) (\<lambda>c. case load_state c of
     load_id \<Rightarrow> then_m (modify_m (\<lambda>c. let c' = (put_tx no (unat (load_ptr c)) b c)\<lparr>load_ptr := load_ptr c + 1\<rparr> in
         if load_ptr c' = 4 then c'\<lparr>load_ptr := 0, load_state := load_length\<rparr> else c')) (return_m 0)
   | load_length \<Rightarrow> then_m (modify_m (\<lambda>c. (put_tx no 4 b c)\<lparr>load_state := load_payload\<rparr>)) (return_m 0)
   | load_payload \<Rightarrow>
       if unat (load_ptr c) \<ge> 64 then throw_m (out_of_bounds ''payload'')
       else then_m (modify_m (\<lambda>c. let c' = (put_tx no (5 + unat (load_ptr c)) b c)\<lparr>load_ptr := load_ptr c + 1\<rparr> in
         if load_ptr c' = txBuf c' ! no ! 4 then c'\<lparr>load_state := load_id, load_ptr := 0, cs_state := can_init\<rparr>
         else c')) (return_m 0))"

definition mcp2515_id_to_buf :: "u64 \<Rightarrow> bool \<Rightarrow> u8 list" where
  "mcp2515_id_to_buf i extended =
     (let canid = ucast (i AND 0x0FFFF) :: u16 in
      if extended then
        let canid2 = ucast (drop_bit 16 i) :: u16;
            sidl = (ucast (canid2 AND 0x03) + ucast (push_bit 3 (canid2 AND 0x1C)) :: u8) OR MCP_TXB_EXIDE_M in
        [ucast (drop_bit 5 canid2), sidl, ucast (drop_bit 8 canid), ucast (canid AND 0xFF)]
      else [ucast (drop_bit 3 canid), ucast (push_bit 5 (canid AND 0x07)), 0, 0])"

definition mcp2515_buf_to_id :: "u8 list \<Rightarrow> u32 \<times> bool" where
  "mcp2515_buf_to_id f =
     (let i = push_bit 3 (ucast (f ! MCP_SIDH)) + ucast (drop_bit 5 (f ! MCP_SIDL)) :: u32 in
      if (f ! MCP_SIDL) AND MCP_TXB_EXIDE_M = MCP_TXB_EXIDE_M then
        let i1 = push_bit 2 i + ucast ((f ! MCP_SIDL) AND 0x03);
            i2 = push_bit 8 i1 + ucast (f ! MCP_EID8);
            i3 = push_bit 8 i2 + ucast (f ! MCP_EID0) in (i3, True)
      else (i, False))"

definition sendTxBuf :: "nat \<Rightarrow> (CAN, u8) smonad" where
  "sendTxBuf n = bind_m (gets_m (\<lambda>c. c)) (\<lambda>c.
     let no = if n = 4 then 0 else n in
     if no \<ge> length (txBuf c) then throw_m (out_of_bounds ''txBuf'')
     else let buf = txBuf c ! no; len = unat (buf ! 4) in
     if len > 8 then throw_m (out_of_bounds ''frame.data'')
     else then_m (modify_m (\<lambda>c. c\<lparr>can_sent := can_sent c @ [\<lparr>can_id = fst (mcp2515_buf_to_id buf), can_dlc = buf ! 4,
            can_data = take len (drop 5 buf) @ replicate (8 - len) 0\<rparr>],
          registers := (registers c)[0x30 := 0], cs_state := can_readRegister\<rparr>)) (return_m 0))"

definition readRxBuf :: "nat \<Rightarrow> (CAN, u8) smonad" where
  "readRxBuf no = bind_m (gets_m (\<lambda>c. c)) (\<lambda>c.
     let raw = rxBuf c ! no; i = unat (rx_ptr c) in
     if i \<ge> length raw then throw_m (out_of_bounds ''raw'')
     else then_m (modify_m (\<lambda>c. let c' = c\<lparr>rx_ptr := rx_ptr c + 1\<rparr> in
         if unat (rx_ptr c') > unat (raw ! 4) + 4
         then c'\<lparr>rx_ptr := 0, cs_state := can_init, can_status := can_status c AND NOT (push_bit no 1)\<rparr>
         else c')) (return_m (raw ! i)))"

definition can_write :: "u8 \<Rightarrow> (CAN, u8) smonad" where
  "can_write b = bind_m (gets_m (\<lambda>c. c)) (\<lambda>c. case cs_state c of
     can_init \<Rightarrow> then_m (modify_m (can_command b)) (return_m 0)
   | can_readRegister \<Rightarrow> can_read_register b
   | can_writeRegister \<Rightarrow> can_write_register b
   | can_bitmod \<Rightarrow> modifyRegister b
   | loadTX2 \<Rightarrow> loadTxBuf 2 b
   | loadTX1 \<Rightarrow> loadTxBuf 1 b
   | loadTX0 \<Rightarrow> loadTxBuf 0 b
   | sendALL \<Rightarrow> sendTxBuf 3
   | sendTX2 \<Rightarrow> sendTxBuf 2
   | sendTX1 \<Rightarrow> sendTxBuf 1
   | sendTX0 \<Rightarrow> sendTxBuf 0
   | readRX1 \<Rightarrow> readRxBuf 1
   | readRX0 \<Rightarrow> readRxBuf 0
   | getStatus \<Rightarrow> then_m (modify_m (\<lambda>c. c\<lparr>cs_state := can_init\<rparr>)) (return_m (can_status c)))"

text \<open>The bytes the driver reads back for a frame.\<close>

definition frame_raw :: "can_frame \<Rightarrow> u8 list" where
  "frame_raw f = mcp2515_id_to_buf (ucast (can_id f)) False @ [can_dlc f] @ take (unat (can_dlc f)) (can_data f) @
     replicate (64 - unat (can_dlc f)) 0"

definition put_rx :: "nat \<Rightarrow> can_frame \<Rightarrow> CAN \<Rightarrow> CAN" where
  "put_rx i f c = c\<lparr>rxBuf := (rxBuf c)[i := frame_raw f], can_status := can_status c OR push_bit i 1\<rparr>"

text \<open>A frame from the kernel has at most eight bytes of data.\<close>

definition enqueueIncomingCanFrame :: "can_frame \<Rightarrow> CAN \<Rightarrow> CAN" where
  "enqueueIncomingCanFrame f c =
     (if can_status c AND 3 = 3 then c
      else if can_status c AND 1 = 0 then put_rx 0 f c
      else put_rx 1 f c)"

section \<open>SH1106\<close>

datatype Operator = COL_LOW | COL_HIGH | PUMP_VOLTAGE | DISPLAY_START_LINE | CONTRAST_MODE_SET | SEGMENT_REMAP
  | ENTIRE_DISPLAY | NORMAL_INVERSE | MULTIPLEX_RATIO | DC_DC_VOLTAGE | DISPLAY_ON | PAGE_ADDR | COMMON_OUTPUT_DIR
  | DISPLAY_OFFSET | DISPLAY_DIVIDE_RATIO | DIS_PRE_CHARGE_PERIOD | COMMON_PADS_STUFF | VCOM_DESELECT | RMW | RMW_END
  | OP_NOP

definition Operators :: "Operator list" where
  "Operators = [COL_LOW, COL_HIGH, PUMP_VOLTAGE, DISPLAY_START_LINE, CONTRAST_MODE_SET, SEGMENT_REMAP, ENTIRE_DISPLAY,
     NORMAL_INVERSE, MULTIPLEX_RATIO, DC_DC_VOLTAGE, DISPLAY_ON, PAGE_ADDR, COMMON_OUTPUT_DIR, DISPLAY_OFFSET,
     DISPLAY_DIVIDE_RATIO, DIS_PRE_CHARGE_PERIOD, COMMON_PADS_STUFF, VCOM_DESELECT, RMW, RMW_END, OP_NOP]"

primrec oled_opcode :: "Operator \<Rightarrow> u8" where
    "oled_opcode COL_LOW = 0x00"
  | "oled_opcode COL_HIGH = 0x10"
  | "oled_opcode PUMP_VOLTAGE = 0x30"
  | "oled_opcode DISPLAY_START_LINE = 0x40"
  | "oled_opcode CONTRAST_MODE_SET = 0x81"
  | "oled_opcode SEGMENT_REMAP = 0xA0"
  | "oled_opcode ENTIRE_DISPLAY = 0xA4"
  | "oled_opcode NORMAL_INVERSE = 0xA6"
  | "oled_opcode MULTIPLEX_RATIO = 0xA8"
  | "oled_opcode DC_DC_VOLTAGE = 0x8B"
  | "oled_opcode DISPLAY_ON = 0xAE"
  | "oled_opcode PAGE_ADDR = 0xB0"
  | "oled_opcode COMMON_OUTPUT_DIR = 0xC0"
  | "oled_opcode DISPLAY_OFFSET = 0xD3"
  | "oled_opcode DISPLAY_DIVIDE_RATIO = 0xD5"
  | "oled_opcode DIS_PRE_CHARGE_PERIOD = 0xD9"
  | "oled_opcode COMMON_PADS_STUFF = 0xDA"
  | "oled_opcode VCOM_DESELECT = 0xDB"
  | "oled_opcode RMW = 0xE0"
  | "oled_opcode RMW_END = 0xEE"
  | "oled_opcode OP_NOP = 0xE3"

definition oled_mask :: "Operator \<Rightarrow> u8" where
  "oled_mask op =
     (if op = DISPLAY_START_LINE then 0xC0
      else if op \<in> {COL_LOW, COL_HIGH, PAGE_ADDR, COMMON_OUTPUT_DIR} then 0xF0
      else if op = PUMP_VOLTAGE then 0xFC
      else if op \<in> {SEGMENT_REMAP, ENTIRE_DISPLAY, NORMAL_INVERSE, DISPLAY_ON} then 0xFE
      else 0xFF)"

definition oled_match :: "u8 \<Rightarrow> Operator \<times> u8" where
  "oled_match cmd = (case find (\<lambda>op. (cmd XOR oled_opcode op) AND oled_mask op = 0) Operators of
     Some op \<Rightarrow> (op, cmd AND NOT (oled_mask op))
   | None \<Rightarrow> (OP_NOP, 0))"

datatype oled_mode = mode_normal | second_arg

record SS1106 =
  ol_mode :: oled_mode
  last_cmd :: "Operator \<times> u8"
  ol_changed :: bool
  ol_column :: u8
  ol_page :: u8
  pump_voltage :: u8
  contrast :: u8
  invert_color :: u8
  display_on :: u8
  ol_frame :: "u8 list list"

abbreviation (input) ol_width :: nat where "ol_width \<equiv> 132"
abbreviation (input) ol_height :: nat where "ol_height \<equiv> 64"

definition SS1106_make :: SS1106 where
  "SS1106_make = \<lparr>ol_mode = mode_normal, last_cmd = (OP_NOP, 0), ol_changed = False, ol_column = 0, ol_page = 0,
     pump_voltage = 0, contrast = 0, invert_color = 0, display_on = 0,
     ol_frame = replicate (ol_height div 8) (replicate ol_width 0)\<rparr>"

definition oled_data :: "u8 \<Rightarrow> (SS1106, u8) smonad" where
  "oled_data b = bind_m (gets_m (\<lambda>d. d)) (\<lambda>d.
     if unat (ol_column d) > ol_width then return_m (- 1)
     else if unat (ol_page d) > ol_height div 8 then return_m (- 1)
     else if \<not> (unat (ol_page d) < ol_height div 8 \<and> unat (ol_column d) < ol_width) then throw_m (out_of_bounds ''frame'')
     else then_m (modify_m (\<lambda>d. d\<lparr>ol_frame := (ol_frame d)[unat (ol_page d) :=
              (ol_frame d ! unat (ol_page d))[unat (ol_column d) := b]],
            ol_changed := True, ol_column := ol_column d + 1\<rparr>)) (return_m 0))"

definition oled_operator :: "Operator \<times> u8 \<Rightarrow> SS1106 \<Rightarrow> SS1106" where
  "oled_operator cmd d = (let payload = snd cmd in case fst cmd of
     COL_LOW \<Rightarrow> d\<lparr>ol_column := (ol_column d AND 0xf0) OR payload\<rparr>
   | COL_HIGH \<Rightarrow> d\<lparr>ol_column := (ol_column d AND 0x0f) OR push_bit 4 payload\<rparr>
   | PUMP_VOLTAGE \<Rightarrow> d\<lparr>pump_voltage := payload AND 3\<rparr>
   | CONTRAST_MODE_SET \<Rightarrow> d\<lparr>ol_mode := second_arg\<rparr>
   | NORMAL_INVERSE \<Rightarrow> d\<lparr>invert_color := payload AND 1\<rparr>
   | DISPLAY_ON \<Rightarrow> d\<lparr>display_on := payload AND 1\<rparr>
   | PAGE_ADDR \<Rightarrow> d\<lparr>ol_page := payload\<rparr>
   | _ \<Rightarrow> d)"

definition oled_command :: "u8 \<Rightarrow> SS1106 \<Rightarrow> SS1106" where
  "oled_command b d = (case ol_mode d of
     mode_normal \<Rightarrow> oled_operator (oled_match b) (d\<lparr>last_cmd := oled_match b\<rparr>)
   | second_arg \<Rightarrow>
       (if fst (last_cmd d) = CONTRAST_MODE_SET then d\<lparr>contrast := b, ol_changed := True\<rparr> else d)\<lparr>ol_mode := mode_normal\<rparr>)"

definition oled_write :: "bool \<Rightarrow> u8 \<Rightarrow> (SS1106, u8) smonad" where
  "oled_write getDCPin b = (if getDCPin then oled_data b
     else then_m (modify_m (oled_command b)) (return_m 0))"

section \<open>CAN identifiers\<close>

lemma small_bits:
  fixes i :: "'a :: len word"
  assumes "i < 2 ^ k" "bit i n"
  shows "n < k"
  using less_mask_eq [OF assms(1)] assms(2) by (metis bit_and_iff bit_mask_iff)

lemma can_masks: "(0xFFFF :: u64) = mask 16" "(7 :: u16) = mask 3" "(3 :: u8) = mask 2" "(3 :: u16) = mask 2"
  "(0xFF :: u16) = mask 8" "(0x1C :: u16) = push_bit 2 (mask 3)"
  by (simp_all add: mask_eq_exp_minus_1)

lemma bit_8: "bit (8 :: u8) n \<longleftrightarrow> n = 3"
  using bit_exp_iff [where 'a = u8, of 3 n] by auto

lemma and_8: "w AND 8 = 8 \<longleftrightarrow> bit w 3" for w :: u8
proof
  assume "bit w 3"
  then show "w AND 8 = 8" by (intro bit_eqI) (auto simp only: bit_and_iff bit_8)
next
  assume "w AND 8 = 8"
  then have "bit (w AND 8) 3" by (simp only: bit_8)
  then show "bit w 3" by (simp only: bit_and_iff)
qed

lemma bit_shift_add:
  fixes x y :: "'a :: len word"
  assumes "\<And>m. bit y m \<Longrightarrow> m < k"
  shows "bit (push_bit k x + y) n \<longleftrightarrow> (if n < k then bit y n else n < LENGTH('a) \<and> bit x (n - k))"
proof -
  have "push_bit k x AND y = 0" using assms by (intro bit_eqI) (fastforce simp: bit_simps)
  then have "push_bit k x + y = push_bit k x OR y" by (rule disjunctive_add_eq_or)
  then show ?thesis using assms [of n] by (auto simp: bit_simps)
qed

lemma id_roundtrip_std:
  assumes "i < 2048"
  shows "mcp2515_buf_to_id (mcp2515_id_to_buf i False) = (ucast i, False)"
proof -
  define c where "c = (ucast (i AND mask 16) :: u16)"
  define l where "l = (ucast (push_bit 5 (c AND mask 3)) :: u8)"
  have hi: "bit i n \<Longrightarrow> n < 11" for n using small_bits [of i 11] assms by simp
  have l: "bit l n \<longleftrightarrow> 5 \<le> n \<and> n < 8 \<and> bit i (n - 5)" for n by (auto simp: l_def c_def bit_simps)
  have "push_bit 3 (ucast (ucast (drop_bit 3 c) :: u8)) + ucast (drop_bit 5 l) = (ucast i :: u32)"
  proof (rule bit_eqI)
    fix n
    show "bit (push_bit 3 (ucast (ucast (drop_bit 3 c) :: u8)) + ucast (drop_bit 5 l) :: u32) n = bit (ucast i :: u32) n"
      using hi [of n] by (subst bit_shift_add) (auto simp: bit_simps l c_def)
  qed
  moreover have "\<not> bit l 3" by (simp add: l)
  ultimately show ?thesis
    unfolding mcp2515_buf_to_id_def mcp2515_id_to_buf_def can_masks Let_def by (simp add: and_8 c_def l_def)
qed

lemma id_roundtrip_ext:
  assumes "i < 2 ^ 29"
  shows "mcp2515_buf_to_id (mcp2515_id_to_buf i True) = (ucast i, True)"
proof -
  define c where "c = (ucast (i AND mask 16) :: u16)"
  define d where "d = (ucast (drop_bit 16 i) :: u16)"
  define l0 where "l0 = (ucast (d AND mask 2) + ucast (push_bit 3 (d AND push_bit 2 (mask 3))) :: u8)"
  have hi: "bit i n \<Longrightarrow> n < 29" for n using small_bits [of i 29] assms by simp
  have d: "bit d n \<longleftrightarrow> n < 13 \<and> bit i (16 + n)" for n using hi [of "16 + n"] by (auto simp: d_def bit_simps)
  have idx: "5 \<le> n \<Longrightarrow> Suc (Suc (n - 5)) = n - 3" for n by simp
  have "ucast (push_bit 3 (d AND push_bit 2 (mask 3))) = push_bit 5 (ucast (drop_bit 2 d AND mask 3) :: u8)"
  proof (rule bit_eqI)
    fix n
    show "bit (ucast (push_bit 3 (d AND push_bit 2 (mask 3))) :: u8) n =
      bit (push_bit 5 (ucast (drop_bit 2 d AND mask 3) :: u8)) n"
      using idx [of n] by (auto simp: bit_simps)
  qed
  then have l0: "bit l0 n \<longleftrightarrow> n < 2 \<and> bit d n \<or> 5 \<le> n \<and> n < 8 \<and> bit d (n - 3)" for n
    unfolding l0_def add.commute [of "ucast (d AND mask 2)"]
    using idx [of n] by (simp only:, subst bit_shift_add) (auto simp: bit_simps not_less)
  define l where "l = l0 OR 8"
  have l: "bit l n \<longleftrightarrow> n = 3 \<or> bit l0 n" for n unfolding l_def bit_or_iff bit_8 by auto
  define a where "a = (push_bit 3 (ucast (ucast (drop_bit 5 d) :: u8)) + ucast (drop_bit 5 l) :: u32)"
  have a: "bit a n \<longleftrightarrow> n < 11 \<and> bit i (18 + n)" for n
    unfolding a_def by (subst bit_shift_add) (auto simp: bit_simps l l0 d)
  define b where "b = push_bit 2 a + ucast (l AND mask 2)"
  have b: "bit b n \<longleftrightarrow> n < 13 \<and> bit i (16 + n)" for n
    unfolding b_def by (subst bit_shift_add) (auto simp: bit_simps l l0 d a)
  define e where "e = push_bit 8 b + ucast (ucast (drop_bit 8 c) :: u8)"
  have e: "bit e n \<longleftrightarrow> n < 21 \<and> bit i (8 + n)" for n
    unfolding e_def by (subst bit_shift_add) (auto simp: bit_simps b c_def)
  define f where "f = push_bit 8 e + ucast (ucast (c AND mask 8) :: u8)"
  have "f = ucast i"
  proof (rule bit_eqI)
    fix n
    show "bit f n = bit (ucast i :: u32) n"
      unfolding f_def using hi [of n] by (subst bit_shift_add) (auto simp: bit_simps e c_def)
  qed
  moreover have "l AND 8 = 8" by (simp add: and_8 l)
  ultimately show ?thesis
    unfolding mcp2515_buf_to_id_def mcp2515_id_to_buf_def can_masks Let_def
    by (simp add: f_def e_def b_def a_def l_def l0_def c_def d_def)
qed
section \<open>Receiving a frame\<close>

fun can_transfer :: "u8 list \<Rightarrow> (CAN, u8 list) smonad" where
    "can_transfer [] = return_m []"
  | "can_transfer (b # bs) = bind_m (can_write b) (\<lambda>r. bind_m (can_transfer bs) (\<lambda>rs. return_m (r # rs)))"

lemma length_id_buf [simp]: "length (mcp2515_id_to_buf i ext) = 4"
  by (simp add: mcp2515_id_to_buf_def Let_def)

lemma frame_raw_shape:
  assumes "length (can_data f) = 8" "unat (can_dlc f) \<le> 8"
  shows "length (frame_raw f) = 69" "frame_raw f ! 4 = can_dlc f"
  using assms by (simp_all add: frame_raw_def nth_append)

text \<open>Reading on from position \<open>k\<close> of a receive buffer until it is exhausted.\<close>

lemma can_drain:
  assumes "cs_state c = (if no = 0 then readRX0 else readRX1)" "no < 2" "rxBuf c ! no = raw" "length raw = 69"
    "unat (raw ! 4) \<le> 8" "unat (rx_ptr c) = k" "k + m = unat (raw ! 4) + 5" "0 < m"
  shows "can_transfer (replicate m 0) c = (Inr (take m (drop k raw)),
    c\<lparr>rx_ptr := 0, cs_state := can_init, can_status := can_status c AND NOT (push_bit no 1)\<rparr>)"
  using assms
proof (induction m arbitrary: c k)
  case (Suc m)
  let ?c = "c\<lparr>rx_ptr := rx_ptr c + 1\<rparr>"
  have k: "k \<le> 12" using Suc.prems by simp
  then have ptr: "unat (rx_ptr c + 1) = Suc k" using Suc.prems(6) by (simp add: unat_word_ariths)
  have wr: "can_write 0 c = readRxBuf no c"
    using Suc.prems(1,2) by (cases "no = 0") (auto simp: can_write_def less_2_cases_iff)
  have split: "take (Suc m) (drop k raw) = raw ! k # take m (drop (Suc k) raw)"
    using k Suc.prems(4) by (simp add: Cons_nth_drop_Suc [symmetric])
  show ?case
  proof (cases "m = 0")
    case True
    then show ?thesis using Suc.prems k ptr split
      by (simp add: bind_m_apply wr readRxBuf_def Let_def)
  next
    case False
    have "readRxBuf no c = (Inr (raw ! k), ?c)"
      using Suc.prems k ptr False by (simp add: readRxBuf_def Let_def)
    moreover have "can_transfer (replicate m 0) ?c = (Inr (take m (drop (Suc k) raw)),
      ?c\<lparr>rx_ptr := 0, cs_state := can_init, can_status := can_status ?c AND NOT (push_bit no 1)\<rparr>)"
      using Suc.prems ptr False by (intro Suc.IH) simp_all
    ultimately show ?thesis by (simp add: bind_m_apply wr split)
  qed
qed simp

section \<open>The display\<close>

lemma oled_operators_disjoint:
  "list_all (\<lambda>n. length (filter (\<lambda>op. (word_of_nat n XOR oled_opcode op) AND oled_mask op = 0) Operators) \<le> 1) [0..<256]"
  by code_simp

end
