(* ===== verification/Hifive_System.thy ===== *)
theory Hifive_System
  imports Symex_System Plic Gpio Serial_Devices Real_Clint Spi_Devices
begin

text \<open>
  The HiFive platform (\<^verbatim>\<open>platform/hifive/hifive_main.cpp\<close>): the hart of the SymEx platform with the FE310
  peripherals on a bus with fourteen ports, the PLIC between their interrupts and the hart, and the
  CAN controller and the display behind the second SPI controller. The record \<open>hifive_kernel\<close> adds the
  host's clock to what the platform uses of SystemC. As on the SymEx platform, the first argument of
  \<open>hifive_transport\<close> bounds the nesting of bus transactions.
\<close>

section \<open>Devices\<close>

datatype spi_device = DevCAN | DevOLED

record ('v, 'c) hifive_devices =
  hd_flash :: SimpleMemory
  hd_dram :: "'c SymbolicMemory"
  hd_plic :: FE310_PLIC
  hd_clint :: RealCLINT
  hd_aon :: AON
  hd_prci :: PRCI
  hd_spi0 :: "spi_device SPI"
  hd_uart0 :: AbstractUART
  hd_gpio0 :: GPIO
  hd_spi1 :: "spi_device SPI"
  hd_spi2 :: "spi_device SPI"
  hd_uart1 :: "'v SymbolicUART"
  hd_ctrl :: SymbolicCTRL
  hd_can :: CAN
  hd_oled :: SS1106

type_synonym ('v, 'e, 'c) hsys = "('v, 'e, ('v, 'c) hifive_devices) mhart"

record ('v, 'e, 'c) hifive_kernel =
  hk_kernel :: "('v, 'e, ('v, 'c) hifive_devices) sim_kernel"
  hk_now :: "('v, 'e, 'c) hsys \<Rightarrow> u64"

definition dev_part :: "('d \<Rightarrow> 'x) \<Rightarrow> (('x \<Rightarrow> 'x) \<Rightarrow> 'd \<Rightarrow> 'd) \<Rightarrow> ('x, ('v, 'e, 'd) mhart) part" where
  "dev_part get upd = \<lparr>part_get = (\<lambda>h. get (devices h)), part_upd = (\<lambda>f. upd_devices (upd f))\<rparr>"

text \<open>An operation of one device, run on its part of the system state.\<close>

definition run_at :: "('c, 's) part \<Rightarrow> ('c, 'a) smonad \<Rightarrow> ('s, 'a) smonad" where
  "run_at p m s = (case m (part_get p s) of (r, c) \<Rightarrow> (r, part_upd p (\<lambda>_. c) s))"

section \<open>Interrupts\<close>

abbreviation (input) INT_GPIO_BASE :: u32 where "INT_GPIO_BASE \<equiv> 8"

definition hifive_plic_cfg :: plic_cfg where
  "hifive_plic_cfg = \<lparr>NumberCores = 1, NumberInterrupts = 53, NumberInterruptEntries = 64, MaxPriority = 7\<rparr>"

definition hifive_plic :: "('v, 'e, 'c) hifive_kernel \<Rightarrow> ('v, 'e, 'c) hsys plic_env" where
  "hifive_plic K = \<lparr>pe_part = dev_part hd_plic hd_plic_update, pe_time_stamp = sk_time (hk_kernel K),
     pe_trigger_external_interrupt = (\<lambda>_. trigger_external_interrupt MachineMode),
     pe_clear_external_interrupt = (\<lambda>_. clear_external_interrupt MachineMode)\<rparr>"

definition hifive_gateway :: "('v, 'e, 'c) hifive_kernel \<Rightarrow> u32 \<Rightarrow> (('v, 'e, 'c) hsys, unit) smonad" where
  "hifive_gateway K = gateway_trigger_interrupt hifive_plic_cfg (hifive_plic K)"

definition hifive_clint :: "('v, 'e, 'c) hifive_kernel \<Rightarrow> ('v, 'e, 'c) hsys real_clint_env" where
  "hifive_clint K = \<lparr>rc_part = dev_part hd_clint hd_clint_update, rc_harts = 1, rc_now = hk_now K,
     rc_trigger_timer_interrupt = (\<lambda>_. trigger_timer_interrupt),
     rc_trigger_software_interrupt = (\<lambda>_. trigger_software_interrupt)\<rparr>"

text \<open>The processes of the peripherals that run when their events are notified.\<close>

definition hifive_gpio_method :: "('v, 'e, 'c) hifive_kernel \<Rightarrow> (nat \<times> u8) list list \<Rightarrow> (('v, 'e, 'c) hsys, unit) smonad" where
  "hifive_gpio_method K rounds =
     then_m (modify_at (dev_part hd_gpio0 hd_gpio0_update) (gp_asyncEvent_update (\<lambda>_. False)))
       (synchronousChange (dev_part hd_gpio0 hd_gpio0_update) (hifive_gateway K) INT_GPIO_BASE rounds)"

definition hifive_uart0_method :: "('v, 'e, 'c) hifive_kernel \<Rightarrow> (('v, 'e, 'c) hsys, unit) smonad" where
  "hifive_uart0_method K = uart_interrupt (dev_part hd_uart0 hd_uart0_update) (hifive_gateway K)"

definition hifive_uart1_method :: "('v, 'e, 'c) hifive_kernel \<Rightarrow> (('v, 'e, 'c) hsys, unit) smonad" where
  "hifive_uart1_method K = sym_uart_interrupt (dev_part hd_uart1 hd_uart1_update) (hifive_gateway K)"

definition hifive_plic_run :: "('v, 'e, 'c) hifive_kernel \<Rightarrow> (('v, 'e, 'c) hsys, unit) smonad" where
  "hifive_plic_run K = plic_run_iteration hifive_plic_cfg (hifive_plic K)"

section \<open>The bus\<close>

definition hifive_ports :: "PortMapping list" where
  "hifive_ports =
    [PortMapping_of 0x20000000 0x3fffffff, PortMapping_of 0x80000000 0x80003fff,
     PortMapping_of 0x0C000000 0x0FFFFFFF, PortMapping_of 0x02000000 0x0200FFFF,
     PortMapping_of 0x10000000 0x10007FFF, PortMapping_of 0x10008000 0x1000FFFF,
     PortMapping_of 0x10014000 0x10014FFF, PortMapping_of 0x10013000 0x10013FFF,
     PortMapping_of 0x00001000 0x00001FFF, PortMapping_of 0x10012000 0x10012FFF,
     PortMapping_of 0x10024000 0x10024FFF, PortMapping_of 0x10034000 0x10034FFF,
     PortMapping_of 0x10023000 0x10023FFF, PortMapping_of 0x02020000 0x02020032]"

text \<open>The data/command pin of the display is pin 10 of the GPIO controller.\<close>

definition spi_device_write :: "spi_device \<Rightarrow> u8 \<Rightarrow> (('v, 'e, 'c) hsys, u8) smonad" where
  "spi_device_write d b = (case d of
     DevCAN \<Rightarrow> run_at (dev_part hd_can hd_can_update) (can_write b)
   | DevOLED \<Rightarrow> bind_m (gets_m (\<lambda>h. gp_value (hd_gpio0 (devices h)) AND push_bit 10 1 \<noteq> 0)) (\<lambda>dc.
       run_at (dev_part hd_oled hd_oled_update) (oled_write dc b)))"

definition hifive_ctrl ::
  "('v, 'e, 'c) hifive_kernel \<Rightarrow> (u32 \<Rightarrow> nat \<Rightarrow> (('v, 'e, 'c) hsys, unit) smonad) \<Rightarrow> ('v, 'e, 'c) hsys ctrl_env" where
  "hifive_ctrl K mk = \<lparr>ct_get = \<lambda>h. hd_ctrl (devices h), ct_update = \<lambda>f. upd_devices (hd_ctrl_update f),
     symif_make_symbolic = mk, symif_sys_exit = sys_exit, report_host_error = sk_report_error (hk_kernel K)\<rparr>"

definition hifive_kernel_of ::
  "('v, 'e, 'c) hifive_kernel \<Rightarrow> ('v, 'e, ('v, ('v, 'c) hifive_devices) mem_world) kernel" where
  "hifive_kernel_of K = \<lparr>k_update_and_get_mtime = rc_update_and_get_mtime (hifive_clint K),
     k_getSymbolicBytes = sk_getSymbolicBytes (hk_kernel K), k_wait_wfi_event = sk_wait_wfi_event (hk_kernel K),
     k_quantum_inc = sk_quantum_inc (hk_kernel K), k_quantum_need_sync = sk_quantum_need_sync (hk_kernel K),
     k_quantum_sync = sk_quantum_sync (hk_kernel K)\<rparr>"

definition hifive_env_of ::
  "('v, 'e, 'c) hifive_kernel \<Rightarrow> ('v, ('v, 'e, 'c) hsys) target \<Rightarrow> ('v, 'e, ('v, 'c) hifive_devices) mem_env" where
  "hifive_env_of K transport = \<lparr>b_transport = transport, wait_lock_event = sk_wait_lock_event (hk_kernel K),
     same_object = sk_same_object (hk_kernel K), dmi_ranges = [], has_mmu = False, page_fault_on_AD = False\<rparr>"

definition hifive_sockets ::
  "('v, 'e) clover \<Rightarrow> ('v, 'c) concolic_memory \<Rightarrow> ('v, 'e, 'c) hifive_kernel \<Rightarrow>
   (u32 \<Rightarrow> nat \<Rightarrow> (('v, 'e, 'c) hsys, unit) smonad) \<Rightarrow> ('v, ('v, 'e, 'c) hsys) target list" where
  "hifive_sockets cv cm K mk =
    [\<lambda>t. run_at (dev_part hd_flash hd_flash_update) (sm_transport_dbg t),
     \<lambda>t. run_at (dev_part hd_dram hd_dram_update) (sym_transport_dbg cv cm t),
     plic_transport hifive_plic_cfg (hifive_plic K),
     rc_transport (hifive_clint K),
     aon_transport (dev_part hd_aon hd_aon_update),
     prci_transport (dev_part hd_prci hd_prci_update),
     spi_transport (dev_part hd_spi0 hd_spi0_update) spi_device_write,
     uart_transport (dev_part hd_uart0 hd_uart0_update),
     mrom_transport,
     gpio_transport (dev_part hd_gpio0 hd_gpio0_update),
     spi_transport (dev_part hd_spi1 hd_spi1_update) spi_device_write,
     spi_transport (dev_part hd_spi2 hd_spi2_update) spi_device_write,
     sym_uart_transport cv (dev_part hd_uart1 hd_uart1_update),
     ctrl_transport (hifive_ctrl K mk)]"

fun hifive_transport ::
  "('v, 'e) clover \<Rightarrow> ('v, 'c) concolic_memory \<Rightarrow> ('v, 'e, 'c) hifive_kernel \<Rightarrow> nat \<Rightarrow>
   ('v, ('v, 'e, 'c) hsys) target" where
    "hifive_transport cv cm K 0 t = throw_m (RuntimeError ''nested bus transactions'')"
  | "hifive_transport cv cm K (Suc n) t =
      (let pl = mem_platform cv (hifive_env_of K (hifive_transport cv cm K n)) (hifive_kernel_of K) in
       bus_transport hifive_ports (hifive_sockets cv cm K (make_symbolic cv pl)) t)"

definition hifive_platform ::
  "('v, 'e) clover \<Rightarrow> ('v, 'c) concolic_memory \<Rightarrow> ('v, 'e, 'c) hifive_kernel \<Rightarrow> nat \<Rightarrow>
   ('v, 'e, ('v, ('v, 'c) hifive_devices) mem_world) platform" where
  "hifive_platform cv cm K n =
     mem_platform cv (hifive_env_of K (hifive_transport cv cm K n)) (hifive_kernel_of K)"

definition hifive_devices_make ::
  "SimpleMemory \<Rightarrow> 'c \<Rightarrow> 'v list \<Rightarrow> u64 \<Rightarrow> CAN \<Rightarrow> bool \<Rightarrow> ('v, 'c) hifive_devices" where
  "hifive_devices_make flash img input pins can enable_can =
     \<lparr>hd_flash = flash, hd_dram = \<lparr>sym_size = 0x4000, sym_memory = img\<rparr>, hd_plic = FE310_PLIC_make hifive_plic_cfg,
      hd_clint = RealCLINT_make 1, hd_aon = AON_make, hd_prci = PRCI_make, hd_spi0 = SPI_make,
      hd_uart0 = AbstractUART_make 3, hd_gpio0 = GPIO_make pins,
      hd_spi1 = spi_connect 2 DevOLED (if enable_can then spi_connect 0 DevCAN SPI_make else SPI_make),
      hd_spi2 = SPI_make, hd_uart1 = SymbolicUART_make 4 input, hd_ctrl = SymbolicCTRL_make, hd_can = can,
      hd_oled = SS1106_make\<rparr>"

definition hifive_init ::
  "('v, 'e) clover \<Rightarrow> ('v, 'c) hifive_devices \<Rightarrow> u32 \<Rightarrow> (error + unit) \<times> ('v, 'e, 'c) hsys" where
  "hifive_init cv ds entrypoint = ISS_init cv entrypoint (0x80003fff - 0x80003fff mod 4)
     (ISS_construct cv 0 False
       \<lparr>w_bus_lock = BusLock_init, w_lr_addr = None, w_tlb = \<lambda>_ _ _. empty_entry, w_devices = ds\<rparr>)"

section \<open>The parts of the system\<close>

declare devices_upd [simp]

lemma upd_devices_twice [simp]: "upd_devices g (upd_devices f h) = upd_devices (\<lambda>d. g (f d)) h"
  by (simp add: devices_def upd_devices_def)

lemma dev_part_simps [simp]:
  "part_get (dev_part g u) h = g (devices h)" "part_upd (dev_part g u) f h = upd_devices (u f) h"
  by (simp_all add: dev_part_def)

lemma dev_part_lens:
  assumes "\<And>f d. get (upd f d) = f (get d)" and "\<And>f g d. upd g (upd f d) = upd (\<lambda>c. g (f c)) d"
    and "\<And>f g d. f (get d) = g (get d) \<Longrightarrow> upd f d = upd g d"
  shows "part (dev_part get upd)"
  by unfold_locales (auto simp: assms(1,2) intro!: upd_devices_cong assms(3))

interpretation hifive_gpio_part: part "dev_part hd_gpio0 hd_gpio0_update"
  by (rule dev_part_lens) (simp_all add: comp_def hifive_devices.defs)

end
