(* ===== verification/Hifive_Laws.thy ===== *)
theory Hifive_Laws
  imports Symex_Laws Hifive_System
begin

text \<open>
  The HiFive platform keeps the contract of the memory interface as well: every one of its fourteen bus
  targets answers within the limits of \<open>response_ok\<close> and touches only the outside of the core. The lemmas
  are stated per layer (register banks, register ranges, devices), so that each peripheral follows
  from the rules of its layer; the locale \<open>hifive_laws\<close> states what the platform relies on from SystemC,
  the host and clover.
\<close>

section \<open>Errors of the peripherals\<close>

definition peripheral_asserts :: "string list" where
  "peripheral_asserts =
    [''mode.can_write()'', ''mode.can_read()'', ''len + (addr % 4) <= 4'',
     ''cmd == TLM_READ_COMMAND || cmd == TLM_WRITE_COMMAND'',
     ''r.mode.can_read() || cmd != TLM_READ_COMMAND'', ''r.mode.can_write() || cmd != TLM_WRITE_COMMAND'',
     ''addr + num_bytes <= size'', ''addr < size'', ''unsupported tlm command'', ''false'',
     ''irq_id < NumberInterrupts'', ''t.size == 4'', ''hart_eip[idx]'', ''info.addr % 4 == 0'']"

definition peripheral_error :: "error \<Rightarrow> bool" where
  "peripheral_error e \<longleftrightarrow> device_error e \<or> (\<exists>m. e = RuntimeError m) \<or>
     (\<exists>m\<in>set peripheral_asserts. e = AssertFail m)"

lemma peripheral_error_simps [simp]:
  "peripheral_error (RuntimeError m)"
  "device_error e \<Longrightarrow> peripheral_error e"
  "peripheral_error (AssertFail ''mode.can_write()'')" "peripheral_error (AssertFail ''mode.can_read()'')"
  "peripheral_error (AssertFail ''len + (addr % 4) <= 4'')"
  "peripheral_error (AssertFail ''cmd == TLM_READ_COMMAND || cmd == TLM_WRITE_COMMAND'')"
  "peripheral_error (AssertFail ''r.mode.can_read() || cmd != TLM_READ_COMMAND'')"
  "peripheral_error (AssertFail ''r.mode.can_write() || cmd != TLM_WRITE_COMMAND'')"
  "peripheral_error (AssertFail ''addr + num_bytes <= size'')" "peripheral_error (AssertFail ''addr < size'')"
  "peripheral_error (AssertFail ''unsupported tlm command'')" "peripheral_error (AssertFail ''false'')"
  "peripheral_error (AssertFail ''irq_id < NumberInterrupts'')" "peripheral_error (AssertFail ''t.size == 4'')"
  "peripheral_error (AssertFail ''hart_eip[idx]'')" "peripheral_error (AssertFail ''info.addr % 4 == 0'')"
  by (simp_all add: peripheral_error_def peripheral_asserts_def)

lemma peripheral_error_no_trap: "peripheral_error e \<Longrightarrow> \<not> (\<exists>r v. e = SimulationTrap r v)"
  by (auto simp: peripheral_error_def device_error_def mem_error_def)

section \<open>Parts outside the core\<close>

definition hidden :: "('c, ('v, 'e, 'm) hart) part \<Rightarrow> bool" where
  "hidden p \<longleftrightarrow> (\<forall>f h. outside h (part_upd p f h))"

lemma hidden_dev_part [simp]: "hidden (dev_part get upd)"
  by (simp add: hidden_def)

lemma contained_gets_at [contained_rules]: "(\<And>h. contained E (k (f (part_get p h))) Q) \<Longrightarrow> contained E (bind_m (gets_at p f) k) Q"
  unfolding gets_at_def by (rule contained_bind_gets)

lemma contained_at_part [contained_rules]:
  "(\<And>h. Q (f (part_get p h))) \<Longrightarrow> contained E (gets_at p f) Q"
  unfolding gets_at_def by (rule contained_gets)

lemma contained_modify_at: "hidden p \<Longrightarrow> Q () \<Longrightarrow> contained E (modify_at p f) Q"
  unfolding modify_at_def hidden_def by (rule contained_modify) simp_all

lemma contained_run_at:
  assumes "hidden p" and "\<And>c e c'. m c = (Inl e, c') \<Longrightarrow> E e" and "\<And>c x c'. m c = (Inr x, c') \<Longrightarrow> Q x"
  shows "contained E (run_at p m) Q"
  using assms(1)
  by (intro containedI)
    (auto simp: run_at_def hidden_def split: prod.splits dest: assms(2,3))

section \<open>Register banks\<close>

definition handler_ok :: "('v, 'e) clover \<Rightarrow> (error \<Rightarrow> bool) \<Rightarrow> ('v, ('v, 'e, 'm) hart) reg_handler \<Rightarrow> bool" where
  "handler_ok cv E H \<longleftrightarrow> (\<forall>ra t fn. ra_read ra = (p_command t = TLM_READ_COMMAND) \<longrightarrow>
     ra_write ra = (p_command t = TLM_WRITE_COMMAND) \<longrightarrow>
     contained E fn (response_ok cv t) \<longrightarrow> contained E (H ra t fn) (response_ok cv t))"

lemma contained_register_fn:
  assumes "hidden p" and err: "\<And>e. peripheral_error e \<Longrightarrow> E e"
  shows "contained E (register_fn (reg_at p r) t) (response_ok cv t)"
proof -
  have put: "contained E (modify_m (rm_vput (reg_at p r) v)) (\<lambda>_. True)" for v
    using assms(1) by (intro contained_modify) (simp_all add: reg_at_def hidden_def)
  show ?thesis
    unfolding register_fn_def Let_def bus_read_def bus_write_def
    by (cases "p_command t")
      (auto simp: response_ok_def then_m_def [symmetric]
        intro!: contained_rules contained_bind_any contained_assert put err)
qed

lemma contained_register_bank:
  assumes "hidden p" and "handler_ok cv E H" and err: "\<And>e. peripheral_error e \<Longrightarrow> E e"
  shows "contained E (register_try_handle (map (reg_at p) bank) H t)
    (\<lambda>r. case r of None \<Rightarrow> True | Some t' \<Rightarrow> response_ok cv t t')"
proof (cases "find (\<lambda>r. rm_addr r = p_address t - p_address t mod 4) (map (reg_at p) bank)")
  case None
  then show ?thesis by (simp add: register_try_handle_def contained_return)
next
  case (Some q)
  then obtain r where q: "q = reg_at p r" using find_SomeD [OF Some] by auto
  have "contained E (register_fn q t) (response_ok cv t)"
    unfolding q by (rule contained_register_fn [OF assms(1)]) (rule err)
  then have "contained E (H (access_of q t) t (register_fn q t)) (response_ok cv t)"
    using assms(2) unfolding handler_ok_def by (simp add: access_of_def)
  then show ?thesis
    using Some unfolding register_try_handle_def Let_def access_of_def
    by (auto intro!: contained_rules contained_assert contained_bind [where P = "response_ok cv t"] err)
qed

lemma router_ok:
  assumes "hidden p" and "handler_ok cv (platform_error PE) H"
    and err: "\<And>e. peripheral_error e \<Longrightarrow> platform_error PE e"
  shows "target_ok cv PE (router_transport name [RegisterMapping (map (reg_at p) bank) H])"
  unfolding target_ok_def
proof
  fix t
  show "contained (platform_error PE) (router_transport name [RegisterMapping (map (reg_at p) bank) H] t) (response_ok cv t)"
    by (auto split: option.splits intro!: contained_rules err
        contained_bind [OF contained_register_bank [OF assms(1,2) err]])
qed

text \<open>The access itself, inside a handler.\<close>

lemma contained_access:
  "contained E fn (response_ok cv t) \<Longrightarrow> (\<And>t'. response_ok cv t t' \<Longrightarrow> contained E (k t') Q) \<Longrightarrow> contained E (bind_m fn k) Q"
  by (rule contained_bind)

lemmas handler_rules = contained_then contained_when contained_if contained_gets_at contained_modify_at
  contained_return contained_access

section \<open>Registers without devices\<close>

lemma aon_ok: "(\<And>e. peripheral_error e \<Longrightarrow> platform_error PE e) \<Longrightarrow> hidden p \<Longrightarrow> target_ok cv PE (aon_transport p)"
  unfolding aon_transport_def by (rule router_ok) (simp_all add: handler_ok_def aon_register_access_callback_def)

lemma prci_ok: "(\<And>e. peripheral_error e \<Longrightarrow> platform_error PE e) \<Longrightarrow> hidden p \<Longrightarrow> target_ok cv PE (prci_transport p)"
  unfolding prci_transport_def
  by (rule router_ok)
    (auto simp: handler_ok_def prci_register_access_callback_def intro!: handler_rules)

lemma gpio_ok: "(\<And>e. peripheral_error e \<Longrightarrow> platform_error PE e) \<Longrightarrow> hidden p \<Longrightarrow> target_ok cv PE (gpio_transport p)"
  unfolding gpio_transport_def
  by (rule router_ok)
    (auto simp: handler_ok_def gpio_register_access_callback_def intro!: handler_rules)

lemma uart_ok: "(\<And>e. peripheral_error e \<Longrightarrow> platform_error PE e) \<Longrightarrow> hidden p \<Longrightarrow> target_ok cv PE (uart_transport p)"
  unfolding uart_transport_def
  by (rule router_ok)
    (auto simp: handler_ok_def uart_register_access_callback_def intro!: handler_rules)

section \<open>SPI devices\<close>

lemmas spi_device_defs = can_write_def can_read_register_def can_write_register_def modifyRegister_def loadTxBuf_def
  sendTxBuf_def readRxBuf_def oled_write_def oled_data_def out_of_bounds_def

lemma spi_device_errors:
  "can_write b c = (Inl e, c') \<Longrightarrow> peripheral_error e" "oled_write dc b d = (Inl e, d') \<Longrightarrow> peripheral_error e"
  by (auto simp: spi_device_defs Let_def bind_m_apply then_m_apply split: can_state.splits loadtx_state.splits
      modreg_state.splits if_splits)

lemma spi_device_contained:
  assumes "\<And>e. peripheral_error e \<Longrightarrow> E e"
  shows "contained E (spi_device_write d b) (\<lambda>_. True)"
  unfolding spi_device_write_def
  by (cases d) (auto intro!: contained_rules contained_run_at assms dest: spi_device_errors)

lemma spi_ok:
  assumes err: "\<And>e. peripheral_error e \<Longrightarrow> platform_error PE e" and p: "hidden p"
  shows "target_ok cv PE (spi_transport p spi_device_write)"
proof -
  have rd: "contained (platform_error PE) (spi_read_rxdata p) (\<lambda>_. True)"
    unfolding spi_read_rxdata_def using p
    by (auto split: option.split list.split intro!: handler_rules)
  have wr: "contained (platform_error PE) (spi_write_txdata p spi_device_write) (\<lambda>_. True)"
    unfolding spi_write_txdata_def using p
    by (auto split: option.split intro!: contained_gets_at contained_then contained_modify_at contained_return
        contained_bind_any spi_device_contained err)
  have "handler_ok cv (platform_error PE) (spi_register_access_callback p spi_device_write)"
    using rd wr by (auto simp: handler_ok_def spi_register_access_callback_def intro!: handler_rules)
  then show ?thesis unfolding spi_transport_def by (rule router_ok [OF p _ err])
qed

section \<open>Memories\<close>

lemma flash_ok:
  assumes "\<And>e. peripheral_error e \<Longrightarrow> platform_error PE e" and "hidden p"
  shows "target_ok cv PE (\<lambda>t. run_at p (sm_transport_dbg t))"
  unfolding target_ok_def
  by (intro allI contained_run_at assms)
    (auto simp: sm_transport_dbg_def sm_write_data_def sm_read_data_def assert_m_def Let_def bind_m_apply then_m_apply
      response_ok_def split: tlm_command.splits if_splits)

lemma mrom_offset:
  assumes "\<not> a < configStringOffs" "a < configStringOffs + word_of_nat (length configString)"
  shows "unat (a - configStringOffs) < length configString"
proof -
  have len: "length configString = 90" by code_simp
  have "unat (configStringOffs + 90) = unat configStringOffs + 90" by (simp add: configStringOffs_def)
  with assms show ?thesis
    by (simp add: len unat_sub word_less_nat_alt word_le_nat_alt not_less)
qed

lemma mrom_cut_le: "k < length configString \<Longrightarrow> unat (mrom_cut k n) \<le> n"
proof -
  assume k: "k < length configString"
  have le: "unat (word_of_nat m :: u8) \<le> m" for m by (simp add: unat_of_nat)
  show ?thesis
    unfolding mrom_cut_def using le [of n] order.trans [OF le, of "k + n - length configString" n] k
    by (cases "k + n \<le> length configString") (simp_all del: of_nat_add of_nat_diff)
qed

lemma mrom_ok:
  assumes "\<And>e. peripheral_error e \<Longrightarrow> platform_error PE e"
  shows "target_ok cv PE mrom_transport"
proof -
  have cut: "length (list_write 0 (mem_read k (unat (mrom_cut k (length xs))) bs)
      (list_write (unat (mrom_cut k (length xs))) (replicate (length xs - unat (mrom_cut k (length xs))) 0) xs)) = length xs"
    if "k < length configString" for k bs and xs :: "u8 list"
    using mrom_cut_le [OF that, of "length xs"] by (simp add: list_write_def)
  show ?thesis
    unfolding target_ok_def mrom_transport_def Let_def
    using assms
    by (auto simp: response_ok_def cut mrom_offset list_write_def [where bs = "u32_to_bytes _"] intro!: contained_if contained_return contained_throw)
qed

section \<open>Interrupt controllers\<close>

lemma contained_external:
  "contained E (trigger_external_interrupt level) (\<lambda>_. True)" "contained E (clear_external_interrupt level) (\<lambda>_. True)"
  unfolding trigger_external_interrupt_def clear_external_interrupt_def upd_csrs_def
  by (intro contained_modify; simp add: set_external_interrupt_def)+

lemma contained_next_pending:
  assumes "\<And>e. peripheral_error e \<Longrightarrow> E e"
  shows "contained E (next_pending_loop q hart thr is m p) (\<lambda>_. True)"
  by (induction "is" arbitrary: m p)
    (auto simp: Let_def intro!: contained_rules contained_assert assms)

lemma plic_ok:
  assumes err: "\<And>e. peripheral_error e \<Longrightarrow> platform_error PE e"
  shows "target_ok cv PE (plic_transport hifive_plic_cfg (hifive_plic K))"
proof -
  have d: "device_error e \<Longrightarrow> platform_error PE e" for e by (simp add: err)
  have "list_all (range_ok (platform_error PE)) (plic_ranges hifive_plic_cfg (hifive_plic K))"
    by (auto simp: plic_ranges_def range_ok_def hifive_plic_def pre_callback_def post_callback_def Let_def
        post_write_interrupt_priorities_def pre_read_hart_config_def post_write_hart_config_def
        hart_get_next_pending_interrupt_def hart_has_pending_enabled_interrupts_def plic_index_def
        clear_pending_interrupt_def
        intro!: contained_rules contained_modify_at contained_bind_any contained_assert contained_external
          contained_next_pending err)
  from route_target_ok [OF this d] show ?thesis
    by (simp add: target_ok_def plic_transport_def)
qed

lemma rc_mtime_contained: "contained E (rc_update_and_get_mtime (hifive_clint K)) (\<lambda>_. True)"
  unfolding rc_update_and_get_mtime_def hifive_clint_def
  by (auto intro!: contained_rules contained_modify_at)

lemma rc_ok:
  assumes err: "\<And>e. peripheral_error e \<Longrightarrow> platform_error PE e"
  shows "target_ok cv PE (rc_transport (hifive_clint K))"
proof -
  have d: "device_error e \<Longrightarrow> platform_error PE e" for e by (simp add: err)
  note m = rc_mtime_contained [of _ K]
  have cmp: "contained (platform_error PE) (rc_post_write_mtimecmp (hifive_clint K) a n) (\<lambda>_. True)" for a n
    unfolding rc_post_write_mtimecmp_def Let_def ArrayView_at_def check_at_def
    by (auto simp: hifive_clint_def [of K] out_of_range_def intro!: contained_rules contained_modify_at contained_bind_any contained_assert
        contained_lines m [unfolded hifive_clint_def One_nat_def] err)
  have sip: "contained (platform_error PE) (rc_post_write_msip (hifive_clint K) a n) (\<lambda>_. True)" for a n
    unfolding rc_post_write_msip_def Let_def ArrayView_at_def check_at_def
    by (auto simp: hifive_clint_def [of K] out_of_range_def intro!: contained_rules contained_modify_at contained_bind_any contained_assert
        contained_lines err)
  have "list_all (range_ok (platform_error PE)) (rc_ranges (hifive_clint K))"
    using cmp sip m
    by (auto simp: rc_ranges_def range_ok_def pre_callback_def post_callback_def rc_post_write_mtime_def rc_pre_read_mtime_def
        hifive_clint_def intro!: contained_rules)
  from route_target_ok [OF this d] show ?thesis
    by (simp add: target_ok_def rc_transport_def)
qed

section \<open>The platform\<close>

locale hifive_laws = clover_laws cv ev sem cur + concolic_memory_laws cv ev cm + sim_kernel_laws cv "hk_kernel K" PE
  for cv :: "('v, 'e) clover" and ev :: "'a \<Rightarrow> 'v \<Rightarrow> nat" and sem :: "'a \<Rightarrow> 'e \<Rightarrow> nat" and cur :: 'a
    and cm :: "('v, 'c) concolic_memory" and K :: "('v, 'e, 'c) hifive_kernel" and PE :: "error \<Rightarrow> bool" +
  assumes PE_peripheral: "peripheral_error e \<Longrightarrow> PE e"
    and zext_width: "getWidth cv (c_zext cv x 32) = 32"
begin

lemma peripheral_platform: "peripheral_error e \<Longrightarrow> platform_error PE e"
  by (intro PE_platform PE_peripheral)

lemma dram_ok: "target_ok cv PE (\<lambda>t. run_at (dev_part hd_dram hd_dram_update) (sym_transport_dbg cv cm t))"
proof -
  have len: "length (BVCToBytes cv x n) = n" for x n by (simp add: BVCToBytes_law)
  show ?thesis
    unfolding target_ok_def
    by (intro allI contained_run_at)
      (auto simp: sym_transport_dbg_def sym_read_data_def sym_write_data_def Let_def response_ok_def load_width len
        bind_m_apply then_m_apply peripheral_platform split: tlm_command.splits if_splits)
qed

lemma sym_uart_ok: "target_ok cv PE (sym_uart_transport cv (dev_part hd_uart1 hd_uart1_update))"
proof -
  have ext: "getWidth cv x \<le> 32" if "sym_uart_before_read cv v u = (u', Some x)" for v x and u u' :: "'v SymbolicUART"
    using that by (auto simp: sym_uart_before_read_def zext_width Let_def split: if_splits list.splits)
  have ok: "response_ok cv t (t'\<lparr>p_extension := Some x\<rparr>)" if "response_ok cv t t'" "getWidth cv x \<le> 32" for t t' x
    using that by (auto simp: response_ok_def)
  have "handler_ok cv (platform_error PE) (sym_uart_register_access_callback cv (dev_part hd_uart1 hd_uart1_update))"
    unfolding handler_ok_def sym_uart_register_access_callback_def
    by (auto intro!: ok [OF _ ext] split: prod.splits option.splits if_splits intro!: handler_rules)
  then show ?thesis unfolding sym_uart_transport_def by (rule router_ok [OF hidden_dev_part _ peripheral_platform])
qed

lemma hifive_env_laws:
  assumes "target_ok cv PE T"
  shows "mem_env_laws cv ev sem cur (hifive_env_of K T) (hifive_kernel_of K) PE"
  by unfold_locales
    (use assms PE_no_trap PE_device wait_lock_law wait_lock_unlocked rc_mtime_contained wait_wfi_law quantum_laws in
      \<open>auto simp: target_ok_def hifive_env_of_def hifive_kernel_of_def device_error_def\<close>)

lemma hifive_sockets_ok:
  assumes "\<And>a m. contained (platform_error PE) (mk a m) (\<lambda>_. True)"
  shows "list_all (target_ok cv PE) (hifive_sockets cv cm K mk)"
proof -
  have "list_all (range_ok (platform_error PE)) (ctrl_ranges (hifive_ctrl K mk))"
    by (auto simp: ctrl_ranges_def range_ok_def hifive_ctrl_def pre_callback_def post_callback_def
        write_size_def write_ctrl_def intro!: contained_rules contained_lines assms lift_PE [OF report_law])
  from route_target_ok [OF this device_platform]
  have "target_ok cv PE (ctrl_transport (hifive_ctrl K mk))" by (simp add: target_ok_def ctrl_transport_def)
  then show ?thesis
    unfolding hifive_sockets_def
    using peripheral_platform
    by (simp add: flash_ok dram_ok plic_ok rc_ok aon_ok prci_ok spi_ok uart_ok mrom_ok gpio_ok sym_uart_ok)
qed

lemma hifive_transport_ok: "target_ok cv PE (hifive_transport cv cm K n)"
proof (induction n)
  case 0
  show ?case
    unfolding target_ok_def hifive_transport.simps
    by (intro allI contained_throw device_platform device_error_simps)
next
  case (Suc n)
  let ?pl = "mem_platform cv (hifive_env_of K (hifive_transport cv cm K n)) (hifive_kernel_of K)"
  have mk: "contained (platform_error PE) (make_symbolic cv ?pl a m) (\<lambda>_. True)" for a m
    by (rule make_symbolic_contained [OF hifive_env_laws [OF Suc]])
      (simp_all add: hifive_kernel_of_def symbolic_bytes)
  have "target_ok cv PE (bus_transport hifive_ports (hifive_sockets cv cm K (make_symbolic cv ?pl)))"
    by (rule bus_target_ok [OF _ hifive_sockets_ok [OF mk]]) (simp add: hifive_ports_def hifive_sockets_def)
  then show ?case by (simp add: target_ok_def Let_def)
qed

end

sublocale hifive_laws \<subseteq> sys: mem_env_laws cv ev sem cur "hifive_env_of K (hifive_transport cv cm K n)" "hifive_kernel_of K" PE for n
  by (rule hifive_env_laws [OF hifive_transport_ok])

end
