(* ===== verification/Hifive_Props.thy ===== *)
theory Hifive_Props
  imports Hifive_System Exec_Props Clint_Props
begin

text \<open>
  Interrupts of the HiFive platform from the pin to the hart, and the devices on its bus: the interfaces of
  \<^verbatim>\<open>Plic\<close>, \<^verbatim>\<open>Gpio\<close> and \<^verbatim>\<open>Tlm_Map\<close> are discharged here for the platform's own state.
\<close>

section \<open>The interfaces hold on the platform\<close>

lemma hifive_cfg_wf: "cfg_wf hifive_plic_cfg"
  by (simp add: cfg_wf_def hifive_plic_cfg_def)

lemma hifive_plic_part: "pe_part (hifive_plic K) = dev_part hd_plic hd_plic_update"
  by (simp add: hifive_plic_def)

lemma trigger_external_frame:
  "trigger_external_interrupt level h = (Inr (), h\<lparr>h_csrs := set_external_interrupt 1 level (h_csrs h)\<rparr>)"
  by (simp add: trigger_external_interrupt_def upd_csrs_def)

interpretation hifive_plic_part: part "dev_part hd_plic hd_plic_update"
  by (rule dev_part_lens) (simp_all add: comp_def)

interpretation hifive_spi1_part: part "dev_part hd_spi1 hd_spi1_update"
  by (rule dev_part_lens) (simp_all add: comp_def)

interpretation hifive_aon: mapped_bank "dev_part hd_aon hd_aon_update" aon_bank
  by (intro mapped_bank.intro dev_part_lens aon_regs.register_bank_axioms) (simp_all add: comp_def)

interpretation hifive_plic: plic_system "hifive_plic K" hifive_plic_cfg for K :: "('v, 'e, 'c) hifive_kernel"
proof (intro plic_system.intro plic_system_axioms.intro)
  show "part (pe_part (hifive_plic K))" unfolding hifive_plic_part by (rule hifive_plic_part.part_axioms)
  show "\<exists>s'. pe_trigger_external_interrupt (hifive_plic K) h s = (Inr (), s') \<and>
      part_get (pe_part (hifive_plic K)) s' = part_get (pe_part (hifive_plic K)) s" for h s
    by (simp add: hifive_plic_def trigger_external_frame devices_def)
qed (rule hifive_cfg_wf)

definition hifive_raised :: "('v, 'e, 'c) hsys \<Rightarrow> u32 set" where
  "hifive_raised h = {irq. irq_pending (hd_plic (devices h)) (unat irq)}"

lemma hifive_gateway_pending:
  assumes "plic_wf hifive_plic_cfg (hd_plic (devices h))" "0 < irq" "unat irq < 53"
  shows "\<exists>h'. hifive_gateway K irq h = (Inr (), h') \<and> plic_wf hifive_plic_cfg (hd_plic (devices h')) \<and>
    hifive_raised h' = insert irq (hifive_raised h) \<and> hd_gpio0 (devices h') = hd_gpio0 (devices h)"
proof -
  have n: "unat irq < NumberInterrupts hifive_plic_cfg" using assms(3) by (simp add: hifive_plic_cfg_def)
  obtain t where t: "hifive_gateway K irq h =
    (Inr (), upd_devices (hd_plic_update (\<lambda>q. e_run_update (event_notify t) (raise_pending (unat irq) q))) h)"
    using hifive_plic.gateway_sets_pending [of K h irq] assms n
    by (auto simp: hifive_gateway_def hifive_plic_part)
  let ?q = "hd_plic (devices h)"
  have "irq_pending (raise_pending (unat irq) ?q) (unat i) \<longleftrightarrow> irq_pending ?q (unat i) \<or> i = irq" for i
    using irq_pending_raise [OF assms(1) hifive_cfg_wf n, of "unat i"] by (auto simp: word_unat_eq_iff)
  then show ?thesis using t plic_wf_raise [OF assms(1) hifive_cfg_wf n] by (auto simp: hifive_raised_def)
qed

interpretation hifive_gpio: gpio_system "dev_part hd_gpio0 hd_gpio0_update" "hifive_gateway K" INT_GPIO_BASE
  "\<lambda>h. plic_wf hifive_plic_cfg (hd_plic (devices h))" hifive_raised for K :: "('v, 'e, 'c) hifive_kernel"
proof (intro gpio_system.intro gpio_system_axioms.intro hifive_gpio_part.part_axioms)
  fix s :: "('v, 'e, 'c) hsys" and i :: nat
  assume wf: "plic_wf hifive_plic_cfg (hd_plic (devices s))" and i: "i < 32"
  have u: "unat (8 + word_of_nat i :: u32) = 8 + i" using i by (simp add: unat_word_ariths unat_of_nat)
  then have "0 < (8 + word_of_nat i :: u32)" by (simp add: word_less_nat_alt)
  with hifive_gateway_pending [OF wf this, of K] u i
  show "\<exists>s'. hifive_gateway K (8 + word_of_nat i) s = (Inr (), s') \<and> plic_wf hifive_plic_cfg (hd_plic (devices s')) \<and>
      hifive_raised s' = insert (8 + word_of_nat i) (hifive_raised s) \<and>
      part_get (dev_part hd_gpio0 hd_gpio0_update) s' = part_get (dev_part hd_gpio0 hd_gpio0_update) s"
    by auto
qed (simp_all add: hifive_raised_def)

section \<open>A sample platform\<close>

text \<open>The platform after reset, with interrupt 9 (pin 1 of the GPIO controller) enabled for the hart.\<close>

definition sample_plic :: FE310_PLIC where
  "sample_plic = regs_hart_enabled_interrupts_update (rr_mem_update (view_write 4 0 512)) (FE310_PLIC_make hifive_plic_cfg)"

definition sample_gpio :: GPIO where
  "sample_gpio = (GPIO_make 2)\<lparr>gp_input_en := 2, rise_intr_en := 2\<rparr>"

definition hifive_bv_kernel :: "(bv_value, bv_expr, bv_image) hifive_kernel" where
  "hifive_bv_kernel = \<lparr>hk_kernel = bv_kernel, hk_now = \<lambda>h. 0\<rparr>"

definition hifive_sample :: "(bv_value, bv_expr, bv_image) hsys" where
  "hifive_sample = ISS_construct (bv_clover sample_inputs) 0 False
     \<lparr>w_bus_lock = BusLock_init, w_lr_addr = None, w_tlb = \<lambda>_ _ _. empty_entry,
      w_devices = (hifive_devices_make (SimpleMemory_make 0) (\<lambda>_. Concrete 8 0) [] 0
        (CAN_make (replicate 0x72 0) (replicate 3 (replicate 69 0)) (replicate 2 (replicate 69 0))) True)
        \<lparr>hd_plic := sample_plic, hd_gpio0 := sample_gpio\<rparr>\<rparr>"

lemma hifive_sample_devices [simp]: "hd_plic (devices hifive_sample) = sample_plic" "hd_gpio0 (devices hifive_sample) = sample_gpio"
  by (simp_all add: hifive_sample_def ISS_construct_def devices_def)

lemma sample_plic_facts:
  "plic_wf hifive_plic_cfg sample_plic" "irq_enabled sample_plic 0 9" "interrupt_priorities sample_plic 9 = 1"
  "priority_threshold sample_plic 0 = 0" "\<not> hart_eip sample_plic ! 0" "plic_layout sample_plic"
proof -
  have len: "Suc 0 * 4 \<le> length (rr_mem (regs_hart_enabled_interrupts (FE310_PLIC_make hifive_plic_cfg)))"
    by (simp add: FE310_PLIC_make_def byte_range_def hifive_plic_cfg_def)
  show "plic_wf hifive_plic_cfg sample_plic"
    using FE310_PLIC_make_wf [of hifive_plic_cfg] len by (simp add: sample_plic_def plic_wf_def)
  have bit9: "bit (512 :: u32) 9" using bit_exp_iff [where 'a = u32, of 9 9] by simp
  show "irq_enabled sample_plic 0 9"
    using view_write_read [OF len, of 512] bit9
    by (simp add: sample_plic_def irq_enabled_def hart_enabled_interrupts_def)
  show "interrupt_priorities sample_plic 9 = 1"
    using FE310_PLIC_make_priority [of 9 hifive_plic_cfg] by (simp add: sample_plic_def interrupt_priorities_def hifive_plic_cfg_def)
  show "priority_threshold sample_plic 0 = 0"
    by (simp add: sample_plic_def priority_threshold_def FE310_PLIC_make_def byte_range_def hifive_plic_cfg_def view_read_def
        bytes_to_nat_zero)
  show "\<not> hart_eip sample_plic ! 0" by (simp add: sample_plic_def FE310_PLIC_make_def hifive_plic_cfg_def)
  show "plic_layout sample_plic"
    using fold_view_write [of 53 4 "replicate 216 0" 1]
    by (simp add: sample_plic_def plic_layout_def rr_contains_def FE310_PLIC_make_def byte_range_def hifive_plic_cfg_def)
qed

section \<open>Interrupts\<close>

lemma plic_run_delivers:
  assumes "plic_wf hifive_plic_cfg (hd_plic (devices h))" "eligible (hd_plic (devices h)) 0 True irq"
    and "0 < irq" "irq < 53" "\<not> hart_eip (hd_plic (devices h)) ! 0"
  shows "\<exists>h'. hifive_plic_run K h = (Inr (), h') \<and> bf_get mip_meip (mip_reg (h_csrs h')) = 1 \<and>
    hart_eip (hd_plic (devices h')) ! 0 \<and> hd_gpio0 (devices h') = hd_gpio0 (devices h)"
proof -
  let ?h = "upd_devices (hd_plic_update (e_run_update (\<lambda>_. None))) h"
  have el: "eligible (hd_plic (devices ?h)) 0 True irq"
    using assms(2)
    by (simp add: eligible_def irq_enabled_def hart_enabled_interrupts_def interrupt_priorities_def priority_threshold_def)
  have wf: "plic_wf hifive_plic_cfg (hd_plic (devices ?h))" using assms(1) by simp
  have "plic_run_hart hifive_plic_cfg (hifive_plic K) 0 ?h = trigger_external_interrupt MachineMode
      (upd_devices (hd_plic_update (hart_eip_update (\<lambda>xs. xs[0 := True]))) ?h)"
    using hifive_plic.run_hart_raises [of K ?h 0 irq] wf el assms(3-5)
    by (simp add: hifive_plic_part hifive_plic_cfg_def hifive_plic_def)
  moreover have "length (hart_eip (hd_plic (devices h))) = 1" using assms(1) by (simp add: plic_wf_def hifive_plic_cfg_def)
  moreover have "bf_get (11, Suc 0) (bf_set (11, Suc 0) 1 w) = 1" for w
    using bf_get_set_same [of mip_meip 1 w] by (simp add: bf_wf_def)
  ultimately show ?thesis
    by (auto simp: hifive_plic_run_def plic_run_iteration_def hifive_plic_part hifive_plic_cfg_def trigger_external_frame
        set_external_interrupt_def devices_def upd_devices_def then_m_apply)
qed




text \<open>
  A change of the pins reaches the interrupt controller. One run of \<^verbatim>\<open>synchronousChange\<close> makes pending
  the interrupts of exactly those input pins whose level changed in a direction for which an interrupt is
  enabled and not already signalled, marks those edges as signalled, and leaves the value register equal to the
  level of every pin that is input only.
\<close>

lemma gpio_edge_interrupt:
  assumes "plic_wf hifive_plic_cfg (hd_plic (devices h))" and "hd_gpio0 (devices h) = g"
  shows "\<exists>h'. hifive_gpio_method K [] h = (Inr (), h') \<and>
    (\<forall>i<32. irq_pending (hd_plic (devices h')) (8 + i) \<longleftrightarrow> irq_pending (hd_plic (devices h)) (8 + i) \<or>
      bit (gp_input_en g) i \<and> bit (server_state g) i \<noteq> bit (gp_value g) i \<and>
      (if bit (server_state g) i then bit (rise_intr_en g) i \<and> bit (rise_intr_pending g) i
       else bit (fall_intr_en g) i \<and> bit (fall_intr_pending g) i)) \<and>
    (\<forall>i<32. bit (rise_intr_pending (hd_gpio0 (devices h'))) i \<longleftrightarrow> bit (rise_intr_pending g) i \<and>
      \<not> (bit (gp_input_en g) i \<and> bit (rise_intr_en g) i \<and> bit (server_state g) i \<and> \<not> bit (gp_value g) i)) \<and>
    (\<forall>i<32. bit (gp_input_en g) i \<and> \<not> bit (gp_output_en g) i \<longrightarrow>
      bit (gp_value (hd_gpio0 (devices h'))) i = bit (server_state g) i)"
proof -
  let ?h = "upd_devices (hd_gpio0_update (gp_asyncEvent_update (\<lambda>_. False))) h"
  let ?g = "g\<lparr>gp_asyncEvent := False\<rparr>"
  have wf: "plic_wf hifive_plic_cfg (hd_plic (devices ?h))" and g: "hd_gpio0 (devices ?h) = ?g" using assms by simp_all
  obtain h' r f where h': "synchronousChange (dev_part hd_gpio0 hd_gpio0_update) (hifive_gateway K) 8 [] ?h = (Inr (), h')"
    and raised: "hifive_raised h' = hifive_raised ?h \<union> {8 + word_of_nat i | i. i < 32 \<and>
      (rising ?g (server_state ?g) (pin_diff ?g) i \<or> falling ?g (server_state ?g) (pin_diff ?g) i)}"
    and g': "hd_gpio0 (devices h') = (if pin_diff ?g = 0 then ?g
      else ?g\<lparr>rise_intr_pending := r, fall_intr_pending := f,
             gp_value := (ucast (server_state ?g) AND gp_input_en ?g) OR (gp_port ?g AND gp_output_en ?g)\<rparr>)"
    and r: "\<forall>k. bit r k \<longleftrightarrow> bit (rise_intr_pending ?g) k \<and> \<not> rising ?g (server_state ?g) (pin_diff ?g) k"
    using hifive_gpio.synchronousChange_effect [where s = ?h and g = ?g and K = K] wf g by auto
  have diff: "bit (pin_diff ?g) i \<longleftrightarrow> bit (gp_input_en g) i \<and> bit (server_state g) i \<noteq> bit (gp_value g) i" if "i < 32" for i
    using that by (auto simp: pin_diff_def bit_simps)
  have irq: "irq_pending (hd_plic (devices h')) (8 + i) \<longleftrightarrow> irq_pending (hd_plic (devices h)) (8 + i) \<or>
      rising ?g (server_state ?g) (pin_diff ?g) i \<or> falling ?g (server_state ?g) (pin_diff ?g) i" if i: "i < 32" for i
  proof -
    have u: "unat (8 + word_of_nat i :: u32) = 8 + i" using i by (simp add: unat_word_ariths unat_of_nat)
    have inj: "(8 + word_of_nat i :: u32) = 8 + word_of_nat j \<longleftrightarrow> i = j" if "j < 32" for j
      using i that by (simp add: word_unat_eq_iff unat_word_ariths unat_of_nat)
    have "(8 + word_of_nat i :: u32) \<in> hifive_raised h' \<longleftrightarrow> (8 + word_of_nat i) \<in> hifive_raised ?h \<or>
        rising ?g (server_state ?g) (pin_diff ?g) i \<or> falling ?g (server_state ?g) (pin_diff ?g) i"
      unfolding raised using i inj by blast
    then show ?thesis by (simp add: hifive_raised_def u)
  qed
  have meth: "hifive_gpio_method K [] h = (Inr (), h')"
    using h' by (simp add: hifive_gpio_method_def then_m_apply)
  have rise: "bit (rise_intr_pending (hd_gpio0 (devices h'))) i \<longleftrightarrow>
      bit (rise_intr_pending g) i \<and> \<not> rising ?g (server_state ?g) (pin_diff ?g) i" for i
    using r by (auto simp: g' rising_def)
  have "bit (gp_value (hd_gpio0 (devices h'))) i = bit (server_state g) i"
    if "i < 32" "bit (gp_input_en g) i \<and> \<not> bit (gp_output_en g) i" for i
    using that diff [of i] by (auto simp: g' bit_simps)
  with meth show ?thesis
    using irq rise by (intro exI [of _ h']) (auto simp: diff rising_def falling_def)
qed

text \<open>
  C27: Reading the claim register at address 0x0C200004 returns the next interrupt of the hart: among the
  enabled pending interrupts of non-zero priority one of the highest priority, the smallest number among
  equals, and 0 when there is none. That interrupt is no longer pending afterwards and every other one is as before.
\<close>

theorem plic_claim:
  assumes "plic_wf hifive_plic_cfg (hd_plic (devices h))" "plic_layout (hd_plic (devices h))"
    and "p_command t = TLM_READ_COMMAND" "p_address t = 0x0C200004" "length (p_data t) = 4"
  shows "\<exists>m h'. hifive_transport cv cm K (Suc n) t h =
      (Inr (t\<lparr>p_address := 0x200004, p_data := u32_to_bytes (word_of_nat m)\<rparr>), h') \<and>
    (if \<exists>i. 0 < i \<and> i < 53 \<and> eligible (hd_plic (devices h)) 0 False i
     then 0 < m \<and> m < 53 \<and> eligible (hd_plic (devices h)) 0 False m \<and>
       (\<forall>j. 0 < j \<and> j < 53 \<and> eligible (hd_plic (devices h)) 0 False j \<longrightarrow>
         interrupt_priorities (hd_plic (devices h)) j < interrupt_priorities (hd_plic (devices h)) m \<or>
         interrupt_priorities (hd_plic (devices h)) j = interrupt_priorities (hd_plic (devices h)) m \<and> m \<le> j)
     else m = 0) \<and>
    (\<forall>j. irq_pending (hd_plic (devices h')) j \<longleftrightarrow> irq_pending (hd_plic (devices h)) j \<and> j \<noteq> m)"
proof -
  let ?t = "t\<lparr>p_address := 0x200004\<rparr>"
  have dec: "hifive_transport cv cm K (Suc n) t h = plic_transport hifive_plic_cfg (hifive_plic K) ?t h"
    using assms(4) by (simp add: bus_transport_def bus_decode_def hifive_ports_def port_contains_def PortMapping_of_def
        hifive_sockets_def global_to_local_def Let_def)
  obtain m h' where m: "plic_transport hifive_plic_cfg (hifive_plic K) ?t h =
      (Inr (?t\<lparr>p_data := u32_to_bytes (word_of_nat m)\<rparr>), h')"
    "is_next (hd_plic (devices h)) 0 False {1..<53} m"
    "\<forall>j. irq_pending (hd_plic (devices h')) j \<longleftrightarrow> irq_pending (hd_plic (devices h)) j \<and> j \<noteq> m"
    using hifive_plic.claim_takes_next [where s = h and t = ?t and K = K] assms
    by (auto simp: hifive_plic_part plic_layout_def hifive_plic_cfg_def)
  have range: "i \<in> {1..<53} \<longleftrightarrow> 0 < i \<and> i < 53" for i :: nat by auto
  have "if \<exists>i. 0 < i \<and> i < 53 \<and> eligible (hd_plic (devices h)) 0 False i
     then 0 < m \<and> m < 53 \<and> eligible (hd_plic (devices h)) 0 False m \<and>
       (\<forall>j. 0 < j \<and> j < 53 \<and> eligible (hd_plic (devices h)) 0 False j \<longrightarrow>
         interrupt_priorities (hd_plic (devices h)) j < interrupt_priorities (hd_plic (devices h)) m \<or>
         interrupt_priorities (hd_plic (devices h)) j = interrupt_priorities (hd_plic (devices h)) m \<and> m \<le> j)
     else m = 0"
    using m(2) unfolding is_next_def Bex_def Ball_def range by (simp only: imp_conjL conj_assoc)
  with m(1,3) dec show ?thesis by (intro exI [of _ m] exI [of _ h']) simp
qed



section \<open>CAN frames\<close>

lemma can_status_free:
  fixes w :: u8
  assumes "\<not> bit w 0"
  shows "w AND 1 = 0" "w AND 3 \<noteq> 3"
proof -
  show one: "w AND 1 = 0" using assms by (simp add: and_one_eq even_iff_mod_2_eq_zero [symmetric] bit_0)
  show "w AND 3 \<noteq> 3"
  proof
    assume "w AND 3 = 3"
    then have "(w AND 3) AND 1 = 3 AND 1" by simp
    then have "w AND 1 = 1" by (simp add: and.assoc)
    with one show False by simp
  qed
qed

lemma ucast_up_down: "(ucast (ucast (i :: u32) :: u64) :: u32) = i"
  by (rule bit_eqI) (simp add: bit_simps)

lemma can_id_up: "(i :: u32) < 2048 \<Longrightarrow> (ucast i :: u64) < 2048"
  by (simp add: word_less_def uint_up_ucast is_up)

text \<open>
  C32: A frame from the CAN socket is read back unchanged. When the first receive buffer is free and the
  controller expects a command, a frame that arrives sets its bit in the status; the command 0x90 followed by
  clocking out the buffer then returns the bytes of the frame, from which its standard identifier is recovered,
  and frees the buffer again.
\<close>

theorem can_receive_frame:
  assumes "cs_state c = can_init" "rx_ptr c = 0" "length (rxBuf c) = 2" "\<not> bit (can_status c) 0"
    and "length (can_data f) = 8" "unat (can_dlc f) \<le> 8" "can_id f < 2048"
  shows "\<exists>id c'. can_transfer (0x90 # replicate (unat (can_dlc f) + 5) 0) (enqueueIncomingCanFrame f c) =
      (Inr (0 # id @ can_dlc f # take (unat (can_dlc f)) (can_data f)), c') \<and>
    mcp2515_buf_to_id id = (can_id f, False) \<and> cs_state c' = can_init \<and> rx_ptr c' = 0 \<and>
    bit (can_status (enqueueIncomingCanFrame f c)) 0 \<and> can_status c' = can_status c"
proof -
  let ?n = "unat (can_dlc f)"
  let ?c = "put_rx 0 f c"
  let ?id = "mcp2515_id_to_buf (ucast (can_id f)) False"
  have enq: "enqueueIncomingCanFrame f c = ?c"
    using can_status_free [OF assms(4)] by (simp add: enqueueIncomingCanFrame_def)
  have cmd: "can_write 0x90 ?c = (Inr 0, ?c\<lparr>cs_state := readRX0\<rparr>)"
    using assms(1) by (simp add: can_write_def can_command_def put_rx_def)
  have "can_transfer (replicate (?n + 5) 0) (?c\<lparr>cs_state := readRX0\<rparr>) = (Inr (take (?n + 5) (drop 0 (frame_raw f))),
      ?c\<lparr>cs_state := readRX0\<rparr>\<lparr>rx_ptr := 0, cs_state := can_init, can_status := can_status ?c AND NOT (push_bit 0 1)\<rparr>)"
    using can_drain [of "?c\<lparr>cs_state := readRX0\<rparr>" 0 "frame_raw f" 0 "?n + 5"] assms frame_raw_shape [of f]
    by (simp add: put_rx_def)
  moreover have "take (?n + 5) (frame_raw f) = ?id @ can_dlc f # take ?n (can_data f)"
    using assms(5,6) by (simp add: frame_raw_def)
  moreover have "mcp2515_buf_to_id ?id = (can_id f, False)"
    using id_roundtrip_std [OF can_id_up [OF assms(7)]] by (simp add: ucast_up_down)
  moreover have "bit (can_status ?c) 0" "can_status ?c AND NOT (push_bit 0 1) = can_status c"
    using assms(4) by (auto simp: put_rx_def bit_simps intro!: bit_eqI gr0I)
  ultimately show ?thesis using cmd unfolding enq by (auto simp: bind_m_apply)
qed


section \<open>Instances\<close>

lemma sample_gpio_bits:
  "bit (gp_input_en sample_gpio) 1" "bit (server_state sample_gpio) 1" "\<not> bit (gp_value sample_gpio) 1"
  "bit (rise_intr_en sample_gpio) 1" "bit (rise_intr_pending sample_gpio) 1"
  using bit_exp_iff [where 'a = u32, of 1 1] bit_exp_iff [where 'a = u64, of 1 1]
  by (simp_all add: sample_gpio_def GPIO_make_def)

lemma gpio_edge_interrupt_witness:
  "\<exists>h'. hifive_gpio_method hifive_bv_kernel [] hifive_sample = (Inr (), h') \<and> irq_pending (hd_plic (devices h')) 9 \<and>
    \<not> bit (rise_intr_pending (hd_gpio0 (devices h'))) 1"
  using gpio_edge_interrupt [of hifive_sample sample_gpio hifive_bv_kernel] sample_plic_facts(1) sample_gpio_bits
  by (auto dest!: spec [of _ 1])

definition sample_claim :: "bv_value payload" where
  "sample_claim = \<lparr>p_command = TLM_READ_COMMAND, p_address = 0x0C200004, p_data = [0, 0, 0, 0], p_error = False,
     p_extension = None\<rparr>"

theorem plic_claim_witness:
  "\<exists>m h'. hifive_transport (bv_clover sample_inputs) bv_memory hifive_bv_kernel 1 sample_claim hifive_sample =
    (Inr (sample_claim\<lparr>p_address := 0x200004, p_data := u32_to_bytes (word_of_nat m)\<rparr>), h')"
  using plic_claim [of hifive_sample sample_claim "bv_clover sample_inputs" bv_memory hifive_bv_kernel 0] sample_plic_facts
  by (auto simp: sample_claim_def)

definition sample_frame :: can_frame where
  "sample_frame = \<lparr>can_id = 0x123, can_dlc = 2, can_data = [0xCA, 0xFE, 0, 0, 0, 0, 0, 0]\<rparr>"

theorem can_receive_frame_witness:
  "\<exists>id c'. can_transfer (0x90 # replicate 7 0)
      (enqueueIncomingCanFrame sample_frame (CAN_make [] [] [[], []])) = (Inr (0 # id @ [2, 0xCA, 0xFE]), c') \<and>
    mcp2515_buf_to_id id = (0x123, False)"
  using can_receive_frame [of "CAN_make [] [] [[], []]" sample_frame]
  by (auto simp: CAN_make_def sample_frame_def)


definition hifive_timer_sample :: "(bv_value, bv_expr, bv_image) hsys" where
  "hifive_timer_sample = upd_devices (hd_clint_update (rc_mtimecmp_update (rr_mem_update (view_write 8 0 5)))) hifive_sample"

lemma hifive_timer_sample_clint:
  "hd_clint (devices hifive_timer_sample) =
    rc_mtimecmp_update (rr_mem_update (view_write 8 0 5)) (RealCLINT_make 1)"
  by (simp add: hifive_timer_sample_def hifive_sample_def hifive_devices_make_def ISS_construct_def devices_def upd_devices_def)


end
