(* ===== verification/Mem_Props.thy ===== *)
theory Mem_Props
  imports Mmu_Props
begin

text \<open>
  Memory accesses of a hart on the SymEx platform: data survives a store and a load through the
  memory interface, the bus and the symbolic memory, transactions reach the device that owns the
  address, and stores end the exclusive use of the bus.
\<close>

section \<open>Lemmas\<close>

text \<open>A hart whose accesses are not translated and do not have to wait for the bus.\<close>

definition direct_access :: "MemoryAccessType \<Rightarrow> ('v, 'e, 'd) mhart \<Rightarrow> bool" where
  "direct_access type h \<longleftrightarrow> \<not> paging type h \<and> \<not> access_must_wait (hart_id h) (w_bus_lock (h_world h))"

definition memory_size_ok :: "('v, 'e, 'c) sys \<Rightarrow> bool" where
  "memory_size_ok h \<longleftrightarrow> sym_size (d_memory (devices h)) = 0x02000000"

lemma memory_port:
  "addr \<le> 0x01ffffff \<Longrightarrow> bus_decode symex_ports addr = 0"
  by (simp add: bus_decode_def symex_ports_def port_contains_def PortMapping_of_def)

lemma memory_transport:
  assumes "p_address p \<le> 0x01ffffff"
  shows "symex_transport cv cm K (Suc n) p = memory_socket cv cm p"
  using memory_port [OF assms]
  by (simp add: bus_transport_def symex_ports_def PortMapping_of_def global_to_local_def fun_eq_iff)

lemma v2p_direct: "direct_access type h \<Longrightarrow> v2p (symex_env cv cm K n) a type h = (Inr a, h)"
  by (auto simp: v2p_def symex_env_def symex_env_of_def direct_access_def paging_def
      translate_virtual_to_physical_addr_def Let_def)

lemma fits_memory:
  assumes "unat (x :: u32) + n \<le> 0x02000000" and "0 < n"
  shows "(ucast x :: u64) \<le> 0x01ffffff" "(ucast x :: u64) + word_of_nat n \<le> 0x02000000"
proof -
  have x: "unat (ucast x :: u64) = unat x"
    by (simp add: unsigned_ucast_eq take_bit_nat_eq_self_iff less_trans [OF unsigned_less])
  have n: "unat (word_of_nat n :: u64) = n" using assms by (simp add: unat_of_nat)
  show "(ucast x :: u64) \<le> 0x01ffffff" using x assms by (simp add: word_le_nat_alt)
  have "unat ((ucast x :: u64) + word_of_nat n) = unat x + n"
    using x n assms by (subst unat_add_lem [THEN iffD1]) simp_all
  then show "(ucast x :: u64) + word_of_nat n \<le> 0x02000000" using assms by (simp add: word_le_nat_alt)
qed

text \<open>The effect of a store on the simulation: the memory is updated and the hart's bus lock released.\<close>

definition after_store ::
  "('v, 'e) clover \<Rightarrow> ('v, 'c) concolic_memory \<Rightarrow> 'v \<Rightarrow> 'v \<Rightarrow> nat \<Rightarrow> ('v, 'e, 'c) sys \<Rightarrow> ('v, 'e, 'c) sys" where
  "after_store cv cm addr v k h = snd (mem_atomic_unlock
     (upd_devices (d_memory_update (sym_memory_update (cm_store cm (ucast (getValue cv addr)) v k))) h))"

lemma wait_direct: "direct_access type h \<Longrightarrow> wait_for_access_rights env h = (Inr (), h)"
  by (simp add: wait_for_access_rights_def direct_access_def when_m_def)

lemma upd_devices_id: "upd_devices (d_memory_update (\<lambda>_. d_memory (devices h))) h = h"
  by (simp add: upd_devices_def devices_def)

lemma memory_access:
  assumes "memory_size_ok h" and "unat (x :: u32) + length (p_data p) \<le> 0x02000000" and "0 < length (p_data p)"
    and "p_address p = ucast x"
  shows "symex_transport cv cm K (Suc n) p h = (case p_command p of
      TLM_READ_COMMAND \<Rightarrow> (let v = cm_load cm (sym_memory (d_memory (devices h))) (ucast x) (length (p_data p)) in
        (Inr (p\<lparr>p_data := BVCToBytes cv v (length (p_data p)), p_extension := Some v\<rparr>), h))
    | TLM_WRITE_COMMAND \<Rightarrow> (Inr p, upd_devices (d_memory_update (sym_memory_update
        (cm_store cm (ucast x) (case p_extension p of Some v \<Rightarrow> v | None \<Rightarrow> BVC_bytes cv (p_data p))
          (length (p_data p))))) h)
    | TLM_IGNORE_COMMAND \<Rightarrow> (Inr (p\<lparr>p_error := True\<rparr>), h))"
  using fits_memory [OF assms(2,3)] assms
  by (cases "p_command p")
    (auto simp: memory_transport memory_socket_def sym_transport_dbg_def sym_read_data_def sym_write_data_def
      memory_size_ok_def Let_def not_less upd_devices_id upd_devices_def devices_def then_m_apply bind_m_apply
      simp del: symex_transport.simps)

lemma symex_b_transport [simp]: "b_transport (symex_env cv cm K n) = symex_transport cv cm K n"
  by (simp add: symex_env_def symex_env_of_def)

context symex_laws
begin

lemma bytes_length: "length (BVCToBytes cv v k) = k"
  by (simp add: BVCToBytes_law)

lemma store_direct:
  assumes "direct_access STORE h" and "memory_size_ok h" and "unat (getValue cv addr) + k \<le> 0x02000000" and "0 < k"
  shows "mem_symbolic_store_data cv (symex_env cv cm K (Suc n)) addr v k h = (Inr (), after_store cv cm addr v k h)"
  using assms
  by (simp add: mem_symbolic_store_data_def wait_direct v2p_direct concolic_write_def do_transaction_def bytes_length memory_access after_store_def mem_atomic_unlock_def upd_world_def
      bind_m_apply then_m_apply del: symex_transport.simps)

lemma load_direct:
  assumes "direct_access STORE h" and "memory_size_ok h" and "unat (getValue cv addr) + k \<le> 0x02000000" and "0 < k"
  shows "mem_symbolic_load_data cv (symex_env cv cm K (Suc n)) addr k h =
    (Inr (cm_load cm (sym_memory (d_memory (devices h))) (ucast (getValue cv addr)) k), h)"
  using assms
  by (simp add: mem_symbolic_load_data_def wait_direct v2p_direct concolic_read_def do_transaction_def memory_access Let_def
      bind_m_apply then_m_apply del: symex_transport.simps)

end

lemma after_store_keeps:
  assumes "direct_access STORE h" and "memory_size_ok h"
  shows "direct_access STORE (after_store cv cm addr v k h)" "memory_size_ok (after_store cv cm addr v k h)"
    "sym_memory (d_memory (devices (after_store cv cm addr v k h))) =
       cm_store cm (ucast (getValue cv addr)) v k (sym_memory (d_memory (devices h)))"
  using assms
  by (auto simp: after_store_def direct_access_def paging_def effective_mode_def memory_size_ok_def
      mem_atomic_unlock_def upd_world_def upd_devices_def devices_def hart_id_def access_must_wait_def
      is_locked_def is_locked_by_def unlock_def bind_m_apply)

context symex_laws
begin

lemma store_load_value:
  assumes "direct_access STORE h" and "memory_size_ok h" and "unat (getValue cv addr) + k \<le> 0x02000000"
    and "0 < k" and "k \<le> 4" and "8 * k \<le> getWidth cv v"
  defines "h1 \<equiv> after_store cv cm addr v k h"
  shows "\<exists>r. mem_symbolic_load_data cv (symex_env cv cm K (Suc n)) addr k h1 = (Inr r, h1) \<and>
    getWidth cv r = 8 * k \<and> (\<forall>a. ev a r = take_bit (8 * k) (ev a v))"
proof -
  note keep = after_store_keeps [OF assms(1,2), of cv cm addr v k, folded h1_def]
  show ?thesis
    using load_direct [OF keep(1,2) assms(3,4)] keep(3) load_width load_store [OF assms(5,6)] by simp
qed

lemma sw_lw:
  assumes wf: "regs_wf cv (h_regs h)" and d: "direct_access STORE h" "memory_size_ok h"
    and op: "rs1 w' = rs1 w" "I_imm w' = S_imm w"
    and addr: "(val32 ev cur (h_regs h ! unat (rs1 w)) + S_imm w) mod 4 = 0"
      "unat (val32 ev cur (h_regs h ! unat (rs1 w)) + S_imm w) + 4 \<le> 0x02000000"
    and pl_def: "pl = symex_platform cv cm K (Suc n)"
  shows "\<exists>h1 h2. exec_op cv pl w (OpI SW) h = (Inr (), h1) \<and> exec_op cv pl w' (OpI LW) h1 = (Inr (), h2) \<and>
    (\<forall>a. val32 ev a (h_regs h2 ! unat (rd w')) = val32 ev a (h_regs h ! unat (rs2 w)))"
proof -
  define a where "a = c_add cv (h_regs h ! unat (rs1 w)) (S_IMM cv w)"
  define v where "v = h_regs h ! unat (rs2 w)"
  have imm: "S_IMM cv w = I_IMM cv w'" using op by (simp add: S_IMM_def I_IMM_def)
  have w: "getWidth cv v = 32" "getWidth cv (h_regs h ! unat (rs1 w)) = 32"
    using wf register_index_bounds [of w] by (simp_all add: v_def reg_width)
  have ga: "getValue cv a = val32 ev cur (h_regs h ! unat (rs1 w)) + S_imm w"
    using val32_arith(1) [OF w(2) I_IMM_value(1)] op by (simp add: a_def imm val32_getValue I_IMM_value)
  define h1 where "h1 = after_store cv cm a v 4 h"
  have sw: "exec_op cv pl w (OpI SW) h = (Inr (), h1)"
    using store_direct [OF d, of a 4 n v] addr ga
    by (simp add: exec_op_def exec_rv32i_def exec_store_def RegFile_at_def a_def [symmetric] v_def [symmetric]
        trap_check_addr_alignment_def when_m_def pl_def symex_platform_def mem_platform_def mem_store_def h1_def)
  from store_load_value [OF d, of a 4 v n] ga addr w
  obtain r where r: "mem_symbolic_load_data cv (symex_env cv cm K (Suc n)) a 4 h1 = (Inr r, h1)"
    "getWidth cv r = 32" "\<And>b. ev b r = take_bit 32 (ev b v)" by (auto simp: h1_def)
  have regs: "h_regs h1 = h_regs h"
    by (simp add: h1_def after_store_def mem_atomic_unlock_def upd_world_def upd_devices_def bind_m_apply)
  have "exec_op cv pl w' (OpI LW) h1 = (Inr (), h1\<lparr>h_regs := (h_regs h1)[unat (rd w') := c_sext cv r 32]\<rparr>)"
    using r(1) val32_sext32(1) [OF r(2)] addr ga op rd_le [of w']
    by (simp add: exec_op_def exec_rv32i_def exec_load_def RegFile_at_def regs imm [symmetric] a_def [symmetric]
        trap_check_addr_alignment_def when_m_def pl_def symex_platform_def mem_platform_def mem_load_word_def
        mem_load_sext_def RegFile_write_def assert_m_def bind_m_apply regs)
  moreover have "val32 ev b (c_sext cv r 32) = val32 ev b v" for b
    using val32_sext32(2) [OF r(2)] by (simp add: val32_def r(3) word_of_nat_take_bit32)
  ultimately show ?thesis
    using sw wf regs register_index_bounds(1) [of w'] by (auto simp: v_def regs_wf_def)
qed

lemma lw_direct:
  assumes "regs_wf cv (h_regs h)" "direct_access STORE h" "memory_size_ok h"
    and "(val32 ev cur (h_regs h ! unat (rs1 w)) + I_imm w) mod 4 = 0"
    and "unat (val32 ev cur (h_regs h ! unat (rs1 w)) + I_imm w) + 4 \<le> 0x02000000"
  defines "v \<equiv> cm_load cm (sym_memory (d_memory (devices h))) (ucast (val32 ev cur (h_regs h ! unat (rs1 w)) + I_imm w)) 4"
  shows "exec_op cv (symex_platform cv cm K (Suc n)) w (OpI LW) h = (Inr (), h\<lparr>h_regs := (h_regs h)[unat (rd w) := c_sext cv v 32]\<rparr>)"
    and "\<And>a. val32 ev a (c_sext cv v 32) = val32 ev a v" and "getWidth cv v = 32"
proof -
  define a where "a = c_add cv (h_regs h ! unat (rs1 w)) (I_IMM cv w)"
  have w: "getWidth cv (h_regs h ! unat (rs1 w)) = 32" using assms(1) register_index_bounds [of w] by (simp add: reg_width)
  have ga: "getValue cv a = val32 ev cur (h_regs h ! unat (rs1 w)) + I_imm w"
    using val32_arith(1) [OF w I_IMM_value(1)] by (simp add: a_def val32_getValue I_IMM_value)
  show vw: "getWidth cv v = 32" by (simp add: v_def load_width)
  show "val32 ev a (c_sext cv v 32) = val32 ev a v" for a using val32_sext32(2) [OF vw] .
  have "mem_symbolic_load_data cv (symex_env cv cm K (Suc n)) a 4 h = (Inr v, h)"
    using load_direct [OF assms(2,3), of a 4 n] assms(5) by (simp add: ga v_def)
  then show "exec_op cv (symex_platform cv cm K (Suc n)) w (OpI LW) h = (Inr (), h\<lparr>h_regs := (h_regs h)[unat (rd w) := c_sext cv v 32]\<rparr>)"
    using val32_sext32(1) [OF vw] assms(4) ga rd_le [of w]
    by (simp add: exec_op_def exec_rv32i_def exec_load_def RegFile_at_def a_def [symmetric]
        trap_check_addr_alignment_def when_m_def symex_platform_def mem_platform_def mem_load_word_def
        mem_load_sext_def RegFile_write_def assert_m_def bind_m_apply)
qed

end

lemma sample_direct: "direct_access STORE sample_hart" "memory_size_ok sample_hart"
  by (simp_all add: direct_access_def paging_def sample_world sample_hart_def init_fields csr_table_init_def
      bf_get_def access_must_wait_def is_locked_def BusLock_init_def memory_size_ok_def devices_def
      sample_world [unfolded sample_hart_def, simplified])

section \<open>Properties\<close>

text \<open>
  C5: Data survives the memory. On the SymEx platform, with untranslated accesses, a word stored by
  \<open>SW\<close> into the memory's address range is what a following \<open>LW\<close> from the same address loads, under
  every assignment of the symbolic inputs: through the alignment checks, the memory interface, the
  bus and the symbolic memory, and without losing the symbolic part of the value.
\<close>

theorem store_load_roundtrip:
  assumes "symex_laws cv ev sem cur cm K PE" and "regs_wf cv (h_regs h)"
    and "direct_access STORE h" and "memory_size_ok h"
    and "rs1 w' = rs1 w" and "I_imm w' = S_imm w"
    and "(val32 ev cur (h_regs h ! unat (rs1 w)) + S_imm w) mod 4 = 0"
    and "unat (val32 ev cur (h_regs h ! unat (rs1 w)) + S_imm w) + 4 \<le> 0x02000000"
  shows "\<exists>h1 h2. exec_op cv (symex_platform cv cm K (Suc n)) w (OpI SW) h = (Inr (), h1) \<and>
    exec_op cv (symex_platform cv cm K (Suc n)) w' (OpI LW) h1 = (Inr (), h2) \<and>
    (\<forall>a. val32 ev a (h_regs h2 ! unat (rd w')) = val32 ev a (h_regs h ! unat (rs2 w)))"
  using symex_laws.sw_lw [OF assms refl] .

theorem store_load_roundtrip_witness:
  "\<exists>h1 h2. exec_op (bv_clover sample_inputs) (bv_symex sample_inputs 1) 0x10112023 (OpI SW) sample_hart = (Inr (), h1) \<and>
    exec_op (bv_clover sample_inputs) (bv_symex sample_inputs 1) 0x10012183 (OpI LW) h1 = (Inr (), h2) \<and>
    (\<forall>a. val32 bv_eval a (h_regs h2 ! 3) = val32 bv_eval a (Symbolic 32 (\<lambda>a. a ''x'')))"
proof -
  have i: "rs1 0x10012183 = 2" "rs1 0x10112023 = 2" "I_imm 0x10012183 = 0x100" "S_imm 0x10112023 = 0x100"
    "rd 0x10012183 = 3" "rs2 0x10112023 = 1"
    by code_simp+
  have r: "h_regs sample_hart ! 2 = Concrete 32 0" "h_regs sample_hart ! Suc 0 = Symbolic 32 (\<lambda>a. a ''x'')"
    by (simp_all add: sample_hart_def)
  show ?thesis
    using store_load_roundtrip [OF symex.symex_laws_axioms sample_regs sample_direct,
        of "0x10012183" "0x10112023" sample_inputs 0]
    by (simp add: i r val32_def)
qed

text \<open>
  Address decoding of the SymEx platform. A transaction is delivered to exactly the device whose
  address range contains it, with the address made relative to the start of that range: the memory,
  the CLINT, the control peripheral or the sensor; any other address is answered with an address
  error and changes nothing.
\<close>

lemma symex_bus_routing:
  "symex_transport cv cm K (Suc n) p h =
    (let a = p_address p; local = (\<lambda>s. p\<lparr>p_address := a - s\<rparr>);
         pl = mem_platform cv (symex_env cv cm K n) (symex_kernel K) in
     if a \<le> 0x01ffffff then memory_socket cv cm p h
     else if 0x02000000 \<le> a \<and> a \<le> 0x0200ffff then clint_transport (symex_clint K) (local 0x02000000) h
     else if 0x02020000 \<le> a \<and> a \<le> 0x02020032 then
       ctrl_transport (symex_ctrl K (make_symbolic cv pl)) (local 0x02020000) h
     else if 0x02020100 \<le> a \<and> a \<le> 0x02020132 then sensor_transport cv (symex_sensor K) (local 0x02020100) h
     else (Inr (p\<lparr>p_error := True\<rparr>), h))"
  by (auto simp: bus_transport_def bus_decode_def symex_ports_def port_contains_def PortMapping_of_def
      global_to_local_def Let_def symex_env_def)

text \<open>
  C20: Store-conditional. \<open>SC.W\<close> succeeds only if the hart still holds the bus lock of its load-reserved
  and the address operand is the reserved one; whenever the operation returns, the hart no longer
  holds the lock, so a reservation is used at most once.
\<close>

theorem store_conditional_sound:
  assumes "mem_atomic_store_conditional_word cv env addr value h = (Inr success, h')"
  shows "(success \<longrightarrow> is_locked_by (hart_id h) (w_bus_lock (h_world h)) \<and>
      same_object env addr (w_lr_addr (h_world h))) \<and>
    \<not> is_locked_by (hart_id h') (w_bus_lock (h_world h'))"
  using assms
  by (auto simp: mem_atomic_store_conditional_word_def bus_is_locked_def mem_store_def mem_symbolic_store_data_def
      mem_atomic_unlock_def upd_world_def bind_m_apply then_m_apply is_locked_by_def unlock_def hart_id_def
      split: if_splits prod.splits sum.splits)

lemma sample_unlocked: "bus_is_locked sample_hart = (Inr False, sample_hart)"
  by (simp add: bus_is_locked_def is_locked_by_def sample_world BusLock_init_def)

theorem store_conditional_sound_witness:
  "mem_atomic_store_conditional_word (bv_clover sample_inputs)
     (symex_env (bv_clover sample_inputs) bv_memory bv_kernel 1) (Concrete 32 0) (Concrete 32 7) sample_hart =
     (Inr False, sample_hart) \<and> \<not> is_locked_by (hart_id sample_hart) (w_bus_lock (h_world sample_hart))"
proof -
  have "mem_atomic_store_conditional_word (bv_clover sample_inputs)
     (symex_env (bv_clover sample_inputs) bv_memory bv_kernel 1) (Concrete 32 0) (Concrete 32 7) sample_hart =
     (Inr False, sample_hart)"
    by (simp add: mem_atomic_store_conditional_word_def bind_m_apply sample_unlocked)
  with store_conditional_sound [OF this] show ?thesis by simp
qed

text \<open>The concolic value the sensor returns, and its range.\<close>

definition sensor_value :: "('v, 'e) clover \<Rightarrow> SymbolicSensor \<Rightarrow> 'v \<Rightarrow> 'v" where
  "sensor_value cv d v = c_add cv (c_urem cv v (BVC cv (upper_bound d - lower_bound d))) (BVC cv (lower_bound d))"

lemma word_range_mod:
  assumes "(l :: u32) < u"
  shows "l \<le> x mod (u - l) + l" "x mod (u - l) + l < u"
proof -
  have d: "unat (u - l) = unat u - unat l" using assms by (simp add: unat_sub)
  have "0 < u - l" using assms by (simp add: word_less_nat_alt d)
  then have "x mod (u - l) < u - l" by (rule word_mod_less_divisor)
  then have m: "unat (x mod (u - l)) < unat u - unat l" by (simp add: word_less_nat_alt d)
  then have "unat (x mod (u - l)) + unat l < 2 ^ 32" using unsigned_less [of u, where 'a = nat] by simp
  then have e: "unat (x mod (u - l) + l) = unat (x mod (u - l)) + unat l"
    by (subst unat_add_lem [THEN iffD1]) simp_all
  show "l \<le> x mod (u - l) + l" "x mod (u - l) + l < u"
    using m by (simp_all add: word_le_nat_alt word_less_nat_alt e)
qed

context clover_laws
begin

lemma sensor_value_range:
  assumes "getWidth cv v = 32" and "\<not> upper_bound d \<le> lower_bound d"
  shows "lower_bound d \<le> val32 ev a (sensor_value cv d v) \<and> val32 ev a (sensor_value cv d v) < upper_bound d"
proof -
  have "val32 ev a (BVC cv (upper_bound d - lower_bound d)) \<noteq> 0" using assms(2) by (simp add: val32_BVC)
  note m = val32_div(2) [OF assms(1) _ this]
  have "val32 ev a (sensor_value cv d v) = val32 ev a v mod (upper_bound d - lower_bound d) + lower_bound d"
    using m BVC_law width_binop(7) [OF assms(1)] by (simp add: sensor_value_def val32_arith val32_BVC)
  with word_range_mod [of "lower_bound d" "upper_bound d"] assms(2) show ?thesis by simp
qed

end

definition ranged_hart :: "(bv_value, bv_expr, bv_image) sys" where
  "ranged_hart = upd_devices (d_sensor_update (\<lambda>_. \<lparr>nread = 0, lower_bound = 10, upper_bound = 20\<rparr>)) sample_hart"


text \<open>A page table whose entries are valid but not yet marked as accessed and dirty.\<close>

definition clean_transport :: "(bv_value, (bv_value, bv_expr, bv_image) sys) target" where
  "clean_transport p = return_m (case p_command p of
     TLM_READ_COMMAND \<Rightarrow> p\<lparr>p_data := mem_read 0 (length (p_data p)) [0x0f]\<rparr> | _ \<Rightarrow> p)"

definition clean_env :: "(bv_value, bv_expr, bv_image symex_devices) mem_env" where
  "clean_env = symex_env_of bv_kernel clean_transport"

definition locked_paged_hart :: "(bv_value, bv_expr, bv_image) sys" where
  "locked_paged_hart = snd (upd_world (\<lambda>w. w\<lparr>w_bus_lock := \<lparr>locked = True, owner = 0\<rparr>\<rparr>) paged_hart)"

lemma locked_paged_fields:
  "hart_id locked_paged_hart = 0" "w_bus_lock (h_world locked_paged_hart) = \<lparr>locked = True, owner = 0\<rparr>"
  "h_csrs locked_paged_hart = csr_table_init\<lparr>satp_reg := 0x80000010\<rparr>" "h_prv locked_paged_hart = 1"
  "w_tlb (h_world locked_paged_hart) = (\<lambda>_ _ _. empty_entry)"
  by (simp_all add: locked_paged_hart_def upd_world_def hart_id_def paged_hart_def csr_table_init_def sample_world)

lemma clean_transport_read:
  "p_command p = TLM_READ_COMMAND \<Longrightarrow> do_transaction clean_env p h =
     (if p_error p then (Inl (SimulationTrap EXC_LOAD_PAGE_FAULT (p_address p)), h)
      else (Inr (p\<lparr>p_data := mem_read 0 (length (p_data p)) [0x0f]\<rparr>), h))"
  by (simp add: do_transaction_def clean_env_def symex_env_of_def clean_transport_def bind_m_apply raise_trap_def)

lemma clean_transport_write:
  "p_command p = TLM_WRITE_COMMAND \<Longrightarrow> \<not> p_error p \<Longrightarrow> do_transaction clean_env p h = (Inr p, h)"
  by (simp add: do_transaction_def clean_env_def symex_env_of_def clean_transport_def bind_m_apply)

lemma clean_wait: "hart_id h = owner (w_bus_lock (h_world h)) \<Longrightarrow> wait_for_access_rights env h = (Inr (), h)"
  by (simp add: wait_for_access_rights_def access_must_wait_def is_locked_def is_locked_by_def when_m_def)

lemma clean_load:
  "hart_id h = owner (w_bus_lock (h_world h)) \<Longrightarrow> mmu_load_pte32 clean_env a h = (Inr 0x0f, h)"
  by (simp add: mmu_load_pte32_def concrete_load_data_def clean_wait concrete_read_def
      clean_transport_read bind_m_apply then_m_apply bytes_to_u32_def bytes_to_nat_def numeral_3_eq_3 mem_read_def
      clean_env_def [THEN arg_cong, of dmi_ranges] symex_env_of_def)

lemma clean_store:
  "hart_id h = owner (w_bus_lock (h_world h)) \<Longrightarrow> mmu_store_pte32 clean_env a v h = mem_atomic_unlock h"
  by (simp add: mmu_store_pte32_def concrete_store_data_def clean_wait concrete_write_def
      clean_transport_write bind_m_apply then_m_apply when_m_def
      clean_env_def [THEN arg_cong, of dmi_ranges] symex_env_of_def)

lemma clean_walk:
  "walk clean_env 0x1234 STORE 1 locked_paged_hart =
     (Inr 0x1234, snd (mem_atomic_unlock locked_paged_hart))"
proof -
  have vm: "decode_vm_info (h_csrs locked_paged_hart) 1 =
     Inr \<lparr>vm_levels = 2, vm_idxbits = 10, vm_ptesize = 4, vm_ptbase = 0x10000\<rparr>"
    by (simp add: decode_vm_info_def locked_paged_fields bf_get_def Let_def)
  have ad: "\<not> page_fault_on_AD clean_env" by (simp add: clean_env_def symex_env_of_def)
  have id: "hart_id locked_paged_hart = owner (w_bus_lock (h_world locked_paged_hart))"
    by (simp add: locked_paged_fields)
  show ?thesis
    by (simp add: walk_def lift_sum_def vm check_vaddr_extension_def bind_m_apply clean_load [OF id] Let_def
      walk_levels_2 pte_flag_def leaf_permits_def leaf_paddr_def ad clean_store [OF id] then_m_apply
      mem_atomic_unlock_def upd_world_def)
qed

lemma paged_lock: "bus_lock_lock env paged_hart = (Inr (), locked_paged_hart)"
  by (simp add: bus_lock_lock_def lock_must_wait_def lock_acquire_def paged_hart_def sample_world BusLock_init_def
      hart_id_def csr_table_init_def when_m_def lift_sum_def upd_world_def locked_paged_hart_def bind_m_apply
      then_m_apply)

lemma clean_translate:
  "\<exists>h'. translate_virtual_to_physical_addr clean_env 0x1234 STORE locked_paged_hart = (Inr 0x1234, h') \<and>
    hart_id h' = 0 \<and> w_bus_lock (h_world h') = \<lparr>locked = False, owner = 0\<rparr>"
  using clean_walk
  by (simp add: translate_virtual_to_physical_addr_def Let_def effective_mode_def assert_m_def bind_m_apply
      then_m_apply locked_paged_fields bf_get_def csr_table_init_def upd_world_def empty_entry_def
      mem_atomic_unlock_def unlock_def hart_id_def)


end
