(* ===== verification/Run_Props.thy ===== *)
theory Run_Props
  imports Mem_Props
begin

text \<open>
  The simulation loop: every step keeps the invariant of the hart, whatever instruction, trap or
  interrupt it executes; a run of the SymEx platform from its initial state records a path
  condition that the current inputs satisfy; and the loop ends where it should.
\<close>

section \<open>Lemmas\<close>

text \<open>The states of a simulation between two steps.\<close>

inductive steps :: "('v, 'e) clover \<Rightarrow> ('v, 'e, 'm) platform \<Rightarrow> ('v, 'e, 'm) hart \<Rightarrow> ('v, 'e, 'm) hart \<Rightarrow> bool"
  for cv pl h where
    refl: "steps cv pl h h"
  | step: "steps cv pl h h' \<Longrightarrow> run_step cv pl h' = (Inr (), h'') \<Longrightarrow> steps cv pl h h''"

context iss_core
begin

lemma step_inv:
  assumes "hart_inv cv sem cur h" "x0_zero cv h" and "run_step cv pl h = (r, h')"
  shows "hart_inv cv sem cur h' \<and> (case r of Inl e \<Rightarrow> core_error PE e | Inr _ \<Rightarrow> x0_zero cv h')"
  using run_step_keeps [OF assms(1-3)] .

lemma steps_inv:
  assumes "steps cv pl h h'" and "hart_inv cv sem cur h" and "x0_zero cv h"
  shows "hart_inv cv sem cur h' \<and> x0_zero cv h'"
  using assms by (induction rule: steps.induct) (auto dest: step_inv)

lemma run_inv:
  assumes "run cv pl n h = Some (r, h')" and "hart_inv cv sem cur h" and "x0_zero cv h"
  shows "hart_inv cv sem cur h' \<and> (case r of Inl e \<Rightarrow> core_error PE e | Inr _ \<Rightarrow> x0_zero cv h')"
  using assms
proof (induction n arbitrary: h)
  case (Suc n)
  obtain r1 h1 where step: "run_step cv pl h = (r1, h1)" by (cases "run_step cv pl h")
  note inv1 = step_inv [OF Suc.prems(2,3) step]
  show ?case
  proof (cases r1)
    case (Inl e)
    with Suc.prems(1) step inv1 show ?thesis by auto
  next
    case (Inr u)
    show ?thesis
    proof (cases "h_status h1 = Runnable")
      case True
      with Suc Inr step inv1 show ?thesis by simp
    next
      case False
      with Suc.prems(1) Inr step have "quantum_sync pl h1 = (r, h')" by simp
      moreover have "safe (core_error PE) inv0 (quantum_sync pl) (\<lambda>_. True)" by (rule kernel_safe_inv0)
      ultimately show ?thesis using inv1 Inr unfolding safe_def by (cases r) fastforce+
    qed
  qed
qed simp

end

context symex_laws
begin

lemma core_laws: "iss_core cv ev sem cur (symex_platform cv cm K n) PE"
  unfolding symex_platform_def by unfold_locales

end

text \<open>The state of a hart after \<^verbatim>\<open>ISS::init\<close>, on any platform.\<close>

lemma boot_inv:
  assumes "clover_laws cv ev sem cur" and "entry AND 1 = 0"
  shows "hart_inv cv sem cur (snd (ISS_init cv entry sp (ISS_construct cv 0 False w)))"
    "x0_zero cv (snd (ISS_init cv entry sp (ISS_construct cv 0 False w)))"
proof -
  let ?h = "snd (ISS_init cv entry sp (ISS_construct cv 0 False w))"
  have b: "getWidth cv (BVC cv k) = 32" "getValue cv (BVC cv k) = k" for k
    using clover_laws.BVC_law [OF assms(1)] clover_laws.val32_getValue [OF assms(1)]
      clover_laws.val32_BVC [OF assms(1)] by simp_all
  have fields: "h_regs ?h = (replicate 32 (BVC cv 0))[2 := BVC cv sp]" "h_pc ?h = entry"
    "h_csrs ?h = csr_table_init\<lparr>mhartid_reg := 0\<rparr>" "h_last_pc ?h = 0" "h_lr_sc_counter ?h = 0" "h_tracer ?h = []"
    by (simp_all add: ISS_init_def ISS_construct_def RegFile_write_def RegFile_init_def assert_m_def
        then_m_apply Let_def b)
  show "hart_inv cv sem cur ?h"
    using init_csrs(4) assms(2) set_update_subset_insert [of "replicate 32 (BVC cv 0)" 2 "BVC cv sp"]
    by (auto simp: hart_inv_def regs_wf_def even_pcs_def trace_sound_def fields b csrs_wf_def
        has_C_extension_def csr_table_init_def)
  show "x0_zero cv ?h" by (simp add: x0_zero_def fields b)
qed

lemma init_inv:
  assumes "clover_laws cv ev sem cur" and "entry AND 1 = 0"
  shows "hart_inv cv sem cur (snd (symex_init cv img entry))" "x0_zero cv (snd (symex_init cv img entry))"
  unfolding symex_init_def by (rule boot_inv [OF assms])+

lemma sample_inv: "hart_inv (bv_clover cur) (\<lambda>a f. f a) cur sample_hart" "x0_zero (bv_clover cur) sample_hart"
  using init_csrs(4) sample_regs [of cur]
  by (auto simp: hart_inv_def even_pcs_def trace_sound_def x0_zero_def sample_hart_def init_fields csrs_wf_def
        has_C_extension_def csr_table_init_def bv_clover_def symex_init_def ISS_init_def ISS_construct_def
        RegFile_write_def assert_m_def then_m_apply Let_def)

text \<open>The opcodes whose cases are disabled in \<^verbatim>\<open>ISS::exec_step\<close>.\<close>

definition disabled_opcode :: "Mapping \<Rightarrow> bool" where
  "disabled_opcode op = (case op of
       OpI64 _ \<Rightarrow> True | OpM64 _ \<Rightarrow> True | OpA64 _ \<Rightarrow> True | OpF _ \<Rightarrow> True | OpF64 _ \<Rightarrow> True
     | OpD _ \<Rightarrow> True | OpD64 _ \<Rightarrow> True | OpPriv i \<Rightarrow> i \<in> {URET, SRET, SFENCE_VMA} | _ \<Rightarrow> False)"

section \<open>A sample execution\<close>

text \<open>A memory image in which every word is the instruction \<open>ADDI x0, x0, 0\<close>.\<close>

definition nop_image :: bv_image where
  "nop_image a = Concrete 8 (if a mod 4 = 0 then 0x13 else 0)"

abbreviation nop_hart :: "(bv_value, bv_expr, bv_image) sys" where
  "nop_hart \<equiv> snd (symex_init (bv_clover sample_inputs) nop_image 0x10000)"

lemma nop_word: "cm_load bv_memory nop_image 0x10000 4 = Concrete 32 0x13"
  by (simp add: bv_memory_def nop_image_def bv_byte_def bv_concat_def upt_rec bv_lift1_def bv_lift2_def)

lemma fetch_direct:
  assumes "direct_access FETCH h" and "memory_size_ok h" and "unat pc + 4 \<le> 0x02000000"
  shows "mem_load_instr (symex_env cv cm K (Suc n)) (ucast (pc :: u32)) h = (Inr (bytes_to_u32
    (BVCToBytes cv (cm_load cm (sym_memory (d_memory (devices h))) (ucast pc) 4) 4)), h)"
proof -
  have dmi: "dmi_ranges (symex_env cv cm K (Suc n)) = []" by (simp add: symex_env_def symex_env_of_def)
  show ?thesis
  using assms
  by (simp add: mem_load_instr_def wait_direct v2p_direct concrete_load_data_def dmi concrete_read_def
      do_transaction_def memory_access Let_def
      bind_m_apply then_m_apply del: symex_transport.simps)
qed

lemma nop_fields:
  "h_world nop_hart = \<lparr>w_bus_lock = BusLock_init, w_lr_addr = None, w_tlb = \<lambda>_ _ _. empty_entry,
     w_devices = \<lparr>d_memory = \<lparr>sym_size = 0x02000000, sym_memory = nop_image\<rparr>, d_clint = CLINT_make 1,
       d_ctrl = SymbolicCTRL_make, d_sensor = SymbolicSensor_make\<rparr>\<rparr>"
  "h_pc nop_hart = 0x10000" "h_debug_mode nop_hart = False" "h_shall_exit nop_hart = False"
  "h_regs nop_hart = (replicate 32 (Concrete 32 0))[2 := Concrete 32 0x01fffffc]"
  by (simp_all add: symex_init_def ISS_init_def ISS_construct_def RegFile_write_def RegFile_init_def assert_m_def
      then_m_apply Let_def bv_clover_def)

lemma nop_fetch:
  "mem_load_instr (symex_env (bv_clover sample_inputs) bv_memory bv_kernel (Suc 0)) 0x10000
     (nop_hart\<lparr>h_last_pc := 0x10000\<rparr>) = (Inr 0x13, nop_hart\<lparr>h_last_pc := 0x10000\<rparr>)"
proof -
  let ?h = "nop_hart\<lparr>h_last_pc := 0x10000\<rparr>"
  have d: "direct_access FETCH ?h" "memory_size_ok ?h"
    by (simp_all add: direct_access_def paging_def init_fields csr_table_init_def bf_get_def access_must_wait_def
        is_locked_def BusLock_init_def memory_size_ok_def devices_def nop_fields effective_mode_def)
  show ?thesis
    using fetch_direct [OF d, of "0x10000"  "bv_clover sample_inputs" bv_memory bv_kernel 0]
    by (simp add: devices_def nop_fields nop_word) (simp add: bv_clover_def bytes_to_u32_def bytes_to_nat_def nat_to_bytes_def upt_rec)
qed

lemma nop_decode:
  "decode_normal 0x13 RV32 = OpI ADDI" "is_compressed 0x13 = False" "rd 0x13 = 0" "rs1 0x13 = 0" "I_imm 0x13 = 0"
  by code_simp+

text \<open>The step from a state after reset whose program counter points to that instruction, on any platform.\<close>

definition boot_state :: "(bv_value, bv_expr, 'm) hart \<Rightarrow> u32 \<Rightarrow> bool" where
  "boot_state h pc \<longleftrightarrow> (\<exists>sp. h_regs h = (replicate 32 (Concrete 32 0))[2 := Concrete 32 sp]) \<and> h_pc h = pc \<and>
     h_csrs h = csr_table_init\<lparr>mhartid_reg := 0\<rparr> \<and> \<not> h_debug_mode h \<and> \<not> h_shall_exit h \<and> h_prv h = MachineMode \<and>
     h_lr_sc_counter h = 0"

lemma nop_exec:
  fixes h :: "(bv_value, bv_expr, 'm) hart"
  assumes "boot_state h pc" and "pc AND NOT (pc_alignment_mask (h_csrs h)) = 0"
    and fetch: "load_instr pl (ucast pc) (h\<lparr>h_last_pc := pc\<rparr>) = (Inr 0x13, h\<lparr>h_last_pc := pc\<rparr>)"
  shows "\<exists>v. exec_step (bv_clover sample_inputs) pl (h\<lparr>h_last_pc := pc\<rparr>) =
     (Inr (), h\<lparr>h_last_pc := pc, h_instr := 0x13, h_op := OpI ADDI, h_pc := pc + 4, h_regs := (h_regs h)[0 := v]\<rparr>)"
proof -
  have "getWidth (bv_clover sample_inputs) (Concrete 32 0) = 32" by (simp add: bv_clover_def)
  note w = bv.width_binop(1) [OF this bv.I_IMM_value(1) [of sample_inputs "0x13"]]
  show ?thesis
    using init_csrs(1) w assms
    by (intro exI) (auto simp: boot_state_def exec_step_def fetch_instr_def decode_instr_def assert_m_def
        has_C_extension_def catch_m_def bind_m_apply then_m_apply nop_decode exec_op_def
        exec_rv32i_def exec_imm_def RegFile_at_def RegFile_write_def)
qed

lemma nop_step:
  fixes h :: "(bv_value, bv_expr, 'm) hart"
  assumes boot: "boot_state h pc" and "pc AND NOT (pc_alignment_mask (h_csrs h)) = 0"
    and "load_instr pl (ucast pc) (h\<lparr>h_last_pc := pc\<rparr>) = (Inr 0x13, h\<lparr>h_last_pc := pc\<rparr>)"
    and q: "\<And>t. quantum_inc pl t = return_m ()" "quantum_need_sync pl = return_m False"
  shows "\<exists>h'. run_step (bv_clover sample_inputs) pl h = (Inr (), h') \<and> h_pc h' = pc + 4 \<and> h_world h' = h_world h"
proof -
  obtain v where v: "exec_step (bv_clover sample_inputs) pl (h\<lparr>h_last_pc := pc\<rparr>) =
     (Inr (), h\<lparr>h_last_pc := pc, h_instr := 0x13, h_op := OpI ADDI, h_pc := pc + 4, h_regs := (h_regs h)[0 := v]\<rparr>)"
    using nop_exec [OF assms(1-3)] by blast
  have w: "getWidth (bv_clover sample_inputs) (BVC (bv_clover sample_inputs) 0) = 32"
     "getValue (bv_clover sample_inputs) (Concrete 32 0) = 0"
    by (simp_all add: bv_clover_def)
  show ?thesis
    using boot
    by (auto simp: boot_state_def run_step_def RegFile_read_def w assert_m_def bind_m_apply then_m_apply catch_m_def v
        take_interrupts_def compute_pending_interrupts_def csr_table_init_def RegFile_write_def when_m_def
        performance_and_sync_update_def q Let_def upd_csrs_def)
qed

lemma nop_hart_step:
  "\<exists>h'. run_step (bv_clover sample_inputs) (bv_symex sample_inputs (Suc 0)) nop_hart = (Inr (), h') \<and> h_pc h' = 0x10004"
proof -
  have "boot_state nop_hart 0x10000" by (auto simp: boot_state_def nop_fields init_fields)
  moreover have "load_instr (bv_symex sample_inputs (Suc 0)) =
      mem_load_instr (symex_env (bv_clover sample_inputs) bv_memory bv_kernel (Suc 0))"
    "\<And>t. quantum_inc (bv_symex sample_inputs (Suc 0)) t = return_m ()"
    "quantum_need_sync (bv_symex sample_inputs (Suc 0)) = return_m False"
    by (simp_all add: symex_platform_def mem_platform_def symex_kernel_def bv_kernel_def)
  moreover have "(0x10000 :: u32) AND NOT (pc_alignment_mask (h_csrs nop_hart)) = 0"
    using init_csrs(1) by (simp add: pc_alignment_mask_def init_fields has_C_extension_def)
  ultimately show ?thesis
    using nop_step [of nop_hart "0x10000" "bv_symex sample_inputs (Suc 0)"] nop_fetch by auto
qed

section \<open>Properties\<close>

text \<open>
  C1: The invariant of the core. On every platform that keeps its contract, a step of the simulator
  (any instruction, trap, interrupt or breakpoint) keeps the register file well-formed, the program
  counters even, the interrupt enables legal, the reservation counter within its bounds and the
  recorded path condition true for the current inputs, and it leaves \<open>x0\<close> zero. It ends with an
  error only for the reasons listed in \<open>core_error\<close>; in particular no assertion about the zero
  register, the alignment of the program counter or the reservation counter can fail.
\<close>

theorem run_step_invariant:
  assumes "iss_core cv ev sem cur pl PE" and "hart_inv cv sem cur h" and "x0_zero cv h"
    and "run_step cv pl h = (r, h')"
  shows "hart_inv cv sem cur h' \<and> (case r of Inl e \<Rightarrow> core_error PE e | Inr _ \<Rightarrow> x0_zero cv h')"
  using iss_core.step_inv [OF assms] .

theorem run_step_invariant_witness:
  "\<exists>r h'. run_step (bv_clover sample_inputs) (bv_symex sample_inputs 1) sample_hart = (r, h') \<and>
    hart_inv (bv_clover sample_inputs) (\<lambda>a f. f a) sample_inputs h'"
proof (cases "run_step (bv_clover sample_inputs) (bv_symex sample_inputs 1) sample_hart")
  case (Pair r h')
  with run_step_invariant [OF core.iss_core_axioms sample_inv Pair] show ?thesis by blast
qed

text \<open>
  C2: Soundness of the path condition. In every state that a simulation of the SymEx platform reaches
  from its initial state (any memory image, any even entry point), each recorded branch is an
  expression over the symbolic inputs whose value under the current inputs is the recorded outcome,
  and the rest of the core's invariant holds.
\<close>

theorem path_condition_sound:
  assumes "symex_laws cv ev sem cur cm K PE" and "entry AND 1 = 0"
    and "steps cv (symex_platform cv cm K n) (snd (symex_init cv img entry)) h"
  shows "trace_sound sem cur h \<and> hart_inv cv sem cur h \<and> x0_zero cv h"
proof -
  have laws: "clover_laws cv ev sem cur" and core: "iss_core cv ev sem cur (symex_platform cv cm K n) PE"
    using assms(1) by (simp_all add: symex_laws.core_laws symex_laws_def)
  from iss_core.steps_inv [OF core assms(3) init_inv [OF laws assms(2)]] show ?thesis
    by (simp add: hart_inv_def)
qed

theorem path_condition_sound_witness:
  "\<exists>h. steps (bv_clover sample_inputs) (bv_symex sample_inputs 1) nop_hart h \<and> h_pc h = 0x10004 \<and>
    trace_sound (\<lambda>a f. f a) sample_inputs h"
proof -
  obtain h where r: "run_step (bv_clover sample_inputs) (bv_symex sample_inputs 1) nop_hart = (Inr (), h)"
    and pc: "h_pc h = 0x10004"
    using nop_hart_step unfolding One_nat_def by blast
  have s: "steps (bv_clover sample_inputs) (bv_symex sample_inputs 1) nop_hart h"
    by (rule steps.step [OF steps.refl r])
  have "(0x10000 :: u32) AND 1 = 0" by simp
  from path_condition_sound [OF symex.symex_laws_axioms this s] s pc show ?thesis by blast
qed

text \<open>
  The result of a run does not depend on the bound given to the loop: once \<open>run\<close> returns within a
  number of steps, every larger bound gives the same result.
\<close>

lemma run_fuel_irrelevant:
  assumes "run cv pl n h = Some x"
  shows "run cv pl (n + k) h = Some x"
  using assms
proof (induction n arbitrary: h)
  case (Suc n)
  obtain r h1 where "run_step cv pl h = (r, h1)" by (cases "run_step cv pl h")
  with Suc show ?case by (cases r) (auto split: if_splits)
qed simp

text \<open>
  A breakpoint stops the core before the instruction at its address: the run ends after one
  iteration with the status changed and nothing executed.
\<close>

lemma breakpoint_stops:
  assumes "h_debug_mode h" and "h_pc h \<in> h_breakpoints h" and "x0_zero cv h"
  shows "run cv pl (Suc n) h = Some (quantum_sync pl (h\<lparr>h_status := HitBreakpoint\<rparr>))"
  using assms
  by (simp add: run_step_def RegFile_read_def x0_zero_def assert_m_def set_status_def bind_m_apply then_m_apply)

abbreviation stopped_hart :: "(bv_value, bv_expr, bv_image) sys" where
  "stopped_hart \<equiv> sample_hart\<lparr>h_debug_mode := True, h_breakpoints := {h_pc sample_hart}\<rparr>"

lemma stopped_x0: "x0_zero (bv_clover cur) stopped_hart"
  using sample_inv(2) [of cur] by (simp add: x0_zero_def)

lemma breakpoint_stops_witness:
  "run (bv_clover sample_inputs) (bv_symex sample_inputs 1) (Suc 0) stopped_hart =
    Some (quantum_sync (bv_symex sample_inputs 1) (stopped_hart\<lparr>h_status := HitBreakpoint\<rparr>))"
  by (rule breakpoint_stops [OF _ _ stopped_x0]) simp_all

lemma run_fuel_irrelevant_witness:
  "run (bv_clover sample_inputs) (bv_symex sample_inputs 1) (1 + 10) stopped_hart =
    Some (Inr (), stopped_hart\<lparr>h_status := HitBreakpoint\<rparr>)"
proof -
  have q: "quantum_sync (bv_symex sample_inputs 1) = return_m ()"
    by (simp add: symex_platform_def mem_platform_def symex_kernel_def bv_kernel_def)
  have "run (bv_clover sample_inputs) (bv_symex sample_inputs 1) 1 stopped_hart =
      Some (Inr (), stopped_hart\<lparr>h_status := HitBreakpoint\<rparr>)"
    using stopped_x0 [of sample_inputs] q
    by (simp add: run_step_def RegFile_read_def x0_zero_def assert_m_def set_status_def bind_m_apply then_m_apply)
  then show ?thesis by (rule run_fuel_irrelevant)
qed

text \<open>
  The opcodes the decoder accepts but the simulator has disabled (floating point, the 64-bit
  instructions, \<open>SFENCE.VMA\<close>, \<open>SRET\<close>, \<open>URET\<close>) do not raise an illegal instruction trap: they leave the
  state unchanged and throw a runtime error that ends the simulation.
\<close>

lemma disabled_opcodes_abort:
  assumes "disabled_opcode op"
  shows "exec_op cv pl w op h = (Inl (RuntimeError ''unknown opcode''), h)"
  using assms
  by (cases op) (auto simp: exec_op_def exec_privileged_def unknown_opcode_def disabled_opcode_def
      split: privileged.splits)

lemma disabled_opcodes_abort_witness:
  "decode_normal 0x10200073 RV32 = OpPriv SRET \<and>
   exec_op (bv_clover sample_inputs) (bv_symex sample_inputs 1) 0x10200073 (OpPriv SRET) sample_hart =
     (Inl (RuntimeError ''unknown opcode''), sample_hart)"
proof -
  have "decode_normal 0x10200073 RV32 = OpPriv SRET" by code_simp
  moreover have "disabled_opcode (OpPriv SRET)" by (simp add: disabled_opcode_def)
  ultimately show ?thesis using disabled_opcodes_abort [of "OpPriv SRET"] by blast
qed

end
