(* ===== verification/Hifive_Run.thy ===== *)
theory Hifive_Run
  imports Hifive_Laws Hifive_Props Run_Props
begin

text \<open>
  The HiFive platform while it runs: the hart, the processes that SystemC schedules for the
  peripherals (\<open>hifive_process\<close>) and the host threads that feed them (\<open>hifive_event\<close>) take turns in any
  order. The interfaces of \<^verbatim>\<open>Hifive_Laws\<close> and \<^verbatim>\<open>Iss_Inv\<close> are discharged for the platform on the
  bit-vector instance, and the invariant of the core is carried through every interleaving.
\<close>

section \<open>Processes and host threads\<close>

datatype hifive_process = CoreThread | PlicThread | GpioMethod "(nat \<times> u8) list list" | Uart0Method | Uart1Method | ClintMethod

datatype hifive_event = PinChange nat u8 | TimerExpired | UartReceive u8 | UartTransmit | CanFrame can_frame

text \<open>A process is runnable when the event it is sensitive to has been notified.\<close>

definition process_runnable :: "('v, 'e, 'c) hifive_kernel \<Rightarrow> hifive_process \<Rightarrow> ('v, 'e, 'c) hsys \<Rightarrow> bool" where
  "process_runnable K p h = (let d = devices h; now = sk_time (hk_kernel K) h in case p of
     CoreThread \<Rightarrow> h_status h = Runnable
   | PlicThread \<Rightarrow> (case e_run (hd_plic d) of None \<Rightarrow> False | Some t \<Rightarrow> t \<le> now)
   | GpioMethod rounds \<Rightarrow> gp_asyncEvent (hd_gpio0 d)
   | Uart0Method \<Rightarrow> ua_asyncEvent (hd_uart0 d)
   | Uart1Method \<Rightarrow> su_asyncEvent (hd_uart1 d) \<noteq> None
   | ClintMethod \<Rightarrow> rc_event (hd_clint d))"

definition process_run ::
  "('v, 'e) clover \<Rightarrow> ('v, 'c) concolic_memory \<Rightarrow> ('v, 'e, 'c) hifive_kernel \<Rightarrow> nat \<Rightarrow> hifive_process \<Rightarrow>
   (('v, 'e, 'c) hsys, unit) smonad" where
  "process_run cv cm K n p = (case p of
     CoreThread \<Rightarrow> run_step cv (hifive_platform cv cm K n)
   | PlicThread \<Rightarrow> hifive_plic_run K
   | GpioMethod rounds \<Rightarrow> hifive_gpio_method K rounds
   | Uart0Method \<Rightarrow> hifive_uart0_method K
   | Uart1Method \<Rightarrow> hifive_uart1_method K
   | ClintMethod \<Rightarrow> rc_interrupt (hifive_clint K))"

text \<open>One turn of a host thread; None when it has nothing to do or waits on a semaphore.\<close>

definition uart_transmit :: "AbstractUART \<Rightarrow> AbstractUART option" where
  "uart_transmit u = (case swait_txfull u of
     None \<Rightarrow> None
   | Some u' \<Rightarrow> (case tx_fifo u' of [] \<Rightarrow> None | b # q \<Rightarrow> Some (u'\<lparr>tx_fifo := q, ua_asyncEvent := True\<rparr>)))"

definition event_run :: "hifive_event \<Rightarrow> ('v, 'c) hifive_devices \<Rightarrow> ('v, 'c) hifive_devices option" where
  "event_run ev d = (case ev of
     PinChange pin val \<Rightarrow> Some (hd_gpio0_update (asyncOnchange pin val) d)
   | TimerExpired \<Rightarrow> if list_ex t_running (rc_timers (hd_clint d)) then Some (hd_clint_update timercb d) else None
   | UartReceive b \<Rightarrow> map_option (\<lambda>u. d\<lparr>hd_uart0 := u\<rparr>) (uart_rxpush b (hd_uart0 d))
   | UartTransmit \<Rightarrow> map_option (\<lambda>u. d\<lparr>hd_uart0 := u\<rparr>) (uart_transmit (hd_uart0 d))
   | CanFrame f \<Rightarrow> Some (hd_can_update (enqueueIncomingCanFrame f) d))"

inductive hifive_reach ::
  "('v, 'e) clover \<Rightarrow> ('v, 'c) concolic_memory \<Rightarrow> ('v, 'e, 'c) hifive_kernel \<Rightarrow> nat \<Rightarrow>
   ('v, 'e, 'c) hsys \<Rightarrow> ('v, 'e, 'c) hsys \<Rightarrow> bool"
  for cv cm K n h where
    start: "hifive_reach cv cm K n h h"
  | process: "hifive_reach cv cm K n h h' \<Longrightarrow> process_runnable K p h' \<Longrightarrow> process_run cv cm K n p h' = (Inr (), h'') \<Longrightarrow>
      hifive_reach cv cm K n h h''"
  | event: "hifive_reach cv cm K n h h' \<Longrightarrow> event_run ev (devices h') = Some d \<Longrightarrow>
      hifive_reach cv cm K n h (upd_devices (\<lambda>_. d) h')"

inductive_cases hifive_reachE: "hifive_reach cv cm K n h h'"

section \<open>Peripheral processes stay outside the core\<close>

lemma contained_unit [intro!]: "contained E (Pair (Inr ())) (\<lambda>_. True)"
  by (simp add: contained_def)

lemma gateway_contained: "contained (\<lambda>_. True) (hifive_gateway K irq) (\<lambda>_. True)"
  unfolding hifive_gateway_def gateway_trigger_interrupt_def plic_index_def Let_def hifive_plic_def
  by (auto intro!: contained_rules contained_modify_at contained_bind_any contained_assert)

lemma plic_run_contained: "contained (\<lambda>_. True) (hifive_plic_run K) (\<lambda>_. True)"
proof -
  have "contained (\<lambda>_. True) (plic_run_harts hifive_plic_cfg (hifive_plic K) is) (\<lambda>_. True)" for "is"
  proof (induction "is")
    case (Cons i "is")
    then show ?case
      by (auto simp: plic_run_hart_def hifive_plic_def hart_has_pending_enabled_interrupts_def hart_get_next_pending_interrupt_def
          intro!: contained_rules contained_modify_at contained_bind_any contained_external contained_next_pending)
  qed auto
  then show ?thesis
    unfolding hifive_plic_run_def plic_run_iteration_def
    by (auto simp: hifive_plic_def intro!: contained_then contained_modify_at)
qed

lemma sync_bits_contained: "contained (\<lambda>_. True) (sync_bits (dev_part hd_gpio0 hd_gpio0_update) (hifive_gateway K) b s d is) (\<lambda>_. True)"
  by (induction "is")
    (auto simp: sync_bit_def Let_def intro!: contained_rules contained_modify_at gateway_contained)

lemma synchronous_contained:
  "contained (\<lambda>_. True) (synchronousChange (dev_part hd_gpio0 hd_gpio0_update) (hifive_gateway K) b rounds) (\<lambda>_. True)"
proof (induction rounds)
  case Nil
  show ?case
    by (subst synchronousChange_unfold)
      (auto simp: Let_def intro!: contained_rules contained_modify_at sync_bits_contained)
next
  case (Cons cs rounds)
  then show ?case
    by (subst synchronousChange_unfold)
      (auto simp: Let_def intro!: contained_rules contained_modify_at sync_bits_contained)
qed

lemma rc_interrupt_contained: "contained (\<lambda>_. True) (rc_interrupt (hifive_clint K)) (\<lambda>_. True)"
proof -
  have harts: "contained (\<lambda>_. True) (rc_interrupt_harts (hifive_clint K) is) (\<lambda>_. True)" for "is"
    by (induction "is")
      (auto simp: hifive_clint_def ArrayView_at_def intro!: contained_rules contained_bind_any contained_lines)
  show ?thesis
    unfolding rc_interrupt_def
    by (intro contained_then rc_mtime_contained contained_modify_at harts) (simp_all add: hifive_clint_def)
qed

lemma method_contained: "p \<noteq> CoreThread \<Longrightarrow> contained (\<lambda>_. True) (process_run cv cm K n p) (\<lambda>_. True)"
  unfolding process_run_def
  by (cases p)
    (auto simp: hifive_gpio_method_def hifive_uart0_method_def hifive_uart1_method_def uart_interrupt_def sym_uart_interrupt_def
      intro!: contained_rules contained_modify_at plic_run_contained synchronous_contained gateway_contained rc_interrupt_contained)

section \<open>The invariant through every interleaving\<close>

lemma outside_keeps:
  "outside h h' \<Longrightarrow> hart_inv cv sem cur h \<and> x0_zero cv h \<Longrightarrow> hart_inv cv sem cur h' \<and> x0_zero cv h'"
  by (auto intro: outside_inv simp: x0_zero_def outside_fields)

context hifive_laws
begin

lemma hifive_core: "iss_core cv ev sem cur (hifive_platform cv cm K n) PE"
  unfolding hifive_platform_def by unfold_locales

lemma reach_inv:
  assumes "hifive_reach cv cm K n h h'" and "hart_inv cv sem cur h" and "x0_zero cv h"
  shows "hart_inv cv sem cur h' \<and> x0_zero cv h'"
  using assms
proof (induction rule: hifive_reach.induct)
  case (process h' p h'')
  show ?case
  proof (cases "p = CoreThread")
    case True
    with process have "run_step cv (hifive_platform cv cm K n) h' = (Inr (), h'')" by (simp add: process_run_def)
    from iss_core.step_inv [OF hifive_core _ _ this] process show ?thesis by auto
  next
    case False
    from contained_Inr [OF method_contained [OF False] process.hyps(3)] have "outside h' h''" by simp
    from outside_keeps [OF this] process show ?thesis by simp
  qed
next
  case (event h' ev d)
  with outside_keeps [OF outside_upd_devices] show ?case by simp
qed simp

end

section \<open>The instance\<close>

interpretation hifive: hifive_laws "bv_clover cur" bv_eval "\<lambda>a f. f a" cur bv_memory hifive_bv_kernel peripheral_error
proof (intro hifive_laws.intro hifive_laws_axioms.intro bv.clover_laws_axioms bvm.concolic_memory_laws_axioms)
  show "sim_kernel_laws (bv_clover cur) (hk_kernel hifive_bv_kernel) peripheral_error"
    unfolding hifive_bv_kernel_def by (simp add: bv_kernel_laws peripheral_error_no_trap)
qed (simp_all add: bv_clover_def)

abbreviation bv_hifive ::
  "inputs \<Rightarrow> nat \<Rightarrow> (bv_value, bv_expr, (bv_value, (bv_value, bv_image) hifive_devices) mem_world) platform" where
  "bv_hifive cur n \<equiv> hifive_platform (bv_clover cur) bv_memory hifive_bv_kernel n"

interpretation hifive_core: iss_core "bv_clover cur" bv_eval "\<lambda>a f. f a" cur "bv_hifive cur n" peripheral_error
  by (rule hifive.hifive_core)

lemma hifive_boot:
  assumes "clover_laws cv ev sem cur" and "entry AND 1 = 0"
  shows "hart_inv cv sem cur (snd (hifive_init cv ds entry))" "x0_zero cv (snd (hifive_init cv ds entry))"
  unfolding hifive_init_def by (rule boot_inv [OF assms])+

section \<open>A sample execution\<close>

text \<open>A flash memory with the single instruction \<open>ADDI x0, x0, 0\<close>; the serial input is one symbolic byte.\<close>

definition nop_devices :: "(bv_value, bv_image) hifive_devices" where
  "nop_devices = hifive_devices_make \<lparr>sm_data = [0x13, 0, 0, 0], sm_size = 4\<rparr> (\<lambda>_. Concrete 8 0)
     [Symbolic 8 (\<lambda>a. a ''x'')] 0 (CAN_make (replicate 0x72 0) (replicate 3 (replicate 69 0)) (replicate 2 (replicate 69 0))) True"

abbreviation nop_board :: "(bv_value, bv_expr, bv_image) hsys" where
  "nop_board \<equiv> snd (hifive_init (bv_clover sample_inputs) nop_devices 0x20000000)"

lemma nop_board_fields:
  "h_world nop_board = \<lparr>w_bus_lock = BusLock_init, w_lr_addr = None, w_tlb = \<lambda>_ _ _. empty_entry, w_devices = nop_devices\<rparr>"
  "h_csrs nop_board = csr_table_init\<lparr>mhartid_reg := 0\<rparr>" "h_prv nop_board = MachineMode" "h_status nop_board = Runnable"
  "boot_state nop_board 0x20000000"
  by (auto simp: boot_state_def hifive_init_def ISS_init_def ISS_construct_def RegFile_write_def RegFile_init_def assert_m_def
      then_m_apply Let_def bv_clover_def)

lemma upd_devices_same: "f (devices h) = devices h \<Longrightarrow> upd_devices f h = h"
  by (simp add: upd_devices_def devices_def)

lemma nop_board_bus:
  assumes "h_world h = h_world nop_board"
  shows "hifive_transport cv cm K (Suc n) \<lparr>p_command = TLM_READ_COMMAND, p_address = 0x20000000, p_data = replicate 4 0, p_error = False,
      p_extension = None\<rparr> h =
    (Inr \<lparr>p_command = TLM_READ_COMMAND, p_address = 0, p_data = [0x13, 0, 0, 0], p_error = False, p_extension = None\<rparr>, h)"
proof -
  have d: "hd_flash (devices h) = \<lparr>sm_data = [0x13, 0, 0, 0], sm_size = 4\<rparr>"
    using assms nop_board_fields(1) by (simp add: devices_def) (simp add: nop_devices_def hifive_devices_make_def)
  have "bus_decode hifive_ports 0x20000000 = 0" by code_simp
  moreover have "global_to_local (hifive_ports ! 0) 0x20000000 = 0"
    by (simp add: hifive_ports_def global_to_local_def PortMapping_of_def)
  ultimately have "hifive_transport cv cm K (Suc n) \<lparr>p_command = TLM_READ_COMMAND, p_address = 0x20000000, p_data = replicate 4 0,
      p_error = False, p_extension = None\<rparr> h = run_at (dev_part hd_flash hd_flash_update) (sm_transport_dbg
      \<lparr>p_command = TLM_READ_COMMAND, p_address = 0, p_data = replicate 4 0, p_error = False, p_extension = None\<rparr>) h"
    by (simp add: bus_transport_def hifive_sockets_def Let_def)
  moreover have "upd_devices (hd_flash_update (\<lambda>_. \<lparr>sm_data = [0x13, 0, 0, 0], sm_size = 4\<rparr>)) h = h"
    by (rule upd_devices_same) (simp add: d [symmetric])
  ultimately show ?thesis
    using d by (simp add: run_at_def sm_transport_dbg_def sm_read_data_def assert_m_def bind_m_apply then_m_apply mem_read_def)
qed

lemma hifive_v2p_direct: "direct_access type h \<Longrightarrow> v2p (hifive_env_of K T) a type h = (Inr a, h)"
  by (auto simp: v2p_def hifive_env_of_def direct_access_def paging_def translate_virtual_to_physical_addr_def Let_def)

lemma nop_board_fetch:
  "load_instr (bv_hifive sample_inputs (Suc n)) 0x20000000 (nop_board\<lparr>h_last_pc := 0x20000000\<rparr>) =
     (Inr 0x13, nop_board\<lparr>h_last_pc := 0x20000000\<rparr>)"
proof -
  let ?h = "nop_board\<lparr>h_last_pc := 0x20000000\<rparr>"
  let ?env = "hifive_env_of hifive_bv_kernel (hifive_transport (bv_clover sample_inputs) bv_memory hifive_bv_kernel (Suc n))"
  have d: "direct_access FETCH ?h"
    by (simp add: direct_access_def paging_def csr_table_init_def bf_get_def access_must_wait_def
        is_locked_def BusLock_init_def nop_board_fields effective_mode_def)
  have e: "dmi_ranges ?env = []" "b_transport ?env = hifive_transport (bv_clover sample_inputs) bv_memory hifive_bv_kernel (Suc n)"
    by (simp_all add: hifive_env_of_def)
  have "mem_load_instr ?env 0x20000000 ?h = (Inr 0x13, ?h)"
    using d by (simp add: mem_load_instr_def wait_direct hifive_v2p_direct concrete_load_data_def e concrete_read_def
      do_transaction_def nop_board_bus [of ?h] bytes_to_u32_def bytes_to_nat_def bind_m_apply then_m_apply del: hifive_transport.simps)
  then show ?thesis by (simp add: hifive_platform_def mem_platform_def)
qed

text \<open>The hart executes the instruction, a host thread raises pin 1, and the GPIO controller takes the change over.\<close>

lemma nop_board_step:
  "\<exists>h. run_step (bv_clover sample_inputs) (bv_hifive sample_inputs 1) nop_board = (Inr (), h) \<and> h_pc h = 0x20000004 \<and>
    h_world h = h_world nop_board"
proof -
  have "\<And>t. quantum_inc (bv_hifive sample_inputs 1) t = return_m ()" "quantum_need_sync (bv_hifive sample_inputs 1) = return_m False"
    by (simp_all add: hifive_platform_def mem_platform_def hifive_kernel_of_def hifive_bv_kernel_def bv_kernel_def)
  moreover have "(0x20000000 :: u32) AND NOT (pc_alignment_mask (h_csrs nop_board)) = 0"
    using init_csrs(1) by (simp add: pc_alignment_mask_def nop_board_fields has_C_extension_def)
  ultimately show ?thesis
    using nop_step [OF nop_board_fields(5), of "bv_hifive sample_inputs 1"] nop_board_fetch [of 0] by simp
qed

lemma nop_board_run:
  "\<exists>h. hifive_reach (bv_clover sample_inputs) bv_memory hifive_bv_kernel 1 nop_board h \<and> h_pc h = 0x20000004 \<and>
    server_state (hd_gpio0 (devices h)) = 2 \<and> \<not> gp_asyncEvent (hd_gpio0 (devices h))"
proof -
  obtain h1 where h1: "run_step (bv_clover sample_inputs) (bv_hifive sample_inputs 1) nop_board = (Inr (), h1)"
    "h_pc h1 = 0x20000004" "h_world h1 = h_world nop_board" using nop_board_step by blast
  have r1: "hifive_reach (bv_clover sample_inputs) bv_memory hifive_bv_kernel 1 nop_board h1"
    by (rule hifive_reach.process [OF hifive_reach.start, of _ CoreThread])
      (simp_all add: process_runnable_def process_run_def nop_board_fields h1 del: One_nat_def)
  have g1: "hd_gpio0 (devices h1) = GPIO_make 0"
    using h1(3) nop_board_fields(1) by (simp add: devices_def) (simp add: nop_devices_def hifive_devices_make_def)
  let ?h2 = "upd_devices (\<lambda>_. hd_gpio0_update (asyncOnchange 1 1) (devices h1)) h1"
  have r2: "hifive_reach (bv_clover sample_inputs) bv_memory hifive_bv_kernel 1 nop_board ?h2"
    by (rule hifive_reach.event [OF r1, of "PinChange 1 1"]) (simp add: event_run_def)
  have g2: "hd_gpio0 (devices ?h2) = (GPIO_make 2)\<lparr>gp_asyncEvent := True\<rparr>"
    using g1 by (simp add: asyncOnchange_def GPIO_make_def)
  let ?h3 = "upd_devices (hd_gpio0_update (gp_asyncEvent_update (\<lambda>_. False))) ?h2"
  have "process_run (bv_clover sample_inputs) bv_memory hifive_bv_kernel 1 (GpioMethod []) ?h2 = (Inr (), ?h3)"
    using g2 by (simp add: process_run_def hifive_gpio_method_def synchronousChange_unfold GPIO_make_def)
  then have "hifive_reach (bv_clover sample_inputs) bv_memory hifive_bv_kernel 1 nop_board ?h3"
    using g2 by (intro hifive_reach.process [OF r2]) (simp_all add: process_runnable_def)
  moreover have "h_pc ?h3 = 0x20000004" using h1(2) by (simp add: upd_devices_def)
  ultimately show ?thesis using g2 by (intro exI [of _ ?h3]) (simp add: GPIO_make_def)
qed

section \<open>Properties\<close>

text \<open>
  C4: Safety of the HiFive platform. Whatever the devices hold at reset (memory image, symbolic serial
  input, pins), from an even entry point, and however the hart, the processes of the PLIC, the GPIO
  controller, the serial ports and the CLINT, and the host threads that change pins, receive or
  send bytes, fire timers or deliver CAN frames interleave: in every state reached each recorded branch
  is true for the current inputs, the core's invariant holds and \<open>x0\<close> is zero.
\<close>

theorem hifive_path_condition_sound:
  assumes "hifive_laws cv ev sem cur cm K PE" and "entry AND 1 = 0"
    and "hifive_reach cv cm K n (snd (hifive_init cv ds entry)) h"
  shows "trace_sound sem cur h \<and> hart_inv cv sem cur h \<and> x0_zero cv h"
proof -
  have "clover_laws cv ev sem cur" using assms(1) by (simp add: hifive_laws_def)
  from hifive_laws.reach_inv [OF assms(1,3) hifive_boot [OF this assms(2)]] show ?thesis
    by (simp add: hart_inv_def)
qed

theorem hifive_path_condition_sound_witness:
  "\<exists>h. hifive_reach (bv_clover sample_inputs) bv_memory hifive_bv_kernel 1 nop_board h \<and> h_pc h = 0x20000004 \<and>
    server_state (hd_gpio0 (devices h)) = 2 \<and> trace_sound (\<lambda>a f. f a) sample_inputs h"
proof -
  obtain h where h: "hifive_reach (bv_clover sample_inputs) bv_memory hifive_bv_kernel 1 nop_board h" "h_pc h = 0x20000004"
    "server_state (hd_gpio0 (devices h)) = 2" using nop_board_run by blast
  have "(0x20000000 :: u32) AND 1 = 0" by simp
  from hifive_path_condition_sound [OF hifive.hifive_laws_axioms this h(1)] h show ?thesis by blast
qed



end
