(* ===== verification/Gpio_Server.thy ===== *)
theory Gpio_Server
  imports Gpio
begin

text \<open>
  The wire protocol of the pins (\<^verbatim>\<open>platform/hifive/gpio\<close>): the server thread inside the GPIO controller and
  the client other programs use. A connection is what the system calls on it return: the byte strings
  of successive \<^verbatim>\<open>read\<close> calls (no more calls answered means the peer has closed) and the results of the
  \<^verbatim>\<open>write\<close> calls. The server works on any state \<open>'s\<close> that holds the word \<^verbatim>\<open>state\<close>; \<^verbatim>\<open>fun\<close> is the callback given to
  \<^verbatim>\<open>registerOnChange\<close>. Messages on the standard streams are left out.
\<close>

section \<open>Requests\<close>

abbreviation (input) GPIO_default_port :: nat where "GPIO_default_port \<equiv> 1400"
abbreviation (input) GET_BANK :: u8 where "GET_BANK \<equiv> 1"
abbreviation (input) SET_BIT :: u8 where "SET_BIT \<equiv> 2"
abbreviation (input) SET_PWM :: u8 where "SET_PWM \<equiv> 3"

record Request =
  rq_op :: u8
  rq_pos :: u8
  rq_val :: u8

text \<open>
  The two bytes of a request: the operation, then the bit fields \<^verbatim>\<open>pos\<close> (6 bits) and \<^verbatim>\<open>val\<close> (2 bits), the
  first in the low bits as the compilers for the supported hosts place them.
\<close>

definition sizeof_Request :: nat where "sizeof_Request = 2"
definition sizeof_Reg :: nat where "sizeof_Reg = 8"

definition set_bit_request :: "u8 \<Rightarrow> u8 \<Rightarrow> Request" where
  "set_bit_request pos val = \<lparr>rq_op = SET_BIT, rq_pos = pos AND 63, rq_val = val AND 3\<rparr>"

definition get_bank_request :: Request where
  "get_bank_request = \<lparr>rq_op = GET_BANK, rq_pos = 0, rq_val = 0\<rparr>"

definition request_bytes :: "Request \<Rightarrow> u8 list" where
  "request_bytes r = [rq_op r, rq_pos r OR push_bit 6 (rq_val r)]"

definition request_of :: "u8 list \<Rightarrow> Request" where
  "request_of bs = \<lparr>rq_op = bs ! 0, rq_pos = bs ! 1 AND 63, rq_val = drop_bit 6 (bs ! 1)\<rparr>"

definition reg_bytes :: "u64 \<Rightarrow> u8 list" where
  "reg_bytes w = nat_to_bytes sizeof_Reg (unat w)"

definition reg_of_bytes :: "u8 list \<Rightarrow> u64" where
  "reg_of_bytes bs = word_of_nat (bytes_to_nat bs)"

definition printRequest :: "Request \<Rightarrow> string" where
  "printRequest r =
     (if rq_op r = GET_BANK then ''GET BANK''
      else if rq_op r = SET_BIT then ''SET BIT '' @ to_string (rq_pos r) @ '' to '' @
        (if rq_val r = 0 then ''LOW'' else if rq_val r = 1 then ''HIGH'' else if rq_val r = 2 then ''UNSET'' else ''INVALID'')
      else ''INVALID'') @ [CHR 0x0A]"

text \<open>The index is 16 bits wide; the buffers printed are shorter than \<open>2 ^ 16\<close> bytes.\<close>

definition hexPrint :: "u8 list \<Rightarrow> string" where
  "hexPrint buf = concat (map (\<lambda>b. (let s = nat_to_hex (unat b) in (if length s < 2 then [CHR 0x20] else []) @ s @ [CHR 0x20])) buf) @
     [CHR 0x0A]"

definition bitPrint :: "u8 list \<Rightarrow> string" where
  "bitPrint buf = concat (map (\<lambda>b. map (\<lambda>i. if b AND push_bit i 1 \<noteq> 0 then CHR ''1'' else CHR ''0'') (rev [0..<8]) @ [CHR 0x20]) buf) @
     [CHR 0x0A]"

section \<open>GpioServer\<close>

record 's GpioServer =
  gs_state :: "'s \<Rightarrow> u64"
  gs_modify_state :: "(u64 \<Rightarrow> u64) \<Rightarrow> 's \<Rightarrow> 's"
  gs_fun :: "(nat \<Rightarrow> u8 \<Rightarrow> 's \<Rightarrow> 's) option"

definition registerOnChange :: "(nat \<Rightarrow> u8 \<Rightarrow> 's \<Rightarrow> 's) \<Rightarrow> 's GpioServer \<Rightarrow> 's GpioServer" where
  "registerOnChange f e = e\<lparr>gs_fun := Some f\<rparr>"

definition server_set_bit :: "'s GpioServer \<Rightarrow> nat \<Rightarrow> u8 \<Rightarrow> 's \<Rightarrow> 's" where
  "server_set_bit e pos val s = (case gs_fun e of
     Some f \<Rightarrow> f pos val s
   | None \<Rightarrow>
       if val = 0 then gs_modify_state e (\<lambda>w. w AND NOT (push_bit pos 1)) s
       else if val = 1 then gs_modify_state e (\<lambda>w. w OR push_bit pos 1) s
       else s)"

text \<open>
  The result of serving a connection: the state, what was written, and whether the descriptor was
  closed. An answer that cannot be written as a whole ends the connection.
\<close>

fun handleConnection :: "'s GpioServer \<Rightarrow> u8 list list \<Rightarrow> nat list \<Rightarrow> 's \<Rightarrow> 's \<times> u8 list list \<times> bool" where
    "handleConnection e [] ws s = (s, [], True)"
  | "handleConnection e (r # rs) ws s =
      (if length r \<noteq> sizeof_Request then (s, [], True)
       else let req = request_of r in
       if rq_op req = GET_BANK then
         (let answer = reg_bytes (gs_state e s); n = (case ws of [] \<Rightarrow> sizeof_Reg | n # _ \<Rightarrow> n) in
          if n \<noteq> sizeof_Reg then (s, [take n answer], True)
          else (case handleConnection e rs (tl ws) s of (s', out, c) \<Rightarrow> (s', answer # out, c)))
       else if rq_op req = SET_BIT then
         (if rq_pos req > 63 then (s, [], False)
          else if rq_val req > 2 then (s, [], False)
          else handleConnection e rs ws (server_set_bit e (unat (rq_pos req)) (rq_val req) s))
       else (s, [], False))"

datatype listen_end = ListenFailed | AcceptFailed | Stopped | Blocked

text \<open>
  The accept loop. Each element is one return of \<^verbatim>\<open>accept\<close>: a failure or the calls on the new connection,
  and whether another thread has called \<^verbatim>\<open>quit\<close> before \<^verbatim>\<open>stop\<close> is read again. With no more returns the
  thread stays in \<^verbatim>\<open>accept\<close>. The result says with which value of \<^verbatim>\<open>stop\<close> the loop was left.
\<close>

fun accept_loop ::
  "'s GpioServer \<Rightarrow> bool \<Rightarrow> ((u8 list list \<times> nat list) option \<times> bool) list \<Rightarrow> 's \<Rightarrow> 's \<times> listen_end" where
    "accept_loop e stop [] s = (s, if stop then Stopped else Blocked)"
  | "accept_loop e stop ((a, quit) # as) s =
      (if stop then (s, Stopped)
       else case a of
         None \<Rightarrow> (s, AcceptFailed)
       | Some (rs, ws) \<Rightarrow> accept_loop e quit as (fst (handleConnection e rs ws s)))"

definition startListening ::
  "'s GpioServer \<Rightarrow> bool \<Rightarrow> bool \<Rightarrow> ((u8 list list \<times> nat list) option \<times> bool) list \<Rightarrow> 's \<Rightarrow> 's \<times> listen_end" where
  "startListening e listen_ok stop accepts s = (if \<not> listen_ok then (s, ListenFailed) else accept_loop e stop accepts s)"

definition isStopped :: "bool \<Rightarrow> listen_end \<Rightarrow> bool" where
  "isStopped stop r \<longleftrightarrow> stop \<or> r = ListenFailed \<or> r = AcceptFailed"

text \<open>
  What another thread's \<^verbatim>\<open>quit\<close> does to the loop: it sets \<^verbatim>\<open>stop\<close> and connects, so that the pending \<^verbatim>\<open>accept\<close>
  returns a connection without requests.
\<close>

definition quit_accepts ::
  "((u8 list list \<times> nat list) option \<times> bool) list \<Rightarrow> ((u8 list list \<times> nat list) option \<times> bool) list" where
  "quit_accepts as = as @ [(Some ([], []), True)]"

text \<open>The server of the GPIO controller at \<open>p\<close>.\<close>

definition gpio_server :: "(GPIO, 's) part \<Rightarrow> 's GpioServer" where
  "gpio_server p = registerOnChange (\<lambda>n val. part_upd p (asyncOnchange n val))
     \<lparr>gs_state = \<lambda>s. server_state (part_get p s), gs_modify_state = \<lambda>f. part_upd p (server_state_update f), gs_fun = None\<rparr>"

section \<open>Setting up connections\<close>

text \<open>
  An address \<^verbatim>\<open>getaddrinfo\<close> returned, with what the calls on it return: the descriptor of \<^verbatim>\<open>socket\<close>
  (-1 for a failure), and whether \<^verbatim>\<open>setsockopt\<close> and then \<^verbatim>\<open>bind\<close> (\<^verbatim>\<open>connect\<close> in the client) succeed.
  The result is the return value and the descriptor kept in \<^verbatim>\<open>fd\<close>.
\<close>

record addrinfo =
  ai_fd :: int
  ai_setsockopt :: bool
  ai_bind :: bool

fun server_bind :: "addrinfo list \<Rightarrow> int \<Rightarrow> bool \<times> int" where
    "server_bind [] fd = (False, fd)"
  | "server_bind (p # ps) fd =
      (if ai_fd p = - 1 then server_bind ps (- 1)
       else if \<not> ai_setsockopt p then (False, ai_fd p)
       else if \<not> ai_bind p then server_bind ps (ai_fd p)
       else (True, ai_fd p))"

definition server_setupConnection :: "bool \<Rightarrow> addrinfo list option \<Rightarrow> int \<Rightarrow> bool \<times> int" where
  "server_setupConnection strdup_ok servinfo fd =
     (if \<not> strdup_ok then (True, fd)
      else case servinfo of None \<Rightarrow> (True, fd) | Some ps \<Rightarrow> server_bind ps fd)"

fun client_connect :: "addrinfo list \<Rightarrow> int \<Rightarrow> bool \<times> int" where
    "client_connect [] fd = (False, fd)"
  | "client_connect (p # ps) fd =
      (if ai_fd p = - 1 then client_connect ps (- 1)
       else if \<not> ai_bind p then client_connect ps (ai_fd p)
       else (True, ai_fd p))"

definition client_setupConnection :: "addrinfo list option \<Rightarrow> int \<Rightarrow> bool \<times> int" where
  "client_setupConnection servinfo fd = (case servinfo of None \<Rightarrow> (False, fd) | Some ps \<Rightarrow> client_connect ps fd)"

section \<open>GpioClient\<close>

text \<open>The bytes a call sends, and how it ends for what \<^verbatim>\<open>write\<close> and \<^verbatim>\<open>read\<close> return.\<close>

definition client_update_sends :: "u8 list" where
  "client_update_sends = request_bytes get_bank_request"

definition client_update :: "nat \<Rightarrow> u8 list \<Rightarrow> u64 \<Rightarrow> bool \<times> u64" where
  "client_update written answer st =
     (if written \<noteq> sizeof_Request then (False, st)
      else (length answer = sizeof_Reg, reg_of_bytes (list_write 0 answer (reg_bytes st))))"

definition client_setBit_sends :: "u8 \<Rightarrow> u8 \<Rightarrow> u8 list" where
  "client_setBit_sends pos val = request_bytes (set_bit_request pos val)"

definition client_setBit :: "nat \<Rightarrow> bool" where
  "client_setBit written \<longleftrightarrow> written = sizeof_Request"

section \<open>The stand-alone server\<close>

definition cli_onChangeCallback :: "nat \<Rightarrow> u8 \<Rightarrow> u64 \<Rightarrow> u64" where
  "cli_onChangeCallback n val st =
     (if drop_bit n (st AND push_bit n 1) = ucast val then st
      else if val = 0 then st AND NOT (push_bit n 1)
      else if val = 1 then st OR push_bit n 1
      else st)"

definition cli_server_tick :: "u64 \<Rightarrow> u64" where
  "cli_server_tick st = (if st AND push_bit 11 1 = 0
     then let st' = push_bit 1 st in if st' AND 0xFF = 0 then 1 else st' else st)"

section \<open>The stand-alone client\<close>

text \<open>
  The client prints the word until a request fails: the lines printed and the exit code, for what the two
  system calls of each round return. With no more rounds it is still running. The loops behind the
  first one are never reached.
\<close>

fun cli_client :: "bool \<Rightarrow> (nat \<times> u8 list) list \<Rightarrow> u64 \<Rightarrow> string list \<times> int option" where
    "cli_client False rounds st = ([], Some (- 1))"
  | "cli_client True [] st = ([], None)"
  | "cli_client True ((written, answer) # rounds) st =
      (case client_update written answer st of
         (False, st') \<Rightarrow> ([], Some (- 1))
       | (True, st') \<Rightarrow> (case cli_client True rounds st' of (out, r) \<Rightarrow> (bitPrint (reg_bytes st') # out, r)))"

section \<open>Requests on the wire\<close>

lemma request_roundtrip:
  assumes "rq_pos r AND 63 = rq_pos r" "rq_val r AND 3 = rq_val r"
  shows "request_of (request_bytes r) = r"
proof -
  have pos: "n < 6" if "bit (rq_pos r) n" for n
    using that assms(1) bit_mask_iff [where 'a = u8, of 6 n] bit_and_iff [of "rq_pos r" "mask 6" n] by (simp add: mask_eq_exp_minus_1)
  have val: "n < 2" if "bit (rq_val r) n" for n
    using that assms(2) bit_mask_iff [where 'a = u8, of 2 n] bit_and_iff [of "rq_val r" "mask 2" n] by (simp add: mask_eq_exp_minus_1)
  have "(rq_pos r OR push_bit 6 (rq_val r)) AND mask 6 = rq_pos r"
    using pos by (intro bit_eqI) (auto simp: bit_simps)
  moreover have "drop_bit 6 (rq_pos r OR push_bit 6 (rq_val r)) = rq_val r"
    using pos val by (intro bit_eqI) (fastforce simp: bit_simps)
  ultimately show ?thesis by (simp add: request_of_def request_bytes_def mask_eq_exp_minus_1)
qed

lemma client_requests [simp]:
  "request_of (client_setBit_sends pos val) = set_bit_request pos val"
  "request_of client_update_sends = get_bank_request"
  "length (client_setBit_sends pos val) = sizeof_Request" "length client_update_sends = sizeof_Request"
proof -
  show "request_of (client_setBit_sends pos val) = set_bit_request pos val"
    unfolding client_setBit_sends_def by (rule request_roundtrip) (simp_all add: set_bit_request_def and.assoc)
  show "request_of client_update_sends = get_bank_request"
    unfolding client_update_sends_def by (rule request_roundtrip) (simp_all add: get_bank_request_def)
qed (simp_all add: client_setBit_sends_def client_update_sends_def request_bytes_def sizeof_Request_def)

lemma reg_roundtrip [simp]: "length (reg_bytes w) = sizeof_Reg" "reg_of_bytes (reg_bytes w) = w"
  using unsigned_less [of w, where 'a = nat]
  by (simp_all add: reg_bytes_def reg_of_bytes_def sizeof_Reg_def bytes_roundtrip)

lemma pos_bound: "\<not> (pos AND 63 :: u8) > 63"
  using word_and_le1 [of pos 63] by (simp add: not_less)

text \<open>
  The effect of a connection is that of its valid requests up to the first one that ends it; each of
  them is one call of the callback.
\<close>

fun served :: "u8 list list \<Rightarrow> (nat \<times> u8) list" where
    "served [] = []"
  | "served (r # rs) =
      (let q = request_of r in
       if length r \<noteq> sizeof_Request then []
       else if rq_op q = GET_BANK then served rs
       else if rq_op q = SET_BIT \<and> rq_val q \<le> 2 then (unat (rq_pos q), rq_val q) # served rs
       else [])"

lemma handleConnection_calls:
  "fst (handleConnection e rs [] s) = fold (\<lambda>(n, v). server_set_bit e n v) (served rs) s"
  by (induction rs arbitrary: s)
    (auto simp: Let_def request_of_def not_less pos_bound case_prod_beta)

lemma accept_loop_calls:
  assumes "\<forall>(a, q) \<in> set as. (\<exists>rs. a = Some (rs, [])) \<and> \<not> q"
  shows "fst (accept_loop e False as s) =
    fold (\<lambda>(n, v). server_set_bit e n v) (concat (map (\<lambda>(a, q). served (fst (the a))) as)) s"
  using assms by (induction as arbitrary: s) (auto simp: handleConnection_calls)

lemma accept_quit:
  assumes "\<forall>(a, q) \<in> set as. a \<noteq> None \<and> \<not> q"
  shows "snd (accept_loop e False (quit_accepts as) s) = Stopped"
    "snd (accept_loop e False as s) = Blocked"
    "fst (accept_loop e False (quit_accepts as) s) = fst (accept_loop e False as s)"
  using assms unfolding quit_accepts_def
  by (induction as arbitrary: s) auto

end
