(* ===== verification/Gpio_Props.thy ===== *)
theory Gpio_Props
  imports Hifive_Run Gpio_Server
begin

text \<open>
  From a client program to the hart: what a request on the wire does to the pins, and how a pin raised
  by a client becomes an interrupt of the HiFive platform.
\<close>

section \<open>The pins of the platform\<close>

abbreviation hifive_gpio_server :: "('v, 'e, 'c) hsys GpioServer" where
  "hifive_gpio_server \<equiv> gpio_server (dev_part hd_gpio0 hd_gpio0_update)"

lemma gpio_server_simps [simp]:
  "gs_state (gpio_server p) s = server_state (part_get p s)"
  "server_set_bit (gpio_server p) n v s = part_upd p (asyncOnchange n v) s"
  by (simp_all add: gpio_server_def registerOnChange_def server_set_bit_def)

lemma asyncOnchange_levels:
  assumes "n < 64"
  shows "asyncOnchange n 1 g = (if bit (server_state g) n then g
      else g\<lparr>server_state := server_state g OR push_bit n 1, gp_asyncEvent := True\<rparr>)"
    "asyncOnchange n 0 g = (if bit (server_state g) n
      then g\<lparr>server_state := server_state g AND NOT (push_bit n 1), gp_asyncEvent := True\<rparr> else g)"
proof -
  have m: "drop_bit n (server_state g AND push_bit n 1) = of_bool (bit (server_state g) n)"
    using assms by (intro bit_eqI) (auto simp: bit_simps)
  show "asyncOnchange n 1 g = (if bit (server_state g) n then g
      else g\<lparr>server_state := server_state g OR push_bit n 1, gp_asyncEvent := True\<rparr>)"
    "asyncOnchange n 0 g = (if bit (server_state g) n
      then g\<lparr>server_state := server_state g AND NOT (push_bit n 1), gp_asyncEvent := True\<rparr> else g)"
    unfolding asyncOnchange_def Let_def m by (cases "bit (server_state g) n"; simp)+
qed

lemma asyncOnchange_frame:
  "asyncOnchange n v g = g\<lparr>server_state := server_state (asyncOnchange n v g), gp_asyncEvent := gp_asyncEvent (asyncOnchange n v g)\<rparr>"
  unfolding asyncOnchange_def Let_def by (simp split: if_split)

lemma hifive_server_calls: "server_set_bit hifive_gpio_server n v = upd_devices (hd_gpio0_update (asyncOnchange n v))"
  by (simp add: fun_eq_iff)

text \<open>The gateway changes the pending bits only.\<close>

definition same_routing :: "FE310_PLIC \<Rightarrow> FE310_PLIC \<Rightarrow> bool" where
  "same_routing q q' \<longleftrightarrow> regs_hart_enabled_interrupts q' = regs_hart_enabled_interrupts q \<and>
     regs_interrupt_priorities q' = regs_interrupt_priorities q \<and> regs_hart_config q' = regs_hart_config q \<and>
     hart_eip q' = hart_eip q"

interpretation hifive_gpio_routing: gpio_system "dev_part hd_gpio0 hd_gpio0_update" "hifive_gateway K" INT_GPIO_BASE
  "\<lambda>h. plic_wf hifive_plic_cfg (hd_plic (devices h)) \<and> same_routing q (hd_plic (devices h))" hifive_raised
  for K :: "('v, 'e, 'c) hifive_kernel" and q
proof (intro gpio_system.intro gpio_system_axioms.intro hifive_gpio_part.part_axioms)
  fix s :: "('v, 'e, 'c) hsys" and i :: nat
  assume I: "plic_wf hifive_plic_cfg (hd_plic (devices s)) \<and> same_routing q (hd_plic (devices s))" and i: "i < 32"
  obtain s' where s': "hifive_gateway K (8 + word_of_nat i) s = (Inr (), s')" "plic_wf hifive_plic_cfg (hd_plic (devices s'))"
    "hifive_raised s' = insert (8 + word_of_nat i) (hifive_raised s)"
    "part_get (dev_part hd_gpio0 hd_gpio0_update) s' = part_get (dev_part hd_gpio0 hd_gpio0_update) s"
    using hifive_gpio.trig_ok [of s i K] I i by auto
  have "same_routing (hd_plic (devices s)) (hd_plic (devices s'))"
    using s'(1) by (auto simp: hifive_gateway_def gateway_trigger_interrupt_def plic_index_def hifive_plic_def assert_m_def Let_def
        then_m_apply bind_m_apply same_routing_def set_pending_def split: if_splits)
  with I s' show "\<exists>s'. hifive_gateway K (8 + word_of_nat i) s = (Inr (), s') \<and>
      (plic_wf hifive_plic_cfg (hd_plic (devices s')) \<and> same_routing q (hd_plic (devices s'))) \<and>
      hifive_raised s' = insert (8 + word_of_nat i) (hifive_raised s) \<and>
      part_get (dev_part hd_gpio0 hd_gpio0_update) s' = part_get (dev_part hd_gpio0 hd_gpio0_update) s"
    by (intro exI [of _ s']) (simp add: same_routing_def)
qed (simp_all add: hifive_raised_def)

lemma same_routing_eligible:
  "same_routing q q' \<Longrightarrow> irq_pending q' i \<Longrightarrow> irq_enabled q 0 i \<Longrightarrow> priority_threshold q 0 < interrupt_priorities q i \<Longrightarrow>
   eligible q' 0 True i"
  by (auto simp: eligible_def same_routing_def irq_enabled_def hart_enabled_interrupts_def priority_threshold_def
      interrupt_priorities_def dest: order.strict_trans1 [OF word_zero_le])

section \<open>Properties\<close>

text \<open>
  C25: A pin raised by a client interrupts the hart. A client's \<^verbatim>\<open>setBit(pin, 1)\<close> on a connection of the server
  notifies the GPIO controller; when it has run, the value register shows the pin high, and after the
  next iteration of the PLIC's thread the external interrupt bit of mip is set, provided the pin was
  low, is an input with the rising-edge interrupt enabled and not yet signalled, and its interrupt is
  enabled in the PLIC above the hart's threshold while no other interrupt is in service.
\<close>

theorem gpio_client_interrupt:
  assumes "plic_wf hifive_plic_cfg (hd_plic (devices h))" and "hd_gpio0 (devices h) = g" and "unat pin < 32"
    and "irq_enabled (hd_plic (devices h)) 0 (8 + unat pin)" and "\<not> hart_eip (hd_plic (devices h)) ! 0"
    and "priority_threshold (hd_plic (devices h)) 0 < interrupt_priorities (hd_plic (devices h)) (8 + unat pin)"
    and "bit (gp_input_en g) (unat pin)" "bit (rise_intr_en g) (unat pin)" "bit (rise_intr_pending g) (unat pin)"
    and "\<not> bit (gp_value g) (unat pin)" "\<not> bit (server_state g) (unat pin)"
  shows "\<exists>h1 h2 h3. startListening hifive_gpio_server True False [(Some ([client_setBit_sends pin 1], []), False)] h = (h1, Blocked) \<and>
    gp_asyncEvent (hd_gpio0 (devices h1)) \<and>
    hifive_gpio_method K [] h1 = (Inr (), h2) \<and> bit (gp_value (hd_gpio0 (devices h2))) (unat pin) \<and>
    hifive_plic_run K h2 = (Inr (), h3) \<and> bf_get mip_meip (mip_reg (h_csrs h3)) = 1"
proof -
  let ?n = "unat pin" and ?q = "hd_plic (devices h)"
  let ?h1 = "upd_devices (hd_gpio0_update (asyncOnchange ?n 1)) h"
  have pin: "pin AND 63 = pin"
    using assms(3) less_mask_eq [of pin 6] by (simp add: word_less_nat_alt mask_eq_exp_minus_1)
  have h1: "startListening hifive_gpio_server True False [(Some ([client_setBit_sends pin 1], []), False)] h = (?h1, Blocked)"
    using pos_bound [of pin] by (simp add: startListening_def set_bit_request_def pin Let_def)
  define g1 where "g1 = asyncOnchange ?n 1 g"
  have g1: "gp_asyncEvent g1" "bit (server_state g1) ?n" "gp_input_en g1 = gp_input_en g" "rise_intr_en g1 = rise_intr_en g"
    "rise_intr_pending g1 = rise_intr_pending g" "gp_value g1 = gp_value g"
    using asyncOnchange_levels(1) [of ?n g] assms(3,11) by (simp_all add: g1_def bit_simps)
  let ?h1' = "upd_devices (hd_gpio0_update (gp_asyncEvent_update (\<lambda>_. False))) ?h1"
  let ?g = "g1\<lparr>gp_asyncEvent := False\<rparr>"
  have edge: "rising ?g (server_state ?g) (pin_diff ?g) ?n"
    using g1 assms(3,7-11) by (auto simp: rising_def pin_diff_def bit_simps)
  obtain h2 r f where h2: "synchronousChange (dev_part hd_gpio0 hd_gpio0_update) (hifive_gateway K) INT_GPIO_BASE [] ?h1' = (Inr (), h2)"
    "plic_wf hifive_plic_cfg (hd_plic (devices h2)) \<and> same_routing ?q (hd_plic (devices h2))"
    "hifive_raised h2 = hifive_raised ?h1' \<union> {8 + word_of_nat i | i. i < 32 \<and>
      (rising ?g (server_state ?g) (pin_diff ?g) i \<or> falling ?g (server_state ?g) (pin_diff ?g) i)}"
    "hd_gpio0 (devices h2) = (if pin_diff ?g = 0 then ?g else ?g\<lparr>rise_intr_pending := r, fall_intr_pending := f,
        gp_value := (ucast (server_state ?g) AND gp_input_en ?g) OR (gp_port ?g AND gp_output_en ?g)\<rparr>)"
    using hifive_gpio_routing.synchronousChange_effect [where q = ?q and s = "?h1'" and g = ?g and K = K] assms(1,2)
    by (auto simp: same_routing_def g1_def)
  have nz: "pin_diff ?g \<noteq> 0" using edge by (auto simp: rising_def)
  have "8 + word_of_nat ?n \<in> hifive_raised h2" using h2(3) edge assms(3) by blast
  moreover have "unat (8 + word_of_nat i :: u32) = 8 + i" if "i < 32" for i
    using that by (simp add: unat_word_ariths unat_of_nat)
  from this [OF assms(3)] have "unat (8 + word_of_nat ?n :: u32) = 8 + ?n" .
  ultimately have "irq_pending (hd_plic (devices h2)) (8 + ?n)" by (simp only: hifive_raised_def mem_Collect_eq)
  from same_routing_eligible [OF _ this] have "eligible (hd_plic (devices h2)) 0 True (8 + ?n)"
    using h2(2) assms(4,6) by blast
  then obtain h3 where "hifive_plic_run K h2 = (Inr (), h3)" "bf_get mip_meip (mip_reg (h_csrs h3)) = 1"
    using plic_run_delivers [of h2 "8 + ?n" K] h2(2) assms(3,5) by (auto simp: same_routing_def)
  moreover have "bit (gp_value (hd_gpio0 (devices h2))) ?n"
    using h2(4) nz g1 assms(3,7) by (simp add: bit_simps)
  moreover have "hifive_gpio_method K [] ?h1 = (Inr (), h2)"
    using h2(1) by (simp add: hifive_gpio_method_def)
  ultimately show ?thesis using h1 g1(1) assms(2) by (intro exI [of _ ?h1] exI [of _ h2] exI [of _ h3]) (simp add: g1_def)
qed

text \<open>The platform after reset with pin 1 an input whose rising edge interrupts; the pin is low.\<close>

definition client_sample :: "(bv_value, bv_expr, bv_image) hsys" where
  "client_sample = upd_devices (hd_gpio0_update (\<lambda>g. (GPIO_make 0)\<lparr>gp_input_en := 2, rise_intr_en := 2\<rparr>)) hifive_sample"

theorem gpio_client_interrupt_witness:
  "\<exists>h1 h2 h3. startListening hifive_gpio_server True False [(Some ([client_setBit_sends 1 1], []), False)] client_sample = (h1, Blocked) \<and>
    hifive_gpio_method hifive_bv_kernel [] h1 = (Inr (), h2) \<and> hifive_plic_run hifive_bv_kernel h2 = (Inr (), h3) \<and>
    bf_get mip_meip (mip_reg (h_csrs h3)) = 1"
proof -
  have plic: "hd_plic (devices client_sample) = sample_plic" by (simp add: client_sample_def)
  have gpio: "hd_gpio0 (devices client_sample) = (GPIO_make 0)\<lparr>gp_input_en := 2, rise_intr_en := 2\<rparr>"
    by (simp add: client_sample_def)
  have "bit (2 :: u32) 1" using bit_exp_iff [where 'a = u32, of 1 1] by simp
  then show ?thesis
    using gpio_client_interrupt [of client_sample _ 1 hifive_bv_kernel, OF _ gpio] sample_plic_facts
    by (auto simp: plic GPIO_make_def)
qed

text \<open>
  C28: The pin protocol. A client that sends \<^verbatim>\<open>setBit(pos, val)\<close> for val 0 or 1 and then \<^verbatim>\<open>update\<close> over one connection
  gets back a bank in which pin \<^verbatim>\<open>pos\<close> (of 64) has that level and every other pin the level it had; it is the
  state of the server, and nothing but the pins and the notification of the controller has changed. The
  server serves the connection to its end and closes it.
\<close>

theorem gpio_protocol_roundtrip:
  assumes "val = 0 \<or> val = 1" and "pos < 64"
  shows "\<exists>h' answer. handleConnection hifive_gpio_server [client_setBit_sends pos val, client_update_sends] [] h = (h', [answer], True) \<and>
    client_update 2 answer st = (True, server_state (hd_gpio0 (devices h'))) \<and>
    (\<forall>i. bit (server_state (hd_gpio0 (devices h'))) i \<longleftrightarrow>
      (if i = unat pos then val = 1 else bit (server_state (hd_gpio0 (devices h))) i)) \<and>
    (\<exists>w ev. h' = upd_devices (hd_gpio0_update (\<lambda>g. g\<lparr>server_state := w, gp_asyncEvent := ev\<rparr>)) h)"
proof -
  let ?h = "upd_devices (hd_gpio0_update (asyncOnchange (unat pos) val)) h" and ?g = "hd_gpio0 (devices h)"
  have n: "unat pos < 64" using assms(2) by (simp add: word_less_nat_alt)
  have pos: "pos AND 63 = pos"
    using n less_mask_eq [of pos 6] by (simp add: word_less_nat_alt mask_eq_exp_minus_1)
  have val: "val AND 3 = val" "\<not> 2 < val" using assms(1) by auto
  have conn: "handleConnection hifive_gpio_server [client_setBit_sends pos val, client_update_sends] [] h =
      (?h, [reg_bytes (server_state (hd_gpio0 (devices ?h)))], True)"
    using pos_bound [of pos] val by (simp add: set_bit_request_def get_bank_request_def pos Let_def)
  have bits: "bit (server_state (asyncOnchange (unat pos) val ?g)) i \<longleftrightarrow> (if i = unat pos then val = 1 else bit (server_state ?g) i)" for i
    using assms(1) n
    by (elim disjE; cases "bit (server_state ?g) (unat pos)";
        simp add: asyncOnchange_levels bit_simps; use bit_imp_le_length [of "server_state ?g" i] in auto)
  have "?h = upd_devices (hd_gpio0_update (\<lambda>g. g\<lparr>server_state := server_state (asyncOnchange (unat pos) val ?g),
      gp_asyncEvent := gp_asyncEvent (asyncOnchange (unat pos) val ?g)\<rparr>)) h"
    using asyncOnchange_frame [of "unat pos" val ?g] by (intro upd_devices_cong) simp
  moreover have "client_update 2 (reg_bytes w) st = (True, w)" for w
    by (simp add: client_update_def sizeof_Request_def)
  ultimately show ?thesis using conn bits by (intro exI conjI) (rule conn, simp_all)
qed

theorem gpio_protocol_roundtrip_witness:
  "\<exists>h' answer. handleConnection hifive_gpio_server [client_setBit_sends 1 1, client_update_sends] [] client_sample = (h', [answer], True) \<and>
    client_update 2 answer 0 = (True, server_state (hd_gpio0 (devices h')))"
  using gpio_protocol_roundtrip [of 1 1 client_sample 0] by fastforce

text \<open>
  \<^verbatim>\<open>quit\<close> ends the server's thread. A server that has accepted any number of connections and waits for the next
  leaves its loop when \<^verbatim>\<open>quit\<close> sets the flag and connects, with the pins as the served connections left them:
  each valid request on them has called the controller once, in order, up to the first request that ends its
  connection.
\<close>

lemma gpio_server_quits:
  assumes "\<forall>(a, q) \<in> set as. (\<exists>rs. a = Some (rs, [])) \<and> \<not> q"
    and "startListening hifive_gpio_server True False as h = (h', r)"
  shows "r = Blocked \<and> startListening hifive_gpio_server True False (quit_accepts as) h = (h', Stopped) \<and>
    h' = fold (\<lambda>(n, v). upd_devices (hd_gpio0_update (asyncOnchange n v)))
      (concat (map (\<lambda>(a, q). served (fst (the a))) as)) h"
proof -
  let ?loop = "accept_loop hifive_gpio_server False"
  have all: "\<forall>(a, q) \<in> set as. a \<noteq> None \<and> \<not> q" using assms(1) by auto
  have run: "?loop as h = (h', r)" using assms(2) by (simp add: startListening_def)
  have "?loop (quit_accepts as) h = (h', Stopped)"
    using accept_quit(1,3) [OF all, of hifive_gpio_server h] run by (simp add: prod_eq_iff)
  moreover have "r = Blocked" using accept_quit(2) [OF all, of hifive_gpio_server h] run by simp
  moreover have "h' = fold (\<lambda>(n, v). server_set_bit hifive_gpio_server n v) (concat (map (\<lambda>(a, q). served (fst (the a))) as)) h"
    using accept_loop_calls [OF assms(1), of hifive_gpio_server h] run by simp
  ultimately show ?thesis by (simp add: startListening_def hifive_server_calls)
qed

lemma gpio_server_quits_witness:
  "\<exists>h'. startListening hifive_gpio_server True False (quit_accepts [(Some ([client_setBit_sends 1 1], []), False)]) client_sample =
    (h', Stopped)"
proof (cases "startListening hifive_gpio_server True False [(Some ([client_setBit_sends 1 1], []), False)] client_sample")
  case (Pair h' r)
  have "\<forall>(a, q) \<in> set [(Some ([client_setBit_sends 1 1], []), False)]. (\<exists>rs. a = Some (rs, [])) \<and> \<not> q" by simp
  from gpio_server_quits [OF this Pair] show ?thesis by blast
qed

end
