(* ===== verification/Serial_Props.thy ===== *)
theory Serial_Props
  imports Serial_Devices
begin

text \<open>
  Properties of the serial devices: the FIFOs of the UART core under every interleaving of its three
  threads, and the framing of the SLIP device.
\<close>

section \<open>The UART core\<close>

text \<open>
  Under every interleaving of the simulation, transmit and receive threads, until the UART is stopped,
  neither FIFO exceeds its depth of eight, the semaphore of the transmit thread never promises a byte that is not
  in the FIFO and the semaphore of the receive thread never a place that is not free, and a
  transmit thread that has passed the semaphore finds a byte.
\<close>

lemma uart_semaphores_sound:
  assumes "uart_run irqsrc es c" and "\<not> ua_stop (uc_uart c)"
  shows "length (tx_fifo (uc_uart c)) \<le> 8 \<and> txfull (uc_uart c) \<le> length (tx_fifo (uc_uart c)) \<and>
    length (rx_fifo (uc_uart c)) + rxempty (uc_uart c) \<le> 8 \<and>
    (uc_tx c = TxGot \<longrightarrow> (\<exists>b c'. uart_step c Internal c' \<and> uc_tx c' = TxWrite b))"
  using uart_run_inv [OF assms(1)] assms(2) tx_pop_enabled [OF assms(1)] by (auto simp: uart_inv_def Let_def)


text \<open>A run in which the guest writes one byte and the transmit thread takes it.\<close>

definition sample_uart :: AbstractUART where
  "sample_uart = (AbstractUART_make 3)\<lparr>ua_txdata := 0x41, tx_fifo := [0x41]\<rparr>"

lemma sample_uart_run:
  "uart_run 3 [Accepted 0x41, Internal, Internal, Internal]
    ((uart_start 3)\<lparr>uc_uart := sample_uart, uc_tx := TxGot\<rparr>)"
proof -
  let ?c0 = "uart_start 3"
  let ?c1 = "?c0\<lparr>uc_uart := sample_uart, uc_sim := SimPost\<rparr>"
  let ?c2 = "?c0\<lparr>uc_uart := sample_uart\<lparr>txfull := 1\<rparr>\<rparr>"
  let ?c3 = "?c0\<lparr>uc_uart := sample_uart, uc_tx := TxWaited\<rparr>"
  note defs = uart_start_def sample_uart_def AbstractUART_make_def uart_section_defs
  have "uart_step ?c0 (Accepted (ucast (0x41 :: u32))) ?c1"
    using uart_step.sim_write [of ?c0 "0x41 :: u32" sample_uart] by (simp add: defs)
  then have 1: "uart_run 3 ([] @ [Accepted 0x41]) ?c1" by (intro uart_run.intros) (auto simp: uart_run.start)
  have "uart_step ?c1 Internal ?c2" using uart_step.sim_post [of ?c1] by (simp add: defs)
  with 1 have 2: "uart_run 3 (([] @ [Accepted 0x41]) @ [Internal]) ?c2" by (rule uart_run.more)
  have "uart_step ?c2 Internal ?c3" using uart_step.tx_wait [of ?c2 "sample_uart"] by (simp add: defs)
  with 2 have 3: "uart_run 3 ((([] @ [Accepted 0x41]) @ [Internal]) @ [Internal]) ?c3" by (rule uart_run.more)
  have "uart_step ?c3 Internal (?c0\<lparr>uc_uart := sample_uart, uc_tx := TxGot\<rparr>)"
    using uart_step.tx_go [of ?c3] by (simp add: defs)
  from uart_run.more [OF 3 this] show ?thesis by simp
qed

lemma uart_semaphores_sound_witness:
  "\<exists>b c'. uart_step ((uart_start 3)\<lparr>uc_uart := sample_uart, uc_tx := TxGot\<rparr>) Internal c' \<and> uc_tx c' = TxWrite b"
  using uart_semaphores_sound [OF sample_uart_run] by (simp add: sample_uart_def AbstractUART_make_def)


section \<open>SLIP\<close>

text \<open>
  C30: The framing of the SLIP device is inverted by its decoder. The bytes the device hands to the guest for a
  packet from the tunnel, echoed by the guest, give back that packet on the tunnel, for every
  non-empty packet in which no escape byte 0xDB is followed by 0xDC or 0xDD; no byte is stored outside the send buffer on the way.
\<close>

theorem slip_roundtrip:
  assumes "slip_transparent pkt" "pkt \<noteq> []" "slip_wf d" "sndbuf d = []" "tun_write pkt = Some (length pkt)"
  shows "\<exists>bs d'. slip_handle_input (Some pkt) = Inr bs \<and> slip_write_all tun_write bs d = Inr d' \<and>
    tun_packets d' = tun_packets d @ [pkt] \<and> sndbuf d' = [] \<and> slip_wf d'"
proof -
  obtain cap where cap: "slip_write_all tun_write (concat (map slip_escape pkt)) d = Inr (d\<lparr>sndbuf := pkt, sndcap := cap\<rparr>)"
    "slip_wf (d\<lparr>sndbuf := pkt, sndcap := cap\<rparr>)"
    using slip_decode_encode [OF assms(1,3,4)] by blast
  obtain d' where d': "slip_send_packet tun_write (d\<lparr>sndbuf := pkt, sndcap := cap\<rparr>) = Inr d'" "slip_wf d'" "sndbuf d' = []"
    "tun_packets d' = tun_packets d @ [pkt]"
    using slip_send_ok [OF cap(2)] assms(5) by auto
  then show ?thesis using cap(1) assms(2)
    by (intro exI [of _ "concat (map slip_escape pkt) @ [SLIP_END]"] exI [of _ d'])
      (simp add: slip_handle_input_def slip_write_append slip_write_data_def)
qed

theorem slip_roundtrip_witness:
  "\<exists>bs d'. slip_handle_input (Some [1, 0xC0, 0xDB, 2]) = Inr bs \<and>
    slip_write_all (\<lambda>pkt. Some (length pkt)) bs SLIP_make = Inr d' \<and>
    tun_packets d' = tun_packets SLIP_make @ [[1, 0xC0, 0xDB, 2]] \<and> sndbuf d' = [] \<and> slip_wf d'"
  by (rule slip_roundtrip) (simp_all add: slip_wf_make, simp_all add: SLIP_make_def)

text \<open>
  Outside that class the decoder differs from the encoding: it removes the byte after an escape byte that is itself
  part of the data.
\<close>

lemma slip_not_transparent:
  "\<exists>bs d'. slip_handle_input (Some [0xDB, 0xDC]) = Inr bs \<and>
    slip_write_all (\<lambda>pkt. Some (length pkt)) bs SLIP_make = Inr d' \<and> tun_packets d' = [[0xC0]]"
  by (simp add: slip_handle_input_def slip_escape_def SLIP_make_def slip_write_data_def slip_store_def slip_send_packet_def)

end
