(* ===== verification/Gdb_Packets.thy ===== *)
theory Gdb_Packets
  imports Prelude
begin

text \<open>
  The packet layer of the GDB remote protocol (\<^verbatim>\<open>core/common/gdb-mc/libgdb\<close>): checksums, run-length
  decoding and unescaping (\<^verbatim>\<open>util.c\<close>), serialisation (\<^verbatim>\<open>response.c\<close>), and the conversion of a packet into a
  command (\<^verbatim>\<open>parser2.c\<close>). The parser for the text of a command is an argument of \<open>gdb_parse_cmd\<close>; \<^verbatim>\<open>Gdb_Grammar\<close> builds it.
  Memory allocation does not fail.
\<close>

section \<open>Characters\<close>

text \<open>A \<^verbatim>\<open>char\<close> is signed.\<close>

definition schar :: "char \<Rightarrow> int" where
  "schar c = (let n = int (of_char c) in if n < 128 then n else n - 256)"

text \<open>The conversion \<^verbatim>\<open>%.2x\<close> of an \<^verbatim>\<open>int\<close>.\<close>

definition printf_02x :: "int \<Rightarrow> string" where
  "printf_02x i = pad_zero 2 (hex_digits (nat (i mod 2 ^ 32)))"

section \<open>Packets\<close>

datatype gdb_kind_t = GDB_KIND_NOTIFY | GDB_KIND_PACKET | GDB_KIND_NACK | GDB_KIND_ACK

record gdb_packet_t =
  pkt_kind :: gdb_kind_t
  pkt_data :: "string option"
  pkt_csum :: string

abbreviation (input) GDB_CSUM_LEN :: nat where "GDB_CSUM_LEN \<equiv> 2"

text \<open>The remainder of C, with the sign of the dividend.\<close>

definition c_rem :: "int \<Rightarrow> int \<Rightarrow> int" where
  "c_rem a b = (if a \<ge> 0 then a mod b else - ((- a) mod b))"

definition calc_csum :: "string \<Rightarrow> int" where
  "calc_csum data = c_rem (sum_list (map schar data)) 256"

abbreviation (input) GDB_RUNLEN_CHAR :: char where "GDB_RUNLEN_CHAR \<equiv> CHR ''*''"
abbreviation (input) GDB_ESCAPE_CHAR :: char where "GDB_ESCAPE_CHAR \<equiv> CHR 0x7D"

text \<open>
  The loop of \<^verbatim>\<open>gdb_decode_runlen\<close>: the previous character, the value of \<^verbatim>\<open>runlen\<close> (-1 when unset), the rest of
  the data. \<open>Inr None\<close> is the null pointer.
\<close>

fun runlen_loop :: "char option \<Rightarrow> int \<Rightarrow> string \<Rightarrow> error + string option" where
    "runlen_loop prev runlen [] = Inr (Some [])"
  | "runlen_loop prev runlen (c # cs) =
      (if c = GDB_RUNLEN_CHAR then
         (case prev of None \<Rightarrow> Inr None | Some p \<Rightarrow> runlen_loop (Some c) (schar p) cs)
       else
         let rl = if runlen = -1 then schar c else runlen;
             rcount = if runlen = -1 then 1 else schar c - 29 in
         if rcount \<le> 0 then Inr None
         else if \<not> (0 \<le> rl \<and> rl \<le> 127) then Inl (AssertFail ''runlen >= 0 && runlen <= CHAR_MAX'')
         else (case runlen_loop (Some c) (-1) cs of
             Inl e \<Rightarrow> Inl e
           | Inr None \<Rightarrow> Inr None
           | Inr (Some s) \<Rightarrow> Inr (Some (replicate (nat rcount) (char_of_code (nat rl)) @ s))))"

definition gdb_decode_runlen :: "string \<Rightarrow> error + string option" where
  "gdb_decode_runlen data = runlen_loop None (-1) data"

definition char_xor20 :: "char \<Rightarrow> char" where
  "char_xor20 c = char_of_code (unat ((word_of_nat (of_char c) :: u8) XOR 0x20))"

fun unescape_loop :: "bool \<Rightarrow> string \<Rightarrow> string" where
    "unescape_loop esc [] = []"
  | "unescape_loop esc (c # cs) = (if c = GDB_ESCAPE_CHAR then unescape_loop True cs
       else (if esc then char_xor20 c else c) # unescape_loop False cs)"

definition gdb_unescape :: "string \<Rightarrow> string" where
  "gdb_unescape data = unescape_loop False data"

definition gdb_is_valid :: "gdb_packet_t \<Rightarrow> error + bool" where
  "gdb_is_valid pkt = (case pkt_data pkt of
     None \<Rightarrow> Inr True
   | Some data \<Rightarrow>
       let strcsum = printf_02x (calc_csum data) in
       if length strcsum \<noteq> GDB_CSUM_LEN then Inl (AssertFail ''ret == GDB_CSUM_LEN'')
       else Inr (take GDB_CSUM_LEN (pkt_csum pkt) = strcsum))"

section \<open>Responses\<close>

primrec kind_to_char :: "gdb_kind_t \<Rightarrow> char" where
    "kind_to_char GDB_KIND_NOTIFY = CHR ''#''"
  | "kind_to_char GDB_KIND_PACKET = CHR ''$''"
  | "kind_to_char GDB_KIND_NACK = CHR ''-''"
  | "kind_to_char GDB_KIND_ACK = CHR ''+''"

definition gdb_serialize :: "gdb_kind_t \<Rightarrow> string option \<Rightarrow> error + string" where
  "gdb_serialize kind data =
     (if kind = GDB_KIND_NACK \<or> kind = GDB_KIND_ACK then
        (if data \<noteq> None then Inl (AssertFail ''data == NULL'') else Inr [kind_to_char kind])
      else case data of
        None \<Rightarrow> Inl (RuntimeError ''null pointer'')
      | Some d \<Rightarrow>
          let s = [kind_to_char kind] @ d @ ''#'' @ printf_02x (calc_csum d) in
          if length s \<ge> length d + GDB_CSUM_LEN + 3 then Inl (RuntimeError ''insufficient snprintf buffer size'')
          else Inr s)"

section \<open>Commands\<close>

record gdb_thread_t =
  thr_pid :: int
  thr_tid :: int

abbreviation (input) GDB_THREAD_UNSET :: int where "GDB_THREAD_UNSET \<equiv> - 2"
abbreviation (input) GDB_THREAD_ANY :: int where "GDB_THREAD_ANY \<equiv> 0"
abbreviation (input) GDB_THREAD_ALL :: int where "GDB_THREAD_ALL \<equiv> - 1"

record gdb_memory_t =
  mem_addr :: u64
  mem_length :: u64

record gdb_breakpoint_t =
  bp_type :: nat
  bp_address :: u64
  bp_kind :: u64

record gdb_vcont_t =
  vc_action :: char
  vc_sig :: int
  vc_thread :: gdb_thread_t

datatype gdb_arg =
    GDB_ARG_NONE
  | GDB_ARG_VCONT "gdb_vcont_t list"
  | GDB_ARG_H char gdb_thread_t
  | GDB_ARG_INT int
  | GDB_ARG_MEMORY gdb_memory_t
  | GDB_ARG_MEMORYW gdb_memory_t string
  | GDB_ARG_BREAK gdb_breakpoint_t
  | GDB_ARG_THREAD gdb_thread_t

record gdb_command_t =
  cmd_name :: string
  cmd_arg :: gdb_arg

definition gdbf_ignarg :: "string \<Rightarrow> gdb_command_t" where
  "gdbf_ignarg str = \<lparr>cmd_name = takeWhile (\<lambda>c. c \<noteq> CHR '':'') str, cmd_arg = GDB_ARG_NONE\<rparr>"

definition gdbf_memory :: "u64 \<Rightarrow> u64 \<Rightarrow> gdb_memory_t" where
  "gdbf_memory addr len = \<lparr>mem_addr = addr, mem_length = len\<rparr>"

definition gdbf_thread_id :: "int option \<Rightarrow> int \<Rightarrow> gdb_thread_t" where
  "gdbf_thread_id pid tid =
     \<lparr>thr_pid = (case pid of Some p \<Rightarrow> p | None \<Rightarrow> GDB_THREAD_UNSET), thr_tid = tid\<rparr>"

text \<open>\<^verbatim>\<open>strtol\<close> in base 16 on hexadecimal digits.\<close>

definition hex_value :: "char \<Rightarrow> nat option" where
  "hex_value c = (let n = of_char c in
     if 48 \<le> n \<and> n \<le> 57 then Some (n - 48)
     else if 97 \<le> n \<and> n \<le> 102 then Some (n - 87)
     else if 65 \<le> n \<and> n \<le> 70 then Some (n - 55)
     else None)"

fun strtol16 :: "nat \<Rightarrow> string \<Rightarrow> nat" where
    "strtol16 acc [] = acc"
  | "strtol16 acc (c # cs) = (case hex_value c of None \<Rightarrow> acc | Some d \<Rightarrow> strtol16 (16 * acc + d) cs)"

definition gdbf_vcont_action :: "string \<Rightarrow> gdb_thread_t option \<Rightarrow> error + gdb_vcont_t" where
  "gdbf_vcont_action actstr thread =
     (let th = (case thread of Some t \<Rightarrow> t | None \<Rightarrow> \<lparr>thr_pid = GDB_THREAD_UNSET, thr_tid = GDB_THREAD_ALL\<rparr>) in
      if length actstr = 1 then Inr \<lparr>vc_action = hd actstr, vc_sig = - 1, vc_thread = th\<rparr>
      else if length actstr = 3 then
        Inr \<lparr>vc_action = hd actstr, vc_sig = int (strtol16 0 (tl actstr)), vc_thread = th\<rparr>
      else Inl (AssertFail ''0''))"

definition gdb_parse_cmd ::
  "(string \<Rightarrow> error + gdb_command_t option) \<Rightarrow> gdb_packet_t \<Rightarrow> error + gdb_command_t option" where
  "gdb_parse_cmd mpc_parse pkt =
     (if pkt_kind pkt \<noteq> GDB_KIND_PACKET then Inr None
      else case gdb_is_valid pkt of
        Inl e \<Rightarrow> Inl e
      | Inr False \<Rightarrow> Inr None
      | Inr True \<Rightarrow> (case pkt_data pkt of
            None \<Rightarrow> Inl (RuntimeError ''null pointer'')
          | Some d \<Rightarrow> (case gdb_decode_runlen d of
                Inl e \<Rightarrow> Inl e
              | Inr None \<Rightarrow> Inr None
              | Inr (Some data) \<Rightarrow> mpc_parse (gdb_unescape data))))"

section \<open>Checksums\<close>

definition ascii :: "char \<Rightarrow> bool" where
  "ascii c \<longleftrightarrow> of_char c < (128 :: nat)"

lemma schar_ascii: "ascii c \<Longrightarrow> schar c = int (of_char c)"
  by (simp add: schar_def ascii_def Let_def)

lemma calc_csum_range:
  assumes "list_all ascii d"
  shows "0 \<le> calc_csum d" "calc_csum d < 256"
proof -
  have "0 \<le> sum_list (map schar d)" using assms by (induction d) (auto simp: schar_ascii)
  then show "0 \<le> calc_csum d" "calc_csum d < 256" by (simp_all add: calc_csum_def c_rem_def)
qed

lemma printf_02x_length:
  assumes "0 \<le> i" "i < 256"
  shows "length (printf_02x i) = 2"
proof -
  define n where "n = nat (i mod 2 ^ 32)"
  have "n < 256" using assms by (simp add: n_def)
  then have "length (hex_digits n) \<le> 2"
    using hex_digits.simps [of n] hex_digits.simps [of "n div 16"] by auto
  then show ?thesis unfolding printf_02x_def pad_zero_def n_def by simp
qed

lemma csum_length: "list_all ascii d \<Longrightarrow> length (printf_02x (calc_csum d)) = 2"
  using calc_csum_range [of d] by (intro printf_02x_length)

section \<open>Escaping and run lengths\<close>

text \<open>The encoder of the protocol, as a reference.\<close>

definition gdb_escape_char :: "char \<Rightarrow> string" where
  "gdb_escape_char c = (if c \<in> {CHR ''#'', CHR ''$'', CHR 0x7D, CHR ''*''} then [GDB_ESCAPE_CHAR, char_xor20 c] else [c])"

lemma escape_code:
  assumes "c \<in> {CHR ''#'', CHR ''$'', CHR 0x7D, CHR ''*''}"
  shows "char_xor20 (char_xor20 c) = c" "char_xor20 c \<noteq> GDB_ESCAPE_CHAR"
  using assms by (auto simp: char_xor20_def char_of_code_def char_of_eq_iff)

lemma unescape_escape: "unescape_loop False (concat (map gdb_escape_char s)) = s"
  by (induction s) (auto simp: gdb_escape_char_def escape_code)

datatype gdb_run = Run char nat

definition run_expand :: "gdb_run list \<Rightarrow> string" where
  "run_expand rs = concat (map (\<lambda>r. case r of Run c n \<Rightarrow> replicate n c) rs)"

definition run_encode :: "gdb_run list \<Rightarrow> string" where
  "run_encode rs = concat (map (\<lambda>r. case r of Run c n \<Rightarrow> if n = 1 then [c] else [c, GDB_RUNLEN_CHAR, char_of_code (n + 28)]) rs)"

definition run_ok :: "gdb_run \<Rightarrow> bool" where
  "run_ok r = (case r of Run c n \<Rightarrow> ascii c \<and> c \<noteq> GDB_RUNLEN_CHAR \<and> (n = 1 \<or> 4 \<le> n \<and> n \<le> 98 \<and> n \<noteq> 14))"

lemma char_code_roundtrip: "char_of_code (of_char c) = c"
  by (simp add: char_of_code_def)

lemma of_char_code: "n < 256 \<Longrightarrow> of_char (char_of_code n) = n"
  by (simp add: char_of_code_def)

lemma runlen_single:
  assumes "ascii c" "c \<noteq> GDB_RUNLEN_CHAR"
  shows "runlen_loop prev (-1) (c # cs) = (case runlen_loop (Some c) (-1) cs of
     Inl e \<Rightarrow> Inl e | Inr None \<Rightarrow> Inr None | Inr (Some s) \<Rightarrow> Inr (Some (c # s)))"
  using assms by (simp add: schar_ascii ascii_def Let_def char_code_roundtrip split: sum.splits option.splits)

lemma runlen_run:
  assumes "ascii c" "c \<noteq> GDB_RUNLEN_CHAR" "4 \<le> n" "n \<le> 98" "n \<noteq> 14"
  shows "runlen_loop prev (-1) (c # GDB_RUNLEN_CHAR # char_of_code (n + 28) # cs) =
    (case runlen_loop (Some (char_of_code (n + 28))) (-1) cs of
       Inl e \<Rightarrow> Inl e | Inr None \<Rightarrow> Inr None | Inr (Some s) \<Rightarrow> Inr (Some (replicate n c @ s)))"
proof -
  let ?d = "char_of_code (n + 28)"
  have d: "of_char ?d = n + 28" using assms by (simp add: of_char_code)
  have "?d \<noteq> GDB_RUNLEN_CHAR"
  proof
    assume "?d = GDB_RUNLEN_CHAR"
    then have "of_char ?d = (42 :: nat)" by simp
    with d assms(5) show False by simp
  qed
  moreover have "schar ?d = int n + 28" using d assms(4) by (simp add: schar_def)
  moreover have "0 \<le> schar c" "schar c \<le> 127" "char_of_code (nat (schar c)) = c"
    using assms(1) by (simp_all add: schar_ascii ascii_def char_code_roundtrip)
  ultimately have "runlen_loop (Some c) (-1) (GDB_RUNLEN_CHAR # ?d # cs) = (case runlen_loop (Some ?d) (-1) cs of
       Inl e \<Rightarrow> Inl e | Inr None \<Rightarrow> Inr None | Inr (Some s) \<Rightarrow> Inr (Some (replicate (n - 1) c @ s)))"
    using assms(3) by (simp add: Let_def nat_diff_distrib split: sum.splits option.splits)
  moreover have "c # replicate (n - 1) c @ s = replicate n c @ s" for s using assms(3) by (cases n) simp_all
  ultimately show ?thesis
    using runlen_single [OF assms(1,2), of prev "GDB_RUNLEN_CHAR # ?d # cs"]
    by (simp split: sum.splits option.splits)
qed

lemma runlen_decode_encode: "list_all run_ok rs \<Longrightarrow> runlen_loop prev (-1) (run_encode rs) = Inr (Some (run_expand rs))"
proof (induction rs arbitrary: prev)
  case (Cons r rs)
  obtain c n where r: "r = Run c n" by (cases r)
  have ok: "ascii c" "c \<noteq> GDB_RUNLEN_CHAR" "n = 1 \<or> 4 \<le> n \<and> n \<le> 98 \<and> n \<noteq> 14"
    using Cons.prems by (auto simp: r run_ok_def)
  have enc: "run_encode (r # rs) = (if n = 1 then [c] else [c, GDB_RUNLEN_CHAR, char_of_code (n + 28)]) @ run_encode rs"
    "run_expand (r # rs) = replicate n c @ run_expand rs"
    by (simp_all add: run_encode_def run_expand_def r)
  have IH: "runlen_loop p (-1) (run_encode rs) = Inr (Some (run_expand rs))" for p using Cons by simp
  show ?case
  proof (cases "n = 1")
    case True
    then show ?thesis using runlen_single [OF ok(1,2)] by (simp add: enc IH)
  next
    case False
    then show ?thesis using ok(3) runlen_run [OF ok(1,2)] by (simp add: enc IH)
  qed
qed (simp add: run_encode_def run_expand_def)

end
