(* ===== verification/Gdb_Server.thy ===== *)
theory Gdb_Server
  imports Gdb_Packets Iss Mmu Tlm_Map
begin

text \<open>
  The GDB server (\<^verbatim>\<open>core/common/gdb-mc/gdb_server.cpp\<close>), its packet handlers (\<^verbatim>\<open>handler.cpp\<close>), the register
  format (\<^verbatim>\<open>register_format.cpp\<close>) and the debug access to the memory (\<^verbatim>\<open>core/common/debug_memory.cpp\<close>). The harts are
  numbered from 0; what the server calls of a hart (\<^verbatim>\<open>debug_target_if\<close>), of the connection and of the
  SystemC scheduler is the record \<open>gdb_env\<close>: \<open>ge_run\<close> notifies the run events of the selected harts and waits
  until the first of them has stopped, \<open>ge_wait_stop\<close> waits for the stop event of one. Exceptions of the
  source's classes \<^verbatim>\<open>std::out_of_range\<close>, \<^verbatim>\<open>std::invalid_argument\<close> and \<^verbatim>\<open>std::system_error\<close> carry the name of the class.
\<close>

section \<open>State and environment\<close>

record GDBServer =
  thread_ops :: "char \<rightharpoonup> int"
  prevpkt :: "string option"
  single_run :: bool

record 's gdb_env =
  ge_part :: "(GDBServer, 's) part"
  ge_arch :: Architecture
  ge_nharts :: nat
  ge_get_status :: "nat \<Rightarrow> 's \<Rightarrow> CoreExecStatus"
  ge_set_status :: "nat \<Rightarrow> CoreExecStatus \<Rightarrow> ('s, unit) smonad"
  ge_insert_breakpoint :: "nat \<Rightarrow> u64 \<Rightarrow> ('s, unit) smonad"
  ge_remove_breakpoint :: "nat \<Rightarrow> u64 \<Rightarrow> ('s, unit) smonad"
  ge_get_hart_id :: "nat \<Rightarrow> 's \<Rightarrow> u64"
  ge_get_pc :: "nat \<Rightarrow> 's \<Rightarrow> u64"
  ge_get_registers :: "nat \<Rightarrow> ('s, u64 list) smonad"
  ge_read_register :: "nat \<Rightarrow> u32 \<Rightarrow> ('s, u64) smonad"
  ge_v2p :: "nat \<Rightarrow> (u64 \<Rightarrow> MemoryAccessType \<Rightarrow> ('s, u64) smonad) option"
  ge_transport_dbg :: "tlm_command \<Rightarrow> u64 \<Rightarrow> u8 list \<Rightarrow> ('s, nat \<times> bool \<times> u8 list) smonad"
  ge_run :: "nat list \<Rightarrow> ('s, unit) smonad"
  ge_wait_stop :: "nat \<Rightarrow> ('s, unit) smonad"
  ge_writeall :: "string \<Rightarrow> ('s, unit) smonad"
  ge_exit :: "('s, unit) smonad"

definition exn_out_of_range :: error where "exn_out_of_range = RuntimeError ''std::out_of_range''"
definition exn_invalid_argument :: error where "exn_invalid_argument = RuntimeError ''std::invalid_argument''"
definition exn_system_error :: error where "exn_system_error = RuntimeError ''std::system_error''"

text \<open>\<^verbatim>\<open>std::system_error\<close> is a \<^verbatim>\<open>std::runtime_error\<close>; the other two are not.\<close>

definition is_runtime_error :: "error \<Rightarrow> bool" where
  "is_runtime_error e \<longleftrightarrow> (\<exists>m. e = RuntimeError m) \<and> e \<noteq> exn_out_of_range \<and> e \<noteq> exn_invalid_argument"

lemma is_runtime_error_code [code]:
  "is_runtime_error e = (case e of RuntimeError m \<Rightarrow> e \<noteq> exn_out_of_range \<and> e \<noteq> exn_invalid_argument | _ \<Rightarrow> False)"
  by (cases e) (auto simp: is_runtime_error_def)

definition catch_if :: "(error \<Rightarrow> bool) \<Rightarrow> ('s, 'a) smonad \<Rightarrow> ('s, 'a) smonad \<Rightarrow> ('s, 'a) smonad" where
  "catch_if pred m k = catch_m m (\<lambda>e. if pred e then k else throw_m e)"

section \<open>Sending\<close>

definition send_packet :: "'s gdb_env \<Rightarrow> string option \<Rightarrow> gdb_kind_t \<Rightarrow> ('s, unit) smonad" where
  "send_packet e data kind = (case gdb_serialize kind data of
     Inl err \<Rightarrow> throw_m err
   | Inr serialized \<Rightarrow>
       bind_m (catch_if (\<lambda>x. x = exn_system_error) (then_m (ge_writeall e serialized) (return_m True)) (return_m False)) (\<lambda>ok.
         when_m (ok \<and> kind = GDB_KIND_PACKET) (modify_at (ge_part e) (prevpkt_update (\<lambda>_. Some serialized)))))"

definition reply :: "'s gdb_env \<Rightarrow> string \<Rightarrow> ('s, unit) smonad" where
  "reply e data = send_packet e (Some data) GDB_KIND_PACKET"

definition retransmit :: "'s gdb_env \<Rightarrow> ('s, unit) smonad" where
  "retransmit e = bind_m (gets_at (ge_part e) prevpkt) (\<lambda>p. case p of
     None \<Rightarrow> return_m ()
   | Some s \<Rightarrow> catch_if (\<lambda>x. x = exn_system_error) (ge_writeall e s) (return_m ()))"

section \<open>Threads\<close>

definition get_threads :: "'s gdb_env \<Rightarrow> int \<Rightarrow> error + nat list" where
  "get_threads e i =
     (let n = if i = GDB_THREAD_ANY then 1 else i in
      if n = GDB_THREAD_ALL then Inr [0..<ge_nharts e]
      else if n < 1 then Inl exn_out_of_range
      else if nat (n - 1) \<ge> ge_nharts e then Inl exn_out_of_range
      else Inr [nat (n - 1)])"

definition threads_m :: "'s gdb_env \<Rightarrow> int \<Rightarrow> ('s, nat list) smonad" where
  "threads_m e i = (case get_threads e i of Inl x \<Rightarrow> throw_m x | Inr ts \<Rightarrow> return_m ts)"

fun for_harts :: "(nat \<Rightarrow> ('s, unit) smonad) \<Rightarrow> nat list \<Rightarrow> ('s, unit) smonad" where
    "for_harts f [] = return_m ()"
  | "for_harts f (h # hs) = then_m (f h) (for_harts f hs)"

text \<open>
  \<^verbatim>\<open>exec_thread\<close> runs the function on the harts selected for the operation; the output the functions collect
  is the concatenation of their results.
\<close>

fun collect_harts :: "(nat \<Rightarrow> ('s, string) smonad) \<Rightarrow> nat list \<Rightarrow> ('s, string) smonad" where
    "collect_harts f [] = return_m []"
  | "collect_harts f (h # hs) = bind_m (f h) (\<lambda>x. bind_m (collect_harts f hs) (\<lambda>xs. return_m (x @ xs)))"

definition exec_thread :: "'s gdb_env \<Rightarrow> (nat \<Rightarrow> ('s, string) smonad) \<Rightarrow> ('s, string) smonad" where
  "exec_thread e fn = bind_m (gets_at (ge_part e) (\<lambda>g. thread_ops g (CHR ''g''))) (\<lambda>t.
     bind_m (threads_m e (case t of Some n \<Rightarrow> n | None \<Rightarrow> GDB_THREAD_ANY)) (collect_harts fn))"

definition translate_addr :: "'s gdb_env \<Rightarrow> nat \<Rightarrow> u64 \<Rightarrow> MemoryAccessType \<Rightarrow> ('s, u64) smonad" where
  "translate_addr e hart addr type = (case ge_v2p e hart of None \<Rightarrow> return_m addr | Some v2p \<Rightarrow> v2p addr type)"

text \<open>
  The status of a hart is recorded just before it is stopped, in the order of the list; \<open>run_threads\<close> restores
  it afterwards.
\<close>

fun stop_and_record :: "'s gdb_env \<Rightarrow> nat list \<Rightarrow> ('s, CoreExecStatus list) smonad" where
    "stop_and_record e [] = return_m []"
  | "stop_and_record e (h # hs) = bind_m (gets_m (ge_get_status e h)) (\<lambda>st.
       then_m (when_m (st = Runnable) (then_m (ge_set_status e h HitBreakpoint) (ge_wait_stop e h)))
         (bind_m (stop_and_record e hs) (\<lambda>sts. return_m (st # sts))))"

fun restore_status :: "'s gdb_env \<Rightarrow> (nat \<times> CoreExecStatus) list \<Rightarrow> ('s, unit) smonad" where
    "restore_status e [] = return_m ()"
  | "restore_status e ((h, st) # hs) = then_m (ge_set_status e h st) (restore_status e hs)"

definition run_threads :: "'s gdb_env \<Rightarrow> nat list \<Rightarrow> bool \<Rightarrow> ('s, nat list) smonad" where
  "run_threads e hartsrun single =
     (if hartsrun = [] then return_m []
      else then_m (modify_at (ge_part e) (single_run_update (\<lambda>_. single)))
        (then_m (ge_run e hartsrun)
        (bind_m (stop_and_record e hartsrun) (\<lambda>orig_status.
          then_m (restore_status e (zip hartsrun orig_status)) (return_m hartsrun)))))"

section \<open>Memory\<close>

definition hex_byte :: "u8 \<Rightarrow> string" where
  "hex_byte b = pad_zero 2 (hex_digits (unat b))"

definition dbg_transaction :: "'s gdb_env \<Rightarrow> tlm_command \<Rightarrow> u64 \<Rightarrow> u8 list \<Rightarrow> ('s, nat \<times> u8 list) smonad" where
  "dbg_transaction e cmd addr data = bind_m (ge_transport_dbg e cmd addr data) (\<lambda>(n, err, data').
     if err then throw_m (RuntimeError ''debug transaction failed'') else return_m (n, data'))"

definition read_memory :: "'s gdb_env \<Rightarrow> u64 \<Rightarrow> u32 \<Rightarrow> ('s, string) smonad" where
  "read_memory e start nbytes = bind_m (dbg_transaction e TLM_READ_COMMAND start (replicate (unat nbytes) 0)) (\<lambda>(n, buf).
     then_m (assert_m ''not all bytes read'' (n = unat nbytes)) (return_m (concat (map hex_byte buf))))"

text \<open>The loop converts two characters at a time while \<^verbatim>\<open>i + 1 < nbytes\<close>; the rest of the buffer stays zero.
  The grammar of the command admits hexadecimal digits only.\<close>

definition decode_hex :: "nat \<Rightarrow> string \<Rightarrow> u8 list" where
  "decode_hex nbytes data = map (\<lambda>j. if 2 * j + 1 < nbytes then word_of_nat (strtol16 0 [data ! (2 * j), data ! (2 * j + 1)])
     else 0) [0..<length data div 2]"

definition write_memory :: "'s gdb_env \<Rightarrow> u64 \<Rightarrow> u32 \<Rightarrow> string \<Rightarrow> ('s, unit) smonad" where
  "write_memory e start nbytes data =
     then_m (assert_m ''data.length() % 2 == 0'' (length data mod 2 = 0))
     (then_m (assert_m ''buf.size() == nbytes'' (length data div 2 = unat nbytes))
     (bind_m (dbg_transaction e TLM_WRITE_COMMAND start (decode_hex (unat nbytes) data)) (\<lambda>(n, _).
       assert_m ''not all data written'' (n = unat nbytes))))"

section \<open>Registers\<close>

definition bswap :: "nat \<Rightarrow> u64 \<Rightarrow> nat" where
  "bswap k v = bytes_to_nat (rev (nat_to_bytes k (unat v)))"

primrec formatRegister :: "Architecture \<Rightarrow> u64 \<Rightarrow> ('s, string) smonad" where
    "formatRegister RV32 v = return_m (pad_zero 8 (hex_digits (bswap 4 v)))"
  | "formatRegister RV64 v = return_m (pad_zero 16 (hex_digits (bswap 8 v)))"
  | "formatRegister RV128 v = throw_m exn_invalid_argument"

fun formatRegisters :: "Architecture \<Rightarrow> u64 list \<Rightarrow> ('s, string) smonad" where
    "formatRegisters a [] = return_m []"
  | "formatRegisters a (v # vs) =
      bind_m (formatRegister a v) (\<lambda>x. bind_m (formatRegisters a vs) (\<lambda>xs. return_m (x @ xs)))"

section \<open>Handlers\<close>

definition haltReason :: "'s gdb_env \<Rightarrow> gdb_arg \<Rightarrow> ('s, unit) smonad" where
  "haltReason e arg = reply e ''S05''"

definition getRegisters :: "'s gdb_env \<Rightarrow> gdb_arg \<Rightarrow> ('s, unit) smonad" where
  "getRegisters e arg = bind_m (exec_thread e (\<lambda>h. bind_m (ge_get_registers e h) (formatRegisters (ge_arch e)))) (reply e)"

text \<open>A handler whose argument has another type than the command gives it reads a union; that is an error here.\<close>

definition bad_union :: error where "bad_union = RuntimeError ''gdb_command_t: wrong argument type''"

definition setThread :: "'s gdb_env \<Rightarrow> gdb_arg \<Rightarrow> ('s, unit) smonad" where
  "setThread e arg = (case arg of
     GDB_ARG_H op t \<Rightarrow> then_m (modify_at (ge_part e) (thread_ops_update (\<lambda>m. m(op \<mapsto> thr_tid t)))) (reply e ''OK'')
   | _ \<Rightarrow> throw_m bad_union)"

definition killServer :: "'s gdb_env \<Rightarrow> gdb_arg \<Rightarrow> ('s, unit) smonad" where
  "killServer e arg = ge_exit e"

definition readMemory :: "'s gdb_env \<Rightarrow> gdb_arg \<Rightarrow> ('s, unit) smonad" where
  "readMemory e arg = (case arg of
     GDB_ARG_MEMORY mem \<Rightarrow>
       then_m (assert_m ''mem->length <= UINT_MAX'' (mem_length mem \<le> 0xffffffff))
       (bind_m (catch_if is_runtime_error
           (bind_m (exec_thread e (\<lambda>h. bind_m (translate_addr e h (mem_addr mem) LOAD) (\<lambda>addr.
              read_memory e addr (ucast (mem_length mem))))) (\<lambda>s. return_m (Some s)))
           (return_m None)) (\<lambda>r.
         reply e (case r of None \<Rightarrow> ''E01'' | Some s \<Rightarrow> s)))
   | _ \<Rightarrow> throw_m bad_union)"

definition writeMemory :: "'s gdb_env \<Rightarrow> gdb_arg \<Rightarrow> ('s, unit) smonad" where
  "writeMemory e arg = (case arg of
     GDB_ARG_MEMORYW loc data \<Rightarrow>
       then_m (assert_m ''loc->length <= UINT_MAX'' (mem_length loc \<le> 0xffffffff))
       (bind_m (catch_if is_runtime_error
           (bind_m (exec_thread e (\<lambda>h. bind_m (translate_addr e h (mem_addr loc) STORE) (\<lambda>addr.
              then_m (write_memory e addr (ucast (mem_length loc)) data) (return_m [])))) (\<lambda>_. return_m ''OK''))
           (return_m ''E01'')) (reply e))
   | _ \<Rightarrow> throw_m bad_union)"

definition readRegister :: "'s gdb_env \<Rightarrow> gdb_arg \<Rightarrow> ('s, unit) smonad" where
  "readRegister e arg = (case arg of
     GDB_ARG_INT rn \<Rightarrow>
       bind_m (catch_if (\<lambda>x. x = exn_out_of_range)
         (bind_m (exec_thread e (\<lambda>h. bind_m (if rn = 32 then gets_m (ge_get_pc e h)
              else ge_read_register e h (word_of_int rn)) (formatRegister (ge_arch e)))) (\<lambda>s. return_m (Some s)))
         (return_m None)) (\<lambda>r.
       reply e (case r of None \<Rightarrow> ''E01'' | Some s \<Rightarrow> s))
   | _ \<Rightarrow> throw_m bad_union)"

text \<open>A comma follows every listed hart that is not the last of all harts.\<close>

definition threadInfo :: "'s gdb_env \<Rightarrow> gdb_arg \<Rightarrow> ('s, unit) smonad" where
  "threadInfo e arg = bind_m (gets_m (\<lambda>s. ''m'' @ concat (map (\<lambda>i.
     if ge_get_status e i s = Terminated then []
     else to_string (ge_get_hart_id e i s + 1) @ (if i + 1 < ge_nharts e then '','' else []))
     [0..<ge_nharts e]))) (reply e)"

definition threadInfoEnd :: "'s gdb_env \<Rightarrow> gdb_arg \<Rightarrow> ('s, unit) smonad" where
  "threadInfoEnd e arg = reply e ''l''"

definition qAttached :: "'s gdb_env \<Rightarrow> gdb_arg \<Rightarrow> ('s, unit) smonad" where
  "qAttached e arg = reply e ''0''"

definition qSupported :: "'s gdb_env \<Rightarrow> gdb_arg \<Rightarrow> ('s, unit) smonad" where
  "qSupported e arg = reply e (''vContSupported+;PacketSize='' @ nat_to_string 4096)"

definition isAlive :: "'s gdb_env \<Rightarrow> gdb_arg \<Rightarrow> ('s, unit) smonad" where
  "isAlive e arg = (case arg of
     GDB_ARG_THREAD t \<Rightarrow> reply e (case get_threads e (thr_tid t) of Inl _ \<Rightarrow> ''E01'' | Inr _ \<Rightarrow> ''OK'')
   | _ \<Rightarrow> throw_m bad_union)"

type_synonym stop_info = "(string \<times> int) option"

fun stop_scan :: "'s gdb_env \<Rightarrow> nat list \<Rightarrow> stop_info \<Rightarrow> ('s, stop_info) smonad" where
    "stop_scan e [] stop = return_m stop"
  | "stop_scan e (h # hs) stop = bind_m (gets_m (\<lambda>s. (ge_get_status e h s, sint (ucast (ge_get_hart_id e h s + 1) :: u32)))) (\<lambda>(st, i).
      case st of
        HitBreakpoint \<Rightarrow> then_m (ge_set_status e h Runnable) (stop_scan e hs (Some (''05'', i)))
      | Terminated \<Rightarrow> stop_scan e hs (Some (''03'', i))
      | Runnable \<Rightarrow> stop_scan e hs stop)"

text \<open>
  The loop over the actions: \<open>None\<close> when a thread does not exist and the error reply has been sent, otherwise
  the reason and the thread of the last stop.
\<close>

fun vCont_loop :: "'s gdb_env \<Rightarrow> nat set \<Rightarrow> stop_info \<Rightarrow> gdb_vcont_t list \<Rightarrow> ('s, stop_info option) smonad" where
    "vCont_loop e matched stop [] = return_m (Some stop)"
  | "vCont_loop e matched stop (v # vs) =
      (if vc_action v \<noteq> CHR ''s'' \<and> vc_action v \<noteq> CHR ''c'' then throw_m exn_invalid_argument
       else bind_m (catch_if (\<lambda>x. x = exn_out_of_range)
           (bind_m (threads_m e (thr_tid (vc_thread v))) (\<lambda>run.
             bind_m (run_threads e (filter (\<lambda>h. h \<notin> matched) run) (vc_action v = CHR ''s'')) (\<lambda>hs. return_m (Some hs))))
           (return_m None)) (\<lambda>sel.
         case sel of
           None \<Rightarrow> then_m (reply e ''E01'') (return_m None)
         | Some hs \<Rightarrow> bind_m (stop_scan e hs stop) (\<lambda>stop'.
             if thr_tid (vc_thread v) > 0 then
               bind_m (threads_m e (thr_tid (vc_thread v))) (\<lambda>ts.
                 vCont_loop e (matched \<union> set ts) stop' vs)
             else vCont_loop e matched stop' vs)))"

definition vCont :: "'s gdb_env \<Rightarrow> gdb_arg \<Rightarrow> ('s, unit) smonad" where
  "vCont e arg = (case arg of
     GDB_ARG_VCONT vs \<Rightarrow> bind_m (vCont_loop e {} None vs) (\<lambda>r. case r of
         None \<Rightarrow> return_m ()
       | Some None \<Rightarrow> throw_m (AssertFail ''stop_reason && stopped_thread >= 1'')
       | Some (Some (reason, thread)) \<Rightarrow>
           if \<not> thread \<ge> 1 then throw_m (AssertFail ''stop_reason && stopped_thread >= 1'')
           else then_m (modify_at (ge_part e) (thread_ops_update (\<lambda>m. m(CHR ''g'' \<mapsto> thread))))
             (reply e (''T'' @ reason @ ''thread:'' @ nat_to_string (nat thread) @ '';'')))
   | _ \<Rightarrow> throw_m bad_union)"

definition vContSupported :: "'s gdb_env \<Rightarrow> gdb_arg \<Rightarrow> ('s, unit) smonad" where
  "vContSupported e arg = reply e ''vCont;c;C''"

definition breakpoint_op :: "'s gdb_env \<Rightarrow> (nat \<Rightarrow> u64 \<Rightarrow> ('s, unit) smonad) \<Rightarrow> gdb_arg \<Rightarrow> ('s, unit) smonad" where
  "breakpoint_op e f arg = (case arg of
     GDB_ARG_BREAK b \<Rightarrow>
       if bp_type b \<noteq> 0 then reply e []
       else then_m (for_harts (\<lambda>h. f h (bp_address b)) [0..<ge_nharts e]) (reply e ''OK'')
   | _ \<Rightarrow> throw_m bad_union)"

definition removeBreakpoint :: "'s gdb_env \<Rightarrow> gdb_arg \<Rightarrow> ('s, unit) smonad" where
  "removeBreakpoint e = breakpoint_op e (ge_remove_breakpoint e)"

definition setBreakpoint :: "'s gdb_env \<Rightarrow> gdb_arg \<Rightarrow> ('s, unit) smonad" where
  "setBreakpoint e = breakpoint_op e (ge_insert_breakpoint e)"

definition handlers :: "(string \<times> ('s gdb_env \<Rightarrow> gdb_arg \<Rightarrow> ('s, unit) smonad)) list" where
  "handlers =
    [(''?'', haltReason), (''g'', getRegisters), (''H'', setThread), (''k'', killServer), (''m'', readMemory),
     (''M'', writeMemory), (''p'', readRegister), (''qAttached'', qAttached), (''qSupported'', qSupported),
     (''qfThreadInfo'', threadInfo), (''qsThreadInfo'', threadInfoEnd), (''T'', isAlive), (''vCont'', vCont),
     (''vCont?'', vContSupported), (''z'', removeBreakpoint), (''Z'', setBreakpoint)]"

section \<open>One packet\<close>

definition gdb_run_packet :: "'s gdb_env \<Rightarrow> (string \<Rightarrow> error + gdb_command_t option) \<Rightarrow> gdb_packet_t \<Rightarrow> ('s, unit) smonad" where
  "gdb_run_packet e mpc_parse pkt = (case pkt_kind pkt of
     GDB_KIND_NACK \<Rightarrow> retransmit e
   | GDB_KIND_ACK \<Rightarrow> return_m ()
   | _ \<Rightarrow> (case gdb_parse_cmd mpc_parse pkt of
         Inl err \<Rightarrow> throw_m err
       | Inr None \<Rightarrow> send_packet e None GDB_KIND_NACK
       | Inr (Some cmd) \<Rightarrow> then_m (send_packet e None GDB_KIND_ACK)
           (case map_of handlers (cmd_name cmd) of
              None \<Rightarrow> reply e []
            | Some handler \<Rightarrow> handler e (cmd_arg cmd))))"

section \<open>GDBServerRunner\<close>

text \<open>One round of the runner of a hart after its run event; the flag says whether the runner goes on.\<close>

definition gdb_runner_round ::
  "'s gdb_env \<Rightarrow> (nat \<Rightarrow> ('s, unit) smonad) \<Rightarrow> (nat \<Rightarrow> ('s, unit) smonad) \<Rightarrow> nat \<Rightarrow> ('s, bool) smonad" where
  "gdb_runner_round e hart_run_step hart_run h = bind_m (gets_at (ge_part e) single_run) (\<lambda>single.
     then_m (if single then then_m (hart_run_step h)
         (bind_m (gets_m (ge_get_status e h)) (\<lambda>st. when_m (st = Runnable) (ge_set_status e h HitBreakpoint)))
       else hart_run h)
     (gets_m (\<lambda>s. ge_get_status e h s \<noteq> Terminated)))"

end
