(* ===== verification/Gdb_Grammar.thy ===== *)
theory Gdb_Grammar
  imports Gdb_Packets
begin

text \<open>
  The two grammars of the GDB remote protocol (\<^verbatim>\<open>libgdb/parser1.c\<close>: packets and acknowledgements on the
  stream; \<^verbatim>\<open>parser2.c\<close>: commands in a packet). They are built from the combinators of the parser library
  \<^verbatim>\<open>mpc\<close>, which is not part of the repository: its functions are the record \<open>mpc\<close> over a type \<open>'p\<close> of parsers,
  and the locale \<open>mpc_laws\<close> states its documented behaviour as what a parser returns on an input. Values are
  pointers of several types in the source; \<open>mpc_val\<close> has one constructor per type, and a fold that gets a value
  of another type, which would be undefined behaviour, is an error. The functions that release memory
  are left out.
\<close>

section \<open>The parser library\<close>

datatype mpc_val =
    VNull
  | VStr string
  | VInt int
  | VAddr u64
  | VSize u64
  | VMem gdb_memory_t
  | VThread gdb_thread_t
  | VVcont "gdb_vcont_t list"
  | VCmd gdb_command_t
  | VPkt gdb_packet_t

type_synonym mpc_fold = "mpc_val list \<Rightarrow> error + mpc_val"

record 'p mpc =
  mpc_any :: 'p
  mpc_char :: "char \<Rightarrow> 'p"
  mpc_oneof :: "string \<Rightarrow> 'p"
  mpc_noneof :: "string \<Rightarrow> 'p"
  mpc_string :: "string \<Rightarrow> 'p"
  mpc_re :: "string \<Rightarrow> 'p"
  mpc_eoi :: 'p
  mpc_hexdigits :: 'p
  mpc_hex :: 'p
  mpc_expect :: "'p \<Rightarrow> string \<Rightarrow> 'p"
  mpc_apply :: "'p \<Rightarrow> (mpc_val \<Rightarrow> error + mpc_val) \<Rightarrow> 'p"
  mpc_maybe :: "'p \<Rightarrow> 'p"
  mpc_many :: "mpc_fold \<Rightarrow> 'p \<Rightarrow> 'p"
  mpc_many1 :: "mpc_fold \<Rightarrow> 'p \<Rightarrow> 'p"
  mpc_and :: "mpc_fold \<Rightarrow> 'p list \<Rightarrow> 'p"
  mpc_or :: "'p list \<Rightarrow> 'p"
  mpc_predictive :: "'p \<Rightarrow> 'p"
  mpcf_strfold :: mpc_fold
  mpcf_fst_free :: mpc_fold
  mpcf_snd_free :: mpc_fold
  mpcf_int :: "mpc_val \<Rightarrow> error + mpc_val"
  mpc_parse :: "'p \<Rightarrow> string \<Rightarrow> error + mpc_val option"
  mpc_parse_pipe :: "'p \<Rightarrow> string \<Rightarrow> (error + mpc_val option) \<times> string"

definition bad_pointer :: error where
  "bad_pointer = RuntimeError ''pointer to a value of another type''"

section \<open>Packets\<close>

definition gdbf_packet :: mpc_fold where
  "gdbf_packet xs =
     (if length xs \<noteq> 3 then Inl (AssertFail ''n == 3'')
      else case (xs ! 0, xs ! 1, xs ! 2) of
        (VStr (c # _), VStr data, VStr csum) \<Rightarrow>
          if c = CHR ''%'' then Inr (VPkt \<lparr>pkt_kind = GDB_KIND_NOTIFY, pkt_data = Some data, pkt_csum = take GDB_CSUM_LEN (drop 1 csum)\<rparr>)
          else if c = CHR ''$'' then Inr (VPkt \<lparr>pkt_kind = GDB_KIND_PACKET, pkt_data = Some data, pkt_csum = take GDB_CSUM_LEN (drop 1 csum)\<rparr>)
          else Inl (AssertFail ''0'')
      | _ \<Rightarrow> Inl bad_pointer)"

definition gdbf_acknowledge :: "mpc_val \<Rightarrow> error + mpc_val" where
  "gdbf_acknowledge x = (case x of
     VStr (c # _) \<Rightarrow>
       if c = CHR ''+'' then Inr (VPkt \<lparr>pkt_kind = GDB_KIND_ACK, pkt_data = None, pkt_csum = replicate GDB_CSUM_LEN (CHR 0x00)\<rparr>)
       else if c = CHR ''-'' then Inr (VPkt \<lparr>pkt_kind = GDB_KIND_NACK, pkt_data = None, pkt_csum = replicate GDB_CSUM_LEN (CHR 0x00)\<rparr>)
       else Inl (AssertFail ''0'')
   | _ \<Rightarrow> Inl bad_pointer)"

definition gdb_csum :: "'p mpc \<Rightarrow> 'p" where
  "gdb_csum M = mpc_and M (mpcf_strfold M) [mpc_char M (CHR ''#''), mpc_and M (mpcf_strfold M) [mpc_any M, mpc_any M]]"

definition gdb_packet :: "'p mpc \<Rightarrow> 'p" where
  "gdb_packet M = mpc_and M gdbf_packet
     [mpc_char M (CHR ''$''), mpc_many M (mpcf_strfold M) (mpc_noneof M ''#$''), gdb_csum M]"

definition gdb_notification :: "'p mpc \<Rightarrow> 'p" where
  "gdb_notification M = mpc_and M gdbf_packet
     [mpc_char M (CHR ''%''), mpc_many M (mpcf_strfold M) (mpc_noneof M ''#$%''), gdb_csum M]"

definition gdb_acknowledge :: "'p mpc \<Rightarrow> 'p" where
  "gdb_acknowledge M = mpc_apply M (mpc_oneof M ''+-'') gdbf_acknowledge"

definition gdb_parse_stage1 :: "'p mpc \<Rightarrow> 'p" where
  "gdb_parse_stage1 M = mpc_or M [gdb_acknowledge M, gdb_packet M, gdb_notification M]"

definition gdb_parse_pkt :: "'p mpc \<Rightarrow> string \<Rightarrow> (error + gdb_packet_t option) \<times> string" where
  "gdb_parse_pkt M stream = (case mpc_parse_pipe M (mpc_predictive M (gdb_parse_stage1 M)) stream of
     (Inl e, rest) \<Rightarrow> (Inl e, rest)
   | (Inr None, rest) \<Rightarrow> (Inr None, rest)
   | (Inr (Some v), rest) \<Rightarrow> ((case v of VPkt pkt \<Rightarrow> Inr (Some pkt) | _ \<Rightarrow> Inl bad_pointer), rest))"

section \<open>Numbers, addresses and threads\<close>

text \<open>\<^verbatim>\<open>sscanf\<close> with a hexadecimal conversion; a value that does not fit is an error here.\<close>

definition sscanf_x64 :: "string \<Rightarrow> error + u64" where
  "sscanf_x64 s = (case s of
     [] \<Rightarrow> Inl (AssertFail ''r == 1'')
   | c # _ \<Rightarrow>
       if hex_value c = None then Inl (AssertFail ''r == 1'')
       else if strtol16 0 s \<ge> 2 ^ 64 then Inl (RuntimeError ''sscanf: value out of range'')
       else Inr (word_of_nat (strtol16 0 s)))"

definition gdbf_address :: "mpc_val \<Rightarrow> error + mpc_val" where
  "gdbf_address x = (case x of VStr s \<Rightarrow> map_sum id VAddr (sscanf_x64 s) | _ \<Rightarrow> Inl bad_pointer)"

definition gdb_address :: "'p mpc \<Rightarrow> 'p" where
  "gdb_address M = mpc_expect M (mpc_apply M (mpc_hexdigits M) gdbf_address) ''hexadecimal address''"

definition gdbf_uhex :: "mpc_val \<Rightarrow> error + mpc_val" where
  "gdbf_uhex x = (case x of VStr s \<Rightarrow> map_sum id VSize (sscanf_x64 s) | _ \<Rightarrow> Inl bad_pointer)"

definition gdb_uhex :: "'p mpc \<Rightarrow> 'p" where
  "gdb_uhex M = mpc_apply M (mpc_hexdigits M) gdbf_uhex"

definition gdbf_negative :: "mpc_val \<Rightarrow> error + mpc_val" where
  "gdbf_negative x = (case x of
     VStr s \<Rightarrow> if s = ''-1'' then Inr (VInt (- 1)) else Inl (AssertFail ''!strcmp((char*)val, -1)'')
   | _ \<Rightarrow> Inl bad_pointer)"

definition gdbf_memory_fold :: mpc_fold where
  "gdbf_memory_fold xs =
     (if length xs \<noteq> 3 then Inl (AssertFail ''n == 3'')
      else case (xs ! 0, xs ! 1, xs ! 2) of
        (VAddr a, VStr (c # _), VSize l) \<Rightarrow>
          if c \<noteq> CHR '','' then Inl (AssertFail ''*(char *)xs[1] == comma'') else Inr (VMem (gdbf_memory a l))
      | _ \<Rightarrow> Inl bad_pointer)"

definition gdb_memory :: "'p mpc \<Rightarrow> 'p" where
  "gdb_memory M = mpc_and M gdbf_memory_fold [gdb_address M, mpc_char M (CHR '',''), gdb_uhex M]"

definition gdbf_thread_id_fold :: mpc_fold where
  "gdbf_thread_id_fold xs =
     (if length xs \<noteq> 2 then Inl (AssertFail ''n == 2'')
      else case (xs ! 0, xs ! 1) of
        (VNull, VInt tid) \<Rightarrow> Inr (VThread (gdbf_thread_id None tid))
      | (VInt pid, VInt tid) \<Rightarrow> Inr (VThread (gdbf_thread_id (Some pid) tid))
      | _ \<Rightarrow> Inl bad_pointer)"

definition gdb_hexid :: "'p mpc \<Rightarrow> 'p" where
  "gdb_hexid M = mpc_or M [mpc_hex M, mpc_apply M (mpc_string M ''-1'') gdbf_negative]"

definition gdb_thread_id :: "'p mpc \<Rightarrow> 'p" where
  "gdb_thread_id M = mpc_and M gdbf_thread_id_fold
     [mpc_maybe M (mpc_and M (mpcf_snd_free M) [mpc_char M (CHR ''p''), gdb_hexid M, mpc_char M (CHR ''.'')]),
      gdb_hexid M]"

section \<open>Commands\<close>

definition gdb_new_cmd :: "string \<Rightarrow> gdb_arg \<Rightarrow> gdb_command_t" where
  "gdb_new_cmd name arg = \<lparr>cmd_name = name, cmd_arg = arg\<rparr>"

text \<open>The function the macro \<^verbatim>\<open>gdbf_fold\<close> defines, for an argument that takes \<open>arity\<close> values.\<close>

definition gdbf_fold :: "nat \<Rightarrow> (mpc_val list \<Rightarrow> error + gdb_arg) \<Rightarrow> mpc_fold" where
  "gdbf_fold arity arg xs =
     (let n = length (filter (\<lambda>v. v \<noteq> VNull) xs) in
      if n = 0 then Inl (AssertFail ''n > 0'')
      else if n \<noteq> arity then Inl (AssertFail ''n == arity'')
      else case xs ! 0 of
        VStr name \<Rightarrow> map_sum id (\<lambda>a. VCmd (gdb_new_cmd name a)) (arg xs)
      | _ \<Rightarrow> Inl bad_pointer)"

definition gdbf_packet_h :: mpc_fold where
  "gdbf_packet_h = gdbf_fold 3 (\<lambda>xs. case (xs ! 1, xs ! 2) of
     (VStr (c # _), VThread t) \<Rightarrow> Inr (GDB_ARG_H c t) | _ \<Rightarrow> Inl bad_pointer)"

definition gdb_packet_h :: "'p mpc \<Rightarrow> 'p" where
  "gdb_packet_h M = mpc_and M gdbf_packet_h [mpc_char M (CHR ''H''), mpc_any M, gdb_thread_id M]"

definition gdbf_packet_p :: mpc_fold where
  "gdbf_packet_p = gdbf_fold 2 (\<lambda>xs. case xs ! 1 of VInt i \<Rightarrow> Inr (GDB_ARG_INT i) | _ \<Rightarrow> Inl bad_pointer)"

definition gdb_packet_p :: "'p mpc \<Rightarrow> 'p" where
  "gdb_packet_p M = mpc_and M gdbf_packet_p [mpc_char M (CHR ''p''), mpc_hex M]"

definition gdbf_vcont_action_fold :: mpc_fold where
  "gdbf_vcont_action_fold xs =
     (if length xs \<noteq> 2 then Inl (AssertFail ''n == 2'')
      else case (xs ! 0, xs ! 1) of
        (VStr actstr, VNull) \<Rightarrow> map_sum id (\<lambda>v. VVcont [v]) (gdbf_vcont_action actstr None)
      | (VStr actstr, VThread t) \<Rightarrow> map_sum id (\<lambda>v. VVcont [v]) (gdbf_vcont_action actstr (Some t))
      | _ \<Rightarrow> Inl bad_pointer)"

text \<open>The list of actions: each element is linked behind the one before it.\<close>

fun vcont_heads :: "mpc_val list \<Rightarrow> gdb_vcont_t list option" where
    "vcont_heads [] = Some []"
  | "vcont_heads (VVcont (v # _) # xs) = map_option ((#) v) (vcont_heads xs)"
  | "vcont_heads _ = None"

definition gdbf_vcont :: mpc_fold where
  "gdbf_vcont xs =
     (if xs = [] then Inl (AssertFail ''n >= 1'')
      else case vcont_heads xs of None \<Rightarrow> Inl bad_pointer | Some vs \<Rightarrow> Inr (VVcont vs))"

definition gdbf_packet_vcont :: mpc_fold where
  "gdbf_packet_vcont = gdbf_fold 2 (\<lambda>xs. case xs ! 1 of VVcont vs \<Rightarrow> Inr (GDB_ARG_VCONT vs) | _ \<Rightarrow> Inl bad_pointer)"

definition vcont_action :: "'p mpc \<Rightarrow> 'p" where
  "vcont_action M = mpc_and M gdbf_vcont_action_fold
     [mpc_or M [mpc_oneof M ''cst'', mpc_and M (mpcf_strfold M) [mpc_oneof M ''CS'', mpc_hexdigits M]],
      mpc_maybe M (mpc_and M (mpcf_snd_free M) [mpc_char M (CHR '':''), gdb_thread_id M])]"

definition gdb_packet_vcont :: "'p mpc \<Rightarrow> 'p" where
  "gdb_packet_vcont M = mpc_and M gdbf_packet_vcont [mpc_string M ''vCont'',
     mpc_many1 M gdbf_vcont (mpc_and M (mpcf_snd_free M) [mpc_char M (CHR '';''), vcont_action M])]"

definition gdbf_packet_m :: mpc_fold where
  "gdbf_packet_m = gdbf_fold 2 (\<lambda>xs. case xs ! 1 of VMem m \<Rightarrow> Inr (GDB_ARG_MEMORY m) | _ \<Rightarrow> Inl bad_pointer)"

definition gdb_packet_m :: "'p mpc \<Rightarrow> 'p" where
  "gdb_packet_m M = mpc_and M gdbf_packet_m [mpc_char M (CHR ''m''), gdb_memory M]"

definition gdbf_packet_M :: mpc_fold where
  "gdbf_packet_M = gdbf_fold 4 (\<lambda>xs. case (xs ! 1, xs ! 3) of
     (VMem m, VStr data) \<Rightarrow> Inr (GDB_ARG_MEMORYW m data) | _ \<Rightarrow> Inl bad_pointer)"

definition gdb_packet_M :: "'p mpc \<Rightarrow> 'p" where
  "gdb_packet_M M = mpc_and M gdbf_packet_M [mpc_char M (CHR ''M''), gdb_memory M, mpc_char M (CHR '':''), mpc_hexdigits M]"

definition gdb_arg_parser :: "'p mpc \<Rightarrow> 'p \<Rightarrow> 'p" where
  "gdb_arg_parser M par = mpc_and M (mpcf_fst_free M) [par, mpc_char M (CHR '','')]"

definition gdbf_packet_z :: mpc_fold where
  "gdbf_packet_z = gdbf_fold 4 (\<lambda>xs. case (xs ! 1, xs ! 2, xs ! 3) of
     (VInt type, VAddr a, VSize k) \<Rightarrow>
       if \<not> (0 \<le> type \<and> type \<le> 4) then Inl (AssertFail ''type >= GDB_ZKIND_SOFT && type <= GDB_ZKIND_WATCHA'')
       else Inr (GDB_ARG_BREAK \<lparr>bp_type = nat type, bp_address = a, bp_kind = k\<rparr>)
   | _ \<Rightarrow> Inl bad_pointer)"

definition gdb_packet_z :: "'p mpc \<Rightarrow> 'p" where
  "gdb_packet_z M = mpc_and M gdbf_packet_z
     [mpc_or M [mpc_char M (CHR ''z''), mpc_char M (CHR ''Z'')],
      gdb_arg_parser M (mpc_apply M (mpc_re M ''[0-4]'') (mpcf_int M)), gdb_arg_parser M (gdb_address M), gdb_uhex M]"

definition gdbf_packet_T :: mpc_fold where
  "gdbf_packet_T = gdbf_fold 2 (\<lambda>xs. case xs ! 1 of VThread t \<Rightarrow> Inr (GDB_ARG_THREAD t) | _ \<Rightarrow> Inl bad_pointer)"

definition gdb_packet_T :: "'p mpc \<Rightarrow> 'p" where
  "gdb_packet_T M = mpc_and M gdbf_packet_T [mpc_char M (CHR ''T''), gdb_thread_id M]"

definition gdbf_ignarg_fold :: "mpc_val \<Rightarrow> error + mpc_val" where
  "gdbf_ignarg_fold x = (case x of VStr s \<Rightarrow> Inr (VCmd (gdbf_ignarg s)) | _ \<Rightarrow> Inl bad_pointer)"

definition gdb_any :: "'p mpc \<Rightarrow> 'p" where
  "gdb_any M = mpc_apply M (mpc_many1 M (mpcf_strfold M) (mpc_any M)) gdbf_ignarg_fold"

definition gdb_cmd :: "'p mpc \<Rightarrow> 'p \<Rightarrow> 'p" where
  "gdb_cmd M cmd = mpc_and M (mpcf_fst_free M) [cmd, mpc_eoi M]"

definition gdb_parse_stage2 :: "'p mpc \<Rightarrow> 'p" where
  "gdb_parse_stage2 M = mpc_or M
     [gdb_cmd M (gdb_packet_h M), gdb_cmd M (gdb_packet_p M), gdb_cmd M (gdb_packet_vcont M), gdb_cmd M (gdb_packet_m M),
      gdb_cmd M (gdb_packet_M M), gdb_cmd M (gdb_packet_z M), gdb_cmd M (gdb_packet_T M), gdb_any M]"

text \<open>The parse of the second stage as \<^verbatim>\<open>gdb_parse_cmd\<close> uses it; an assertion in a fold ends the program.\<close>

definition stage2_parse :: "'p mpc \<Rightarrow> string \<Rightarrow> error + gdb_command_t option" where
  "stage2_parse M s = (case mpc_parse M (gdb_parse_stage2 M) s of
     Inl e \<Rightarrow> Inl e
   | Inr None \<Rightarrow> Inr None
   | Inr (Some v) \<Rightarrow> (case v of VCmd c \<Rightarrow> Inr (Some c) | _ \<Rightarrow> Inl bad_pointer))"

end
