(* ===== verification/Gdb_Laws.thy ===== *)
theory Gdb_Laws
  imports Gdb_Grammar
begin

text \<open>
  What the grammars rely on from \<^verbatim>\<open>mpc\<close> (the locale \<open>mpc_laws\<close>), the text of a command as a debugger sends it, and
  the result of parsing that text. The library backtracks: a parser that fails leaves the input as it was.
\<close>

section \<open>Parsers as functions\<close>

type_synonym 'v parse = "string \<Rightarrow> error + ('v \<times> string) option"

fun seq_run :: "('p \<Rightarrow> mpc_val parse) \<Rightarrow> 'p list \<Rightarrow> mpc_val list parse" where
    "seq_run run [] s = Inr (Some ([], s))"
  | "seq_run run (p # ps) s = (case run p s of
       Inl e \<Rightarrow> Inl e
     | Inr None \<Rightarrow> Inr None
     | Inr (Some (v, s')) \<Rightarrow> (case seq_run run ps s' of
           Inl e \<Rightarrow> Inl e
         | Inr None \<Rightarrow> Inr None
         | Inr (Some (vs, s'')) \<Rightarrow> Inr (Some (v # vs, s''))))"

fun first_run :: "('p \<Rightarrow> mpc_val parse) \<Rightarrow> 'p list \<Rightarrow> mpc_val parse" where
    "first_run run [] s = Inr None"
  | "first_run run (p # ps) s = (case run p s of Inl e \<Rightarrow> Inl e | Inr None \<Rightarrow> first_run run ps s | Inr (Some r) \<Rightarrow> Inr (Some r))"

fun many_run :: "mpc_val parse \<Rightarrow> nat \<Rightarrow> string \<Rightarrow> error + mpc_val list \<times> string" where
    "many_run p 0 s = Inr ([], s)"
  | "many_run p (Suc n) s = (case p s of
       Inl e \<Rightarrow> Inl e
     | Inr None \<Rightarrow> Inr ([], s)
     | Inr (Some (v, s')) \<Rightarrow> (case many_run p n s' of Inl e \<Rightarrow> Inl e | Inr (vs, s'') \<Rightarrow> Inr (v # vs, s'')))"

definition fold_run :: "mpc_fold \<Rightarrow> error + (mpc_val list \<times> string) option \<Rightarrow> error + (mpc_val \<times> string) option" where
  "fold_run f r = (case r of
     Inl e \<Rightarrow> Inl e
   | Inr None \<Rightarrow> Inr None
   | Inr (Some (vs, s)) \<Rightarrow> (case f vs of Inl e \<Rightarrow> Inl e | Inr v \<Rightarrow> Inr (Some (v, s))))"

definition char_run :: "(char \<Rightarrow> bool) \<Rightarrow> mpc_val parse" where
  "char_run P s = (case s of [] \<Rightarrow> Inr None | c # cs \<Rightarrow> if P c then Inr (Some (VStr [c], cs)) else Inr None)"

definition consuming :: "mpc_val parse \<Rightarrow> bool" where
  "consuming p \<longleftrightarrow> (\<forall>s v s'. p s = Inr (Some (v, s')) \<longrightarrow> length s' < length s)"

definition shrinking :: "mpc_val parse \<Rightarrow> bool" where
  "shrinking p \<longleftrightarrow> (\<forall>s v s'. p s = Inr (Some (v, s')) \<longrightarrow> length s' \<le> length s)"

definition is_hex :: "char \<Rightarrow> bool" where
  "is_hex c \<longleftrightarrow> hex_value c \<noteq> None"

section \<open>What the grammars rely on\<close>

locale mpc_laws =
  fixes M :: "'p mpc" and run :: "'p \<Rightarrow> mpc_val parse"
  assumes run_any: "run (mpc_any M) = char_run (\<lambda>_. True)"
    and run_char: "run (mpc_char M c) = char_run (\<lambda>x. x = c)"
    and run_oneof: "run (mpc_oneof M cs) = char_run (\<lambda>x. x \<in> set cs)"
    and run_noneof: "run (mpc_noneof M cs) = char_run (\<lambda>x. x \<notin> set cs)"
    and run_string: "run (mpc_string M t) s = (if take (length t) s = t then Inr (Some (VStr t, drop (length t) s)) else Inr None)"
    and run_re: "run (mpc_re M ''[0-4]'') = char_run (\<lambda>x. x \<in> set ''01234'')"
    and run_eoi: "run (mpc_eoi M) s = (if s = [] then Inr (Some (VNull, [])) else Inr None)"
    and run_hexdigits: "run (mpc_hexdigits M) s = (if takeWhile is_hex s = [] then Inr None
          else Inr (Some (VStr (takeWhile is_hex s), dropWhile is_hex s)))"
    and run_hex: "strtol16 0 (takeWhile is_hex s) < 2 ^ 31 \<Longrightarrow> run (mpc_hex M) s = (if takeWhile is_hex s = [] then Inr None
          else Inr (Some (VInt (int (strtol16 0 (takeWhile is_hex s))), dropWhile is_hex s)))"
    and run_hex_rest: "run (mpc_hex M) s = Inr (Some (v, s')) \<Longrightarrow> s' = dropWhile is_hex s"
    and run_expect: "run (mpc_expect M p msg) = run p"
    and run_apply: "run (mpc_apply M p g) s = (case run p s of
          Inl e \<Rightarrow> Inl e
        | Inr None \<Rightarrow> Inr None
        | Inr (Some (v, s')) \<Rightarrow> (case g v of Inl e \<Rightarrow> Inl e | Inr v' \<Rightarrow> Inr (Some (v', s'))))"
    and run_maybe: "run (mpc_maybe M p) s = (case run p s of Inl e \<Rightarrow> Inl e | Inr None \<Rightarrow> Inr (Some (VNull, s)) | Inr (Some r) \<Rightarrow> Inr (Some r))"
    and run_many: "consuming (run p) \<Longrightarrow> run (mpc_many M f p) s = fold_run f (map_sum id Some (many_run (run p) (length s) s))"
    and run_many1: "consuming (run p) \<Longrightarrow> run (mpc_many1 M f p) s = fold_run f
          (map_sum id (\<lambda>r. if fst r = [] then None else Some r) (many_run (run p) (length s) s))"
    and run_and: "run (mpc_and M f ps) s = fold_run f (seq_run run ps s)"
    and run_or: "run (mpc_or M ps) s = first_run run ps s"
    and strfold: "mpcf_strfold M (map VStr ss) = Inr (VStr (concat ss))"
    and fst_free: "mpcf_fst_free M (v # vs) = Inr v"
    and snd_free: "mpcf_snd_free M (u # v # vs) = Inr v"
    and int_digit: "c \<in> set ''0123456789'' \<Longrightarrow> mpcf_int M (VStr [c]) = Inr (VInt (int (of_char c) - 48))"
    and parse_string: "mpc_parse M p s = map_sum id (map_option fst) (run p s)"
    and parse_stream: "run p s = Inr (Some (v, s')) \<Longrightarrow> mpc_parse_pipe M p s = (Inr (Some v), s')"
    and parse_stream_fails: "run p s = Inr None \<Longrightarrow> \<exists>s'. mpc_parse_pipe M p s = (Inr None, s')"
    and run_predictive: "run (mpc_predictive M (gdb_parse_stage1 M)) s = run (gdb_parse_stage1 M) s"

section \<open>A parser library\<close>

text \<open>Parsers as functions on the input, the reading of the documentation of \<^verbatim>\<open>mpc\<close> that the laws record.\<close>

definition str_of :: "mpc_val \<Rightarrow> string" where
  "str_of v = (case v of VStr s \<Rightarrow> s | _ \<Rightarrow> [])"

definition fun_mpc :: "mpc_val parse mpc" where
  "fun_mpc = \<lparr>mpc_any = char_run (\<lambda>_. True), mpc_char = \<lambda>c. char_run (\<lambda>x. x = c), mpc_oneof = \<lambda>cs. char_run (\<lambda>x. x \<in> set cs),
     mpc_noneof = \<lambda>cs. char_run (\<lambda>x. x \<notin> set cs),
     mpc_string = \<lambda>t s. if take (length t) s = t then Inr (Some (VStr t, drop (length t) s)) else Inr None,
     mpc_re = \<lambda>r. char_run (\<lambda>x. x \<in> set ''01234''),
     mpc_eoi = \<lambda>s. if s = [] then Inr (Some (VNull, [])) else Inr None,
     mpc_hexdigits = \<lambda>s. if takeWhile is_hex s = [] then Inr None
       else Inr (Some (VStr (takeWhile is_hex s), dropWhile is_hex s)),
     mpc_hex = \<lambda>s. if takeWhile is_hex s = [] then Inr None
       else Inr (Some (VInt (int (strtol16 0 (takeWhile is_hex s))), dropWhile is_hex s)),
     mpc_expect = \<lambda>p msg. p,
     mpc_apply = \<lambda>p f s. (case p s of
          Inl e \<Rightarrow> Inl e
        | Inr None \<Rightarrow> Inr None
        | Inr (Some (v, s')) \<Rightarrow> (case f v of Inl e \<Rightarrow> Inl e | Inr v' \<Rightarrow> Inr (Some (v', s')))),
     mpc_maybe = \<lambda>p s. (case p s of Inl e \<Rightarrow> Inl e | Inr None \<Rightarrow> Inr (Some (VNull, s)) | Inr (Some r) \<Rightarrow> Inr (Some r)),
     mpc_many = \<lambda>f p s. fold_run f (map_sum id Some (many_run p (length s) s)),
     mpc_many1 = \<lambda>f p s. fold_run f (map_sum id (\<lambda>r. if fst r = [] then None else Some r) (many_run p (length s) s)),
     mpc_and = \<lambda>f ps s. fold_run f (seq_run (\<lambda>p. p) ps s), mpc_or = first_run (\<lambda>p. p), mpc_predictive = \<lambda>p. p,
     mpcf_strfold = \<lambda>vs. Inr (VStr (concat (map str_of vs))),
     mpcf_fst_free = \<lambda>vs. Inr (hd vs), mpcf_snd_free = \<lambda>vs. Inr (vs ! 1),
     mpcf_int = \<lambda>v. Inr (VInt (fold (\<lambda>c acc. 10 * acc + (int (of_char c) - 48)) (str_of v) 0)),
     mpc_parse = \<lambda>p s. map_sum id (map_option fst) (p s),
     mpc_parse_pipe = \<lambda>p s. (case p s of
        Inl e \<Rightarrow> (Inl e, s) | Inr None \<Rightarrow> (Inr None, s) | Inr (Some (v, s')) \<Rightarrow> (Inr (Some v), s'))\<rparr>"

interpretation fun_mpc: mpc_laws fun_mpc "\<lambda>p. p"
  by unfold_locales (auto simp: fun_mpc_def str_of_def comp_def split: if_splits)

section \<open>The text of a command\<close>

definition id_text :: "int \<Rightarrow> string" where
  "id_text i = (if i = - 1 then ''-1'' else hex_digits (nat i))"

definition thread_text :: "gdb_thread_t \<Rightarrow> string" where
  "thread_text t = (if thr_pid t = GDB_THREAD_UNSET then [] else ''p'' @ id_text (thr_pid t) @ ''.'') @ id_text (thr_tid t)"

definition action_text :: "gdb_vcont_t \<Rightarrow> string" where
  "action_text v = vc_action v #
     (if vc_sig v = - 1 then [] else [hex_digit (nat (vc_sig v) div 16), hex_digit (nat (vc_sig v) mod 16)]) @
     (if vc_thread v = \<lparr>thr_pid = GDB_THREAD_UNSET, thr_tid = GDB_THREAD_ALL\<rparr> then [] else '':'' @ thread_text (vc_thread v))"

definition memory_text :: "gdb_memory_t \<Rightarrow> string" where
  "memory_text m = hex_digits (unat (mem_addr m)) @ '','' @ hex_digits (unat (mem_length m))"

definition command_text :: "gdb_command_t \<Rightarrow> string" where
  "command_text c = (case cmd_arg c of
     GDB_ARG_NONE \<Rightarrow> cmd_name c
   | GDB_ARG_VCONT vs \<Rightarrow> ''vCont'' @ concat (map (\<lambda>v. '';'' @ action_text v) vs)
   | GDB_ARG_H op t \<Rightarrow> ''H'' @ [op] @ thread_text t
   | GDB_ARG_INT i \<Rightarrow> ''p'' @ hex_digits (nat i)
   | GDB_ARG_MEMORY m \<Rightarrow> ''m'' @ memory_text m
   | GDB_ARG_MEMORYW m d \<Rightarrow> ''M'' @ memory_text m @ '':'' @ d
   | GDB_ARG_BREAK b \<Rightarrow> cmd_name c @ [hex_digit (bp_type b)] @ '','' @ hex_digits (unat (bp_address b)) @ '','' @
       hex_digits (unat (bp_kind b))
   | GDB_ARG_THREAD t \<Rightarrow> ''T'' @ thread_text t)"

definition plain :: "char \<Rightarrow> bool" where
  "plain c \<longleftrightarrow> ascii c \<and> c \<notin> set ''#$*'' \<and> c \<noteq> GDB_ESCAPE_CHAR"

definition id_ok :: "int \<Rightarrow> bool" where
  "id_ok i \<longleftrightarrow> i = - 1 \<or> 0 \<le> i \<and> i < 2 ^ 31"

definition thread_ok :: "gdb_thread_t \<Rightarrow> bool" where
  "thread_ok t \<longleftrightarrow> id_ok (thr_tid t) \<and> (thr_pid t = GDB_THREAD_UNSET \<or> id_ok (thr_pid t))"

definition action_ok :: "gdb_vcont_t \<Rightarrow> bool" where
  "action_ok v \<longleftrightarrow> (vc_sig v = - 1 \<and> vc_action v \<in> set ''cst'' \<or> 0 \<le> vc_sig v \<and> vc_sig v < 256 \<and> vc_action v \<in> set ''CS'') \<and>
     thread_ok (vc_thread v)"

definition command_ok :: "gdb_command_t \<Rightarrow> bool" where
  "command_ok c \<longleftrightarrow> (case cmd_arg c of
     GDB_ARG_NONE \<Rightarrow> cmd_name c \<noteq> [] \<and> hd (cmd_name c) \<notin> set ''HpvmMzZT'' \<and>
       list_all (\<lambda>x. plain x \<and> x \<noteq> CHR '':'') (cmd_name c)
   | GDB_ARG_VCONT vs \<Rightarrow> cmd_name c = ''vCont'' \<and> vs \<noteq> [] \<and> list_all action_ok vs
   | GDB_ARG_H op t \<Rightarrow> cmd_name c = ''H'' \<and> plain op \<and> thread_ok t
   | GDB_ARG_INT i \<Rightarrow> cmd_name c = ''p'' \<and> 0 \<le> i \<and> i < 2 ^ 31
   | GDB_ARG_MEMORY m \<Rightarrow> cmd_name c = ''m''
   | GDB_ARG_MEMORYW m d \<Rightarrow> cmd_name c = ''M'' \<and> d \<noteq> [] \<and> list_all is_hex d
   | GDB_ARG_BREAK b \<Rightarrow> (cmd_name c = ''z'' \<or> cmd_name c = ''Z'') \<and> bp_type b \<le> 4
   | GDB_ARG_THREAD t \<Rightarrow> cmd_name c = ''T'' \<and> thread_ok t)"

section \<open>Hexadecimal numbers\<close>

lemma hex_digit_value: "d < 16 \<Longrightarrow> hex_value (hex_digit d) = Some d"
  by (auto simp: hex_digit_def hex_value_def of_char_code Let_def)

lemma is_hex_digit: "d < 16 \<Longrightarrow> is_hex (hex_digit d)"
  by (simp add: is_hex_def hex_digit_value)

lemma hex_digits_hex: "list_all is_hex (hex_digits n)"
  by (induction n rule: hex_digits.induct) (subst hex_digits.simps, simp add: is_hex_digit)

lemma hex_digits_nonempty [simp]: "hex_digits n \<noteq> []"
  by (subst hex_digits.simps) simp

lemma strtol16_append: "list_all is_hex xs \<Longrightarrow> strtol16 acc (xs @ ys) = strtol16 (strtol16 acc xs) ys"
  by (induction xs arbitrary: acc) (auto simp: is_hex_def)

lemma strtol16_hex_digits: "strtol16 0 (hex_digits n) = n"
proof (induction n rule: hex_digits.induct)
  case (1 n)
  then show ?case
    by (subst hex_digits.simps) (simp add: strtol16_append hex_digits_hex hex_digit_value)
qed

definition stop :: "string \<Rightarrow> bool" where
  "stop s \<longleftrightarrow> (case s of [] \<Rightarrow> True | c # _ \<Rightarrow> \<not> is_hex c)"

lemma stop_simps [simp]: "stop []" "stop (c # cs) \<longleftrightarrow> \<not> is_hex c"
  by (simp_all add: stop_def)

lemma hex_prefix: "list_all is_hex ds \<Longrightarrow> stop rest \<Longrightarrow> takeWhile is_hex (ds @ rest) = ds \<and> dropWhile is_hex (ds @ rest) = rest"
  by (induction ds) (auto split: list.splits simp: stop_def)

lemma char_run_simps [simp]:
  "char_run P [] = Inr None" "char_run P (c # cs) = (if P c then Inr (Some (VStr [c], cs)) else Inr None)"
  by (simp_all add: char_run_def)

lemma separators [simp]: "\<not> is_hex (CHR '','')" "\<not> is_hex (CHR '':'')" "\<not> is_hex (CHR '';'')" "\<not> is_hex (CHR ''.'')"
  "\<not> is_hex (CHR ''-'')" "\<not> is_hex (CHR ''p'')"
  by (simp_all add: is_hex_def hex_value_def)

lemma consuming_char: "consuming (char_run P)"
  by (auto simp: consuming_def char_run_def split: list.splits if_splits)

lemma sscanf_digits: "n < 2 ^ 64 \<Longrightarrow> sscanf_x64 (hex_digits n) = Inr (word_of_nat n)"
  using hex_digits_hex [of n] strtol16_hex_digits [of n]
  by (cases "hex_digits n") (auto simp: sscanf_x64_def is_hex_def)

lemma id_first: "id_ok i \<Longrightarrow> hd (id_text i @ rest) \<noteq> CHR ''p'' \<and> id_text i \<noteq> []"
proof -
  assume "id_ok i"
  have "is_hex (hd (hex_digits (nat i)))" using hex_digits_hex [of "nat i"] by (cases "hex_digits (nat i)") auto
  then show ?thesis by (cases "hex_digits (nat i)") (auto simp: id_text_def)
qed

section \<open>Parsing the text\<close>

context mpc_laws
begin

lemmas char_laws = run_any run_char run_oneof run_noneof run_re
lemmas combinators = run_and run_or run_apply run_maybe run_expect fold_run_def fst_free snd_free

lemma run_digits: "list_all is_hex ds \<Longrightarrow> ds \<noteq> [] \<Longrightarrow> stop rest \<Longrightarrow> run (mpc_hexdigits M) (ds @ rest) = Inr (Some (VStr ds, rest))"
  by (simp add: run_hexdigits hex_prefix)

lemma run_hex_digits: "n < 2 ^ 31 \<Longrightarrow> stop rest \<Longrightarrow> run (mpc_hex M) (hex_digits n @ rest) = Inr (Some (VInt (int n), rest))"
  by (subst run_hex) (simp_all add: hex_prefix hex_digits_hex strtol16_hex_digits)

lemma run_address: "stop rest \<Longrightarrow> run (gdb_address M) (hex_digits (unat a) @ rest) = Inr (Some (VAddr a, rest))"
  using unsigned_less [of a, where 'a = nat]
  by (simp add: gdb_address_def run_expect run_apply run_digits hex_digits_hex gdbf_address_def sscanf_digits)

lemma run_uhex: "stop rest \<Longrightarrow> run (gdb_uhex M) (hex_digits (unat a) @ rest) = Inr (Some (VSize a, rest))"
  using unsigned_less [of a, where 'a = nat]
  by (simp add: gdb_uhex_def run_apply run_digits hex_digits_hex gdbf_uhex_def sscanf_digits)

lemma run_hexid:
  assumes "id_ok i" "stop rest"
  shows "run (gdb_hexid M) (id_text i @ rest) = Inr (Some (VInt i, rest))"
proof (cases "i = - 1")
  case True
  have "run (mpc_hex M) (CHR ''-'' # CHR ''1'' # rest) = Inr None" by (subst run_hex) simp_all
  with True show ?thesis by (simp add: gdb_hexid_def id_text_def run_or run_apply run_string gdbf_negative_def)
next
  case False
  with assms have "0 \<le> i" "nat i < 2 ^ 31" by (auto simp: id_ok_def)
  with False assms(2) run_hex_digits [of "nat i" rest] show ?thesis by (simp add: gdb_hexid_def id_text_def run_or)
qed

lemma run_thread:
  assumes "thread_ok t" "stop rest"
  shows "run (gdb_thread_id M) (thread_text t @ rest) = Inr (Some (VThread t, rest))"
proof (cases "thr_pid t = GDB_THREAD_UNSET")
  case True
  have tid: "id_ok (thr_tid t)" using assms(1) by (simp add: thread_ok_def)
  obtain c cs where c: "id_text (thr_tid t) @ rest = c # cs" "c \<noteq> CHR ''p''"
    using id_first [OF tid, of rest] by (cases "id_text (thr_tid t) @ rest") auto
  have "run (mpc_maybe M (mpc_and M (mpcf_snd_free M) [mpc_char M CHR ''p'', gdb_hexid M, mpc_char M CHR ''.'']))
      (id_text (thr_tid t) @ rest) = Inr (Some (VNull, id_text (thr_tid t) @ rest))"
    using c(2) unfolding c(1) by (simp add: combinators run_char)
  with True run_hexid [OF tid assms(2)] show ?thesis
    by (simp add: gdb_thread_id_def thread_text_def run_and fold_run_def gdbf_thread_id_fold_def gdbf_thread_id_def)
next
  case False
  then have ids: "id_ok (thr_tid t)" "id_ok (thr_pid t)" using assms(1) by (simp_all add: thread_ok_def)
  have "run (mpc_maybe M (mpc_and M (mpcf_snd_free M) [mpc_char M CHR ''p'', gdb_hexid M, mpc_char M CHR ''.'']))
      (thread_text t @ rest) = Inr (Some (VInt (thr_pid t), id_text (thr_tid t) @ rest))"
    using run_hexid [OF ids(2), of "CHR ''.'' # id_text (thr_tid t) @ rest"] False
    by (simp add: combinators run_char thread_text_def)
  with run_hexid [OF ids(1) assms(2)] show ?thesis
    by (simp add: gdb_thread_id_def run_and fold_run_def gdbf_thread_id_fold_def gdbf_thread_id_def)
qed

lemma run_memory: "stop rest \<Longrightarrow> run (gdb_memory M) (memory_text m @ rest) = Inr (Some (VMem m, rest))"
  by (simp add: gdb_memory_def memory_text_def combinators run_address run_uhex run_char gdbf_memory_fold_def gdbf_memory_def)

text \<open>Every parser of the grammar only ever drops a prefix of its input.\<close>

lemma shrinking_char: "shrinking (char_run P)"
  by (auto simp: shrinking_def char_run_def split: list.splits if_splits)

lemma shrinking_hex: "shrinking (run (mpc_hexdigits M))" "shrinking (run (mpc_hex M))"
  using length_dropWhile_le [of is_hex] run_hex_rest
  by (fastforce simp: shrinking_def run_hexdigits split: if_splits)+

lemma shrinking_seq:
  assumes "list_all (\<lambda>p. shrinking (run p)) ps" and "seq_run run ps s = Inr (Some (vs, s'))"
  shows "length s' \<le> length s"
  using assms
proof (induction ps arbitrary: s vs)
  case (Cons p ps)
  from Cons.prems obtain v s1 vs1 where r: "run p s = Inr (Some (v, s1))" "seq_run run ps s1 = Inr (Some (vs1, s'))"
    by (auto split: sum.splits option.splits)
  then have "length s1 \<le> length s" using Cons.prems(1) by (auto simp: shrinking_def)
  with Cons.IH [OF _ r(2)] Cons.prems(1) show ?case by simp
qed simp

lemma shrinking_and: "list_all (\<lambda>p. shrinking (run p)) ps \<Longrightarrow> shrinking (run (mpc_and M f ps))"
  unfolding shrinking_def [of "run (mpc_and M f ps)"]
  by (auto simp: run_and fold_run_def split: sum.splits option.splits dest: shrinking_seq)

lemma shrinking_or: "list_all (\<lambda>p. shrinking (run p)) ps \<Longrightarrow> shrinking (run (mpc_or M ps))"
  unfolding shrinking_def [of "run (mpc_or M ps)"] run_or
  by (induction ps) (auto simp: shrinking_def split: sum.splits option.splits)

lemma shrinking_maybe: "shrinking (run p) \<Longrightarrow> shrinking (run (mpc_maybe M p))"
  by (auto simp: shrinking_def run_maybe split: sum.splits option.splits)

lemma shrinking_apply: "shrinking (run p) \<Longrightarrow> shrinking (run (mpc_apply M p f))"
  by (auto simp: shrinking_def run_apply split: sum.splits option.splits)

lemma shrinking_string: "shrinking (run (mpc_string M t))"
  by (auto simp: shrinking_def run_string)

lemmas shrinking_rules = shrinking_char shrinking_hex shrinking_and shrinking_or shrinking_maybe shrinking_apply shrinking_string

lemma consuming_and:
  assumes "consuming (run p)" "list_all (\<lambda>p. shrinking (run p)) ps"
  shows "consuming (run (mpc_and M f (p # ps)))"
  unfolding consuming_def
proof (intro allI impI)
  fix s v s' assume r: "run (mpc_and M f (p # ps)) s = Inr (Some (v, s'))"
  then obtain u s1 us where "run p s = Inr (Some (u, s1))" "seq_run run ps s1 = Inr (Some (us, s'))"
    by (auto simp: run_and fold_run_def split: sum.splits option.splits)
  then show "length s' < length s"
    using assms(1) shrinking_seq [OF assms(2)] unfolding consuming_def by (meson order.strict_trans1)
qed

lemma thread_shrinking: "shrinking (run (gdb_thread_id M))"
  unfolding gdb_thread_id_def gdb_hexid_def
  by (intro shrinking_rules) (simp add: shrinking_rules run_char)

lemma action_shrinking: "shrinking (run (vcont_action M))"
  unfolding vcont_action_def
  by (intro shrinking_rules) (simp add: shrinking_rules run_char run_oneof thread_shrinking)

section \<open>Actions\<close>

lemma strtol16_two: "n < 256 \<Longrightarrow> strtol16 0 [hex_digit (n div 16), hex_digit (n mod 16)] = n"
  by (simp add: hex_digit_value less_mult_imp_div_less)

lemma run_action:
  assumes "action_ok v" "rest = [] \<or> hd rest = CHR '';''"
  shows "run (vcont_action M) (action_text v @ rest) = Inr (Some (VVcont [v], rest))"
proof -
  let ?th = "if vc_thread v = \<lparr>thr_pid = GDB_THREAD_UNSET, thr_tid = GDB_THREAD_ALL\<rparr> then [] else '':'' @ thread_text (vc_thread v)"
  let ?sig = "if vc_sig v = - 1 then [] else [hex_digit (nat (vc_sig v) div 16), hex_digit (nat (vc_sig v) mod 16)]"
  have st: "stop (?th @ rest)" "stop rest" using assms(2) by (cases rest; auto)+
  have act: "run (mpc_or M [mpc_oneof M ''cst'', mpc_and M (mpcf_strfold M) [mpc_oneof M ''CS'', mpc_hexdigits M]])
      (vc_action v # ?sig @ ?th @ rest) = Inr (Some (VStr (vc_action v # ?sig), ?th @ rest))"
  proof (cases "vc_sig v = - 1")
    case True
    with assms(1) show ?thesis by (auto simp: action_ok_def run_or run_oneof)
  next
    case False
    with assms(1) have sig: "0 \<le> vc_sig v" "vc_sig v < 256" "vc_action v \<in> set ''CS''" by (auto simp: action_ok_def)
    then have "nat (vc_sig v) div 16 < 16" by (simp add: less_mult_imp_div_less nat_less_iff)
    then have "run (mpc_hexdigits M) (?sig @ ?th @ rest) = Inr (Some (VStr ?sig, ?th @ rest))"
      using False st by (intro run_digits) (simp_all add: is_hex_digit)
    moreover have "vc_action v \<notin> set ''cst''" using sig(3) by auto
    moreover have "mpcf_strfold M [VStr [vc_action v], VStr ?sig] = Inr (VStr (vc_action v # ?sig))"
      using strfold [of "[[vc_action v], ?sig]"] by simp
    ultimately show ?thesis using sig(3) by (simp add: run_or run_oneof run_and fold_run_def)
  qed
  have th: "run (mpc_maybe M (mpc_and M (mpcf_snd_free M) [mpc_char M (CHR '':''), gdb_thread_id M])) (?th @ rest) =
      Inr (Some (if vc_thread v = \<lparr>thr_pid = GDB_THREAD_UNSET, thr_tid = GDB_THREAD_ALL\<rparr> then VNull else VThread (vc_thread v), rest))"
    using assms run_thread [OF _ st(2), of "vc_thread v"]
    by (cases rest) (auto simp: combinators run_char action_ok_def)
  have "gdbf_vcont_action (vc_action v # ?sig) t = Inr \<lparr>vc_action = vc_action v, vc_sig = vc_sig v,
      vc_thread = (case t of Some t \<Rightarrow> t | None \<Rightarrow> \<lparr>thr_pid = GDB_THREAD_UNSET, thr_tid = GDB_THREAD_ALL\<rparr>)\<rparr>" for t
    using assms(1) strtol16_two [of "nat (vc_sig v)"] by (auto simp: gdbf_vcont_action_def action_ok_def nat_less_iff)
  with act th show ?thesis
    by (auto simp: vcont_action_def run_and fold_run_def action_text_def gdbf_vcont_action_fold_def)
qed

lemma run_actions:
  assumes "list_all action_ok vs" and "length (concat (map (\<lambda>v. '';'' @ action_text v) vs)) \<le> n"
  shows "many_run (run (mpc_and M (mpcf_snd_free M) [mpc_char M (CHR '';''), vcont_action M])) n
      (concat (map (\<lambda>v. '';'' @ action_text v) vs)) = Inr (map (\<lambda>v. VVcont [v]) vs, [])"
  using assms
proof (induction vs arbitrary: n)
  case Nil
  then show ?case by (cases n) (simp_all add: run_and fold_run_def run_char)
next
  case (Cons v vs)
  let ?rest = "concat (map (\<lambda>v. '';'' @ action_text v) vs)"
  obtain k where n: "n = Suc k" using Cons.prems(2) by (cases n) simp_all
  have "?rest = [] \<or> hd ?rest = CHR '';''" by (cases vs) simp_all
  with Cons.prems(1) have "run (vcont_action M) (action_text v @ ?rest) = Inr (Some (VVcont [v], ?rest))"
    by (intro run_action) simp_all
  moreover have "many_run (run (mpc_and M (mpcf_snd_free M) [mpc_char M (CHR '';''), vcont_action M])) k ?rest =
      Inr (map (\<lambda>v. VVcont [v]) vs, [])"
    using Cons.prems n by (intro Cons.IH) simp_all
  moreover have "run (mpc_and M (mpcf_snd_free M) [mpc_char M (CHR '';''), vcont_action M]) (CHR '';'' # action_text v @ ?rest) =
      Inr (Some (VVcont [v], ?rest))"
    using calculation(1) by (simp add: run_and fold_run_def run_char snd_free)
  ultimately show ?case by (simp add: n)
qed

lemma vcont_heads_single: "vcont_heads (map (\<lambda>v. VVcont [v]) vs) = Some vs"
  by (induction vs) simp_all

section \<open>Commands\<close>

lemma run_whole_command:
  "run p s = Inr (Some (v, [])) \<Longrightarrow> run (gdb_cmd M p) s = Inr (Some (v, []))"
  "run p s = Inr None \<Longrightarrow> run (gdb_cmd M p) s = Inr None"
  by (simp_all add: gdb_cmd_def run_and fold_run_def run_eoi fst_free)

lemma other_command:
  "c \<noteq> CHR ''H'' \<Longrightarrow> run (gdb_cmd M (gdb_packet_h M)) (c # cs) = Inr None"
  "c \<noteq> CHR ''p'' \<Longrightarrow> run (gdb_cmd M (gdb_packet_p M)) (c # cs) = Inr None"
  "c \<noteq> CHR ''v'' \<Longrightarrow> run (gdb_cmd M (gdb_packet_vcont M)) (c # cs) = Inr None"
  "c \<noteq> CHR ''m'' \<Longrightarrow> run (gdb_cmd M (gdb_packet_m M)) (c # cs) = Inr None"
  "c \<noteq> CHR ''M'' \<Longrightarrow> run (gdb_cmd M (gdb_packet_M M)) (c # cs) = Inr None"
  "c \<noteq> CHR ''z'' \<Longrightarrow> c \<noteq> CHR ''Z'' \<Longrightarrow> run (gdb_cmd M (gdb_packet_z M)) (c # cs) = Inr None"
  "c \<noteq> CHR ''T'' \<Longrightarrow> run (gdb_cmd M (gdb_packet_T M)) (c # cs) = Inr None"
  by (intro run_whole_command; simp add: gdb_packet_h_def gdb_packet_p_def gdb_packet_vcont_def gdb_packet_m_def
      gdb_packet_M_def gdb_packet_z_def gdb_packet_T_def run_and run_or fold_run_def run_char run_string)+

lemma many_any: "many_run (char_run (\<lambda>_. True)) (length s) s = Inr (map (\<lambda>c. VStr [c]) s, [])"
  by (induction s) simp_all

lemma run_gdb_any:
  assumes "s \<noteq> []" "CHR '':'' \<notin> set s"
  shows "run (gdb_any M) s = Inr (Some (VCmd \<lparr>cmd_name = s, cmd_arg = GDB_ARG_NONE\<rparr>, []))"
proof -
  have "mpcf_strfold M (map (\<lambda>c. VStr [c]) s) = Inr (VStr s)"
    using strfold [of "map (\<lambda>c. [c]) s"] by (simp add: comp_def)
  moreover have "takeWhile (\<lambda>c. c \<noteq> CHR '':'') s = s" using assms(2) by (auto simp: takeWhile_eq_all_conv)
  ultimately show ?thesis
    using assms(1)
    by (simp add: gdb_any_def run_apply run_many1 run_any consuming_char many_any fold_run_def gdbf_ignarg_fold_def gdbf_ignarg_def)
qed

lemma run_packets:
  "plain op \<Longrightarrow> thread_ok t \<Longrightarrow> run (gdb_packet_h M) (''H'' @ [op] @ thread_text t) = Inr (Some (VCmd (gdb_new_cmd ''H'' (GDB_ARG_H op t)), []))"
  "0 \<le> i \<Longrightarrow> i < 2 ^ 31 \<Longrightarrow> run (gdb_packet_p M) (''p'' @ hex_digits (nat i)) = Inr (Some (VCmd (gdb_new_cmd ''p'' (GDB_ARG_INT i)), []))"
  "run (gdb_packet_m M) (''m'' @ memory_text m) = Inr (Some (VCmd (gdb_new_cmd ''m'' (GDB_ARG_MEMORY m)), []))"
  "d \<noteq> [] \<Longrightarrow> list_all is_hex d \<Longrightarrow> run (gdb_packet_M M) (''M'' @ memory_text m @ '':'' @ d) =
     Inr (Some (VCmd (gdb_new_cmd ''M'' (GDB_ARG_MEMORYW m d)), []))"
  "thread_ok t \<Longrightarrow> run (gdb_packet_T M) (''T'' @ thread_text t) = Inr (Some (VCmd (gdb_new_cmd ''T'' (GDB_ARG_THREAD t)), []))"
  using run_thread [of t "[]"] run_hex_digits [of "nat i" "[]"] run_memory [of "[]" m] run_memory [of "'':'' @ d" m] run_digits [of d "[]"]
  by (simp_all add: gdb_packet_h_def gdb_packet_p_def gdb_packet_m_def gdb_packet_M_def gdb_packet_T_def gdbf_packet_h_def
      gdbf_packet_p_def gdbf_packet_m_def gdbf_packet_M_def gdbf_packet_T_def gdbf_fold_def run_and fold_run_def run_char run_any nat_less_iff)

lemma run_vcont:
  assumes "vs \<noteq> []" "list_all action_ok vs"
  shows "run (gdb_packet_vcont M) (''vCont'' @ concat (map (\<lambda>v. '';'' @ action_text v) vs)) =
    Inr (Some (VCmd (gdb_new_cmd ''vCont'' (GDB_ARG_VCONT vs)), []))"
proof -
  have c: "consuming (run (mpc_and M (mpcf_snd_free M) [mpc_char M (CHR '';''), vcont_action M]))"
    by (intro consuming_and) (simp_all add: run_char consuming_char action_shrinking)
  show ?thesis
    using assms run_actions [OF assms(2) order_refl]
    by (simp add: gdb_packet_vcont_def run_and fold_run_def run_string run_many1 [OF c] gdbf_vcont_def vcont_heads_single
        gdbf_packet_vcont_def gdbf_fold_def)
qed

lemma hex_digit_small: "hex_digit 0 = CHR ''0''" "hex_digit 1 = CHR ''1''" "hex_digit 2 = CHR ''2''" "hex_digit 3 = CHR ''3''"
  "hex_digit 4 = CHR ''4''"
  by code_simp+

lemma run_breakpoint:
  assumes "bp_type b \<le> 4" "n = CHR ''z'' \<or> n = CHR ''Z''"
  shows "run (gdb_packet_z M) ([n] @ [hex_digit (bp_type b)] @ '','' @ hex_digits (unat (bp_address b)) @ '','' @ hex_digits (unat (bp_kind b))) =
    Inr (Some (VCmd (gdb_new_cmd [n] (GDB_ARG_BREAK b)), []))"
proof -
  have "bp_type b \<in> {0, 1, 2, 3, 4}" using assms(1) by auto
  then have d: "hex_digit (bp_type b) \<in> set ''01234''" "int (of_char (hex_digit (bp_type b))) - 48 = int (bp_type b)"
    by (auto simp only: insert_iff empty_iff simp_thms hex_digit_small) simp_all
  then have "hex_digit (bp_type b) \<in> set ''0123456789''" by auto
  from int_digit [OF this] d(2) have i: "mpcf_int M (VStr [hex_digit (bp_type b)]) = Inr (VInt (int (bp_type b)))" by simp
  have b: "\<lparr>bp_type = bp_type b, bp_address = bp_address b, bp_kind = bp_kind b\<rparr> = b" by simp
  show ?thesis
    using assms d(1) i run_address [of "'','' @ hex_digits (unat (bp_kind b))" "bp_address b"] run_uhex [of "[]" "bp_kind b"]
    by (auto simp: gdb_packet_z_def gdb_arg_parser_def run_and run_or run_apply run_re fold_run_def run_char fst_free
        gdbf_packet_z_def gdbf_fold_def b)
qed

lemma new_cmd_simps [simp]: "cmd_name (gdb_new_cmd n a) = n" "cmd_arg (gdb_new_cmd n a) = a"
  by (simp_all add: gdb_new_cmd_def)

lemma run_stage2:
  assumes "command_ok c"
  shows "run (gdb_parse_stage2 M) (command_text c) = Inr (Some (VCmd c, []))"
proof (cases "cmd_arg c")
  case GDB_ARG_NONE
  then obtain x xs where x: "cmd_name c = x # xs" using assms by (cases "cmd_name c") (auto simp: command_ok_def)
  moreover have "x \<notin> set ''HpvmMzZT''" using assms by (simp add: command_ok_def GDB_ARG_NONE x)
  moreover have "CHR '':'' \<notin> set (x # xs)"
    using assms unfolding command_ok_def GDB_ARG_NONE x by (simp add: list_all_iff) blast
  then have "run (gdb_any M) (x # xs) = Inr (Some (VCmd \<lparr>cmd_name = x # xs, cmd_arg = GDB_ARG_NONE\<rparr>, []))"
    by (intro run_gdb_any) simp_all
  moreover have "c = \<lparr>cmd_name = x # xs, cmd_arg = GDB_ARG_NONE\<rparr>" using GDB_ARG_NONE calculation(1) by simp
  ultimately show ?thesis
    using GDB_ARG_NONE by (simp add: command_text_def gdb_parse_stage2_def run_or other_command)
next
  case (GDB_ARG_VCONT vs)
  with assms have ok: "vs \<noteq> []" "list_all action_ok vs" and c: "c = gdb_new_cmd ''vCont'' (GDB_ARG_VCONT vs)"
    by (simp_all add: command_ok_def gdb_new_cmd_def)
  from run_whole_command(1) [OF run_vcont [OF ok]] show ?thesis
    by (simp add: c command_text_def gdb_parse_stage2_def run_or other_command)
next
  case (GDB_ARG_H op t)
  with assms have ok: "plain op" "thread_ok t" and c: "c = gdb_new_cmd ''H'' (GDB_ARG_H op t)"
    by (simp_all add: command_ok_def gdb_new_cmd_def)
  from run_whole_command(1) [OF run_packets(1) [OF ok]] show ?thesis
    by (simp add: c command_text_def gdb_parse_stage2_def run_or other_command)
next
  case (GDB_ARG_INT i)
  with assms have ok: "0 \<le> i" "i < 2 ^ 31" and c: "c = gdb_new_cmd ''p'' (GDB_ARG_INT i)"
    by (simp_all add: command_ok_def gdb_new_cmd_def)
  from run_whole_command(1) [OF run_packets(2) [OF ok]] show ?thesis
    by (simp add: c command_text_def gdb_parse_stage2_def run_or other_command)
next
  case (GDB_ARG_MEMORY m)
  with assms have c: "c = gdb_new_cmd ''m'' (GDB_ARG_MEMORY m)" by (simp add: command_ok_def gdb_new_cmd_def)
  from run_whole_command(1) [OF run_packets(3)] show ?thesis
    by (simp add: c command_text_def gdb_parse_stage2_def run_or other_command)
next
  case (GDB_ARG_MEMORYW m d)
  with assms have ok: "d \<noteq> []" "list_all is_hex d" and c: "c = gdb_new_cmd ''M'' (GDB_ARG_MEMORYW m d)"
    by (simp_all add: command_ok_def gdb_new_cmd_def)
  from run_whole_command(1) [OF run_packets(4) [OF ok, of m]] show ?thesis
    by (simp add: c command_text_def gdb_parse_stage2_def run_or other_command)
next
  case (GDB_ARG_BREAK b)
  with assms obtain n where ok: "bp_type b \<le> 4" "n = CHR ''z'' \<or> n = CHR ''Z''" and c: "c = gdb_new_cmd [n] (GDB_ARG_BREAK b)"
    unfolding command_ok_def gdb_new_cmd_def by (cases c) auto
  from run_whole_command(1) [OF run_breakpoint [OF ok]] ok(2) show ?thesis
    by (elim disjE) (simp_all add: c command_text_def gdb_parse_stage2_def run_or other_command)
next
  case (GDB_ARG_THREAD t)
  with assms have ok: "thread_ok t" and c: "c = gdb_new_cmd ''T'' (GDB_ARG_THREAD t)"
    by (simp_all add: command_ok_def gdb_new_cmd_def)
  from run_whole_command(1) [OF run_packets(5) [OF ok]] show ?thesis
    by (simp add: c command_text_def gdb_parse_stage2_def run_or other_command)
qed

section \<open>Packets on the stream\<close>

lemma many_char:
  assumes "list_all P d" "rest = [] \<or> \<not> P (hd rest)" "length d \<le> n"
  shows "many_run (char_run P) n (d @ rest) = Inr (map (\<lambda>c. VStr [c]) d, rest)"
  using assms
proof (induction d arbitrary: n)
  case Nil
  then show ?case by (cases n; cases rest) auto
next
  case (Cons c d)
  then show ?case by (cases n) simp_all
qed

lemma run_csum: "length csum = 2 \<Longrightarrow> run (gdb_csum M) (CHR ''#'' # csum @ rest) = Inr (Some (VStr (CHR ''#'' # csum), rest))"
proof -
  assume "length csum = 2"
  then obtain a b where "csum = [a, b]" by (auto simp: numeral_2_eq_2 length_Suc_conv)
  then show ?thesis
    using strfold [of "[[a], [b]]"] strfold [of "[''#'', [a, b]]"] by (simp add: gdb_csum_def run_and fold_run_def run_char run_any)
qed

lemma run_data:
  assumes "list_all (\<lambda>c. c \<notin> set cs) d" and "CHR ''#'' \<in> set cs"
  shows "run (mpc_many M (mpcf_strfold M) (mpc_noneof M cs)) (d @ CHR ''#'' # rest) = Inr (Some (VStr d, CHR ''#'' # rest))"
proof -
  have "mpcf_strfold M (map (\<lambda>c. VStr [c]) d) = Inr (VStr d)"
    using strfold [of "map (\<lambda>c. [c]) d"] by (simp add: comp_def)
  then show ?thesis
    using assms many_char [of "\<lambda>c. c \<notin> set cs" d "CHR ''#'' # rest" "length (d @ CHR ''#'' # rest)"]
    by (simp add: run_many run_noneof consuming_char fold_run_def)
qed

lemma run_stage1:
  assumes "list_all (\<lambda>c. c \<notin> set ''#$'') d" "length csum = 2"
  shows "run (gdb_parse_stage1 M) (CHR ''$'' # d @ CHR ''#'' # csum @ rest) =
    Inr (Some (VPkt \<lparr>pkt_kind = GDB_KIND_PACKET, pkt_data = Some d, pkt_csum = csum\<rparr>, rest))"
  using run_data [OF assms(1), of "csum @ rest"] run_csum [OF assms(2), of rest] assms(2)
  by (simp add: gdb_parse_stage1_def run_or gdb_acknowledge_def run_apply run_oneof gdb_packet_def run_and fold_run_def run_char
      gdbf_packet_def)

end

section \<open>Characters of a command\<close>

lemma hex_plain: "is_hex c \<Longrightarrow> plain c"
  by (auto simp: is_hex_def plain_def ascii_def hex_value_def Let_def split: if_splits)

lemma hex_list_plain: "list_all is_hex d \<Longrightarrow> list_all plain d"
  by (auto simp: list_all_iff hex_plain)

lemma literal_plain [simp]:
  "plain (CHR ''p'')" "plain (CHR ''.'')" "plain (CHR ''-'')" "plain (CHR ''1'')" "plain (CHR '':'')" "plain (CHR '';'')"
  "plain (CHR '','')" "plain (CHR ''H'')" "plain (CHR ''T'')" "plain (CHR ''m'')" "plain (CHR ''M'')" "plain (CHR ''z'')"
  "plain (CHR ''Z'')" "plain (CHR ''v'')" "plain (CHR ''C'')" "plain (CHR ''o'')" "plain (CHR ''n'')" "plain (CHR ''t'')"
  "plain (CHR ''c'')" "plain (CHR ''s'')" "plain (CHR ''S'')"
  by (simp_all add: plain_def ascii_def)

lemma hex_digits_plain [simp]: "list_all plain (hex_digits n)" "d < 16 \<Longrightarrow> plain (hex_digit d)"
  by (simp_all add: hex_list_plain hex_digits_hex hex_plain is_hex_digit)

lemma thread_text_plain [simp]: "list_all plain (id_text i)" "list_all plain (thread_text t)"
  by (simp_all add: id_text_def thread_text_def)

lemma action_text_plain: "action_ok v \<Longrightarrow> list_all plain (action_text v)"
  by (auto simp: action_ok_def action_text_def less_mult_imp_div_less nat_less_iff)

lemma command_text_plain:
  assumes "command_ok c"
  shows "list_all plain (command_text c)"
proof (cases "cmd_arg c")
  case (GDB_ARG_VCONT vs)
  with assms have "list_all (list_all plain) (map (\<lambda>v. '';'' @ action_text v) vs)"
    by (auto simp: command_ok_def list_all_iff dest: action_text_plain [unfolded list_all_iff])
  with GDB_ARG_VCONT show ?thesis by (auto simp: command_text_def list_all_iff)
qed (use assms in \<open>auto simp: command_ok_def command_text_def memory_text_def hex_list_plain list_all_iff [of _ "cmd_name c"]\<close>)

lemma plain_decodes:
  assumes "list_all plain d"
  shows "gdb_decode_runlen d = Inr (Some d)" "gdb_unescape d = d" "list_all ascii d" "list_all (\<lambda>c. c \<notin> set ''#$'') d"
proof -
  have "run_encode (map (\<lambda>c. Run c 1) d) = d" "run_expand (map (\<lambda>c. Run c 1) d) = d"
    by (induction d) (simp_all add: run_encode_def run_expand_def comp_def)
  moreover have "list_all run_ok (map (\<lambda>c. Run c 1) d)" using assms by (induction d) (auto simp: run_ok_def plain_def)
  ultimately show "gdb_decode_runlen d = Inr (Some d)"
    using runlen_decode_encode [of "map (\<lambda>c. Run c 1) d" None] by (simp add: gdb_decode_runlen_def)
  have "concat (map gdb_escape_char d) = d" using assms by (induction d) (auto simp: gdb_escape_char_def plain_def)
  then show "gdb_unescape d = d" using unescape_escape [of d] by (simp add: gdb_unescape_def)
  show "list_all ascii d" "list_all (\<lambda>c. c \<notin> set ''#$'') d" using assms by (auto simp: list_all_iff plain_def)
qed

section \<open>Messages of a debugger\<close>

text \<open>What a debugger sends over a connection: acknowledgements and packets with a command.\<close>

datatype gdb_message = Ack | Nack | Command gdb_command_t

definition message_ok :: "gdb_message \<Rightarrow> bool" where
  "message_ok m = (case m of Command c \<Rightarrow> command_ok c | _ \<Rightarrow> True)"

definition message_text :: "gdb_message \<Rightarrow> string" where
  "message_text m = (case m of
     Ack \<Rightarrow> ''+'' | Nack \<Rightarrow> ''-''
   | Command c \<Rightarrow> ''$'' @ command_text c @ ''#'' @ printf_02x (calc_csum (command_text c)))"

definition message_packet :: "gdb_message \<Rightarrow> gdb_packet_t" where
  "message_packet m = (case m of
     Ack \<Rightarrow> \<lparr>pkt_kind = GDB_KIND_ACK, pkt_data = None, pkt_csum = replicate GDB_CSUM_LEN (CHR 0x00)\<rparr>
   | Nack \<Rightarrow> \<lparr>pkt_kind = GDB_KIND_NACK, pkt_data = None, pkt_csum = replicate GDB_CSUM_LEN (CHR 0x00)\<rparr>
   | Command c \<Rightarrow> \<lparr>pkt_kind = GDB_KIND_PACKET, pkt_data = Some (command_text c), pkt_csum = printf_02x (calc_csum (command_text c))\<rparr>)"

lemma command_serialized:
  assumes "command_ok c"
  shows "gdb_serialize GDB_KIND_PACKET (Some (command_text c)) = Inr (message_text (Command c))"
  using csum_length [OF plain_decodes(3) [OF command_text_plain [OF assms]]]
  by (simp add: gdb_serialize_def message_text_def Let_def)

context mpc_laws
begin

lemma parse_message:
  assumes "message_ok m"
  shows "gdb_parse_pkt M (message_text m @ rest) = (Inr (Some (message_packet m)), rest)"
proof -
  have "run (gdb_parse_stage1 M) (message_text m @ rest) = Inr (Some (VPkt (message_packet m), rest))"
  proof (cases m)
    case (Command c)
    note d = plain_decodes [OF command_text_plain, of c]
    show ?thesis
      using run_stage1 [OF d(4) csum_length [OF d(3)], of rest] assms Command
      by (simp add: message_text_def message_packet_def message_ok_def)
  qed (simp_all add: message_text_def message_packet_def gdb_parse_stage1_def run_or gdb_acknowledge_def run_apply run_oneof
      gdbf_acknowledge_def)
  from parse_stream [OF this [folded run_predictive]] show ?thesis by (simp add: gdb_parse_pkt_def)
qed

lemma parse_end: "\<exists>rest. gdb_parse_pkt M [] = (Inr None, rest)"
proof -
  have "run (gdb_parse_stage1 M) [] = Inr None"
    by (simp add: gdb_parse_stage1_def run_or gdb_acknowledge_def gdb_packet_def gdb_notification_def run_apply run_oneof run_and
        fold_run_def run_char)
  from parse_stream_fails [OF this [folded run_predictive]] show ?thesis by (auto simp: gdb_parse_pkt_def)
qed

lemma parse_command:
  assumes "command_ok c"
  shows "gdb_parse_cmd (stage2_parse M) (message_packet (Command c)) = Inr (Some c)"
proof -
  note d = plain_decodes [OF command_text_plain [OF assms]]
  show ?thesis
    using d(1,2) csum_length [OF d(3)] run_stage2 [OF assms]
    by (simp add: message_packet_def gdb_parse_cmd_def gdb_is_valid_def stage2_parse_def parse_string Let_def)
qed

end

end
