(* ===== verification/Gdb_Serve.thy ===== *)
theory Gdb_Serve
  imports Gdb_Server Gdb_Laws
begin

text \<open>
  The threads of the GDB server (\<^verbatim>\<open>core/common/gdb-mc/gdb_server.cpp\<close>). A host thread accepts connections and
  reads packets from them (\<^verbatim>\<open>serve\<close>, \<^verbatim>\<open>dispatch\<close>); the SystemC thread \<^verbatim>\<open>run\<close> handles them. They share the queue
  \<^verbatim>\<open>pktq\<close>, the event and a mutex that the first thread locks before it reads and the second unlocks after it
  has handled a packet. The steps of both threads are the relation \<open>gdb_step\<close>; \<open>gdb_reach\<close> is any interleaving
  of them. A notification of the event stays pending until \<^verbatim>\<open>run\<close> waits for it: \<^verbatim>\<open>AsyncEvent\<close> raises it in the
  update phase of the kernel. An exception or a failed assertion ends the program and has no step.
\<close>

section \<open>System calls\<close>

text \<open>The results of successive \<^verbatim>\<open>write\<close> calls are an argument; None when there are not enough of them.\<close>

fun writeall :: "int list \<Rightarrow> string \<Rightarrow> nat \<Rightarrow> (error + unit) option" where
    "writeall [] data w = None"
  | "writeall (ret # rets) data w =
      (if \<not> w \<le> length data then Some (Inl (AssertFail ''len >= (size_t)w''))
       else if ret < 0 then Some (Inl exn_system_error)
       else if w + nat ret < length data then writeall rets data (w + nat ret) else Some (Inr ()))"

record sock_calls =
  sock_fd :: int
  sock_nodelay :: bool
  sock_reuseport :: bool
  sock_bind :: bool
  sock_listen :: bool

text \<open>The descriptor, and the exception thrown otherwise; a descriptor that cannot be used is closed.\<close>

definition create_sock :: "sock_calls \<Rightarrow> error + int" where
  "create_sock c =
     (if sock_fd c = - 1 then Inl exn_system_error
      else if \<not> sock_nodelay c then Inl exn_system_error
      else if \<not> sock_reuseport c then Inl exn_system_error
      else if \<not> sock_bind c then Inl exn_system_error
      else if \<not> sock_listen c then Inl exn_system_error
      else Inr (sock_fd c))"

definition GDBServer_make ::
  "'s gdb_env \<Rightarrow> (nat \<Rightarrow> bool \<Rightarrow> ('s, unit) smonad) \<Rightarrow> nat \<Rightarrow> sock_calls \<Rightarrow> ('s, int) smonad" where
  "GDBServer_make e set_block_on_wfi mmus c =
     (if ge_nharts e = 0 then throw_m exn_invalid_argument
      else if mmus > 0 \<and> mmus \<noteq> ge_nharts e then throw_m exn_invalid_argument
      else then_m (for_harts (\<lambda>h. set_block_on_wfi h False) [0..<ge_nharts e])
        (then_m (modify_at (ge_part e) (prevpkt_update (\<lambda>_. None)))
        (case create_sock c of Inl err \<Rightarrow> throw_m err | Inr fd \<Rightarrow> return_m fd)))"

section \<open>The two threads\<close>

datatype serve_pc = AtAccept | AtLock | AtParse

datatype gdb_run_pc = AtWait | AtPacket

record gdb_threads =
  gt_serve :: serve_pc
  gt_conn :: nat
  gt_stream :: string
  gt_mtx :: bool
  gt_pktq :: "(nat \<times> gdb_packet_t) list"
  gt_asyncEvent :: bool
  gt_run :: gdb_run_pc

definition gdb_start :: gdb_threads where
  "gdb_start = \<lparr>gt_serve = AtAccept, gt_conn = 0, gt_stream = [], gt_mtx = False, gt_pktq = [], gt_asyncEvent = False, gt_run = AtWait\<rparr>"

datatype gdb_label = Accepted nat string | AcceptError | Locked | Parsed nat gdb_packet_t | Closed | Woken | Handled nat gdb_packet_t

text \<open>
  \<open>e conn\<close> is the environment whose packets are sent over the connection \<open>conn\<close>. After the end of a stream the
  first thread also drops the packet kept for retransmission.
\<close>

inductive gdb_step ::
  "(nat \<Rightarrow> 's gdb_env) \<Rightarrow> 'p mpc \<Rightarrow> gdb_threads \<Rightarrow> 's \<Rightarrow> gdb_label \<Rightarrow> gdb_threads \<Rightarrow> 's \<Rightarrow> bool" for e M where
    accept: "gt_serve t = AtAccept \<Longrightarrow>
      gdb_step e M t s (Accepted conn input) (t\<lparr>gt_serve := AtLock, gt_conn := conn, gt_stream := input\<rparr>) s"
  | accept_error: "gt_serve t = AtAccept \<Longrightarrow> gdb_step e M t s AcceptError t s"
  | lock: "gt_serve t = AtLock \<Longrightarrow> \<not> gt_mtx t \<Longrightarrow> gdb_step e M t s Locked (t\<lparr>gt_serve := AtParse, gt_mtx := True\<rparr>) s"
  | parse: "gt_serve t = AtParse \<Longrightarrow> gdb_parse_pkt M (gt_stream t) = (Inr (Some pkt), rest) \<Longrightarrow>
      gdb_step e M t s (Parsed (gt_conn t) pkt)
        (t\<lparr>gt_serve := AtLock, gt_stream := rest, gt_pktq := gt_pktq t @ [(gt_conn t, pkt)], gt_asyncEvent := True\<rparr>) s"
  | close: "gt_serve t = AtParse \<Longrightarrow> gdb_parse_pkt M (gt_stream t) = (Inr None, rest) \<Longrightarrow>
      gdb_step e M t s Closed (t\<lparr>gt_serve := AtAccept, gt_stream := rest, gt_mtx := False\<rparr>)
        (part_upd (ge_part (e (gt_conn t))) (prevpkt_update (\<lambda>_. None)) s)"
  | wake: "gt_run t = AtWait \<Longrightarrow> gt_asyncEvent t \<Longrightarrow>
      gdb_step e M t s Woken (t\<lparr>gt_asyncEvent := False, gt_run := AtPacket\<rparr>) s"
  | handle: "gt_run t = AtPacket \<Longrightarrow> gt_pktq t = (conn, pkt) # q \<Longrightarrow>
      gdb_run_packet (e conn) (stage2_parse M) pkt s = (Inr (), s') \<Longrightarrow>
      gdb_step e M t s (Handled conn pkt) (t\<lparr>gt_pktq := q, gt_mtx := False, gt_run := AtWait\<rparr>) s'"

inductive_cases gdb_stepE: "gdb_step e M t s l t' s'"

inductive gdb_reach :: "(nat \<Rightarrow> 's gdb_env) \<Rightarrow> 'p mpc \<Rightarrow> 's \<Rightarrow> gdb_label list \<Rightarrow> gdb_threads \<Rightarrow> 's \<Rightarrow> bool" for e M s0 where
    start: "gdb_reach e M s0 [] gdb_start s0"
  | step: "gdb_reach e M s0 ls t s \<Longrightarrow> gdb_step e M t s l t' s' \<Longrightarrow> gdb_reach e M s0 (ls @ [l]) t' s'"

section \<open>The hand-over of packets\<close>

text \<open>What a history of steps has accepted, read and handled.\<close>

fun accepted_of :: "gdb_label \<Rightarrow> (nat \<times> string) list" where
    "accepted_of (Accepted conn input) = [(conn, input)]"
  | "accepted_of _ = []"

fun parsed_of :: "gdb_label \<Rightarrow> (nat \<times> gdb_packet_t) list" where
    "parsed_of (Parsed conn pkt) = [(conn, pkt)]"
  | "parsed_of _ = []"

fun handled_of :: "gdb_label \<Rightarrow> (nat \<times> gdb_packet_t) list" where
    "handled_of (Handled conn pkt) = [(conn, pkt)]"
  | "handled_of _ = []"

abbreviation accepted_conns :: "gdb_label list \<Rightarrow> (nat \<times> string) list" where "accepted_conns ls \<equiv> concat (map accepted_of ls)"
abbreviation parsed_packets :: "gdb_label list \<Rightarrow> (nat \<times> gdb_packet_t) list" where "parsed_packets ls \<equiv> concat (map parsed_of ls)"
abbreviation handled_packets :: "gdb_label list \<Rightarrow> (nat \<times> gdb_packet_t) list" where "handled_packets ls \<equiv> concat (map handled_of ls)"

text \<open>
  The invariant of the hand-over: the mutex is held exactly while the first thread reads or a packet is in the
  queue, there is at most one packet, of the open connection, and it has been announced.
\<close>

definition handover :: "gdb_threads \<Rightarrow> bool" where
  "handover t \<longleftrightarrow>
     (gt_mtx t \<longleftrightarrow> gt_serve t = AtParse \<or> gt_pktq t \<noteq> []) \<and>
     (gt_pktq t \<noteq> [] \<longrightarrow> gt_serve t = AtLock \<and> (\<exists>pkt. gt_pktq t = [(gt_conn t, pkt)]) \<and> gt_asyncEvent t = (gt_run t = AtWait)) \<and>
     (gt_pktq t = [] \<longrightarrow> \<not> gt_asyncEvent t \<and> gt_run t = AtWait)"

lemma handover_step: "gdb_step e M t s l t' s' \<Longrightarrow> handover t \<Longrightarrow> handover t'"
  by (cases rule: gdb_step.cases, assumption) (auto simp: handover_def)

lemma handover_reach:
  assumes "gdb_reach e M s0 ls t s"
  shows "handover t \<and> parsed_packets ls = handled_packets ls @ gt_pktq t"
  using assms
proof induction
  case start
  show ?case by (simp add: gdb_start_def handover_def)
next
  case (step ls t s l t' s')
  then show ?case
    using handover_step [OF step.hyps(2)] by (cases rule: gdb_step.cases [OF step.hyps(2)]) auto
qed

section \<open>Sessions\<close>

abbreviation session_text :: "gdb_message list \<Rightarrow> string" where "session_text ms \<equiv> concat (map message_text ms)"

abbreviation conn_packets :: "nat \<times> gdb_message list \<Rightarrow> (nat \<times> gdb_packet_t) list" where
  "conn_packets c \<equiv> map (\<lambda>m. (fst c, message_packet m)) (snd c)"

text \<open>How far the connections \<open>cs\<close> have been read.\<close>

definition read_so_far :: "(nat \<times> gdb_message list) list \<Rightarrow> gdb_label list \<Rightarrow> gdb_threads \<Rightarrow> bool" where
  "read_so_far cs ls t \<longleftrightarrow>
     (if gt_serve t = AtAccept then parsed_packets ls = concat (map conn_packets cs)
      else \<exists>cs' ms ms'. cs = cs' @ [(gt_conn t, ms @ ms')] \<and> gt_stream t = session_text ms' \<and>
        parsed_packets ls = concat (map conn_packets cs') @ conn_packets (gt_conn t, ms))"

lemma read_so_farI:
  assumes "gt_serve t \<noteq> AtAccept" "cs = cs' @ [(gt_conn t, ms @ ms')]" "gt_stream t = session_text ms'"
    "parsed_packets ls = concat (map conn_packets cs') @ conn_packets (gt_conn t, ms)"
  shows "read_so_far cs ls t"
  unfolding read_so_far_def using assms by (auto simp only: if_False)

context mpc_laws
begin

lemma read_step:
  assumes "gdb_step e M t s l t' s'" and "read_so_far cs ls t" and "l \<notin> range (case_prod Accepted)"
    and "\<forall>c \<in> set cs. list_all message_ok (snd c)"
  shows "read_so_far cs (ls @ [l]) t'"
  using assms(1)
proof cases
  case (parse pkt rest)
  then obtain cs' ms ms' where
    cs: "cs = cs' @ [(gt_conn t, ms @ ms')]" and stream: "gt_stream t = session_text ms'"
    and read: "parsed_packets ls = concat (map conn_packets cs') @ conn_packets (gt_conn t, ms)"
    using assms(2) by (auto simp: read_so_far_def)
  obtain m ms'' where m: "ms' = m # ms''"
    using parse stream parse_end by (cases ms') auto
  have "message_ok m" using assms(4) cs m by auto
  from parse_message [OF this, of "session_text ms''"] have "pkt = message_packet m" "rest = session_text ms''"
    using parse stream m by simp_all
  then show ?thesis
    using parse cs read m by (intro read_so_farI [of _ _ cs' "ms @ [m]" ms'']) simp_all
next
  case (close rest)
  then obtain cs' ms ms' where
    cs: "cs = cs' @ [(gt_conn t, ms @ ms')]" and stream: "gt_stream t = session_text ms'"
    and read: "parsed_packets ls = concat (map conn_packets cs') @ conn_packets (gt_conn t, ms)"
    using assms(2) by (auto simp: read_so_far_def)
  have "ms' = []"
  proof (cases ms')
    case (Cons m ms'')
    with assms(4) cs have "message_ok m" by auto
    with parse_message [OF this, of "session_text ms''"] close stream Cons show ?thesis by simp
  qed
  with close cs read show ?thesis by (simp add: read_so_far_def)
qed (use assms in \<open>auto simp: read_so_far_def image_iff\<close>)

lemma session_read:
  assumes "gdb_reach e M s0 ls t s" and "accepted_conns ls = map (apsnd session_text) cs"
    and "\<forall>c \<in> set cs. list_all message_ok (snd c)"
  shows "read_so_far cs ls t"
  using assms
proof (induction arbitrary: cs)
  case start
  then show ?case by (simp add: read_so_far_def gdb_start_def)
next
  case (step ls t s l t' s')
  show ?case
  proof (cases "l \<in> range (case_prod Accepted)")
    case False
    then have "accepted_of l = []" by (cases l) (auto simp: image_iff)
    with step False show ?thesis by (intro read_step [OF step.hyps(2)]) simp_all
  next
    case True
    then obtain conn input where l: "l = Accepted conn input" by auto
    with step.prems(1) obtain cs' ms where cs: "cs = cs' @ [(conn, ms)]" "accepted_conns ls = map (apsnd session_text) cs'"
      "input = session_text ms"
      by (auto simp: append_eq_map_conv Cons_eq_map_conv)
    have at: "gt_serve t = AtAccept" "t' = t\<lparr>gt_serve := AtLock, gt_conn := conn, gt_stream := input\<rparr>"
      using step.hyps(2) by (auto simp: l elim: gdb_stepE)
    have "read_so_far cs' ls t" using step.IH [of cs'] step.prems(2) cs by auto
    then show ?thesis
      using at cs by (intro read_so_farI [of _ _ cs' "[]" ms]) (simp_all add: l read_so_far_def)
  qed
qed

end

end
