(* ===== verification/Trace.thy ===== *)
theory Trace
  imports Iss_Exec
begin

text \<open>
  The trace of executed instructions and the final dump of the registers: the names of the opcodes
  (\<^verbatim>\<open>Opcode::mappingStr\<close> in \<^verbatim>\<open>core/common/instr.cpp\<close>) and of the registers, the line \<^verbatim>\<open>ISS::exec_step\<close> prints for
  an instruction when tracing is on, \<^verbatim>\<open>RegFile::show\<close> and \<^verbatim>\<open>ISS::show\<close> (\<^verbatim>\<open>core/rv32/iss.cpp\<close>), without the colours
  an option of the build adds. A line is given as a string, without the newline.
\<close>

section \<open>Names of opcodes\<close>

text \<open>The table is indexed by the number of the opcode in the enumeration.\<close>

definition opcodes_int :: "Mapping list" where
  "opcodes_int =
    [UNDEF, OpI LUI, OpI AUIPC, OpI JAL, OpI JALR, OpI BEQ, OpI BNE, OpI BLT, OpI BGE, OpI BLTU, OpI BGEU, OpI LB,
     OpI LH, OpI LW, OpI LBU, OpI LHU, OpI SB, OpI SH, OpI SW, OpI ADDI, OpI SLTI, OpI SLTIU, OpI XORI, OpI ORI,
     OpI ANDI, OpI SLLI, OpI SRLI, OpI SRAI, OpI ADD, OpI SUB, OpI SLL, OpI SLT, OpI SLTU, OpI XOR_R, OpI SRL,
     OpI SRA, OpI OR_R, OpI AND_R, OpI FENCE, OpI ECALL, OpI EBREAK, OpZifencei FENCE_I, OpZicsr CSRRW,
     OpZicsr CSRRS, OpZicsr CSRRC, OpZicsr CSRRWI, OpZicsr CSRRSI, OpZicsr CSRRCI, OpM MUL, OpM MULH, OpM MULHSU,
     OpM MULHU, OpM DIV, OpM DIVU, OpM REM, OpM REMU, OpA LR_W, OpA SC_W, OpA AMOSWAP_W, OpA AMOADD_W, OpA AMOXOR_W,
     OpA AMOAND_W, OpA AMOOR_W, OpA AMOMIN_W, OpA AMOMAX_W, OpA AMOMINU_W, OpA AMOMAXU_W, OpI64 LWU, OpI64 LD,
     OpI64 SD, OpI64 ADDIW, OpI64 SLLIW, OpI64 SRLIW, OpI64 SRAIW, OpI64 ADDW, OpI64 SUBW, OpI64 SLLW, OpI64 SRLW,
     OpI64 SRAW, OpM64 MULW, OpM64 DIVW, OpM64 DIVUW, OpM64 REMW, OpM64 REMUW, OpA64 LR_D, OpA64 SC_D,
     OpA64 AMOSWAP_D, OpA64 AMOADD_D, OpA64 AMOXOR_D, OpA64 AMOAND_D, OpA64 AMOOR_D, OpA64 AMOMIN_D, OpA64 AMOMAX_D,
     OpA64 AMOMINU_D, OpA64 AMOMAXU_D]"

definition opcodes_float :: "Mapping list" where
  "opcodes_float =
    [OpF FLW, OpF FSW, OpF FMADD_S, OpF FMSUB_S, OpF FNMADD_S, OpF FNMSUB_S, OpF FADD_S, OpF FSUB_S, OpF FMUL_S,
     OpF FDIV_S, OpF FSQRT_S, OpF FSGNJ_S, OpF FSGNJN_S, OpF FSGNJX_S, OpF FMIN_S, OpF FMAX_S, OpF FCVT_W_S,
     OpF FCVT_WU_S, OpF FMV_X_W, OpF FEQ_S, OpF FLT_S, OpF FLE_S, OpF FCLASS_S, OpF FCVT_S_W, OpF FCVT_S_WU,
     OpF FMV_W_X, OpF64 FCVT_L_S, OpF64 FCVT_LU_S, OpF64 FCVT_S_L, OpF64 FCVT_S_LU, OpD FLD, OpD FSD, OpD FMADD_D,
     OpD FMSUB_D, OpD FNMSUB_D, OpD FNMADD_D, OpD FADD_D, OpD FSUB_D, OpD FMUL_D, OpD FDIV_D, OpD FSQRT_D,
     OpD FSGNJ_D, OpD FSGNJN_D, OpD FSGNJX_D, OpD FMIN_D, OpD FMAX_D, OpD FCVT_S_D, OpD FCVT_D_S, OpD FEQ_D,
     OpD FLT_D, OpD FLE_D, OpD FCLASS_D, OpD FCVT_W_D, OpD FCVT_WU_D, OpD FCVT_D_W, OpD FCVT_D_WU, OpD64 FCVT_L_D,
     OpD64 FCVT_LU_D, OpD64 FMV_X_D, OpD64 FCVT_D_L, OpD64 FCVT_D_LU, OpD64 FMV_D_X, OpPriv URET, OpPriv SRET,
     OpPriv MRET, OpPriv WFI, OpPriv SFENCE_VMA]"

definition opcodes :: "Mapping list" where
  "opcodes = opcodes_int @ opcodes_float"

definition opcode_number :: "Mapping \<Rightarrow> nat" where
  "opcode_number op = length (takeWhile (\<lambda>x. x \<noteq> op) opcodes)"

definition mappingStr_int :: "string list" where
  "mappingStr_int =
    [''ZERO-INVALID'', ''LUI'', ''AUIPC'', ''JAL'', ''JALR'', ''BEQ'', ''BNE'', ''BLT'', ''BGE'', ''BLTU'', ''BGEU'',
     ''LB'', ''LH'', ''LW'', ''LBU'', ''LHU'', ''SB'', ''SH'', ''SW'', ''ADDI'', ''SLTI'', ''SLTIU'', ''XORI'',
     ''ORI'', ''ANDI'', ''SLLI'', ''SRLI'', ''SRAI'', ''ADD'', ''SUB'', ''SLL'', ''SLT'', ''SLTU'', ''XOR'', ''SRL'',
     ''SRA'', ''OR'', ''AND'', ''FENCE'', ''ECALL'', ''EBREAK'', ''FENCE_I'', ''CSRRW'', ''CSRRS'', ''CSRRC'',
     ''CSRRWI'', ''CSRRSI'', ''CSRRCI'', ''MUL'', ''MULH'', ''MULHSU'', ''MULHU'', ''DIV'', ''DIVU'', ''REM'',
     ''REMU'', ''LR_W'', ''SC_W'', ''AMOSWAP_W'', ''AMOADD_W'', ''AMOXOR_W'', ''AMOAND_W'', ''AMOOR_W'',
     ''AMOMIN_W'', ''AMOMAX_W'', ''AMOMINU_W'', ''AMOMAXU_W'', ''LWU'', ''LD'', ''SD'', ''ADDIW'', ''SLLIW'',
     ''SRLIW'', ''SRAIW'', ''ADDW'', ''SUBW'', ''SLLW'', ''SRLW'', ''SRAW'', ''MULW'', ''DIVW'', ''DIVUW'', ''REMW'',
     ''REMUW'', ''LR_D'', ''SC_D'', ''AMOSWAP_D'', ''AMOADD_D'', ''AMOXOR_D'', ''AMOAND_D'', ''AMOOR_D'',
     ''AMOMIN_D'', ''AMOMAX_D'', ''AMOMINU_D'', ''AMOMAXU_D'']"

definition mappingStr_float :: "string list" where
  "mappingStr_float =
    [''FLW'', ''FSW'', ''FMADD_S'', ''FMSUB_S'', ''FNMADD_S'', ''FNMSUB_S'', ''FADD_S'', ''FSUB_S'', ''FMUL_S'',
     ''FDIV_S'', ''FSQRT_S'', ''FSGNJ_S'', ''FSGNJN_S'', ''FSGNJX_S'', ''FMIN_S'', ''FMAX_S'', ''FCVT_W_S'',
     ''FCVT_WU_S'', ''FMV_X_W'', ''FEQ_S'', ''FLT_S'', ''FLE_S'', ''FCLASS_S'', ''FCVT_S_W'', ''FCVT_S_WU'',
     ''FMV_W_X'', ''FCVT_L_S'', ''FCVT_LU_S'', ''FCVT_S_L'', ''FCVT_S_LU'', ''FLD'', ''FSD'', ''FMADD_D'',
     ''FMSUB_D'', ''FNMSUB_D'', ''FNMADD_D'', ''FADD_D'', ''FSUB_D'', ''FMUL_D'', ''FDIV_D'', ''FSQRT_D'',
     ''FSGNJ_D'', ''FSGNJN_D'', ''FSGNJX_D'', ''FMIN_D'', ''FMAX_D'', ''FCVT_S_D'', ''FCVT_D_S'', ''FEQ_D'',
     ''FLT_D'', ''FLE_D'', ''FCLASS_D'', ''FCVT_W_D'', ''FCVT_WU_D'', ''FCVT_D_W'', ''FCVT_D_WU'', ''FCVT_L_D'',
     ''FCVT_LU_D'', ''FMV_X_D'', ''FCVT_D_L'', ''FCVT_D_LU'', ''FMV_D_X'', ''URET'', ''SRET'', ''MRET'', ''WFI'',
     ''SFENCE_VMA'']"

definition mappingStr :: "string list" where
  "mappingStr = mappingStr_int @ mappingStr_float"

section \<open>Trace of an instruction\<close>

definition regnames :: "string list" where
  "regnames =
    [''zero (x0)'', ''ra   (x1)'', ''sp   (x2)'', ''gp   (x3)'', ''tp   (x4)'', ''t0   (x5)'', ''t1   (x6)'',
     ''t2   (x7)'', ''s0/fp(x8)'', ''s1   (x9)'', ''a0  (x10)'', ''a1  (x11)'', ''a2  (x12)'', ''a3  (x13)'',
     ''a4  (x14)'', ''a5  (x15)'', ''a6  (x16)'', ''a7  (x17)'', ''s2  (x18)'', ''s3  (x19)'', ''s4  (x20)'',
     ''s5  (x21)'', ''s6  (x22)'', ''s7  (x23)'', ''s8  (x24)'', ''s9  (x25)'', ''s10 (x26)'', ''s11 (x27)'',
     ''t3  (x28)'', ''t4  (x29)'', ''t5  (x30)'', ''t6  (x31)'']"

definition pad_left :: "nat \<Rightarrow> string \<Rightarrow> string" where
  "pad_left n s = replicate (n - length s) (CHR 0x20) @ s"

definition hex_word :: "u32 \<Rightarrow> string" where
  "hex_word w = hex_digits (unat w)"

definition reg_name :: "u32 \<Rightarrow> string" where
  "reg_name r = regnames ! unat r"

definition trace_operands :: "Mapping \<Rightarrow> u32 \<Rightarrow> string" where
  "trace_operands op instr = (case getType op of
     Type_R \<Rightarrow> reg_name (rd instr) @ '', '' @ reg_name (rs1 instr) @ '', '' @ reg_name (rs2 instr)
   | Type_I \<Rightarrow> reg_name (rd instr) @ '', '' @ reg_name (rs1 instr) @ '', 0x'' @ hex_word (I_imm instr)
   | Type_S \<Rightarrow> reg_name (rs1 instr) @ '', '' @ reg_name (rs2 instr) @ '', 0x'' @ hex_word (S_imm instr)
   | Type_B \<Rightarrow> reg_name (rs1 instr) @ '', '' @ reg_name (rs2 instr) @ '', 0x'' @ hex_word (B_imm instr)
   | Type_U \<Rightarrow> reg_name (rd instr) @ '', 0x'' @ hex_word (U_imm instr)
   | Type_J \<Rightarrow> reg_name (rd instr) @ '', 0x'' @ hex_word (J_imm instr)
   | _ \<Rightarrow> [])"

definition trace_line :: "('v, 'e, 'm) hart \<Rightarrow> Mapping \<Rightarrow> u32 \<Rightarrow> string" where
  "trace_line h op instr =
     ''core '' @ pad_left 2 (to_string (mhartid_reg (h_csrs h))) @ '': prv '' @ hex_word (h_prv h) @ '': pc '' @
     pad_left 8 (hex_word (h_last_pc h)) @ '': '' @ mappingStr ! opcode_number op @ '' '' @ trace_operands op instr"

section \<open>Registers at the end\<close>

definition RegFile_show :: "('v, 'e) clover \<Rightarrow> 'v list \<Rightarrow> string list" where
  "RegFile_show cv regs = map (\<lambda>i. regnames ! i @ '' = '' @ hex_word (getValue cv (regs ! i))) [0..<length regs]"

definition ISS_show :: "('v, 'e) clover \<Rightarrow> string \<Rightarrow> ('v, 'e, 'm) hart \<Rightarrow> string list" where
  "ISS_show cv time_stamp h =
     [''=[ core : '' @ to_string (mhartid_reg (h_csrs h)) @ '' ]==========================='',
      ''simulation time: '' @ time_stamp] @ RegFile_show cv (h_regs h) @
     [''pc = '' @ hex_word (h_pc h), ''num-instr = '' @ to_string (instret_reg (h_csrs h))]"

section \<open>The names are unambiguous\<close>

lemmas opcode_tables = opcodes_def opcodes_int_def opcodes_float_def

lemma opcodes_complete: "op \<in> set opcodes"
proof (cases op)
  case (OpI x) then show ?thesis by (cases x) (simp_all add: opcode_tables)
next
  case (OpZifencei x) then show ?thesis by (cases x) (simp_all add: opcode_tables)
next
  case (OpZicsr x) then show ?thesis by (cases x) (simp_all add: opcode_tables)
next
  case (OpM x) then show ?thesis by (cases x) (simp_all add: opcode_tables)
next
  case (OpA x) then show ?thesis by (cases x) (simp_all add: opcode_tables)
next
  case (OpI64 x) then show ?thesis by (cases x) (simp_all add: opcode_tables)
next
  case (OpM64 x) then show ?thesis by (cases x) (simp_all add: opcode_tables)
next
  case (OpA64 x) then show ?thesis by (cases x) (simp_all add: opcode_tables)
next
  case (OpF x) then show ?thesis by (cases x) (simp_all add: opcode_tables)
next
  case (OpF64 x) then show ?thesis by (cases x) (simp_all add: opcode_tables)
next
  case (OpD x) then show ?thesis by (cases x) (simp_all add: opcode_tables)
next
  case (OpD64 x) then show ?thesis by (cases x) (simp_all add: opcode_tables)
next
  case (OpPriv x) then show ?thesis by (cases x) (simp_all add: opcode_tables)
qed (simp add: opcode_tables)

lemma tables_distinct: "distinct opcodes" "distinct mappingStr" "length mappingStr = length opcodes"
  by code_simp+

lemma opcode_number_nth: "opcode_number op < length opcodes" "opcodes ! opcode_number op = op"
proof -
  have "takeWhile (\<lambda>x. x \<noteq> op) opcodes \<noteq> opcodes"
    using opcodes_complete [of op] by (auto simp: takeWhile_eq_all_conv)
  then show less: "opcode_number op < length opcodes"
    unfolding opcode_number_def using takeWhile_eq_take [of "\<lambda>x. x \<noteq> op" opcodes] length_takeWhile_le [of "\<lambda>x. x \<noteq> op" opcodes]
    by (metis le_neq_implies_less take_all order_refl)
  from nth_length_takeWhile [OF less [unfolded opcode_number_def]] show "opcodes ! opcode_number op = op"
    by (simp add: opcode_number_def)
qed

lemma opcode_name_unique: "mappingStr ! opcode_number op = mappingStr ! opcode_number op' \<longleftrightarrow> op = op'"
  using opcode_number_nth [of op] opcode_number_nth [of op'] tables_distinct nth_eq_iff_index_eq [of mappingStr] by metis

end
