(* ===== verification/Gdb_Target.thy ===== *)
theory Gdb_Target
  imports Gdb_Serve Trace Symex_System Hifive_System
begin

text \<open>
  The debugger attached to a platform (\<^verbatim>\<open>platform/symex/symex_main.cpp\<close>, \<^verbatim>\<open>platform/hifive/hifive_main.cpp\<close>): the core as
  the only \<^verbatim>\<open>debug_target_if\<close> of the GDB server, its runner (\<^verbatim>\<open>core/common/gdb-mc/gdb_runner.cpp\<close>) and the debug port of the
  bus. Packets sent are collected in \<open>gx_sent\<close>. With one hart the run event starts the runner's round, and its
  stop event ends the wait of the server; a run event for a runner that has ended is never answered, which is an
  error value here, as is a run that needs more than \<open>fuel\<close> instructions.
\<close>

section \<open>The core as a debug target\<close>

record ('v, 'e, 'm) gdb_target =
  gx_core :: "('v, 'e, 'm) hart"
  gx_server :: GDBServer
  gx_sent :: "string list"
  gx_exited :: bool

abbreviation server_part :: "(GDBServer, ('v, 'e, 'm) gdb_target) part" where
  "server_part \<equiv> \<lparr>part_get = gx_server, part_upd = gx_server_update\<rparr>"

definition on_core :: "('v, 'e, 'm, 'a) iss \<Rightarrow> (('v, 'e, 'm) gdb_target, 'a) smonad" where
  "on_core m = run_at \<lparr>part_get = gx_core, part_upd = gx_core_update\<rparr> m"

definition run_core :: "('v, 'e) clover \<Rightarrow> ('v, 'e, 'm) platform \<Rightarrow> nat \<Rightarrow> ('v, 'e, 'm, unit) iss" where
  "run_core cv pl fuel h = (case run cv pl fuel h of
     None \<Rightarrow> (Inl (RuntimeError ''the core is still running''), h)
   | Some r \<Rightarrow> r)"

text \<open>\<^verbatim>\<open>DebugMemoryInterface\<close> sends a payload of its own over the debug port.\<close>

definition debug_port :: "('v, ('v, 'e, 'm) hart) dbg_target \<Rightarrow> tlm_command \<Rightarrow> u64 \<Rightarrow> u8 list \<Rightarrow>
  (('v, 'e, 'm) gdb_target, nat \<times> bool \<times> u8 list) smonad" where
  "debug_port dbg cmd addr data = on_core (bind_m
     (dbg \<lparr>p_command = cmd, p_address = addr, p_data = data, p_error = False, p_extension = None\<rparr>)
     (\<lambda>(n, t). return_m (n, p_error t, p_data t)))"

text \<open>The exception of a register that does not exist has the class the server catches.\<close>

definition debug_read_register :: "('v, 'e) clover \<Rightarrow> u32 \<Rightarrow> (('v, 'e, 'm) gdb_target, u64) smonad" where
  "debug_read_register cv r = catch_if (\<lambda>x. x = RuntimeError ''out-of-range register access'')
     (on_core (read_register cv r)) (throw_m exn_out_of_range)"

definition stopped_target ::
  "('v, 'e) clover \<Rightarrow> ('v, ('v, 'e, 'm) hart) dbg_target \<Rightarrow> ('v, 'e, 'm) gdb_target gdb_env" where
  "stopped_target cv dbg = \<lparr>ge_part = server_part, ge_arch = RV32, ge_nharts = 1,
     ge_get_status = \<lambda>i s. h_status (gx_core s), ge_set_status = \<lambda>i st. on_core (set_status st),
     ge_insert_breakpoint = \<lambda>i a. on_core (insert_breakpoint a), ge_remove_breakpoint = \<lambda>i a. on_core (remove_breakpoint a),
     ge_get_hart_id = \<lambda>i s. ucast (mhartid_reg (h_csrs (gx_core s))), ge_get_pc = \<lambda>i s. ucast (h_pc (gx_core s)),
     ge_get_registers = \<lambda>i. on_core (get_registers cv), ge_read_register = \<lambda>i. debug_read_register cv,
     ge_v2p = \<lambda>i. None, ge_transport_dbg = debug_port dbg, ge_run = \<lambda>hs. return_m (), ge_wait_stop = \<lambda>i. return_m (),
     ge_writeall = \<lambda>p. modify_m (gx_sent_update (\<lambda>out. out @ [p])), ge_exit = modify_m (gx_exited_update (\<lambda>_. True))\<rparr>"

definition runner_round ::
  "('v, 'e) clover \<Rightarrow> ('v, 'e, 'm) platform \<Rightarrow> ('v, ('v, 'e, 'm) hart) dbg_target \<Rightarrow> nat \<Rightarrow>
   (('v, 'e, 'm) gdb_target, unit) smonad" where
  "runner_round cv pl dbg fuel = bind_m (gets_m (\<lambda>s. h_status (gx_core s))) (\<lambda>st.
     if st = Terminated then throw_m (RuntimeError ''the runner of the hart has ended'')
     else then_m (gdb_runner_round (stopped_target cv dbg) (\<lambda>_. on_core (run_step cv pl)) (\<lambda>_. on_core (run_core cv pl fuel)) 0)
       (return_m ()))"

definition debug_target ::
  "('v, 'e) clover \<Rightarrow> ('v, 'e, 'm) platform \<Rightarrow> ('v, ('v, 'e, 'm) hart) dbg_target \<Rightarrow> nat \<Rightarrow> ('v, 'e, 'm) gdb_target gdb_env" where
  "debug_target cv pl dbg fuel = (stopped_target cv dbg)\<lparr>ge_run := \<lambda>hs. runner_round cv pl dbg fuel\<rparr>"

text \<open>The runner puts the core into debug mode, the server keeps it from blocking on \<^verbatim>\<open>WFI\<close>.\<close>

definition attach_debugger :: "('v, 'e, 'm) hart \<Rightarrow> ('v, 'e, 'm) gdb_target" where
  "attach_debugger h = \<lparr>gx_core = snd (then_m (block_on_wfi False) enable_debug h),
     gx_server = \<lparr>thread_ops = Map.empty, prevpkt = None, single_run = False\<rparr>, gx_sent = [], gx_exited = False\<rparr>"

section \<open>The platforms\<close>

definition symex_debug :: "('v, 'e) clover \<Rightarrow> ('v, 'c) concolic_memory \<Rightarrow> ('v, ('v, 'e, 'c) sys) dbg_target" where
  "symex_debug cv cm = bus_transport_dbg symex_ports
     [\<lambda>t. run_at (dev_part d_memory d_memory_update) (sym_debug cv cm t), no_debug_access, no_debug_access, no_debug_access]"

definition symex_gdb ::
  "('v, 'e) clover \<Rightarrow> ('v, 'c) concolic_memory \<Rightarrow> ('v, 'e, 'c symex_devices) sim_kernel \<Rightarrow> nat \<Rightarrow> nat \<Rightarrow>
   ('v, 'e, ('v, 'c symex_devices) mem_world) gdb_target gdb_env" where
  "symex_gdb cv cm K n fuel = debug_target cv (symex_platform cv cm K n) (symex_debug cv cm) fuel"

definition hifive_debug :: "('v, 'e) clover \<Rightarrow> ('v, 'c) concolic_memory \<Rightarrow> ('v, ('v, 'e, 'c) hsys) dbg_target" where
  "hifive_debug cv cm = bus_transport_dbg hifive_ports
     ([\<lambda>t. run_at (dev_part hd_flash hd_flash_update) (sm_debug t), \<lambda>t. run_at (dev_part hd_dram hd_dram_update) (sym_debug cv cm t)] @
      replicate 12 no_debug_access)"

definition hifive_gdb ::
  "('v, 'e) clover \<Rightarrow> ('v, 'c) concolic_memory \<Rightarrow> ('v, 'e, 'c) hifive_kernel \<Rightarrow> nat \<Rightarrow> nat \<Rightarrow>
   ('v, 'e, ('v, ('v, 'c) hifive_devices) mem_world) gdb_target gdb_env" where
  "hifive_gdb cv cm K n fuel = debug_target cv (hifive_platform cv cm K n) (hifive_debug cv cm) fuel"

section \<open>Answers\<close>

lemma on_core_apply: "on_core m s = (case m (gx_core s) of (r, c) \<Rightarrow> (r, s\<lparr>gx_core := c\<rparr>))"
  by (simp add: on_core_def run_at_def)

definition answered :: "string \<Rightarrow> ('v, 'e, 'm) gdb_target \<Rightarrow> ('v, 'e, 'm) gdb_target" where
  "answered r s = s\<lparr>gx_server := (gx_server s)\<lparr>prevpkt := Some r\<rparr>, gx_sent := gx_sent s @ [r]\<rparr>"

lemma reply_answered:
  assumes "ge_part e = server_part" "ge_writeall e = (\<lambda>p. modify_m (gx_sent_update (\<lambda>out. out @ [p])))"
    and "gdb_serialize GDB_KIND_PACKET (Some data) = Inr r"
  shows "reply e data s = (Inr (), answered r s)"
  using assms by (simp add: reply_def send_packet_def catch_if_def answered_def monad_simps)

end
