(* ===== verification/Elf_Loader.thy ===== *)
theory Elf_Loader
  imports Register_Range
begin

text \<open>
  The ELF loader (\<^verbatim>\<open>core/common/elf_loader.h\<close> with the 32-bit types of \<^verbatim>\<open>core/rv32/elf_loader.h\<close>). The mapped file
  is its list of bytes; a header is read from it at the offsets of the C structs. Reading behind the
  end of the file, which the source does not check, gives zeros. The memory that is loaded is behind
  the two functions of \<^verbatim>\<open>load_if\<close>, arguments here.
\<close>

section \<open>File structure\<close>

definition le16 :: "u8 list \<Rightarrow> u64 \<Rightarrow> u16" where
  "le16 elf off = word_of_nat (bytes_to_nat (mem_read (unat off) 2 elf))"

definition le32 :: "u8 list \<Rightarrow> u64 \<Rightarrow> u32" where
  "le32 elf off = word_of_nat (bytes_to_nat (mem_read (unat off) 4 elf))"

record Elf32_Ehdr =
  e_entry :: u32
  e_phoff :: u32
  e_shoff :: u32
  e_phentsize :: u16
  e_phnum :: u16
  e_shentsize :: u16
  e_shnum :: u16
  e_shstrndx :: u16

record Elf32_Phdr =
  p_type :: u32
  p_offset :: u32
  p_vaddr :: u32
  p_paddr :: u32
  p_filesz :: u32
  p_memsz :: u32

record Elf32_Shdr =
  sh_name :: u32
  sh_offset :: u32
  sh_size :: u32

record Elf32_Sym =
  st_name :: u32
  st_value :: u32

definition elf_hdr :: "u8 list \<Rightarrow> Elf32_Ehdr" where
  "elf_hdr elf = \<lparr>e_entry = le32 elf 24, e_phoff = le32 elf 28, e_shoff = le32 elf 32, e_phentsize = le16 elf 42,
     e_phnum = le16 elf 44, e_shentsize = le16 elf 46, e_shnum = le16 elf 48, e_shstrndx = le16 elf 50\<rparr>"

definition phdr_at :: "u8 list \<Rightarrow> u64 \<Rightarrow> Elf32_Phdr" where
  "phdr_at elf o1 = \<lparr>p_type = le32 elf o1, p_offset = le32 elf (o1 + 4), p_vaddr = le32 elf (o1 + 8),
     p_paddr = le32 elf (o1 + 12), p_filesz = le32 elf (o1 + 16), p_memsz = le32 elf (o1 + 20)\<rparr>"

definition shdr_at :: "u8 list \<Rightarrow> u64 \<Rightarrow> Elf32_Shdr" where
  "shdr_at elf o1 = \<lparr>sh_name = le32 elf o1, sh_offset = le32 elf (o1 + 16), sh_size = le32 elf (o1 + 20)\<rparr>"

definition sym_at :: "u8 list \<Rightarrow> u64 \<Rightarrow> Elf32_Sym" where
  "sym_at elf o1 = \<lparr>st_name = le32 elf o1, st_value = le32 elf (o1 + 4)\<rparr>"

abbreviation (input) PT_LOAD :: u32 where "PT_LOAD \<equiv> 1"

definition phdr_off :: "Elf32_Ehdr \<Rightarrow> nat \<Rightarrow> u64" where
  "phdr_off h i = ucast (e_phoff h) + ucast (e_phentsize h) * word_of_nat i"

section \<open>Segments\<close>

definition get_load_sections :: "u8 list \<Rightarrow> Elf32_Phdr list" where
  "get_load_sections elf = (let h = elf_hdr elf in
     filter (\<lambda>p. p_type p = PT_LOAD \<and> \<not> (p_filesz p = 0 \<and> p_memsz p = 0))
       (map (\<lambda>i. phdr_at elf (phdr_off h i)) [0..<unat (e_phnum h)]))"

text \<open>What the loader calls of the memory: copying bytes to an index, and zeroing a number of bytes.\<close>

record 's load_if =
  li_load_data :: "u8 list \<Rightarrow> u64 \<Rightarrow> ('s, unit) smonad"
  li_load_zero :: "u64 \<Rightarrow> nat \<Rightarrow> ('s, unit) smonad"

definition load_segment :: "'s load_if \<Rightarrow> u8 list \<Rightarrow> u32 \<Rightarrow> u32 \<Rightarrow> bool \<Rightarrow> Elf32_Phdr \<Rightarrow> ('s, unit) smonad" where
  "load_segment li elf sz offset use_vaddr p =
     (let addr = if use_vaddr then p_vaddr p else p_paddr p in
      if \<not> (addr \<ge> offset \<and> addr < offset + sz) then return_m ()
      else
        then_m (assert_m ''Offset overlaps into section'' (addr \<ge> offset))
        (then_m (assert_m ''Section does not fit in target memory'' (addr + p_memsz p < offset + sz))
        (let idx = addr - offset in
         then_m (li_load_data li (mem_read (unat (p_offset p)) (unat (p_filesz p)) elf) (ucast idx))
         (then_m (assert_m ''p->p_memsz >= p->p_filesz'' (p_memsz p \<ge> p_filesz p))
           (li_load_zero li (ucast (idx + p_filesz p)) (unat (p_memsz p - p_filesz p)))))))"

fun load_segments :: "'s load_if \<Rightarrow> u8 list \<Rightarrow> u32 \<Rightarrow> u32 \<Rightarrow> bool \<Rightarrow> Elf32_Phdr list \<Rightarrow> ('s, unit) smonad" where
    "load_segments li elf sz offset use_vaddr [] = return_m ()"
  | "load_segments li elf sz offset use_vaddr (p # ps) =
      then_m (load_segment li elf sz offset use_vaddr p) (load_segments li elf sz offset use_vaddr ps)"

definition load_executable_image :: "'s load_if \<Rightarrow> u8 list \<Rightarrow> u32 \<Rightarrow> u32 \<Rightarrow> bool \<Rightarrow> ('s, unit) smonad" where
  "load_executable_image li elf sz offset use_vaddr =
     load_segments li elf sz offset use_vaddr (get_load_sections elf)"

definition get_memory_end :: "u8 list \<Rightarrow> u32" where
  "get_memory_end elf = (let h = elf_hdr elf;
       last = phdr_at elf (ucast (e_phoff h) + ucast (e_phentsize h) * (ucast (e_phnum h) - 1)) in
     p_vaddr last + p_memsz last)"

definition get_heap_addr :: "u8 list \<Rightarrow> u32" where
  "get_heap_addr elf = (let s = get_memory_end elf in s + s mod 8)"

definition get_entrypoint :: "u8 list \<Rightarrow> u32" where
  "get_entrypoint elf = e_entry (elf_hdr elf)"

section \<open>Sections and symbols\<close>

definition c_string :: "u8 list \<Rightarrow> nat \<Rightarrow> u8 list" where
  "c_string elf off = takeWhile (\<lambda>b. b \<noteq> 0) (drop off elf)"

definition get_section_string_table :: "u8 list \<Rightarrow> error + nat" where
  "get_section_string_table elf = (let h = elf_hdr elf in
     if e_shoff h = 0 then Inl (AssertFail ''string table section not available'')
     else Inr (unat (sh_offset (shdr_at elf (ucast (e_shoff h) + ucast (e_shentsize h) * ucast (e_shstrndx h))))))"

definition get_sections :: "u8 list \<Rightarrow> error + Elf32_Shdr list" where
  "get_sections elf = (let h = elf_hdr elf in
     if e_shoff h = 0 then
       Inl (RuntimeError ''unable to find section address, section table not available'')
     else Inr (map (\<lambda>i. shdr_at elf (ucast (e_shoff h) + ucast (e_shentsize h) * word_of_nat i)) [0..<unat (e_shnum h)]))"

definition get_section :: "u8 list \<Rightarrow> u8 list \<Rightarrow> error + Elf32_Shdr" where
  "get_section elf section_name = (case get_section_string_table elf of
     Inl e \<Rightarrow> Inl e
   | Inr strings \<Rightarrow> (case get_sections elf of
         Inl e \<Rightarrow> Inl e
       | Inr ss \<Rightarrow> (case find (\<lambda>s. c_string elf (strings + unat (sh_name s)) = section_name) ss of
             None \<Rightarrow> Inl (RuntimeError ''unable to find section address, section seems not available'')
           | Some s \<Rightarrow> Inr s)))"

definition bytes_of :: "string \<Rightarrow> u8 list" where
  "bytes_of s = map (\<lambda>c. word_of_nat (of_char c)) s"

definition get_symbol_string_table :: "u8 list \<Rightarrow> error + nat" where
  "get_symbol_string_table elf = (case get_section elf (bytes_of ''.strtab'') of
     Inl e \<Rightarrow> Inl e | Inr s \<Rightarrow> Inr (unat (sh_offset s)))"

definition get_symbol :: "u8 list \<Rightarrow> u8 list \<Rightarrow> error + Elf32_Sym" where
  "get_symbol elf symbol_name = (case get_section elf (bytes_of ''.symtab'') of
     Inl e \<Rightarrow> Inl e
   | Inr s \<Rightarrow> (case get_symbol_string_table elf of
         Inl e \<Rightarrow> Inl e
       | Inr strings \<Rightarrow>
           if sh_size s mod 16 \<noteq> 0 then Inl (AssertFail ''s->sh_size % sizeof(Elf_Sym) == 0'')
           else (case find (\<lambda>p. c_string elf (strings + unat (st_name p)) = symbol_name)
               (map (\<lambda>i. sym_at elf (ucast (sh_offset s) + 16 * word_of_nat i)) [0..<unat (sh_size s) div 16]) of
             None \<Rightarrow> Inl (RuntimeError ''unable to find symbol in the symbol table'')
           | Some p \<Rightarrow> Inr p)))"

definition get_symbol_value :: "u8 list \<Rightarrow> u8 list \<Rightarrow> error + u32" where
  "get_symbol_value elf name = (case get_symbol elf name of Inl e \<Rightarrow> Inl e | Inr p \<Rightarrow> Inr (st_value p))"

definition get_begin_signature_address :: "u8 list \<Rightarrow> error + u32" where
  "get_begin_signature_address elf = get_symbol_value elf (bytes_of ''begin_signature'')"

definition get_end_signature_address :: "u8 list \<Rightarrow> error + u32" where
  "get_end_signature_address elf = get_symbol_value elf (bytes_of ''end_signature'')"

definition get_to_host_address :: "u8 list \<Rightarrow> error + u32" where
  "get_to_host_address elf = get_symbol_value elf (bytes_of ''tohost'')"

section \<open>Loading into a memory\<close>

definition simple_memory_if :: "SimpleMemory load_if" where
  "simple_memory_if = \<lparr>li_load_data = sm_load_data, li_load_zero = sm_load_zero\<rparr>"

text \<open>The bytes of the memory a segment occupies.\<close>

definition segment_bytes :: "u8 list \<Rightarrow> Elf32_Phdr \<Rightarrow> u8 list" where
  "segment_bytes elf p = mem_read (unat (p_offset p)) (unat (p_filesz p)) elf @
     replicate (unat (p_memsz p) - unat (p_filesz p)) 0"

definition segment_fits :: "u32 \<Rightarrow> u32 \<Rightarrow> Elf32_Phdr \<Rightarrow> bool" where
  "segment_fits sz offset p \<longleftrightarrow> offset \<le> p_paddr p \<and> p_filesz p \<le> p_memsz p \<and>
     unat (p_paddr p) + unat (p_memsz p) < unat offset + unat sz \<and> unat offset + unat sz < 2 ^ 32"

lemma list_write_append:
  assumes "a + length xs + length ys \<le> length m"
  shows "list_write (a + length xs) ys (list_write a xs m) = list_write a (xs @ ys) m"
  using assms by (simp add: list_write_def min_absorb2 min_absorb1 ac_simps)

text \<open>The indices of the memory a segment occupies.\<close>

definition segment_range :: "u32 \<Rightarrow> Elf32_Phdr \<Rightarrow> nat set" where
  "segment_range offset p = {unat (p_paddr p) - unat offset ..< unat (p_paddr p) - unat offset + unat (p_memsz p)}"

definition segments_disjoint :: "u32 \<Rightarrow> Elf32_Phdr list \<Rightarrow> bool" where
  "segments_disjoint offset ps \<longleftrightarrow> sorted_wrt (\<lambda>p q. segment_range offset p \<inter> segment_range offset q = {}) ps"

definition holds_segment :: "u8 list \<Rightarrow> u32 \<Rightarrow> u8 list \<Rightarrow> Elf32_Phdr \<Rightarrow> bool" where
  "holds_segment elf offset mem p \<longleftrightarrow>
     (\<forall>i<unat (p_memsz p). mem ! (unat (p_paddr p) - unat offset + i) = segment_bytes elf p ! i)"

lemma length_segment_bytes: "p_filesz p \<le> p_memsz p \<Longrightarrow> length (segment_bytes elf p) = unat (p_memsz p)"
  by (simp add: segment_bytes_def word_le_nat_alt)

lemma nth_list_write:
  assumes "a + length xs \<le> length m" "j < length m"
  shows "list_write a xs m ! j = (if a \<le> j \<and> j < a + length xs then xs ! (j - a) else m ! j)"
  using assms by (auto simp: list_write_def nth_append not_less)

lemma unat_to_u64: "unat (ucast w :: u64) = unat w" for w :: u32
  by (simp add: unsigned_ucast_eq take_bit_nat_eq_self_iff order.strict_trans [OF unsigned_less [of w, where 'a = nat]])

text \<open>The guards of the loader for a segment that fits, and the indices it computes.\<close>

lemma segment_fits_guards:
  assumes "segment_fits sz offset p"
  defines "a \<equiv> unat (p_paddr p) - unat offset"
  shows "offset \<le> p_paddr p" "p_paddr p < offset + sz" "p_paddr p + p_memsz p < offset + sz" "p_filesz p \<le> p_memsz p"
    "unat (p_paddr p - offset) = a" "unat (p_paddr p - offset + p_filesz p) = a + unat (p_filesz p)"
    "unat (p_memsz p - p_filesz p) = unat (p_memsz p) - unat (p_filesz p)" "a + unat (p_memsz p) < unat sz"
    "unat (p_filesz p) \<le> unat (p_memsz p)"
proof -
  have fit: "unat offset \<le> unat (p_paddr p)" "unat (p_filesz p) \<le> unat (p_memsz p)"
    "unat (p_paddr p) + unat (p_memsz p) < unat offset + unat sz" "unat offset + unat sz < 2 ^ 32"
    using assms(1) by (simp_all add: segment_fits_def word_le_nat_alt)
  show "unat (p_filesz p) \<le> unat (p_memsz p)" by (fact fit(2))
  show idx: "unat (p_paddr p - offset) = a" using fit(1) by (simp add: unat_sub word_le_nat_alt a_def)
  have "unat (offset + sz) = unat offset + unat sz" using fit(4) by (simp add: unat_word_ariths)
  moreover have "unat (p_paddr p + p_memsz p) = unat (p_paddr p) + unat (p_memsz p)"
    using fit(3,4) by (simp add: unat_word_ariths)
  ultimately show "offset \<le> p_paddr p" "p_paddr p < offset + sz" "p_paddr p + p_memsz p < offset + sz" "p_filesz p \<le> p_memsz p"
    using fit by (simp_all add: word_le_nat_alt word_less_nat_alt)
  show small: "a + unat (p_memsz p) < unat sz" using fit by (simp add: a_def)
  then show "unat (p_paddr p - offset + p_filesz p) = a + unat (p_filesz p)"
    using idx fit(2,4) unsigned_less [of sz, where 'a = nat] by (simp add: unat_word_ariths)
  show "unat (p_memsz p - p_filesz p) = unat (p_memsz p) - unat (p_filesz p)"
    using fit(2) by (simp add: unat_sub word_le_nat_alt)
qed

text \<open>
  What the loader needs of a memory: \<open>wf n m\<close> says that it has \<open>n\<close> bytes, and inside these the two functions of
  \<^verbatim>\<open>load_if\<close> overwrite the bytes from an index on.
\<close>

locale loadable_memory =
  fixes li :: "'s load_if" and bytes :: "'s \<Rightarrow> u8 list" and wf :: "nat \<Rightarrow> 's \<Rightarrow> bool"
  assumes wf_length: "wf n m \<Longrightarrow> length (bytes m) = n"
    and load_data_law: "wf n m \<Longrightarrow> n < 2 ^ 32 \<Longrightarrow> unat dst + length src \<le> n \<Longrightarrow>
      \<exists>m'. li_load_data li src dst m = (Inr (), m') \<and> wf n m' \<and> bytes m' = list_write (unat dst) src (bytes m)"
    and load_zero_law: "wf n m \<Longrightarrow> n < 2 ^ 32 \<Longrightarrow> unat dst + k \<le> n \<Longrightarrow>
      \<exists>m'. li_load_zero li dst k m = (Inr (), m') \<and> wf n m' \<and> bytes m' = list_write (unat dst) (replicate k 0) (bytes m)"
begin

lemma load_segment_writes:
  assumes "segment_fits sz offset p" and "wf (unat sz) m"
  shows "\<exists>m'. load_segment li elf sz offset False p m = (Inr (), m') \<and> wf (unat sz) m' \<and>
    bytes m' = list_write (unat (p_paddr p) - unat offset) (segment_bytes elf p) (bytes m)"
proof -
  note g = segment_fits_guards [OF assms(1)]
  let ?a = "unat (p_paddr p) - unat offset" and ?file = "mem_read (unat (p_offset p)) (unat (p_filesz p)) elf"
  let ?zeros = "replicate (unat (p_memsz p) - unat (p_filesz p)) 0 :: u8 list"
  have sz: "unat sz < 2 ^ 32" using unsigned_less [of sz, where 'a = nat] by simp
  obtain m1 where m1: "li_load_data li ?file (ucast (p_paddr p - offset)) m = (Inr (), m1)" "wf (unat sz) m1"
    "bytes m1 = list_write ?a ?file (bytes m)"
    using load_data_law [OF assms(2) sz, of "ucast (p_paddr p - offset)" ?file] g by (auto simp: unat_to_u64)
  obtain m2 where m2: "li_load_zero li (ucast (p_paddr p - offset + p_filesz p)) (unat (p_memsz p - p_filesz p)) m1 = (Inr (), m2)"
    "wf (unat sz) m2" "bytes m2 = list_write (?a + length ?file) ?zeros (bytes m1)"
    using load_zero_law [OF m1(2) sz, of "ucast (p_paddr p - offset + p_filesz p)" "unat (p_memsz p - p_filesz p)"] g
    by (auto simp: unat_to_u64)
  have "list_write (?a + length ?file) ?zeros (bytes m1) = list_write ?a (segment_bytes elf p) (bytes m)"
    using list_write_append [of ?a ?file ?zeros "bytes m"] g wf_length [OF assms(2)] m1(3) by (simp add: segment_bytes_def)
  with g m1(1) m2 show ?thesis
    by (simp add: load_segment_def assert_m_def Let_def then_m_apply)
qed

lemma load_segments_effect:
  assumes "list_all (segment_fits sz offset) ps" "segments_disjoint offset ps" "wf (unat sz) m"
  shows "\<exists>m'. load_segments li elf sz offset False ps m = (Inr (), m') \<and> wf (unat sz) m' \<and>
    list_all (holds_segment elf offset (bytes m')) ps \<and>
    (\<forall>j<unat sz. (\<forall>p\<in>set ps. j \<notin> segment_range offset p) \<longrightarrow> bytes m' ! j = bytes m ! j)"
  using assms
proof (induction ps arbitrary: m)
  case (Cons p ps)
  let ?a = "unat (p_paddr p) - unat offset"
  have fits: "segment_fits sz offset p" using Cons.prems(1) by simp
  obtain m1 where m1: "load_segment li elf sz offset False p m = (Inr (), m1)" "wf (unat sz) m1"
    "bytes m1 = list_write ?a (segment_bytes elf p) (bytes m)"
    using load_segment_writes [OF fits Cons.prems(3)] by blast
  have len: "length (segment_bytes elf p) = unat (p_memsz p)" "?a + unat (p_memsz p) \<le> unat sz"
    using segment_fits_guards [OF fits] length_segment_bytes by simp_all
  have n1: "bytes m1 ! j = (if j \<in> segment_range offset p then segment_bytes elf p ! (j - ?a) else bytes m ! j)"
    if "j < unat sz" for j
    using nth_list_write [of ?a "segment_bytes elf p" "bytes m" j] that len wf_length [OF Cons.prems(3)]
    by (auto simp: segment_range_def m1(3))
  obtain m' where m': "load_segments li elf sz offset False ps m1 = (Inr (), m')" "wf (unat sz) m'"
    "list_all (holds_segment elf offset (bytes m')) ps"
    "\<forall>j<unat sz. (\<forall>p\<in>set ps. j \<notin> segment_range offset p) \<longrightarrow> bytes m' ! j = bytes m1 ! j"
    using Cons.IH [OF _ _ m1(2)] Cons.prems by (auto simp: segments_disjoint_def)
  have disj: "j \<notin> segment_range offset q" if "j \<in> segment_range offset p" "q \<in> set ps" for j q
    using Cons.prems(2) that by (auto simp: segments_disjoint_def)
  have "holds_segment elf offset (bytes m') p"
    unfolding holds_segment_def
  proof (intro allI impI)
    fix i assume i: "i < unat (p_memsz p)"
    then have r: "?a + i \<in> segment_range offset p" "?a + i < unat sz" using len by (auto simp: segment_range_def)
    then show "bytes m' ! (?a + i) = segment_bytes elf p ! i" using m'(4) disj [OF r(1)] n1 by simp
  qed
  then show ?case using m' m1(1) n1 by (intro exI [of _ m']) (auto simp: then_m_apply)
qed auto

end

lemma u64_le_size:
  assumes "unat (dst :: u64) + k \<le> unat (sz :: u32)"
  shows "dst + word_of_nat k \<le> ucast sz"
proof -
  have b: "unat sz < 2 ^ 32" using unsigned_less [of sz, where 'a = nat] by simp
  then have "unat (word_of_nat k :: u64) = k" using assms by (simp add: unat_of_nat)
  then have "unat (dst + word_of_nat k) = unat dst + k" using assms b by (simp add: unat_word_ariths)
  then show ?thesis using assms by (simp add: word_le_nat_alt unat_to_u64)
qed

definition simple_memory_wf :: "nat \<Rightarrow> SimpleMemory \<Rightarrow> bool" where
  "simple_memory_wf n m \<longleftrightarrow> unat (sm_size m) = n \<and> length (sm_data m) = n"

interpretation simple_memory: loadable_memory simple_memory_if sm_data simple_memory_wf
proof unfold_locales
  fix n m and dst :: u64 and src :: "u8 list"
  assume "simple_memory_wf n m" and "unat dst + length src \<le> n"
  then show "\<exists>m'. li_load_data simple_memory_if src dst m = (Inr (), m') \<and> simple_memory_wf n m' \<and>
      sm_data m' = list_write (unat dst) src (sm_data m)"
    using u64_le_size [of dst "length src" "sm_size m"]
    by (auto simp: simple_memory_wf_def simple_memory_if_def sm_load_data_def assert_m_def list_write_def monad_simps)
next
  fix n m and dst :: u64 and k
  assume "simple_memory_wf n m" and "unat dst + k \<le> n"
  then show "\<exists>m'. li_load_zero simple_memory_if dst k m = (Inr (), m') \<and> simple_memory_wf n m' \<and>
      sm_data m' = list_write (unat dst) (replicate k 0) (sm_data m)"
    using u64_le_size [of dst k "sm_size m"]
    by (auto simp: simple_memory_wf_def simple_memory_if_def sm_load_zero_def sm_load_data_def assert_m_def list_write_def monad_simps)
qed (simp add: simple_memory_wf_def)

end
