(* ===== verification/Symbolic_Explore.thy ===== *)
theory Symbolic_Explore
  imports Prelude
begin

text \<open>
  The driver of the symbolic exploration (\<^verbatim>\<open>symex/symbolic_explore.cpp\<close>). One execution of the platform,
  \<^verbatim>\<open>sc_elab_and_sim\<close>, and clover's \<^verbatim>\<open>setupNewValues\<close>, which solves for an input of a path not taken yet, are
  arguments over the state \<open>'c\<close> of clover's execution context and tracer (\<open>explore_env\<close>); what the host's system
  calls and environment variables give is the record \<open>explore_host\<close>. A test case written to a file is an entry of
  \<open>ex_testcases\<close>. The loop has a bound \<open>fuel\<close> on the number of executions and gives \<open>None\<close> when it is not
  enough. Times are in milliseconds.
\<close>

record 'st explore =
  paths_found :: nat
  errors_found :: nat
  ex_testcases :: "(string \<times> 'st) list"
  solver_time :: nat

record ('c, 'st) explore_env =
  xe_tracer_reset :: "'c \<Rightarrow> 'c"
  xe_sc_elab_and_sim :: "nat \<Rightarrow> 'c \<Rightarrow> int \<times> 'st explore \<times> 'c"
  xe_setupNewValues :: "'c \<Rightarrow> bool \<times> nat \<times> 'c"
  xe_getPrevStore :: "'c \<Rightarrow> 'st option"
  xe_dump_all :: bool
  xe_open :: "string \<Rightarrow> bool"

record explore_host =
  host_mkdtemp :: "string option"
  host_atexit :: bool
  host_timebudget :: "string option"
  host_sigemptyset :: bool
  host_sigaction :: bool

abbreviation explore_init :: "'st explore" where
  "explore_init \<equiv> \<lparr>paths_found = 0, errors_found = 0, ex_testcases = [], solver_time = 0\<rparr>"

definition errno_exception :: error where "errno_exception = RuntimeError ''std::system_error''"

section \<open>Test cases\<close>

text \<open>No test case is written for a store that is empty (\<open>None\<close>): the execution does not depend on symbolic values.\<close>

definition dump_input :: "(string \<Rightarrow> bool) \<Rightarrow> string \<Rightarrow> 'st option \<Rightarrow> 'st explore \<Rightarrow> error + string option \<times> 'st explore" where
  "dump_input can_open fn store x = (case store of
     None \<Rightarrow> Inr (None, x)
   | Some st \<Rightarrow>
       if \<not> can_open fn then Inl (RuntimeError (''failed to open '' @ fn))
       else Inr (Some fn, x\<lparr>ex_testcases := ex_testcases x @ [(fn, st)]\<rparr>))"

definition create_testdir :: "explore_host \<Rightarrow> error + string" where
  "create_testdir h = (case host_mkdtemp h of
     None \<Rightarrow> Inl errno_exception
   | Some dirpath \<Rightarrow> if \<not> host_atexit h then Inl (RuntimeError ''std::atexit failed'') else Inr dirpath)"

datatype rmdir_result = Removed | NotEmpty | Exists | OtherErrno

definition remove_testdir :: "string option \<Rightarrow> rmdir_result \<Rightarrow> error + string option" where
  "remove_testdir testcase_path r =
     (if testcase_path = None then Inl (AssertFail ''testcase_path != nullptr'')
      else if r = OtherErrno then Inl errno_exception
      else Inr None)"

section \<open>Statistics and the time budget\<close>

definition dump_stats :: "bool \<Rightarrow> string \<Rightarrow> 'st explore \<Rightarrow> string list" where
  "dump_stats dump_all testcase_path x =
     [[], ''---'', ''Unique paths found: '' @ nat_to_string (paths_found x),
      ''Solver Time: '' @ nat_to_string (solver_time x div 1000) @ '' seconds''] @
     (if errors_found x > 0 then [''Errors found: '' @ nat_to_string (errors_found x)] else []) @
     (if errors_found x > 0 \<or> dump_all then [''Testcase directory: '' @ testcase_path] else [])"

text \<open>The exit code of the process and what it prints when the budget is used up.\<close>

definition sigalrm_handler :: "bool \<Rightarrow> string \<Rightarrow> 'st explore \<Rightarrow> int \<times> string list" where
  "sigalrm_handler dump_all testcase_path x =
     (0, ''Time budget exceeded, terminating...'' # dump_stats dump_all testcase_path x)"

text \<open>
  \<^verbatim>\<open>strtoul\<close> with base 10: leading white space, a sign, digits up to the first other character. The flag
  says whether \<^verbatim>\<open>errno\<close> is set: only for a value that does not fit into 64 bits.
\<close>

fun digits_value :: "nat \<Rightarrow> string \<Rightarrow> nat" where
    "digits_value n [] = n"
  | "digits_value n (c # cs) =
      (let d = of_char c :: nat in if 48 \<le> d \<and> d \<le> 57 then digits_value (10 * n + (d - 48)) cs else n)"

definition strtoul10 :: "string \<Rightarrow> u64 \<times> bool" where
  "strtoul10 s =
     (let t = dropWhile (\<lambda>c. c \<in> {CHR 0x20, CHR 0x09, CHR 0x0A, CHR 0x0B, CHR 0x0C, CHR 0x0D}) s;
          neg = (t \<noteq> [] \<and> hd t = CHR ''-'');
          n = digits_value 0 (if t \<noteq> [] \<and> (neg \<or> hd t = CHR ''+'') then tl t else t) in
      if n \<ge> 2 ^ 64 then (- 1, True) else (if neg then - word_of_nat n else word_of_nat n, False))"

text \<open>The argument of \<^verbatim>\<open>alarm\<close>, or None when no budget is set; no alarm is pending before.\<close>

definition setup_timeout :: "explore_host \<Rightarrow> error + u32 option" where
  "setup_timeout h = (case host_timebudget h of
     None \<Rightarrow> Inr None
   | Some timebudget \<Rightarrow> (case strtoul10 timebudget of (seconds, errno) \<Rightarrow>
       if seconds = 0 \<and> errno then Inl errno_exception
       else if \<not> host_sigemptyset h then Inl errno_exception
       else if \<not> host_sigaction h then Inl errno_exception
       else Inr (Some (ucast seconds))))"

section \<open>Reports\<close>

datatype report_outcome = ReportReturn | ReportExit | DefaultHandler u32

text \<open>The masks \<^verbatim>\<open>SC_DISPLAY\<close> and \<^verbatim>\<open>SC_STOP\<close> of SystemC are the first two arguments.\<close>

definition report_handler ::
  "u32 \<Rightarrow> u32 \<Rightarrow> (string \<Rightarrow> bool) \<Rightarrow> string \<Rightarrow> bool \<Rightarrow> bool \<Rightarrow> 'st option \<Rightarrow> u32 \<Rightarrow> 'st explore \<Rightarrow>
   error + report_outcome \<times> 'st explore" where
  "report_handler SC_DISPLAY SC_STOP can_open mtype has_testdir err_exit store actions x =
     (if mtype = ''/AGRA/riscv-vp/host-error'' \<or> \<not> has_testdir then
        let x1 = x\<lparr>errors_found := errors_found x + 1\<rparr> in
        case dump_input can_open (''path'' @ nat_to_string (paths_found x + 1) @ ''_error'') store x1 of
          Inl err \<Rightarrow> Inl err
        | Inr (None, x2) \<Rightarrow> Inr (ReportReturn, x2)
        | Inr (Some _, x2) \<Rightarrow>
            if err_exit then Inr (ReportExit, x2)
            else Inr (DefaultHandler ((actions AND NOT SC_DISPLAY) AND SC_STOP), x2)
      else Inr (DefaultHandler actions, x))"

section \<open>Exploration\<close>

definition setupNewValues :: "('c, 'st) explore_env \<Rightarrow> 'c \<Rightarrow> 'st explore \<Rightarrow> bool \<times> 'c \<times> 'st explore" where
  "setupNewValues e c x = (case xe_setupNewValues e c of (r, duration, c') \<Rightarrow> (r, c', x\<lparr>solver_time := solver_time x + duration\<rparr>))"

text \<open>The errors found during an execution are counted by the report handler inside it.\<close>

fun explore_paths :: "('c, 'st) explore_env \<Rightarrow> nat \<Rightarrow> 'c \<Rightarrow> 'st explore \<Rightarrow> (error + int \<times> 'st explore \<times> 'c) option" where
    "explore_paths e 0 c x = None"
  | "explore_paths e (Suc fuel) c x =
      (case xe_sc_elab_and_sim e (paths_found x) (xe_tracer_reset e c) of (ret, y, c1) \<Rightarrow>
        let x1 = x\<lparr>errors_found := errors_found x + errors_found y, ex_testcases := ex_testcases x @ ex_testcases y\<rparr> in
        if ret \<noteq> 0 then Some (Inr (ret, x1, c1))
        else
          let x2 = x1\<lparr>paths_found := paths_found x1 + 1\<rparr> in
          case (if xe_dump_all e \<and> errors_found x = errors_found x2
                then dump_input (xe_open e) (''path'' @ nat_to_string (paths_found x2)) (xe_getPrevStore e c1) x2
                else Inr (None, x2)) of
            Inl err \<Rightarrow> Some (Inl err)
          | Inr (_, x3) \<Rightarrow> (case setupNewValues e c1 x3 of (again, c2, x4) \<Rightarrow>
              if again then explore_paths e fuel c2 x4 else Some (Inr (0, x4, c2))))"

definition run_test :: "('c \<Rightarrow> 'st \<Rightarrow> 'c) \<Rightarrow> ('c \<Rightarrow> int \<times> 'c) \<Rightarrow> 'st option \<Rightarrow> 'c \<Rightarrow> error + int \<times> 'c" where
  "run_test setup_store sc_elab_and_sim file c = (case file of
     None \<Rightarrow> Inl (RuntimeError ''failed to open'')
   | Some store \<Rightarrow> Inr (sc_elab_and_sim (setup_store c store)))"

text \<open>The result of the process with the statistics it prints; \<open>None\<close> when the bound is not enough.\<close>

definition symbolic_explore ::
  "('c, 'st) explore_env \<Rightarrow> explore_host \<Rightarrow> ('c \<Rightarrow> 'st \<Rightarrow> 'c) \<Rightarrow> 'st option option \<Rightarrow> nat \<Rightarrow> 'c \<Rightarrow>
   (error + int \<times> string list) option" where
  "symbolic_explore e h setup_store testcase fuel c = (case testcase of
     Some file \<Rightarrow> (case run_test setup_store (\<lambda>c. case xe_sc_elab_and_sim e 0 c of (r, _, c') \<Rightarrow> (r, c')) file c of
         Inl err \<Rightarrow> Some (Inl err)
       | Inr (r, _) \<Rightarrow> Some (Inr (r, [])))
   | None \<Rightarrow> (case create_testdir h of
         Inl err \<Rightarrow> Some (Inl err)
       | Inr testcase_path \<Rightarrow> (case setup_timeout h of
           Inl err \<Rightarrow> Some (Inl err)
         | Inr _ \<Rightarrow> map_option (map_sum id (\<lambda>(ret, x, _). (ret, dump_stats (xe_dump_all e) testcase_path x)))
             (explore_paths e fuel c explore_init))))"

section \<open>The exploration ends\<close>

text \<open>
  What the driver relies on: an execution succeeds and leaves the set of open paths alone, every new
  input clover finds closes one of finitely many open paths, and the files for the test cases can be written.
\<close>

lemma explore_terminates:
  fixes open_paths :: "'c \<Rightarrow> nat"
  assumes sim_ok: "\<And>n c ret y c1. xe_sc_elab_and_sim e n (xe_tracer_reset e c) = (ret, y, c1) \<Longrightarrow>
      ret = 0 \<and> open_paths c1 \<le> open_paths c"
    and progress: "\<And>c d c'. xe_setupNewValues e c = (True, d, c') \<Longrightarrow> open_paths c' < open_paths c"
    and files: "\<And>fn. xe_open e fn"
    and fuel: "open_paths c < fuel"
  shows "\<exists>x' c'. explore_paths e fuel c x = Some (Inr (0, x', c')) \<and> paths_found x < paths_found x' \<and>
    paths_found x' \<le> paths_found x + open_paths c + 1 \<and> errors_found x \<le> errors_found x' \<and>
    length (ex_testcases x) \<le> length (ex_testcases x') \<and> solver_time x \<le> solver_time x'"
  using fuel
proof (induction fuel arbitrary: c x)
  case (Suc fuel)
  obtain ret y c1 where sim: "xe_sc_elab_and_sim e (paths_found x) (xe_tracer_reset e c) = (ret, y, c1)"
    by (metis prod_cases3)
  have ok: "ret = 0" "open_paths c1 \<le> open_paths c" using sim_ok [OF sim] by auto
  obtain again d c2 where new: "xe_setupNewValues e c1 = (again, d, c2)" by (metis prod_cases3)
  define x2 where "x2 = x\<lparr>errors_found := errors_found x + errors_found y, ex_testcases := ex_testcases x @ ex_testcases y,
    paths_found := paths_found x + 1\<rparr>"
  let ?dump = "if xe_dump_all e \<and> errors_found x = errors_found x2
    then dump_input (xe_open e) (''path'' @ nat_to_string (paths_found x2)) (xe_getPrevStore e c1) x2 else Inr (None, x2)"
  have "\<exists>p x3. ?dump = Inr (p, x3) \<and> paths_found x3 = paths_found x + 1 \<and> errors_found x \<le> errors_found x3 \<and>
      solver_time x3 = solver_time x \<and> length (ex_testcases x) \<le> length (ex_testcases x3)"
    by (cases "xe_getPrevStore e c1") (auto simp: dump_input_def files x2_def)
  then obtain p x3 where dump: "?dump = Inr (p, x3)"
    and x3: "paths_found x3 = paths_found x + 1" "errors_found x \<le> errors_found x3" "solver_time x3 = solver_time x"
      "length (ex_testcases x) \<le> length (ex_testcases x3)"
    by blast
  define x4 where "x4 = x3\<lparr>solver_time := solver_time x3 + d\<rparr>"
  have step: "explore_paths e (Suc fuel) c x = (if again then explore_paths e fuel c2 x4 else Some (Inr (0, x4, c2)))"
  proof -
    have "explore_paths e (Suc fuel) c x = (case ?dump of Inl err \<Rightarrow> Some (Inl err)
      | Inr (_, x3) \<Rightarrow> (case setupNewValues e c1 x3 of (again, c2, x4) \<Rightarrow>
          if again then explore_paths e fuel c2 x4 else Some (Inr (0, x4, c2))))"
      using ok(1) by (simp add: sim x2_def Let_def)
    then show ?thesis unfolding dump by (simp add: new setupNewValues_def x4_def)
  qed
  have x4: "paths_found x4 = paths_found x + 1" "errors_found x \<le> errors_found x4" "solver_time x \<le> solver_time x4"
    "length (ex_testcases x) \<le> length (ex_testcases x4)"
    using x3 by (simp_all add: x4_def)
  show ?case
  proof (cases again)
    case True
    have less: "open_paths c2 < open_paths c" using progress [of c1 d c2] new True ok(2) by simp
    with Suc.IH [of c2 x4] Suc.prems show ?thesis unfolding step using True x4 by fastforce
  next
    case False
    with x4 show ?thesis unfolding step by simp
  qed
qed simp

end
