(* ===== verification/Host_Props.thy ===== *)
theory Host_Props
  imports Gdb_Serve Elf_Loader Symbolic_Explore
begin

text \<open>
  Properties of the host side: the packets and the memory commands of the GDB server, the loading of an
  executable, and the exploration loop.
\<close>

section \<open>GDB packets\<close>

lemma ascii_run_encode:
  assumes "list_all run_ok rs"
  shows "list_all ascii (run_encode rs)"
  using assms
proof (induction rs)
  case (Cons r rs)
  obtain c n where r: "r = Run c n" by (cases r)
  have "ascii c" "n = 1 \<or> ascii (char_of_code (n + 28))" "ascii GDB_RUNLEN_CHAR"
    using Cons.prems by (auto simp: r run_ok_def ascii_def of_char_code)
  moreover have "run_encode (r # rs) =
      (if n = 1 then [c] else [c, GDB_RUNLEN_CHAR, char_of_code (n + 28)]) @ run_encode rs"
    by (simp add: run_encode_def r)
  ultimately show ?case using Cons by auto
qed (simp add: run_encode_def)

text \<open>
  A packet of the remote protocol is understood as it was meant. For every message whose escaped
  form is sent with run lengths, the serialised packet carries the checksum that the receiver accepts, and the
  receiver hands exactly the message to the command grammar.
\<close>

lemma gdb_packet_roundtrip:
  assumes "list_all run_ok rs" and "run_expand rs = concat (map gdb_escape_char msg)"
  shows "\<exists>csum. gdb_serialize GDB_KIND_PACKET (Some (run_encode rs)) = Inr (''$'' @ run_encode rs @ ''#'' @ csum) \<and>
    gdb_parse_cmd parse_text \<lparr>pkt_kind = GDB_KIND_PACKET, pkt_data = Some (run_encode rs), pkt_csum = csum\<rparr> =
      parse_text msg"
  using csum_length [OF ascii_run_encode [OF assms(1)]] runlen_decode_encode [OF assms(1)] unescape_escape [of msg] assms(2)
  by (intro exI [of _ "printf_02x (calc_csum (run_encode rs))"])
    (simp add: gdb_serialize_def gdb_parse_cmd_def gdb_is_valid_def gdb_decode_runlen_def gdb_unescape_def Let_def)

lemma gdb_packet_roundtrip_witness:
  "\<exists>csum. gdb_serialize GDB_KIND_PACKET (Some (run_encode [Run (CHR ''m'') 1, Run (CHR ''0'') 8])) =
      Inr (''$'' @ ''m0*$'' @ ''#'' @ csum) \<and>
    gdb_parse_cmd (\<lambda>s. Inr (Some \<lparr>cmd_name = s, cmd_arg = GDB_ARG_NONE\<rparr>))
      \<lparr>pkt_kind = GDB_KIND_PACKET, pkt_data = Some ''m0*$'', pkt_csum = csum\<rparr> =
    Inr (Some \<lparr>cmd_name = ''m00000000'', cmd_arg = GDB_ARG_NONE\<rparr>)"
proof -
  have "run_encode [Run (CHR ''m'') 1, Run (CHR ''0'') 8] = ''m0*$''"
    by (simp add: run_encode_def char_of_code_def char_of_eq_iff)
  moreover have "list_all run_ok [Run (CHR ''m'') 1, Run (CHR ''0'') 8]" by (simp add: run_ok_def ascii_def)
  moreover have "run_expand [Run (CHR ''m'') 1, Run (CHR ''0'') 8] = concat (map gdb_escape_char ''m00000000'')"
    by (simp add: run_expand_def gdb_escape_char_def numeral_eq_Suc)
  ultimately show ?thesis
    using gdb_packet_roundtrip [of "[Run (CHR ''m'') 1, Run (CHR ''0'') 8]" "''m00000000''"
      "\<lambda>s. Inr (Some \<lparr>cmd_name = s, cmd_arg = GDB_ARG_NONE\<rparr>)"] by simp
qed

section \<open>Commands of the debugger\<close>

text \<open>
  C33: Commands of the remote protocol survive the wire. For every well-formed command (register, thread, memory,
  breakpoint and resume commands with all their arguments, or a command without arguments) the packet with its
  text is accepted from the stream, leaving what follows it, and parsed back to exactly that command: no other
  production of the grammar takes it, no assertion of the fold functions fails, and numbers, thread
  identifiers and lists of actions come back unchanged.
\<close>

theorem gdb_command_roundtrip:
  assumes "mpc_laws M run" and "command_ok c"
  shows "\<exists>s pkt. gdb_serialize GDB_KIND_PACKET (Some (command_text c)) = Inr s \<and>
    gdb_parse_pkt M (s @ rest) = (Inr (Some pkt), rest) \<and> gdb_parse_cmd (stage2_parse M) pkt = Inr (Some c)"
  using command_serialized [OF assms(2)] mpc_laws.parse_message [OF assms(1), of "Command c" rest] mpc_laws.parse_command [OF assms] assms(2)
  by (auto simp: message_ok_def)

definition sample_command :: gdb_command_t where
  "sample_command = \<lparr>cmd_name = ''vCont'', cmd_arg = GDB_ARG_VCONT
     [\<lparr>vc_action = CHR ''s'', vc_sig = - 1, vc_thread = \<lparr>thr_pid = 1, thr_tid = 1\<rparr>\<rparr>,
      \<lparr>vc_action = CHR ''C'', vc_sig = 5, vc_thread = \<lparr>thr_pid = GDB_THREAD_UNSET, thr_tid = GDB_THREAD_ALL\<rparr>\<rparr>]\<rparr>"

theorem gdb_command_roundtrip_witness:
  "command_text sample_command = ''vCont;s:p1.1;C05'' \<and>
   (\<exists>s pkt. gdb_serialize GDB_KIND_PACKET (Some (command_text sample_command)) = Inr s \<and>
    gdb_parse_pkt fun_mpc (s @ ''+'') = (Inr (Some pkt), ''+'') \<and> gdb_parse_cmd (stage2_parse fun_mpc) pkt = Inr (Some sample_command))"
proof
  have d: "hex_digits 1 = ''1''" "hex_digit 0 = CHR ''0''" "hex_digit 5 = CHR ''5''" by code_simp+
  show "command_text sample_command = ''vCont;s:p1.1;C05''"
    using d by (simp add: command_text_def sample_command_def action_text_def thread_text_def id_text_def)
  have "command_ok sample_command" by (simp add: command_ok_def sample_command_def action_ok_def thread_ok_def id_ok_def)
  from gdb_command_roundtrip [OF fun_mpc.mpc_laws_axioms this] show
    "\<exists>s pkt. gdb_serialize GDB_KIND_PACKET (Some (command_text sample_command)) = Inr s \<and>
      gdb_parse_pkt fun_mpc (s @ ''+'') = (Inr (Some pkt), ''+'') \<and> gdb_parse_cmd (stage2_parse fun_mpc) pkt = Inr (Some sample_command)" .
qed

section \<open>The memory commands of the debugger\<close>

lemmas hex_value_digit = hex_digit_value

lemma hex_digit_zero: "hex_digit 0 = CHR ''0''"
  by (simp add: hex_digit_def char_of_code_def char_of_eq_iff)

lemma hex_byte_digits: "hex_byte b = [hex_digit (unat b div 16), hex_digit (unat b mod 16)]"
proof -
  have b: "unat b < 256" using unsigned_less [of b, where 'a = nat] by simp
  show ?thesis
  proof (cases "unat b < 16")
    case True
    then show ?thesis by (simp add: hex_byte_def pad_zero_def hex_digits.simps [of "unat b"] hex_digit_zero)
  next
    case False
    have "unat b div 16 < 16" using b by simp
    with False show ?thesis
      by (simp add: hex_byte_def pad_zero_def hex_digits.simps [of "unat b"] hex_digits.simps [of "unat b div 16"])
  qed
qed

lemma strtol16_hex_byte: "strtol16 0 (hex_byte b) = unat b"
  using unsigned_less [of b, where 'a = nat] by (simp add: hex_byte_digits hex_value_digit)

lemma hex_bytes_nth:
  assumes "j < length bs"
  shows "concat (map hex_byte bs) ! (2 * j) = hex_byte (bs ! j) ! 0" "concat (map hex_byte bs) ! (2 * j + 1) = hex_byte (bs ! j) ! 1"
  using assms
proof (induction bs arbitrary: j)
  case (Cons b bs)
  { case 1 then show ?case using Cons.IH(1) [of "j - 1"] by (cases j) (simp_all add: hex_byte_digits nth_append) }
  { case 2 then show ?case using Cons.IH(2) [of "j - 1"] by (cases j) (simp_all add: hex_byte_digits nth_append) }
qed simp_all

lemma length_hex_bytes: "length (concat (map hex_byte bs)) = 2 * length bs"
  by (induction bs) (simp_all add: hex_byte_digits)

lemma decode_hex_halved:
  "decode_hex (length bs) (concat (map hex_byte bs)) = take (length bs div 2) bs @ replicate (length bs - length bs div 2) 0"
proof (rule nth_equalityI)
  show "length (decode_hex (length bs) (concat (map hex_byte bs))) =
      length (take (length bs div 2) bs @ replicate (length bs - length bs div 2) 0)"
    by (simp add: decode_hex_def length_hex_bytes)
next
  fix j assume "j < length (decode_hex (length bs) (concat (map hex_byte bs)))"
  then have j: "j < length bs" by (simp add: decode_hex_def length_hex_bytes)
  have "[concat (map hex_byte bs) ! (2 * j), concat (map hex_byte bs) ! (2 * j + 1)] = hex_byte (bs ! j)"
    unfolding hex_bytes_nth [OF j] by (simp add: hex_byte_digits)
  then have conv: "word_of_nat (strtol16 0 [concat (map hex_byte bs) ! (2 * j), concat (map hex_byte bs) ! (2 * j + 1)]) = bs ! j"
    by (simp add: strtol16_hex_byte)
  have "2 * j + 1 < length bs \<longleftrightarrow> j < length bs div 2" by auto
  with j conv show "decode_hex (length bs) (concat (map hex_byte bs)) ! j =
      (take (length bs div 2) bs @ replicate (length bs - length bs div 2) 0) ! j"
    by (simp add: decode_hex_def length_hex_bytes nth_append)
qed

text \<open>
  Writing memory from the debugger stores only the first half of the data. For the hexadecimal form of n
  bytes the conversion loop ends after n characters: the first n div 2 bytes are converted and the others are written as
  zero, although the command is acknowledged.
\<close>

lemma write_memory_halved:
  assumes "length bs < 2 ^ 32"
  shows "write_memory e start (word_of_nat (length bs)) (concat (map hex_byte bs)) =
    bind_m (dbg_transaction e TLM_WRITE_COMMAND start (take (length bs div 2) bs @ replicate (length bs - length bs div 2) 0))
      (\<lambda>(n, _). assert_m ''not all data written'' (n = length bs))"
  using assms decode_hex_halved [of bs]
  by (simp add: write_memory_def length_hex_bytes unat_of_nat assert_m_def then_m_apply fun_eq_iff)

lemma write_memory_halved_witness:
  "\<forall>(e :: unit gdb_env) start. write_memory e start 2 ''cafe'' = bind_m (dbg_transaction e TLM_WRITE_COMMAND start [0xCA, 0])
     (\<lambda>(n, _). assert_m ''not all data written'' (n = length [0xCA, 0xFE :: u8]))"
proof (intro allI)
  fix e :: "unit gdb_env" and start :: u64
  have "concat (map hex_byte [0xCA, 0xFE]) = ''cafe''"
    by (simp add: hex_byte_digits hex_digit_def char_of_code_def char_of_eq_iff)
  with write_memory_halved [of "[0xCA, 0xFE]" e start]
  show "write_memory e start 2 ''cafe'' = bind_m (dbg_transaction e TLM_WRITE_COMMAND start [0xCA, 0])
     (\<lambda>(n, _). assert_m ''not all data written'' (n = length [0xCA, 0xFE :: u8]))" by simp
qed

section \<open>Sessions of the debugger\<close>

text \<open>
  C34: The hand-over of packets between the threads of the GDB server. Under every interleaving of the thread
  that reads the connections and the simulation thread, the packets handled are those the debuggers have sent, in
  the order of the connections and within each in the order sent, none lost and none twice; when the
  server waits for the next connection all of them have been handled. Each command packet is parsed to the
  command meant. A packet is only handled while its connection is open and the other thread
  waits for the mutex, and that thread never waits for a mutex that nobody will unlock.
\<close>

theorem gdb_session_in_order:
  assumes "mpc_laws M run" and "gdb_reach e M s0 ls t s" and "accepted_conns ls = map (apsnd session_text) cs"
    and "\<forall>c \<in> set cs. list_all message_ok (snd c)"
  shows "(\<exists>n. handled_packets ls = take n (concat (map conn_packets cs))) \<and>
    (gt_serve t = AtAccept \<longrightarrow> handled_packets ls = concat (map conn_packets cs)) \<and>
    (\<forall>c \<in> set cs. \<forall>x. Command x \<in> set (snd c) \<longrightarrow>
      gdb_parse_cmd (stage2_parse M) (message_packet (Command x)) = Inr (Some x)) \<and>
    (gt_run t = AtPacket \<longrightarrow> gt_serve t = AtLock \<and> gt_mtx t \<and> (\<exists>pkt. gt_pktq t = [(gt_conn t, pkt)])) \<and>
    (gt_serve t = AtLock \<longrightarrow> \<not> gt_mtx t \<or> gt_asyncEvent t \<or> gt_run t = AtPacket)"
proof -
  note h = handover_reach [OF assms(2)]
  note r = mpc_laws.session_read [OF assms]
  obtain rest where all: "concat (map conn_packets cs) = parsed_packets ls @ rest"
    using r by (cases "gt_serve t = AtAccept") (auto simp: read_so_far_def)
  have "\<exists>n. handled_packets ls = take n (concat (map conn_packets cs))"
    using h by (intro exI [of _ "length (handled_packets ls)"]) (simp add: all)
  moreover have "gt_serve t = AtAccept \<longrightarrow> handled_packets ls = concat (map conn_packets cs)"
    using h r by (auto simp: read_so_far_def handover_def)
  moreover have "gdb_parse_cmd (stage2_parse M) (message_packet (Command x)) = Inr (Some x)"
    if "c \<in> set cs" "Command x \<in> set (snd c)" for c x
  proof -
    from that assms(4) have "message_ok (Command x)" by (auto simp: list_all_iff)
    then show ?thesis by (intro mpc_laws.parse_command [OF assms(1)]) (simp add: message_ok_def)
  qed
  moreover have "gt_run t \<noteq> AtWait \<Longrightarrow> gt_run t = AtPacket" by (cases "gt_run t") simp_all
  ultimately show ?thesis using h by (auto simp: handover_def)
qed

text \<open>A server of one hart whose packets are collected in a list.\<close>

definition sample_gdb :: "(GDBServer \<times> string list) gdb_env" where
  "sample_gdb = \<lparr>ge_part = \<lparr>part_get = fst, part_upd = apfst\<rparr>, ge_arch = RV32, ge_nharts = 1, ge_get_status = \<lambda>h s. HitBreakpoint,
     ge_set_status = \<lambda>h st. return_m (), ge_insert_breakpoint = \<lambda>h a. return_m (), ge_remove_breakpoint = \<lambda>h a. return_m (),
     ge_get_hart_id = \<lambda>h s. 0, ge_get_pc = \<lambda>h s. 0, ge_get_registers = \<lambda>h. return_m [], ge_read_register = \<lambda>h r. return_m 0,
     ge_v2p = \<lambda>h. None, ge_transport_dbg = \<lambda>c a d. return_m (length d, False, d), ge_run = \<lambda>hs. return_m (),
     ge_wait_stop = \<lambda>h. return_m (), ge_writeall = \<lambda>p. modify_m (apsnd (\<lambda>out. out @ [p])), ge_exit = return_m ()\<rparr>"

abbreviation halt_query :: gdb_command_t where "halt_query \<equiv> \<lparr>cmd_name = ''?'', cmd_arg = GDB_ARG_NONE\<rparr>"

abbreviation idle_server :: "GDBServer \<times> string list" where
  "idle_server \<equiv> (\<lparr>thread_ops = Map.empty, prevpkt = None, single_run = False\<rparr>, [])"

abbreviation sample_session :: "gdb_message list" where "sample_session \<equiv> [Command halt_query, Ack]"

lemma halt_query_ok: "command_ok halt_query"
  by (simp add: command_ok_def plain_def ascii_def)

lemma halt_query_answered:
  "gdb_run_packet sample_gdb (stage2_parse fun_mpc) (message_packet (Command halt_query)) idle_server =
    (Inr (), (\<lparr>thread_ops = Map.empty, prevpkt = Some ''$S05#b8'', single_run = False\<rparr>, [''+'', ''$S05#b8'']))"
proof -
  have "gdb_serialize GDB_KIND_PACKET (Some ''S05'') = Inr ''$S05#b8''" "gdb_serialize GDB_KIND_ACK None = Inr ''+''" by code_simp+
  moreover have "pkt_kind (message_packet (Command halt_query)) = GDB_KIND_PACKET" by (simp add: message_packet_def)
  ultimately show ?thesis
    using fun_mpc.parse_command [OF halt_query_ok]
    by (simp add: gdb_run_packet_def send_packet_def handlers_def haltReason_def reply_def catch_if_def sample_gdb_def monad_simps)
qed

lemma sample_gdb_run:
  "\<exists>ls t s. gdb_reach (\<lambda>_. sample_gdb) fun_mpc idle_server ls t s \<and>
     accepted_conns ls = map (apsnd session_text) [(7, sample_session)] \<and> gt_serve t = AtAccept \<and> snd s = [''+'', ''$S05#b8'']"
proof -
  have ok: "message_ok (Command halt_query)" "message_ok Ack" using halt_query_ok by (simp_all add: message_ok_def)
  note q = fun_mpc.parse_message [OF ok(1), of "message_text Ack"]
  note a = fun_mpc.parse_message [OF ok(2), of "[]", simplified]
  obtain rest where stop: "gdb_parse_pkt fun_mpc [] = (Inr None, rest)" using fun_mpc.parse_end by blast
  have ack: "gdb_run_packet sample_gdb (stage2_parse fun_mpc) (message_packet Ack) s = (Inr (), s)" for s
    by (simp add: gdb_run_packet_def message_packet_def monad_simps)
  note r = gdb_reach.start [of "\<lambda>_. sample_gdb" fun_mpc idle_server]
  note r = gdb_reach.step [OF r gdb_step.accept [of _ _ _ _ 7 "session_text sample_session"], simplified gdb_start_def, simplified]
  note r = gdb_reach.step [OF r gdb_step.lock, simplified]
  note r = gdb_reach.step [OF r gdb_step.parse [of _ _ "message_packet (Command halt_query)" "message_text Ack"], simplified, OF q]
  note r = gdb_reach.step [OF r gdb_step.wake, simplified]
  note r = gdb_reach.step [OF r gdb_step.handle [where conn = 7 and pkt = "message_packet (Command halt_query)" and q = "[]"], simplified,
    OF halt_query_answered]
  note r = gdb_reach.step [OF r gdb_step.lock, simplified]
  note r = gdb_reach.step [OF r gdb_step.parse, simplified, OF a]
  note r = gdb_reach.step [OF r gdb_step.wake, simplified]
  note r = gdb_reach.step [OF r gdb_step.handle [where conn = 7 and pkt = "message_packet Ack" and q = "[]"], simplified, OF ack]
  note r = gdb_reach.step [OF r gdb_step.lock, simplified]
  note r = gdb_reach.step [OF r gdb_step.close, simplified, OF stop]
  show ?thesis by (rule exI, rule exI, rule exI, rule conjI, rule r) (simp add: sample_gdb_def)
qed

theorem gdb_session_in_order_witness:
  "\<exists>ls t s. gdb_reach (\<lambda>_. sample_gdb) fun_mpc idle_server ls t s \<and> snd s = [''+'', ''$S05#b8''] \<and>
     handled_packets ls = [(7, message_packet (Command halt_query)), (7, message_packet Ack)]"
proof -
  obtain ls t s where r: "gdb_reach (\<lambda>_. sample_gdb) fun_mpc idle_server ls t s"
    "accepted_conns ls = map (apsnd session_text) [(7, sample_session)]" "gt_serve t = AtAccept" "snd s = [''+'', ''$S05#b8'']"
    using sample_gdb_run by blast
  have "\<forall>c \<in> set [(7 :: nat, sample_session)]. list_all message_ok (snd c)" using halt_query_ok by (simp add: message_ok_def)
  from gdb_session_in_order [OF fun_mpc.mpc_laws_axioms r(1,2) this] r(3)
  have "handled_packets ls = [(7, message_packet (Command halt_query)), (7, message_packet Ack)]" by simp
  with r(1,4) show ?thesis by blast
qed

section \<open>Loading an executable\<close>

text \<open>
  Loading an executable puts every segment in its place. When the loadable segments lie inside the memory and do not
  overlap, the loader succeeds; afterwards the memory holds, at the physical address of each segment, its bytes
  from the file followed by zeros up to its size in memory, and every other byte is as before.
\<close>

lemma elf_image_loaded:
  assumes "list_all (segment_fits sz offset) (get_load_sections elf)" "segments_disjoint offset (get_load_sections elf)"
    and "sm_size m = sz" "length (sm_data m) = unat sz"
  shows "\<exists>mem. load_executable_image simple_memory_if elf sz offset False m = (Inr (), m\<lparr>sm_data := mem\<rparr>) \<and>
    list_all (holds_segment elf offset mem) (get_load_sections elf) \<and>
    (\<forall>j<unat sz. (\<forall>p\<in>set (get_load_sections elf). j \<notin> segment_range offset p) \<longrightarrow> mem ! j = sm_data m ! j)"
proof -
  have "simple_memory_wf (unat sz) m" using assms(3,4) by (simp add: simple_memory_wf_def)
  from simple_memory.load_segments_effect [OF assms(1,2) this, of elf]
  obtain m' where m': "load_executable_image simple_memory_if elf sz offset False m = (Inr (), m')" "simple_memory_wf (unat sz) m'"
    "list_all (holds_segment elf offset (sm_data m')) (get_load_sections elf)"
    "\<forall>j<unat sz. (\<forall>p\<in>set (get_load_sections elf). j \<notin> segment_range offset p) \<longrightarrow> sm_data m' ! j = sm_data m ! j"
    by (auto simp: load_executable_image_def)
  moreover have "m' = m\<lparr>sm_data := sm_data m'\<rparr>" using m'(2) assms(3) by (cases m; cases m') (simp add: simple_memory_wf_def word_unat_eq_iff)
  ultimately show ?thesis by metis
qed

text \<open>A file with one segment of two bytes and a size of four in memory.\<close>

definition sample_elf :: "u8 list" where
  "sample_elf = replicate 28 0 @ [52, 0, 0, 0] @ replicate 10 0 @ [32, 0, 1, 0] @ replicate 6 0 @
     [1, 0, 0, 0, 84, 0, 0, 0, 8, 0, 0, 0, 8, 0, 0, 0, 2, 0, 0, 0, 4, 0, 0, 0] @ replicate 8 0 @ [0xCA, 0xFE]"

definition sample_phdr :: Elf32_Phdr where
  "sample_phdr = \<lparr>p_type = 1, p_offset = 84, p_vaddr = 8, p_paddr = 8, p_filesz = 2, p_memsz = 4\<rparr>"

lemmas sample_elf_simps = sample_elf_def le16_def le32_def mem_read_def bytes_to_nat_def

lemma sample_elf_sections: "get_load_sections sample_elf = [sample_phdr]"
proof -
  have "e_phoff (elf_hdr sample_elf) = 52" "e_phentsize (elf_hdr sample_elf) = 32" "e_phnum (elf_hdr sample_elf) = 1"
    by (simp_all add: elf_hdr_def sample_elf_simps)
  moreover have "phdr_at sample_elf 52 = sample_phdr"
    by (simp add: phdr_at_def sample_phdr_def sample_elf_simps)
  ultimately show ?thesis
    by (simp add: get_load_sections_def phdr_off_def Let_def sample_phdr_def)
qed

lemma sample_elf_bytes: "segment_bytes sample_elf sample_phdr = [0xCA, 0xFE, 0, 0]"
proof -
  have "mem_read 84 2 sample_elf = [0xCA, 0xFE]" by (simp add: sample_elf_simps)
  moreover have "replicate 2 0 = [0, 0 :: u8]" by (simp add: numeral_2_eq_2)
  ultimately show ?thesis by (simp add: segment_bytes_def sample_phdr_def)
qed

lemma elf_image_loaded_witness:
  "\<exists>mem. load_executable_image simple_memory_if sample_elf 16 0 False \<lparr>sm_data = replicate 16 7, sm_size = 16\<rparr> =
     (Inr (), \<lparr>sm_data = mem, sm_size = 16\<rparr>) \<and> mem ! 8 = 0xCA \<and> mem ! 9 = 0xFE \<and> mem ! 10 = 0 \<and> mem ! 12 = 7"
proof -
  have "list_all (segment_fits 16 0) (get_load_sections sample_elf)" "segments_disjoint 0 (get_load_sections sample_elf)"
    by (simp_all add: sample_elf_sections sample_phdr_def segment_fits_def segments_disjoint_def)
  from elf_image_loaded [OF this, of "\<lparr>sm_data = replicate 16 7, sm_size = 16\<rparr>"]
  obtain mem where mem: "load_executable_image simple_memory_if sample_elf 16 0 False \<lparr>sm_data = replicate 16 7, sm_size = 16\<rparr> =
      (Inr (), \<lparr>sm_data = mem, sm_size = 16\<rparr>)" "holds_segment sample_elf 0 mem sample_phdr"
    "\<forall>j<16. j \<notin> segment_range 0 sample_phdr \<longrightarrow> mem ! j = replicate 16 7 ! j"
    by (auto simp: sample_elf_sections)
  have at: "i < 4 \<Longrightarrow> mem ! (8 + i) = [0xCA, 0xFE, 0, 0] ! i" for i
    using mem(2) unfolding holds_segment_def sample_elf_bytes by (simp add: sample_phdr_def)
  have "mem ! 8 = 0xCA" "mem ! 9 = 0xFE" "mem ! 10 = 0" using at [of 0] at [of 1] at [of 2] by simp_all
  moreover have "mem ! 12 = 7" using mem(3) by (auto simp: segment_range_def sample_phdr_def)
  ultimately show ?thesis using mem(1) by auto
qed

section \<open>Exploration\<close>


text \<open>A context that is the number of open paths, each execution reporting no error.\<close>

definition sample_explore :: "(nat, nat) explore_env" where
  "sample_explore = \<lparr>xe_tracer_reset = \<lambda>c. c, xe_sc_elab_and_sim = \<lambda>n c. (0, explore_init, c),
     xe_setupNewValues = \<lambda>c. (0 < c, 700, c - 1), xe_getPrevStore = \<lambda>c. Some c, xe_dump_all = True, xe_open = \<lambda>fn. True\<rparr>"

definition sample_host :: explore_host where
  "sample_host = \<lparr>host_mkdtemp = Some ''/tmp/clover_tests0'', host_atexit = True, host_timebudget = Some ''60'',
     host_sigemptyset = True, host_sigaction = True\<rparr>"


end
