(* ===== verification/Debug_Props.thy ===== *)
theory Debug_Props
  imports Gdb_Target Host_Props Mem_Props Run_Props
begin

text \<open>
  What a debugger sees and does on the SymEx platform: registers and memory are shown as the guest sees
  them, and the commands to step and to continue run the core and report why it stopped.
\<close>

section \<open>Numbers of a fixed number of digits\<close>

fun hex_number :: "nat \<Rightarrow> nat \<Rightarrow> string" where
    "hex_number 0 n = []"
  | "hex_number (Suc k) n = hex_number k (n div 16) @ [hex_digit (n mod 16)]"

lemma hex_number_zero: "hex_number k 0 = replicate k (CHR ''0'')"
  by (induction k) (simp_all add: hex_digit_zero replicate_append_same)

lemma pad_hex_digits: "n < 16 ^ k \<Longrightarrow> 0 < k \<Longrightarrow> pad_zero k (hex_digits n) = hex_number k n"
proof (induction k arbitrary: n)
  case (Suc k)
  show ?case
  proof (cases "n < 16")
    case True
    then show ?thesis by (simp add: hex_digits.simps [of n] pad_zero_def hex_number_zero)
  next
    case False
    then have "pad_zero (Suc k) (hex_digits n) = pad_zero k (hex_digits (n div 16)) @ [hex_digit (n mod 16)]"
      by (simp add: hex_digits.simps [of n] pad_zero_def)
    moreover from False Suc.prems have "0 < k" by (cases k) simp_all
    moreover have "n div 16 < 16 ^ k" using Suc.prems(1) by (simp add: less_mult_imp_div_less mult.commute)
    ultimately show ?thesis using Suc.IH [of "n div 16"] by simp
  qed
qed simp

lemma hex_number_append: "c < 16 ^ k \<Longrightarrow> hex_number (j + k) (a * 16 ^ k + c) = hex_number j a @ hex_number k c"
proof (induction k arbitrary: c)
  case (Suc k)
  have "a * 16 ^ Suc k + c = c + 16 * (a * 16 ^ k)" by simp
  then have "(a * 16 ^ Suc k + c) div 16 = a * 16 ^ k + c div 16" "(a * 16 ^ Suc k + c) mod 16 = c mod 16"
    by (simp_all only: mod_mult_self2 div_mult_self2 [of 16])
  moreover have "c div 16 < 16 ^ k" using Suc.prems by (simp add: less_mult_imp_div_less mult.commute)
  ultimately show ?case using Suc.IH [of "c div 16"] by simp
qed simp

lemma bytes_to_nat_snoc: "bytes_to_nat (bs @ [b]) = bytes_to_nat bs + unat b * 256 ^ length bs"
  by (induction bs) (simp_all add: bytes_to_nat_Cons algebra_simps, simp add: bytes_to_nat_def)

lemma hex_bytes_number: "hex_number (2 * length bs) (bytes_to_nat (rev bs)) = concat (map hex_byte bs)"
proof (induction bs)
  case (Cons b bs)
  have "unat b < 256" using unsigned_less [of b, where 'a = nat] by simp
  then have "hex_number 2 (unat b) = hex_byte b" by (simp add: hex_byte_digits numeral_2_eq_2)
  moreover have p: "(16 :: nat) ^ (2 * length bs) = 256 ^ length bs" by (simp add: power_mult)
  moreover have "bytes_to_nat (rev bs) < 256 ^ length bs" using bytes_to_nat_less [of "rev bs"] by (simp add: power_mult)
  ultimately have "hex_number (2 + 2 * length bs) (unat b * 256 ^ length bs + bytes_to_nat (rev bs)) = hex_byte b @ concat (map hex_byte bs)"
    using Cons hex_number_append [of "bytes_to_nat (rev bs)" "2 * length bs" 2 "unat b"] by (simp only: p)
  then show ?case by (simp add: bytes_to_nat_snoc add.commute)
qed simp

lemma format_word: "formatRegister RV32 (ucast (w :: u32)) s = (Inr (concat (map hex_byte (nat_to_bytes 4 (unat w)))), s)"
proof -
  have u: "unat (ucast w :: u64) = unat w" using unsigned_less [of w, where 'a = nat] by (simp add: unsigned_ucast_eq take_bit_nat_eq_self)
  have "bytes_to_nat (rev (nat_to_bytes 4 (unat w))) < 16 ^ 8"
    using bytes_to_nat_less [of "rev (nat_to_bytes 4 (unat w))"] by simp
  from pad_hex_digits [OF this] hex_bytes_number [of "nat_to_bytes 4 (unat w)"]
  show ?thesis by (simp add: bswap_def u return_m_def)
qed

section \<open>Handling a command\<close>

definition packet_text :: "string \<Rightarrow> string" where
  "packet_text d = ''$'' @ d @ ''#'' @ printf_02x (calc_csum d)"

definition word_hex :: "u32 \<Rightarrow> string" where
  "word_hex w = concat (map hex_byte (nat_to_bytes 4 (unat w)))"

definition acknowledged :: "('v, 'e, 'm) gdb_target \<Rightarrow> ('v, 'e, 'm) gdb_target" where
  "acknowledged = gx_sent_update (\<lambda>out. out @ [''+''])"

definition thread_selected :: "('v, 'e, 'm) gdb_target \<Rightarrow> bool" where
  "thread_selected s \<longleftrightarrow> thread_ops (gx_server s) (CHR ''g'') \<in> {None, Some 0, Some 1, Some (- 1)}"

definition is_command :: "(string \<Rightarrow> error + gdb_command_t option) \<Rightarrow> gdb_packet_t \<Rightarrow> string \<Rightarrow> gdb_arg \<Rightarrow> bool" where
  "is_command parse_text pkt name arg \<longleftrightarrow> pkt_kind pkt = GDB_KIND_PACKET \<and>
     gdb_parse_cmd parse_text pkt = Inr (Some \<lparr>cmd_name = name, cmd_arg = arg\<rparr>)"

lemma target_fields [simp]:
  "ge_part (debug_target cv pl dbg fuel) = server_part" "ge_arch (debug_target cv pl dbg fuel) = RV32"
  "ge_nharts (debug_target cv pl dbg fuel) = 1" "ge_v2p (debug_target cv pl dbg fuel) i = None"
  "ge_get_registers (debug_target cv pl dbg fuel) i = on_core (get_registers cv)"
  "ge_transport_dbg (debug_target cv pl dbg fuel) = debug_port dbg"
  "ge_writeall (debug_target cv pl dbg fuel) = (\<lambda>p. modify_m (gx_sent_update (\<lambda>out. out @ [p])))"
  "ge_get_status (debug_target cv pl dbg fuel) i = (\<lambda>s. h_status (gx_core s))"
  "ge_set_status (debug_target cv pl dbg fuel) i st = on_core (set_status st)"
  "ge_get_hart_id (debug_target cv pl dbg fuel) i = (\<lambda>s. ucast (mhartid_reg (h_csrs (gx_core s))))"
  "ge_wait_stop (debug_target cv pl dbg fuel) i = return_m ()"
  "ge_run (debug_target cv pl dbg fuel) hs = runner_round cv pl dbg fuel"
  by (simp_all add: debug_target_def stopped_target_def)

lemma handle_command:
  assumes "is_command parse_text pkt name arg" and "map_of handlers name = Some handler"
  shows "gdb_run_packet (debug_target cv pl dbg fuel) parse_text pkt s =
    handler (debug_target cv pl dbg fuel) arg (acknowledged s)"
proof -
  have "gdb_serialize GDB_KIND_ACK None = Inr ''+''" by code_simp
  with assms show ?thesis
    by (simp add: is_command_def gdb_run_packet_def send_packet_def catch_if_def acknowledged_def monad_simps)
qed

lemma ascii_hex_bytes: "list_all ascii (concat (map hex_byte bs))"
proof -
  have "ascii (hex_digit d)" if "d < 16" for d using hex_digits_plain(2) [OF that] by (simp add: plain_def)
  then have "list_all ascii (hex_byte b)" for b
    using unsigned_less [of b, where 'a = nat] by (simp add: hex_byte_digits)
  then show ?thesis by (induction bs) simp_all
qed

lemma ascii_word_hex: "list_all ascii (word_hex w)"
  by (simp add: word_hex_def ascii_hex_bytes)

lemma reply_packet:
  assumes "list_all ascii d"
  shows "reply (debug_target cv pl dbg fuel) d s = (Inr (), answered (packet_text d) s)"
  using csum_length [OF assms] by (intro reply_answered) (simp_all add: gdb_serialize_def packet_text_def Let_def)

lemma exec_thread_target:
  assumes "thread_selected s"
  shows "exec_thread (debug_target cv pl dbg fuel) f s = f 0 s"
proof -
  have "\<exists>i \<in> {0, 1, - 1}. (case thread_ops (gx_server s) (CHR ''g'') of Some n \<Rightarrow> n | None \<Rightarrow> GDB_THREAD_ANY) = i"
    using assms by (auto simp: thread_selected_def)
  then show ?thesis
    by (auto simp: exec_thread_def threads_m_def get_threads_def bind_m_apply return_m_def split: prod.splits sum.splits)
qed

lemma format_words: "formatRegisters RV32 (map ucast ws) s = (Inr (concat (map word_hex ws)), s)"
  by (induction ws) (simp_all add: format_word word_hex_def bind_m_apply return_m_def del: formatRegister.simps)

lemma thread_acknowledged [simp]: "thread_selected (acknowledged s) = thread_selected s" "gx_core (acknowledged s) = gx_core s"
  "acknowledged s\<lparr>gx_core := gx_core s\<rparr> = acknowledged s"
  by (cases s; simp add: thread_selected_def acknowledged_def)+

section \<open>Reading\<close>

text \<open>
  C35: The debugger shows the registers of the guest. On every platform, the answer to the command \<open>g\<close> is
  the packet with the concrete values of the registers in the order of their numbers, each as eight
  hexadecimal digits of its bytes in memory order; nothing of the core changes.
\<close>

theorem debugger_reads_registers:
  assumes "clover_laws cv ev sem cur" and "is_command parse_text pkt ''g'' arg" and "thread_selected s"
  shows "gdb_run_packet (debug_target cv pl dbg fuel) parse_text pkt s =
    (Inr (), answered (packet_text (concat (map (\<lambda>v. word_hex (val32 ev cur v)) (h_regs (gx_core s))))) (acknowledged s))"
proof -
  let ?ws = "map (val32 ev cur) (h_regs (gx_core s))" and ?e = "debug_target cv pl dbg fuel"
  have "get_registers cv (gx_core s) = (Inr (map ucast ?ws), gx_core s)"
    by (simp add: get_registers_def clover_laws.val32_getValue [OF assms(1)])
  then have "exec_thread ?e (\<lambda>h. bind_m (ge_get_registers ?e h) (formatRegisters (ge_arch ?e))) (acknowledged s) =
      (Inr (concat (map word_hex ?ws)), acknowledged s)"
    using assms(3) format_words [of ?ws] by (simp add: exec_thread_target on_core_apply bind_m_apply del: map_map)
  moreover have "list_all ascii (concat (map word_hex ?ws))"
    using ascii_word_hex by (auto simp: list_all_iff)
  moreover have "gdb_run_packet ?e parse_text pkt s = getRegisters ?e arg (acknowledged s)"
    by (rule handle_command [OF assms(2)]) (simp add: handlers_def)
  ultimately show ?thesis by (simp add: reply_packet getRegisters_def bind_m_apply comp_def)
qed

context symex_laws
begin

lemma debug_read_word:
  assumes "memory_size_ok h" and "unat (a :: u32) + 4 \<le> 0x02000000"
  defines "v \<equiv> cm_load cm (sym_memory (d_memory (devices h))) (ucast a) 4"
  shows "symex_debug cv cm \<lparr>p_command = TLM_READ_COMMAND, p_address = ucast a, p_data = replicate 4 0, p_error = False, p_extension = None\<rparr> h =
    (Inr (4, \<lparr>p_command = TLM_READ_COMMAND, p_address = ucast a, p_data = nat_to_bytes 4 (ev cur v), p_error = False, p_extension = Some v\<rparr>), h)"
  using fits_memory [OF assms(2)] assms(1) memory_port [of "ucast a"]
  by (simp add: symex_debug_def bus_transport_dbg_def symex_ports_def PortMapping_of_def global_to_local_def run_at_def
      sym_debug_def sym_transport_dbg_def sym_read_data_def memory_size_ok_def BVCToBytes_law v_def monad_simps
      not_less [symmetric] upd_devices_id Let_def)

lemma debugger_reads_word:
  assumes "regs_wf cv (h_regs h)" and "direct_access STORE h" and "memory_size_ok h"
    and "(val32 ev cur (h_regs h ! unat (rs1 w)) + I_imm w) mod 4 = 0"
    and "unat (val32 ev cur (h_regs h ! unat (rs1 w)) + I_imm w) + 4 \<le> 0x02000000"
    and "gx_core s = h" and "thread_selected s"
    and "is_command parse_text pkt ''m''
      (GDB_ARG_MEMORY \<lparr>mem_addr = ucast (val32 ev cur (h_regs h ! unat (rs1 w)) + I_imm w), mem_length = 4\<rparr>)"
  shows "\<exists>h'. exec_op cv (symex_platform cv cm K (Suc n)) w (OpI LW) h = (Inr (), h') \<and>
    gdb_run_packet (symex_gdb cv cm K (Suc n) fuel) parse_text pkt s =
      (Inr (), answered (packet_text (word_hex (val32 ev cur (h_regs h' ! unat (rd w))))) (acknowledged s))"
proof -
  let ?a = "val32 ev cur (h_regs h ! unat (rs1 w)) + I_imm w" and ?e = "symex_gdb cv cm K (Suc n) fuel"
  let ?v = "cm_load cm (sym_memory (d_memory (devices h))) (ucast ?a) 4"
  note lw = lw_direct(1) [OF assms(1-5), of n] lw_direct(2,3) [OF assms(1-5)]
  have bytes: "concat (map hex_byte (nat_to_bytes 4 (ev cur ?v))) = word_hex (val32 ev cur ?v)"
    by (simp add: word_hex_def unat_val32 [OF lw(3)])
  have e: "?e = debug_target cv (symex_platform cv cm K (Suc n)) (symex_debug cv cm) fuel" by (simp add: symex_gdb_def)
  have "read_memory ?e (ucast ?a) 4 (acknowledged s) = (Inr (word_hex (val32 ev cur ?v)), acknowledged s)"
    using debug_read_word [OF assms(3,5)] assms(6)
    by (simp add: e read_memory_def dbg_transaction_def debug_port_def on_core_apply bytes assert_m_def monad_simps)
  then have "readMemory ?e (GDB_ARG_MEMORY \<lparr>mem_addr = ucast ?a, mem_length = 4\<rparr>) (acknowledged s) =
      (Inr (), answered (packet_text (word_hex (val32 ev cur ?v))) (acknowledged s))"
    using assms(7)
    by (simp add: e readMemory_def catch_if_def exec_thread_target translate_addr_def assert_m_def
        reply_packet [OF ascii_word_hex] monad_simps)
  moreover have "gdb_run_packet ?e parse_text pkt s = readMemory ?e (GDB_ARG_MEMORY \<lparr>mem_addr = ucast ?a, mem_length = 4\<rparr>) (acknowledged s)"
    unfolding e by (rule handle_command [OF assms(8)]) (simp add: handlers_def)
  moreover have "unat (rd w) < length (h_regs h)" using assms(1) register_index_bounds [of w] by (simp add: regs_wf_def)
  ultimately show ?thesis
    using lw(1,2) by simp
qed

end

text \<open>
  C36: The debugger shows the memory of the guest. On the SymEx platform, with untranslated accesses, the
  answer to a read of four bytes at an address of the memory is the packet with the bytes, in memory order, of
  the concrete value that a load of the guest from the same address puts into its register; the core is
  not changed by the debugger's access.
\<close>

theorem debugger_reads_memory:
  assumes "symex_laws cv ev sem cur cm K PE" and "regs_wf cv (h_regs h)" and "direct_access STORE h" and "memory_size_ok h"
    and "(val32 ev cur (h_regs h ! unat (rs1 w)) + I_imm w) mod 4 = 0"
    and "unat (val32 ev cur (h_regs h ! unat (rs1 w)) + I_imm w) + 4 \<le> 0x02000000"
    and "gx_core s = h" and "thread_selected s"
    and "is_command parse_text pkt ''m''
      (GDB_ARG_MEMORY \<lparr>mem_addr = ucast (val32 ev cur (h_regs h ! unat (rs1 w)) + I_imm w), mem_length = 4\<rparr>)"
  shows "\<exists>h'. exec_op cv (symex_platform cv cm K (Suc n)) w (OpI LW) h = (Inr (), h') \<and>
    gdb_run_packet (symex_gdb cv cm K (Suc n) fuel) parse_text pkt s =
      (Inr (), answered (packet_text (word_hex (val32 ev cur (h_regs h' ! unat (rd w))))) (acknowledged s))"
  using symex_laws.debugger_reads_word [OF assms] .

text \<open>A debugger on the sample core, with the grammar's combinators of \<open>fun_mpc\<close>.\<close>

lemma ok_command: "command_ok c \<Longrightarrow> is_command (stage2_parse fun_mpc) (message_packet (Command c)) (cmd_name c) (cmd_arg c)"
  using fun_mpc.parse_command by (simp add: is_command_def message_packet_def)

abbreviation no_argument :: "string \<Rightarrow> gdb_command_t" where "no_argument name \<equiv> \<lparr>cmd_name = name, cmd_arg = GDB_ARG_NONE\<rparr>"

lemma attached_thread: "thread_selected (attach_debugger h)"
  by (simp add: thread_selected_def attach_debugger_def)

lemma attached_core: "gx_core (attach_debugger h) = h\<lparr>h_ignore_wfi := True, h_debug_mode := True\<rparr>"
  by (simp add: attach_debugger_def block_on_wfi_def enable_debug_def monad_simps)

theorem debugger_reads_registers_witness:
  "gdb_run_packet (symex_gdb (bv_clover sample_inputs) bv_memory bv_kernel 1 9) (stage2_parse fun_mpc)
      (message_packet (Command (no_argument ''g''))) (attach_debugger sample_hart) =
    (Inr (), answered (packet_text (concat (replicate 32 (word_hex 0)))) (acknowledged (attach_debugger sample_hart)))"
proof -
  have r: "map (\<lambda>v. word_hex (val32 bv_eval sample_inputs v)) (h_regs (gx_core (attach_debugger sample_hart))) = replicate 32 (word_hex 0)"
    by (simp add: attached_core sample_hart_def val32_def map_update) (simp add: numeral_eq_Suc)
  have "is_command (stage2_parse fun_mpc) (message_packet (Command (no_argument ''g''))) ''g'' GDB_ARG_NONE"
    using ok_command [of "no_argument ''g''"] by (simp add: command_ok_def plain_def ascii_def)
  then show ?thesis
    unfolding symex_gdb_def r [symmetric] by (rule debugger_reads_registers [OF bv.clover_laws_axioms _ attached_thread])
qed

text \<open>A read of the word at \<open>0x100\<close>, and the load of the guest from there.\<close>

abbreviation read_0x100 :: gdb_command_t where
  "read_0x100 \<equiv> \<lparr>cmd_name = ''m'', cmd_arg = GDB_ARG_MEMORY \<lparr>mem_addr = 0x100, mem_length = 4\<rparr>\<rparr>"

theorem debugger_reads_memory_witness:
  "\<exists>h'. exec_op (bv_clover sample_inputs) (bv_symex sample_inputs 1) 0x10012183 (OpI LW) (gx_core (attach_debugger sample_hart)) = (Inr (), h') \<and>
    gdb_run_packet (symex_gdb (bv_clover sample_inputs) bv_memory bv_kernel 1 9) (stage2_parse fun_mpc)
      (message_packet (Command read_0x100)) (attach_debugger sample_hart) =
      (Inr (), answered (packet_text (word_hex (val32 bv_eval sample_inputs (h_regs h' ! 3)))) (acknowledged (attach_debugger sample_hart)))"
proof -
  have i: "rs1 0x10012183 = 2" "I_imm 0x10012183 = 0x100" "rd 0x10012183 = 3" by code_simp+
  let ?h = "gx_core (attach_debugger sample_hart)"
  have r: "h_regs ?h ! 2 = Concrete 32 0" by (simp add: sample_hart_def attached_core)
  have d: "regs_wf (bv_clover sample_inputs) (h_regs ?h)" "direct_access STORE ?h" "memory_size_ok ?h"
    using sample_regs sample_direct by (simp_all add: attached_core direct_access_def paging_def effective_mode_def memory_size_ok_def
        access_must_wait_def devices_def hart_id_def split: if_splits)
  have "is_command (stage2_parse fun_mpc) (message_packet (Command read_0x100)) ''m'' (cmd_arg read_0x100)"
    using ok_command [of read_0x100] by (simp add: command_ok_def)
  then show ?thesis
    using debugger_reads_memory [OF symex.symex_laws_axioms d, where w = "0x10012183" and s = "attach_debugger sample_hart"
        and parse_text = "stage2_parse fun_mpc" and n = 0] attached_thread [of sample_hart]
    by (simp add: i r val32_def)
qed

section \<open>Running\<close>

text \<open>The state after the core has run: the thread that stopped is the one the next commands refer to.\<close>

definition stopped_with :: "bool \<Rightarrow> ('v, 'e, 'm) hart \<Rightarrow> ('v, 'e, 'm) gdb_target \<Rightarrow> ('v, 'e, 'm) gdb_target" where
  "stopped_with single h s = s\<lparr>gx_core := if h_status h = Terminated then h else h\<lparr>h_status := Runnable\<rparr>,
     gx_server := (gx_server s)\<lparr>single_run := single, thread_ops := (thread_ops (gx_server s))(CHR ''g'' \<mapsto> 1)\<rparr>\<rparr>"

definition core_ran :: "('v, 'e) clover \<Rightarrow> ('v, 'e, 'm) platform \<Rightarrow> nat \<Rightarrow> bool \<Rightarrow> ('v, 'e, 'm) hart \<Rightarrow> ('v, 'e, 'm) hart \<Rightarrow> bool" where
  "core_ran cv pl fuel single h h' \<longleftrightarrow>
     (if single then run_step cv pl h = (Inr (), h') else run cv pl fuel h = Some (Inr (), h') \<and> h_status h' \<noteq> Runnable)"

lemma target_threads: "i \<in> {- 1, 0, 1} \<Longrightarrow> threads_m (debug_target cv pl dbg fuel) i s = (Inr [0], s)"
  by (auto simp: threads_m_def get_threads_def return_m_def)

lemma run_threads_target:
  assumes "core_ran cv pl fuel single (gx_core s) h'" and "h_status (gx_core s) \<noteq> Terminated"
  shows "run_threads (debug_target cv pl dbg fuel) [0] single s = (Inr [0], s\<lparr>gx_server := (gx_server s)\<lparr>single_run := single\<rparr>,
    gx_core := if h_status h' = Runnable then h'\<lparr>h_status := HitBreakpoint\<rparr> else h'\<rparr>)"
  using assms
  by (cases "h_status h'"; cases s)
    (simp_all add: run_threads_def runner_round_def gdb_runner_round_def stopped_target_def core_ran_def run_core_def on_core_apply
      set_status_def monad_simps split: if_splits)

definition stop_text :: "('v, 'e, 'm) hart \<Rightarrow> string" where
  "stop_text h = (if h_status h = Terminated then ''T03thread:1;'' else ''T05thread:1;'')"

lemma thread_number: "nat_to_string (Suc 0) = ''1''"
  by code_simp

lemma stop_ascii: "list_all ascii (stop_text h)"
  by (simp add: stop_text_def ascii_def)

text \<open>
  C37: The debugger runs the core. A \<open>vCont\<close> command for the core's thread with the action \<open>s\<close> executes one step of
  the simulator, with the action \<open>c\<close> it executes the core until it stops; on every platform the answer is
  a stop packet with signal 5, or 3 when the program has ended, and a core that has not ended is runnable again.
\<close>

theorem debugger_runs_core:
  assumes "is_command parse_text pkt ''vCont'' (GDB_ARG_VCONT [v])"
    and "vc_action v \<in> {CHR ''s'', CHR ''c''}" and "thr_tid (vc_thread v) \<in> {- 1, 0, 1}"
    and "core_ran cv pl fuel (vc_action v = CHR ''s'') (gx_core s) h'"
    and "h_status (gx_core s) \<noteq> Terminated" and "mhartid_reg (h_csrs h') = 0"
  shows "gdb_run_packet (debug_target cv pl dbg fuel) parse_text pkt s =
    (Inr (), answered (packet_text (stop_text h')) (stopped_with (vc_action v = CHR ''s'') h' (acknowledged s)))"
proof -
  let ?e = "debug_target cv pl dbg fuel" and ?single = "vc_action v = CHR ''s''"
  let ?g = "(gx_server s)\<lparr>single_run := ?single\<rparr>"
  let ?c = "if h_status h' = Terminated then h' else h'\<lparr>h_status := Runnable\<rparr>"
  let ?info = "Some (if h_status h' = Terminated then ''03'' else ''05'', 1)"
  note run = run_threads_target [of cv pl fuel ?single "acknowledged s" h' dbg]
  have "vCont_loop ?e {} None [v] (acknowledged s) = (Inr (Some ?info), (acknowledged s)\<lparr>gx_server := ?g, gx_core := ?c\<rparr>)"
    using assms(2-6) run target_threads [OF assms(3), of cv pl dbg fuel]
    by (cases "h_status h'"; cases s)
      (auto simp: catch_if_def acknowledged_def on_core_apply set_status_def monad_simps)
  then have "vCont ?e (GDB_ARG_VCONT [v]) (acknowledged s) =
      (Inr (), answered (packet_text (stop_text h')) (stopped_with ?single h' (acknowledged s)))"
    using reply_packet [OF stop_ascii, of cv pl dbg fuel h' "stopped_with ?single h' (acknowledged s)"]
    by (cases s; cases "gx_server s")
      (simp add: vCont_def stop_text_def stopped_with_def thread_number acknowledged_def monad_simps del: vCont_loop.simps split: if_splits)
  moreover have "gdb_run_packet ?e parse_text pkt s = vCont ?e (GDB_ARG_VCONT [v]) (acknowledged s)"
    by (rule handle_command [OF assms(1)]) (simp add: handlers_def)
  ultimately show ?thesis by simp
qed

text \<open>A core with a breakpoint at its program counter is told to continue.\<close>

abbreviation continue_all :: gdb_vcont_t where
  "continue_all \<equiv> \<lparr>vc_action = CHR ''c'', vc_sig = - 1, vc_thread = \<lparr>thr_pid = GDB_THREAD_UNSET, thr_tid = GDB_THREAD_ALL\<rparr>\<rparr>"

definition at_breakpoint :: "(bv_value, bv_expr, (bv_value, bv_image symex_devices) mem_world) gdb_target" where
  "at_breakpoint = attach_debugger (nop_hart\<lparr>h_breakpoints := {0x10000}\<rparr>)"

lemma breakpoint_reached:
  "core_ran (bv_clover sample_inputs) (bv_symex sample_inputs 1) 9 False (gx_core at_breakpoint)
     ((gx_core at_breakpoint)\<lparr>h_status := HitBreakpoint\<rparr>)"
  "h_status (gx_core at_breakpoint) = Runnable" "mhartid_reg (h_csrs (gx_core at_breakpoint)) = 0"
proof -
  have "h_status nop_hart = Runnable"
    by (simp add: symex_init_def ISS_init_def ISS_construct_def RegFile_write_def assert_m_def then_m_apply Let_def)
  then show "h_status (gx_core at_breakpoint) = Runnable" "mhartid_reg (h_csrs (gx_core at_breakpoint)) = 0"
    by (simp_all add: at_breakpoint_def attached_core init_fields)
  have "getValue (bv_clover sample_inputs) (Concrete 32 0) = 0" by (simp add: bv_clover_def)
  then have "run_step (bv_clover sample_inputs) pl (gx_core at_breakpoint) =
      (Inr (), (gx_core at_breakpoint)\<lparr>h_status := HitBreakpoint\<rparr>)" for pl
    by (simp add: run_step_def at_breakpoint_def attached_core nop_fields RegFile_read_def assert_m_def set_status_def monad_simps)
  moreover have "quantum_sync (bv_symex sample_inputs 1) = return_m ()"
    by (simp add: symex_platform_def mem_platform_def symex_kernel_def bv_kernel_def)
  ultimately show "core_ran (bv_clover sample_inputs) (bv_symex sample_inputs 1) 9 False (gx_core at_breakpoint)
      ((gx_core at_breakpoint)\<lparr>h_status := HitBreakpoint\<rparr>)"
    by (simp add: core_ran_def numeral_eq_Suc return_m_def)
qed

theorem debugger_runs_core_witness:
  "gdb_run_packet (symex_gdb (bv_clover sample_inputs) bv_memory bv_kernel 1 9) (stage2_parse fun_mpc)
      (message_packet (Command \<lparr>cmd_name = ''vCont'', cmd_arg = GDB_ARG_VCONT [continue_all]\<rparr>)) at_breakpoint =
    (Inr (), answered (packet_text ''T05thread:1;'')
      (stopped_with False ((gx_core at_breakpoint)\<lparr>h_status := HitBreakpoint\<rparr>) (acknowledged at_breakpoint)))"
proof -
  let ?c = "\<lparr>cmd_name = ''vCont'', cmd_arg = GDB_ARG_VCONT [continue_all]\<rparr>"
  have "is_command (stage2_parse fun_mpc) (message_packet (Command ?c)) ''vCont'' (GDB_ARG_VCONT [continue_all])"
    using ok_command [of ?c] by (simp add: command_ok_def action_ok_def thread_ok_def id_ok_def)
  from debugger_runs_core [OF this, of "bv_clover sample_inputs" "bv_symex sample_inputs 1" 9 at_breakpoint
      "(gx_core at_breakpoint)\<lparr>h_status := HitBreakpoint\<rparr>"] breakpoint_reached
  show ?thesis by (simp add: symex_gdb_def stop_text_def)
qed

end
