(* ===== verification/Sc_Main.thy ===== *)
theory Sc_Main
  imports Gdb_Target Elf_Loader
begin

text \<open>
  The entry points of the two simulators: the command line options (\<^verbatim>\<open>platform/common/options.cpp\<close>) and \<^verbatim>\<open>sc_main\<close>
  of \<^verbatim>\<open>platform/symex/symex_main.cpp\<close> and \<^verbatim>\<open>platform/hifive/hifive_main.cpp\<close>. Boost's parser is an argument, which gives the map
  of variables or the text of an error; so are the files of the host and, for a run with a debugger, the session
  of the GDB server. The end of \<^verbatim>\<open>sc_main\<close> is a call of \<^verbatim>\<open>exit\<close> or the returned value with the lines printed.
\<close>

section \<open>Options\<close>

datatype po_value = PoBool bool | PoUnsigned u32 | PoString string

type_synonym variables_map = "string \<Rightarrow> po_value option"

record Options =
  input_program :: string
  use_debug_runner :: bool
  opt_debug_port :: u32
  trace_mode :: bool
  tlm_global_quantum :: u32
  use_instr_dmi :: bool
  use_data_dmi :: bool

text \<open>Assigning a variable bound to an option, when the map has a value for it.\<close>

definition po_bool :: "variables_map \<Rightarrow> string \<Rightarrow> bool \<Rightarrow> bool" where
  "po_bool vm name old = (case vm name of Some (PoBool b) \<Rightarrow> b | _ \<Rightarrow> old)"

definition po_unsigned :: "variables_map \<Rightarrow> string \<Rightarrow> u32 \<Rightarrow> u32" where
  "po_unsigned vm name old = (case vm name of Some (PoUnsigned n) \<Rightarrow> n | _ \<Rightarrow> old)"

definition po_string :: "variables_map \<Rightarrow> string \<Rightarrow> string \<Rightarrow> string" where
  "po_string vm name old = (case vm name of Some (PoString t) \<Rightarrow> t | _ \<Rightarrow> old)"

definition Options_notify :: "variables_map \<Rightarrow> 'x Options_scheme \<Rightarrow> string + 'x Options_scheme" where
  "Options_notify vm opt =
     (if vm ''input-file'' = None then Inl ''the option '--input-file' is required but missing''
      else Inr (opt\<lparr>use_debug_runner := po_bool vm ''debug-mode'' (use_debug_runner opt),
        opt_debug_port := po_unsigned vm ''debug-port'' (opt_debug_port opt),
        trace_mode := po_bool vm ''trace-mode'' (trace_mode opt),
        tlm_global_quantum := po_unsigned vm ''tlm-global-quantum'' (tlm_global_quantum opt),
        use_instr_dmi := po_bool vm ''use-instr-dmi'' (use_instr_dmi opt),
        use_data_dmi := po_bool vm ''use-data-dmi'' (use_data_dmi opt),
        input_program := po_string vm ''input-file'' (input_program opt)\<rparr>))"

text \<open>
  \<^verbatim>\<open>Options::parse\<close>: \<open>Inl\<close> is the code of \<^verbatim>\<open>exit\<close>. The options of the platform are part of the same description, so
  that \<^verbatim>\<open>po::notify\<close> assigns them too.
\<close>

definition Options_parse ::
  "(string list \<Rightarrow> string + variables_map) \<Rightarrow> (variables_map \<Rightarrow> 'x Options_scheme \<Rightarrow> 'x Options_scheme) \<Rightarrow>
   string list \<Rightarrow> 'x Options_scheme \<Rightarrow> nat + 'x Options_scheme" where
  "Options_parse po platform_notify argv opt = (case po argv of
     Inl what \<Rightarrow> Inl 1
   | Inr vm \<Rightarrow>
       if vm ''help'' \<noteq> None then Inl 0
       else (case Options_notify vm opt of
         Inl what \<Rightarrow> Inl 1
       | Inr opt' \<Rightarrow>
           let opt2 = platform_notify vm opt' in
           Inr (if vm ''use-dmi'' = Some (PoBool True) then opt2\<lparr>use_data_dmi := True, use_instr_dmi := True\<rparr> else opt2)))"

record SymexOptions = Options +
  quiet :: bool

definition SymexOptions_make :: SymexOptions where
  "SymexOptions_make = \<lparr>input_program = [], use_debug_runner = False, opt_debug_port = 5005, trace_mode = False,
     tlm_global_quantum = 10, use_instr_dmi = False, use_data_dmi = False, quiet = False\<rparr>"

definition SymexOptions_notify :: "variables_map \<Rightarrow> SymexOptions \<Rightarrow> SymexOptions" where
  "SymexOptions_notify vm opt = opt\<lparr>quiet := po_bool vm ''quiet'' (quiet opt)\<rparr>"

record HifiveOptions = Options +
  enable_can :: bool
  input_format :: string

definition HifiveOptions_make :: HifiveOptions where
  "HifiveOptions_make = \<lparr>input_program = [], use_debug_runner = False, opt_debug_port = 5005, trace_mode = False,
     tlm_global_quantum = 10, use_instr_dmi = False, use_data_dmi = False, enable_can = False, input_format = []\<rparr>"

definition HifiveOptions_notify :: "variables_map \<Rightarrow> HifiveOptions \<Rightarrow> HifiveOptions" where
  "HifiveOptions_notify vm opt = opt\<lparr>enable_can := po_bool vm ''enable-can'' (enable_can opt),
     input_format := po_string vm ''input-format'' (input_format opt)\<rparr>"

section \<open>Symbolic context\<close>

text \<open>
  The environment variable \<^verbatim>\<open>SYMEX_TIMEOUT\<close> sets the timeout of the solver (\<^verbatim>\<open>symex/symbolic_context.cpp\<close>); \<open>span\<close> reads the
  text of a duration. A \<^verbatim>\<open>SymbolicExtension\<close> carries a value through the payload of a transaction
  (\<^verbatim>\<open>symex/symbolic_extension.cpp\<close>), the field \<open>p_extension\<close> of the model.
\<close>

definition SymbolicContext_timeout :: "(string \<Rightarrow> 't) \<Rightarrow> string option \<Rightarrow> 't option" where
  "SymbolicContext_timeout span tm = (case tm of None \<Rightarrow> None | Some t \<Rightarrow> Some (span t))"

record 'v SymbolicExtension =
  ext_value :: 'v

definition SymbolicExtension_make :: "'v \<Rightarrow> 'v SymbolicExtension" where
  "SymbolicExtension_make v = \<lparr>ext_value = v\<rparr>"

definition SymbolicExtension_copy_from :: "'v SymbolicExtension \<Rightarrow> 'v SymbolicExtension \<Rightarrow> 'v SymbolicExtension" where
  "SymbolicExtension_copy_from other x = x\<lparr>ext_value := ext_value other\<rparr>"

definition SymbolicExtension_clone :: "'v SymbolicExtension \<Rightarrow> 'v SymbolicExtension" where
  "SymbolicExtension_clone x = \<lparr>ext_value = ext_value x\<rparr>"

definition SymbolicExtension_getValue :: "'v SymbolicExtension \<Rightarrow> 'v" where
  "SymbolicExtension_getValue x = ext_value x"

section \<open>Elaboration\<close>

text \<open>The functions of \<^verbatim>\<open>load_if\<close> for the symbolic memory; \<open>BVC8\<close> makes the constant of a byte.\<close>

definition symbolic_memory_if :: "(u8 \<Rightarrow> 'v) \<Rightarrow> ('v, 'c) concolic_memory \<Rightarrow> 'c SymbolicMemory load_if" where
  "symbolic_memory_if BVC8 cm = \<lparr>li_load_data = \<lambda>src dst. modify_m (sym_load_data BVC8 cm src dst),
     li_load_zero = \<lambda>dst n. modify_m (sym_load_zero BVC8 cm dst n)\<rparr>"

text \<open>The image is loaded into the memory before the core is initialised; \<open>img\<close> is the memory's initial content.\<close>

definition symex_elaborate ::
  "('v, 'e) clover \<Rightarrow> (u8 \<Rightarrow> 'v) \<Rightarrow> ('v, 'c) concolic_memory \<Rightarrow> 'c \<Rightarrow> u8 list \<Rightarrow> error + ('v, 'e, 'c) sys" where
  "symex_elaborate cv BVC8 cm img elf =
     (case load_executable_image (symbolic_memory_if BVC8 cm) elf 0x02000000 0 False
        \<lparr>sym_size = 0x02000000, sym_memory = img\<rparr> of
       (Inl e, _) \<Rightarrow> Inl e
     | (Inr _, m) \<Rightarrow> (case symex_init cv (sym_memory m) (get_entrypoint elf) of
         (Inl e, _) \<Rightarrow> Inl e
       | (Inr _, h) \<Rightarrow> Inr h))"

text \<open>
  On the HiFive platform the flash is loaded first, then the RAM; each takes the segments that start in its
  range. The bytes of the symbolic input, the pins and the CAN controller are arguments.
\<close>

definition hifive_elaborate ::
  "('v, 'e) clover \<Rightarrow> (u8 \<Rightarrow> 'v) \<Rightarrow> ('v, 'c) concolic_memory \<Rightarrow> SimpleMemory \<Rightarrow> 'c \<Rightarrow> 'v list \<Rightarrow> u64 \<Rightarrow> CAN \<Rightarrow> bool \<Rightarrow>
   u8 list \<Rightarrow> error + ('v, 'e, 'c) hsys" where
  "hifive_elaborate cv BVC8 cm flash img input pins can with_can elf =
     (case load_executable_image simple_memory_if elf 0x20000000 0x20000000 False flash of
       (Inl e, _) \<Rightarrow> Inl e
     | (Inr _, flash') \<Rightarrow> (case load_executable_image (symbolic_memory_if BVC8 cm) elf 0x4000 0x80000000 False
          \<lparr>sym_size = 0x4000, sym_memory = img\<rparr> of
         (Inl e, _) \<Rightarrow> Inl e
       | (Inr _, dram) \<Rightarrow> (case hifive_init cv (hifive_devices_make flash' (sym_memory dram) input pins can with_can) (get_entrypoint elf) of
           (Inl e, _) \<Rightarrow> Inl e
         | (Inr _, h) \<Rightarrow> Inr h)))"

section \<open>The main functions\<close>

datatype main_end = MainExit nat | MainReturn nat "string list"

text \<open>The runner of the core: without the debugger the direct runner, else the session of the GDB server on its port.\<close>

definition core_runner ::
  "('v, 'e) clover \<Rightarrow> ('v, 'e, 'm) platform \<Rightarrow> nat \<Rightarrow>
   (u32 \<Rightarrow> ('v, 'e, 'm) gdb_target \<Rightarrow> ((error + unit) \<times> ('v, 'e, 'm) hart) option) \<Rightarrow>
   'x Options_scheme \<Rightarrow> ('v, 'e, 'm) hart \<Rightarrow> ((error + unit) \<times> ('v, 'e, 'm) hart) option" where
  "core_runner cv pl fuel session opt h =
     (if use_debug_runner opt then session (opt_debug_port opt) (attach_debugger h) else DirectCoreRunner_run cv pl fuel h)"

text \<open>The file is mapped before the options of the direct memory interface are refused.\<close>

definition symex_sc_main ::
  "('v, 'e) clover \<Rightarrow> (u8 \<Rightarrow> 'v) \<Rightarrow> ('v, 'c) concolic_memory \<Rightarrow> 'c \<Rightarrow>
   (string list \<Rightarrow> string + variables_map) \<Rightarrow> (string \<Rightarrow> u8 list option) \<Rightarrow>
   (SymexOptions \<Rightarrow> ('v, 'e, 'c) sys \<Rightarrow> ((error + unit) \<times> ('v, 'e, 'c) sys) option) \<Rightarrow> (('v, 'e, 'c) sys \<Rightarrow> string) \<Rightarrow>
   string list \<Rightarrow> (error + main_end) option" where
  "symex_sc_main cv BVC8 cm img po file runner time_stamp argv =
     (case Options_parse po SymexOptions_notify argv SymexOptions_make of
       Inl code \<Rightarrow> Some (Inr (MainExit code))
     | Inr opt \<Rightarrow> (case file (input_program opt) of
         None \<Rightarrow> Some (Inl (RuntimeError ''mapped_file_source''))
       | Some elf \<Rightarrow>
           if use_instr_dmi opt \<or> use_data_dmi opt then Some (Inr (MainReturn 1 []))
           else (case symex_elaborate cv BVC8 cm img elf of
             Inl e \<Rightarrow> Some (Inl e)
           | Inr h \<Rightarrow> (case runner opt h of
               None \<Rightarrow> None
             | Some (Inl e, _) \<Rightarrow> Some (Inl e)
             | Some (Inr _, h') \<Rightarrow> Some (Inr (MainReturn 0 (if quiet opt then [] else ISS_show cv (time_stamp h') h')))))))"

text \<open>
  \<^verbatim>\<open>SymbolicFormat\<close> reads its file once; \<open>decode\<close> is the bencode library on the contents of the file, with its exceptions
  and that of a failed read. The constructor of the second UART takes the bytes.
\<close>

definition SymbolicFormat_bytes :: "'v fmt_ops \<Rightarrow> (string \<Rightarrow> error + bencode) \<Rightarrow> string \<Rightarrow> error + 'v list" where
  "SymbolicFormat_bytes ops decode path =
     (if path = [] then Inr []
      else case decode path of
        Inl e \<Rightarrow> Inl e
      | Inr (BList data) \<Rightarrow> fmt_get_bytes ops data
      | Inr _ \<Rightarrow> Inl (RuntimeError ''std::bad_variant_access''))"

definition hifive_sc_main ::
  "('v, 'e) clover \<Rightarrow> (u8 \<Rightarrow> 'v) \<Rightarrow> ('v, 'c) concolic_memory \<Rightarrow> SimpleMemory \<Rightarrow> 'c \<Rightarrow> 'v fmt_ops \<Rightarrow>
   (string \<Rightarrow> error + bencode) \<Rightarrow> u64 \<Rightarrow> CAN \<Rightarrow>
   (string list \<Rightarrow> string + variables_map) \<Rightarrow> (string \<Rightarrow> u8 list option) \<Rightarrow>
   (HifiveOptions \<Rightarrow> ('v, 'e, 'c) hsys \<Rightarrow> ((error + unit) \<times> ('v, 'e, 'c) hsys) option) \<Rightarrow> string list \<Rightarrow> (error + main_end) option" where
  "hifive_sc_main cv BVC8 cm flash img ops decode pins can po file runner argv =
     (case Options_parse po HifiveOptions_notify argv HifiveOptions_make of
       Inl code \<Rightarrow> Some (Inr (MainExit code))
     | Inr opt \<Rightarrow> (case file (input_program opt) of
         None \<Rightarrow> Some (Inl (RuntimeError ''mapped_file_source''))
       | Some elf \<Rightarrow> (case SymbolicFormat_bytes ops decode (input_format opt) of
           Inl e \<Rightarrow> Some (Inl e)
         | Inr bytes \<Rightarrow>
             if use_instr_dmi opt \<or> use_data_dmi opt then Some (Inr (MainReturn 1 []))
             else (case hifive_elaborate cv BVC8 cm flash img bytes pins can (enable_can opt) elf of
               Inl e \<Rightarrow> Some (Inl e)
             | Inr h \<Rightarrow> (case runner opt h of
                 None \<Rightarrow> None
               | Some (Inl e, _) \<Rightarrow> Some (Inl e)
               | Some (Inr _, h') \<Rightarrow> Some (Inr (MainReturn 0 [])))))))"

end
