(* ===== verification/Boot_Props.thy ===== *)
theory Boot_Props
  imports Sc_Main Host_Props Run_Props
begin

text \<open>
  From the executable to the first instruction: the loader on the symbolic memory, the boot of the SymEx platform, and
  the ends of its main function.
\<close>

section \<open>The bytes of a symbolic memory\<close>

definition image_bytes :: "('a \<Rightarrow> 'v \<Rightarrow> nat) \<Rightarrow> ('v, 'c) concolic_memory \<Rightarrow> 'a \<Rightarrow> nat \<Rightarrow> 'c \<Rightarrow> u8 list" where
  "image_bytes ev cm a n c = map (\<lambda>j. word_of_nat (ev a (cm_load cm c (word_of_nat j) 1))) [0..<n]"

lemma length_image [simp]: "length (image_bytes ev cm a n c) = n"
  by (simp add: image_bytes_def)

lemma list_write_snoc:
  "a + length xs < length m \<Longrightarrow> list_write a (xs @ [x]) m = (list_write a xs m)[a + length xs := x]"
  by (rule nth_equalityI) (auto simp: nth_list_write nth_list_update nth_append list_write_def)

text \<open>
  More of what clover documents of its concolic memory: it is addressed by bytes, a load of several bytes is
  their little-endian concatenation, a store to one address leaves the others; and the constants of bytes.
\<close>

locale byte_memory_laws = concolic_memory_laws cv ev cm
  for cv :: "('v, 'e) clover" and ev :: "'a \<Rightarrow> 'v \<Rightarrow> nat" and cm :: "('v, 'c) concolic_memory" +
  fixes BVC8 :: "u8 \<Rightarrow> 'v"
  assumes BVC8_law: "getWidth cv (BVC8 b) = 8 \<and> ev a (BVC8 b) = unat b"
    and load_bytes: "n \<le> 4 \<Longrightarrow> ev a (cm_load cm c addr n) =
      bytes_to_nat (map (\<lambda>i. word_of_nat (ev a (cm_load cm c (addr + word_of_nat i) 1))) [0..<n])"
    and store_other: "x \<noteq> addr \<Longrightarrow> ev a (cm_load cm (cm_store cm addr v 1 c) x 1) = ev a (cm_load cm c x 1)"
begin

abbreviation bytes :: "'a \<Rightarrow> nat \<Rightarrow> 'c \<Rightarrow> u8 list" where "bytes \<equiv> image_bytes ev cm"

lemma store_byte:
  assumes "unat dst + i < n" "n < 2 ^ 32"
  shows "bytes a n (cm_store cm (dst + word_of_nat i) (BVC8 b) 1 c) = (bytes a n c)[unat dst + i := b]"
proof (rule nth_equalityI)
  let ?k = "unat dst + i"
  fix j assume "j < length (bytes a n (cm_store cm (dst + word_of_nat i) (BVC8 b) 1 c))"
  then have j: "j < n" by simp
  have k: "(word_of_nat ?k :: u64) = dst + word_of_nat i" by simp
  have neq: "(word_of_nat j :: u64) \<noteq> word_of_nat ?k" if "j \<noteq> ?k"
  proof -
    have "unat (word_of_nat j :: u64) = j" "unat (word_of_nat ?k :: u64) = ?k" using j assms by (simp_all add: unat_of_nat del: of_nat_add)
    with that show ?thesis by metis
  qed
  have b: "take_bit 8 (unat b) = unat b" using unsigned_less [of b, where 'a = nat] by (simp add: take_bit_nat_eq_self_iff)
  show "bytes a n (cm_store cm (dst + word_of_nat i) (BVC8 b) 1 c) ! j = (bytes a n c)[?k := b] ! j"
  proof (cases "j = ?k")
    case True
    then show ?thesis
      using j load_store [of 1 "BVC8 b" a "dst + word_of_nat i" c] BVC8_law [of b a] b by (simp add: image_bytes_def)
  next
    case False
    then show ?thesis
      using j store_other [OF neq, of a "BVC8 b" c] unfolding k by (simp add: image_bytes_def)
  qed
qed simp

lemma load_data_bytes:
  assumes "unat dst + length src \<le> n" "n < 2 ^ 32"
  shows "bytes a n (fold (\<lambda>(i, b). cm_store cm (dst + word_of_nat i) (BVC8 b) 1) (zip [0..<length src] src) c) =
    list_write (unat dst) src (bytes a n c)"
  using assms
proof (induction src rule: rev_induct)
  case Nil
  then show ?case by (simp add: list_write_def)
next
  case (snoc b src)
  then show ?case by (simp add: list_write_snoc store_byte [unfolded One_nat_def])
qed

lemma zeros_are_bytes:
  "fold (\<lambda>i. cm_store cm (dst + word_of_nat i) (BVC8 0) 1) [0..<k] c =
    fold (\<lambda>(i, b). cm_store cm (dst + word_of_nat i) (BVC8 b) 1) (zip [0..<length (replicate k (0 :: u8))] (replicate k 0)) c"
  by (simp add: zip_replicate2 fold_map comp_def)

end

definition symbolic_memory_wf :: "nat \<Rightarrow> 'c SymbolicMemory \<Rightarrow> bool" where
  "symbolic_memory_wf n m \<longleftrightarrow> unat (sym_size m) = n"

sublocale byte_memory_laws \<subseteq> symbolic: loadable_memory "symbolic_memory_if BVC8 cm"
  "\<lambda>m. image_bytes ev cm a (unat (sym_size m)) (sym_memory m)" symbolic_memory_wf for a
proof unfold_locales
  fix n and m :: "'c SymbolicMemory" and dst :: u64 and src :: "u8 list"
  assume "symbolic_memory_wf n m" "n < 2 ^ 32" "unat dst + length src \<le> n"
  then show "\<exists>m'. li_load_data (symbolic_memory_if BVC8 cm) src dst m = (Inr (), m') \<and> symbolic_memory_wf n m' \<and>
      image_bytes ev cm a (unat (sym_size m')) (sym_memory m') = list_write (unat dst) src (image_bytes ev cm a (unat (sym_size m)) (sym_memory m))"
    using load_data_bytes [of dst src n a]
    by (simp add: symbolic_memory_wf_def symbolic_memory_if_def sym_load_data_def monad_simps)
next
  fix n and m :: "'c SymbolicMemory" and dst :: u64 and k
  assume "symbolic_memory_wf n m" "n < 2 ^ 32" "unat dst + k \<le> n"
  then show "\<exists>m'. li_load_zero (symbolic_memory_if BVC8 cm) dst k m = (Inr (), m') \<and> symbolic_memory_wf n m' \<and>
      image_bytes ev cm a (unat (sym_size m')) (sym_memory m') = list_write (unat dst) (replicate k 0) (image_bytes ev cm a (unat (sym_size m)) (sym_memory m))"
    using load_data_bytes [of dst "replicate k 0" n a] zeros_are_bytes [of dst k]
    by (simp add: symbolic_memory_wf_def symbolic_memory_if_def sym_load_zero_def monad_simps)
qed (simp add: symbolic_memory_wf_def)

section \<open>The instance\<close>

abbreviation bv_BVC8 :: "u8 \<Rightarrow> 'a bv" where "bv_BVC8 b \<equiv> Concrete 8 (unat b)"

lemma bv_load_one: "bv_eval a (cm_load bv_memory c addr 1) = take_bit 8 (bv_eval a (c addr))"
  by (simp add: bv_memory_def)

lemma bv_load_bytes:
  "bv_eval a (foldr (\<lambda>i. bv_concat (bv_byte 0 (c (addr + word_of_nat i)))) is (Concrete 0 0)) =
    bytes_to_nat (map (\<lambda>i. word_of_nat (bv_eval a (cm_load bv_memory c (addr + word_of_nat i) 1))) is)"
proof (induction "is")
  case (Cons i "is")
  have "unat (word_of_nat (take_bit 8 x) :: u8) = take_bit 8 x" for x :: nat by (simp add: unat_of_nat take_bit_eq_mod)
  with Cons show ?case by (simp add: bytes_to_nat_Cons bv_load_one [unfolded One_nat_def])
qed (simp add: bytes_to_nat_def)

interpretation bvb: byte_memory_laws "bv_clover cur" bv_eval bv_memory bv_BVC8
proof unfold_locales
  show "getWidth (bv_clover cur) (bv_BVC8 b) = 8 \<and> bv_eval a (bv_BVC8 b) = unat b" for b and a :: 'a
    using unsigned_less [of b, where 'a = nat] by (simp add: bv_clover_def)
  show "bv_eval a (cm_load bv_memory c addr n) =
      bytes_to_nat (map (\<lambda>i. word_of_nat (bv_eval a (cm_load bv_memory c (addr + word_of_nat i) 1))) [0..<n])" for n c addr and a :: 'a
    using bv_load_bytes [of a c addr "[0..<n]"] by (simp add: bv_memory_def)
  show "bv_eval a (cm_load bv_memory (cm_store bv_memory addr v 1 c) x 1) = bv_eval a (cm_load bv_memory c x 1)"
    if "x \<noteq> addr" for x addr v c and a :: 'a
    using that by (simp add: bv_memory_def unat_eq_0)
qed

section \<open>Boot\<close>

context byte_memory_laws
begin

lemma image_loaded:
  assumes "list_all (segment_fits sz 0) (get_load_sections elf)" "segments_disjoint 0 (get_load_sections elf)" "sym_size m = ucast sz"
  shows "\<exists>m'. load_executable_image (symbolic_memory_if BVC8 cm) elf sz 0 False m = (Inr (), m') \<and>
    list_all (holds_segment elf 0 (bytes a (unat sz) (sym_memory m'))) (get_load_sections elf)"
proof -
  have "symbolic_memory_wf (unat sz) m" using assms(3) by (simp add: symbolic_memory_wf_def unat_to_u64)
  from symbolic.load_segments_effect [OF assms(1,2) this, of elf a] show ?thesis
    by (auto simp: load_executable_image_def symbolic_memory_wf_def)
qed

lemma word_at:
  assumes "unat e + 4 \<le> n" "n < 2 ^ 32"
  shows "ev a (cm_load cm c (ucast (e :: u32)) 4) = bytes_to_nat (take 4 (drop (unat e) (bytes a n c)))"
proof -
  have "unat e < 2 ^ 64" using assms by simp
  then have e: "word_of_nat (unat e) = (ucast e :: u64)" by (simp add: word_unat_eq_iff unat_of_nat unat_to_u64)
  have "map (\<lambda>i. word_of_nat (ev a (cm_load cm c (ucast e + word_of_nat i) 1))) [0..<4] = take 4 (drop (unat e) (bytes a n c))"
    by (rule nth_equalityI) (use assms in \<open>simp_all add: image_bytes_def e\<close>)
  with load_bytes [of 4 a c "ucast e"] show ?thesis by simp
qed

end

lemma held_word:
  assumes "holds_segment elf 0 mem p" "unat (p_paddr p) \<le> e" "e + 4 \<le> unat (p_paddr p) + unat (p_memsz p)"
    and "length mem = n" "e + 4 \<le> n" "p_filesz p \<le> p_memsz p"
  shows "take 4 (drop e mem) = take 4 (drop (e - unat (p_paddr p)) (segment_bytes elf p))"
proof (rule nth_equalityI)
  show "length (take 4 (drop e mem)) = length (take 4 (drop (e - unat (p_paddr p)) (segment_bytes elf p)))"
    using assms length_segment_bytes [OF assms(6)] by simp
  fix i assume "i < length (take 4 (drop e mem))"
  moreover have "mem ! (unat (p_paddr p) + (e - unat (p_paddr p) + i)) = segment_bytes elf p ! (e - unat (p_paddr p) + i)" if "i < 4"
    using assms(1) [unfolded holds_segment_def, rule_format, of "e - unat (p_paddr p) + i"] assms(2,3) that by simp
  ultimately show "take 4 (drop e mem) ! i = take 4 (drop (e - unat (p_paddr p)) (segment_bytes elf p)) ! i"
    using assms length_segment_bytes [OF assms(6)] by simp
qed

lemma of_nat_mod_word: "(word_of_nat (n mod 4294967296) :: u32) = word_of_nat n"
  by (simp add: word_unat_eq_iff unat_of_nat)

text \<open>The state after elaboration, when the memory holds the image \<open>c\<close>.\<close>

lemma symex_init_fields:
  assumes "clover_laws cv ev sem cur"
  shows "fst (symex_init cv c entry) = Inr ()" "h_pc (snd (symex_init cv c entry)) = entry"
    "sym_memory (d_memory (devices (snd (symex_init cv c entry)))) = c"
    "memory_size_ok (snd (symex_init cv c entry))" "direct_access FETCH (snd (symex_init cv c entry))"
proof -
  let ?h = "snd (symex_init cv c entry)"
  have w: "getWidth cv (BVC cv k) = 32" for k using clover_laws.BVC_law [OF assms] by simp
  have f: "h_world ?h = \<lparr>w_bus_lock = BusLock_init, w_lr_addr = None, w_tlb = \<lambda>_ _ _. empty_entry,
      w_devices = \<lparr>d_memory = \<lparr>sym_size = 0x02000000, sym_memory = c\<rparr>, d_clint = CLINT_make 1, d_ctrl = SymbolicCTRL_make,
        d_sensor = SymbolicSensor_make\<rparr>\<rparr>"
    by (simp add: symex_init_def ISS_init_def ISS_construct_def RegFile_write_def assert_m_def then_m_apply Let_def w)
  show "fst (symex_init cv c entry) = Inr ()" "h_pc ?h = entry"
    by (simp_all add: symex_init_def ISS_init_def ISS_construct_def RegFile_write_def assert_m_def then_m_apply Let_def w)
  show "sym_memory (d_memory (devices ?h)) = c" "memory_size_ok ?h" by (simp_all add: devices_def memory_size_ok_def f)
  show "direct_access FETCH ?h"
    by (simp add: direct_access_def paging_def init_fields csr_table_init_def bf_get_def access_must_wait_def
        is_locked_def BusLock_init_def effective_mode_def f)
qed

text \<open>
  C38: The platform boots the executable. When the loadable segments lie inside the memory, do not overlap and one of them
  holds the word at the entry point, the main function of the SymEx platform loads the program: the memory holds, under
  every assignment of the symbolic inputs, the bytes of each segment at its physical address, followed by zeros up to its size in memory. The core
  starts at the entry point in a state that satisfies its invariant; the first instruction it fetches is the
  little-endian word of the executable there, and the main function returns 0 after the runner has ended.
\<close>

theorem symex_boots:
  assumes laws: "symex_laws cv ev sem cur cm K PE" "byte_memory_laws cv ev cm BVC8"
    and opt: "Options_parse po SymexOptions_notify argv SymexOptions_make = Inr opt" "\<not> use_instr_dmi opt" "\<not> use_data_dmi opt"
      "files (input_program opt) = Some elf"
    and fits: "list_all (segment_fits 0x02000000 0) (get_load_sections elf)" "segments_disjoint 0 (get_load_sections elf)"
    and entry: "p \<in> set (get_load_sections elf)" "p_paddr p \<le> get_entrypoint elf"
      "unat (get_entrypoint elf) + 4 \<le> unat (p_paddr p) + unat (p_memsz p)" "get_entrypoint elf AND 1 = 0"
  shows "\<exists>h. symex_elaborate cv BVC8 cm img elf = Inr h \<and> h_pc h = get_entrypoint elf \<and> hart_inv cv sem cur h \<and> x0_zero cv h \<and>
    (\<forall>a. list_all (holds_segment elf 0 (image_bytes ev cm a 0x02000000 (sym_memory (d_memory (devices h))))) (get_load_sections elf)) \<and>
    load_instr (symex_platform cv cm K (Suc n)) (ucast (h_pc h)) h =
      (Inr (bytes_to_u32 (take 4 (drop (unat (get_entrypoint elf) - unat (p_paddr p)) (segment_bytes elf p)))), h) \<and>
    (\<forall>h'. runner opt h = Some (Inr (), h') \<longrightarrow> symex_sc_main cv BVC8 cm img po files runner time_stamp argv =
      Some (Inr (MainReturn 0 (if quiet opt then [] else ISS_show cv (time_stamp h') h'))))"
proof -
  have cl: "clover_laws cv ev sem cur" using laws(1) by (simp add: symex_laws_def)
  let ?m = "\<lparr>sym_size = 0x02000000, sym_memory = img\<rparr>" and ?e = "get_entrypoint elf"
  obtain m where m: "load_executable_image (symbolic_memory_if BVC8 cm) elf 0x02000000 0 False ?m = (Inr (), m)"
    "list_all (holds_segment elf 0 (image_bytes ev cm cur 0x02000000 (sym_memory m))) (get_load_sections elf)"
    using byte_memory_laws.image_loaded [OF laws(2) fits, of ?m cur] by auto
  have all: "list_all (holds_segment elf 0 (image_bytes ev cm a 0x02000000 (sym_memory m))) (get_load_sections elf)" for a
    using byte_memory_laws.image_loaded [OF laws(2) fits, of ?m a] m(1) by auto
  have p: "segment_fits 0x02000000 0 p" "holds_segment elf 0 (image_bytes ev cm cur 0x02000000 (sym_memory m)) p"
    using fits(1) m(2) entry(1) by (simp_all add: list_all_iff)
  note g = segment_fits_guards [OF p(1)]
  let ?h = "snd (symex_init cv (sym_memory m) ?e)"
  note f = symex_init_fields [OF cl, of "sym_memory m" ?e]
  have in_mem: "unat ?e + 4 \<le> 0x02000000" using entry(3) g(8) by simp
  have "ev cur (cm_load cm (sym_memory m) (ucast ?e) 4) = bytes_to_nat (take 4 (drop (unat ?e - unat (p_paddr p)) (segment_bytes elf p)))"
    using byte_memory_laws.word_at [OF laws(2) in_mem, of cur "sym_memory m"] held_word [OF p(2) _ entry(3) _ in_mem g(4)] entry(2)
    by (simp add: word_le_nat_alt)
  then have "load_instr (symex_platform cv cm K (Suc n)) (ucast (h_pc ?h)) ?h =
      (Inr (bytes_to_u32 (take 4 (drop (unat ?e - unat (p_paddr p)) (segment_bytes elf p)))), ?h)"
    using fetch_direct [OF f(5,4) in_mem, of cv cm K n] f(2,3) clover_laws.BVCToBytes_law [OF cl]
    by (simp add: symex_platform_def mem_platform_def bytes_to_u32_def bytes_roundtrip of_nat_mod_word)
  moreover have el: "symex_elaborate cv BVC8 cm img elf = Inr ?h"
    using m(1) f(1) by (cases "symex_init cv (sym_memory m) ?e") (simp add: symex_elaborate_def)
  moreover have "symex_sc_main cv BVC8 cm img po files runner time_stamp argv =
      Some (Inr (MainReturn 0 (if quiet opt then [] else ISS_show cv (time_stamp h') h')))" if "runner opt ?h = Some (Inr (), h')" for h'
    using that opt el by (simp add: symex_sc_main_def)
  ultimately show ?thesis using init_inv [OF cl entry(4), of "sym_memory m"] f(2,3) all by auto
qed

text \<open>A program of the instruction \<open>ADDI x0, x0, 0\<close> at address 8, and options that name its file.\<close>

definition boot_elf :: "u8 list" where
  "boot_elf = replicate 24 0 @ [8, 0, 0, 0, 52, 0, 0, 0] @ replicate 10 0 @ [32, 0, 1, 0] @ replicate 6 0 @
     [1, 0, 0, 0, 84, 0, 0, 0, 8, 0, 0, 0, 8, 0, 0, 0, 4, 0, 0, 0, 4, 0, 0, 0] @ replicate 8 0 @ [0x13, 0, 0, 0]"

definition boot_phdr :: Elf32_Phdr where
  "boot_phdr = \<lparr>p_type = 1, p_offset = 84, p_vaddr = 8, p_paddr = 8, p_filesz = 4, p_memsz = 4\<rparr>"

lemma boot_elf_file:
  "get_load_sections boot_elf = [boot_phdr]" "get_entrypoint boot_elf = 8" "segment_bytes boot_elf boot_phdr = [0x13, 0, 0, 0]"
proof -
  have h: "e_phoff (elf_hdr boot_elf) = 52" "e_phentsize (elf_hdr boot_elf) = 32" "e_phnum (elf_hdr boot_elf) = 1"
    "e_entry (elf_hdr boot_elf) = 8"
    by (simp_all add: elf_hdr_def boot_elf_def le16_def le32_def mem_read_def bytes_to_nat_def)
  moreover have "phdr_at boot_elf 52 = boot_phdr"
    by (simp add: phdr_at_def boot_phdr_def boot_elf_def le32_def mem_read_def bytes_to_nat_def)
  ultimately show "get_load_sections boot_elf = [boot_phdr]" "get_entrypoint boot_elf = 8"
    by (simp_all add: get_load_sections_def get_entrypoint_def phdr_off_def Let_def boot_phdr_def)
  show "segment_bytes boot_elf boot_phdr = [0x13, 0, 0, 0]"
    by (simp add: segment_bytes_def boot_phdr_def boot_elf_def mem_read_def)
qed

definition boot_po :: "string list \<Rightarrow> string + variables_map" where
  "boot_po argv = (case argv of [name] \<Rightarrow> Inr [''input-file'' \<mapsto> PoString name, ''quiet'' \<mapsto> PoBool True] | _ \<Rightarrow> Inl ''usage'')"

theorem symex_boots_witness:
  "\<exists>h. symex_elaborate (bv_clover sample_inputs) bv_BVC8 bv_memory (\<lambda>_. Concrete 8 0) boot_elf = Inr h \<and> h_pc h = 8 \<and>
    load_instr (bv_symex sample_inputs 1) 8 h = (Inr 0x13, h) \<and>
    symex_sc_main (bv_clover sample_inputs) bv_BVC8 bv_memory (\<lambda>_. Concrete 8 0) boot_po [''a.out'' \<mapsto> boot_elf]
      (\<lambda>opt h. Some (Inr (), h)) (\<lambda>h. []) [''a.out''] = Some (Inr (MainReturn 0 []))"
proof -
  let ?opt = "SymexOptions_make\<lparr>input_program := ''a.out'', quiet := True\<rparr>"
  have po: "Options_parse boot_po SymexOptions_notify [''a.out''] SymexOptions_make = Inr ?opt"
    by (simp add: Options_parse_def boot_po_def Options_notify_def SymexOptions_notify_def po_bool_def po_unsigned_def po_string_def
        SymexOptions_make_def)
  have o: "\<not> use_instr_dmi ?opt" "\<not> use_data_dmi ?opt" "[''a.out'' \<mapsto> boot_elf] (input_program ?opt) = Some boot_elf"
    by (simp_all add: SymexOptions_make_def)
  have fits: "list_all (segment_fits 0x02000000 0) (get_load_sections boot_elf)" "segments_disjoint 0 (get_load_sections boot_elf)"
    by (simp_all add: boot_elf_file boot_phdr_def segment_fits_def segments_disjoint_def)
  have e: "boot_phdr \<in> set (get_load_sections boot_elf)" "p_paddr boot_phdr \<le> get_entrypoint boot_elf"
    "unat (get_entrypoint boot_elf) + 4 \<le> unat (p_paddr boot_phdr) + unat (p_memsz boot_phdr)" "get_entrypoint boot_elf AND 1 = 0"
    by (simp_all add: boot_elf_file) (simp_all add: boot_phdr_def)
  have w: "bytes_to_u32 (take 4 (drop 0 [0x13, 0, 0, 0])) = 0x13" by (simp add: bytes_to_u32_def bytes_to_nat_def)
  have p: "p_paddr boot_phdr = 8" by (simp add: boot_phdr_def)
  from symex_boots [where cv = "bv_clover sample_inputs" and files = "[''a.out'' \<mapsto> boot_elf]" and opt = ?opt and p = boot_phdr and
      img = "\<lambda>_. Concrete 8 0" and n = 0 and runner = "\<lambda>opt h. Some (Inr (), h)" and time_stamp = "\<lambda>h. []",
      OF symex.symex_laws_axioms bvb.byte_memory_laws_axioms po o fits e] w
  show ?thesis by (auto simp: boot_elf_file p)
qed

end
