(* ===== verification/Symbolic_Props.thy ===== *)
theory Symbolic_Props
  imports Debug_Props Boot_Props
begin

text \<open>
  The way of a symbolic input on the SymEx platform: the guest asks the control peripheral for it, the core creates the
  value and stores it through the bus, and a load brings it into a register.
\<close>

section \<open>The registers of the control peripheral\<close>

definition range_wf :: "u64 \<Rightarrow> RegisterRange \<Rightarrow> bool" where
  "range_wf start r \<longleftrightarrow> rr_start r = start \<and> rr_end r = start + 3 \<and> length (rr_mem r) = 4 \<and> \<not> rr_readonly r \<and> rr_alignment r = 1"

definition ctrl_wf :: "SymbolicCTRL \<Rightarrow> bool" where
  "ctrl_wf c \<longleftrightarrow> range_wf 0 (reg_addr c) \<and> range_wf 4 (reg_size c) \<and> range_wf 8 (reg_ctrl c)"

lemma ctrl_wf_make: "ctrl_wf SymbolicCTRL_make"
  by (simp add: ctrl_wf_def range_wf_def SymbolicCTRL_make_def word_range_def)

abbreviation ctrl_payload :: "u64 \<Rightarrow> u8 list \<Rightarrow> 'v option \<Rightarrow> 'v payload" where
  "ctrl_payload a bs x \<equiv> \<lparr>p_command = TLM_WRITE_COMMAND, p_address = a, p_data = bs, p_error = False, p_extension = x\<rparr>"

lemma ctrl_port:
  assumes "0x02020000 \<le> a" "a \<le> 0x02020032"
  shows "symex_transport cv cm K (Suc n) (ctrl_payload a bs x) h =
    ctrl_transport (symex_ctrl K (make_symbolic cv (symex_platform cv cm K n))) (ctrl_payload (a - 0x02020000) bs x) h"
proof -
  have "\<not> a \<le> 0x01ffffff" "\<not> a \<le> 0x0200ffff" using assms(1) by (auto dest: order.trans)
  with assms show ?thesis by (simp add: symex_bus_routing symex_platform_def Let_def del: symex_transport.simps)
qed

lemma full_write: "length bs = length xs \<Longrightarrow> list_write 0 bs xs = bs"
  by (simp add: list_write_def)

lemma ctrl_addr_write:
  assumes "ctrl_wf (ct_get e s)" "length bs = 4" "\<And>f s. ct_get e (ct_update e f s) = f (ct_get e s)"
  shows "ctrl_transport e (ctrl_payload 0 bs x) s =
    (Inr (ctrl_payload 0 bs x), ct_update e (reg_addr_update (rr_mem_update (list_write 0 bs))) s)"
  using assms
  by (simp add: ctrl_transport_def ctrl_ranges_def ctrl_wf_def range_wf_def rr_contains_def rr_process_def rr_write_def rr_check_def
      rr_to_local_def ensure_def assert_m_def pre_callback_def post_callback_def Let_def monad_simps)

lemma ctrl_size_write:
  assumes "ctrl_wf (ct_get e s)" "length bs = 4" "\<And>f s. ct_get e (ct_update e f s) = f (ct_get e s)"
    and "symif_make_symbolic e (reg32 (reg_addr (ct_get e s))) (unat (bytes_to_u32 bs))
      (ct_update e (reg_size_update (rr_mem_update (list_write 0 bs))) s) = (Inr (), s')"
  shows "ctrl_transport e (ctrl_payload 4 bs x) s = (Inr (ctrl_payload 4 bs x), s')"
  using assms
  by (simp add: ctrl_transport_def ctrl_ranges_def ctrl_wf_def range_wf_def rr_contains_def rr_process_def rr_write_def rr_check_def
      rr_to_local_def ensure_def assert_m_def pre_callback_def post_callback_def write_size_def reg32_def view_read_def
      bytes_to_u32_def full_write Let_def monad_simps)

lemma ctrl_command_write:
  assumes "ctrl_wf (ct_get e s)" "length bs = 4" "\<And>f s. ct_get e (ct_update e f s) = f (ct_get e s)"
    and "bytes_to_u32 bs AND CTRL_ERROR = 0" "bytes_to_u32 bs AND CTRL_EXIT \<noteq> 0"
    and "symif_sys_exit e (ct_update e (reg_ctrl_update (rr_mem_update (list_write 0 bs))) s) = (Inr (), s')"
  shows "ctrl_transport e (ctrl_payload 8 bs x) s =
    (Inr (ctrl_payload 8 bs x), ct_update e (reg_ctrl_update (rr_mem_update (view_write 4 0 0))) s')"
  using assms
  by (simp add: ctrl_transport_def ctrl_ranges_def ctrl_wf_def range_wf_def rr_contains_def rr_process_def rr_write_def rr_check_def
      rr_to_local_def ensure_def assert_m_def pre_callback_def post_callback_def write_ctrl_def reg32_def view_read_def
      bytes_to_u32_def full_write when_m_def Let_def monad_simps)

section \<open>Stores of the guest to a device\<close>

definition unlocked :: "('v, 'e, 'd) mhart \<Rightarrow> ('v, 'e, 'd) mhart" where
  "unlocked h = snd (mem_atomic_unlock h)"

lemma unlocked_apply: "mem_atomic_unlock h = (Inr (), unlocked h)"
  by (simp add: unlocked_def mem_atomic_unlock_def upd_world_def bind_m_apply)

lemma unlocked_keeps:
  "direct_access type h \<Longrightarrow> direct_access type (unlocked h)" "devices (unlocked h) = devices h"
  "h_regs (unlocked h) = h_regs h" "h_shall_exit (unlocked h) = h_shall_exit h"
  by (auto simp: unlocked_def direct_access_def paging_def effective_mode_def mem_atomic_unlock_def upd_world_def devices_def hart_id_def
      access_must_wait_def is_locked_def is_locked_by_def unlock_def bind_m_apply)

lemma upd_devices_keeps:
  "direct_access type (upd_devices f h) = direct_access type h" "h_regs (upd_devices f h) = h_regs h"
  "h_shall_exit (upd_devices f h) = h_shall_exit h"
  by (simp_all add: direct_access_def paging_def effective_mode_def upd_devices_def hart_id_def access_must_wait_def)

context symex_laws
begin

lemma S_IMM_value: "getWidth cv (S_IMM cv w) = 32" "val32 ev a (S_IMM cv w) = S_imm w"
  using val32_sext32(1) [of "BVC cv (S_imm w)"] val32_sext32(2) [of "BVC cv (S_imm w)" a] BVC_law [of "S_imm w" a]
  by (simp_all add: S_IMM_def val32_BVC)

lemma sw_device:
  assumes "regs_wf cv (h_regs h)" "direct_access STORE h" "pl = symex_platform cv cm K n"
    and "val32 ev cur (h_regs h ! unat (rs1 w)) + S_imm w = A" "A mod 4 = 0"
    and "symex_transport cv cm K n (ctrl_payload (ucast A) (nat_to_bytes 4 (ev cur (h_regs h ! unat (rs2 w)))) (Some (h_regs h ! unat (rs2 w)))) h = (Inr p, h')"
      "\<not> p_error p"
  shows "exec_op cv pl w (OpI SW) h = (Inr (), unlocked h')"
proof -
  define a where "a = c_add cv (h_regs h ! unat (rs1 w)) (S_IMM cv w)"
  have w: "getWidth cv (h_regs h ! unat (rs1 w)) = 32" using assms(1) register_index_bounds [of w] by (simp add: reg_width)
  have ga: "getValue cv a = A" using val32_arith(1) [OF w S_IMM_value(1)] assms(4) by (simp add: a_def val32_getValue S_IMM_value)
  have "mem_symbolic_store_data cv (symex_env cv cm K n) a (h_regs h ! unat (rs2 w)) 4 h = (Inr (), unlocked h')"
    using assms(2,6,7)
    by (simp add: mem_symbolic_store_data_def wait_direct v2p_direct concolic_write_def do_transaction_def BVCToBytes_law ga
        unlocked_apply monad_simps)
  then show ?thesis
    using assms(5) ga
    by (simp add: exec_op_def exec_rv32i_def exec_store_def RegFile_at_def a_def [symmetric] trap_check_addr_alignment_def when_m_def
        assms(3) symex_platform_def mem_platform_def mem_store_def)
qed

text \<open>The request: the address and then the size are written to the registers of the peripheral.\<close>

lemma request_address:
  assumes "regs_wf cv (h_regs h)" "direct_access STORE h" "ctrl_wf (d_ctrl (devices h))"
    and "val32 ev cur (h_regs h ! unat (rs1 w)) + S_imm w = 0x02020000"
  shows "\<exists>h1. exec_op cv (symex_platform cv cm K (Suc n)) w (OpI SW) h = (Inr (), h1) \<and> direct_access STORE h1 \<and> h_regs h1 = h_regs h \<and>
    d_memory (devices h1) = d_memory (devices h) \<and> ctrl_wf (d_ctrl (devices h1)) \<and>
    reg32 (reg_addr (d_ctrl (devices h1))) = val32 ev cur (h_regs h ! unat (rs2 w))"
proof -
  let ?v = "h_regs h ! unat (rs2 w)"
  let ?bs = "nat_to_bytes 4 (ev cur ?v)"
  let ?h = "upd_devices (d_ctrl_update (reg_addr_update (rr_mem_update (list_write 0 ?bs)))) h"
  have vw: "getWidth cv ?v = 32" using assms(1) register_index_bounds [of w] by (simp add: reg_width)
  let ?e = "symex_ctrl K (make_symbolic cv (symex_platform cv cm K n))"
  have l: "ct_get ?e (ct_update ?e f s) = f (ct_get ?e s)" for f s by (simp add: symex_ctrl_def devices_def upd_devices_def)
  have "ctrl_transport ?e (ctrl_payload 0 ?bs (Some ?v)) h = (Inr (ctrl_payload 0 ?bs (Some ?v)), ?h)"
    using ctrl_addr_write [of ?e h ?bs, OF _ _ l] assms(3) by (simp add: symex_ctrl_def)
  then have t: "symex_transport cv cm K (Suc n) (ctrl_payload (ucast (0x02020000 :: u32)) ?bs (Some ?v)) h = (Inr (ctrl_payload 0 ?bs (Some ?v)), ?h)"
    using ctrl_port [of "0x02020000" cv cm K n ?bs "Some ?v" h] by simp
  have "exec_op cv (symex_platform cv cm K (Suc n)) w (OpI SW) h = (Inr (), unlocked ?h)"
    using sw_device [OF assms(1,2) HOL.refl assms(4) _ t] by simp
  moreover have "reg32 (reg_addr (d_ctrl (devices ?h))) = val32 ev cur ?v"
    using assms(3) unat_val32 [OF vw, of cur]
    by (simp add: devices_def upd_devices_def reg32_def view_read_def ctrl_wf_def range_wf_def full_write bytes_roundtrip of_nat_mod_word val32_def)
  moreover have "ctrl_wf (d_ctrl (devices ?h))" using assms(3) by (simp add: devices_def upd_devices_def ctrl_wf_def range_wf_def list_write_def)
  ultimately show ?thesis
    using assms(2) by (intro exI [of _ "unlocked ?h"]) (simp add: unlocked_keeps upd_devices_keeps)
qed

lemma request_symbolic:
  assumes "regs_wf cv (h_regs h)" "direct_access STORE h" "memory_size_ok h" "ctrl_wf (d_ctrl (devices h))"
    and "val32 ev cur (h_regs h ! unat (rs1 w)) + S_imm w = 0x02020004" "val32 ev cur (h_regs h ! unat (rs2 w)) = 4"
    and "unat (reg32 (reg_addr (d_ctrl (devices h)))) + 4 \<le> 0x02000000"
    and fresh: "\<And>s. sk_getSymbolicBytes K (''memory<'' @ to_string (reg32 (reg_addr (d_ctrl (devices h)))) @ ''>'') 4 s = (Inr v, s)"
  shows "\<exists>h1. exec_op cv (symex_platform cv cm K (Suc (Suc n))) w (OpI SW) h = (Inr (), h1) \<and> direct_access STORE h1 \<and> memory_size_ok h1 \<and>
    h_regs h1 = h_regs h \<and> sym_memory (d_memory (devices h1)) =
      cm_store cm (ucast (reg32 (reg_addr (d_ctrl (devices h))))) v 4 (sym_memory (d_memory (devices h)))"
proof -
  let ?v = "h_regs h ! unat (rs2 w)"
  let ?bs = "nat_to_bytes 4 (ev cur ?v)" and ?A = "reg32 (reg_addr (d_ctrl (devices h)))"
  let ?h = "upd_devices (d_ctrl_update (reg_size_update (rr_mem_update (list_write 0 ?bs)))) h"
  let ?h' = "after_store cv cm (BVC cv ?A) v 4 ?h"
  have vw: "getWidth cv ?v = 32" using assms(1) register_index_bounds [of w] by (simp add: reg_width)
  let ?e = "symex_ctrl K (make_symbolic cv (symex_platform cv cm K (Suc n)))"
  have l: "ct_get ?e (ct_update ?e f s) = f (ct_get ?e s)" for f s by (simp add: symex_ctrl_def devices_def upd_devices_def)
  have size: "bytes_to_u32 ?bs = 4"
    using assms(6) by (simp add: bytes_to_u32_def bytes_roundtrip of_nat_mod_word val32_def)
  have d: "direct_access STORE ?h" "memory_size_ok ?h"
    using assms(2,3) by (simp_all add: upd_devices_keeps memory_size_ok_def)
  have gA: "getValue cv (BVC cv ?A) = ?A" by (simp add: val32_getValue val32_BVC)
  have "make_symbolic cv (symex_platform cv cm K (Suc n)) ?A 4 ?h = (Inr (), ?h')"
    using store_direct [OF d, of "BVC cv ?A" 4 n v] assms(7) fresh
    by (simp add: make_symbolic_def symex_platform_def mem_platform_def symex_kernel_def gA bind_m_apply)
  then have "ctrl_transport ?e (ctrl_payload 4 ?bs (Some ?v)) h = (Inr (ctrl_payload 4 ?bs (Some ?v)), ?h')"
    using assms(4) by (intro ctrl_size_write l) (simp_all add: symex_ctrl_def size)
  then have t: "symex_transport cv cm K (Suc (Suc n)) (ctrl_payload (ucast (0x02020004 :: u32)) ?bs (Some ?v)) h = (Inr (ctrl_payload 4 ?bs (Some ?v)), ?h')"
    using ctrl_port [of "0x02020004" cv cm K "Suc n" ?bs "Some ?v" h] by (simp del: symex_transport.simps)
  have "exec_op cv (symex_platform cv cm K (Suc (Suc n))) w (OpI SW) h = (Inr (), unlocked ?h')"
    using sw_device [OF assms(1,2) HOL.refl assms(5) _ t] by simp
  moreover have "h_regs ?h' = h_regs h"
    by (simp add: after_store_def mem_atomic_unlock_def upd_world_def bind_m_apply upd_devices_keeps)
  ultimately show ?thesis
    using after_store_keeps [OF d, of cv cm "BVC cv ?A" v 4] gA
    by (intro exI [of _ "unlocked ?h'"]) (simp add: unlocked_keeps memory_size_ok_def)
qed

end

text \<open>
  C3: A symbolic input reaches the guest. When the guest writes the address of a word of the memory and then the size 4 to
  the control peripheral and loads the word, its register holds, under every assignment, the value of the symbolic
  bytes that clover created under the name of the address; the two stores change no register. Hypothesis on clover: it returns one value for
  that name.
\<close>

theorem symbolic_input_reaches_guest:
  assumes laws: "symex_laws cv ev sem cur cm K PE"
    and "regs_wf cv (h_regs h)" "direct_access STORE h" "memory_size_ok h" "ctrl_wf (d_ctrl (devices h))"
    and "val32 ev cur (h_regs h ! unat (rs1 w1)) + S_imm w1 = 0x02020000" "val32 ev cur (h_regs h ! unat (rs2 w1)) = A"
    and "val32 ev cur (h_regs h ! unat (rs1 w2)) + S_imm w2 = 0x02020004" "val32 ev cur (h_regs h ! unat (rs2 w2)) = 4"
    and "val32 ev cur (h_regs h ! unat (rs1 w3)) + I_imm w3 = A" "A mod 4 = 0" "unat A + 4 \<le> 0x02000000"
    and fresh: "\<And>s. sk_getSymbolicBytes K (''memory<'' @ to_string A @ ''>'') 4 s = (Inr v, s)"
    and pl: "pl = symex_platform cv cm K (Suc (Suc n))"
  shows "\<exists>h1 h2 h3. exec_op cv pl w1 (OpI SW) h = (Inr (), h1) \<and> exec_op cv pl w2 (OpI SW) h1 = (Inr (), h2) \<and>
    exec_op cv pl w3 (OpI LW) h2 = (Inr (), h3) \<and> h_regs h2 = h_regs h \<and>
    (\<forall>a. val32 ev a (h_regs h3 ! unat (rd w3)) = val32 ev a v)"
proof -
  note request_address = symex_laws.request_address [OF laws] and request_symbolic = symex_laws.request_symbolic [OF laws]
  obtain h1 where h1: "exec_op cv pl w1 (OpI SW) h = (Inr (), h1)" "direct_access STORE h1" "h_regs h1 = h_regs h"
    "d_memory (devices h1) = d_memory (devices h)" "ctrl_wf (d_ctrl (devices h1))" "reg32 (reg_addr (d_ctrl (devices h1))) = A"
    using request_address [OF assms(2,3,5,6)] assms(7) pl by metis
  have "memory_size_ok h1" using assms(4) h1(4) by (simp add: memory_size_ok_def)
  then obtain h2 where h2: "exec_op cv pl w2 (OpI SW) h1 = (Inr (), h2)" "direct_access STORE h2" "memory_size_ok h2" "h_regs h2 = h_regs h"
    "sym_memory (d_memory (devices h2)) = cm_store cm (ucast A) v 4 (sym_memory (d_memory (devices h1)))"
    using request_symbolic [of h1 w2 v n] assms(2,8,9,12) h1 fresh pl by auto
  have vw: "getWidth cv v = 32"
    using sim_kernel_laws.symbolic_bytes [of cv K PE "''memory<'' @ to_string A @ ''>''" 4] laws fresh [of h]
    by (auto simp: symex_laws_def contained_def dest!: spec [of _ h])
  let ?x = "cm_load cm (sym_memory (d_memory (devices h2))) (ucast A) 4"
  have "ev a ?x = take_bit 32 (ev a v)" for a
    using concolic_memory_laws.load_store [of cv ev cm 4 v a "ucast A"] laws vw by (simp add: symex_laws_def h2(5))
  then have val: "val32 ev a ?x = val32 ev a v" for a by (simp add: val32_def word_of_nat_take_bit32)
  have r: "regs_wf cv (h_regs h2)" "unat (rd w3) < length (h_regs h2)"
    using assms(2) h2(4) register_index_bounds [of w3] by (simp_all add: regs_wf_def)
  have adr: "val32 ev cur (h_regs h2 ! unat (rs1 w3)) + I_imm w3 = A" using assms(10) h2(4) by simp
  have "\<exists>h3. exec_op cv pl w3 (OpI LW) h2 = (Inr (), h3) \<and> (\<forall>a. val32 ev a (h_regs h3 ! unat (rd w3)) = val32 ev a v)"
    using symex_laws.lw_direct(1) [OF laws r(1) h2(2,3), of w3 "Suc n"] symex_laws.lw_direct(2) [OF laws r(1) h2(2,3), of w3]
      adr assms(11,12) r(2) val pl by simp
  with h1(1) h2(1,4) show ?thesis by blast
qed

text \<open>A guest that makes the word at \<open>0x100\<close> symbolic: \<open>SW x6, 0(x5)\<close>, \<open>SW x7, 4(x5)\<close>, \<open>LW x3, 0(x6)\<close>.\<close>

definition asking_hart :: "(bv_value, bv_expr, bv_image) sys" where
  "asking_hart = sample_hart\<lparr>h_regs := (replicate 32 (Concrete 32 0))[5 := Concrete 32 0x02020000, 6 := Concrete 32 0x100, 7 := Concrete 32 4]\<rparr>"

lemma asking_fields:
  "regs_wf (bv_clover sample_inputs) (h_regs asking_hart)" "direct_access STORE asking_hart" "memory_size_ok asking_hart"
  "ctrl_wf (d_ctrl (devices asking_hart))"
proof -
  show "regs_wf (bv_clover sample_inputs) (h_regs asking_hart)"
    by (auto simp: asking_hart_def regs_wf_def bv_clover_def dest!: set_update_subset_insert [THEN subsetD])
  show "direct_access STORE asking_hart" "memory_size_ok asking_hart"
    using sample_direct by (auto simp: asking_hart_def direct_access_def paging_def effective_mode_def memory_size_ok_def
        access_must_wait_def devices_def hart_id_def split: if_splits)
  show "ctrl_wf (d_ctrl (devices asking_hart))" by (simp add: asking_hart_def devices_def sample_world ctrl_wf_make)
qed

theorem symbolic_input_reaches_guest_witness:
  "\<exists>h1 h2 h3. exec_op (bv_clover sample_inputs) (bv_symex sample_inputs 2) 0x0062A023 (OpI SW) asking_hart = (Inr (), h1) \<and>
    exec_op (bv_clover sample_inputs) (bv_symex sample_inputs 2) 0x0072A223 (OpI SW) h1 = (Inr (), h2) \<and>
    exec_op (bv_clover sample_inputs) (bv_symex sample_inputs 2) 0x00032183 (OpI LW) h2 = (Inr (), h3) \<and>
    (\<forall>a. val32 bv_eval a (h_regs h3 ! 3) = word_of_nat (a ''memory<256>'' mod 2 ^ 32))"
proof -
  have i: "rs1 0x0062A023 = 5" "rs2 0x0062A023 = 6" "S_imm 0x0062A023 = 0" "rs1 0x0072A223 = 5" "rs2 0x0072A223 = 7"
    "S_imm 0x0072A223 = 4" "rs1 0x00032183 = 6" "I_imm 0x00032183 = 0" "rd 0x00032183 = 3"
    by code_simp+
  have r: "val32 bv_eval sample_inputs (h_regs asking_hart ! 5) = 0x02020000" "val32 bv_eval sample_inputs (h_regs asking_hart ! 6) = 0x100"
    "val32 bv_eval sample_inputs (h_regs asking_hart ! 7) = 4"
    by (simp_all add: asking_hart_def val32_def)
  have name: "to_string (0x100 :: u32) = ''256''" by code_simp
  have fresh: "sk_getSymbolicBytes bv_kernel (''memory<'' @ to_string (0x100 :: u32) @ ''>'') 4 s =
      (Inr (Symbolic 32 (\<lambda>a. a ''memory<256>'')), s)" for s
    by (simp add: bv_kernel_def name return_m_def)
  have "bv_symex sample_inputs 2 = bv_symex sample_inputs (Suc (Suc 0))" by (simp add: numeral_2_eq_2)
  from symbolic_input_reaches_guest [OF symex.symex_laws_axioms asking_fields _ _ _ _ _ _ _ fresh this,
      where ?w1.0 = "0x0062A023" and ?w2.0 = "0x0072A223" and ?w3.0 = "0x00032183"]
  have "\<exists>h1 h2 h3. exec_op (bv_clover sample_inputs) (bv_symex sample_inputs 2) 0x0062A023 (OpI SW) asking_hart = (Inr (), h1) \<and>
    exec_op (bv_clover sample_inputs) (bv_symex sample_inputs 2) 0x0072A223 (OpI SW) h1 = (Inr (), h2) \<and>
    exec_op (bv_clover sample_inputs) (bv_symex sample_inputs 2) 0x00032183 (OpI LW) h2 = (Inr (), h3) \<and>
    (\<forall>a. val32 bv_eval a (h_regs h3 ! 3) = val32 bv_eval a (Symbolic 32 (\<lambda>a. a ''memory<256>'')))"
    by (simp add: i r) blast
  then show ?thesis by (simp add: val32_def)
qed

section \<open>The end of the program\<close>

lemma interrupt_inputs:
  "h_csrs h1 = h_csrs h \<Longrightarrow> h_prv h1 = h_prv h \<Longrightarrow> compute_pending_interrupts h1 = compute_pending_interrupts h"
  by (simp add: compute_pending_interrupts_def Let_def)

lemma kernel_keeps:
  assumes "contained E m Q" "m h = (Inr x, h')"
  shows "h_status h' = h_status h" "h_lr_sc_counter h' = h_lr_sc_counter h"
proof -
  have "outside h h'" using assms by (auto simp: contained_def dest!: spec [of _ h])
  then have "h_status (h'\<lparr>h_world := h_world h, h_csrs := (h_csrs h')\<lparr>mip_reg := mip_reg (h_csrs h)\<rparr>, h_shall_exit := h_shall_exit h\<rparr>) = h_status h"
    "h_lr_sc_counter (h'\<lparr>h_world := h_world h, h_csrs := (h_csrs h')\<lparr>mip_reg := mip_reg (h_csrs h)\<rparr>, h_shall_exit := h_shall_exit h\<rparr>) = h_lr_sc_counter h"
    unfolding outside_def by (simp_all only:)
  then show "h_status h' = h_status h" "h_lr_sc_counter h' = h_lr_sc_counter h" by simp_all
qed

text \<open>A kernel whose accounting of time does not fail.\<close>

definition kernel_runs :: "('v, 'e, 'd) sim_kernel \<Rightarrow> bool" where
  "kernel_runs K \<longleftrightarrow> (\<forall>t s. \<exists>s'. sk_quantum_inc K t s = (Inr (), s')) \<and> (\<forall>s. \<exists>b s'. sk_quantum_need_sync K s = (Inr b, s')) \<and>
     (\<forall>s. \<exists>s'. sk_quantum_sync K s = (Inr (), s'))"

context symex_laws
begin

lemma performance_runs:
  assumes "kernel_runs K" "0 \<le> h_lr_sc_counter h"
  shows "\<exists>h'. performance_and_sync_update (symex_platform cv cm K n) op h = (Inr (), h') \<and> h_status h' = h_status h"
proof -
  let ?pl = "symex_platform cv cm K n"
  have q: "quantum_inc ?pl = sk_quantum_inc K" "quantum_need_sync ?pl = sk_quantum_need_sync K" "quantum_sync ?pl = sk_quantum_sync K"
    "atomic_unlock ?pl = mem_atomic_unlock"
    by (simp_all add: symex_platform_def mem_platform_def symex_kernel_def)
  define T where "T t = then_m (sk_quantum_inc K t) (bind_m (sk_quantum_need_sync K) (\<lambda>b.
      when_m b (bind_m (gets_m h_lr_sc_counter) (\<lambda>n. when_m (n = 0) (sk_quantum_sync K)))))" for t
  have tail: "\<exists>s'. T t s = (Inr (), s') \<and> h_status s' = h_status s" for t s
  proof -
    obtain s1 where s1: "sk_quantum_inc K t s = (Inr (), s1)" using assms(1) unfolding kernel_runs_def by blast
    obtain b s2 where s2: "sk_quantum_need_sync K s1 = (Inr b, s2)" using assms(1) unfolding kernel_runs_def by blast
    obtain s3 where s3: "sk_quantum_sync K s2 = (Inr (), s3)" using assms(1) unfolding kernel_runs_def by blast
    show ?thesis
      using s1 s2 s3 kernel_keeps [OF quantum_laws(1) s1] kernel_keeps [OF quantum_laws(2) s2] kernel_keeps [OF quantum_laws(3) s3]
      by (simp add: T_def bind_m_apply then_m_apply when_m_def)
  qed
  have "\<exists>s. performance_and_sync_update ?pl op h = T (instr_cycles op) s \<and> h_status s = h_status h"
  proof -
    have unl: "h_status (unlocked s) = h_status s" for s :: "('v, 'e, 'c) sys"
      by (simp add: unlocked_def mem_atomic_unlock_def upd_world_def bind_m_apply)
    show ?thesis
      unfolding performance_and_sync_update_def q Let_def T_def [symmetric] release_lr_sc_reservation_def
      using assms(2) by (auto simp: when_m_def upd_csrs_def unlocked_apply unl assert_m_def bind_m_apply then_m_apply)
  qed
  with tail show ?thesis by metis
qed

lemma request_exit:
  assumes "regs_wf cv (h_regs h)" "direct_access STORE h" "ctrl_wf (d_ctrl (devices h))"
    and "val32 ev cur (h_regs h ! unat (rs1 w)) + S_imm w = 0x02020008"
    and "val32 ev cur (h_regs h ! unat (rs2 w)) AND CTRL_ERROR = 0" "val32 ev cur (h_regs h ! unat (rs2 w)) AND CTRL_EXIT \<noteq> 0"
  shows "\<exists>h1. exec_op cv (symex_platform cv cm K (Suc n)) w (OpI SW) h = (Inr (), h1) \<and> h_shall_exit h1 \<and> h_regs h1 = h_regs h \<and>
    h_csrs h1 = h_csrs h \<and> h_prv h1 = h_prv h \<and> h_lr_sc_counter h1 = h_lr_sc_counter h \<and> h_op h1 = h_op h"
proof -
  let ?v = "h_regs h ! unat (rs2 w)"
  let ?bs = "nat_to_bytes 4 (ev cur ?v)"
  let ?s = "(upd_devices (d_ctrl_update (reg_ctrl_update (rr_mem_update (list_write 0 ?bs)))) h)\<lparr>h_shall_exit := True\<rparr>"
  let ?h = "upd_devices (d_ctrl_update (reg_ctrl_update (rr_mem_update (view_write 4 0 0)))) ?s"
  let ?e = "symex_ctrl K (make_symbolic cv (symex_platform cv cm K n))"
  have l: "ct_get ?e (ct_update ?e f s) = f (ct_get ?e s)" for f s by (simp add: symex_ctrl_def devices_def upd_devices_def)
  have cmd: "bytes_to_u32 ?bs = val32 ev cur ?v" by (simp add: bytes_to_u32_def bytes_roundtrip of_nat_mod_word val32_def)
  have "ctrl_transport ?e (ctrl_payload 8 ?bs (Some ?v)) h = (Inr (ctrl_payload 8 ?bs (Some ?v)), ?h)"
    using ctrl_command_write [of ?e h ?bs, OF _ _ l, of ?s "Some ?v"] assms(3,5,6) cmd by (simp add: symex_ctrl_def sys_exit_def)
  then have t: "symex_transport cv cm K (Suc n) (ctrl_payload (ucast (0x02020008 :: u32)) ?bs (Some ?v)) h = (Inr (ctrl_payload 8 ?bs (Some ?v)), ?h)"
    using ctrl_port [of "0x02020008" cv cm K n ?bs "Some ?v" h] by simp
  have "exec_op cv (symex_platform cv cm K (Suc n)) w (OpI SW) h = (Inr (), unlocked ?h)"
    using sw_device [OF assms(1,2) HOL.refl assms(4) _ t] by simp
  then show ?thesis
    by (intro exI [of _ "unlocked ?h"])
      (simp add: unlocked_def mem_atomic_unlock_def upd_world_def upd_devices_def bind_m_apply)
qed

lemma exit_step:
  assumes inv: "hart_inv cv sem cur h" "x0_zero cv h" and "direct_access STORE h" "ctrl_wf (d_ctrl (devices h))"
    and run: "\<not> (h_debug_mode h \<and> h_pc h \<in> h_breakpoints h)" "target_mode (compute_pending_interrupts h) = NoneMode" "kernel_runs K"
    and fetch: "load_instr (symex_platform cv cm K (Suc n)) (ucast (h_pc h)) (h\<lparr>h_last_pc := h_pc h\<rparr>) = (Inr w, h\<lparr>h_last_pc := h_pc h\<rparr>)"
      "\<not> is_compressed w" "decode_normal w RV32 = OpI SW"
    and "val32 ev cur (h_regs h ! unat (rs1 w)) + S_imm w = 0x02020008"
    and "val32 ev cur (h_regs h ! unat (rs2 w)) AND CTRL_ERROR = 0" "val32 ev cur (h_regs h ! unat (rs2 w)) AND CTRL_EXIT \<noteq> 0"
  shows "\<exists>h'. run_step cv (symex_platform cv cm K (Suc n)) h = (Inr (), h') \<and> h_status h' = Terminated"
proof -
  let ?pl = "symex_platform cv cm K (Suc n)"
  define h2 where "h2 = h\<lparr>h_last_pc := h_pc h, h_instr := w, h_op := OpI SW, h_pc := h_pc h + 4\<rparr>"
  have k: "regs_wf cv (h_regs h2)" "direct_access STORE h2" "ctrl_wf (d_ctrl (devices h2))"
    using inv(1) assms(3,4)
    by (auto simp: h2_def hart_inv_def direct_access_def paging_def effective_mode_def access_must_wait_def hart_id_def devices_def)
  obtain h1 where h1: "exec_op cv ?pl w (OpI SW) h2 = (Inr (), h1)" "h_shall_exit h1" "h_regs h1 = h_regs h2" "h_csrs h1 = h_csrs h2"
    "h_prv h1 = h_prv h2" "h_lr_sc_counter h1 = h_lr_sc_counter h2" "h_op h1 = h_op h2"
    using request_exit [OF k, of w n] assms(11-13) by (auto simp: h2_def)
  have al: "h_pc h AND NOT (pc_alignment_mask (h_csrs h)) = 0"
    using inv(1) by (auto simp: hart_inv_def even_pcs_def csrs_wf_def pc_alignment_mask_def)
  have "exec_step cv ?pl (h\<lparr>h_last_pc := h_pc h\<rparr>) = (Inr (), h1)"
    using h1(1) fetch al
    by (simp add: exec_step_def fetch_instr_def decode_instr_def assert_m_def catch_m_def h2_def bind_m_apply then_m_apply)
  moreover have "take_interrupts ?pl h1 = (Inr (), h1)"
    using run(2) interrupt_inputs [of h1 h] h1(4,5) by (simp add: take_interrupts_def when_m_def h2_def bind_m_apply)
  moreover have "getWidth cv (BVC cv 0) = 32" using BVC_law by simp
  moreover have "getValue cv (h_regs h ! 0) = 0" using inv(2) by (simp add: x0_zero_def)
  ultimately have "run_step cv ?pl h = performance_and_sync_update ?pl (OpI SW)
      (h1\<lparr>h_regs := (h_regs h1)[0 := BVC cv 0], h_status := Terminated\<rparr>)"
    using run(1) h1(2,7)
    by (auto simp: run_step_def RegFile_read_def RegFile_write_def assert_m_def catch_m_def h2_def bind_m_apply then_m_apply)
  then show ?thesis
    using performance_runs [OF run(3), of "h1\<lparr>h_regs := (h_regs h1)[0 := BVC cv 0], h_status := Terminated\<rparr>"] inv(1) h1(6)
    by (simp add: hart_inv_def h2_def)
qed

end

text \<open>
  C39: The guest ends the simulation. When the core executes a store of a command with the exit bit, and without the error bit, to the control
  peripheral, and no interrupt is pending, the step ends with the core terminated; the run loop and the runner of the core end there without an error.
\<close>

theorem guest_exit_ends_simulation:
  assumes "symex_laws cv ev sem cur cm K PE" "hart_inv cv sem cur h" "x0_zero cv h" "direct_access STORE h" "ctrl_wf (d_ctrl (devices h))"
    and "\<not> (h_debug_mode h \<and> h_pc h \<in> h_breakpoints h)" "target_mode (compute_pending_interrupts h) = NoneMode" "kernel_runs K"
    and "load_instr (symex_platform cv cm K (Suc n)) (ucast (h_pc h)) (h\<lparr>h_last_pc := h_pc h\<rparr>) = (Inr w, h\<lparr>h_last_pc := h_pc h\<rparr>)"
    and "\<not> is_compressed w" "decode_normal w RV32 = OpI SW"
    and "val32 ev cur (h_regs h ! unat (rs1 w)) + S_imm w = 0x02020008"
    and "val32 ev cur (h_regs h ! unat (rs2 w)) AND CTRL_ERROR = 0" "val32 ev cur (h_regs h ! unat (rs2 w)) AND CTRL_EXIT \<noteq> 0"
  shows "\<exists>h'. run cv (symex_platform cv cm K (Suc n)) (Suc fuel) h = Some (Inr (), h') \<and> h_status h' = Terminated \<and>
    DirectCoreRunner_run cv (symex_platform cv cm K (Suc n)) (Suc fuel) h = Some (Inr (), h')"
proof -
  let ?pl = "symex_platform cv cm K (Suc n)"
  obtain h1 where h1: "run_step cv ?pl h = (Inr (), h1)" "h_status h1 = Terminated"
    using symex_laws.exit_step [OF assms] by blast
  obtain h' where h': "sk_quantum_sync K h1 = (Inr (), h')" using assms(8) unfolding kernel_runs_def by blast
  have "contained PE (sk_quantum_sync K) (\<lambda>_. True)"
    using assms(1) sim_kernel_laws.quantum_laws(3) by (auto simp: symex_laws_def)
  from kernel_keeps(1) [OF this h'] h1 h' show ?thesis
    by (simp add: DirectCoreRunner_run_def symex_platform_def mem_platform_def symex_kernel_def)
qed

text \<open>A guest whose next instruction is \<open>SW x6, 8(x5)\<close> with the exit command in \<open>x6\<close>.\<close>

definition exit_image :: bv_image where
  "exit_image a = Concrete 8 (if a mod 4 = 0 then 0x23 else if a mod 4 = 1 then 0xA4 else if a mod 4 = 2 then 0x62 else 0)"

definition exit_hart :: "(bv_value, bv_expr, bv_image) sys" where
  "exit_hart = (snd (symex_init (bv_clover sample_inputs) exit_image 0x10000))
     \<lparr>h_regs := (replicate 32 (Concrete 32 0))[5 := Concrete 32 0x02020000, 6 := Concrete 32 0x40000000]\<rparr>"

lemma exit_word: "cm_load bv_memory exit_image 0x10000 4 = Concrete 32 0x0062A423"
  by (simp add: bv_memory_def exit_image_def bv_byte_def bv_concat_def upt_rec bv_lift1_def bv_lift2_def)

lemma exit_state:
  "hart_inv (bv_clover sample_inputs) (\<lambda>a f. f a) sample_inputs exit_hart" "x0_zero (bv_clover sample_inputs) exit_hart"
  "direct_access STORE exit_hart" "ctrl_wf (d_ctrl (devices exit_hart))" "\<not> h_debug_mode exit_hart"
  "target_mode (compute_pending_interrupts exit_hart) = NoneMode" "h_pc exit_hart = 0x10000"
proof -
  let ?i = "snd (symex_init (bv_clover sample_inputs) exit_image 0x10000)"
  have w: "h_world ?i = \<lparr>w_bus_lock = BusLock_init, w_lr_addr = None, w_tlb = \<lambda>_ _ _. empty_entry,
      w_devices = \<lparr>d_memory = \<lparr>sym_size = 0x02000000, sym_memory = exit_image\<rparr>, d_clint = CLINT_make 1,
        d_ctrl = SymbolicCTRL_make, d_sensor = SymbolicSensor_make\<rparr>\<rparr>" and "\<not> h_debug_mode ?i" "h_pc ?i = 0x10000"
    by (simp_all add: symex_init_def ISS_init_def ISS_construct_def RegFile_write_def RegFile_init_def assert_m_def then_m_apply Let_def bv_clover_def)
  then show "\<not> h_debug_mode exit_hart" "h_pc exit_hart = 0x10000" "ctrl_wf (d_ctrl (devices exit_hart))"
    by (simp_all add: exit_hart_def devices_def ctrl_wf_make)
  show "direct_access STORE exit_hart"
    by (simp add: exit_hart_def direct_access_def paging_def init_fields csr_table_init_def bf_get_def access_must_wait_def
        is_locked_def BusLock_init_def effective_mode_def w)
  have "regs_wf (bv_clover sample_inputs) (h_regs exit_hart)"
    by (auto simp: exit_hart_def regs_wf_def bv_clover_def dest!: set_update_subset_insert [THEN subsetD])
  moreover have "(0x10000 :: u32) AND 1 = 0" by simp
  ultimately show "hart_inv (bv_clover sample_inputs) (\<lambda>a f. f a) sample_inputs exit_hart"
    using init_inv(1) [OF bv.clover_laws_axioms, of "0x10000" sample_inputs exit_image]
    by (simp add: exit_hart_def hart_inv_def even_pcs_def trace_sound_def)
  show "x0_zero (bv_clover sample_inputs) exit_hart" by (simp add: exit_hart_def x0_zero_def bv_clover_def)
  show "target_mode (compute_pending_interrupts exit_hart) = NoneMode"
    by (simp add: compute_pending_interrupts_def exit_hart_def init_fields csr_table_init_def Let_def)
qed

lemma exit_fetch:
  "load_instr (bv_symex sample_inputs 1) (ucast (h_pc exit_hart)) (exit_hart\<lparr>h_last_pc := h_pc exit_hart\<rparr>) =
    (Inr 0x0062A423, exit_hart\<lparr>h_last_pc := h_pc exit_hart\<rparr>)"
  unfolding exit_state(7)
proof -
  let ?h = "exit_hart\<lparr>h_last_pc := 0x10000\<rparr>"
  note f = symex_init_fields [OF bv.clover_laws_axioms, of sample_inputs exit_image "0x10000"]
  have d: "direct_access FETCH ?h" "memory_size_ok ?h" "sym_memory (d_memory (devices ?h)) = exit_image"
    using f(3-5) by (auto simp: exit_hart_def direct_access_def paging_def effective_mode_def access_must_wait_def hart_id_def memory_size_ok_def
        devices_def split: if_splits)
  show "load_instr (bv_symex sample_inputs 1) (ucast (0x10000 :: u32)) ?h = (Inr 0x0062A423, ?h)"
    using fetch_direct [OF d(1,2), of "0x10000"  "bv_clover sample_inputs" bv_memory bv_kernel 0]
    by (simp add: d(3) exit_word symex_platform_def mem_platform_def)
      (simp add: bv_clover_def bytes_to_u32_def bytes_to_nat_def nat_to_bytes_def upt_rec)
qed

theorem guest_exit_ends_simulation_witness:
  "\<exists>h'. run (bv_clover sample_inputs) (bv_symex sample_inputs 1) 1 exit_hart = Some (Inr (), h') \<and> h_status h' = Terminated \<and>
    DirectCoreRunner_run (bv_clover sample_inputs) (bv_symex sample_inputs 1) 1 exit_hart = Some (Inr (), h')"
proof -
  have i: "rs1 0x0062A423 = 5" "rs2 0x0062A423 = 6" "S_imm 0x0062A423 = 8" "\<not> is_compressed 0x0062A423"
    "decode_normal 0x0062A423 RV32 = OpI SW"
    by code_simp+
  have r: "val32 bv_eval sample_inputs (h_regs exit_hart ! 5) = 0x02020000" "val32 bv_eval sample_inputs (h_regs exit_hart ! 6) = 0x40000000"
    by (simp_all add: exit_hart_def val32_def)
  have "kernel_runs bv_kernel" by (auto simp: kernel_runs_def bv_kernel_def return_m_def)
  then show ?thesis
    using guest_exit_ends_simulation [OF symex.symex_laws_axioms exit_state(1-4) _ exit_state(6) _ _ i(4,5), of 0 0] exit_fetch exit_state(5)
    by (simp add: i r)
qed

end
