(* ===== verification/Host_Devices.thy ===== *)
theory Host_Devices
  imports Serial_Devices Spi_Devices
begin

text \<open>
  How the devices of the HiFive platform attach to the host: the terminal of the console UART
  (\<^verbatim>\<open>core/common/rawmode.cpp\<close>, \<^verbatim>\<open>platform/common/uart.cpp\<close>), the tunnel of the SLIP interface (\<^verbatim>\<open>platform/common/slip.cpp\<close>), the
  socket and the listener of the CAN controller (\<^verbatim>\<open>platform/hifive/can.cpp\<close>) and the shared memory of the display
  (\<^verbatim>\<open>platform/hifive/oled/common.cpp\<close>). What the system calls answer is an argument.
\<close>

section \<open>Terminal\<close>

record termios =
  c_iflag :: u32
  c_cflag :: u32
  c_lflag :: u32
  c_vmin :: u8
  c_vtime :: u8

text \<open>The variables of \<^verbatim>\<open>rawmode.cpp\<close>, the settings of the terminal and the handlers installed.\<close>

record terminal =
  rawfd :: int
  orig_termios :: termios
  tty_attr :: termios
  tty_handlers :: "string list"

record tty_host =
  host_isatty :: bool
  host_tcgetattr :: bool
  host_tcsetattr :: bool
  host_sigfillset :: bool
  host_sigaction_ok :: "string \<Rightarrow> bool"
  host_atexit_ok :: bool

text \<open>
  \<^verbatim>\<open>BRKINT | ICRNL | INPCK | ISTRIP | IXON\<close>, \<^verbatim>\<open>CS8\<close> and \<^verbatim>\<open>ECHO | ICANON | IEXTEN | ISIG\<close> with their values on Linux.
\<close>

definition raw_settings :: "termios \<Rightarrow> termios" where
  "raw_settings t = t\<lparr>c_iflag := c_iflag t AND NOT (0x2 OR 0x100 OR 0x10 OR 0x20 OR 0x400), c_cflag := c_cflag t OR 0x30,
     c_lflag := c_lflag t AND NOT (0x8 OR 0x2 OR 0x8000 OR 0x1), c_vmin := 1, c_vtime := 0\<rparr>"

definition disableRawMode :: "tty_host \<Rightarrow> int \<Rightarrow> (terminal, unit) smonad" where
  "disableRawMode host fd = bind_m (gets_m rawfd) (\<lambda>raw.
     if raw < 0 then return_m ()
     else if \<not> host_tcsetattr host then throw_m system_error
     else modify_m (\<lambda>t. t\<lparr>tty_attr := orig_termios t, rawfd := - 1\<rparr>))"

definition reset_term :: "tty_host \<Rightarrow> (terminal, unit) smonad" where
  "reset_term host = bind_m (gets_m rawfd) (\<lambda>raw. if raw < 0 then return_m () else disableRawMode host raw)"

text \<open>The handler ends the process with \<^verbatim>\<open>EXIT_FAILURE\<close>, the value here.\<close>

definition raw_sighandler :: "tty_host \<Rightarrow> (terminal, nat) smonad" where
  "raw_sighandler host = then_m (reset_term host) (return_m 1)"

fun install_handlers :: "tty_host \<Rightarrow> string list \<Rightarrow> (terminal, unit) smonad" where
    "install_handlers host [] = return_m ()"
  | "install_handlers host (sig # sigs) =
      (if \<not> host_sigaction_ok host sig then throw_m system_error
       else then_m (modify_m (tty_handlers_update (\<lambda>hs. hs @ [sig]))) (install_handlers host sigs))"

definition sethandler :: "tty_host \<Rightarrow> (terminal, unit) smonad" where
  "sethandler host =
     (if \<not> host_sigfillset host then throw_m system_error
      else then_m (install_handlers host [''SIGINT'', ''SIGTERM'', ''SIGQUIT'', ''SIGHUP''])
        (if \<not> host_atexit_ok host then throw_m system_error
         else modify_m (tty_handlers_update (\<lambda>hs. hs @ [''atexit'']))))"

definition enableRawMode :: "tty_host \<Rightarrow> int \<Rightarrow> (terminal, unit) smonad" where
  "enableRawMode host fd = bind_m (gets_m rawfd) (\<lambda>raw.
     if raw \<ge> 0 then return_m ()
     else if \<not> host_isatty host then return_m ()
     else if \<not> host_tcgetattr host then throw_m system_error
     else then_m (modify_m (\<lambda>t. t\<lparr>orig_termios := tty_attr t\<rparr>))
       (if \<not> host_tcsetattr host then throw_m system_error
        else then_m (modify_m (\<lambda>t. t\<lparr>tty_attr := raw_settings (tty_attr t), rawfd := fd\<rparr>)) (sethandler host)))"

text \<open>The constructor of the console starts its threads in write-only mode when there is no terminal.\<close>

definition UART_construct :: "tty_host \<Rightarrow> (terminal, bool) smonad" where
  "UART_construct host = then_m (enableRawMode host 0) (return_m (\<not> host_isatty host))"

definition UART_destruct :: "tty_host \<Rightarrow> (terminal, unit) smonad" where
  "UART_destruct host = disableRawMode host 0"

lemma install_handlers_terminal:
  assumes "install_handlers host sigs t = (r, t')"
  shows "rawfd t' = rawfd t \<and> orig_termios t' = orig_termios t \<and> tty_attr t' = tty_attr t"
  using assms by (induction sigs arbitrary: t) (auto simp: monad_simps split: if_splits)

lemma sethandler_terminal:
  assumes "sethandler host t = (r, t')"
  shows "rawfd t' = rawfd t \<and> orig_termios t' = orig_termios t \<and> tty_attr t' = tty_attr t"
proof (cases "host_sigfillset host")
  case True
  obtain r1 t1 where i: "install_handlers host [''SIGINT'', ''SIGTERM'', ''SIGQUIT'', ''SIGHUP''] t = (r1, t1)" by fastforce
  with install_handlers_terminal [OF i] assms True show ?thesis
    by (auto simp: sethandler_def monad_simps split: sum.splits if_splits simp del: install_handlers.simps)
qed (use assms in \<open>auto simp: sethandler_def monad_simps\<close>)

text \<open>Whatever happens while the console is set up, a reset leaves the terminal with the settings it had.\<close>

lemma enable_terminal:
  assumes "enableRawMode host fd t = (r, t1)" "rawfd t = - 1"
  shows "tty_attr t1 = tty_attr t \<and> rawfd t1 = - 1 \<or> orig_termios t1 = tty_attr t \<and> rawfd t1 = fd"
proof -
  let ?t = "t\<lparr>orig_termios := tty_attr t, tty_attr := raw_settings (tty_attr t), rawfd := fd\<rparr>"
  obtain r2 t2 where s: "sethandler host ?t = (r2, t2)" by fastforce
  from sethandler_terminal [OF s] have "orig_termios t2 = tty_attr t" "rawfd t2 = fd" by simp_all
  then show ?thesis using assms s by (simp add: enableRawMode_def monad_simps split: if_splits) auto
qed

lemma raw_mode_restored:
  assumes "rawfd t = - 1" "0 \<le> fd" and "enableRawMode host fd t = (r, t1)" and "reset_term host t1 = (Inr (), t2)"
  shows "tty_attr t2 = tty_attr t" "rawfd t2 = - 1"
  using enable_terminal [OF assms(3,1)] assms(2,4)
  by (auto simp: reset_term_def disableRawMode_def monad_simps split: if_splits)

section \<open>Tunnel\<close>

record tun_host =
  tun_open :: bool
  tun_setiff :: bool
  tun_malloc :: "nat \<Rightarrow> bool"
  tun_socket :: bool
  tun_mtu :: "nat option"

definition get_mtu :: "tun_host \<Rightarrow> error + nat" where
  "get_mtu host =
     (if \<not> tun_socket host then Inl system_error
      else case tun_mtu host of None \<Rightarrow> Inl system_error | Some mtu \<Rightarrow> Inr mtu)"

text \<open>
  The constructor's error paths build an exception object and do not throw it: the object exists without its
  threads (\<open>None\<close>). Otherwise the threads run with the state and the size of the receive buffer.
\<close>

definition SLIP_construct :: "tun_host \<Rightarrow> error + (SLIP \<times> nat) option" where
  "SLIP_construct host =
     (if \<not> tun_open host then Inr None
      else if \<not> tun_setiff host then Inr None
      else if \<not> tun_malloc host SLIP_SNDBUF_STEP then Inr None
      else case get_mtu host of
        Inl e \<Rightarrow> Inl e
      | Inr rcvsiz \<Rightarrow> if \<not> tun_malloc host rcvsiz then Inr None else Inr (Some (SLIP_make, rcvsiz)))"

section \<open>CAN\<close>

record can_host =
  can_socket :: bool
  can_ioctl :: bool
  can_bind :: bool

text \<open>The arrays are not initialised; the flag says whether the listener has been started.\<close>

definition CAN_construct :: "can_host \<Rightarrow> u8 list \<Rightarrow> u8 list list \<Rightarrow> u8 list list \<Rightarrow> CAN \<times> bool" where
  "CAN_construct host regs txb rxb = (CAN_make regs txb rxb, can_socket host \<and> can_ioctl host \<and> can_bind host)"

datatype can_read = CanReadError | CanIncomplete | CanRead can_frame

text \<open>The listener: before each read it looks at the flag \<^verbatim>\<open>stop\<close>, given here with the result of the read.\<close>

fun can_listen :: "(bool \<times> can_read) list \<Rightarrow> CAN \<Rightarrow> CAN" where
    "can_listen [] c = c"
  | "can_listen ((halt, r) # rest) c =
      (if halt then c
       else case r of
         CanReadError \<Rightarrow> can_listen rest c
       | CanIncomplete \<Rightarrow> can_listen rest c
       | CanRead frame \<Rightarrow> can_listen rest (enqueueIncomingCanFrame frame c))"

abbreviation (input) MCP_RXF0SIDH :: u8 where "MCP_RXF0SIDH \<equiv> 0x00"
abbreviation (input) MCP_CANCTRL :: u8 where "MCP_CANCTRL \<equiv> 0x0F"
abbreviation (input) MCP_CNF3 :: u8 where "MCP_CNF3 \<equiv> 0x28"
abbreviation (input) MCP_CNF2 :: u8 where "MCP_CNF2 \<equiv> 0x29"
abbreviation (input) MCP_CNF1 :: u8 where "MCP_CNF1 \<equiv> 0x2A"
abbreviation (input) MCP_CANINTF :: u8 where "MCP_CANINTF \<equiv> 0x2C"
abbreviation (input) MCP_TXB1CTRL :: u8 where "MCP_TXB1CTRL \<equiv> 0x40"
abbreviation (input) MCP_TXB2CTRL :: u8 where "MCP_TXB2CTRL \<equiv> 0x50"
abbreviation (input) MCP_WRITE :: u8 where "MCP_WRITE \<equiv> 0x02"
abbreviation (input) MCP_READ :: u8 where "MCP_READ \<equiv> 0x03"
abbreviation (input) MCP_BITMOD :: u8 where "MCP_BITMOD \<equiv> 0x05"
abbreviation (input) MCP_LOAD_TX0 :: u8 where "MCP_LOAD_TX0 \<equiv> 0x40"
abbreviation (input) MCP_LOAD_TX1 :: u8 where "MCP_LOAD_TX1 \<equiv> 0x42"
abbreviation (input) MCP_LOAD_TX2 :: u8 where "MCP_LOAD_TX2 \<equiv> 0x44"
abbreviation (input) MCP_RTS_TX0 :: u8 where "MCP_RTS_TX0 \<equiv> 0x81"
abbreviation (input) MCP_RTS_TX1 :: u8 where "MCP_RTS_TX1 \<equiv> 0x82"
abbreviation (input) MCP_RTS_TX2 :: u8 where "MCP_RTS_TX2 \<equiv> 0x84"
abbreviation (input) MCP_RTS_ALL :: u8 where "MCP_RTS_ALL \<equiv> 0x87"
abbreviation (input) MCP_READ_RX0 :: u8 where "MCP_READ_RX0 \<equiv> 0x90"
abbreviation (input) MCP_READ_RX1 :: u8 where "MCP_READ_RX1 \<equiv> 0x94"
abbreviation (input) MCP_READ_STATUS :: u8 where "MCP_READ_STATUS \<equiv> 0xA0"
abbreviation (input) MCP_RX_STATUS :: u8 where "MCP_RX_STATUS \<equiv> 0xB0"
abbreviation (input) MCP_RESET :: u8 where "MCP_RESET \<equiv> 0xC0"
abbreviation (input) MODE_NORMAL :: u8 where "MODE_NORMAL \<equiv> 0x00"
abbreviation (input) MODE_SLEEP :: u8 where "MODE_SLEEP \<equiv> 0x20"
abbreviation (input) MODE_CONFIG :: u8 where "MODE_CONFIG \<equiv> 0x80"
abbreviation (input) MODE_ONESHOT :: u8 where "MODE_ONESHOT \<equiv> 0x08"

definition named :: "string \<Rightarrow> (u8 \<times> string) list \<Rightarrow> u8 \<Rightarrow> string" where
  "named other table i = (case map_of table i of Some name \<Rightarrow> name | None \<Rightarrow> other)"

definition registerName :: "u8 \<Rightarrow> string" where
  "registerName = named ''UNKNOWN-RegName''
     [(MCP_CANCTRL, ''MCP_CANCTRL''), (MCP_RXF0SIDH, ''MCP_RXF0SIDH''), (MCP_CNF1, ''MCP_CNF1''), (MCP_CNF2, ''MCP_CNF2''),
      (MCP_CNF3, ''MCP_CNF3''), (MCP_CANINTF, ''MCP_CANINTF''), (MCP_TXB1CTRL, ''MCP_TXB1CTRL''), (MCP_TXB2CTRL, ''MCP_TXB2CTRL'')]"

definition regValueName :: "u8 \<Rightarrow> string" where
  "regValueName = named ''UNKNOWN-RegValue''
     [(MODE_NORMAL, ''MODE_NORMAL''), (MODE_SLEEP, ''MODE_SLEEP''), (MODE_CONFIG, ''MODE_CONFIG''), (MODE_ONESHOT, ''MODE_ONESHOT'')]"

definition spiInstName :: "u8 \<Rightarrow> string" where
  "spiInstName = named ''UNKNOWN-SpiInst''
     [(MCP_WRITE, ''MCP_WRITE''), (MCP_READ, ''MCP_READ''), (MCP_BITMOD, ''MCP_BITMOD''), (MCP_LOAD_TX0, ''MCP_LOAD_TX0''),
      (MCP_LOAD_TX1, ''MCP_LOAD_TX1''), (MCP_LOAD_TX2, ''MCP_LOAD_TX2''), (MCP_RTS_TX0, ''MCP_RTS_TX0''), (MCP_RTS_TX1, ''MCP_RTS_TX1''),
      (MCP_RTS_TX2, ''MCP_RTS_TX2''), (MCP_RTS_ALL, ''MCP_RTS_ALL''), (MCP_READ_RX0, ''MCP_READ_RX0''), (MCP_READ_RX1, ''MCP_READ_RX1''),
      (MCP_READ_STATUS, ''MCP_READ_STATUS''), (MCP_RX_STATUS, ''MCP_RX_STATUS''), (MCP_RESET, ''MCP_RESET'')]"

text \<open>A command byte that has no name is ignored: the controller stays in its initial state.\<close>

lemma unnamed_command:
  "cs_state c = can_init \<Longrightarrow> spiInstName b = ''UNKNOWN-SpiInst'' \<Longrightarrow> cs_state (can_command b c) = can_init"
  by (auto simp: spiInstName_def named_def can_command_def split: if_splits)

text \<open>At most two frames wait: the listener drops what does not fit.\<close>

lemma listen_keeps_full:
  "can_status c AND 3 = 3 \<Longrightarrow> can_listen rs c = c"
  by (induction rs arbitrary: c) (auto simp: enqueueIncomingCanFrame_def split: can_read.splits)

section \<open>Shared memory of the display\<close>

abbreviation (input) shm_key :: int where "shm_key \<equiv> 1339"

text \<open>The results of the calls of \<^verbatim>\<open>shmget\<close> and \<^verbatim>\<open>shmctl\<close> by their number, and the address \<^verbatim>\<open>shmat\<close> gives.\<close>

record shm_host =
  host_shmget :: "nat \<Rightarrow> int"
  host_shmctl :: "nat \<Rightarrow> int"
  host_shmat :: "int \<Rightarrow> u64"

fun shm_attempts :: "shm_host \<Rightarrow> nat \<Rightarrow> nat \<Rightarrow> int \<Rightarrow> int option" where
    "shm_attempts host i 0 shmid = Some shmid"
  | "shm_attempts host i (Suc n) shmid =
      (if host_shmget host i \<ge> 0 then shm_attempts host (Suc i) n (host_shmget host i)
       else if host_shmctl host i = - 1 then None
       else shm_attempts host (Suc i) n (host_shmget host i))"

text \<open>\<open>None\<close> is the null pointer.\<close>

definition getSharedState :: "shm_host \<Rightarrow> u64 option" where
  "getSharedState host = (case shm_attempts host 0 2 (- 1) of
     None \<Rightarrow> None
   | Some shmid \<Rightarrow> let addr = host_shmat host shmid in if addr = 0 then None else Some addr)"

end
