(* ===== verification/Util_Devices.thy ===== *)
theory Util_Devices
  imports Spi_Devices Elf_Loader
begin

text \<open>
  Small building blocks of the repository: the placeholder devices of \<^verbatim>\<open>platform/common/util.h\<close>, the
  buffer for compressed instructions of \<^verbatim>\<open>core/rv32/iss.h\<close>, the constructors of \<^verbatim>\<open>core/common/dmi.h\<close>
  and the enumerations with names of \<^verbatim>\<open>util/elegantEnums.hpp\<close> that the display uses.
\<close>

section \<open>BlankDevice, ZeroDevice and SimpleUART\<close>

record BlankDevice =
  bd_size :: u32
  bd_data :: "u8 list"

text \<open>The bytes of the new array are not initialised: its contents are an argument.\<close>

definition BlankDevice_make :: "(nat \<Rightarrow> u8) \<Rightarrow> u32 \<Rightarrow> BlankDevice" where
  "BlankDevice_make heap sz = \<lparr>bd_size = sz, bd_data = map heap [0..<unat sz]\<rparr>"

definition blank_transport :: "('v, BlankDevice) target" where
  "blank_transport t = bind_m (gets_m (\<lambda>d. d)) (\<lambda>d.
     then_m (assert_m ''trans.get_address() + trans.get_data_length() <= size''
              (p_address t + word_of_nat (length (p_data t)) \<le> ucast (bd_size d)))
      (case p_command t of
         TLM_READ_COMMAND \<Rightarrow>
           return_m (t\<lparr>p_data := mem_read (unat (p_address t)) (length (p_data t)) (bd_data d)\<rparr>)
       | TLM_WRITE_COMMAND \<Rightarrow> then_m
           (modify_m (\<lambda>d. d\<lparr>bd_data := list_write (unat (p_address t)) (p_data t) (bd_data d)\<rparr>)) (return_m t)
       | TLM_IGNORE_COMMAND \<Rightarrow> throw_m (RuntimeError ''unsupported TLM command'')))"

definition zero_transport :: "('v, 's) target" where
  "zero_transport t = return_m (case p_command t of
     TLM_READ_COMMAND \<Rightarrow> t\<lparr>p_data := replicate (length (p_data t)) 0\<rparr> | _ \<Rightarrow> t)"

text \<open>The state is the text printed; the first byte of the payload is printed whatever its length.\<close>

definition simple_uart_transport :: "('v, u8 list) target" where
  "simple_uart_transport t = then_m
     (when_m (p_command t = TLM_WRITE_COMMAND \<and> p_address t = 0) (modify_m (\<lambda>out. out @ [hd (p_data t)])))
     (return_m t)"

section \<open>InstructionBuffer\<close>

record InstructionBuffer =
  last_fetch_addr :: u32
  ib_buffer :: u32

definition InstructionBuffer_make :: InstructionBuffer where
  "InstructionBuffer_make = \<lparr>last_fetch_addr = 0, ib_buffer = 0\<rparr>"

definition buffer_load_instr :: "(u64 \<Rightarrow> u32) \<Rightarrow> u64 \<Rightarrow> (InstructionBuffer, u32) smonad" where
  "buffer_load_instr instr_mem addr = bind_m (gets_m (\<lambda>b. b)) (\<lambda>b.
     if addr = ucast (last_fetch_addr b + 2) then return_m (drop_bit 16 (ib_buffer b))
     else then_m (modify_m (\<lambda>b. b\<lparr>last_fetch_addr := ucast addr, ib_buffer := instr_mem addr\<rparr>))
            (return_m (instr_mem addr)))"

section \<open>MemoryDMI\<close>

definition create_start_size_mapping ::
  "('d \<Rightarrow> u64 \<Rightarrow> u8) \<Rightarrow> (u64 \<Rightarrow> u8 \<Rightarrow> 'd \<Rightarrow> 'd) \<Rightarrow> u64 \<Rightarrow> u64 \<Rightarrow> error + 'd MemoryDMI" where
  "create_start_size_mapping g p start sz =
     (if start + sz > start then Inr \<lparr>dmi_start = start, dmi_end = start + sz, dmi_get = g, dmi_put = p\<rparr>
      else Inl (AssertFail ''start + size > start''))"

definition create_start_end_mapping ::
  "('d \<Rightarrow> u64 \<Rightarrow> u8) \<Rightarrow> (u64 \<Rightarrow> u8 \<Rightarrow> 'd \<Rightarrow> 'd) \<Rightarrow> u64 \<Rightarrow> u64 \<Rightarrow> error + 'd MemoryDMI" where
  "create_start_end_mapping g p start e =
     (if e > start then create_start_size_mapping g p start (e - start)
      else Inl (AssertFail ''end > start''))"

section \<open>Enumerations with names\<close>

lemma dropWhile_tail_shorter: "dropWhile P xs = y # ys \<Longrightarrow> length ys < length xs"
  using length_dropWhile_le [of P xs] by simp

text \<open>\<^verbatim>\<open>std::getline\<close> until the stream ends: a separator at the end of the text starts no further item.\<close>

function splitString :: "char \<Rightarrow> string \<Rightarrow> string list" where
  "splitString sep cs =
     (if cs = [] then []
      else takeWhile (\<lambda>x. x \<noteq> sep) cs #
        (case dropWhile (\<lambda>x. x \<noteq> sep) cs of [] \<Rightarrow> [] | _ # rest \<Rightarrow> splitString sep rest))"
  by pat_completeness auto
termination
  by (relation "measure (\<lambda>(_, cs). length cs)") (auto dest: dropWhile_tail_shorter)

declare splitString.simps [simp del]

text \<open>
  \<^verbatim>\<open>std::stoull(s, 0, 0)\<close>: white space, a sign and a number in base 16, 8 or 10 by its prefix; what
  follows the digits is ignored.
\<close>

definition digit_value :: "char \<Rightarrow> nat option" where
  "digit_value c = (let n = of_char c :: nat in
     if 48 \<le> n \<and> n \<le> 57 then Some (n - 48)
     else if 97 \<le> n \<and> n \<le> 122 then Some (n - 87)
     else if 65 \<le> n \<and> n \<le> 90 then Some (n - 55) else None)"

definition is_digit :: "nat \<Rightarrow> char \<Rightarrow> bool" where
  "is_digit base c = (case digit_value c of None \<Rightarrow> False | Some d \<Rightarrow> d < base)"

definition number_of :: "nat \<Rightarrow> string \<Rightarrow> nat" where
  "number_of base ds = foldl (\<lambda>n c. n * base + the (digit_value c)) 0 ds"

definition base_and_digits :: "string \<Rightarrow> nat \<times> string" where
  "base_and_digits s =
     (case s of
        CHR ''0'' # x # d # ds \<Rightarrow>
          if (x = CHR ''x'' \<or> x = CHR ''X'') \<and> is_digit 16 d then (16, takeWhile (is_digit 16) (d # ds))
          else (8, takeWhile (is_digit 8) s)
      | CHR ''0'' # ds \<Rightarrow> (8, takeWhile (is_digit 8) s)
      | _ \<Rightarrow> (10, takeWhile (is_digit 10) s))"

definition stoull :: "string \<Rightarrow> error + u64" where
  "stoull s =
     (let t = dropWhile (\<lambda>c. c \<in> {CHR '' '', CHR 0x09, CHR 0x0A, CHR 0x0B, CHR 0x0C, CHR 0x0D}) s;
          neg = (t \<noteq> [] \<and> hd t = CHR ''-'');
          (base, ds) = base_and_digits (if t \<noteq> [] \<and> (hd t = CHR ''-'' \<or> hd t = CHR ''+'') then tl t else t);
          n = number_of base ds
      in if ds = [] then Inl (RuntimeError ''stoull: invalid_argument'')
         else if n \<ge> 2 ^ 64 then Inl (RuntimeError ''stoull: out_of_range'')
         else Inr (if neg then - word_of_nat n else word_of_nat n))"

text \<open>
  \<^verbatim>\<open>std::map<uint16_t, std::string>\<close>, the only type of map the program generates, as the list of its
  entries in the order of the keys.
\<close>

type_synonym enum_map = "(u16 \<times> string) list"

fun map_put :: "u16 \<Rightarrow> string \<Rightarrow> enum_map \<Rightarrow> enum_map" where
    "map_put k v [] = [(k, v)]"
  | "map_put k v ((k', v') # m) =
       (if k < k' then (k, v) # (k', v') # m
        else if k = k' then (k, v) # m else (k', v') # map_put k v m)"

text \<open>
  A token \<^verbatim>\<open>Name=\<close> has no second part: the access past the end of the vector is an error here.
\<close>

fun generate_from :: "u16 \<Rightarrow> string list \<Rightarrow> enum_map \<Rightarrow> error + enum_map" where
    "generate_from inx [] m = Inr m"
  | "generate_from inx (tok # toks) m =
       (if CHR ''='' \<notin> set tok then generate_from (inx + 1) toks (map_put inx tok m)
        else case splitString (CHR ''='') tok of
          name # value # _ \<Rightarrow>
            (case stoull value of Inl e \<Rightarrow> Inl e
             | Inr n \<Rightarrow> generate_from (ucast n + 1) toks (map_put (ucast n) name m))
        | _ \<Rightarrow> Inl (AssertFail ''enumNameValue[1]''))"

definition generateEnumMap :: "string \<Rightarrow> error + enum_map" where
  "generateEnumMap strMap =
     generate_from 0 (splitString (CHR '','')
       (removeAll (CHR ''('') (removeAll (CHR '' '') strMap))) []"

text \<open>
  The operators of the macro \<^verbatim>\<open>IMPL_ENUM\<close>. Reading a name with \<^verbatim>\<open>map[key]\<close> enters an empty name for a
  value that has none.
\<close>

definition enum_name :: "u16 \<Rightarrow> (enum_map, string) smonad" where
  "enum_name e = bind_m (gets_m (\<lambda>m. map_of m e)) (\<lambda>v. case v of
     Some name \<Rightarrow> return_m name
   | None \<Rightarrow> then_m (modify_m (map_put e [])) (return_m []))"

definition enum_print :: "string \<Rightarrow> u16 \<Rightarrow> (enum_map, string) smonad" where
  "enum_print os e = bind_m (enum_name e) (\<lambda>name. return_m (os @ name))"

definition enum_prefix :: "u16 \<Rightarrow> string \<Rightarrow> (enum_map, string) smonad" where
  "enum_prefix e str = bind_m (enum_name e) (\<lambda>name. return_m (name @ str))"

definition enum_count :: "enum_map \<Rightarrow> nat" where
  "enum_count m = length m"

definition validEnum :: "enum_map \<Rightarrow> u16 \<Rightarrow> bool" where
  "validEnum m e \<longleftrightarrow> map_of m e \<noteq> None"

fun key_after :: "enum_map \<Rightarrow> u16 \<Rightarrow> u16 option" where
    "key_after ((k, _) # (k', v') # m) e = (if k = e then Some k' else key_after ((k', v') # m) e)"
  | "key_after _ e = None"

text \<open>The successor of the last value, and of a value without a name, is the first one.\<close>

definition enum_next :: "enum_map \<Rightarrow> u16 \<Rightarrow> u16" where
  "enum_next m e = (case key_after m e of Some k \<Rightarrow> k | None \<Rightarrow> fst (hd m))"

text \<open>The enumeration of the display's commands: its text as the preprocessor passes it on.\<close>

definition Operator_text :: string where
  "Operator_text = ''COL_LOW, COL_HIGH, PUMP_VOLTAGE, DISPLAY_START_LINE, CONTRAST_MODE_SET, SEGMENT_REMAP, ENTIRE_DISPLAY, NORMAL_INVERSE, MULTIPLEX_RATIO, DC_DC_VOLTAGE, DISPLAY_ON, PAGE_ADDR, COMMON_OUTPUT_DIR, DISPLAY_OFFSET, DISPLAY_DIVIDE_RATIO, DIS_PRE_CHARGE_PERIOD, COMMON_PADS_STUFF, VCOM_DESELECT, RMW, RMW_END, NOP''"

definition OperatorMapName :: "error + enum_map" where
  "OperatorMapName = generateEnumMap Operator_text"

section \<open>Lemmas\<close>

lemma mem_read_list_write [simp]:
  "a + length bs \<le> length xs \<Longrightarrow> mem_read a (length bs) (list_write a bs xs) = bs"
  by (simp add: mem_read_def list_write_def)

text \<open>The blank device returns what was written to it.\<close>

lemma blank_write_read:
  assumes "length (bd_data d) = unat (bd_size d)" "unat (p_address t) + length (p_data t) \<le> unat (bd_size d)"
    and "length (p_data u) = length (p_data t)" "p_address u = p_address t"
    and "p_command t = TLM_WRITE_COMMAND" "p_command u = TLM_READ_COMMAND"
  shows "fst (then_m (blank_transport t) (blank_transport u) d) = Inr (u\<lparr>p_data := p_data t\<rparr>)"
proof -
  have "unat (bd_size d) < 2 ^ 32" using unsigned_less [of "bd_size d", where 'a = nat] by simp
  then have "p_address t + word_of_nat (length (p_data t)) \<le> ucast (bd_size d)"
    using assms(2) by (simp add: word_le_nat_alt unat_word_ariths unat_of_nat unat_to_u64)
  then show ?thesis using assms by (simp add: blank_transport_def monad_simps assert_m_def)
qed

text \<open>
  While the buffer holds what is in memory at the address last fetched, a load returns the word at
  its address or, for the address just behind, the upper half of the word before it: in both cases
  the lower half is the one in memory.
\<close>

definition buffer_ok :: "(u64 \<Rightarrow> u32) \<Rightarrow> InstructionBuffer \<Rightarrow> bool" where
  "buffer_ok instr_mem b \<longleftrightarrow> ib_buffer b = instr_mem (ucast (last_fetch_addr b))"

lemma ucast_down_up: "a < 2 ^ 32 \<Longrightarrow> ucast (ucast (a :: u64) :: u32) = a"
  by (simp add: unat_to_u64 word_unat_eq_iff word_less_nat_alt unsigned_ucast_eq unsigned_take_bit_eq take_bit_nat_eq_self)

lemma buffer_load_keeps_ok:
  "buffer_ok m b \<Longrightarrow> addr < 2 ^ 32 \<Longrightarrow> buffer_ok m (snd (buffer_load_instr m addr b))"
  by (simp add: buffer_ok_def buffer_load_instr_def monad_simps ucast_down_up)

lemma next_half_no_wrap:
  fixes l :: u32
  assumes "ucast (l + 2) \<ge> (2 :: u64)"
  shows "ucast (l + 2) = (ucast l + 2 :: u64)"
proof -
  have n: "unat (l + 2) \<ge> 2" using assms by (simp add: word_le_nat_alt unat_to_u64)
  have "unat (l + 2) = unat l + 2"
  proof (rule ccontr)
    assume a: "\<not> ?thesis"
    have "unat l < 2 ^ 32" using unsigned_less [of l, where 'a = nat] by simp
    moreover have "unat (l + 2) = (unat l + 2) mod 2 ^ 32" by (simp add: unat_word_ariths)
    ultimately show False using n a by (auto simp: mod_if split: if_splits)
  qed
  moreover have "unat (ucast l + 2 :: u64) = unat l + 2"
    using unsigned_less [of l, where 'a = nat] by (simp add: unat_word_ariths unat_to_u64)
  ultimately show ?thesis by (simp add: word_unat_eq_iff unat_to_u64)
qed

lemma buffer_load_value:
  assumes "buffer_ok m b" "addr \<ge> 2"
    and halves: "\<And>a. take_bit 16 (drop_bit 16 (m a)) = take_bit 16 (m (a + 2))"
  shows "\<exists>w. fst (buffer_load_instr m addr b) = Inr w \<and> take_bit 16 w = take_bit 16 (m addr)"
  using assms(1,2) halves [of "ucast (last_fetch_addr b)"] next_half_no_wrap [of "last_fetch_addr b"]
  by (auto simp: buffer_load_instr_def buffer_ok_def monad_simps)

text \<open>A new buffer answers for address 2 without a fetch, and an instruction of four bytes loses its upper half.\<close>

lemma buffer_cold_hit: "buffer_load_instr m 2 InstructionBuffer_make = (Inr 0, InstructionBuffer_make)"
  by (simp add: buffer_load_instr_def InstructionBuffer_make_def monad_simps)

lemma buffer_hit_upper_half:
  assumes "addr = ucast (last_fetch_addr b + 2)" "fst (buffer_load_instr m addr b) = Inr w"
  shows "drop_bit 16 w = 0"
proof -
  have "w = drop_bit 16 (ib_buffer b)" using assms by (simp add: buffer_load_instr_def monad_simps)
  moreover have "drop_bit 32 (ib_buffer b) = 0"
    using bit_imp_le_length [of "ib_buffer b"] by (fastforce simp: bit_eq_iff bit_simps)
  ultimately show ?thesis by simp
qed

text \<open>A mapping by size and one by its end agree.\<close>

lemma create_mapping_agree:
  "start < e \<Longrightarrow> create_start_end_mapping g p start e = create_start_size_mapping g p start (e - start)"
  by (simp add: create_start_end_mapping_def)

lemma created_mapping_nonempty:
  "create_start_size_mapping g p start sz = Inr r \<Longrightarrow> dmi_contains r start \<and> dmi_end r - dmi_start r = sz"
  by (auto simp: create_start_size_mapping_def dmi_contains_def split: if_splits)

text \<open>Splitting takes a joined list apart again.\<close>

fun join_with :: "char \<Rightarrow> string list \<Rightarrow> string" where
    "join_with sep [] = []"
  | "join_with sep [x] = x"
  | "join_with sep (x # xs) = x @ sep # join_with sep xs"

lemma splitString_cons:
  "sep \<notin> set x \<Longrightarrow> splitString sep (x @ sep # ys) = x # splitString sep ys"
  by (subst splitString.simps) (simp add: takeWhile_append dropWhile_append)

lemma splitString_single:
  assumes "sep \<notin> set x" "x \<noteq> []"
  shows "splitString sep x = [x]"
proof -
  have a: "\<And>y. y \<in> set x \<Longrightarrow> y \<noteq> sep" using assms(1) by auto
  then have "takeWhile (\<lambda>y. y \<noteq> sep) x = x" by (rule takeWhile_eq_all_conv [THEN iffD2, rule_format])
  moreover have "dropWhile (\<lambda>y. y \<noteq> sep) x = []" using a by (simp only: dropWhile_eq_Nil_conv) simp
  ultimately show ?thesis by (simp only: splitString.simps [of sep x] assms(2) if_False list.case)
qed

lemma splitString_join:
  "(\<forall>x\<in>set xs. sep \<notin> set x \<and> x \<noteq> []) \<Longrightarrow> splitString sep (join_with sep xs) = xs"
  by (induction sep xs rule: join_with.induct)
     (auto simp: splitString_cons splitString_single splitString.simps [of _ "[]"])

text \<open>
  The keys of a map stay strictly increasing and a stored name is found; counting up visits the values
  in their order and begins again after the last one.
\<close>

lemma set_keys_map_put [simp]: "fst ` set (map_put k v m) = insert k (fst ` set m)"
  by (induction k v m rule: map_put.induct) auto

lemma map_put_sorted:
  "sorted_wrt (<) (map fst m) \<Longrightarrow> sorted_wrt (<) (map fst (map_put k v m))"
proof (induction k v m rule: map_put.induct)
  case (2 k v k' v' m)
  moreover have "set (map fst (map_put k v m)) = insert k (set (map fst m))" by simp
  ultimately show ?case by (auto simp del: set_map)
qed simp

lemma map_of_map_put: "sorted_wrt (<) (map fst m) \<Longrightarrow> map_of (map_put k v m) = (map_of m)(k \<mapsto> v)"
  by (induction k v m rule: map_put.induct) (auto simp: fun_eq_iff map_of_eq_None_iff)

lemma generate_from_sorted:
  "sorted_wrt (<) (map fst m) \<Longrightarrow> generate_from inx toks m = Inr r \<Longrightarrow> sorted_wrt (<) (map fst r)"
  by (induction inx toks m rule: generate_from.induct)
     (auto simp: map_put_sorted split: if_splits list.splits sum.splits)

lemma key_after_nth:
  "distinct (map fst m) \<Longrightarrow> Suc i < length m \<Longrightarrow> key_after m (fst (m ! i)) = Some (fst (m ! Suc i))"
proof (induction m arbitrary: i)
  case (Cons x m)
  then obtain y ys where m: "m = y # ys" by (cases m) auto
  show ?case
  proof (cases i)
    case 0
    then show ?thesis using m by (cases x; cases y) simp
  next
    case (Suc j)
    then have j: "j < length m" using Cons.prems by simp
    then have "fst (m ! j) \<in> set (map fst m)" by simp
    then have "fst x \<noteq> fst (m ! j)" using Cons.prems(1) by (metis distinct.simps(2) list.simps(9))
    then show ?thesis using Suc m Cons.IH [of j] Cons.prems by (cases x; cases y) simp
  qed
qed simp

lemma key_after_last: "distinct (map fst m) \<Longrightarrow> m \<noteq> [] \<Longrightarrow> key_after m (fst (last m)) = None"
proof (induction m)
  case (Cons x m)
  then show ?case by (cases x; cases m) (auto simp: image_iff split: if_splits)
qed simp

lemma enum_next_cycles:
  assumes "sorted_wrt (<) (map fst m)" "i < length m"
  shows "enum_next m (fst (m ! i)) = fst (m ! (Suc i mod length m))"
proof -
  have d: "distinct (map fst m)" using assms(1) by (simp add: strict_sorted_iff)
  show ?thesis
  proof (cases "Suc i = length m")
    case True
    then have "m \<noteq> []" and "i = length m - 1" by auto
    then have "m ! i = last m" by (simp add: last_conv_nth)
    then show ?thesis using key_after_last [OF d \<open>m \<noteq> []\<close>] \<open>m \<noteq> []\<close> True by (simp add: enum_next_def hd_conv_nth)
  next
    case False
    then show ?thesis using key_after_nth [OF d] assms(2) by (simp add: enum_next_def)
  qed
qed

text \<open>The names of the display's commands, by their position.\<close>

lemma OperatorMapName_value:
  "OperatorMapName = Inr (zip (map word_of_nat [0..<21]) (splitString (CHR '','') (removeAll (CHR '' '') Operator_text)))"
  by code_simp

end
