(* ===== verification/Spec2Isabelle.thy ===== *)
theory Spec2Isabelle
  imports Csr_Props Trap_Props Clint_Props Gpio_Props Serial_Props Symbolic_Props Host_Devices Util_Devices
begin

text \<open>
  \<^bold>\<open>SymEx-VP\<close>: a RISC-V virtual prototype with a concolic execution engine. The instruction set
  simulator executes a program on values that carry a concrete number and, where they depend on
  symbolic inputs, an expression; every branch on such a value is recorded, and the recorded path
  condition drives the exploration of further paths. Paths below are relative to \<^verbatim>\<open>src/vp/src\<close>.

  \<^bold>\<open>Layout.\<close> The shared vocabulary is in \<^verbatim>\<open>Prelude\<close>: machine integers, the error values, the
  state-and-exception monad in which stateful code is written (an exception keeps the state changes
  made before it, as in C++), bit fields. The components, bottom up:

  \<^item> \<^verbatim>\<open>Instr\<close>, \<^verbatim>\<open>Instr_Decode\<close>, \<^verbatim>\<open>Compressed\<close> (\<^verbatim>\<open>core/common/instr.h\<close>, \<^verbatim>\<open>core/common/instr.cpp\<close>): the opcodes and
    their encodings, the field accessors of \<^verbatim>\<open>Instruction\<close>, \<^verbatim>\<open>decode_normal\<close>, the decoding and expansion of
    compressed instructions with the encodings of \<^verbatim>\<open>InstructionFactory\<close>.
  \<^item> \<^verbatim>\<open>Csr\<close> (\<^verbatim>\<open>core/rv32/csr.h\<close>): the control and status registers, their bit fields, masks, addresses and
    the address map of \<^verbatim>\<open>csr_table\<close>.
  \<^item> \<^verbatim>\<open>Clover\<close>, \<^verbatim>\<open>Clover_Words\<close>: the interface of the clover library that the simulator calls. Clover is a git
    submodule and not part of the sources, so its operations are the record \<open>clover\<close>, a parameter of
    every definition that uses it, and its documented behaviour is the locale \<open>clover_laws\<close>: each
    operation acts on the values of its operands under every assignment of the symbolic inputs as
    the bit-vector operation of its name. The implementation \<open>bv_clover\<close> interprets the locale.
  \<^item> \<^verbatim>\<open>Iss\<close>, \<^verbatim>\<open>Iss_Exec\<close> (\<^verbatim>\<open>core/rv32/iss.cpp\<close>, \<^verbatim>\<open>core/rv32/iss.h\<close>): the hart as a record with the members of
    \<^verbatim>\<open>struct ISS\<close>, the register file, CSR access, traps and interrupts, every enabled instruction,
    \<^verbatim>\<open>exec_step\<close>, \<^verbatim>\<open>run_step\<close> and \<^verbatim>\<open>run\<close>. What lies outside the core is the record \<open>platform\<close>.
  \<^item> \<^verbatim>\<open>Bus_Lock\<close>, \<^verbatim>\<open>Bus\<close> (\<^verbatim>\<open>platform/common/bus.h\<close>, \<^verbatim>\<open>platform/common/memory.h\<close>, \<^verbatim>\<open>symex/symbolic_memory.cpp\<close>): the
    lock of the bus with the interleavings of several harts, address decoding and routing, the
    concrete and the symbolic memory. A TLM target is a function on the payload and the state.
  \<^item> \<^verbatim>\<open>Mem_Port\<close>, \<^verbatim>\<open>Mmu\<close>, \<^verbatim>\<open>Mem\<close> (\<^verbatim>\<open>core/rv32/mem.h\<close>, \<^verbatim>\<open>core/common/dmi.h\<close>, \<^verbatim>\<open>core/common/mmu.h\<close>): bus transactions,
    direct memory access, address translation with page table walk and translation cache, and the
    loads, stores and atomics of \<^verbatim>\<open>CombinedMemoryInterface\<close>.
  \<^item> \<^verbatim>\<open>Register_Range\<close>, \<^verbatim>\<open>Clint\<close>, \<^verbatim>\<open>Symbolic_Peripherals\<close> (\<^verbatim>\<open>util/memory_map.h\<close>, \<^verbatim>\<open>core/common/clint.h\<close>,
    \<^verbatim>\<open>symex/symbolic_ctrl.cpp\<close>, \<^verbatim>\<open>platform/symex/symex_sensor.cpp\<close>): memory-mapped registers with callbacks,
    the core-local interruptor, the control peripheral of the engine and the symbolic sensor.
  \<^item> \<^verbatim>\<open>Symex_System\<close> (\<^verbatim>\<open>platform/symex/symex_main.cpp\<close>): the platform that connects them.
  \<^item> \<^verbatim>\<open>Tlm_Map\<close> (\<^verbatim>\<open>util/tlm_map.h\<close>): register banks behind a local router. A peripheral works on its part of the
    system state, given by the record \<open>part\<close> with an access and an update function.
  \<^item> \<^verbatim>\<open>Sifive_Peripherals\<close>, \<^verbatim>\<open>Gpio\<close>, \<^verbatim>\<open>Plic\<close>, \<^verbatim>\<open>Real_Clint\<close>, \<^verbatim>\<open>Spi_Devices\<close> (\<^verbatim>\<open>platform/hifive\<close>, \<^verbatim>\<open>platform/common/fe310_plic.h\<close>,
    \<^verbatim>\<open>core/common/real_clint.cpp\<close>, \<^verbatim>\<open>core/common/timer.cpp\<close>): the peripherals of the HiFive platform, with the CAN controller and the
    display behind its SPI controller.
  \<^item> \<^verbatim>\<open>Uart\<close>, \<^verbatim>\<open>Serial_Devices\<close> (\<^verbatim>\<open>platform/common/abstract_uart.cpp\<close>, \<^verbatim>\<open>uart.cpp\<close>, \<^verbatim>\<open>slip.cpp\<close>, \<^verbatim>\<open>uart16550.h\<close>,
    \<^verbatim>\<open>platform/hifive/symbolic_uart.cpp\<close>, \<^verbatim>\<open>symex/symbolic_format.cpp\<close>): the UART core with the step relation of its three threads, and the
    devices built on it.
  \<^item> \<^verbatim>\<open>Host_Devices\<close> (\<^verbatim>\<open>core/common/rawmode.cpp\<close>, \<^verbatim>\<open>platform/hifive/oled/common.cpp\<close> and the constructors of the devices above): the terminal, the
    tunnel, the CAN socket and the shared memory on the side of the host.
  \<^item> \<^verbatim>\<open>Util_Devices\<close> (\<^verbatim>\<open>platform/common/util.h\<close>, \<^verbatim>\<open>util/elegantEnums.hpp\<close>): the placeholder devices, the buffer for compressed instructions
    and the enumerations with names.
  \<^item> \<^verbatim>\<open>Hifive_System\<close> (\<^verbatim>\<open>platform/hifive/hifive_main.cpp\<close>): the HiFive platform; \<^verbatim>\<open>Hifive_Laws\<close> and \<^verbatim>\<open>Hifive_Run\<close> have its contracts and the
    interleaving of its processes.
  \<^item> \<^verbatim>\<open>Gpio_Server\<close> (\<^verbatim>\<open>platform/hifive/gpio\<close>): the server through which programs of the host read and set pins, and its clients.
  \<^item> \<^verbatim>\<open>Gdb_Packets\<close>, \<^verbatim>\<open>Gdb_Grammar\<close>, \<^verbatim>\<open>Gdb_Laws\<close> (\<^verbatim>\<open>core/common/gdb-mc/libgdb\<close>): the packets of the remote protocol and its two grammars,
    written with the combinators of the library mpc, the record \<open>mpc\<close>.
  \<^item> \<^verbatim>\<open>Gdb_Server\<close>, \<^verbatim>\<open>Gdb_Serve\<close> (\<^verbatim>\<open>core/common/gdb-mc\<close>, \<^verbatim>\<open>core/common/debug_memory.cpp\<close>): the handlers of the server, and its two threads with
    the mutex and the queue between them as the step relation \<open>gdb_step\<close>.
  \<^item> \<^verbatim>\<open>Trace\<close> (\<^verbatim>\<open>core/common/instr.cpp\<close>, \<^verbatim>\<open>core/rv32/iss.cpp\<close>): the names of opcodes and registers and the lines printed.
  \<^item> \<^verbatim>\<open>Gdb_Target\<close>: the core of each platform as the target of the server, with its runner and the debug port of the bus.
  \<^item> \<^verbatim>\<open>Elf_Loader\<close>, \<^verbatim>\<open>Symbolic_Explore\<close> (\<^verbatim>\<open>core/common/elf_loader.h\<close>, \<^verbatim>\<open>symex/symbolic_explore.cpp\<close>): loading the program and the loop
    over its paths, with test cases, statistics and the time budget.
  \<^item> \<^verbatim>\<open>Sc_Main\<close> (\<^verbatim>\<open>platform/common/options.cpp\<close>, \<^verbatim>\<open>sc_main\<close> of both platforms): options, loading, the choice of the runner and the ends of
    the main function.

  \<^bold>\<open>Interfaces.\<close> \<open>platform_laws\<close> is what the core relies on from its platform, \<open>iss_core\<close> adds the
  laws of clover, \<open>mem_env_laws\<close> what the memory interface relies on from the bus and the kernel,
  \<open>concolic_memory_laws\<close> the contract of clover's memory, \<open>symex_laws\<close> what the SymEx platform relies
  on. The sublocale relations of \<^verbatim>\<open>Mem_Laws\<close> and \<^verbatim>\<open>Symex_Laws\<close> discharge each from the next, and
  \<^verbatim>\<open>Symex_Instance\<close> interprets all of them for the complete platform on a simulation kernel of one
  hart and a byte-wise concolic memory. \<open>part\<close>, \<open>register_bank\<close> and \<open>mapped_bank\<close> are what a peripheral relies on from its place
  in the system state and from its register bank, \<open>plic_system\<close> and \<open>gpio_system\<close> what the interrupt controller relies on from the harts
  and the GPIO controller from the interrupt controller; \<^verbatim>\<open>Hifive_Props\<close> interprets them for the HiFive platform. \<open>sim_kernel_laws\<close> and \<open>hifive_laws\<close>
  are what the two platforms rely on from the simulation kernel, \<open>hifive_gpio_routing\<close> the way of a pin to the core, \<open>mpc_laws\<close> the contract of the parser
  combinators, interpreted by \<open>fun_mpc\<close>; \<open>loadable_memory\<close> is what the loader relies on from a memory, interpreted by the concrete memory and, through
  the laws of a memory of bytes (\<open>byte_memory_laws\<close>), by the symbolic one.

  \<^bold>\<open>Properties.\<close> \<^verbatim>\<open>Run_Props\<close>: the invariant of the hart, the soundness of the recorded path condition from
  the initial state of the platform on, the run loop. \<^verbatim>\<open>Exec_Props\<close>: every arithmetic, multiplication,
  division, branch and jump instruction refines the instruction set specification under every
  assignment of the symbolic inputs. \<^verbatim>\<open>Decode_Props\<close>: the decoder is exact and the compressed expansion
  correct. \<^verbatim>\<open>Trap_Props\<close>, \<^verbatim>\<open>Csr_Props\<close>: trap entry, return, delegation, interrupt selection, access rights
  and write masks. \<^verbatim>\<open>Mmu_Props\<close>, \<^verbatim>\<open>Mem_Props\<close>: translation, the round trip of data through the memory, the
  routing of the bus, store-conditional, the sensor's range. \<^verbatim>\<open>Clint_Props\<close>: the timer and its interrupt
  line. \<^verbatim>\<open>Bus_Lock\<close>: exclusion of the bus. \<^verbatim>\<open>Hifive_Props\<close>: interrupts from the pin through the interrupt controller to the hart, the
  real-time timer, CAN frames. \<^verbatim>\<open>Hifive_Run\<close>: the path condition and the answers of the bus on the HiFive platform, for every interleaving of its
  processes. \<^verbatim>\<open>Gpio_Props\<close>: the protocol of the GPIO server and the interrupt a client causes. \<^verbatim>\<open>Serial_Props\<close>: the FIFOs of the UART under all
  interleavings, SLIP framing. \<^verbatim>\<open>Host_Props\<close>: packets and commands of the debugger, the order in which its packets are handled, the loaded image,
  the end of the exploration. \<^verbatim>\<open>Debug_Props\<close>: what a debugger shows of the registers and of the memory is what the guest sees, and its commands run
  the core. \<^verbatim>\<open>Boot_Props\<close>: the main function loads the executable and starts the core on its first instruction. \<^verbatim>\<open>Symbolic_Props\<close>: the
  symbolic input that the guest asks for arrives in its register, and its exit command ends the simulation.

  \<^bold>\<open>Bounds.\<close> \<open>run\<close> takes the number of iterations after which an unfinished loop is reported as \<open>None\<close>;
  a result does not depend on it. \<open>symex_transport\<close> takes the depth of nested bus transactions: a write
  to the control peripheral makes memory symbolic through the bus again. A depth of one serves
  every access to the memory, the CLINT and the sensor, a depth of two a request for symbolic memory;
  \<open>hifive_transport\<close> is bounded in the same way. \<open>explore_paths\<close> takes a bound on the number of executions; any bound above the number
  of open paths gives the same end. The debugger's \<open>fuel\<close> bounds the instructions of one \<open>vCont\<close> command; a longer run is reported as an error.

  \<^bold>\<open>Not modelled.\<close> The accounting of simulated time (quantum keeper, delays) except where a value depends on it, and the SystemC
  scheduler: its waits are operations of the platform, and the order of processes is arbitrary in the step relations. System calls: their results
  are arguments. Libraries whose code is not in the repository (clover, mpc, bencode, boost) are parameters. The decorators under \<^verbatim>\<open>core/rv32/timing\<close>,
  which no program includes and which do not fit the interface of this version, and the code between \<^verbatim>\<open>#if 0\<close> lines.
\<close>

end
